(* ===== verification/Prelude.thy ===== *)
theory Prelude
  imports Complex_Main "HOL-Library.List_Lexorder" "HOL-Library.Char_ord"
    "HOL-Library.Product_Lexorder"
begin

text \<open>
  Shared vocabulary of the development: the outcome of a Python call that may raise
  (\<open>'e + 'a\<close>, \<open>Inl\<close> the exception), its sequencing \<open>bindR\<close>, guarded raises
  \<open>require\<close>, comprehension over a fallible call \<open>mapR\<close>, and the list facts the
  components share.  The collection \<open>result_simps\<close> turns "this monadic program
  returned \<open>x\<close>" into the conjunction of what its steps returned.
\<close>

named_theorems result_simps \<open>inversion of sequenced calls\<close>
named_theorems codec_simps \<open>facts used by the round-trip proofs\<close>

section \<open>Calls that may raise\<close>

definition bindR :: "'e + 'a \<Rightarrow> ('a \<Rightarrow> 'e + 'b) \<Rightarrow> 'e + 'b" where
  "bindR m f = (case m of Inl e \<Rightarrow> Inl e | Inr x \<Rightarrow> f x)"

definition require :: "bool \<Rightarrow> 'e \<Rightarrow> 'e + unit" where
  "require b e = (if b then Inr () else Inl e)"

primrec mapR :: "('a \<Rightarrow> 'e + 'b) \<Rightarrow> 'a list \<Rightarrow> 'e + 'b list" where
  "mapR f [] = Inr []"
| "mapR f (x # xs) = bindR (f x) (\<lambda>y. bindR (mapR f xs) (\<lambda>ys. Inr (y # ys)))"

lemma bindR_Inl [simp]: "bindR (Inl e) f = Inl e"
  by (simp add: bindR_def)

lemma bindR_Inr [simp]: "bindR (Inr x) f = f x"
  by (simp add: bindR_def)

lemma bindR_eq_Inr [result_simps]: "bindR m f = Inr y \<longleftrightarrow> (\<exists>x. m = Inr x \<and> f x = Inr y)"
  by (cases m) auto

lemma bindR_eq_Inl: "bindR m f = Inl e \<longleftrightarrow> m = Inl e \<or> (\<exists>x. m = Inr x \<and> f x = Inl e)"
  by (cases m) auto

lemma bindR_cong [fundef_cong]:
  assumes "m = m'" and "\<And>x. m' = Inr x \<Longrightarrow> f x = g x"
  shows "bindR m f = bindR m' g"
  using assms by (cases m') simp_all

lemma require_True [simp]: "require True e = Inr ()"
  by (simp add: require_def)

lemma require_False [simp]: "require False e = Inl e"
  by (simp add: require_def)

lemma require_eq_Inr [result_simps]: "require b e = Inr u \<longleftrightarrow> b"
  by (simp add: require_def)

lemma require_eq_Inl: "require b e = Inl e' \<longleftrightarrow> \<not> b \<and> e' = e"
  by (auto simp: require_def)

lemma if_Inl_eq_Inr [result_simps]: "(if b then Inl e else m) = Inr y \<longleftrightarrow> \<not> b \<and> m = Inr y"
  by simp

lemma mapR_eq_Inr: "mapR f xs = Inr ys \<longleftrightarrow> list_all2 (\<lambda>x y. f x = Inr y) xs ys"
proof (induction xs arbitrary: ys)
  case Nil
  then show ?case by auto
next
  case (Cons x xs)
  then show ?case
    by (cases ys) (auto simp: bindR_eq_Inr)
qed

lemma mapR_map_Inr: "(\<And>x. x \<in> set xs \<Longrightarrow> f (g x) = Inr (h x)) \<Longrightarrow> mapR f (map g xs) = Inr (map h xs)"
  by (induction xs) auto

lemma mapR_Inr_map: "(\<And>x. x \<in> set xs \<Longrightarrow> f x = Inr (g x)) \<Longrightarrow> mapR f xs = Inr (map g xs)"
  by (induction xs) auto

lemma mapR_length: "mapR f xs = Inr ys \<Longrightarrow> length ys = length xs"
  by (auto simp: mapR_eq_Inr dest: list_all2_lengthD)

lemma mapR_ok:
  fixes f :: "'a \<Rightarrow> 'e + 'b"
  shows "(\<exists>ys. mapR f xs = Inr ys) \<longleftrightarrow> (\<forall>x \<in> set xs. \<exists>y. f x = Inr y)"
  by (induction xs) (auto simp: bindR_eq_Inr)

lemma mapR_units: "mapR f ts = Inr us \<longleftrightarrow> us = map (\<lambda>_. ()) ts \<and> (\<forall>t \<in> set ts. f t = Inr ())"
  by (induction ts arbitrary: us) (auto simp: bindR_eq_Inr)

section \<open>Exceptions\<close>

text \<open>
  An exception is its class and the check that raised it; the rendered text (with the path of
  the offending field) is not modelled.  \<open>MissingField\<close> and \<open>UnsupportedField\<close> carry the field.
\<close>

datatype cause =
    StructureLimit | NotObject | NotArray | ItemLimit | MissingField string
  | UnsupportedField string | EmptyText | TextLimit | ControlText | SecretText
  | AbsolutePathText | TooFewItems | NotUnique | NotBoolean | NotInteger | OutOfRange
  | UnsupportedValue | BadTimestamp | BadDigest | BadCommit | BadPath | NotPortable | NullCommit
  | NonAsciiKey | UnsupportedJsonValue | BadAuthority | BadFreshness | BadContextId | NotAscending
  | NoItems | UnsupportedText | DigestDiffers | IdentityDiffers | BadSpecification | SelfEdge
  | MissingEndpoint | DescendingEnds | NotDisjoint | Prohibited | SensitivityDiffers | BadUnit
  | LineOrder | QueryDiffers | AccountingDiffers | RankDiffers | ClaimUnlinked | NotUntrusted
  | WrongType | WrongVersion | DuplicateSource | SizeLimit | MarkersDiffer | RequiredLost
  | NoSelfProvenance

text \<open>Reasons of the solver contract checks, of the scheduler's and of the context services.\<close>

datatype solver_cause =
    BadIdentifier | BadToken | StepCountInvalid | NotCanonical | IdentityMismatch
  | ArtifactTooLarge | BadSchemaVersion | UnexpectedType | EmptyList | NotSortedUnique
  | BadRegistry | BadAdapter | BadVersionObservation | BadApproval | ProblemInconsistent
  | SearchSpaceExceeded | BadDomain | BadArity | OutOfDomain | UnknownVariable | ZeroCoefficient
  | BadNonOverlap | ContractMismatch | ClaimMismatch | NotExactTolerance | BadAdoption
  | IntervalReversed | BadAccounting | ResultShape nat | NoObjective | BadTermination
  | Rejected nat

datatype scheduler_cause =
    DuplicateTask | SelfReference | UnknownTask | DependencyCycle | PathOverlap
  | BadEpochRoot | ChainBroken | ReceiptRemoved | ReopenedEpoch | BadPhase | BadSource
  | BadReceipts | ChangedReservation | BadConfirmation | BadHeadProjection
  | SequenceGap | ReceiptCollision | BadUtcTimestamp
  | BadSchedulerText | UnsortedItems | BadContextBinding | BadBudget | BadTask | TooManyTargets
  | BadEpochEvent | OverlappingPaths | EpochConflict | AuthorityMismatch | HeadChanged
  | PendingTerminal | EpochMissing | TerminalConflict | RowMismatch | ProjectionMismatch
  | NonAuthoritative | BadSchedulerEnvelope | StaleIdentity | ReceiptUnconfirmed

datatype context_cause =
    GraphNeeded | QueryNeeded | GraphMismatch | CandidateMismatch | MissingNode
  | RequiredUnavailable | ClosureUnavailable | DepthBound | EdgeBound | NodeBound
  | RequiredNodes | RequiredEdges | RequiredBytes | BudgetDrift
  | SnapshotInput | SnapshotIdentity | NoCanonicalSpecification | QueryIdentity | SelectionDiffers
  | MissingContent | OwnerRootNeeded | OwnerRootUnused | RequiredFailed | RequiredClosureFailed
  | EmptyContext | EdgeProvenance | ProhibitedContext | CompareInput
  | ProposalInput | ProposalSnapshot | ProposalDowngrade | ProposalNode | ProposalDigests
  | SourceAuthentication | TextChanged | StaleSource | ExtractBudget
  | QualityInput | QualityIdentity | PublisherUnavailable | StrictInput | SnapshotNeeded
  | ManifestNeeded | DuplicateLocator | RequiredSource | TotalBytes | EmptyGraph
  | RelationshipProvenance | DuplicateEdges | Unobservable string

datatype py_error =
    ContractError cause | ContextContractError cause | SolverContractError solver_cause
  | SolverAdapterError solver_cause | SchedulerContractError scheduler_cause
  | SchedulerAdapterError scheduler_cause | ContextSelectionError context_cause
  | ContextCompactionError context_cause | ContextQualityError context_cause
  | ContextSourceError context_cause | ContextIndexError context_cause | KeyError | ValueError | AssertionError
  | RecursionError

type_synonym 'a result = "py_error + 'a"

section \<open>Lists\<close>

lemma map_of_zip_nth:
  assumes "distinct xs" and "length xs = length ys" and "i < length xs"
  shows "map_of (zip xs ys) (xs ! i) = Some (ys ! i)"
  using assms by (simp add: map_of_zip_nth)

lemma sorted_strict_iff:
  fixes xs :: "'a::linorder list"
  shows "sorted_wrt (<) xs \<longleftrightarrow> sorted xs \<and> distinct xs"
  by (metis strict_sorted_iff)

lemma sort_remdups_fix:
  fixes xs :: "'a::linorder list"
  shows "sort (remdups xs) = xs \<longleftrightarrow> sorted xs \<and> distinct xs"
  by (metis distinct_remdups_id distinct_sort sorted_sort sorted_sort_id distinct_remdups)

lemma sort_key_fix: "sort_key f xs = xs \<longleftrightarrow> sorted (map f xs)"
  by (metis sorted_sort_key sort_key_id_if_sorted)

lemma sort_key_remdups_fix:
  "xs = sort_key f (remdups xs) \<longleftrightarrow> sorted (map f xs) \<and> distinct xs"
proof
  assume eq: "xs = sort_key f (remdups xs)"
  then have "distinct xs" by (metis distinct_remdups distinct_sort)
  moreover have "sorted (map f xs)" by (subst eq) (rule sorted_sort_key)
  ultimately show "sorted (map f xs) \<and> distinct xs" by simp
next
  assume "sorted (map f xs) \<and> distinct xs"
  then show "xs = sort_key f (remdups xs)"
    by (metis distinct_remdups_id sort_key_fix)
qed

lemma list_all2_set1: "list_all2 P xs ys \<Longrightarrow> x \<in> set xs \<Longrightarrow> \<exists>y \<in> set ys. P x y"
  by (metis in_set_conv_nth list_all2_conv_all_nth)

lemma list_all2_set2: "list_all2 P xs ys \<Longrightarrow> y \<in> set ys \<Longrightarrow> \<exists>x \<in> set xs. P x y"
  by (metis in_set_conv_nth list_all2_conv_all_nth)

section \<open>Dictionaries\<close>

text \<open>
  A Python dict that is traversed is an association list in insertion order; assignment keeps the
  place of a key that is there.
\<close>

fun upsert :: "'k \<Rightarrow> 'v \<Rightarrow> ('k \<times> 'v) list \<Rightarrow> ('k \<times> 'v) list" where
  "upsert k v [] = [(k, v)]"
| "upsert k v ((k', v') # xs) = (if k' = k then (k, v) # xs else (k', v') # upsert k v xs)"

lemma map_of_upsert: "map_of (upsert k v xs) = (map_of xs)(k \<mapsto> v)"
  by (induction k v xs rule: upsert.induct) (auto simp: fun_eq_iff)

lemma upsert_keys [simp]: "fst ` set (upsert k v xs) = insert k (fst ` set xs)"
  by (induction k v xs rule: upsert.induct) auto

lemma upsert_distinct: "distinct (map fst xs) \<Longrightarrow> distinct (map fst (upsert k v xs))"
  by (induction k v xs rule: upsert.induct) auto

lemma upsert_same: "map_of xs k = Some v \<Longrightarrow> upsert k v xs = xs"
  by (induction k v xs rule: upsert.induct) (auto split: if_splits)

lemma upsert_members: "distinct (map fst xs) \<Longrightarrow>
    set (upsert k v xs) = insert (k, v) {(k', v') \<in> set xs. k' \<noteq> k}"
  by (induction k v xs rule: upsert.induct) (auto simp: image_iff)

end
