(* ===== verification/Json.thy ===== *)
theory Json
  imports Prelude
begin

text \<open>
  Decoded JSON as the contracts see it: the Python objects \<open>json.loads\<close> produces.  Python
  compares such objects with \<open>==\<close>, which ignores the order of object keys and compares
  \<open>True\<close>, \<open>1\<close> and \<open>1.0\<close> as the same number; \<open>py_eq\<close> is that comparison.
\<close>

section \<open>Values\<close>

text \<open>\<open>json.loads\<close> returns an infinite float for a literal such as \<open>1e999\<close>;
  \<open>Infinite True\<close> is the positive one.  NaN is refused by the loader's hook.\<close>

datatype pyfloat = Finite rat | Infinite bool

datatype json = JNull | JBool bool | JInt int | JFloat pyfloat | JStr string
  | JArr "json list" | JObj "(string \<times> json) list"

fun num_of :: "json \<Rightarrow> pyfloat option" where
  "num_of (JBool b) = Some (Finite (if b then 1 else 0))"
| "num_of (JInt i) = Some (Finite (rat_of_int i))"
| "num_of (JFloat f) = Some f"
| "num_of _ = None"

fun py_eq :: "json \<Rightarrow> json \<Rightarrow> bool"
  and py_eq_list :: "json list \<Rightarrow> json list \<Rightarrow> bool"
  and py_eq_fields :: "(string \<times> json) list \<Rightarrow> (string \<times> json) list \<Rightarrow> bool"
where
  "py_eq JNull j = (j = JNull)"
| "py_eq (JStr s) j = (j = JStr s)"
| "py_eq (JBool b) j = (num_of j = num_of (JBool b))"
| "py_eq (JInt i) j = (num_of j = num_of (JInt i))"
| "py_eq (JFloat f) j = (num_of j = num_of (JFloat f))"
| "py_eq (JArr xs) j = (case j of JArr ys \<Rightarrow> py_eq_list xs ys | _ \<Rightarrow> False)"
| "py_eq (JObj fs) j =
     (case j of JObj gs \<Rightarrow> length fs = length gs \<and> py_eq_fields fs gs | _ \<Rightarrow> False)"
| "py_eq_list [] ys = (ys = [])"
| "py_eq_list (x # xs) ys = (case ys of [] \<Rightarrow> False | y # ys' \<Rightarrow> py_eq x y \<and> py_eq_list xs ys')"
| "py_eq_fields [] gs = True"
| "py_eq_fields ((k, v) # fs) gs =
     ((case map_of gs k of None \<Rightarrow> False | Some w \<Rightarrow> py_eq v w) \<and> py_eq_fields fs gs)"

text \<open>A Python dictionary has each key once; the strict loader refuses duplicates.\<close>

fun wf_json :: "json \<Rightarrow> bool" where
  "wf_json (JArr xs) = list_all wf_json xs"
| "wf_json (JObj fs) = (distinct (map fst fs) \<and> list_all (\<lambda>(k, v). wf_json v) fs)"
| "wf_json _ = True"

lemma py_eq_list_iff: "py_eq_list xs ys \<longleftrightarrow> list_all2 py_eq xs ys"
  by (induction xs arbitrary: ys) (auto split: list.splits)

lemma py_eq_fields_iff:
  "py_eq_fields fs gs \<longleftrightarrow> (\<forall>(k, v) \<in> set fs. \<exists>w. map_of gs k = Some w \<and> py_eq v w)"
  by (induction fs) (auto split: option.splits)

lemma py_eq_refl_fields:
  assumes "distinct (map fst fs)" and "\<And>k v. (k, v) \<in> set fs \<Longrightarrow> py_eq v v"
  shows "py_eq_fields fs fs"
  unfolding py_eq_fields_iff using assms by (auto intro!: exI)

lemma py_eq_refl: "wf_json j \<Longrightarrow> py_eq j j"
proof (induction j)
  case (JArr xs)
  then show ?case by (auto simp: py_eq_list_iff list_all_iff intro!: list.rel_refl_strong)
next
  case (JObj fs)
  have "py_eq_fields fs fs"
  proof (rule py_eq_refl_fields)
    show "distinct (map fst fs)" using JObj.prems by simp
    fix k v assume "(k, v) \<in> set fs"
    then show "py_eq v v"
      using JObj.IH[of "(k, v)" v] JObj.prems by (fastforce simp: list_all_iff)
  qed
  then show ?case by simp
qed simp_all

lemma py_eq_fields_keys:
  assumes eq: "py_eq_fields fs gs" and len: "length fs = length gs"
    and d: "distinct (map fst fs)" "distinct (map fst gs)"
  shows "fst ` set fs = fst ` set gs"
proof -
  have sub: "fst ` set fs \<subseteq> fst ` set gs"
    using eq by (force simp: py_eq_fields_iff dest: map_of_SomeD)
  have card: "card (fst ` set fs) = card (fst ` set gs)"
    using d len by (metis distinct_card length_map set_map)
  show ?thesis
    using sub card by (intro card_subset_eq) auto
qed

lemma py_eq_sym: "wf_json i \<Longrightarrow> wf_json j \<Longrightarrow> py_eq i j \<Longrightarrow> py_eq j i"
proof (induction i arbitrary: j)
  case (JArr xs)
  then obtain ys where j: "j = JArr ys" by (cases j) auto
  have "list_all2 py_eq ys xs"
    using JArr j
    by (auto simp: py_eq_list_iff list_all2_conv_all_nth list_all_length)
  then show ?case using j by (simp add: py_eq_list_iff)
next
  case (JObj fs)
  then obtain gs where j: "j = JObj gs" by (cases j) auto
  have d: "distinct (map fst fs)" "distinct (map fst gs)"
    and len: "length fs = length gs" and eq: "py_eq_fields fs gs"
    using JObj.prems j by simp_all
  have keys: "fst ` set fs = fst ` set gs"
    using py_eq_fields_keys[OF eq len d] .
  have "\<exists>v. map_of fs k = Some v \<and> py_eq w v" if kw: "(k, w) \<in> set gs" for k w
  proof -
    obtain v where kv: "(k, v) \<in> set fs" using kw keys by force
    have w: "map_of gs k = Some w" using kw d by simp
    have "py_eq v w" using eq kv w by (force simp: py_eq_fields_iff)
    moreover have "wf_json v" "wf_json w"
      using JObj.prems kv kw j by (auto simp: list_all_iff)
    ultimately have "py_eq w v" using JObj.IH[of "(k, v)" v] kv by simp
    moreover have "map_of fs k = Some v" using kv d by simp
    ultimately show ?thesis by blast
  qed
  then have "py_eq_fields gs fs" by (auto simp: py_eq_fields_iff)
  then show ?case using j len by simp
next
  case (JBool b) then show ?case by (cases j) auto
next
  case (JInt x) then show ?case by (cases j) auto
next
  case (JFloat x) then show ?case by (cases j) auto
qed simp_all

section \<open>Size and depth\<close>

text \<open>
  The walk of \<open>_validate_json_structure\<close> (and of \<open>_validate_canonical_value\<close>): an explicit
  stack of values with their depth, the children of a container pushed in order, so that the
  last one is taken first.  The number of values taken and their depth are bounded.
\<close>

fun children :: "json \<Rightarrow> json list" where
  "children (JArr xs) = xs"
| "children (JObj fs) = map snd fs"
| "children _ = []"

fun json_nodes :: "json \<Rightarrow> nat" where
  "json_nodes (JArr xs) = Suc (sum_list (map json_nodes xs))"
| "json_nodes (JObj fs) = Suc (sum_list (map (\<lambda>(k, v). json_nodes v) fs))"
| "json_nodes _ = 1"

fun json_depth :: "json \<Rightarrow> nat" where
  "json_depth (JArr xs) = fold max (map (\<lambda>x. Suc (json_depth x)) xs) 0"
| "json_depth (JObj fs) = fold max (map (\<lambda>(k, v). Suc (json_depth v)) fs) 0"
| "json_depth _ = 0"

lemma json_nodes_children: "json_nodes j = Suc (sum_list (map json_nodes (children j)))"
  by (cases j) (auto simp: comp_def case_prod_unfold)

lemma fold_max_le: "fold max xs (a::nat) \<le> n \<longleftrightarrow> a \<le> n \<and> (\<forall>x \<in> set xs. x \<le> n)"
  by (induction xs arbitrary: a) auto

lemma json_depth_children: "d + json_depth j \<le> n \<longleftrightarrow>
    d \<le> n \<and> (\<forall>c \<in> set (children j). Suc d + json_depth c \<le> n)"
proof -
  have "d + fold max xs 0 \<le> n \<longleftrightarrow> d \<le> n \<and> (\<forall>x \<in> set xs. d + x \<le> n)" for xs :: "nat list"
    using fold_max_le[of xs 0 "n - d"] by (cases "d \<le> n") (auto simp: le_diff_conv2 add.commute)
  then show ?thesis
    by (cases j) (auto simp: case_prod_unfold)
qed

lemma json_nodes_pos [simp]: "0 < json_nodes j"
  by (simp add: json_nodes_children)

abbreviation stack_nodes :: "(json \<times> nat) list \<Rightarrow> nat" where
  "stack_nodes stack \<equiv> sum_list (map (\<lambda>(j, d). json_nodes j) stack)"

definition push_children :: "json \<Rightarrow> nat \<Rightarrow> (json \<times> nat) list \<Rightarrow> (json \<times> nat) list" where
  "push_children j d stack = map (\<lambda>c. (c, Suc d)) (rev (children j)) @ stack"

lemma stack_nodes_push:
  "stack_nodes (push_children j d stack) = sum_list (map json_nodes (children j)) + stack_nodes stack"
  by (simp add: push_children_def comp_def rev_map [symmetric])

lemma stack_nodes_push_less:
  "stack_nodes (push_children j d stack) < json_nodes j + stack_nodes stack"
  by (simp add: stack_nodes_push json_nodes_children[of j])

function validate_json_structure :: "nat \<Rightarrow> (json \<times> nat) list \<Rightarrow> nat \<Rightarrow> unit result" where
  "validate_json_structure limit [] nodes = Inr ()"
| "validate_json_structure limit ((current, depth) # stack) nodes =
     (if depth > 64 \<or> nodes + 1 > limit then Inl (ContractError StructureLimit)
      else validate_json_structure limit (push_children current depth stack) (nodes + 1))"
  by pat_completeness auto
termination
  by (relation "measure (\<lambda>(limit, stack, nodes). stack_nodes stack)")
    (auto simp: stack_nodes_push_less)

text \<open>\<open>_validate_json_structure\<close> bounds one decoded document by 10,000 nodes.\<close>

definition validate_document :: "json \<Rightarrow> unit result" where
  "validate_document j = validate_json_structure 10000 [(j, 0)] 0"

lemma validate_json_structure_iff:
  assumes "nodes \<le> limit"
  shows "validate_json_structure limit stack nodes = Inr () \<longleftrightarrow>
    nodes + stack_nodes stack \<le> limit \<and> (\<forall>(j, d) \<in> set stack. d + json_depth j \<le> 64)"
  using assms
proof (induction limit stack nodes rule: validate_json_structure.induct)
  case (1 limit nodes)
  then show ?case by simp
next
  case (2 limit current depth stack nodes)
  let ?push = "push_children current depth stack"
  have depth: "(\<forall>(j, d) \<in> set ((current, depth) # stack). d + json_depth j \<le> 64) \<longleftrightarrow>
      depth \<le> 64 \<and> (\<forall>(j, d) \<in> set ?push. d + json_depth j \<le> 64)"
    by (simp add: push_children_def json_depth_children[of depth current 64] ball_Un)
  have nodes: "nodes + 1 + stack_nodes ?push = nodes + stack_nodes ((current, depth) # stack)"
    by (simp add: stack_nodes_push json_nodes_children[of current])
  show ?case
  proof (cases "depth > 64 \<or> nodes + 1 > limit")
    case True
    then show ?thesis using json_depth_children[of depth current 64]
      by (auto simp: json_nodes_children[of current])
  next
    case False
    then have "validate_json_structure limit ?push (nodes + 1) = Inr () \<longleftrightarrow>
        nodes + 1 + stack_nodes ?push \<le> limit \<and> (\<forall>(j, d) \<in> set ?push. d + json_depth j \<le> 64)"
      using "2.IH" by simp
    then show ?thesis using False depth nodes by (auto simp: not_less)
  qed
qed

section \<open>Canonical bytes\<close>

definition ascii_text :: "string \<Rightarrow> bool" where
  "ascii_text s = list_all (\<lambda>c. (of_char c :: nat) < 128) s"

definition canonical_node :: "json \<Rightarrow> unit result" where
  "canonical_node j = (case j of
     JObj fs \<Rightarrow> require (list_all (\<lambda>(k, v). ascii_text k) fs) (ContextContractError NonAsciiKey)
   | JFloat f \<Rightarrow> Inl (ContextContractError UnsupportedJsonValue)
   | _ \<Rightarrow> Inr ())"

function validate_canonical :: "(json \<times> nat) list \<Rightarrow> nat \<Rightarrow> unit result" where
  "validate_canonical [] nodes = Inr ()"
| "validate_canonical ((current, depth) # stack) nodes =
     (if depth > 64 \<or> nodes + 1 > 250000 then Inl (ContextContractError StructureLimit)
      else bindR (canonical_node current) (\<lambda>_.
           validate_canonical (push_children current depth stack) (nodes + 1)))"
  by pat_completeness auto
termination
  by (relation "measure (\<lambda>(stack, nodes). stack_nodes stack)")
    (auto simp: stack_nodes_push_less)

text \<open>Decimal text of an integer, as \<open>str\<close> and \<open>json.dumps\<close> write it.\<close>

definition digit_char :: "nat \<Rightarrow> char" where
  "digit_char d = char_of (48 + d)"

fun nat_text :: "nat \<Rightarrow> string" where
  "nat_text n = (if n < 10 then [digit_char n] else nat_text (n div 10) @ [digit_char (n mod 10)])"

declare nat_text.simps [simp del]

definition int_text :: "int \<Rightarrow> string" where
  "int_text i = (if i < 0 then ''-'' @ nat_text (nat (- i)) else nat_text (nat i))"

definition hex_lower :: "nat \<Rightarrow> char" where
  "hex_lower d = char_of (if d < 10 then 48 + d else 87 + d)"

text \<open>\<open>ensure_ascii\<close> escapes: quote, backslash, the five short control escapes, and a
  \<open>\\u00xx\<close> escape for every other character outside the printable ASCII range.\<close>

definition escape_char :: "char \<Rightarrow> string" where
  "escape_char c = (let n = (of_char c :: nat) in
     if n = 34 then [char_of (92::nat), c] else if n = 92 then [c, c]
     else if n = 10 then [char_of (92::nat), CHR ''n'']
     else if n = 13 then [char_of (92::nat), CHR ''r'']
     else if n = 9 then [char_of (92::nat), CHR ''t'']
     else if n = 8 then [char_of (92::nat), CHR ''b'']
     else if n = 12 then [char_of (92::nat), CHR ''f'']
     else if 32 \<le> n \<and> n \<le> 126 then [c]
     else char_of (92::nat) # ''u00'' @ [hex_lower (n div 16), hex_lower (n mod 16)])"

definition quote_text :: "string \<Rightarrow> string" where
  "quote_text s = [CHR 0x22] @ concat (map escape_char s) @ [CHR 0x22]"

fun join_text :: "string \<Rightarrow> string list \<Rightarrow> string" where
  "join_text sep [] = []"
| "join_text sep [x] = x"
| "join_text sep (x # y # xs) = x @ sep @ join_text sep (y # xs)"

text \<open>\<open>json.dumps\<close> with sorted keys and the separators \<open>,\<close> and \<open>:\<close>.  Floats do not reach
  it: \<open>validate_canonical\<close> refuses them first.\<close>

fun dumps :: "json \<Rightarrow> string" where
  "dumps JNull = ''null''"
| "dumps (JBool b) = (if b then ''true'' else ''false'')"
| "dumps (JInt i) = int_text i"
| "dumps (JFloat f) = []"
| "dumps (JStr s) = quote_text s"
| "dumps (JArr xs) = ''['' @ join_text '','' (map dumps xs) @ '']''"
| "dumps (JObj fs) =
     ''{'' @ join_text '','' (map (\<lambda>(k, t). quote_text k @ '':'' @ t)
       (sort_key fst (map (\<lambda>(k, v). (k, dumps v)) fs))) @ ''}''"

definition canonical_json_bytes :: "json \<Rightarrow> string result" where
  "canonical_json_bytes j =
     bindR (validate_canonical [(j, 0)] 0) (\<lambda>_. Inr (dumps j))"

end
