(* ===== verification/Sha256.thy ===== *)
theory Sha256
  imports Prelude "HOL-Library.Word"
begin

unbundle bit_operations_syntax

text \<open>
  \<open>hashlib.sha256(...).hexdigest().upper()\<close>, the standard-library digest behind every content
  identity: FIPS 180-4 over the bytes of the text, written as 64 uppercase hexadecimal digits.
  The constants are the standard's, in decimal.
  The identity proofs use only the shape of the digest, never a property of the hash.
\<close>

type_synonym w32 = "32 word"

definition rotr :: "nat \<Rightarrow> w32 \<Rightarrow> w32" where
  "rotr n x = (drop_bit n x) OR (push_bit (32 - n) x)"

definition sha_k :: "w32 list" where
  "sha_k = [
   1116352408, 1899447441, 3049323471, 3921009573, 961987163, 1508970993, 2453635748, 2870763221,
   3624381080, 310598401, 607225278, 1426881987, 1925078388, 2162078206, 2614888103, 3248222580,
   3835390401, 4022224774, 264347078, 604807628, 770255983, 1249150122, 1555081692, 1996064986,
   2554220882, 2821834349, 2952996808, 3210313671, 3336571891, 3584528711, 113926993, 338241895,
   666307205, 773529912, 1294757372, 1396182291, 1695183700, 1986661051, 2177026350, 2456956037,
   2730485921, 2820302411, 3259730800, 3345764771, 3516065817, 3600352804, 4094571909, 275423344,
   430227734, 506948616, 659060556, 883997877, 958139571, 1322822218, 1537002063, 1747873779,
   1955562222, 2024104815, 2227730452, 2361852424, 2428436474, 2756734187, 3204031479, 3329325298]"

definition sha_init :: "w32 list" where
  "sha_init = [1779033703, 3144134277, 1013904242, 2773480762,
               1359893119, 2600822924, 528734635, 1541459225]"

definition be_bytes :: "nat \<Rightarrow> int \<Rightarrow> int list" where
  "be_bytes width n = map (\<lambda>i. n div 256 ^ (width - 1 - i) mod 256) [0..<width]"

definition sha_pad :: "int list \<Rightarrow> int list" where
  "sha_pad bytes = (let n = int (length bytes) in
     bytes @ [128] @ replicate (nat ((119 - n mod 64) mod 64)) 0 @ be_bytes 8 (8 * n))"

fun words_of :: "int list \<Rightarrow> w32 list" where
  "words_of (a # b # c # d # rest) =
     of_int (a * 16777216 + b * 65536 + c * 256 + d) # words_of rest"
| "words_of _ = []"

text \<open>The message schedule, newest word first.\<close>

fun schedule :: "nat \<Rightarrow> w32 list \<Rightarrow> w32 list" where
  "schedule 0 ws = ws"
| "schedule (Suc n) ws =
     (let x = ws ! 14; y = ws ! 1;
          s0 = rotr 7 x XOR rotr 18 x XOR drop_bit 3 x;
          s1 = rotr 17 y XOR rotr 19 y XOR drop_bit 10 y
      in schedule n ((s1 + ws ! 6 + s0 + ws ! 15) # ws))"

fun sha_round :: "w32 list \<Rightarrow> w32 \<times> w32 \<Rightarrow> w32 list" where
  "sha_round [a, b, c, d, e, f, g, h] (k, w) =
     (let t1 = h + (rotr 6 e XOR rotr 11 e XOR rotr 25 e) + ((e AND f) XOR (NOT e AND g)) + k + w;
          t2 = (rotr 2 a XOR rotr 13 a XOR rotr 22 a) + ((a AND b) XOR (a AND c) XOR (b AND c))
      in [t1 + t2, a, b, c, d + t1, e, f, g])"
| "sha_round s _ = s"

definition sha_block :: "w32 list \<Rightarrow> w32 list \<Rightarrow> w32 list" where
  "sha_block state block =
     map2 (+) state (foldl sha_round state (zip sha_k (rev (schedule 48 (rev block)))))"

fun sha_blocks :: "nat \<Rightarrow> w32 list \<Rightarrow> w32 list \<Rightarrow> w32 list" where
  "sha_blocks 0 state ws = state"
| "sha_blocks (Suc n) state ws = sha_blocks n (sha_block state (take 16 ws)) (drop 16 ws)"

definition hex_upper :: "int \<Rightarrow> char" where
  "hex_upper d = char_of (nat (if d < 10 then 48 + d else 55 + d))"

definition word_hex :: "w32 \<Rightarrow> string" where
  "word_hex w = map (\<lambda>i. hex_upper (uint w div 16 ^ (7 - i) mod 16)) [0..<8]"

definition sha256_hex :: "string \<Rightarrow> string" where
  "sha256_hex text = (let ws = words_of (sha_pad (map of_char text))
     in concat (map word_hex (take 8 (sha_blocks (length ws div 16) sha_init ws))))"

section \<open>Shape of a digest\<close>

definition hex_digit :: "char \<Rightarrow> bool" where
  "hex_digit c = (let n = (of_char c :: nat) in (48 \<le> n \<and> n \<le> 57) \<or> (65 \<le> n \<and> n \<le> 70))"

lemma hex_upper_digit:
  assumes "0 \<le> d" "d < 16"
  shows "hex_digit (hex_upper d)"
proof -
  obtain n where n: "d = int n" "n < 16" using assms by (cases d) auto
  then have "nat (48 + d) = 48 + n" "nat (55 + d) = 55 + n" by simp_all
  with n show ?thesis by (auto simp: hex_digit_def hex_upper_def of_char_of Let_def)
qed

lemma word_hex_digits: "length (word_hex w) = 8" "c \<in> set (word_hex w) \<Longrightarrow> hex_digit c"
  by (auto simp: word_hex_def intro!: hex_upper_digit)

lemma sha_round_length: "length s = 8 \<Longrightarrow> length (sha_round s kw) = 8"
  by (cases "(s, kw)" rule: sha_round.cases) (auto simp: Let_def)

lemma sha_rounds_length: "length s = 8 \<Longrightarrow> length (foldl sha_round s kws) = 8"
  by (induction kws arbitrary: s) (auto simp: sha_round_length)

lemma sha_blocks_length: "length s = 8 \<Longrightarrow> length (sha_blocks n s ws) = 8"
  by (induction n s ws rule: sha_blocks.induct) (auto simp: sha_block_def sha_rounds_length)

lemma sha256_hex_shape:
  "length (sha256_hex t) = 64" "c \<in> set (sha256_hex t) \<Longrightarrow> hex_digit c"
proof -
  have eight: "length ws = 8 \<Longrightarrow> length (concat (map word_hex ws)) = 64" for ws
    by (simp add: length_concat comp_def word_hex_digits sum_list_triv)
  have "length (sha_blocks n sha_init ws) = 8" for n ws
    by (rule sha_blocks_length) (simp add: sha_init_def)
  then show "length (sha256_hex t) = 64"
    by (simp add: sha256_hex_def Let_def eight)
  show "c \<in> set (sha256_hex t) \<Longrightarrow> hex_digit c"
    by (auto simp: sha256_hex_def Let_def dest: word_hex_digits(2))
qed

end
