(* ===== verification/Contracts.thy ===== *)
theory Contracts
  imports Json Sha256
begin

text \<open>
  The shared strict helpers of \<open>application/contracts.py\<close>: typed access to decoded JSON, bounded
  text, identifiers, digests, repository paths and timestamps, with the exception each raises.
  The locale \<open>codec\<close> is the contract a parser and its \<open>to_dict\<close> owe each other; it is
  interpreted for every parser of the model.
\<close>

section \<open>Objects and arrays\<close>

definition object_value :: "json \<Rightarrow> (string \<times> json) list result" where
  "object_value j = (case j of JObj fs \<Rightarrow> Inr fs | _ \<Rightarrow> Inl (ContractError NotObject))"

text \<open>\<open>dict.get\<close>: a missing key reads as \<open>None\<close>, as a JSON null does.\<close>

definition get :: "(string \<times> json) list \<Rightarrow> string \<Rightarrow> json" where
  "get fs k = (case map_of fs k of None \<Rightarrow> JNull | Some v \<Rightarrow> v)"

definition array_value :: "nat \<Rightarrow> json \<Rightarrow> json list result" where
  "array_value maximum j = (case j of
     JArr xs \<Rightarrow> if length xs > maximum then Inl (ContractError ItemLimit) else Inr xs
   | _ \<Rightarrow> Inl (ContractError NotArray))"

definition only_keys :: "(string \<times> json) list \<Rightarrow> string list \<Rightarrow> unit result" where
  "only_keys fs expected =
     (case filter (\<lambda>k. k \<notin> set (map fst fs)) (sort expected) of
        k # _ \<Rightarrow> Inl (ContractError (MissingField k))
      | [] \<Rightarrow> (case sort (filter (\<lambda>k. k \<notin> set expected) (map fst fs)) of
          k # _ \<Rightarrow> Inl (ContractError (UnsupportedField k))
        | [] \<Rightarrow> Inr ()))"

lemma object_value_iff [result_simps]: "object_value j = Inr fs \<longleftrightarrow> j = JObj fs"
  by (cases j) (auto simp: object_value_def)

lemma object_value_JObj [simp]: "object_value (JObj fs) = Inr fs"
  by (simp add: object_value_def)

lemma array_value_iff [result_simps]:
  "array_value n j = Inr xs \<longleftrightarrow> j = JArr xs \<and> length xs \<le> n"
  by (cases j) (auto simp: array_value_def)

lemma array_value_JArr [simp]: "length xs \<le> n \<Longrightarrow> array_value n (JArr xs) = Inr xs"
  by (simp add: array_value_def)

lemma sort_eq_Nil: "sort xs = [] \<longleftrightarrow> xs = []"
  by (metis set_empty set_sort)

definition has_keys :: "(string \<times> json) list \<Rightarrow> string list \<Rightarrow> bool" where
  "has_keys fs ks = (set (map fst fs) = set ks)"

lemma only_keys_iff [result_simps]: "only_keys fs ks = Inr u \<longleftrightarrow> has_keys fs ks"
proof -
  have "filter (\<lambda>k. k \<notin> set (map fst fs)) (sort ks) = [] \<longleftrightarrow> set ks \<subseteq> set (map fst fs)"
    by (auto simp: filter_empty_conv)
  moreover have "sort (filter (\<lambda>k. k \<notin> set ks) (map fst fs)) = [] \<longleftrightarrow> set (map fst fs) \<subseteq> set ks"
    by (auto simp: sort_eq_Nil filter_empty_conv)
  ultimately show ?thesis
    by (auto simp: only_keys_def has_keys_def split: list.splits)
qed

lemma has_keys_same: "map fst fs = ks \<Longrightarrow> has_keys fs ks"
  by (simp add: has_keys_def)

lemma only_keys_same: "map fst fs = ks \<Longrightarrow> only_keys fs ks = Inr ()"
  by (simp add: only_keys_iff has_keys_same)

lemma get_Cons: "get ((k, v) # fs) k' = (if k' = k then v else get fs k')"
  by (simp add: get_def)

lemma wf_get [intro, simp]: "wf_json (JObj fs) \<Longrightarrow> wf_json (get fs k)"
  by (auto simp: get_def list_all_iff split: option.splits dest!: map_of_SomeD)

lemma wf_get_JArr: "wf_json (JObj fs) \<Longrightarrow> get fs k = JArr xs \<Longrightarrow> list_all wf_json xs"
  by (metis wf_get wf_json.simps(1))

lemma wf_elem: "wf_json (JArr xs) \<Longrightarrow> x \<in> set xs \<Longrightarrow> wf_json x"
  by (simp add: list_all_iff)

text \<open>An object equals a record's encoding when it has its keys and field-wise equal values.\<close>

lemma py_eq_objI:
  assumes wf: "wf_json (JObj gs)" and has: "has_keys gs (map fst fs)"
    and d: "distinct (map fst fs)" and fields: "list_all (\<lambda>(k, v). py_eq v (get gs k)) fs"
  shows "py_eq (JObj fs) (JObj gs)"
proof -
  have keys: "set (map fst gs) = set (map fst fs)" using has by (simp add: has_keys_def)
  have dg: "distinct (map fst gs)" using wf by simp
  have len: "length fs = length gs"
    using d dg keys by (metis distinct_card length_map)
  have "\<exists>w. map_of gs k = Some w \<and> py_eq v w" if kv: "(k, v) \<in> set fs" for k v
  proof -
    have "k \<in> set (map fst gs)" using kv keys by force
    then obtain w where "map_of gs k = Some w" by (metis map_of_eq_None_iff not_None_eq set_map)
    then show ?thesis using fields kv by (force simp: list_all_iff get_def)
  qed
  then show ?thesis using len by (auto simp: py_eq_fields_iff)
qed

declare py_eq.simps(6,7) [simp del] wf_json.simps(2) [simp del]

lemma py_eq_JArr [simp]: "py_eq (JArr xs) (JArr ys) = py_eq_list xs ys"
  by (simp add: py_eq.simps(6))

section \<open>Scalars\<close>

definition boolean_value :: "json \<Rightarrow> bool result" where
  "boolean_value j = (case j of JBool b \<Rightarrow> Inr b | _ \<Rightarrow> Inl (ContractError NotBoolean))"

text \<open>A JSON boolean is a Python \<open>int\<close> too; \<open>integer_value\<close> refuses it first.\<close>

definition integer_value :: "int \<Rightarrow> int \<Rightarrow> json \<Rightarrow> int result" where
  "integer_value minimum maximum j = (case j of
     JInt i \<Rightarrow> if i < minimum \<or> i > maximum then Inl (ContractError OutOfRange) else Inr i
   | _ \<Rightarrow> Inl (ContractError NotInteger))"

lemma boolean_value_iff [result_simps]: "boolean_value j = Inr b \<longleftrightarrow> j = JBool b"
  by (cases j) (auto simp: boolean_value_def)

lemma boolean_value_JBool [simp]: "boolean_value (JBool b) = Inr b"
  by (simp add: boolean_value_def)

lemma integer_value_iff [result_simps]:
  "integer_value lo hi j = Inr i \<longleftrightarrow> j = JInt i \<and> lo \<le> i \<and> i \<le> hi"
  by (cases j) (auto simp: integer_value_def)

lemma integer_value_JInt [simp]: "lo \<le> i \<Longrightarrow> i \<le> hi \<Longrightarrow> integer_value lo hi (JInt i) = Inr i"
  by (simp add: integer_value_def)

definition optional_value :: "(json \<Rightarrow> 'a result) \<Rightarrow> json \<Rightarrow> 'a option result" where
  "optional_value p j = (if j = JNull then Inr None else bindR (p j) (\<lambda>x. Inr (Some x)))"

definition enc_option :: "('a \<Rightarrow> json) \<Rightarrow> 'a option \<Rightarrow> json" where
  "enc_option enc x = (case x of None \<Rightarrow> JNull | Some y \<Rightarrow> enc y)"

section \<open>Text\<close>

definition code :: "char \<Rightarrow> nat" where
  "code c = of_char c"

definition between :: "nat \<Rightarrow> nat \<Rightarrow> char \<Rightarrow> bool" where
  "between lo hi c = (lo \<le> code c \<and> code c \<le> hi)"

definition is_digit :: "char \<Rightarrow> bool" where "is_digit = between 48 57"
definition is_upper :: "char \<Rightarrow> bool" where "is_upper = between 65 90"
definition is_lower :: "char \<Rightarrow> bool" where "is_lower = between 97 122"

definition is_alnum :: "char \<Rightarrow> bool" where
  "is_alnum c = (is_digit c \<or> is_upper c \<or> is_lower c)"

text \<open>\<open>str.strip\<close> removes the white space of code points below 256.\<close>

definition py_space :: "char \<Rightarrow> bool" where
  "py_space c = (between 9 13 c \<or> between 28 32 c \<or> code c = 133 \<or> code c = 160)"

definition starts :: "string \<Rightarrow> string \<Rightarrow> bool" where
  "starts p s = (take (length p) s = p)"

text \<open>\<open>re.search\<close>: the pattern matches at some position.\<close>

fun search :: "(string \<Rightarrow> bool) \<Rightarrow> string \<Rightarrow> bool" where
  "search p [] = p []"
| "search p (c # cs) = (p (c # cs) \<or> search p cs)"

definition prefix_class :: "nat \<Rightarrow> (char \<Rightarrow> bool) \<Rightarrow> string \<Rightarrow> bool" where
  "prefix_class n p s = (n \<le> length s \<and> list_all p (take n s))"

text \<open>The three secret shapes: an access key, a host token and a private-key header.\<close>

definition access_key_at :: "string \<Rightarrow> bool" where
  "access_key_at s = (starts ''AKIA'' s \<and>
     prefix_class 16 (\<lambda>c. is_digit c \<or> is_upper c) (drop 4 s))"

definition host_token_at :: "string \<Rightarrow> bool" where
  "host_token_at s = (starts ''gh'' s \<and> list_ex (\<lambda>c. starts [c, CHR ''_''] (drop 2 s)) ''pousr'' \<and>
     prefix_class 20 is_alnum (drop 4 s))"

definition private_key_at :: "string \<Rightarrow> bool" where
  "private_key_at s = list_ex (\<lambda>kind. starts (''-----BEGIN '' @ kind @ ''PRIVATE KEY-----'') s)
     [[], ''RSA '', ''EC '', ''OPENSSH '']"

definition secret_text :: "string \<Rightarrow> bool" where
  "secret_text s = (search access_key_at s \<or> search host_token_at s \<or> search private_key_at s)"

definition string_value :: "nat \<Rightarrow> bool \<Rightarrow> json \<Rightarrow> string result" where
  "string_value maximum multiline j = (case j of
     JStr s \<Rightarrow>
       if list_all py_space s then Inl (ContractError EmptyText)
       else if length s > maximum then Inl (ContractError TextLimit)
       else if list_ex (\<lambda>c. code c = 0 \<or> code c = 13 \<or> (\<not> multiline \<and> code c = 10)) s
         then Inl (ContractError ControlText)
       else if secret_text s then Inl (ContractError SecretText)
       else Inr s
   | _ \<Rightarrow> Inl (ContractError EmptyText))"

text \<open>The texts a single-line \<open>string_value\<close> with this bound lets through.\<close>

definition plain_text :: "nat \<Rightarrow> string \<Rightarrow> bool" where
  "plain_text maximum s = (\<not> list_all py_space s \<and> length s \<le> maximum \<and>
     list_all (\<lambda>c. code c \<notin> {0, 10, 13}) s \<and> \<not> secret_text s)"

abbreviation line_value :: "nat \<Rightarrow> json \<Rightarrow> string result" where
  "line_value maximum \<equiv> string_value maximum False"

lemma line_value_iff [result_simps]:
  "line_value n j = Inr s \<longleftrightarrow> j = JStr s \<and> plain_text n s"
  by (cases j) (auto simp: string_value_def plain_text_def list_ex_iff list_all_iff)

lemma line_value_JStr [simp]: "plain_text n s \<Longrightarrow> line_value n (JStr s) = Inr s"
  by (simp add: line_value_iff)

abbreviation optional_string :: "nat \<Rightarrow> json \<Rightarrow> string option result" where
  "optional_string n \<equiv> optional_value (line_value n)"

text \<open>A text that must also match a pattern: slugs, symbols, digests, identifiers.\<close>

definition matched_text :: "nat \<Rightarrow> (string \<Rightarrow> bool) \<Rightarrow> py_error \<Rightarrow> json \<Rightarrow> string result" where
  "matched_text n p e j = bindR (line_value n j) (\<lambda>s. bindR (require (p s) e) (\<lambda>_. Inr s))"

lemma matched_text_iff [result_simps]:
  "matched_text n p e j = Inr s \<longleftrightarrow> j = JStr s \<and> plain_text n s \<and> p s"
  by (auto simp: matched_text_def result_simps)

section \<open>The parser contract\<close>

locale codec =
  fixes parse :: "json \<Rightarrow> 'a result" and enc :: "'a \<Rightarrow> json" and wf :: "'a \<Rightarrow> bool"
  assumes parse_enc: "wf x \<Longrightarrow> parse (enc x) = Inr x"
    and parse_wf: "parse j = Inr x \<Longrightarrow> wf x"
    and parse_canonical: "parse j = Inr x \<Longrightarrow> wf_json j \<Longrightarrow> py_eq (enc x) j"
    and enc_wf_json: "wf_json (enc x)"
begin

lemma reparse: "parse j = Inr x \<Longrightarrow> parse (enc x) = Inr x"
  by (simp add: parse_enc parse_wf)

lemma accepted_iff: "wf x \<longleftrightarrow> (\<exists>j. parse j = Inr x)"
  using parse_enc parse_wf by blast

lemma enc_injective: "wf x \<Longrightarrow> wf y \<Longrightarrow> enc x = enc y \<Longrightarrow> x = y"
  by (metis parse_enc sum.inject(2))

lemma mapR_enc: "list_all wf xs \<Longrightarrow> mapR parse (map enc xs) = Inr xs"
  by (induction xs) (auto simp: parse_enc)

lemma mapR_wf: "mapR parse js = Inr xs \<Longrightarrow> list_all wf xs"
  by (induction js arbitrary: xs) (auto simp: bindR_eq_Inr parse_wf)

lemma mapR_canonical:
  "mapR parse js = Inr xs \<Longrightarrow> list_all wf_json js \<Longrightarrow> py_eq_list (map enc xs) js"
  by (induction js arbitrary: xs) (auto simp: bindR_eq_Inr parse_canonical)

lemma wf_json_map: "wf_json (JArr (map enc xs))"
  by (simp add: list_all_iff enc_wf_json)

lemma option_enc: "pred_option wf x \<Longrightarrow> (\<And>y. enc y \<noteq> JNull) \<Longrightarrow>
    optional_value parse (enc_option enc x) = Inr x"
  by (cases x) (auto simp: optional_value_def enc_option_def parse_enc)

lemma option_wf: "optional_value parse j = Inr x \<Longrightarrow> pred_option wf x"
  by (auto simp: optional_value_def bindR_eq_Inr parse_wf split: if_splits)

lemma option_canonical:
  "optional_value parse j = Inr x \<Longrightarrow> wf_json j \<Longrightarrow> py_eq (enc_option enc x) j"
  by (auto simp: optional_value_def enc_option_def bindR_eq_Inr parse_canonical split: if_splits)

lemma option_wf_json: "wf_json (enc_option enc x)"
  by (cases x) (simp_all add: enc_option_def enc_wf_json)

end

text \<open>What remains of the contract for a parser that normalises: an accepted document need not be the
  encoding of its value.\<close>

locale normal_form =
  fixes parse :: "json \<Rightarrow> 'a result" and enc :: "'a \<Rightarrow> json" and wf :: "'a \<Rightarrow> bool"
  assumes parse_form: "wf x \<Longrightarrow> parse (enc x) = Inr x"
    and parsed_form: "parse j = Inr x \<Longrightarrow> wf x"
    and form_json: "wf_json (enc x)"
begin

lemma parsed_iff: "wf x \<longleftrightarrow> (\<exists>j. parse j = Inr x)"
  using parse_form parsed_form by blast

lemma fixed_point: "parse j = Inr x \<Longrightarrow> parse (enc x) = Inr x"
  by (simp add: parse_form parsed_form)

lemma form_inject: "wf x \<Longrightarrow> wf y \<Longrightarrow> enc x = enc y \<Longrightarrow> x = y"
  by (metis parse_form sum.inject(2))

end

sublocale codec \<subseteq> normal_form parse enc wf
  by unfold_locales (simp_all add: parse_enc parse_wf enc_wf_json)

text \<open>Leaf codecs.\<close>

lemma codec_integer: "codec (integer_value lo hi) JInt (\<lambda>i. lo \<le> i \<and> i \<le> hi)"
  by unfold_locales (auto simp: integer_value_iff)

lemma codec_boolean: "codec boolean_value JBool (\<lambda>_. True)"
  by unfold_locales (auto simp: boolean_value_iff)

lemma codec_line: "codec (line_value n) JStr (plain_text n)"
  by unfold_locales (auto simp: line_value_iff)

lemma codec_matched: "codec (matched_text n p e) JStr (\<lambda>s. plain_text n s \<and> p s)"
  by unfold_locales (auto simp: matched_text_iff)

interpretation int_codec: codec "integer_value lo hi" JInt "\<lambda>i. lo \<le> i \<and> i \<le> hi" for lo hi
  by (rule codec_integer)

interpretation bool_codec: codec boolean_value JBool "\<lambda>_. True"
  by (rule codec_boolean)

interpretation line_codec: codec "line_value n" JStr "plain_text n" for n
  by (rule codec_line)

interpretation text_codec: codec "matched_text n p e" JStr "\<lambda>s. plain_text n s \<and> p s" for n p e
  by (rule codec_matched)

section \<open>Enumerations\<close>

text \<open>
  \<open>enum_value\<close> reads a bounded text and looks up the member with that value.  A \<open>StrEnum\<close> is
  given by the list of its members and their values.
\<close>

definition enum_value :: "('e \<Rightarrow> string) \<Rightarrow> 'e list \<Rightarrow> json \<Rightarrow> 'e result" where
  "enum_value val members j = bindR (line_value 100 j) (\<lambda>text.
     (case find (\<lambda>e. val e = text) members of
        None \<Rightarrow> Inl (ContractError UnsupportedValue) | Some e \<Rightarrow> Inr e))"

locale str_enum =
  fixes val :: "'e \<Rightarrow> string" and members :: "'e list"
  assumes all_members: "e \<in> set members"
    and distinct_vals: "distinct (map val members)"
    and plain_vals: "list_all (\<lambda>e. plain_text 100 (val e)) members"
begin

lemma val_inject: "val e = val f \<Longrightarrow> e = f"
  using distinct_vals all_members by (metis distinct_map inj_onD)

lemma val_text: "plain_text 100 (val e)"
  using plain_vals all_members by (simp add: list_all_iff)

lemma find_val: "find (\<lambda>f. val f = val e) members = Some e"
proof -
  have "find (\<lambda>f. val f = val e) ms = (if e \<in> set ms then Some e else None)" for ms
    by (induction ms) (auto dest: val_inject)
  then show ?thesis by (simp add: all_members)
qed

lemma enum_value_val: "enum_value val members (JStr (val e)) = Inr e"
  by (simp add: enum_value_def val_text find_val)

lemma enum_value_iff: "enum_value val members j = Inr e \<longleftrightarrow> j = JStr (val e)"
proof
  assume "enum_value val members j = Inr e"
  then obtain s where j: "j = JStr s" and f: "find (\<lambda>f. val f = s) members = Some e"
    by (auto simp: enum_value_def bindR_eq_Inr line_value_iff split: option.splits)
  from f have "val e = s" by (auto simp: find_Some_iff)
  then show "j = JStr (val e)" using j by simp
next
  assume "j = JStr (val e)"
  then show "enum_value val members j = Inr e" by (simp add: enum_value_val)
qed

end

sublocale str_enum \<subseteq> codec "enum_value val members" "\<lambda>e. JStr (val e)" "\<lambda>_. True"
  by unfold_locales (auto simp: enum_value_iff)

end
