(* ===== verification/References.thy ===== *)
theory References
  imports Contracts
begin

text \<open>
  Repository-bound references of \<open>application/contracts.py\<close> and \<open>domain/quality.py\<close>: digests,
  commits, portable relative paths, candidate identities and artifact references, and the UTC
  timestamps of \<open>application/scheduler_contracts.py\<close>.
\<close>

section \<open>Digests and commits\<close>

definition is_hex_upper :: "char \<Rightarrow> bool" where
  "is_hex_upper c = (is_digit c \<or> between 65 70 c)"

definition is_hex_lower :: "char \<Rightarrow> bool" where
  "is_hex_lower c = (is_digit c \<or> between 97 102 c)"

definition hex64 :: "string \<Rightarrow> bool" where
  "hex64 s = (length s = 64 \<and> list_all is_hex_upper s)"

definition sha256_value :: "json \<Rightarrow> string result" where
  "sha256_value = matched_text 64 hex64 (ContractError BadDigest)"

definition hex40 :: "string \<Rightarrow> bool" where
  "hex40 s = (length s = 40 \<and> list_all is_hex_lower s)"

definition commit_value :: "json \<Rightarrow> string option result" where
  "commit_value = optional_value (matched_text 40 hex40 (ContractError BadCommit))"

section \<open>Portable relative paths\<close>

fun split_on :: "char \<Rightarrow> string \<Rightarrow> string list" where
  "split_on sep [] = [[]]"
| "split_on sep (c # cs) =
     (if c = sep then [] # split_on sep cs
      else (case split_on sep cs of [] \<Rightarrow> [[c]] | w # ws \<Rightarrow> (c # w) # ws))"

definition upper_char :: "char \<Rightarrow> char" where
  "upper_char c = (if is_lower c then char_of (code c - 32) else c)"

text \<open>\<open>PurePosixPath(text).parts\<close> of a relative path: empty and \<open>.\<close> components vanish.\<close>

definition posix_parts :: "string \<Rightarrow> string list" where
  "posix_parts s = filter (\<lambda>w. w \<noteq> [] \<and> w \<noteq> ''.'') (split_on (CHR ''/'') s)"

definition as_posix :: "string \<Rightarrow> string" where
  "as_posix s = (if posix_parts s = [] then ''.'' else join_text ''/'' (posix_parts s))"

definition reserved_windows_names :: "string list" where
  "reserved_windows_names = [''AUX'', ''CLOCK$'', ''CON'', ''NUL'', ''PRN''] @
     map (\<lambda>n. ''COM'' @ nat_text n) [1..<10] @ map (\<lambda>n. ''LPT'' @ nat_text n) [1..<10]"

definition absolute_at_start :: "string \<Rightarrow> bool" where
  "absolute_at_start s = (starts ''/'' s \<or>
     (case s of c # d # e # _ \<Rightarrow> (is_upper c \<or> is_lower c) \<and> d = CHR '':'' \<and>
        (e = char_of (92::nat) \<or> e = CHR ''/'') | _ \<Rightarrow> False))"

definition safe_path_char :: "char \<Rightarrow> bool" where
  "safe_path_char c = (is_alnum c \<or> c \<in> {CHR ''.'', CHR ''_'', CHR ''/'', CHR ''-''})"

definition control_char :: "char \<Rightarrow> bool" where
  "control_char c = (code c < 32 \<or> code c = 127)"

definition relative_posix :: "string \<Rightarrow> bool" where
  "relative_posix s = (\<not> (char_of (92::nat) \<in> set s \<or> absolute_at_start s \<or>
     \<not> (s \<noteq> [] \<and> list_all safe_path_char s) \<or> list_ex control_char s))"

definition normalized_path :: "string \<Rightarrow> bool" where
  "normalized_path s = (\<not> (s = ''.'' \<or> s = ''..'' \<or>
      list_ex (\<lambda>w. w = [] \<or> w = ''.'' \<or> w = ''..'') (posix_parts s)) \<and> as_posix s = s)"

definition portable_part :: "string \<Rightarrow> bool" where
  "portable_part w = (let folded = hd (split_on (CHR ''.'') (map upper_char w)) in
     \<not> (starts ''~'' w \<or> last w = CHR ''.'' \<or> last w = CHR '' '' \<or> CHR '':'' \<in> set w \<or>
        folded \<in> set reserved_windows_names))"

definition safe_relative_path :: "json \<Rightarrow> string result" where
  "safe_relative_path j = bindR (line_value 240 j) (\<lambda>text.
     bindR (require (relative_posix text) (ContractError BadPath)) (\<lambda>_.
     bindR (require (normalized_path text) (ContractError BadPath)) (\<lambda>_.
     bindR (require (list_all portable_part (posix_parts text)) (ContractError NotPortable)) (\<lambda>_.
     Inr text))))"

definition safe_path :: "string \<Rightarrow> bool" where
  "safe_path s = (plain_text 240 s \<and> relative_posix s \<and> normalized_path s \<and>
     list_all portable_part (posix_parts s))"

lemma safe_relative_path_iff [result_simps]:
  "safe_relative_path j = Inr s \<longleftrightarrow> j = JStr s \<and> safe_path s"
  by (auto simp: safe_relative_path_def safe_path_def result_simps)

interpretation path_codec: codec safe_relative_path JStr safe_path
  by unfold_locales (auto simp: safe_relative_path_iff)

section \<open>Candidates and references\<close>

record candidate_identity =
  source_spec_sha256 :: string
  git_head :: string
  repository_digest :: string

record artifact_reference =
  ref_path :: string
  ref_sha256 :: string

definition candidate_to_dict :: "candidate_identity \<Rightarrow> json" where
  "candidate_to_dict c = JObj [
     (''source_spec_sha256'', JStr (source_spec_sha256 c)),
     (''git_head'', JStr (git_head c)),
     (''repository_digest'', JStr (repository_digest c))]"

definition reference_to_dict :: "artifact_reference \<Rightarrow> json" where
  "reference_to_dict r = JObj [(''path'', JStr (ref_path r)), (''sha256'', JStr (ref_sha256 r))]"

definition parse_candidate_identity :: "json \<Rightarrow> candidate_identity result" where
  "parse_candidate_identity j = bindR (object_value j) (\<lambda>item.
     bindR (only_keys item [''source_spec_sha256'', ''git_head'', ''repository_digest'']) (\<lambda>_.
     bindR (commit_value (get item ''git_head'')) (\<lambda>parsed_commit.
     (case parsed_commit of
        None \<Rightarrow> Inl (ContractError NullCommit)
      | Some head \<Rightarrow>
          bindR (sha256_value (get item ''source_spec_sha256'')) (\<lambda>source.
          bindR (sha256_value (get item ''repository_digest'')) (\<lambda>digest.
          Inr \<lparr>source_spec_sha256 = source, git_head = head, repository_digest = digest\<rparr>))))))"

definition parse_artifact_reference :: "json \<Rightarrow> artifact_reference result" where
  "parse_artifact_reference j = bindR (object_value j) (\<lambda>item.
     bindR (only_keys item [''path'', ''sha256'']) (\<lambda>_.
     bindR (safe_relative_path (get item ''path'')) (\<lambda>path.
     bindR (sha256_value (get item ''sha256'')) (\<lambda>digest.
     Inr \<lparr>ref_path = path, ref_sha256 = digest\<rparr>))))"

definition wf_digest :: "string \<Rightarrow> bool" where
  "wf_digest s = (plain_text 64 s \<and> hex64 s)"

definition wf_candidate :: "candidate_identity \<Rightarrow> bool" where
  "wf_candidate c = (wf_digest (source_spec_sha256 c) \<and> wf_digest (repository_digest c) \<and>
     plain_text 40 (git_head c) \<and> hex40 (git_head c))"

definition wf_reference :: "artifact_reference \<Rightarrow> bool" where
  "wf_reference r = (safe_path (ref_path r) \<and> wf_digest (ref_sha256 r))"

lemma sha256_value_iff [result_simps]: "sha256_value j = Inr s \<longleftrightarrow> j = JStr s \<and> wf_digest s"
  by (auto simp: sha256_value_def matched_text_iff wf_digest_def)

lemma commit_value_iff [result_simps]:
  "commit_value j = Inr (Some s) \<longleftrightarrow> j = JStr s \<and> plain_text 40 s \<and> hex40 s"
  by (auto simp: commit_value_def optional_value_def matched_text_iff bindR_eq_Inr)

lemma commit_value_JStr: "plain_text 40 s \<Longrightarrow> hex40 s \<Longrightarrow> commit_value (JStr s) = Inr (Some s)"
  by (simp add: commit_value_iff)

interpretation candidate_codec: codec parse_candidate_identity candidate_to_dict wf_candidate
proof (unfold_locales, goal_cases)
  case (1 c)
  then show ?case
    by (simp add: parse_candidate_identity_def candidate_to_dict_def wf_candidate_def bindR_eq_Inr
        only_keys_iff has_keys_same get_Cons commit_value_JStr sha256_value_iff)
next
  case (2 j c)
  then show ?case
    by (clarsimp simp: parse_candidate_identity_def wf_candidate_def result_simps
        split: option.splits)
next
  case (3 j c)
  then show ?case
    by (clarsimp simp: parse_candidate_identity_def candidate_to_dict_def result_simps
        split: option.splits) (rule py_eq_objI; simp)
qed (simp add: candidate_to_dict_def wf_json.simps)

interpretation reference_codec: codec parse_artifact_reference reference_to_dict wf_reference
proof (unfold_locales, goal_cases)
  case (1 r)
  then show ?case
    by (simp add: parse_artifact_reference_def reference_to_dict_def wf_reference_def bindR_eq_Inr
        only_keys_iff has_keys_same get_Cons safe_relative_path_iff sha256_value_iff)
next
  case (2 j r)
  then show ?case
    by (clarsimp simp: parse_artifact_reference_def wf_reference_def result_simps)
next
  case (3 j r)
  then show ?case
    by (clarsimp simp: parse_artifact_reference_def reference_to_dict_def result_simps)
      (rule py_eq_objI; simp)
qed (simp add: reference_to_dict_def wf_json.simps)

section \<open>UTC timestamps\<close>

text \<open>
  A timezone-aware UTC \<open>datetime\<close> is its seven fields, year to microsecond; two of them compare
  as the lists do.  \<open>datetime.fromisoformat\<close> raises \<open>ValueError\<close> for a date or time that
  does not exist.
\<close>

type_synonym utc = "int list"

definition digits_value :: "string \<Rightarrow> int" where
  "digits_value ds = foldl (\<lambda>n c. 10 * n + (int (code c) - 48)) 0 ds"

definition rfc3339_utc :: "string \<Rightarrow> bool" where
  "rfc3339_utc s = (list_all2 (\<lambda>p c. if p = CHR ''d'' then is_digit c else c = p)
      ''dddd-dd-ddTdd:dd:dd'' (take 19 s) \<and>
     (let rest = drop 19 s; fraction = butlast (tl rest) in
      rest = ''Z'' \<or> (rest \<noteq> [] \<and> hd rest = CHR ''.'' \<and> last rest = CHR ''Z'' \<and>
        1 \<le> length fraction \<and> length fraction \<le> 6 \<and> list_all is_digit fraction)))"

definition leap_year :: "int \<Rightarrow> bool" where
  "leap_year y = (y mod 4 = 0 \<and> (y mod 100 \<noteq> 0 \<or> y mod 400 = 0))"

definition days_in_month :: "int \<Rightarrow> int \<Rightarrow> int" where
  "days_in_month y m = (if m = 2 then (if leap_year y then 29 else 28)
     else if m = 4 \<or> m = 6 \<or> m = 9 \<or> m = 11 then 30 else 31)"

definition utc_fields :: "string \<Rightarrow> utc" where
  "utc_fields s = (let fraction = butlast (tl (drop 19 s)) in
     [digits_value (take 4 s), digits_value (take 2 (drop 5 s)), digits_value (take 2 (drop 8 s)),
      digits_value (take 2 (drop 11 s)), digits_value (take 2 (drop 14 s)),
      digits_value (take 2 (drop 17 s)),
      digits_value (fraction @ replicate (6 - length fraction) (CHR ''0''))])"

fun valid_utc :: "utc \<Rightarrow> bool" where
  "valid_utc [y, m, d, h, mi, s, us] = (1 \<le> y \<and> 1 \<le> m \<and> m \<le> 12 \<and> 1 \<le> d \<and> d \<le> days_in_month y m \<and>
     h \<le> 23 \<and> mi \<le> 59 \<and> s \<le> 59)"
| "valid_utc _ = False"

definition parse_utc :: "string \<Rightarrow> utc result" where
  "parse_utc s = (if rfc3339_utc s \<and> valid_utc (utc_fields s) then Inr (utc_fields s)
     else Inl ValueError)"

definition utc_timestamp :: "json \<Rightarrow> string result" where
  "utc_timestamp j = bindR (line_value 40 j) (\<lambda>text.
     bindR (require (rfc3339_utc text) (SchedulerContractError BadUtcTimestamp)) (\<lambda>_.
     bindR (require (valid_utc (utc_fields text)) (SchedulerContractError BadUtcTimestamp)) (\<lambda>_.
     Inr text)))"

definition wf_timestamp :: "string \<Rightarrow> bool" where
  "wf_timestamp s = (plain_text 40 s \<and> rfc3339_utc s \<and> valid_utc (utc_fields s))"

lemma utc_timestamp_iff [result_simps]: "utc_timestamp j = Inr s \<longleftrightarrow> j = JStr s \<and> wf_timestamp s"
  by (auto simp: utc_timestamp_def wf_timestamp_def result_simps)

interpretation utc_codec: codec utc_timestamp JStr wf_timestamp
  by unfold_locales (auto simp: utc_timestamp_iff)

lemma parse_utc_timestamp: "wf_timestamp s \<Longrightarrow> parse_utc s = Inr (utc_fields s)"
  by (simp add: parse_utc_def wf_timestamp_def)

end
