(* ===== verification/SolverDomain.thy ===== *)
theory SolverDomain
  imports References
begin

text \<open>
  The typed M7 solver data of \<open>domain/solver.py\<close> (and the sensitivity levels of
  \<open>domain/context.py\<close>): the string enumerations with their values, the frozen dataclasses as
  records, and their \<open>to_dict\<close> encodings.
\<close>

section \<open>Enumerations\<close>

datatype sensitivity = PUBLIC | REPOSITORY_PRIVATE | OWNER_PRIVATE | SECRET_OR_PROHIBITED

fun sensitivity_value :: "sensitivity \<Rightarrow> string" where
  "sensitivity_value PUBLIC = ''public''"
| "sensitivity_value REPOSITORY_PRIVATE = ''repository-private''"
| "sensitivity_value OWNER_PRIVATE = ''owner-private''"
| "sensitivity_value SECRET_OR_PROHIBITED = ''secret-or-prohibited''"

definition sensitivity_members :: "sensitivity list" where
  "sensitivity_members = [PUBLIC, REPOSITORY_PRIVATE, OWNER_PRIVATE, SECRET_OR_PROHIBITED]"

interpretation sensitivity_enum: str_enum sensitivity_value sensitivity_members
proof (unfold_locales, goal_cases)
  case (1 e) then show ?case by (cases e) (simp_all add: sensitivity_members_def)
qed code_simp+

datatype solver_artifact_type = REGISTRY | REQUEST | RESULT | VERIFICATION

fun artifact_type_value :: "solver_artifact_type \<Rightarrow> string" where
  "artifact_type_value REGISTRY = ''solver-registry''"
| "artifact_type_value REQUEST = ''solver-request''"
| "artifact_type_value RESULT = ''solver-result''"
| "artifact_type_value VERIFICATION = ''solver-verification''"

definition solver_artifact_type_members :: "solver_artifact_type list" where
  "solver_artifact_type_members = [REGISTRY, REQUEST, RESULT, VERIFICATION]"

interpretation artifact_type_enum: str_enum artifact_type_value solver_artifact_type_members
proof (unfold_locales, goal_cases)
  case (1 e) then show ?case by (cases e) (simp_all add: solver_artifact_type_members_def)
qed code_simp+

datatype solver_adapter_kind = REFERENCE | EXTERNAL_CLI

fun adapter_kind_value :: "solver_adapter_kind \<Rightarrow> string" where
  "adapter_kind_value REFERENCE = ''reference''"
| "adapter_kind_value EXTERNAL_CLI = ''external-cli''"

definition solver_adapter_kind_members :: "solver_adapter_kind list" where
  "solver_adapter_kind_members = [REFERENCE, EXTERNAL_CLI]"

interpretation adapter_kind_enum: str_enum adapter_kind_value solver_adapter_kind_members
proof (unfold_locales, goal_cases)
  case (1 e) then show ?case by (cases e) (simp_all add: solver_adapter_kind_members_def)
qed code_simp+

datatype solver_version_status = NOT_OBSERVED | OBSERVED

fun version_status_value :: "solver_version_status \<Rightarrow> string" where
  "version_status_value NOT_OBSERVED = ''not-observed''"
| "version_status_value OBSERVED = ''observed''"

definition solver_version_status_members :: "solver_version_status list" where
  "solver_version_status_members = [NOT_OBSERVED, OBSERVED]"

interpretation version_status_enum: str_enum version_status_value solver_version_status_members
proof (unfold_locales, goal_cases)
  case (1 e) then show ?case by (cases e) (simp_all add: solver_version_status_members_def)
qed code_simp+

datatype solver_problem_kind = FEASIBILITY | OPTIMIZATION

fun problem_kind_value :: "solver_problem_kind \<Rightarrow> string" where
  "problem_kind_value FEASIBILITY = ''finite-domain-feasibility''"
| "problem_kind_value OPTIMIZATION = ''finite-domain-optimization''"

definition solver_problem_kind_members :: "solver_problem_kind list" where
  "solver_problem_kind_members = [FEASIBILITY, OPTIMIZATION]"

interpretation problem_kind_enum: str_enum problem_kind_value solver_problem_kind_members
proof (unfold_locales, goal_cases)
  case (1 e) then show ?case by (cases e) (simp_all add: solver_problem_kind_members_def)
qed code_simp+

datatype solver_problem_profile = GENERAL | BOOLEAN_SAT | FINITE_SCHEDULING

fun problem_profile_value :: "solver_problem_profile \<Rightarrow> string" where
  "problem_profile_value GENERAL = ''general''"
| "problem_profile_value BOOLEAN_SAT = ''boolean-sat''"
| "problem_profile_value FINITE_SCHEDULING = ''finite-scheduling''"

definition solver_problem_profile_members :: "solver_problem_profile list" where
  "solver_problem_profile_members = [GENERAL, BOOLEAN_SAT, FINITE_SCHEDULING]"

interpretation problem_profile_enum: str_enum problem_profile_value solver_problem_profile_members
proof (unfold_locales, goal_cases)
  case (1 e) then show ?case by (cases e) (simp_all add: solver_problem_profile_members_def)
qed code_simp+

datatype solver_constraint_kind = LINEAR | ALL_DIFFERENT | TABLE | CLAUSE | NON_OVERLAP

fun constraint_kind_value :: "solver_constraint_kind \<Rightarrow> string" where
  "constraint_kind_value LINEAR = ''linear''"
| "constraint_kind_value ALL_DIFFERENT = ''all-different''"
| "constraint_kind_value TABLE = ''table''"
| "constraint_kind_value CLAUSE = ''clause''"
| "constraint_kind_value NON_OVERLAP = ''non-overlap''"

definition solver_constraint_kind_members :: "solver_constraint_kind list" where
  "solver_constraint_kind_members = [LINEAR, ALL_DIFFERENT, TABLE, CLAUSE, NON_OVERLAP]"

interpretation constraint_kind_enum: str_enum constraint_kind_value solver_constraint_kind_members
proof (unfold_locales, goal_cases)
  case (1 e) then show ?case by (cases e) (simp_all add: solver_constraint_kind_members_def)
qed code_simp+

datatype linear_relation = EQ | NE | LT | LE | GT | GE

fun relation_value :: "linear_relation \<Rightarrow> string" where
  "relation_value EQ = ''eq''"
| "relation_value NE = ''ne''"
| "relation_value LT = ''lt''"
| "relation_value LE = ''le''"
| "relation_value GT = ''gt''"
| "relation_value GE = ''ge''"

definition linear_relation_members :: "linear_relation list" where
  "linear_relation_members = [EQ, NE, LT, LE, GT, GE]"

interpretation relation_enum: str_enum relation_value linear_relation_members
proof (unfold_locales, goal_cases)
  case (1 e) then show ?case by (cases e) (simp_all add: linear_relation_members_def)
qed code_simp+

datatype table_mode = ALLOWED | FORBIDDEN

fun table_mode_value :: "table_mode \<Rightarrow> string" where
  "table_mode_value ALLOWED = ''allowed''"
| "table_mode_value FORBIDDEN = ''forbidden''"

definition table_mode_members :: "table_mode list" where
  "table_mode_members = [ALLOWED, FORBIDDEN]"

interpretation table_mode_enum: str_enum table_mode_value table_mode_members
proof (unfold_locales, goal_cases)
  case (1 e) then show ?case by (cases e) (simp_all add: table_mode_members_def)
qed code_simp+

datatype objective_direction = MINIMIZE | MAXIMIZE

fun direction_value :: "objective_direction \<Rightarrow> string" where
  "direction_value MINIMIZE = ''minimize''"
| "direction_value MAXIMIZE = ''maximize''"

definition objective_direction_members :: "objective_direction list" where
  "objective_direction_members = [MINIMIZE, MAXIMIZE]"

interpretation direction_enum: str_enum direction_value objective_direction_members
proof (unfold_locales, goal_cases)
  case (1 e) then show ?case by (cases e) (simp_all add: objective_direction_members_def)
qed code_simp+

datatype solver_required_claim = CLAIM_DECISION | CLAIM_FEASIBLE | CLAIM_BOUNDED | CLAIM_OPTIMAL

fun claim_value :: "solver_required_claim \<Rightarrow> string" where
  "claim_value CLAIM_DECISION = ''decision''"
| "claim_value CLAIM_FEASIBLE = ''feasible''"
| "claim_value CLAIM_BOUNDED = ''bounded''"
| "claim_value CLAIM_OPTIMAL = ''optimal''"

definition solver_required_claim_members :: "solver_required_claim list" where
  "solver_required_claim_members = [CLAIM_DECISION, CLAIM_FEASIBLE, CLAIM_BOUNDED, CLAIM_OPTIMAL]"

interpretation claim_enum: str_enum claim_value solver_required_claim_members
proof (unfold_locales, goal_cases)
  case (1 e) then show ?case by (cases e) (simp_all add: solver_required_claim_members_def)
qed code_simp+

datatype solver_result_status = SATISFIABLE | UNSATISFIABLE | FEASIBLE | INFEASIBLE | OPTIMAL | BOUNDED | TIMEOUT | UNAVAILABLE | UNKNOWN | ERROR

fun status_value :: "solver_result_status \<Rightarrow> string" where
  "status_value SATISFIABLE = ''satisfiable''"
| "status_value UNSATISFIABLE = ''unsatisfiable''"
| "status_value FEASIBLE = ''feasible''"
| "status_value INFEASIBLE = ''infeasible''"
| "status_value OPTIMAL = ''optimal''"
| "status_value BOUNDED = ''bounded''"
| "status_value TIMEOUT = ''timeout''"
| "status_value UNAVAILABLE = ''unavailable''"
| "status_value UNKNOWN = ''unknown''"
| "status_value ERROR = ''error''"

definition solver_result_status_members :: "solver_result_status list" where
  "solver_result_status_members = [SATISFIABLE, UNSATISFIABLE, FEASIBLE, INFEASIBLE, OPTIMAL, BOUNDED, TIMEOUT, UNAVAILABLE, UNKNOWN, ERROR]"

interpretation status_enum: str_enum status_value solver_result_status_members
proof (unfold_locales, goal_cases)
  case (1 e) then show ?case by (cases e) (simp_all add: solver_result_status_members_def)
qed code_simp+

datatype solver_proof_disposition = PROOF_NONE | PROOF_WITNESS | OBJECTIVE_BOUND | EXHAUSTIVE_ENUMERATION

fun proof_value :: "solver_proof_disposition \<Rightarrow> string" where
  "proof_value PROOF_NONE = ''none''"
| "proof_value PROOF_WITNESS = ''witness''"
| "proof_value OBJECTIVE_BOUND = ''objective-bound''"
| "proof_value EXHAUSTIVE_ENUMERATION = ''exhaustive-enumeration''"

definition solver_proof_disposition_members :: "solver_proof_disposition list" where
  "solver_proof_disposition_members = [PROOF_NONE, PROOF_WITNESS, OBJECTIVE_BOUND, EXHAUSTIVE_ENUMERATION]"

interpretation proof_enum: str_enum proof_value solver_proof_disposition_members
proof (unfold_locales, goal_cases)
  case (1 e) then show ?case by (cases e) (simp_all add: solver_proof_disposition_members_def)
qed code_simp+

datatype solver_termination_reason = WITNESS_FOUND | SEARCH_EXHAUSTED | STEP_LIMIT | REQUEST_TIMEOUT | LEASE_DEADLINE | ADAPTER_UNAVAILABLE | ADAPTER_ERROR

fun termination_value :: "solver_termination_reason \<Rightarrow> string" where
  "termination_value WITNESS_FOUND = ''witness-found''"
| "termination_value SEARCH_EXHAUSTED = ''search-exhausted''"
| "termination_value STEP_LIMIT = ''step-limit''"
| "termination_value REQUEST_TIMEOUT = ''request-timeout''"
| "termination_value LEASE_DEADLINE = ''lease-deadline''"
| "termination_value ADAPTER_UNAVAILABLE = ''adapter-unavailable''"
| "termination_value ADAPTER_ERROR = ''adapter-error''"

definition solver_termination_reason_members :: "solver_termination_reason list" where
  "solver_termination_reason_members = [WITNESS_FOUND, SEARCH_EXHAUSTED, STEP_LIMIT, REQUEST_TIMEOUT, LEASE_DEADLINE, ADAPTER_UNAVAILABLE, ADAPTER_ERROR]"

interpretation termination_enum: str_enum termination_value solver_termination_reason_members
proof (unfold_locales, goal_cases)
  case (1 e) then show ?case by (cases e) (simp_all add: solver_termination_reason_members_def)
qed code_simp+

datatype solver_verification_outcome = VERIFIED | REJECTED | INCONCLUSIVE

fun outcome_value :: "solver_verification_outcome \<Rightarrow> string" where
  "outcome_value VERIFIED = ''verified''"
| "outcome_value REJECTED = ''rejected''"
| "outcome_value INCONCLUSIVE = ''inconclusive''"

definition solver_verification_outcome_members :: "solver_verification_outcome list" where
  "solver_verification_outcome_members = [VERIFIED, REJECTED, INCONCLUSIVE]"

interpretation outcome_enum: str_enum outcome_value solver_verification_outcome_members
proof (unfold_locales, goal_cases)
  case (1 e) then show ?case by (cases e) (simp_all add: solver_verification_outcome_members_def)
qed code_simp+

text \<open>The values stay folded, so that the lookup law \<open>enum_value_val\<close> applies.\<close>

declare sensitivity_value.simps [simp del]
  artifact_type_value.simps [simp del]
  adapter_kind_value.simps [simp del]
  version_status_value.simps [simp del]
  problem_kind_value.simps [simp del]
  problem_profile_value.simps [simp del]
  constraint_kind_value.simps [simp del]
  relation_value.simps [simp del]
  table_mode_value.simps [simp del]
  direction_value.simps [simp del]
  claim_value.simps [simp del]
  status_value.simps [simp del]
  proof_value.simps [simp del]
  termination_value.simps [simp del]
  outcome_value.simps [simp del]

text \<open>A member of a \<open>StrEnum\<close> is ordered as its value: the order of the sorted capability lists.\<close>

instantiation solver_problem_kind :: linorder
begin
definition less_eq_solver_problem_kind :: "solver_problem_kind \<Rightarrow> solver_problem_kind \<Rightarrow> bool" where
  "less_eq_solver_problem_kind a b = (problem_kind_value a \<le> problem_kind_value b)"
definition less_solver_problem_kind :: "solver_problem_kind \<Rightarrow> solver_problem_kind \<Rightarrow> bool" where
  "less_solver_problem_kind a b = (problem_kind_value a < problem_kind_value b)"
instance
  by standard (auto simp: less_eq_solver_problem_kind_def less_solver_problem_kind_def dest: problem_kind_enum.val_inject antisym)
end

instantiation solver_problem_profile :: linorder
begin
definition less_eq_solver_problem_profile :: "solver_problem_profile \<Rightarrow> solver_problem_profile \<Rightarrow> bool" where
  "less_eq_solver_problem_profile a b = (problem_profile_value a \<le> problem_profile_value b)"
definition less_solver_problem_profile :: "solver_problem_profile \<Rightarrow> solver_problem_profile \<Rightarrow> bool" where
  "less_solver_problem_profile a b = (problem_profile_value a < problem_profile_value b)"
instance
  by standard (auto simp: less_eq_solver_problem_profile_def less_solver_problem_profile_def dest: problem_profile_enum.val_inject antisym)
end

instantiation solver_constraint_kind :: linorder
begin
definition less_eq_solver_constraint_kind :: "solver_constraint_kind \<Rightarrow> solver_constraint_kind \<Rightarrow> bool" where
  "less_eq_solver_constraint_kind a b = (constraint_kind_value a \<le> constraint_kind_value b)"
definition less_solver_constraint_kind :: "solver_constraint_kind \<Rightarrow> solver_constraint_kind \<Rightarrow> bool" where
  "less_solver_constraint_kind a b = (constraint_kind_value a < constraint_kind_value b)"
instance
  by standard (auto simp: less_eq_solver_constraint_kind_def less_solver_constraint_kind_def dest: constraint_kind_enum.val_inject antisym)
end

definition sensitivity_rank :: "sensitivity \<Rightarrow> nat" where
  "sensitivity_rank s = (case s of PUBLIC \<Rightarrow> 0 | REPOSITORY_PRIVATE \<Rightarrow> 1 | OWNER_PRIVATE \<Rightarrow> 2
     | SECRET_OR_PROHIBITED \<Rightarrow> 3)"

section \<open>Problems\<close>

record integer_domain =
  dom_kind :: string
  dom_values :: "int list"

record solver_variable =
  variable_id :: string
  var_domain :: integer_domain

record linear_term =
  term_variable :: string
  coefficient :: int

record clause_literal =
  literal_variable :: string
  equals :: int

datatype solver_constraint =
    LinearConstraint string "linear_term list" linear_relation int
  | AllDifferentConstraint string "string list"
  | TableConstraint string "string list" table_mode "int list list"
  | ClauseConstraint string "clause_literal list"
  | NonOverlapConstraint string string int string int

fun constraint_id :: "solver_constraint \<Rightarrow> string" where
  "constraint_id (LinearConstraint i ts rel rhs) = i"
| "constraint_id (AllDifferentConstraint i vs) = i"
| "constraint_id (TableConstraint i vs m rows) = i"
| "constraint_id (ClauseConstraint i ls) = i"
| "constraint_id (NonOverlapConstraint i l ld r rd) = i"

fun constraint_type :: "solver_constraint \<Rightarrow> solver_constraint_kind" where
  "constraint_type (LinearConstraint i ts rel rhs) = LINEAR"
| "constraint_type (AllDifferentConstraint i vs) = ALL_DIFFERENT"
| "constraint_type (TableConstraint i vs m rows) = TABLE"
| "constraint_type (ClauseConstraint i ls) = CLAUSE"
| "constraint_type (NonOverlapConstraint i l ld r rd) = NON_OVERLAP"

record solver_objective =
  direction :: objective_direction
  obj_terms :: "linear_term list"
  obj_constant :: int

record solver_problem =
  problem_kind :: solver_problem_kind
  profile :: solver_problem_profile
  variables :: "solver_variable list"
  constraints :: "solver_constraint list"
  objective :: "solver_objective option"

text \<open>The range encoding reads the first and last value; a domain is never empty.\<close>

definition domain_to_dict :: "integer_domain \<Rightarrow> json" where
  "domain_to_dict d =
     (if dom_kind d = ''integer-set''
      then JObj [(''kind'', JStr (dom_kind d)), (''values'', JArr (map JInt (dom_values d)))]
      else JObj [(''kind'', JStr (dom_kind d)), (''lower'', JInt (hd (dom_values d))),
                 (''upper'', JInt (last (dom_values d)))])"

definition variable_to_dict :: "solver_variable \<Rightarrow> json" where
  "variable_to_dict v = JObj [(''variable_id'', JStr (variable_id v)),
     (''domain'', domain_to_dict (var_domain v))]"

definition term_to_dict :: "linear_term \<Rightarrow> json" where
  "term_to_dict t = JObj [(''variable_id'', JStr (term_variable t)),
     (''coefficient'', JInt (coefficient t))]"

definition literal_to_dict :: "clause_literal \<Rightarrow> json" where
  "literal_to_dict l = JObj [(''variable_id'', JStr (literal_variable l)),
     (''equals'', JInt (equals l))]"

fun constraint_to_dict :: "solver_constraint \<Rightarrow> json" where
  "constraint_to_dict (LinearConstraint i ts rel rhs) = JObj [
     (''constraint_id'', JStr i), (''constraint_type'', JStr (constraint_kind_value LINEAR)),
     (''terms'', JArr (map term_to_dict ts)), (''relation'', JStr (relation_value rel)),
     (''right_hand_side'', JInt rhs)]"
| "constraint_to_dict (AllDifferentConstraint i vs) = JObj [
     (''constraint_id'', JStr i), (''constraint_type'', JStr (constraint_kind_value ALL_DIFFERENT)),
     (''variable_ids'', JArr (map JStr vs))]"
| "constraint_to_dict (TableConstraint i vs m rows) = JObj [
     (''constraint_id'', JStr i), (''constraint_type'', JStr (constraint_kind_value TABLE)),
     (''variable_ids'', JArr (map JStr vs)), (''mode'', JStr (table_mode_value m)),
     (''rows'', JArr (map (\<lambda>row. JArr (map JInt row)) rows))]"
| "constraint_to_dict (ClauseConstraint i ls) = JObj [
     (''constraint_id'', JStr i), (''constraint_type'', JStr (constraint_kind_value CLAUSE)),
     (''literals'', JArr (map literal_to_dict ls))]"
| "constraint_to_dict (NonOverlapConstraint i l ld r rd) = JObj [
     (''constraint_id'', JStr i), (''constraint_type'', JStr (constraint_kind_value NON_OVERLAP)),
     (''left_start'', JStr l), (''left_duration'', JInt ld),
     (''right_start'', JStr r), (''right_duration'', JInt rd)]"

definition objective_to_dict :: "solver_objective \<Rightarrow> json" where
  "objective_to_dict q = JObj [(''direction'', JStr (direction_value (direction q))),
     (''terms'', JArr (map term_to_dict (obj_terms q))), (''constant'', JInt (obj_constant q))]"

definition problem_to_dict :: "solver_problem \<Rightarrow> json" where
  "problem_to_dict p = JObj [
     (''problem_kind'', JStr (problem_kind_value (problem_kind p))),
     (''profile'', JStr (problem_profile_value (profile p))),
     (''variables'', JArr (map variable_to_dict (variables p))),
     (''constraints'', JArr (map constraint_to_dict (constraints p))),
     (''objective'', enc_option objective_to_dict (objective p))]"

definition search_space_size :: "solver_problem \<Rightarrow> nat" where
  "search_space_size p = prod_list (map (\<lambda>v. length (dom_values (var_domain v))) (variables p))"

section \<open>Registries and requests\<close>

record solver_resource_policy =
  max_solve_steps :: int
  max_verification_steps :: int
  timeout_milliseconds :: "int option"
  max_result_bytes :: int

definition policy_to_dict :: "solver_resource_policy \<Rightarrow> json" where
  "policy_to_dict p = JObj [
     (''max_solve_steps'', JInt (max_solve_steps p)),
     (''max_verification_steps'', JInt (max_verification_steps p)),
     (''timeout_milliseconds'', enc_option JInt (timeout_milliseconds p)),
     (''max_result_bytes'', JInt (max_result_bytes p))]"

record solver_version_observation =
  vo_status :: solver_version_status
  observed_version :: "string option"
  vo_evidence :: "artifact_reference option"

definition version_observation_to_dict :: "solver_version_observation \<Rightarrow> json" where
  "version_observation_to_dict v = JObj [
     (''status'', JStr (version_status_value (vo_status v))),
     (''observed_version'', enc_option JStr (observed_version v)),
     (''evidence'', enc_option reference_to_dict (vo_evidence v))]"

record solver_approval_requirements =
  owner_approval :: string
  technical_sandbox_approval :: string
  consumption :: string

definition approval_to_dict :: "solver_approval_requirements \<Rightarrow> json" where
  "approval_to_dict a = JObj [
     (''owner_approval'', JStr (owner_approval a)),
     (''technical_sandbox_approval'', JStr (technical_sandbox_approval a)),
     (''consumption'', JStr (consumption a))]"

text \<open>The \<open>limits\<close> object of an adapter definition is kept as a record of its own.\<close>

record adapter_limits =
  max_variables :: int
  max_domain_values :: int
  max_search_space :: int
  max_constraints :: int
  max_constraint_variables :: int
  max_table_rows :: int
  min_scalar :: int
  max_scalar :: int
  max_artifact_bytes :: int

record solver_adapter_definition =
  ad_adapter_id :: string
  adapter_kind :: solver_adapter_kind
  implementation :: string
  ad_version :: string
  supported_problem_kinds :: "solver_problem_kind list"
  supported_profiles :: "solver_problem_profile list"
  supported_constraints :: "solver_constraint_kind list"
  numeric_domain :: string
  ad_limits :: adapter_limits
  network :: bool
  ad_optional :: bool
  tool_registry :: "artifact_reference option"
  tool_name :: "string option"
  executable :: "string option"
  input_format :: "string option"
  version_matcher :: "string option"
  version_observation :: "solver_version_observation option"
  approval_requirements :: "solver_approval_requirements option"
  ad_license :: string
  ad_provenance :: "artifact_reference list"

definition limits_to_dict :: "adapter_limits \<Rightarrow> json" where
  "limits_to_dict l = JObj [
     (''max_variables'', JInt (max_variables l)),
     (''max_domain_values'', JInt (max_domain_values l)),
     (''max_search_space'', JInt (max_search_space l)),
     (''max_constraints'', JInt (max_constraints l)),
     (''max_constraint_variables'', JInt (max_constraint_variables l)),
     (''max_table_rows'', JInt (max_table_rows l)),
     (''min_scalar'', JInt (min_scalar l)),
     (''max_scalar'', JInt (max_scalar l)),
     (''max_artifact_bytes'', JInt (max_artifact_bytes l))]"

definition adapter_to_dict :: "solver_adapter_definition \<Rightarrow> json" where
  "adapter_to_dict a = JObj [
     (''adapter_id'', JStr (ad_adapter_id a)),
     (''adapter_kind'', JStr (adapter_kind_value (adapter_kind a))),
     (''implementation'', JStr (implementation a)),
     (''version'', JStr (ad_version a)),
     (''supported_problem_kinds'',
        JArr (map (\<lambda>k. JStr (problem_kind_value k)) (supported_problem_kinds a))),
     (''supported_profiles'',
        JArr (map (\<lambda>k. JStr (problem_profile_value k)) (supported_profiles a))),
     (''supported_constraints'',
        JArr (map (\<lambda>k. JStr (constraint_kind_value k)) (supported_constraints a))),
     (''numeric_domain'', JStr (numeric_domain a)),
     (''limits'', limits_to_dict (ad_limits a)),
     (''network'', JBool (network a)),
     (''optional'', JBool (ad_optional a)),
     (''tool_registry'', enc_option reference_to_dict (tool_registry a)),
     (''tool_name'', enc_option JStr (tool_name a)),
     (''executable'', enc_option JStr (executable a)),
     (''input_format'', enc_option JStr (input_format a)),
     (''version_matcher'', enc_option JStr (version_matcher a)),
     (''version_observation'', enc_option version_observation_to_dict (version_observation a)),
     (''approval_requirements'', enc_option approval_to_dict (approval_requirements a)),
     (''license_expression'', JStr (ad_license a)),
     (''provenance'', JArr (map reference_to_dict (ad_provenance a)))]"

record solver_registry =
  reg_sensitivity :: sensitivity
  adapters :: "solver_adapter_definition list"

definition registry_to_dict :: "solver_registry \<Rightarrow> json" where
  "registry_to_dict r = JObj [
     (''sensitivity'', JStr (sensitivity_value (reg_sensitivity r))),
     (''adapters'', JArr (map adapter_to_dict (adapters r)))]"

text \<open>The constant tolerance of every request and result.\<close>

definition exact_tolerance :: json where
  "exact_tolerance = JObj [(''kind'', JStr ''exact''), (''absolute'', JInt 0), (''relative'', JInt 0)]"

record solver_request =
  rq_sensitivity :: sensitivity
  rq_registry :: artifact_reference
  rq_registry_id :: string
  rq_adapter_id :: string
  rq_contract_id :: string
  rq_task_graph :: artifact_reference
  rq_graph_id :: string
  rq_task_id :: string
  rq_candidate :: candidate_identity
  rq_context_snapshot :: artifact_reference
  rq_context_snapshot_id :: string
  rq_problem :: solver_problem
  rq_required_claim :: solver_required_claim
  rq_policy :: solver_resource_policy

definition operational_content :: "solver_request \<Rightarrow> json" where
  "operational_content r = JObj [
     (''registry_id'', JStr (rq_registry_id r)),
     (''adapter_id'', JStr (rq_adapter_id r)),
     (''problem'', problem_to_dict (rq_problem r)),
     (''required_claim'', JStr (claim_value (rq_required_claim r))),
     (''tolerance'', exact_tolerance),
     (''resource_policy'', policy_to_dict (rq_policy r))]"

definition request_to_dict :: "solver_request \<Rightarrow> json" where
  "request_to_dict r = JObj [
     (''sensitivity'', JStr (sensitivity_value (rq_sensitivity r))),
     (''registry'', reference_to_dict (rq_registry r)),
     (''registry_id'', JStr (rq_registry_id r)),
     (''adapter_id'', JStr (rq_adapter_id r)),
     (''contract_id'', JStr (rq_contract_id r)),
     (''task_graph'', reference_to_dict (rq_task_graph r)),
     (''graph_id'', JStr (rq_graph_id r)),
     (''task_id'', JStr (rq_task_id r)),
     (''candidate'', candidate_to_dict (rq_candidate r)),
     (''context_snapshot'', reference_to_dict (rq_context_snapshot r)),
     (''context_snapshot_id'', JStr (rq_context_snapshot_id r)),
     (''problem'', problem_to_dict (rq_problem r)),
     (''required_claim'', JStr (claim_value (rq_required_claim r))),
     (''tolerance'', exact_tolerance),
     (''resource_policy'', policy_to_dict (rq_policy r))]"

section \<open>Results and verifications\<close>

record solver_lease_evidence =
  le_graph_id :: string
  le_task_id :: string
  le_host_id :: string
  le_attempt :: int
  le_lease_id :: string
  le_fence :: int
  le_idempotency_key :: string
  le_dispatch_message_id :: string
  le_expires_at :: string
  reserved_solver_calls :: int
  reserved_solver_steps :: int

definition lease_to_dict :: "solver_lease_evidence \<Rightarrow> json" where
  "lease_to_dict l = JObj [
     (''graph_id'', JStr (le_graph_id l)),
     (''task_id'', JStr (le_task_id l)),
     (''host_id'', JStr (le_host_id l)),
     (''attempt'', JInt (le_attempt l)),
     (''lease_id'', JStr (le_lease_id l)),
     (''fence'', JInt (le_fence l)),
     (''idempotency_key'', JStr (le_idempotency_key l)),
     (''dispatch_message_id'', JStr (le_dispatch_message_id l)),
     (''expires_at'', JStr (le_expires_at l)),
     (''reserved_solver_calls'', JInt (reserved_solver_calls l)),
     (''reserved_solver_steps'', JInt (reserved_solver_steps l))]"

text \<open>A witness is the tuple of \<open>(variable_id, value)\<close> pairs.\<close>

type_synonym solver_witness = "(string \<times> int) list"

definition assignment_to_dict :: "string \<times> int \<Rightarrow> json" where
  "assignment_to_dict a = JObj [(''variable_id'', JStr (fst a)), (''value'', JInt (snd a))]"

definition witness_to_dict :: "solver_witness \<Rightarrow> json" where
  "witness_to_dict w = JObj [(''assignments'', JArr (map assignment_to_dict w))]"

record objective_interval =
  lower :: int
  upper :: int

definition interval_to_dict :: "objective_interval \<Rightarrow> json" where
  "interval_to_dict i = JObj [(''lower'', JInt (lower i)), (''upper'', JInt (upper i))]"

record solver_resource_evidence =
  solver_calls :: int
  solver_steps :: int
  ev_search_space_size :: int
  visited_assignments :: int
  unvisited_assignments :: int
  constraint_checks :: int
  elapsed_milliseconds :: int
  step_limit :: int
  ev_timeout :: "int option"
  termination_reason :: solver_termination_reason

definition resources_to_dict :: "solver_resource_evidence \<Rightarrow> json" where
  "resources_to_dict e = JObj [
     (''solver_calls'', JInt (solver_calls e)),
     (''solver_steps'', JInt (solver_steps e)),
     (''search_space_size'', JInt (ev_search_space_size e)),
     (''visited_assignments'', JInt (visited_assignments e)),
     (''unvisited_assignments'', JInt (unvisited_assignments e)),
     (''constraint_checks'', JInt (constraint_checks e)),
     (''elapsed_milliseconds'', JInt (elapsed_milliseconds e)),
     (''step_limit'', JInt (step_limit e)),
     (''timeout_milliseconds'', enc_option JInt (ev_timeout e)),
     (''termination_reason'', JStr (termination_value (termination_reason e)))]"

record solver_result =
  rs_sensitivity :: sensitivity
  rs_request :: artifact_reference
  rs_request_id :: string
  rs_contract_id :: string
  rs_candidate :: candidate_identity
  rs_graph_id :: string
  rs_task_id :: string
  rs_context_snapshot_id :: string
  rs_adapter_id :: string
  rs_adapter_version :: string
  rs_license :: string
  rs_provenance :: "artifact_reference list"
  rs_lease :: solver_lease_evidence
  rs_status :: solver_result_status
  rs_witness :: "solver_witness option"
  objective_value :: "int option"
  rs_interval :: "objective_interval option"
  proof_disposition :: solver_proof_disposition
  rs_resources :: solver_resource_evidence
  diagnostic_code :: "string option"

definition result_to_dict :: "solver_result \<Rightarrow> json" where
  "result_to_dict r = JObj [
     (''sensitivity'', JStr (sensitivity_value (rs_sensitivity r))),
     (''request'', reference_to_dict (rs_request r)),
     (''request_id'', JStr (rs_request_id r)),
     (''contract_id'', JStr (rs_contract_id r)),
     (''candidate'', candidate_to_dict (rs_candidate r)),
     (''graph_id'', JStr (rs_graph_id r)),
     (''task_id'', JStr (rs_task_id r)),
     (''context_snapshot_id'', JStr (rs_context_snapshot_id r)),
     (''adapter_id'', JStr (rs_adapter_id r)),
     (''adapter_version'', JStr (rs_adapter_version r)),
     (''license_expression'', JStr (rs_license r)),
     (''provenance'', JArr (map reference_to_dict (rs_provenance r))),
     (''lease'', lease_to_dict (rs_lease r)),
     (''status'', JStr (status_value (rs_status r))),
     (''witness'', enc_option witness_to_dict (rs_witness r)),
     (''objective_value'', enc_option JInt (objective_value r)),
     (''objective_interval'', enc_option interval_to_dict (rs_interval r)),
     (''tolerance'', exact_tolerance),
     (''proof_disposition'', JStr (proof_value (proof_disposition r))),
     (''resources'', resources_to_dict (rs_resources r)),
     (''diagnostic_code'', enc_option JStr (diagnostic_code r))]"

record solver_verification_check =
  check_id :: string
  passed :: bool

definition check_to_dict :: "solver_verification_check \<Rightarrow> json" where
  "check_to_dict c = JObj [(''check_id'', JStr (check_id c)), (''passed'', JBool (passed c))]"

record solver_verification =
  vf_sensitivity :: sensitivity
  vf_request :: artifact_reference
  vf_request_id :: string
  vf_result :: artifact_reference
  vf_result_id :: string
  vf_contract_id :: string
  vf_candidate :: candidate_identity
  vf_graph_id :: string
  vf_task_id :: string
  vf_context_snapshot_id :: string
  vf_lease :: solver_lease_evidence
  outcome :: solver_verification_outcome
  adoption_allowed :: bool
  checks :: "solver_verification_check list"
  reasons :: "string list"
  verification_steps :: int

definition verification_to_dict :: "solver_verification \<Rightarrow> json" where
  "verification_to_dict v = JObj [
     (''sensitivity'', JStr (sensitivity_value (vf_sensitivity v))),
     (''request'', reference_to_dict (vf_request v)),
     (''request_id'', JStr (vf_request_id v)),
     (''result'', reference_to_dict (vf_result v)),
     (''result_id'', JStr (vf_result_id v)),
     (''contract_id'', JStr (vf_contract_id v)),
     (''candidate'', candidate_to_dict (vf_candidate v)),
     (''graph_id'', JStr (vf_graph_id v)),
     (''task_id'', JStr (vf_task_id v)),
     (''context_snapshot_id'', JStr (vf_context_snapshot_id v)),
     (''lease'', lease_to_dict (vf_lease v)),
     (''outcome'', JStr (outcome_value (outcome v))),
     (''adoption_allowed'', JBool (adoption_allowed v)),
     (''checks'', JArr (map check_to_dict (checks v))),
     (''reasons'', JArr (map JStr (reasons v))),
     (''verification_steps'', JInt (verification_steps v))]"

datatype solver_value =
    RegistryValue solver_registry
  | RequestValue solver_request
  | ResultValue solver_result
  | VerificationValue solver_verification

fun value_to_dict :: "solver_value \<Rightarrow> json" where
  "value_to_dict (RegistryValue r) = registry_to_dict r"
| "value_to_dict (RequestValue r) = request_to_dict r"
| "value_to_dict (ResultValue r) = result_to_dict r"
| "value_to_dict (VerificationValue v) = verification_to_dict v"

record loaded_solver_artifact =
  artifact_type :: solver_artifact_type
  artifact_id :: string
  artifact_value :: solver_value

definition artifact_to_dict :: "loaded_solver_artifact \<Rightarrow> json" where
  "artifact_to_dict a = JObj [
     (''schema_version'', JStr ''1.0''),
     (''artifact_type'', JStr (artifact_type_value (artifact_type a))),
     (''artifact_id'', JStr (artifact_id a)),
     (''content'', value_to_dict (artifact_value a))]"

end
