(* ===== verification/ProblemContracts.thy ===== *)
theory ProblemContracts
  imports SolverDomain
begin

text \<open>
  The problem part of \<open>application/solver_contracts.py\<close>: variables with finite integer domains,
  the five constraint kinds, objectives and whole problems, each with its parser, the values the
  parser accepts (\<open>wf_...\<close>) and the parser contract as a \<open>codec\<close> interpretation.
\<close>

section \<open>Identifiers and scalars\<close>

definition max_scalar_value :: int where "max_scalar_value = 1000000"

definition slug_char :: "char \<Rightarrow> bool" where
  "slug_char c = (is_lower c \<or> is_digit c \<or> c = CHR ''-'')"

definition is_slug :: "string \<Rightarrow> bool" where
  "is_slug s = (case s of [] \<Rightarrow> False | c # cs \<Rightarrow> is_lower c \<and> length cs \<le> 63 \<and> list_all slug_char cs)"

definition symbol_char :: "char \<Rightarrow> bool" where
  "symbol_char c = (is_upper c \<or> is_digit c \<or> c = CHR ''_'' \<or> c = CHR ''-'')"

definition is_symbol :: "string \<Rightarrow> bool" where
  "is_symbol s = (case s of [] \<Rightarrow> False | c # cs \<Rightarrow> is_upper c \<and> length cs \<le> 63 \<and> list_all symbol_char cs)"

definition parse_slug :: "json \<Rightarrow> string result" where
  "parse_slug = matched_text 64 is_slug (SolverContractError BadIdentifier)"

definition parse_symbol :: "json \<Rightarrow> string result" where
  "parse_symbol = matched_text 64 is_symbol (SolverContractError BadIdentifier)"

definition scalar :: "json \<Rightarrow> int result" where
  "scalar = integer_value (- max_scalar_value) max_scalar_value"

definition wf_slug :: "string \<Rightarrow> bool" where "wf_slug s = (plain_text 64 s \<and> is_slug s)"
definition wf_symbol :: "string \<Rightarrow> bool" where "wf_symbol s = (plain_text 64 s \<and> is_symbol s)"
definition wf_scalar :: "int \<Rightarrow> bool" where
  "wf_scalar i = (- max_scalar_value \<le> i \<and> i \<le> max_scalar_value)"

interpretation slug_codec: codec parse_slug JStr wf_slug
  unfolding parse_slug_def wf_slug_def by (rule codec_matched)

interpretation symbol_codec: codec parse_symbol JStr wf_symbol
  unfolding parse_symbol_def wf_symbol_def by (rule codec_matched)

interpretation scalar_codec: codec scalar JInt wf_scalar
  unfolding scalar_def wf_scalar_def by (rule codec_integer)

lemma parse_symbol_iff [result_simps]: "parse_symbol j = Inr s \<longleftrightarrow> j = JStr s \<and> wf_symbol s"
  by (auto simp: parse_symbol_def wf_symbol_def matched_text_iff)

lemma parse_slug_iff [result_simps]: "parse_slug j = Inr s \<longleftrightarrow> j = JStr s \<and> wf_slug s"
  by (auto simp: parse_slug_def wf_slug_def matched_text_iff)

lemma scalar_iff [result_simps]: "scalar j = Inr i \<longleftrightarrow> j = JInt i \<and> wf_scalar i"
  by (auto simp: scalar_def wf_scalar_def integer_value_iff)

lemmas leaf_simps =
  symbol_codec.parse_enc slug_codec.parse_enc scalar_codec.parse_enc

section \<open>Variables\<close>

definition parse_domain :: "json \<Rightarrow> integer_domain result" where
  "parse_domain j = bindR (object_value j) (\<lambda>item.
     bindR (line_value 20 (get item ''kind'')) (\<lambda>kind.
     if kind = ''integer-set'' then
       bindR (only_keys item [''kind'', ''values'']) (\<lambda>_.
       bindR (array_value 256 (get item ''values'')) (\<lambda>raw.
       bindR (mapR scalar raw) (\<lambda>values.
       bindR (require (values \<noteq> [] \<and> values = sort (remdups values)) (SolverContractError BadDomain)) (\<lambda>_.
       Inr \<lparr>dom_kind = kind, dom_values = values\<rparr>))))
     else if kind = ''integer-range'' then
       bindR (only_keys item [''kind'', ''lower'', ''upper'']) (\<lambda>_.
       bindR (scalar (get item ''lower'')) (\<lambda>lo.
       bindR (scalar (get item ''upper'')) (\<lambda>hi.
       bindR (require (\<not> (hi < lo \<or> hi - lo + 1 > 256)) (SolverContractError BadDomain)) (\<lambda>_.
       Inr \<lparr>dom_kind = kind, dom_values = [lo..hi]\<rparr>))))
     else Inl (SolverContractError BadDomain)))"

definition wf_domain :: "integer_domain \<Rightarrow> bool" where
  "wf_domain d = (dom_values d \<noteq> [] \<and> length (dom_values d) \<le> 256 \<and>
     list_all wf_scalar (dom_values d) \<and>
     (if dom_kind d = ''integer-set'' then sorted (dom_values d) \<and> distinct (dom_values d)
      else dom_kind d = ''integer-range'' \<and>
           dom_values d = [hd (dom_values d)..last (dom_values d)]))"

definition parse_variable :: "json \<Rightarrow> solver_variable result" where
  "parse_variable j = bindR (object_value j) (\<lambda>item.
     bindR (only_keys item [''variable_id'', ''domain'']) (\<lambda>_.
     bindR (parse_symbol (get item ''variable_id'')) (\<lambda>identifier.
     bindR (parse_domain (get item ''domain'')) (\<lambda>domain.
     Inr \<lparr>variable_id = identifier, var_domain = domain\<rparr>))))"

definition wf_variable :: "solver_variable \<Rightarrow> bool" where
  "wf_variable v = (wf_symbol (variable_id v) \<and> wf_domain (var_domain v))"

lemma plain_domain_kinds: "plain_text 20 ''integer-set''" "plain_text 20 ''integer-range''"
  by code_simp+

lemma hd_last_upto:
  assumes "lo \<le> (hi::int)"
  shows "hd [lo..hi] = lo" "last [lo..hi] = hi"
proof -
  show "hd [lo..hi] = lo" using assms by (subst upto_rec1) simp_all
  show "last [lo..hi] = hi" using assms by (subst upto_rec2) simp_all
qed

lemma wf_domain_sorted: "wf_domain d \<Longrightarrow> sorted (dom_values d) \<and> distinct (dom_values d)"
  by (metis distinct_upto sorted_upto wf_domain_def)

lemma wf_domain_range:
  "wf_domain \<lparr>dom_kind = ''integer-range'', dom_values = [lo..hi]\<rparr> \<longleftrightarrow>
     lo \<le> hi \<and> hi - lo + 1 \<le> 256 \<and> wf_scalar lo \<and> wf_scalar hi"
proof (cases "lo \<le> hi")
  case True
  then show ?thesis
    by (auto simp: wf_domain_def hd_last_upto list_all_iff wf_scalar_def)
qed (simp add: wf_domain_def)

lemma wf_domain_cases:
  assumes "wf_domain d"
  obtains (set) vs where "d = \<lparr>dom_kind = ''integer-set'', dom_values = vs\<rparr>" "vs \<noteq> []"
      "length vs \<le> 256" "list_all wf_scalar vs" "sorted vs" "distinct vs"
    | (range) lo hi where "d = \<lparr>dom_kind = ''integer-range'', dom_values = [lo..hi]\<rparr>" "lo \<le> hi"
      "hi - lo + 1 \<le> 256" "wf_scalar lo" "wf_scalar hi"
proof (cases "dom_kind d = ''integer-set''")
  case True
  then show ?thesis using assms by (intro set[of "dom_values d"]) (auto simp: wf_domain_def)
next
  case False
  let ?lo = "hd (dom_values d)" and ?hi = "last (dom_values d)"
  have d: "d = \<lparr>dom_kind = ''integer-range'', dom_values = [?lo..?hi]\<rparr>"
    using assms False by (cases d) (simp add: wf_domain_def)
  have "wf_domain \<lparr>dom_kind = ''integer-range'', dom_values = [?lo..?hi]\<rparr>"
    using assms d by (rule subst[where P = wf_domain, rotated])
  then have "?lo \<le> ?hi \<and> ?hi - ?lo + 1 \<le> 256 \<and> wf_scalar ?lo \<and> wf_scalar ?hi"
    by (simp only: wf_domain_range)
  then show ?thesis using range[OF d] by blast
qed

interpretation domain_codec: codec parse_domain domain_to_dict wf_domain
proof (unfold_locales, goal_cases)
  case (1 d)
  then show ?case
  proof (cases rule: wf_domain_cases)
    case (set vs)
    then show ?thesis
      by (simp add: parse_domain_def domain_to_dict_def get_Cons only_keys_same plain_domain_kinds
          scalar_codec.mapR_enc sort_remdups_fix eq_commute[of vs])
  next
    case (range lo hi)
    then show ?thesis
      by (simp add: parse_domain_def domain_to_dict_def get_Cons only_keys_same plain_domain_kinds
          leaf_simps hd_last_upto)
  qed
next
  case (2 j d)
  then obtain item where j: "j = JObj item" by (auto simp: parse_domain_def result_simps)
  show ?case
  proof (cases "get item ''kind'' = JStr ''integer-set''")
    case True
    then show ?thesis using 2 j
      by (clarsimp simp: parse_domain_def result_simps wf_domain_def
          sort_remdups_fix eq_commute[of _ "sort _"])
        (metis mapR_length scalar_codec.mapR_wf)
  next
    case False
    then show ?thesis using 2 j
      by (clarsimp simp: parse_domain_def result_simps wf_domain_range not_less split: if_splits)
  qed
next
  case (3 j d)
  then obtain item where j: "j = JObj item" by (auto simp: parse_domain_def result_simps)
  show ?case
  proof (cases "get item ''kind'' = JStr ''integer-set''")
    case True
    then show ?thesis using 3 j
      by (clarsimp simp: parse_domain_def domain_to_dict_def result_simps)
        (frule (1) wf_get_JArr, rule py_eq_objI; simp add: scalar_codec.mapR_canonical)
  next
    case False
    then show ?thesis using 3 j
      by (clarsimp simp: parse_domain_def domain_to_dict_def result_simps hd_last_upto not_less
          split: if_splits) (rule py_eq_objI; simp)
  qed
qed (simp add: domain_to_dict_def wf_json.simps list_all_iff)

interpretation variable_codec: codec parse_variable variable_to_dict wf_variable
proof (unfold_locales, goal_cases)
  case (1 v)
  then show ?case
    by (simp add: parse_variable_def variable_to_dict_def wf_variable_def get_Cons only_keys_same
        leaf_simps domain_codec.parse_enc)
next
  case (2 j v)
  then show ?case
    by (clarsimp simp: parse_variable_def wf_variable_def result_simps domain_codec.parse_wf)
next
  case (3 j v)
  then show ?case
    by (clarsimp simp: parse_variable_def variable_to_dict_def result_simps)
      (rule py_eq_objI; simp add: domain_codec.parse_canonical)
qed (simp add: variable_to_dict_def wf_json.simps domain_codec.enc_wf_json)

section \<open>Linear terms\<close>

text \<open>\<open>variable_domains\<close>: the declared values of each variable of the problem.\<close>

type_synonym domains = "string \<rightharpoonup> int list"

definition variable_domains :: "solver_variable list \<Rightarrow> domains" where
  "variable_domains vs = map_of (map (\<lambda>v. (variable_id v, dom_values (var_domain v))) vs)"

definition in_domain :: "domains \<Rightarrow> string \<Rightarrow> int \<Rightarrow> bool" where
  "in_domain doms v x = (case doms v of None \<Rightarrow> False | Some xs \<Rightarrow> x \<in> set xs)"

definition known :: "domains \<Rightarrow> string \<Rightarrow> bool" where
  "known doms v = (doms v \<noteq> None)"

definition parse_term :: "domains \<Rightarrow> json \<Rightarrow> linear_term result" where
  "parse_term doms j = bindR (object_value j) (\<lambda>item.
     bindR (only_keys item [''variable_id'', ''coefficient'']) (\<lambda>_.
     bindR (parse_symbol (get item ''variable_id'')) (\<lambda>v.
     bindR (require (known doms v) (SolverContractError UnknownVariable)) (\<lambda>_.
     bindR (scalar (get item ''coefficient'')) (\<lambda>c.
     bindR (require (c \<noteq> 0) (SolverContractError ZeroCoefficient)) (\<lambda>_.
     Inr \<lparr>term_variable = v, coefficient = c\<rparr>))))))"

definition wf_term :: "domains \<Rightarrow> linear_term \<Rightarrow> bool" where
  "wf_term doms t = (wf_symbol (term_variable t) \<and> known doms (term_variable t) \<and>
     wf_scalar (coefficient t) \<and> coefficient t \<noteq> 0)"

definition parse_terms :: "domains \<Rightarrow> json \<Rightarrow> linear_term list result" where
  "parse_terms doms j = bindR (array_value 16 j) (\<lambda>raw.
     bindR (require (raw \<noteq> []) (SolverContractError EmptyList)) (\<lambda>_.
     bindR (mapR (parse_term doms) raw) (\<lambda>terms.
     bindR (require (terms = sort_key term_variable terms \<and> distinct (map term_variable terms))
       (SolverContractError NotSortedUnique)) (\<lambda>_.
     Inr terms))))"

definition terms_to_json :: "linear_term list \<Rightarrow> json" where
  "terms_to_json ts = JArr (map term_to_dict ts)"

definition wf_terms :: "domains \<Rightarrow> linear_term list \<Rightarrow> bool" where
  "wf_terms doms ts = (ts \<noteq> [] \<and> length ts \<le> 16 \<and> list_all (wf_term doms) ts \<and>
     sorted_wrt (<) (map term_variable ts))"

lemma strict_sort_key: "xs = sort_key f xs \<and> distinct (map f xs) \<longleftrightarrow> sorted_wrt (<) (map f xs)"
  by (metis sort_key_fix strict_sorted_iff)

interpretation term_codec: codec "parse_term doms" term_to_dict "wf_term doms" for doms
proof (unfold_locales, goal_cases)
  case (1 t)
  then show ?case
    by (simp add: parse_term_def term_to_dict_def wf_term_def get_Cons only_keys_same leaf_simps)
next
  case (2 j t)
  then show ?case by (clarsimp simp: parse_term_def wf_term_def result_simps)
next
  case (3 j t)
  then show ?case
    by (clarsimp simp: parse_term_def term_to_dict_def result_simps) (rule py_eq_objI; simp)
qed (simp add: term_to_dict_def wf_json.simps)

interpretation terms_codec: codec "parse_terms doms" terms_to_json "wf_terms doms" for doms
proof (unfold_locales, goal_cases)
  case (1 ts)
  then show ?case
    by (simp add: parse_terms_def terms_to_json_def wf_terms_def term_codec.mapR_enc strict_sort_key)
next
  case (2 j ts)
  then show ?case
    by (clarsimp simp: parse_terms_def wf_terms_def result_simps strict_sort_key
        term_codec.mapR_wf) (use mapR_length in fastforce)
next
  case (3 j ts)
  then show ?case
    by (clarsimp simp: parse_terms_def terms_to_json_def result_simps term_codec.mapR_canonical)
qed (simp add: terms_to_json_def list_all_iff term_codec.enc_wf_json)

section \<open>Constraints\<close>

definition parse_variable_ids :: "domains \<Rightarrow> nat \<Rightarrow> json \<Rightarrow> string list result" where
  "parse_variable_ids doms minimum j = bindR (array_value 16 j) (\<lambda>raw.
     bindR (mapR parse_symbol raw) (\<lambda>ids.
     bindR (require (\<not> (length ids < minimum \<or> \<not> distinct ids \<or> ids \<noteq> sort ids))
       (SolverContractError NotSortedUnique)) (\<lambda>_.
     bindR (require (list_all (known doms) ids) (SolverContractError UnknownVariable)) (\<lambda>_.
     Inr ids))))"

definition wf_variable_ids :: "domains \<Rightarrow> nat \<Rightarrow> string list \<Rightarrow> bool" where
  "wf_variable_ids doms minimum ids = (minimum \<le> length ids \<and> length ids \<le> 16 \<and>
     sorted_wrt (<) ids \<and> list_all wf_symbol ids \<and> list_all (known doms) ids)"

interpretation variable_ids_codec:
  codec "parse_variable_ids doms n" "\<lambda>ids. JArr (map JStr ids)" "wf_variable_ids doms n" for doms n
proof (unfold_locales, goal_cases)
  case (1 ids)
  then show ?case
    by (simp add: parse_variable_ids_def wf_variable_ids_def symbol_codec.mapR_enc
        strict_sorted_iff sorted_sort_id not_less)
next
  case (2 j ids)
  then show ?case
    by (clarsimp simp: parse_variable_ids_def wf_variable_ids_def result_simps
        symbol_codec.mapR_wf strict_sorted_iff not_less) (metis mapR_length sorted_sort)
next
  case (3 j ids)
  then show ?case
    by (clarsimp simp: parse_variable_ids_def result_simps symbol_codec.mapR_canonical)
qed (simp add: list_all_iff)

definition parse_row :: "domains \<Rightarrow> string list \<Rightarrow> json \<Rightarrow> int list result" where
  "parse_row doms vars j = bindR (array_value 16 j) (\<lambda>items.
     bindR (require (length items = length vars) (SolverContractError BadArity)) (\<lambda>_.
     bindR (mapR scalar items) (\<lambda>row.
     bindR (require (list_all (\<lambda>(v, x). in_domain doms v x) (zip vars row))
       (SolverContractError OutOfDomain)) (\<lambda>_.
     Inr row))))"

definition row_to_json :: "int list \<Rightarrow> json" where
  "row_to_json row = JArr (map JInt row)"

definition wf_row :: "domains \<Rightarrow> string list \<Rightarrow> int list \<Rightarrow> bool" where
  "wf_row doms vars row = (length row = length vars \<and> length row \<le> 16 \<and> list_all wf_scalar row \<and>
     list_all (\<lambda>(v, x). in_domain doms v x) (zip vars row))"

interpretation row_codec: codec "parse_row doms vars" row_to_json "wf_row doms vars" for doms vars
proof (unfold_locales, goal_cases)
  case (1 row)
  then show ?case
    by (simp add: parse_row_def row_to_json_def wf_row_def scalar_codec.mapR_enc)
next
  case (2 j row)
  then show ?case
    by (clarsimp simp: parse_row_def wf_row_def result_simps)
      (metis mapR_length scalar_codec.mapR_wf)
next
  case (3 j row)
  then show ?case
    by (clarsimp simp: parse_row_def row_to_json_def result_simps scalar_codec.mapR_canonical)
qed (simp add: row_to_json_def list_all_iff)

definition parse_literal :: "domains \<Rightarrow> solver_problem_profile \<Rightarrow> json \<Rightarrow> clause_literal result" where
  "parse_literal doms prof j = bindR (object_value j) (\<lambda>item.
     bindR (only_keys item [''variable_id'', ''equals'']) (\<lambda>_.
     bindR (parse_symbol (get item ''variable_id'')) (\<lambda>v.
     bindR (require (known doms v) (SolverContractError UnknownVariable)) (\<lambda>_.
     bindR (scalar (get item ''equals'')) (\<lambda>x.
     bindR (require (in_domain doms v x) (SolverContractError OutOfDomain)) (\<lambda>_.
     bindR (require (\<not> (prof = BOOLEAN_SAT \<and> x \<noteq> 0 \<and> x \<noteq> 1)) (SolverContractError OutOfDomain)) (\<lambda>_.
     Inr \<lparr>literal_variable = v, equals = x\<rparr>)))))))"

definition wf_literal :: "domains \<Rightarrow> solver_problem_profile \<Rightarrow> clause_literal \<Rightarrow> bool" where
  "wf_literal doms prof l = (wf_symbol (literal_variable l) \<and> wf_scalar (equals l) \<and>
     in_domain doms (literal_variable l) (equals l) \<and>
     \<not> (prof = BOOLEAN_SAT \<and> equals l \<noteq> 0 \<and> equals l \<noteq> 1))"

lemma in_domain_known: "in_domain doms v x \<Longrightarrow> known doms v"
  by (auto simp: in_domain_def known_def split: option.splits)

interpretation literal_codec: codec "parse_literal doms prof" literal_to_dict "wf_literal doms prof"
  for doms prof
proof (unfold_locales, goal_cases)
  case (1 l)
  then have "known doms (literal_variable l)" by (auto simp: wf_literal_def in_domain_known)
  with 1 show ?case
    by (simp add: parse_literal_def literal_to_dict_def wf_literal_def get_Cons only_keys_same
        leaf_simps)
next
  case (2 j l)
  then show ?case by (clarsimp simp: parse_literal_def wf_literal_def result_simps)
next
  case (3 j l)
  then show ?case
    by (clarsimp simp: parse_literal_def literal_to_dict_def result_simps) (rule py_eq_objI; simp)
qed (simp add: literal_to_dict_def wf_json.simps)

definition literal_key :: "clause_literal \<Rightarrow> string \<times> int" where
  "literal_key l = (literal_variable l, equals l)"

definition parse_linear :: "domains \<Rightarrow> string \<Rightarrow> (string \<times> json) list \<Rightarrow> solver_constraint result" where
  "parse_linear doms identifier item =
     bindR (only_keys item [''constraint_id'', ''constraint_type'', ''terms'', ''relation'',
       ''right_hand_side'']) (\<lambda>_.
     bindR (parse_terms doms (get item ''terms'')) (\<lambda>terms.
     bindR (enum_value relation_value linear_relation_members (get item ''relation'')) (\<lambda>rel.
     bindR (scalar (get item ''right_hand_side'')) (\<lambda>rhs.
     Inr (LinearConstraint identifier terms rel rhs)))))"

definition parse_all_different ::
  "domains \<Rightarrow> string \<Rightarrow> (string \<times> json) list \<Rightarrow> solver_constraint result" where
  "parse_all_different doms identifier item =
     bindR (only_keys item [''constraint_id'', ''constraint_type'', ''variable_ids'']) (\<lambda>_.
     bindR (parse_variable_ids doms 2 (get item ''variable_ids'')) (\<lambda>vars.
     Inr (AllDifferentConstraint identifier vars)))"

definition parse_table :: "domains \<Rightarrow> string \<Rightarrow> (string \<times> json) list \<Rightarrow> solver_constraint result" where
  "parse_table doms identifier item =
     bindR (only_keys item [''constraint_id'', ''constraint_type'', ''variable_ids'', ''mode'',
       ''rows'']) (\<lambda>_.
     bindR (parse_variable_ids doms 1 (get item ''variable_ids'')) (\<lambda>vars.
     bindR (enum_value table_mode_value table_mode_members (get item ''mode'')) (\<lambda>mode.
     bindR (array_value 4096 (get item ''rows'')) (\<lambda>raw_rows.
     bindR (mapR (parse_row doms vars) raw_rows) (\<lambda>rows.
     bindR (require (rows = sort (remdups rows)) (SolverContractError NotSortedUnique)) (\<lambda>_.
     Inr (TableConstraint identifier vars mode rows)))))))"

text \<open>\<open>sorted(set(literals), key=...)\<close>: duplicates are removed before sorting.\<close>

definition parse_clause :: "domains \<Rightarrow> solver_problem_profile \<Rightarrow> string \<Rightarrow>
    (string \<times> json) list \<Rightarrow> solver_constraint result" where
  "parse_clause doms prof identifier item =
     bindR (only_keys item [''constraint_id'', ''constraint_type'', ''literals'']) (\<lambda>_.
     bindR (array_value 16 (get item ''literals'')) (\<lambda>raw.
     bindR (require (raw \<noteq> []) (SolverContractError EmptyList)) (\<lambda>_.
     bindR (mapR (parse_literal doms prof) raw) (\<lambda>literals.
     bindR (require (literals = sort_key literal_key (remdups literals))
       (SolverContractError NotSortedUnique)) (\<lambda>_.
     Inr (ClauseConstraint identifier literals))))))"

definition parse_non_overlap :: "domains \<Rightarrow> solver_problem_profile \<Rightarrow> string \<Rightarrow>
    (string \<times> json) list \<Rightarrow> solver_constraint result" where
  "parse_non_overlap doms prof identifier item =
     bindR (only_keys item [''constraint_id'', ''constraint_type'', ''left_start'',
       ''left_duration'', ''right_start'', ''right_duration'']) (\<lambda>_.
     bindR (require (prof = FINITE_SCHEDULING) (SolverContractError BadNonOverlap)) (\<lambda>_.
     bindR (parse_symbol (get item ''left_start'')) (\<lambda>left.
     bindR (parse_symbol (get item ''right_start'')) (\<lambda>right.
     bindR (require (\<not> (left = right \<or> \<not> known doms left \<or> \<not> known doms right))
       (SolverContractError BadNonOverlap)) (\<lambda>_.
     bindR (integer_value 1 max_scalar_value (get item ''left_duration'')) (\<lambda>ld.
     bindR (integer_value 1 max_scalar_value (get item ''right_duration'')) (\<lambda>rd.
     Inr (NonOverlapConstraint identifier left ld right rd))))))))"

definition parse_constraint ::
  "domains \<Rightarrow> solver_problem_profile \<Rightarrow> json \<Rightarrow> solver_constraint result" where
  "parse_constraint doms prof j = bindR (object_value j) (\<lambda>item.
     bindR (parse_symbol (get item ''constraint_id'')) (\<lambda>identifier.
     bindR (enum_value constraint_kind_value solver_constraint_kind_members
       (get item ''constraint_type'')) (\<lambda>kind.
     (case kind of
        LINEAR \<Rightarrow> parse_linear doms identifier item
      | ALL_DIFFERENT \<Rightarrow> parse_all_different doms identifier item
      | TABLE \<Rightarrow> parse_table doms identifier item
      | CLAUSE \<Rightarrow> parse_clause doms prof identifier item
      | NON_OVERLAP \<Rightarrow> parse_non_overlap doms prof identifier item))))"

lemmas constraint_parsers =
  parse_linear_def parse_all_different_def parse_table_def parse_clause_def parse_non_overlap_def

fun wf_constraint :: "domains \<Rightarrow> solver_problem_profile \<Rightarrow> solver_constraint \<Rightarrow> bool" where
  "wf_constraint doms prof (LinearConstraint i ts rel rhs) =
     (wf_symbol i \<and> wf_terms doms ts \<and> wf_scalar rhs)"
| "wf_constraint doms prof (AllDifferentConstraint i vs) =
     (wf_symbol i \<and> wf_variable_ids doms 2 vs)"
| "wf_constraint doms prof (TableConstraint i vs m rows) =
     (wf_symbol i \<and> wf_variable_ids doms 1 vs \<and> length rows \<le> 4096 \<and>
      list_all (wf_row doms vs) rows \<and> sorted rows \<and> distinct rows)"
| "wf_constraint doms prof (ClauseConstraint i ls) =
     (wf_symbol i \<and> ls \<noteq> [] \<and> length ls \<le> 16 \<and> list_all (wf_literal doms prof) ls \<and>
      sorted (map literal_key ls) \<and> distinct ls)"
| "wf_constraint doms prof (NonOverlapConstraint i l ld r rd) =
     (wf_symbol i \<and> prof = FINITE_SCHEDULING \<and> wf_symbol l \<and> wf_symbol r \<and> l \<noteq> r \<and>
      known doms l \<and> known doms r \<and> 1 \<le> ld \<and> ld \<le> max_scalar_value \<and>
      1 \<le> rd \<and> rd \<le> max_scalar_value)"

lemma literal_key_inject: "literal_key k = literal_key l \<longleftrightarrow> k = l"
  by (cases k; cases l) (auto simp: literal_key_def)

lemmas constraint_enc_simps =
  get_Cons only_keys_same leaf_simps constraint_kind_enum.enum_value_val
  relation_enum.enum_value_val table_mode_enum.enum_value_val
  terms_codec.parse_enc[unfolded terms_to_json_def] variable_ids_codec.parse_enc
  row_codec.mapR_enc[unfolded row_to_json_def] literal_codec.mapR_enc
  sort_remdups_fix[THEN iffD2] sort_key_remdups_fix

lemma parse_constraint_enc: "wf_constraint doms prof c \<Longrightarrow>
    parse_constraint doms prof (constraint_to_dict c) = Inr c"
  by (cases c) (simp_all add: parse_constraint_def constraint_parsers constraint_enc_simps)

lemma parse_constraint_wf:
  assumes "parse_constraint doms prof j = Inr c"
  shows "wf_constraint doms prof c"
proof -
  obtain item i k where j: "j = JObj item" and i: "wf_symbol i"
    and k: "(case k of LINEAR \<Rightarrow> parse_linear doms i item
      | ALL_DIFFERENT \<Rightarrow> parse_all_different doms i item | TABLE \<Rightarrow> parse_table doms i item
      | CLAUSE \<Rightarrow> parse_clause doms prof i item
      | NON_OVERLAP \<Rightarrow> parse_non_overlap doms prof i item) = Inr c"
    using assms by (clarsimp simp: parse_constraint_def result_simps)
  then show ?thesis
    by (cases k) (clarsimp simp: constraint_parsers result_simps terms_codec.parse_wf
        variable_ids_codec.parse_wf sort_key_remdups_fix literal_codec.mapR_wf row_codec.mapR_wf
        sort_remdups_fix eq_commute[of _ "sort _"]; use mapR_length in fastforce)+
qed

lemma parse_constraint_canonical:
  assumes "parse_constraint doms prof j = Inr c" and "wf_json j"
  shows "py_eq (constraint_to_dict c) j"
proof -
  obtain item i k where j: "j = JObj item" and wf: "wf_json (JObj item)"
    and i: "get item ''constraint_id'' = JStr i"
    and kind: "get item ''constraint_type'' = JStr (constraint_kind_value k)"
    and k: "(case k of LINEAR \<Rightarrow> parse_linear doms i item
      | ALL_DIFFERENT \<Rightarrow> parse_all_different doms i item | TABLE \<Rightarrow> parse_table doms i item
      | CLAUSE \<Rightarrow> parse_clause doms prof i item
      | NON_OVERLAP \<Rightarrow> parse_non_overlap doms prof i item) = Inr c"
    using assms
    by (clarsimp simp: parse_constraint_def result_simps constraint_kind_enum.enum_value_iff)
  show ?thesis
  proof (cases k)
    case LINEAR
    then show ?thesis using k wf i kind
      by (clarsimp simp: j constraint_parsers result_simps relation_enum.enum_value_iff)
        (rule py_eq_objI; simp add: terms_codec.parse_canonical[unfolded terms_to_json_def])
  next
    case ALL_DIFFERENT
    then show ?thesis using k wf i kind
      by (clarsimp simp: j constraint_parsers result_simps)
        (rule py_eq_objI; simp add: variable_ids_codec.parse_canonical)
  next
    case TABLE
    then show ?thesis using k wf i kind
      by (clarsimp simp: j constraint_parsers result_simps table_mode_enum.enum_value_iff)
        (frule (1) wf_get_JArr[where k = "''rows''"],
         rule py_eq_objI; simp add: variable_ids_codec.parse_canonical
           row_codec.mapR_canonical[unfolded row_to_json_def])
  next
    case CLAUSE
    then show ?thesis using k wf i kind
      by (clarsimp simp: j constraint_parsers result_simps)
        (frule (1) wf_get_JArr[where k = "''literals''"],
         rule py_eq_objI; simp add: literal_codec.mapR_canonical)
  next
    case NON_OVERLAP
    then show ?thesis using k wf i kind
      by (clarsimp simp: j constraint_parsers result_simps) (rule py_eq_objI; simp)
  qed
qed

lemma constraint_wf_json: "wf_json (constraint_to_dict c)"
  by (cases c) (simp_all add: wf_json.simps list_all_iff term_codec.enc_wf_json
      literal_codec.enc_wf_json)

interpretation constraint_codec:
  codec "parse_constraint doms prof" constraint_to_dict "wf_constraint doms prof" for doms prof
  by unfold_locales (simp_all add: parse_constraint_enc parse_constraint_wf
      parse_constraint_canonical constraint_wf_json)

section \<open>Objectives and problems\<close>

definition parse_objective :: "domains \<Rightarrow> json \<Rightarrow> solver_objective result" where
  "parse_objective doms j = bindR (object_value j) (\<lambda>item.
     bindR (only_keys item [''direction'', ''terms'', ''constant'']) (\<lambda>_.
     bindR (enum_value direction_value objective_direction_members (get item ''direction'')) (\<lambda>d.
     bindR (parse_terms doms (get item ''terms'')) (\<lambda>terms.
     bindR (scalar (get item ''constant'')) (\<lambda>c.
     Inr \<lparr>direction = d, obj_terms = terms, obj_constant = c\<rparr>)))))"

definition wf_objective :: "domains \<Rightarrow> solver_objective \<Rightarrow> bool" where
  "wf_objective doms q = (wf_terms doms (obj_terms q) \<and> wf_scalar (obj_constant q))"

interpretation objective_codec: codec "parse_objective doms" objective_to_dict "wf_objective doms"
  for doms
proof (unfold_locales, goal_cases)
  case (1 q)
  then show ?case
    by (simp add: parse_objective_def objective_to_dict_def wf_objective_def get_Cons only_keys_same
        leaf_simps direction_enum.enum_value_val terms_codec.parse_enc[unfolded terms_to_json_def])
next
  case (2 j q)
  then show ?case
    by (clarsimp simp: parse_objective_def wf_objective_def result_simps terms_codec.parse_wf)
next
  case (3 j q)
  then show ?case
    by (clarsimp simp: parse_objective_def objective_to_dict_def result_simps
        direction_enum.enum_value_iff)
      (rule py_eq_objI; simp add: terms_codec.parse_canonical[unfolded terms_to_json_def])
qed (simp add: objective_to_dict_def wf_json.simps terms_codec.enc_wf_json[unfolded terms_to_json_def, simplified])

definition parse_problem :: "json \<Rightarrow> solver_problem result" where
  "parse_problem j = bindR (object_value j) (\<lambda>item.
     bindR (only_keys item [''problem_kind'', ''profile'', ''variables'', ''constraints'',
       ''objective'']) (\<lambda>_.
     bindR (enum_value problem_kind_value solver_problem_kind_members (get item ''problem_kind'')) (\<lambda>kind.
     bindR (enum_value problem_profile_value solver_problem_profile_members (get item ''profile'')) (\<lambda>prof.
     bindR (require (\<not> (kind = OPTIMIZATION \<and> prof = BOOLEAN_SAT))
       (SolverContractError ProblemInconsistent)) (\<lambda>_.
     bindR (array_value 16 (get item ''variables'')) (\<lambda>raw_variables.
     bindR (require (raw_variables \<noteq> []) (SolverContractError EmptyList)) (\<lambda>_.
     bindR (mapR parse_variable raw_variables) (\<lambda>vars.
     bindR (require (vars = sort_key variable_id vars \<and> distinct (map variable_id vars))
       (SolverContractError NotSortedUnique)) (\<lambda>_.
     bindR (require (\<not> (prof = BOOLEAN_SAT \<and>
         list_ex (\<lambda>v. dom_values (var_domain v) \<noteq> [0, 1]) vars))
       (SolverContractError ProblemInconsistent)) (\<lambda>_.
     bindR (array_value 256 (get item ''constraints'')) (\<lambda>raw_constraints.
     bindR (mapR (parse_constraint (variable_domains vars) prof) raw_constraints) (\<lambda>cons.
     bindR (require (cons = sort_key constraint_id cons \<and> distinct (map constraint_id cons))
       (SolverContractError NotSortedUnique)) (\<lambda>_.
     bindR (optional_value (parse_objective (variable_domains vars)) (get item ''objective'')) (\<lambda>obj.
     bindR (require ((kind = FEASIBILITY) = (obj = None))
       (SolverContractError ProblemInconsistent)) (\<lambda>_.
     let problem = \<lparr>problem_kind = kind, profile = prof, variables = vars, constraints = cons,
                    objective = obj\<rparr>
     in bindR (require (\<not> search_space_size problem > 1000000)
          (SolverContractError SearchSpaceExceeded)) (\<lambda>_.
        Inr problem))))))))))))))))"

definition wf_problem :: "solver_problem \<Rightarrow> bool" where
  "wf_problem p = (\<not> (problem_kind p = OPTIMIZATION \<and> profile p = BOOLEAN_SAT) \<and>
     variables p \<noteq> [] \<and> length (variables p) \<le> 16 \<and> list_all wf_variable (variables p) \<and>
     sorted_wrt (<) (map variable_id (variables p)) \<and>
     (profile p = BOOLEAN_SAT \<longrightarrow> list_all (\<lambda>v. dom_values (var_domain v) = [0, 1]) (variables p)) \<and>
     length (constraints p) \<le> 256 \<and>
     list_all (wf_constraint (variable_domains (variables p)) (profile p)) (constraints p) \<and>
     sorted_wrt (<) (map constraint_id (constraints p)) \<and>
     pred_option (wf_objective (variable_domains (variables p))) (objective p) \<and>
     (problem_kind p = FEASIBILITY) = (objective p = None) \<and>
     search_space_size p \<le> 1000000)"

lemma objective_not_null: "objective_to_dict q \<noteq> JNull"
  by (simp add: objective_to_dict_def)

interpretation problem_codec: codec parse_problem problem_to_dict wf_problem
proof (unfold_locales, goal_cases)
  case (1 p)
  have eta: "\<lparr>problem_kind = problem_kind p, profile = profile p, variables = variables p,
      constraints = constraints p, objective = objective p\<rparr> = p" by simp
  from 1 have "\<not> (profile p = BOOLEAN_SAT \<and>
      list_ex (\<lambda>v. dom_values (var_domain v) \<noteq> [0, 1]) (variables p))"
    by (auto simp: wf_problem_def list_ex_iff list_all_iff)
  with 1 show ?case
    by (simp add: parse_problem_def problem_to_dict_def wf_problem_def get_Cons only_keys_same
        problem_kind_enum.enum_value_val problem_profile_enum.enum_value_val
        variable_codec.mapR_enc constraint_codec.mapR_enc strict_sort_key
        objective_codec.option_enc objective_not_null not_less Let_def eta)
next
  case (2 j p)
  then show ?case
    by (clarsimp simp: parse_problem_def wf_problem_def result_simps Let_def strict_sort_key
        variable_codec.mapR_wf constraint_codec.mapR_wf objective_codec.option_wf not_less)
      (auto simp: list_ex_iff list_all_iff dest!: mapR_length)
next
  case (3 j p)
  then show ?case
    by (clarsimp simp: parse_problem_def problem_to_dict_def result_simps Let_def
        problem_kind_enum.enum_value_iff problem_profile_enum.enum_value_iff)
      (frule (1) wf_get_JArr[where k = "''variables''"],
       frule (1) wf_get_JArr[where k = "''constraints''"],
       rule py_eq_objI; simp add: variable_codec.mapR_canonical constraint_codec.mapR_canonical
         objective_codec.option_canonical)
qed (simp add: problem_to_dict_def wf_json.simps list_all_iff variable_codec.enc_wf_json
    constraint_codec.enc_wf_json objective_codec.option_wf_json)

end
