(* ===== verification/RegistryContracts.thy ===== *)
theory RegistryContracts
  imports ProblemContracts
begin

text \<open>
  Identities of \<open>application/solver_contracts.py\<close> and its registry artifacts: content-addressed
  identifiers, the capability token that binds a request to a task-graph node, adapter
  definitions with their exactness rules, and the registry.
\<close>

section \<open>Identifiers\<close>

definition id_after :: "string \<Rightarrow> string \<Rightarrow> bool" where
  "id_after prefix s = (starts prefix s \<and> hex64 (drop (length prefix) s))"

definition solver_id :: "string \<Rightarrow> json \<Rightarrow> string result" where
  "solver_id prefix =
     matched_text (length prefix + 64) (id_after prefix) (SolverContractError BadIdentifier)"

definition wf_solver_id :: "string \<Rightarrow> string \<Rightarrow> bool" where
  "wf_solver_id prefix s = (plain_text (length prefix + 64) s \<and> id_after prefix s)"

definition pattern_id :: "(string \<Rightarrow> bool) \<Rightarrow> json \<Rightarrow> string result" where
  "pattern_id pattern = matched_text 128 pattern (SolverContractError BadIdentifier)"

definition wf_pattern :: "(string \<Rightarrow> bool) \<Rightarrow> string \<Rightarrow> bool" where
  "wf_pattern pattern s = (plain_text 128 s \<and> pattern s)"

definition stable_id :: "string \<Rightarrow> string \<Rightarrow> bool" where
  "stable_id prefix s = (starts prefix s \<and>
     (case drop (length prefix) s of
        [] \<Rightarrow> False
      | c # cs \<Rightarrow> (is_upper c \<or> is_digit c) \<and> length cs \<le> 63 \<and>
          list_all (\<lambda>d. is_upper d \<or> is_digit d \<or> d = CHR ''-'') cs))"

definition task_pattern :: "string \<Rightarrow> bool" where "task_pattern = stable_id ''TSK-''"
definition host_pattern :: "string \<Rightarrow> bool" where "host_pattern = stable_id ''HST-''"
definition graph_pattern :: "string \<Rightarrow> bool" where "graph_pattern = id_after ''M6-TASK-GRAPH-''"
definition context_pattern :: "string \<Rightarrow> bool" where "context_pattern = id_after ''CTX-SNAPSHOT-''"
definition lease_pattern :: "string \<Rightarrow> bool" where "lease_pattern = id_after ''M6-LEASE-''"
definition message_pattern :: "string \<Rightarrow> bool" where "message_pattern = id_after ''M6-MESSAGE-''"
definition idempotency_pattern :: "string \<Rightarrow> bool" where "idempotency_pattern = id_after ''IDEM-''"

definition version_pattern :: "string \<Rightarrow> bool" where
  "version_pattern s = (let parts = split_on (CHR ''.'') s in
     length parts = 3 \<and> list_all (\<lambda>p. p \<noteq> [] \<and> list_all is_digit p) parts)"

definition license_char :: "char \<Rightarrow> bool" where
  "license_char c = (is_alnum c \<or> c \<in> {CHR ''.'', CHR ''+'', CHR ''-''})"

definition license_pattern :: "string \<Rightarrow> bool" where
  "license_pattern s = (case s of [] \<Rightarrow> False
     | c # cs \<Rightarrow> is_alnum c \<and> length cs \<le> 63 \<and> list_all license_char cs)"

definition version_text :: "json \<Rightarrow> string result" where
  "version_text = matched_text 32 version_pattern (SolverContractError BadAdapter)"

definition license_text :: "json \<Rightarrow> string result" where
  "license_text = matched_text 64 license_pattern (SolverContractError BadAdapter)"

definition wf_version :: "string \<Rightarrow> bool" where
  "wf_version s = (plain_text 32 s \<and> version_pattern s)"

definition wf_license :: "string \<Rightarrow> bool" where
  "wf_license s = (plain_text 64 s \<and> license_pattern s)"

interpretation solver_id_codec: codec "solver_id p" JStr "wf_solver_id p" for p
  unfolding solver_id_def wf_solver_id_def[abs_def] by (rule codec_matched)

interpretation pattern_codec: codec "pattern_id p" JStr "wf_pattern p" for p
  unfolding pattern_id_def wf_pattern_def[abs_def] by (rule codec_matched)

interpretation version_codec: codec version_text JStr wf_version
  unfolding version_text_def wf_version_def[abs_def] by (rule codec_matched)

interpretation license_codec: codec license_text JStr wf_license
  unfolding license_text_def wf_license_def[abs_def] by (rule codec_matched)

lemma solver_id_iff [result_simps]: "solver_id p j = Inr s \<longleftrightarrow> j = JStr s \<and> wf_solver_id p s"
  by (auto simp: solver_id_def wf_solver_id_def matched_text_iff)

lemma pattern_id_iff [result_simps]: "pattern_id p j = Inr s \<longleftrightarrow> j = JStr s \<and> wf_pattern p s"
  by (auto simp: pattern_id_def wf_pattern_def matched_text_iff)

lemma version_text_iff [result_simps]: "version_text j = Inr s \<longleftrightarrow> j = JStr s \<and> wf_version s"
  by (auto simp: version_text_def wf_version_def matched_text_iff)

lemma license_text_iff [result_simps]: "license_text j = Inr s \<longleftrightarrow> j = JStr s \<and> wf_license s"
  by (auto simp: license_text_def wf_license_def matched_text_iff)

lemmas id_simps =
  solver_id_codec.parse_enc pattern_codec.parse_enc version_codec.parse_enc license_codec.parse_enc

section \<open>Content identities\<close>

fun type_prefix :: "solver_artifact_type \<Rightarrow> string" where
  "type_prefix REGISTRY = ''M7-SOLVER-REGISTRY-''"
| "type_prefix REQUEST = ''M7-SOLVER-REQUEST-''"
| "type_prefix RESULT = ''M7-SOLVER-RESULT-''"
| "type_prefix VERIFICATION = ''M7-SOLVER-VERIFICATION-''"

definition contract_prefix :: string where "contract_prefix = ''M7-SOLVER-CONTRACT-''"
definition token_prefix :: string where "token_prefix = ''m7-solver-v1@''"

text \<open>\<open>sha256_hex\<close> is \<open>hashlib.sha256(...).hexdigest().upper()\<close>.\<close>

definition content_digest :: "json \<Rightarrow> string result" where
  "content_digest content = bindR (canonical_json_bytes content) (\<lambda>bytes. Inr (sha256_hex bytes))"

definition solver_identity :: "solver_artifact_type \<Rightarrow> json \<Rightarrow> string result" where
  "solver_identity t content = bindR (content_digest content) (\<lambda>d. Inr (type_prefix t @ d))"

definition operational_contract_id :: "json \<Rightarrow> string result" where
  "operational_contract_id content = bindR (content_digest content) (\<lambda>d. Inr (contract_prefix @ d))"

text \<open>A computed identity passes its own syntax check: no secret shape hides in it.\<close>

lemma search_subset: "search p s \<Longrightarrow> (\<And>t. p t \<Longrightarrow> c \<in> set t) \<Longrightarrow> c \<in> set s"
  by (induction s) fastforce+

lemma starts_subset: "starts p s \<Longrightarrow> set p \<subseteq> set s"
  by (metis starts_def set_take_subset)

lemma secret_text_chars: "secret_text s \<Longrightarrow> CHR ''K'' \<in> set s \<or> CHR ''g'' \<in> set s \<or> CHR '' '' \<in> set s"
proof -
  have a: "access_key_at t \<Longrightarrow> CHR ''K'' \<in> set t" for t
    using starts_subset[of "''AKIA''" t] by (auto simp: access_key_at_def)
  have b: "host_token_at t \<Longrightarrow> CHR ''g'' \<in> set t" for t
    using starts_subset[of "''gh''" t] by (auto simp: host_token_at_def)
  have c: "private_key_at t \<Longrightarrow> CHR '' '' \<in> set t" for t
  proof -
    assume "private_key_at t"
    then obtain k where "starts (''-----BEGIN '' @ k @ ''PRIVATE KEY-----'') t"
      by (auto simp only: private_key_at_def list_ex_iff)
    then show ?thesis using starts_subset by fastforce
  qed
  show "secret_text s \<Longrightarrow> CHR ''K'' \<in> set s \<or> CHR ''g'' \<in> set s \<or> CHR '' '' \<in> set s"
    unfolding secret_text_def using search_subset[of _ s] a b c by blast
qed

lemma hex_digit_plain: "hex_digit c \<Longrightarrow> is_hex_upper c \<and> \<not> py_space c \<and> code c \<notin> {0, 10, 13} \<and>
    c \<noteq> CHR ''K'' \<and> c \<noteq> CHR ''g'' \<and> c \<noteq> CHR '' ''"
  by (auto simp: hex_digit_def is_hex_upper_def is_digit_def between_def py_space_def code_def Let_def)

definition id_prefix_ok :: "string \<Rightarrow> bool" where
  "id_prefix_ok p = list_all (\<lambda>c. \<not> py_space c \<and> code c \<notin> {0, 10, 13} \<and> c \<noteq> CHR ''K'' \<and>
     c \<noteq> CHR ''g'' \<and> c \<noteq> CHR '' '') p"

lemma digest_id_wf:
  assumes "id_prefix_ok p"
  shows "wf_solver_id p (p @ sha256_hex bytes)"
proof -
  let ?s = "p @ sha256_hex bytes"
  have chars: "\<not> py_space c \<and> code c \<notin> {0, 10, 13} \<and> c \<noteq> CHR ''K'' \<and> c \<noteq> CHR ''g'' \<and> c \<noteq> CHR '' ''"
    if "c \<in> set ?s" for c
    using that assms sha256_hex_shape(2)[of c bytes] hex_digit_plain[of c]
    by (auto simp: id_prefix_ok_def list_all_iff)
  have "sha256_hex bytes \<noteq> []" using sha256_hex_shape(1)[of bytes] by auto
  then have "\<not> list_all py_space ?s" using chars by (auto simp: list_all_iff neq_Nil_conv)
  moreover have "\<not> secret_text ?s" using chars secret_text_chars[of ?s] by blast
  moreover have "hex64 (sha256_hex bytes)"
    using sha256_hex_shape[where t = bytes] hex_digit_plain by (simp add: hex64_def list_all_iff)
  ultimately show ?thesis using chars sha256_hex_shape(1)[of bytes]
    by (simp add: wf_solver_id_def plain_text_def id_after_def starts_def list_all_iff)
qed

lemma type_prefix_ok: "id_prefix_ok (type_prefix t)"
proof -
  have "list_all (\<lambda>t. id_prefix_ok (type_prefix t)) solver_artifact_type_members" by code_simp
  then show ?thesis using artifact_type_enum.all_members by (simp add: list_all_iff)
qed

lemma contract_prefix_ok: "id_prefix_ok contract_prefix"
  by code_simp

lemma solver_identity_wf: "solver_identity t content = Inr i \<Longrightarrow> wf_solver_id (type_prefix t) i"
  by (auto simp: solver_identity_def content_digest_def result_simps digest_id_wf type_prefix_ok)

lemma operational_contract_id_wf:
  "operational_contract_id content = Inr i \<Longrightarrow> wf_solver_id contract_prefix i"
  by (auto simp: operational_contract_id_def content_digest_def result_simps digest_id_wf
      contract_prefix_ok)

section \<open>Capability tokens\<close>

definition solver_capability_token :: "solver_request \<Rightarrow> string" where
  "solver_capability_token r = token_prefix @ rq_contract_id r @ ''@'' @
     int_text (max_solve_steps (rq_policy r)) @ ''@'' @
     int_text (max_verification_steps (rq_policy r))"

definition canonical_count :: "string \<Rightarrow> bool" where
  "canonical_count p = (p \<noteq> [] \<and> list_all is_digit p \<and> \<not> starts ''0'' p)"

definition parse_solver_capability_token :: "string \<Rightarrow> (string \<times> int \<times> int) result" where
  "parse_solver_capability_token value =
     bindR (require (starts token_prefix value \<and> length value \<le> 500)
       (SolverContractError BadToken)) (\<lambda>_.
     (case split_on (CHR ''@'') (drop (length token_prefix) value) of
        [c, solve, verify] \<Rightarrow>
          bindR (solver_id contract_prefix (JStr c)) (\<lambda>contract_id.
          bindR (require (canonical_count solve \<and> canonical_count verify)
            (SolverContractError StepCountInvalid)) (\<lambda>_.
          let solve_steps = digits_value solve; verify_steps = digits_value verify in
          bindR (require (\<not> (\<not> (1 \<le> solve_steps \<and> solve_steps \<le> 1000000) \<or>
              \<not> (1 \<le> verify_steps \<and> verify_steps \<le> 1000000)))
            (SolverContractError StepCountInvalid)) (\<lambda>_.
          bindR (require (\<not> solve_steps + verify_steps > 2000000)
            (SolverContractError StepCountInvalid)) (\<lambda>_.
          Inr (contract_id, solve_steps, verify_steps)))))
      | _ \<Rightarrow> Inl (SolverContractError BadToken)))"

text \<open>Decimal text and its value are inverse on canonical counts.\<close>

lemma code_digit_char: "d < 10 \<Longrightarrow> code (digit_char d) = 48 + d"
  by (simp add: code_def digit_char_def)

lemma digit_char_code: "is_digit c \<Longrightarrow> digit_char (code c - 48) = c"
  by (simp add: is_digit_def between_def digit_char_def code_def)

lemma char_of_zero: "char_of (48 :: nat) = CHR ''0''"
  by code_simp

lemma digits_value_snoc: "digits_value (ds @ [c]) = 10 * digits_value ds + (int (code c) - 48)"
  by (simp add: digits_value_def)

lemma digits_value_Nil: "digits_value [] = 0"
  by (simp add: digits_value_def)

lemma nat_text_digits: "nat_text n \<noteq> [] \<and> list_all is_digit (nat_text n)"
proof (induction n rule: nat_text.induct)
  case (1 n)
  have "n < 10 \<Longrightarrow> is_digit (digit_char n)" and "is_digit (digit_char (n mod 10))"
    by (simp_all add: is_digit_def between_def code_digit_char)
  with 1 show ?case by (subst (1 2) nat_text.simps) simp
qed

lemma nat_text_hd: "1 \<le> n \<Longrightarrow> hd (nat_text n) \<noteq> CHR ''0''"
proof (induction n rule: nat_text.induct)
  case (1 n)
  show ?case
  proof (cases "n < 10")
    case True
    then have "code (digit_char n) \<noteq> code (CHR ''0'')" using 1 code_digit_char
      by (simp add: code_def)
    then show ?thesis using True by (subst nat_text.simps) auto
  next
    case False
    then show ?thesis using 1 nat_text_digits[of "n div 10"]
      by (subst nat_text.simps) (simp add: hd_append)
  qed
qed

lemma digits_value_nat_text: "digits_value (nat_text n) = int n"
proof (induction n rule: nat_text.induct)
  case (1 n)
  then show ?case
    by (subst nat_text.simps)
      (use digits_value_snoc[of "[]"] in
        \<open>simp add: digits_value_Nil digits_value_snoc code_digit_char zdiv_int zmod_int\<close>)
qed

lemma starts_Cons: "starts [c] s \<longleftrightarrow> s \<noteq> [] \<and> hd s = c"
  by (cases s) (auto simp: starts_def)

lemma canonical_nat_text: "1 \<le> n \<Longrightarrow> canonical_count (nat_text n)"
  using nat_text_digits nat_text_hd by (simp add: canonical_count_def starts_Cons)

lemma nat_text_value: "canonical_count p \<Longrightarrow> 1 \<le> digits_value p \<and> nat_text (nat (digits_value p)) = p"
proof (induction p rule: rev_induct)
  case Nil
  then show ?case by (simp add: canonical_count_def)
next
  case (snoc c ds)
  then have c: "48 \<le> code c" "code c \<le> 57" "is_digit c"
    by (auto simp: canonical_count_def is_digit_def between_def)
  show ?case
  proof (cases "ds = []")
    case True
    then have "c \<noteq> CHR ''0''" using snoc.prems by (auto simp: canonical_count_def starts_Cons)
    then have "code c \<noteq> 48" using digit_char_code[OF c(3)] char_of_zero
      by (auto simp: digit_char_def)
    moreover have "nat (digits_value [c]) = code c - 48" "digits_value [c] = int (code c) - 48"
      using c digits_value_snoc[of "[]" c] by (simp_all add: digits_value_Nil)
    moreover have "code c - 48 < 10" using c by simp
    ultimately show ?thesis using c True
      by (subst nat_text.simps) (simp add: digit_char_code)
  next
    case False
    then have "canonical_count ds" using snoc.prems
      by (auto simp: canonical_count_def starts_Cons)
    then have v: "1 \<le> digits_value ds" "nat_text (nat (digits_value ds)) = ds" using snoc.IH by auto
    have eq: "nat (digits_value (ds @ [c])) = 10 * nat (digits_value ds) + (code c - 48)"
      using v c by (simp add: digits_value_snoc nat_add_distrib nat_mult_distrib)
    have "1 \<le> digits_value (ds @ [c])" using v c by (simp add: digits_value_snoc)
    moreover have "nat_text (nat (digits_value (ds @ [c]))) = ds @ [c]"
    proof -
      obtain m d where m: "m = nat (digits_value ds)" "1 \<le> m" and d: "d = code c - 48" "d < 10"
        using v c by simp
      have "\<not> 10 * m + d < 10" "(10 * m + d) div 10 = m" "(10 * m + d) mod 10 = d" using m d by auto
      moreover have "nat_text m = ds" "digit_char d = c" using v c m d by (simp_all add: digit_char_code)
      ultimately show ?thesis unfolding eq m(1)[symmetric] d(1)[symmetric]
        by (subst nat_text.simps) simp
    qed
    ultimately show ?thesis by simp
  qed
qed

lemma split_on_sep: "sep \<notin> set a \<Longrightarrow> split_on sep (a @ sep # b) = a # split_on sep b"
  by (induction a) auto

lemma split_on_none: "sep \<notin> set a \<Longrightarrow> split_on sep a = [a]"
  by (induction a) auto

lemma join_text_Cons: "join_text sep ((c # w) # ws) = c # join_text sep (w # ws)"
  by (cases ws) simp_all

lemma split_on_not_Nil: "split_on sep s \<noteq> []"
  by (induction s) (auto split: list.splits)

lemma split_on_join: "join_text [sep] (split_on sep s) = s"
proof (induction s)
  case (Cons a s)
  then show ?case using split_on_not_Nil[of sep s]
    by (cases "split_on sep s") (auto simp: join_text_Cons)
qed simp

lemma digits_not_at: "list_all is_digit s \<Longrightarrow> CHR ''@'' \<notin> set s"
  by (auto simp: list_all_iff is_digit_def between_def code_def)

text \<open>The texts a token may carry, and the token they make.\<close>

definition wf_token :: "string \<Rightarrow> int \<Rightarrow> int \<Rightarrow> bool" where
  "wf_token c a b = (wf_solver_id contract_prefix c \<and> 1 \<le> a \<and> a \<le> 1000000 \<and> 1 \<le> b \<and> b \<le> 1000000)"

definition token_text :: "string \<Rightarrow> int \<Rightarrow> int \<Rightarrow> string" where
  "token_text c a b = token_prefix @ c @ ''@'' @ int_text a @ ''@'' @ int_text b"

lemma id_after_not_at: "id_after contract_prefix c \<Longrightarrow> CHR ''@'' \<notin> set c"
proof -
  assume "id_after contract_prefix c"
  then obtain d where c: "c = contract_prefix @ d" and d: "hex64 d"
    by (metis append_take_drop_id id_after_def starts_def)
  have "CHR ''@'' \<notin> set d" using d
    by (auto simp: hex64_def list_all_iff is_hex_upper_def is_digit_def between_def code_def)
  then show ?thesis by (simp add: c contract_prefix_def)
qed

lemma id_after_length: "id_after p c \<Longrightarrow> length c = length p + 64"
  by (metis append_take_drop_id hex64_def id_after_def length_append starts_def)

lemma int_text_pos: "1 \<le> a \<Longrightarrow> int_text a = nat_text (nat a) \<and> canonical_count (int_text a)"
  by (simp add: int_text_def canonical_nat_text)

lemma nat_text_length: "1 \<le> k \<Longrightarrow> n < 10 ^ k \<Longrightarrow> length (nat_text n) \<le> k"
proof (induction n arbitrary: k rule: nat_text.induct)
  case (1 n)
  show ?case
  proof (cases "n < 10")
    case True
    then show ?thesis using 1 by (simp add: nat_text.simps)
  next
    case False
    then obtain m where k: "k = Suc m" "1 \<le> m" using 1 by (cases k; cases "k = 1") auto
    then have "n div 10 < 10 ^ m" using 1 by (simp add: div_less_iff_less_mult)
    then have "length (nat_text (n div 10)) \<le> m" using 1 False k by blast
    then show ?thesis using False k by (subst nat_text.simps) simp
  qed
qed

lemma parse_token_text:
  assumes "wf_token c a b"
  shows "parse_solver_capability_token (token_text c a b) = Inr (c, a, b)"
proof -
  have c: "CHR ''@'' \<notin> set c" "length c = length contract_prefix + 64"
    using assms id_after_not_at id_after_length by (auto simp: wf_token_def wf_solver_id_def)
  have a: "int_text a = nat_text (nat a)" "canonical_count (int_text a)"
    and b: "int_text b = nat_text (nat b)" "canonical_count (int_text b)"
    using assms int_text_pos unfolding wf_token_def by blast+
  have "length (int_text a) \<le> 7" "length (int_text b) \<le> 7"
    using assms nat_text_length[of 7 "nat a"] nat_text_length[of 7 "nat b"] a b
    by (auto simp: wf_token_def)
  then have len: "length (token_text c a b) \<le> 500"
    using c by (simp add: token_text_def token_prefix_def contract_prefix_def)
  have st: "starts token_prefix (token_text c a b)" by (simp add: starts_def token_text_def)
  have "split_on (CHR ''@'') (drop (length token_prefix) (token_text c a b)) =
      [c, int_text a, int_text b]"
    using c a b digits_not_at
    by (simp add: token_text_def split_on_sep split_on_none canonical_count_def)
  then show ?thesis using st len a b assms
    by (simp add: parse_solver_capability_token_def wf_token_def id_simps digits_value_nat_text
        Let_def)
qed

lemma parse_token_sound:
  assumes "parse_solver_capability_token t = Inr (c, a, b)"
  shows "wf_token c a b \<and> t = token_text c a b"
proof -
  obtain p q where st: "starts token_prefix t"
    and sp: "split_on (CHR ''@'') (drop (length token_prefix) t) = [c, p, q]"
    and w: "wf_solver_id contract_prefix c" and pq: "canonical_count p" "canonical_count q"
    and ab: "a = digits_value p" "b = digits_value q" "a \<le> 1000000" "b \<le> 1000000"
    using assms
    by (clarsimp simp: parse_solver_capability_token_def result_simps Let_def
        split: list.splits)
  have ia: "1 \<le> a" "1 \<le> b" "int_text a = p" "int_text b = q"
    using nat_text_value[OF pq(1)] nat_text_value[OF pq(2)] ab by (auto simp: int_text_def)
  have "drop (length token_prefix) t = c @ ''@'' @ p @ ''@'' @ q"
    using split_on_join[of "CHR ''@''" "drop (length token_prefix) t"] sp by simp
  then have "t = token_text c a b" using st ia
    by (metis append_take_drop_id starts_def token_text_def)
  then show ?thesis using w ia ab by (simp add: wf_token_def)
qed

section \<open>Sorted lists of members and references\<close>

definition sorted_enums :: "('e \<Rightarrow> string) \<Rightarrow> 'e list \<Rightarrow> json \<Rightarrow> 'e list result" where
  "sorted_enums val members j = bindR (array_value 64 j) (\<lambda>raw.
     bindR (mapR (enum_value val members) raw) (\<lambda>items.
     bindR (require (items = sort_key val (remdups items)) (SolverContractError NotSortedUnique)) (\<lambda>_.
     Inr items)))"

definition wf_enums :: "('e \<Rightarrow> string) \<Rightarrow> 'e list \<Rightarrow> bool" where
  "wf_enums val xs = (length xs \<le> 64 \<and> sorted (map val xs) \<and> distinct xs)"

context str_enum begin

lemma mapR_members: "mapR (enum_value val members) (map (\<lambda>e. JStr (val e)) xs) = Inr xs"
  by (induction xs) (simp_all add: enum_value_val)

lemma sorted_enums_codec:
  "codec (sorted_enums val members) (\<lambda>xs. JArr (map (\<lambda>e. JStr (val e)) xs)) (wf_enums val)"
proof (unfold_locales, goal_cases)
  case (1 xs)
  then show ?case
    by (simp add: sorted_enums_def wf_enums_def mapR_members sort_key_remdups_fix)
next
  case (2 j xs)
  then show ?case
    by (clarsimp simp: sorted_enums_def wf_enums_def result_simps sort_key_remdups_fix)
      (metis mapR_length)
next
  case (3 j xs)
  then show ?case
    by (clarsimp simp: sorted_enums_def result_simps mapR_canonical)
qed (simp add: list_all_iff)

end

sublocale str_enum \<subseteq> members: codec "sorted_enums val members"
    "\<lambda>xs. JArr (map (\<lambda>e. JStr (val e)) xs)" "wf_enums val"
  by (rule sorted_enums_codec)

definition reference_key :: "artifact_reference \<Rightarrow> string \<times> string" where
  "reference_key r = (ref_path r, ref_sha256 r)"

definition parse_references :: "nat \<Rightarrow> json \<Rightarrow> artifact_reference list result" where
  "parse_references minimum j = bindR (array_value 64 j) (\<lambda>raw.
     bindR (mapR parse_artifact_reference raw) (\<lambda>refs.
     bindR (require (\<not> (length refs < minimum \<or> refs \<noteq> sort_key reference_key refs \<or>
         \<not> distinct (map reference_key refs)))
       (SolverContractError NotSortedUnique)) (\<lambda>_.
     Inr refs)))"

definition wf_references :: "nat \<Rightarrow> artifact_reference list \<Rightarrow> bool" where
  "wf_references minimum refs = (minimum \<le> length refs \<and> length refs \<le> 64 \<and>
     list_all wf_reference refs \<and> sorted_wrt (<) (map reference_key refs))"

interpretation references_codec:
  codec "parse_references n" "\<lambda>rs. JArr (map reference_to_dict rs)" "wf_references n" for n
proof (unfold_locales, goal_cases)
  case (1 rs)
  then show ?case
    by (simp add: parse_references_def wf_references_def reference_codec.mapR_enc
        flip: strict_sort_key)
next
  case (2 j rs)
  then show ?case
    by (clarsimp simp: parse_references_def wf_references_def result_simps not_less
        reference_codec.mapR_wf simp flip: strict_sort_key) (metis mapR_length)
next
  case (3 j rs)
  then show ?case
    by (clarsimp simp: parse_references_def result_simps reference_codec.mapR_canonical)
qed (simp add: list_all_iff reference_codec.enc_wf_json)

section \<open>Version observations and approvals\<close>

definition parse_version_observation :: "json \<Rightarrow> solver_version_observation result" where
  "parse_version_observation j = bindR (object_value j) (\<lambda>item.
     bindR (only_keys item [''status'', ''observed_version'', ''evidence'']) (\<lambda>_.
     bindR (enum_value version_status_value solver_version_status_members (get item ''status'')) (\<lambda>status.
     bindR (optional_string 32 (get item ''observed_version'')) (\<lambda>observed.
     bindR (optional_value parse_artifact_reference (get item ''evidence'')) (\<lambda>evidence.
     bindR (require (\<not> (status = NOT_OBSERVED \<and> (observed \<noteq> None \<or> evidence \<noteq> None)))
       (SolverContractError BadVersionObservation)) (\<lambda>_.
     bindR (require (\<not> (status = OBSERVED \<and> (observed = None \<or> evidence = None \<or>
         \<not> version_pattern (the observed)))) (SolverContractError BadVersionObservation)) (\<lambda>_.
     Inr \<lparr>vo_status = status, observed_version = observed, vo_evidence = evidence\<rparr>)))))))"

definition wf_observation :: "solver_version_observation \<Rightarrow> bool" where
  "wf_observation v = (case vo_status v of
     NOT_OBSERVED \<Rightarrow> observed_version v = None \<and> vo_evidence v = None
   | OBSERVED \<Rightarrow> observed_version v \<noteq> None \<and> vo_evidence v \<noteq> None \<and>
       wf_version (the (observed_version v)) \<and> wf_reference (the (vo_evidence v)))"

lemma reference_not_null [simp]: "reference_to_dict r \<noteq> JNull"
  by (simp add: reference_to_dict_def)

interpretation observation_codec:
  codec parse_version_observation version_observation_to_dict wf_observation
proof (unfold_locales, goal_cases)
  case (1 v)
  obtain s ob ev where v: "v = \<lparr>vo_status = s, observed_version = ob, vo_evidence = ev\<rparr>"
    by (cases v)
  from 1 have "pred_option (plain_text 32) ob" "pred_option wf_reference ev"
    by (cases s; cases ob; cases ev; simp add: v wf_observation_def wf_version_def)+
  with 1 show ?case
    by (cases s) (simp_all add: v parse_version_observation_def version_observation_to_dict_def
        wf_observation_def wf_version_def get_Cons only_keys_same version_status_enum.enum_value_val
        line_codec.option_enc reference_codec.option_enc)
next
  case (2 j v)
  then show ?case
    by (clarsimp simp: parse_version_observation_def wf_observation_def result_simps
        split: solver_version_status.split)
      (metis line_codec.option_wf reference_codec.option_wf option.pred_inject(2) option.sel
        wf_version_def)
next
  case (3 j v)
  then show ?case
    by (clarsimp simp: parse_version_observation_def version_observation_to_dict_def result_simps
        version_status_enum.enum_value_iff)
      (rule py_eq_objI; simp add: line_codec.option_canonical reference_codec.option_canonical)
qed (simp add: version_observation_to_dict_def wf_json.simps line_codec.option_wf_json
    reference_codec.option_wf_json)

definition exact_approval :: solver_approval_requirements where
  "exact_approval = \<lparr>owner_approval = ''fresh-required'',
     technical_sandbox_approval = ''fresh-required'', consumption = ''single-use-atomic''\<rparr>"

definition parse_approval :: "json \<Rightarrow> solver_approval_requirements result" where
  "parse_approval j = bindR (object_value j) (\<lambda>item.
     bindR (only_keys item [''owner_approval'', ''technical_sandbox_approval'', ''consumption'']) (\<lambda>_.
     bindR (require (py_eq (JObj item) (approval_to_dict exact_approval))
       (SolverContractError BadApproval)) (\<lambda>_.
     Inr exact_approval)))"

lemma approval_wf_json: "wf_json (approval_to_dict a)"
  by (simp add: approval_to_dict_def wf_json.simps)

interpretation approval_codec: codec parse_approval approval_to_dict "\<lambda>a. a = exact_approval"
proof (unfold_locales, goal_cases)
  case (1 a)
  then show ?case
    using py_eq_refl[OF approval_wf_json[of exact_approval]]
    by (simp add: parse_approval_def approval_to_dict_def only_keys_same)
next
  case (2 j a)
  then show ?case by (clarsimp simp: parse_approval_def result_simps)
next
  case (3 j a)
  then show ?case
    by (clarsimp simp: parse_approval_def result_simps)
      (metis py_eq_sym approval_wf_json)
qed (rule approval_wf_json)

section \<open>Adapters\<close>

definition parse_limits :: "json \<Rightarrow> adapter_limits result" where
  "parse_limits j = bindR (object_value j) (\<lambda>item.
     bindR (only_keys item [''max_variables'', ''max_domain_values'', ''max_search_space'',
       ''max_constraints'', ''max_constraint_variables'', ''max_table_rows'', ''min_scalar'',
       ''max_scalar'', ''max_artifact_bytes'']) (\<lambda>_.
     bindR (integer_value 1 16 (get item ''max_variables'')) (\<lambda>vars.
     bindR (integer_value 1 256 (get item ''max_domain_values'')) (\<lambda>doms.
     bindR (integer_value 1 1000000 (get item ''max_search_space'')) (\<lambda>space.
     bindR (integer_value 0 256 (get item ''max_constraints'')) (\<lambda>cons.
     bindR (integer_value 1 16 (get item ''max_constraint_variables'')) (\<lambda>cvars.
     bindR (integer_value 0 4096 (get item ''max_table_rows'')) (\<lambda>rows.
     bindR (scalar (get item ''min_scalar'')) (\<lambda>lo.
     bindR (scalar (get item ''max_scalar'')) (\<lambda>hi.
     bindR (require (\<not> lo > hi) (SolverContractError BadAdapter)) (\<lambda>_.
     bindR (integer_value 1 1048576 (get item ''max_artifact_bytes'')) (\<lambda>bytes.
     Inr \<lparr>max_variables = vars, max_domain_values = doms, max_search_space = space,
          max_constraints = cons, max_constraint_variables = cvars, max_table_rows = rows,
          min_scalar = lo, max_scalar = hi, max_artifact_bytes = bytes\<rparr>))))))))))))"

definition wf_limits :: "adapter_limits \<Rightarrow> bool" where
  "wf_limits l = (1 \<le> max_variables l \<and> max_variables l \<le> 16 \<and>
     1 \<le> max_domain_values l \<and> max_domain_values l \<le> 256 \<and>
     1 \<le> max_search_space l \<and> max_search_space l \<le> 1000000 \<and>
     0 \<le> max_constraints l \<and> max_constraints l \<le> 256 \<and>
     1 \<le> max_constraint_variables l \<and> max_constraint_variables l \<le> 16 \<and>
     0 \<le> max_table_rows l \<and> max_table_rows l \<le> 4096 \<and>
     wf_scalar (min_scalar l) \<and> wf_scalar (max_scalar l) \<and> min_scalar l \<le> max_scalar l \<and>
     1 \<le> max_artifact_bytes l \<and> max_artifact_bytes l \<le> 1048576)"

interpretation limits_codec: codec parse_limits limits_to_dict wf_limits
proof (unfold_locales, goal_cases)
  case (1 l)
  then show ?case
    by (simp add: parse_limits_def limits_to_dict_def wf_limits_def get_Cons only_keys_same
        leaf_simps)
next
  case (2 j l)
  then show ?case by (clarsimp simp: parse_limits_def wf_limits_def result_simps not_less)
next
  case (3 j l)
  then show ?case
    by (clarsimp simp: parse_limits_def limits_to_dict_def result_simps) (rule py_eq_objI; simp)
qed (simp add: limits_to_dict_def wf_json.simps)

definition reference_adapter_id :: string where
  "reference_adapter_id = ''stdlib-finite-domain-v1''"

definition reference_limits :: adapter_limits where
  "reference_limits = \<lparr>max_variables = 16, max_domain_values = 256, max_search_space = 1000000,
     max_constraints = 256, max_constraint_variables = 16, max_table_rows = 4096,
     min_scalar = - 1000000, max_scalar = 1000000, max_artifact_bytes = 1048576\<rparr>"

definition no_external_fields :: "solver_adapter_definition \<Rightarrow> bool" where
  "no_external_fields a = (tool_registry a = None \<and> tool_name a = None \<and> executable a = None \<and>
     input_format a = None \<and> version_matcher a = None \<and> version_observation a = None \<and>
     approval_requirements a = None)"

definition all_external_fields :: "solver_adapter_definition \<Rightarrow> bool" where
  "all_external_fields a = (tool_registry a \<noteq> None \<and> tool_name a \<noteq> None \<and> executable a \<noteq> None \<and>
     input_format a \<noteq> None \<and> version_matcher a \<noteq> None \<and> version_observation a \<noteq> None \<and>
     approval_requirements a \<noteq> None)"

definition reference_boundary :: "solver_adapter_definition \<Rightarrow> bool" where
  "reference_boundary a = (ad_adapter_id a = reference_adapter_id \<and> \<not> ad_optional a \<and>
     no_external_fields a)"

definition exact_reference :: "solver_adapter_definition \<Rightarrow> bool" where
  "exact_reference a =
     (implementation a = ''sdaqf.adapters.solver.FiniteDomainReferenceAdapter'' \<and>
      ad_version a = ''1.0.0'' \<and> ad_license a = ''Apache-2.0'' \<and>
      set (supported_problem_kinds a) = set solver_problem_kind_members \<and>
      set (supported_profiles a) = set solver_problem_profile_members \<and>
      set (supported_constraints a) = set solver_constraint_kind_members \<and>
      ad_limits a = reference_limits)"

definition adapter_boundary :: "solver_adapter_definition \<Rightarrow> unit result" where
  "adapter_boundary a =
     bindR (require (\<not> network a) (SolverContractError BadAdapter)) (\<lambda>_.
     (case adapter_kind a of
        REFERENCE \<Rightarrow>
          bindR (require (reference_boundary a) (SolverContractError BadAdapter)) (\<lambda>_.
          require (exact_reference a) (SolverContractError BadAdapter))
      | EXTERNAL_CLI \<Rightarrow>
          require (\<not> (\<not> ad_optional a \<or> \<not> all_external_fields a)) (SolverContractError BadAdapter)))"

definition adapter_keys :: "string list" where
  "adapter_keys = [''adapter_id'', ''adapter_kind'', ''implementation'', ''version'',
     ''supported_problem_kinds'', ''supported_profiles'', ''supported_constraints'',
     ''numeric_domain'', ''limits'', ''network'', ''optional'', ''tool_registry'', ''tool_name'',
     ''executable'', ''input_format'', ''version_matcher'', ''version_observation'',
     ''approval_requirements'', ''license_expression'', ''provenance'']"

definition parse_adapter :: "json \<Rightarrow> solver_adapter_definition result" where
  "parse_adapter j = bindR (object_value j) (\<lambda>item.
     bindR (only_keys item adapter_keys) (\<lambda>_.
     bindR (parse_slug (get item ''adapter_id'')) (\<lambda>identifier.
     bindR (enum_value adapter_kind_value solver_adapter_kind_members (get item ''adapter_kind'')) (\<lambda>kind.
     bindR (line_value 120 (get item ''implementation'')) (\<lambda>impl.
     bindR (version_text (get item ''version'')) (\<lambda>version.
     bindR (sorted_enums problem_kind_value solver_problem_kind_members
       (get item ''supported_problem_kinds'')) (\<lambda>kinds.
     bindR (sorted_enums problem_profile_value solver_problem_profile_members
       (get item ''supported_profiles'')) (\<lambda>profiles.
     bindR (sorted_enums constraint_kind_value solver_constraint_kind_members
       (get item ''supported_constraints'')) (\<lambda>cons.
     bindR (require (\<not> (kinds = [] \<or> profiles = [] \<or> cons = [])) (SolverContractError BadAdapter)) (\<lambda>_.
     bindR (line_value 32 (get item ''numeric_domain'')) (\<lambda>domain.
     bindR (require (domain = ''exact-integer'') (SolverContractError BadAdapter)) (\<lambda>_.
     bindR (parse_limits (get item ''limits'')) (\<lambda>limits.
     bindR (boolean_value (get item ''network'')) (\<lambda>net.
     bindR (boolean_value (get item ''optional'')) (\<lambda>opt.
     bindR (optional_value parse_artifact_reference (get item ''tool_registry'')) (\<lambda>tools.
     bindR (optional_string 64 (get item ''tool_name'')) (\<lambda>tool.
     bindR (optional_string 120 (get item ''executable'')) (\<lambda>exe.
     bindR (optional_string 64 (get item ''input_format'')) (\<lambda>format.
     bindR (optional_string 200 (get item ''version_matcher'')) (\<lambda>matcher.
     bindR (optional_value parse_version_observation (get item ''version_observation'')) (\<lambda>observation.
     bindR (optional_value parse_approval (get item ''approval_requirements'')) (\<lambda>approval.
     bindR (license_text (get item ''license_expression'')) (\<lambda>license.
     bindR (parse_references 1 (get item ''provenance'')) (\<lambda>provenance.
     let a = \<lparr>ad_adapter_id = identifier, adapter_kind = kind, implementation = impl,
           ad_version = version, supported_problem_kinds = kinds, supported_profiles = profiles,
           supported_constraints = cons, numeric_domain = domain, ad_limits = limits,
           network = net, ad_optional = opt, tool_registry = tools, tool_name = tool,
           executable = exe, input_format = format, version_matcher = matcher,
           version_observation = observation, approval_requirements = approval,
           ad_license = license, ad_provenance = provenance\<rparr>
     in bindR (adapter_boundary a) (\<lambda>_. Inr a)))))))))))))))))))))))))"

definition wf_adapter :: "solver_adapter_definition \<Rightarrow> bool" where
  "wf_adapter a = (wf_slug (ad_adapter_id a) \<and> plain_text 120 (implementation a) \<and>
     wf_version (ad_version a) \<and>
     wf_enums problem_kind_value (supported_problem_kinds a) \<and> supported_problem_kinds a \<noteq> [] \<and>
     wf_enums problem_profile_value (supported_profiles a) \<and> supported_profiles a \<noteq> [] \<and>
     wf_enums constraint_kind_value (supported_constraints a) \<and> supported_constraints a \<noteq> [] \<and>
     numeric_domain a = ''exact-integer'' \<and> wf_limits (ad_limits a) \<and>
     pred_option wf_reference (tool_registry a) \<and> pred_option (plain_text 64) (tool_name a) \<and>
     pred_option (plain_text 120) (executable a) \<and> pred_option (plain_text 64) (input_format a) \<and>
     pred_option (plain_text 200) (version_matcher a) \<and>
     pred_option wf_observation (version_observation a) \<and>
     pred_option (\<lambda>x. x = exact_approval) (approval_requirements a) \<and>
     wf_license (ad_license a) \<and> wf_references 1 (ad_provenance a) \<and>
     adapter_boundary a = Inr ())"

lemma plain_exact_integer: "plain_text 32 ''exact-integer''"
  by code_simp

lemma observation_not_null [simp]: "version_observation_to_dict v \<noteq> JNull"
  by (simp add: version_observation_to_dict_def)

lemma approval_not_null [simp]: "approval_to_dict v \<noteq> JNull"
  by (simp add: approval_to_dict_def)

lemmas option_encs =
  line_codec.option_enc reference_codec.option_enc observation_codec.option_enc
  approval_codec.option_enc

lemmas option_wfs =
  line_codec.option_wf reference_codec.option_wf observation_codec.option_wf
  approval_codec.option_wf

lemmas option_canonicals =
  line_codec.option_canonical reference_codec.option_canonical
  observation_codec.option_canonical approval_codec.option_canonical

lemmas option_wf_jsons =
  line_codec.option_wf_json reference_codec.option_wf_json observation_codec.option_wf_json
  approval_codec.option_wf_json

lemmas member_encs =
  problem_kind_enum.members.parse_enc problem_profile_enum.members.parse_enc
  constraint_kind_enum.members.parse_enc

lemmas member_wfs =
  problem_kind_enum.members.parse_wf problem_profile_enum.members.parse_wf
  constraint_kind_enum.members.parse_wf

lemmas member_canonicals =
  problem_kind_enum.members.parse_canonical problem_profile_enum.members.parse_canonical
  constraint_kind_enum.members.parse_canonical

interpretation adapter_codec: codec parse_adapter adapter_to_dict wf_adapter
proof (unfold_locales, goal_cases)
  case (1 a)
  have eta: "\<lparr>ad_adapter_id = ad_adapter_id a, adapter_kind = adapter_kind a,
      implementation = implementation a,
      ad_version = ad_version a, supported_problem_kinds = supported_problem_kinds a,
      supported_profiles = supported_profiles a,
      supported_constraints = supported_constraints a, numeric_domain = ''exact-integer'',
      ad_limits = ad_limits a, network = network a, ad_optional = ad_optional a,
      tool_registry = tool_registry a, tool_name = tool_name a, executable = executable a,
      input_format = input_format a, version_matcher = version_matcher a,
      version_observation = version_observation a,
      approval_requirements = approval_requirements a,
      ad_license = ad_license a, ad_provenance = ad_provenance a\<rparr> = a"
    using 1 by (cases a) (simp add: wf_adapter_def)
  from 1 show ?case
    by (simp add: parse_adapter_def adapter_to_dict_def wf_adapter_def get_Cons only_keys_same
        adapter_keys_def leaf_simps id_simps adapter_kind_enum.enum_value_val member_encs
        plain_exact_integer limits_codec.parse_enc option_encs references_codec.parse_enc
        Let_def eta)
next
  case (2 j a)
  then show ?case
    by (clarsimp simp: parse_adapter_def wf_adapter_def result_simps Let_def member_wfs
        limits_codec.parse_wf option_wfs references_codec.parse_wf)
next
  case (3 j a)
  then show ?case
    by (clarsimp simp: parse_adapter_def adapter_to_dict_def result_simps Let_def adapter_keys_def
        adapter_kind_enum.enum_value_iff)
      (rule py_eq_objI; simp add: member_canonicals limits_codec.parse_canonical
        option_canonicals references_codec.parse_canonical)
qed (simp add: adapter_to_dict_def wf_json.simps list_all_iff limits_codec.enc_wf_json
    reference_codec.enc_wf_json option_wf_jsons)

section \<open>Registries\<close>

definition parse_registry :: "json \<Rightarrow> solver_registry result" where
  "parse_registry j = bindR (object_value j) (\<lambda>item.
     bindR (only_keys item [''sensitivity'', ''adapters'']) (\<lambda>_.
     bindR (enum_value sensitivity_value sensitivity_members (get item ''sensitivity'')) (\<lambda>s.
     bindR (array_value 32 (get item ''adapters'')) (\<lambda>raw.
     bindR (require (raw \<noteq> []) (SolverContractError EmptyList)) (\<lambda>_.
     bindR (mapR parse_adapter raw) (\<lambda>as.
     bindR (require (as = sort_key ad_adapter_id as) (SolverContractError NotSortedUnique)) (\<lambda>_.
     bindR (require (distinct (map ad_adapter_id as)) (SolverContractError NotSortedUnique)) (\<lambda>_.
     let reference = filter (\<lambda>a. ad_adapter_id a = reference_adapter_id) as in
     bindR (require (\<not> (length reference \<noteq> 1 \<or> adapter_kind (hd reference) \<noteq> REFERENCE))
       (SolverContractError BadRegistry)) (\<lambda>_.
     Inr \<lparr>reg_sensitivity = s, adapters = as\<rparr>)))))))))"

definition wf_registry :: "solver_registry \<Rightarrow> bool" where
  "wf_registry r = (adapters r \<noteq> [] \<and> length (adapters r) \<le> 32 \<and>
     list_all wf_adapter (adapters r) \<and> sorted_wrt (<) (map ad_adapter_id (adapters r)) \<and>
     (\<exists>a \<in> set (adapters r). ad_adapter_id a = reference_adapter_id \<and> adapter_kind a = REFERENCE))"

lemma unique_reference:
  assumes "distinct (map ad_adapter_id as)"
  shows "(let r = filter (\<lambda>a. ad_adapter_id a = i) as in
      \<not> (length r \<noteq> 1 \<or> adapter_kind (hd r) \<noteq> k)) \<longleftrightarrow>
    (\<exists>a \<in> set as. ad_adapter_id a = i \<and> adapter_kind a = k)"
  using assms
proof (induction as)
  case (Cons a as)
  have none: "ad_adapter_id a = i \<Longrightarrow> filter (\<lambda>b. ad_adapter_id b = i) as = []"
    using Cons.prems by (auto simp: filter_empty_conv) (metis image_eqI)
  show ?case
  proof (cases "ad_adapter_id a = i")
    case True
    moreover have "\<not> (\<exists>b \<in> set as. ad_adapter_id b = i)" using none[OF True] by (simp add: filter_empty_conv)
    ultimately show ?thesis using none[OF True] by (auto simp: Let_def)
  next
    case False
    then show ?thesis using Cons by (simp add: Let_def)
  qed
qed simp

interpretation registry_codec: codec parse_registry registry_to_dict wf_registry
proof (unfold_locales, goal_cases)
  case (1 r)
  then show ?case
    using unique_reference[of "adapters r"]
    by (simp add: parse_registry_def registry_to_dict_def wf_registry_def get_Cons only_keys_same
        sensitivity_enum.enum_value_val adapter_codec.mapR_enc Let_def flip: strict_sort_key)
next
  case (2 j r)
  then show ?case
    using unique_reference[of "adapters r" reference_adapter_id REFERENCE]
    by (clarsimp simp: parse_registry_def wf_registry_def result_simps Let_def
        adapter_codec.mapR_wf strict_sorted_iff sort_key_fix eq_commute[of _ "sort_key _ _"])
      (auto dest!: mapR_length)
next
  case (3 j r)
  then show ?case
    by (clarsimp simp: parse_registry_def registry_to_dict_def result_simps Let_def
        sensitivity_enum.enum_value_iff)
      (frule (1) wf_get_JArr[where k = "''adapters''"],
       rule py_eq_objI; simp add: adapter_codec.mapR_canonical)
qed (simp add: registry_to_dict_def wf_json.simps list_all_iff adapter_codec.enc_wf_json)

end
