(* ===== verification/ResultContracts.thy ===== *)
theory ResultContracts
  imports RegistryContracts
begin

text \<open>
  The request, result and verification artifacts of \<open>application/solver_contracts.py\<close>, and the
  envelope every solver artifact travels in.  Each parser is a \<open>codec\<close>: it accepts exactly the
  encodings of the well-formed values.
\<close>

section \<open>Resource policies and requests\<close>

definition optional_timeout :: "json \<Rightarrow> int option result" where
  "optional_timeout = optional_value (integer_value 1 3600000)"

definition parse_resource_policy :: "json \<Rightarrow> solver_resource_policy result" where
  "parse_resource_policy j = bindR (object_value j) (\<lambda>item.
     bindR (only_keys item [''max_solve_steps'', ''max_verification_steps'',
       ''timeout_milliseconds'', ''max_result_bytes'']) (\<lambda>_.
     bindR (integer_value 1 1000000 (get item ''max_solve_steps'')) (\<lambda>solve.
     bindR (integer_value 1 1000000 (get item ''max_verification_steps'')) (\<lambda>verify.
     bindR (require (\<not> solve + verify > 2000000) (SolverContractError StepCountInvalid)) (\<lambda>_.
     bindR (optional_timeout (get item ''timeout_milliseconds'')) (\<lambda>timeout.
     bindR (integer_value 1 1048576 (get item ''max_result_bytes'')) (\<lambda>bytes.
     Inr \<lparr>max_solve_steps = solve, max_verification_steps = verify,
          timeout_milliseconds = timeout, max_result_bytes = bytes\<rparr>)))))))"

definition wf_timeout :: "int option \<Rightarrow> bool" where
  "wf_timeout = pred_option (\<lambda>t. 1 \<le> t \<and> t \<le> 3600000)"

definition wf_policy :: "solver_resource_policy \<Rightarrow> bool" where
  "wf_policy p = (1 \<le> max_solve_steps p \<and> max_solve_steps p \<le> 1000000 \<and>
     1 \<le> max_verification_steps p \<and> max_verification_steps p \<le> 1000000 \<and>
     wf_timeout (timeout_milliseconds p) \<and>
     1 \<le> max_result_bytes p \<and> max_result_bytes p \<le> 1048576)"

interpretation timeout_codec: codec optional_timeout "enc_option JInt" wf_timeout
  unfolding optional_timeout_def wf_timeout_def
  by unfold_locales (simp_all add: int_codec.option_enc int_codec.option_wf
    int_codec.option_canonical int_codec.option_wf_json)

interpretation policy_codec: codec parse_resource_policy policy_to_dict wf_policy
proof (unfold_locales, goal_cases)
  case (1 p)
  then show ?case
    by (simp add: parse_resource_policy_def policy_to_dict_def wf_policy_def get_Cons
        only_keys_same timeout_codec.parse_enc)
next
  case (2 j p)
  then show ?case
    by (clarsimp simp: parse_resource_policy_def wf_policy_def result_simps timeout_codec.parse_wf)
next
  case (3 j p)
  then show ?case
    by (clarsimp simp: parse_resource_policy_def policy_to_dict_def result_simps)
      (rule py_eq_objI; simp add: timeout_codec.parse_canonical)
qed (simp add: policy_to_dict_def wf_json.simps timeout_codec.enc_wf_json)

definition validate_claim :: "solver_problem_kind \<Rightarrow> solver_required_claim \<Rightarrow> unit result" where
  "validate_claim kind claim =
     bindR (require (\<not> (kind = FEASIBILITY \<and> claim \<noteq> CLAIM_DECISION))
       (SolverContractError ClaimMismatch)) (\<lambda>_.
     require (\<not> (kind = OPTIMIZATION \<and> claim = CLAIM_DECISION)) (SolverContractError ClaimMismatch))"

text \<open>The comparison is Python's \<open>==\<close>: \<open>0\<close>, \<open>0.0\<close> and \<open>false\<close> are equal there.\<close>

definition parse_tolerance :: "json \<Rightarrow> unit result" where
  "parse_tolerance j = bindR (object_value j) (\<lambda>item.
     bindR (only_keys item [''kind'', ''absolute'', ''relative'']) (\<lambda>_.
     require (py_eq (JObj item) exact_tolerance) (SolverContractError NotExactTolerance)))"

lemma tolerance_wf_json: "wf_json exact_tolerance"
  by (simp add: exact_tolerance_def wf_json.simps)

lemma parse_exact_tolerance [simp]: "parse_tolerance exact_tolerance = Inr ()"
  using py_eq_refl[OF tolerance_wf_json]
  by (simp add: parse_tolerance_def exact_tolerance_def only_keys_same)

lemma tolerance_canonical: "parse_tolerance j = Inr u \<Longrightarrow> wf_json j \<Longrightarrow> py_eq exact_tolerance j"
  by (clarsimp simp: parse_tolerance_def result_simps) (metis py_eq_sym tolerance_wf_json)

definition parse_request :: "json \<Rightarrow> solver_request result" where
  "parse_request j = bindR (object_value j) (\<lambda>item.
     bindR (only_keys item [''sensitivity'', ''registry'', ''registry_id'', ''adapter_id'',
       ''contract_id'', ''task_graph'', ''graph_id'', ''task_id'', ''candidate'',
       ''context_snapshot'', ''context_snapshot_id'', ''problem'', ''required_claim'',
       ''tolerance'', ''resource_policy'']) (\<lambda>_.
     bindR (enum_value sensitivity_value sensitivity_members (get item ''sensitivity'')) (\<lambda>s.
     bindR (solver_id (type_prefix REGISTRY) (get item ''registry_id'')) (\<lambda>registry_id.
     bindR (parse_slug (get item ''adapter_id'')) (\<lambda>adapter_id.
     bindR (solver_id contract_prefix (get item ''contract_id'')) (\<lambda>contract_id.
     bindR (pattern_id graph_pattern (get item ''graph_id'')) (\<lambda>graph_id.
     bindR (pattern_id task_pattern (get item ''task_id'')) (\<lambda>task_id.
     bindR (pattern_id context_pattern (get item ''context_snapshot_id'')) (\<lambda>context_id.
     bindR (parse_problem (get item ''problem'')) (\<lambda>problem.
     bindR (enum_value claim_value solver_required_claim_members (get item ''required_claim'')) (\<lambda>claim.
     bindR (validate_claim (problem_kind problem) claim) (\<lambda>_.
     bindR (parse_tolerance (get item ''tolerance'')) (\<lambda>_.
     bindR (parse_resource_policy (get item ''resource_policy'')) (\<lambda>policy.
     bindR (parse_artifact_reference (get item ''registry'')) (\<lambda>registry.
     bindR (parse_artifact_reference (get item ''task_graph'')) (\<lambda>task_graph.
     bindR (parse_candidate_identity (get item ''candidate'')) (\<lambda>candidate.
     bindR (parse_artifact_reference (get item ''context_snapshot'')) (\<lambda>context_snapshot.
     let r = \<lparr>rq_sensitivity = s, rq_registry = registry, rq_registry_id = registry_id,
           rq_adapter_id = adapter_id, rq_contract_id = contract_id, rq_task_graph = task_graph,
           rq_graph_id = graph_id, rq_task_id = task_id, rq_candidate = candidate,
           rq_context_snapshot = context_snapshot, rq_context_snapshot_id = context_id,
           rq_problem = problem, rq_required_claim = claim, rq_policy = policy\<rparr>
     in bindR (operational_contract_id (operational_content r)) (\<lambda>expected.
        bindR (require (expected = contract_id) (SolverContractError IdentityMismatch)) (\<lambda>_.
        Inr r))))))))))))))))))))"

definition wf_request :: "solver_request \<Rightarrow> bool" where
  "wf_request r = (wf_reference (rq_registry r) \<and>
     wf_solver_id (type_prefix REGISTRY) (rq_registry_id r) \<and> wf_slug (rq_adapter_id r) \<and>
     wf_solver_id contract_prefix (rq_contract_id r) \<and> wf_reference (rq_task_graph r) \<and>
     wf_pattern graph_pattern (rq_graph_id r) \<and> wf_pattern task_pattern (rq_task_id r) \<and>
     wf_candidate (rq_candidate r) \<and> wf_reference (rq_context_snapshot r) \<and>
     wf_pattern context_pattern (rq_context_snapshot_id r) \<and> wf_problem (rq_problem r) \<and>
     (problem_kind (rq_problem r) = FEASIBILITY) = (rq_required_claim r = CLAIM_DECISION) \<and>
     wf_policy (rq_policy r) \<and>
     operational_contract_id (operational_content r) = Inr (rq_contract_id r))"

lemma validate_claim_iff:
  "validate_claim k c = Inr u \<longleftrightarrow> (k = FEASIBILITY) = (c = CLAIM_DECISION)"
  by (cases k) (auto simp: validate_claim_def result_simps)

lemma validate_claim_ok: "(k = FEASIBILITY) = (c = CLAIM_DECISION) \<Longrightarrow> validate_claim k c = Inr ()"
  by (simp add: validate_claim_iff)

interpretation request_codec: codec parse_request request_to_dict wf_request
proof (unfold_locales, goal_cases)
  case (1 r)
  have eta: "\<lparr>rq_sensitivity = rq_sensitivity r, rq_registry = rq_registry r,
      rq_registry_id = rq_registry_id r, rq_adapter_id = rq_adapter_id r,
      rq_contract_id = rq_contract_id r, rq_task_graph = rq_task_graph r,
      rq_graph_id = rq_graph_id r, rq_task_id = rq_task_id r, rq_candidate = rq_candidate r,
      rq_context_snapshot = rq_context_snapshot r,
      rq_context_snapshot_id = rq_context_snapshot_id r, rq_problem = rq_problem r,
      rq_required_claim = rq_required_claim r, rq_policy = rq_policy r\<rparr> = r" by simp
  from 1 have "validate_claim (problem_kind (rq_problem r)) (rq_required_claim r) = Inr ()"
    by (simp add: wf_request_def validate_claim_ok)
  with 1 show ?case
    by (simp add: parse_request_def request_to_dict_def wf_request_def get_Cons only_keys_same
        leaf_simps id_simps sensitivity_enum.enum_value_val claim_enum.enum_value_val
        problem_codec.parse_enc policy_codec.parse_enc reference_codec.parse_enc
        candidate_codec.parse_enc Let_def eta)
next
  case (2 j r)
  then show ?case
    by (clarsimp simp: parse_request_def wf_request_def result_simps Let_def validate_claim_iff
        problem_codec.parse_wf policy_codec.parse_wf reference_codec.parse_wf
        candidate_codec.parse_wf)
next
  case (3 j r)
  then show ?case
    by (clarsimp simp: parse_request_def request_to_dict_def result_simps Let_def
        sensitivity_enum.enum_value_iff claim_enum.enum_value_iff)
      (rule py_eq_objI; simp add: problem_codec.parse_canonical policy_codec.parse_canonical
        reference_codec.parse_canonical candidate_codec.parse_canonical tolerance_canonical)
qed (simp add: request_to_dict_def wf_json.simps problem_codec.enc_wf_json
    policy_codec.enc_wf_json reference_codec.enc_wf_json candidate_codec.enc_wf_json
    tolerance_wf_json)

section \<open>Leases, witnesses, intervals and resource evidence\<close>

definition parse_lease :: "json \<Rightarrow> solver_lease_evidence result" where
  "parse_lease j = bindR (object_value j) (\<lambda>item.
     bindR (only_keys item [''graph_id'', ''task_id'', ''host_id'', ''attempt'', ''lease_id'',
       ''fence'', ''idempotency_key'', ''dispatch_message_id'', ''expires_at'',
       ''reserved_solver_calls'', ''reserved_solver_steps'']) (\<lambda>_.
     bindR (pattern_id graph_pattern (get item ''graph_id'')) (\<lambda>graph_id.
     bindR (pattern_id task_pattern (get item ''task_id'')) (\<lambda>task_id.
     bindR (pattern_id host_pattern (get item ''host_id'')) (\<lambda>host_id.
     bindR (integer_value 1 3 (get item ''attempt'')) (\<lambda>attempt.
     bindR (pattern_id lease_pattern (get item ''lease_id'')) (\<lambda>lease_id.
     bindR (integer_value 1 1000000000 (get item ''fence'')) (\<lambda>fence.
     bindR (pattern_id idempotency_pattern (get item ''idempotency_key'')) (\<lambda>key.
     bindR (pattern_id message_pattern (get item ''dispatch_message_id'')) (\<lambda>message.
     bindR (utc_timestamp (get item ''expires_at'')) (\<lambda>expires.
     bindR (integer_value 1 1 (get item ''reserved_solver_calls'')) (\<lambda>calls.
     bindR (integer_value 2 2000000 (get item ''reserved_solver_steps'')) (\<lambda>steps.
     Inr \<lparr>le_graph_id = graph_id, le_task_id = task_id, le_host_id = host_id,
          le_attempt = attempt, le_lease_id = lease_id, le_fence = fence,
          le_idempotency_key = key, le_dispatch_message_id = message, le_expires_at = expires,
          reserved_solver_calls = calls, reserved_solver_steps = steps\<rparr>)))))))))))))"

definition wf_lease :: "solver_lease_evidence \<Rightarrow> bool" where
  "wf_lease l = (wf_pattern graph_pattern (le_graph_id l) \<and> wf_pattern task_pattern (le_task_id l) \<and>
     wf_pattern host_pattern (le_host_id l) \<and> 1 \<le> le_attempt l \<and> le_attempt l \<le> 3 \<and>
     wf_pattern lease_pattern (le_lease_id l) \<and> 1 \<le> le_fence l \<and> le_fence l \<le> 1000000000 \<and>
     wf_pattern idempotency_pattern (le_idempotency_key l) \<and>
     wf_pattern message_pattern (le_dispatch_message_id l) \<and> wf_timestamp (le_expires_at l) \<and>
     reserved_solver_calls l = 1 \<and> 2 \<le> reserved_solver_steps l \<and>
     reserved_solver_steps l \<le> 2000000)"

interpretation lease_codec: codec parse_lease lease_to_dict wf_lease
proof (unfold_locales, goal_cases)
  case (1 l)
  then show ?case
    by (simp add: parse_lease_def lease_to_dict_def wf_lease_def get_Cons only_keys_same id_simps
        utc_codec.parse_enc)
next
  case (2 j l)
  then show ?case by (clarsimp simp: parse_lease_def wf_lease_def result_simps)
next
  case (3 j l)
  then show ?case
    by (clarsimp simp: parse_lease_def lease_to_dict_def result_simps) (rule py_eq_objI; simp)
qed (simp add: lease_to_dict_def wf_json.simps)

definition parse_assignment :: "json \<Rightarrow> (string \<times> int) result" where
  "parse_assignment j = bindR (object_value j) (\<lambda>item.
     bindR (only_keys item [''variable_id'', ''value'']) (\<lambda>_.
     bindR (parse_symbol (get item ''variable_id'')) (\<lambda>v.
     bindR (scalar (get item ''value'')) (\<lambda>x.
     Inr (v, x)))))"

definition wf_assignment :: "string \<times> int \<Rightarrow> bool" where
  "wf_assignment a = (wf_symbol (fst a) \<and> wf_scalar (snd a))"

interpretation assignment_codec: codec parse_assignment assignment_to_dict wf_assignment
proof (unfold_locales, goal_cases)
  case (1 a)
  then show ?case
    by (simp add: parse_assignment_def assignment_to_dict_def wf_assignment_def get_Cons
        only_keys_same leaf_simps)
next
  case (2 j a)
  then show ?case by (clarsimp simp: parse_assignment_def wf_assignment_def result_simps)
next
  case (3 j a)
  then show ?case
    by (clarsimp simp: parse_assignment_def assignment_to_dict_def result_simps)
      (rule py_eq_objI; simp)
qed (simp add: assignment_to_dict_def wf_json.simps)

definition parse_witness :: "json \<Rightarrow> solver_witness result" where
  "parse_witness j = bindR (object_value j) (\<lambda>item.
     bindR (only_keys item [''assignments'']) (\<lambda>_.
     bindR (array_value 16 (get item ''assignments'')) (\<lambda>raw.
     bindR (mapR parse_assignment raw) (\<lambda>assignments.
     bindR (require (\<not> (assignments = [] \<or> assignments \<noteq> sort assignments \<or>
         \<not> distinct (map fst assignments))) (SolverContractError NotSortedUnique)) (\<lambda>_.
     Inr assignments)))))"

definition wf_witness :: "solver_witness \<Rightarrow> bool" where
  "wf_witness w = (w \<noteq> [] \<and> length w \<le> 16 \<and> list_all wf_assignment w \<and>
     sorted_wrt (<) (map fst w))"

lemma sorted_pairs:
  fixes w :: "(string \<times> int) list"
  assumes "distinct (map fst w)"
  shows "w = sort w \<longleftrightarrow> sorted_wrt (<) (map fst w)"
proof -
  have "sorted w \<longleftrightarrow> sorted (map fst w)"
    using assms
  proof (induction w)
    case (Cons a w)
    have "a \<le> b \<longleftrightarrow> fst a \<le> fst b" if "b \<in> set w" for b
      using Cons.prems that by (cases a; cases b) (auto simp: less_eq_prod_def less_le image_iff)
    then show ?case using Cons by auto
  qed simp
  then show ?thesis using assms by (metis sorted_sort_id sorted_sort strict_sorted_iff)
qed

interpretation witness_codec: codec parse_witness witness_to_dict wf_witness
proof (unfold_locales, goal_cases)
  case (1 w)
  then have "distinct (map fst w)" by (simp add: wf_witness_def strict_sorted_iff)
  with 1 show ?case
    by (simp add: parse_witness_def witness_to_dict_def wf_witness_def get_Cons only_keys_same
        assignment_codec.mapR_enc flip: sorted_pairs)
next
  case (2 j w)
  then show ?case
    by (clarsimp simp: parse_witness_def wf_witness_def result_simps assignment_codec.mapR_wf
        sorted_pairs) (metis mapR_length)
next
  case (3 j w)
  then show ?case
    by (clarsimp simp: parse_witness_def witness_to_dict_def result_simps)
      (frule (1) wf_get_JArr[where k = "''assignments''"],
       rule py_eq_objI; simp add: assignment_codec.mapR_canonical)
qed (simp add: witness_to_dict_def wf_json.simps list_all_iff assignment_codec.enc_wf_json)

definition objective_text :: "json \<Rightarrow> int result" where
  "objective_text = integer_value (- (10 ^ 15)) (10 ^ 15)"

definition wf_objective_value :: "int \<Rightarrow> bool" where
  "wf_objective_value x = (- (10 ^ 15) \<le> x \<and> x \<le> 10 ^ 15)"

interpretation objective_value_codec: codec objective_text JInt wf_objective_value
  unfolding objective_text_def wf_objective_value_def[abs_def] by (rule codec_integer)

lemma objective_text_iff [result_simps]:
  "objective_text j = Inr x \<longleftrightarrow> j = JInt x \<and> wf_objective_value x"
  by (auto simp: objective_text_def wf_objective_value_def integer_value_iff)

definition parse_interval :: "json \<Rightarrow> objective_interval result" where
  "parse_interval j = bindR (object_value j) (\<lambda>item.
     bindR (only_keys item [''lower'', ''upper'']) (\<lambda>_.
     bindR (objective_text (get item ''lower'')) (\<lambda>lo.
     bindR (objective_text (get item ''upper'')) (\<lambda>hi.
     bindR (require (\<not> lo > hi) (SolverContractError IntervalReversed)) (\<lambda>_.
     Inr \<lparr>lower = lo, upper = hi\<rparr>)))))"

definition wf_interval :: "objective_interval \<Rightarrow> bool" where
  "wf_interval i = (wf_objective_value (lower i) \<and> wf_objective_value (upper i) \<and> lower i \<le> upper i)"

interpretation interval_codec: codec parse_interval interval_to_dict wf_interval
proof (unfold_locales, goal_cases)
  case (1 i)
  then show ?case
    by (simp add: parse_interval_def interval_to_dict_def wf_interval_def get_Cons only_keys_same
        objective_value_codec.parse_enc)
next
  case (2 j i)
  then show ?case by (clarsimp simp: parse_interval_def wf_interval_def result_simps)
next
  case (3 j i)
  then show ?case
    by (clarsimp simp: parse_interval_def interval_to_dict_def result_simps)
      (rule py_eq_objI; simp)
qed (simp add: interval_to_dict_def wf_json.simps)

definition parse_resources :: "json \<Rightarrow> solver_resource_evidence result" where
  "parse_resources j = bindR (object_value j) (\<lambda>item.
     bindR (only_keys item [''solver_calls'', ''solver_steps'', ''search_space_size'',
       ''visited_assignments'', ''unvisited_assignments'', ''constraint_checks'',
       ''elapsed_milliseconds'', ''step_limit'', ''timeout_milliseconds'',
       ''termination_reason'']) (\<lambda>_.
     bindR (integer_value 0 1 (get item ''solver_calls'')) (\<lambda>calls.
     bindR (integer_value 0 1000000 (get item ''solver_steps'')) (\<lambda>steps.
     bindR (integer_value 1 1000000 (get item ''search_space_size'')) (\<lambda>space.
     bindR (integer_value 0 1000000 (get item ''visited_assignments'')) (\<lambda>visited.
     bindR (integer_value 0 1000000 (get item ''unvisited_assignments'')) (\<lambda>unvisited.
     bindR (integer_value 1 1000000 (get item ''step_limit'')) (\<lambda>limit.
     bindR (require (\<not> (visited \<noteq> steps \<or> visited + unvisited \<noteq> space))
       (SolverContractError BadAccounting)) (\<lambda>_.
     bindR (require (\<not> steps > limit) (SolverContractError BadAccounting)) (\<lambda>_.
     bindR (optional_timeout (get item ''timeout_milliseconds'')) (\<lambda>timeout.
     bindR (integer_value 0 256000000 (get item ''constraint_checks'')) (\<lambda>cks.
     bindR (integer_value 0 3600000 (get item ''elapsed_milliseconds'')) (\<lambda>elapsed.
     bindR (enum_value termination_value solver_termination_reason_members
       (get item ''termination_reason'')) (\<lambda>reason.
     Inr \<lparr>solver_calls = calls, solver_steps = steps, ev_search_space_size = space,
          visited_assignments = visited, unvisited_assignments = unvisited,
          constraint_checks = cks, elapsed_milliseconds = elapsed, step_limit = limit,
          ev_timeout = timeout, termination_reason = reason\<rparr>))))))))))))))"

definition wf_resources :: "solver_resource_evidence \<Rightarrow> bool" where
  "wf_resources e = (0 \<le> solver_calls e \<and> solver_calls e \<le> 1 \<and>
     0 \<le> visited_assignments e \<and> visited_assignments e \<le> 1000000 \<and>
     solver_steps e = visited_assignments e \<and>
     0 \<le> unvisited_assignments e \<and> unvisited_assignments e \<le> 1000000 \<and>
     ev_search_space_size e = visited_assignments e + unvisited_assignments e \<and>
     1 \<le> ev_search_space_size e \<and> ev_search_space_size e \<le> 1000000 \<and>
     solver_steps e \<le> step_limit e \<and> 1 \<le> step_limit e \<and> step_limit e \<le> 1000000 \<and>
     wf_timeout (ev_timeout e) \<and> 0 \<le> constraint_checks e \<and> constraint_checks e \<le> 256000000 \<and>
     0 \<le> elapsed_milliseconds e \<and> elapsed_milliseconds e \<le> 3600000)"

interpretation resources_codec: codec parse_resources resources_to_dict wf_resources
proof (unfold_locales, goal_cases)
  case (1 e)
  then show ?case
    by (cases e) (simp add: parse_resources_def resources_to_dict_def wf_resources_def get_Cons
        only_keys_same timeout_codec.parse_enc termination_enum.enum_value_val)
next
  case (2 j e)
  then show ?case
    by (clarsimp simp: parse_resources_def wf_resources_def result_simps timeout_codec.parse_wf)
next
  case (3 j e)
  then show ?case
    by (clarsimp simp: parse_resources_def resources_to_dict_def result_simps
        termination_enum.enum_value_iff)
      (rule py_eq_objI; simp add: timeout_codec.parse_canonical)
qed (simp add: resources_to_dict_def wf_json.simps timeout_codec.enc_wf_json)

section \<open>Result shapes\<close>

definition positive_status :: "solver_result_status \<Rightarrow> bool" where
  "positive_status s = (s \<in> {SATISFIABLE, FEASIBLE, BOUNDED, OPTIMAL})"

definition negative_status :: "solver_result_status \<Rightarrow> bool" where
  "negative_status s = (s \<in> {UNSATISFIABLE, INFEASIBLE})"

definition incomplete_status :: "solver_result_status \<Rightarrow> bool" where
  "incomplete_status s = (s \<in> {TIMEOUT, UNAVAILABLE, UNKNOWN, ERROR})"

fun expected_termination :: "solver_result_status \<Rightarrow> solver_termination_reason list" where
  "expected_termination SATISFIABLE = [WITNESS_FOUND]"
| "expected_termination FEASIBLE = [WITNESS_FOUND]"
| "expected_termination UNSATISFIABLE = [SEARCH_EXHAUSTED]"
| "expected_termination INFEASIBLE = [SEARCH_EXHAUSTED]"
| "expected_termination OPTIMAL = [SEARCH_EXHAUSTED]"
| "expected_termination BOUNDED = [STEP_LIMIT]"
| "expected_termination UNKNOWN = [STEP_LIMIT]"
| "expected_termination TIMEOUT = [REQUEST_TIMEOUT, LEASE_DEADLINE]"
| "expected_termination UNAVAILABLE = [ADAPTER_UNAVAILABLE]"
| "expected_termination ERROR = [ADAPTER_ERROR]"

fun expected_diagnostic :: "solver_result_status \<Rightarrow> string option" where
  "expected_diagnostic UNKNOWN = Some ''step-limit''"
| "expected_diagnostic UNAVAILABLE = Some ''adapter-unavailable''"
| "expected_diagnostic ERROR = Some ''adapter-error''"
| "expected_diagnostic _ = None"

text \<open>The checks in the order of the code; the index says which of them raised.\<close>

fun first_failure :: "nat \<Rightarrow> bool list \<Rightarrow> unit result" where
  "first_failure n [] = Inr ()"
| "first_failure n (b # bs) =
     (if b then Inl (SolverContractError (ResultShape n)) else first_failure (n + 1) bs)"

definition validate_result_shape ::
  "solver_result_status \<Rightarrow> solver_witness option \<Rightarrow> int option \<Rightarrow> objective_interval option \<Rightarrow>
   solver_proof_disposition \<Rightarrow> string option \<Rightarrow> solver_resource_evidence \<Rightarrow> unit result" where
  "validate_result_shape s w value interval proof diagnostic e = first_failure 1 [
     positive_status s \<and> w = None,
     negative_status s \<and> w \<noteq> None,
     s \<in> {FEASIBLE, BOUNDED, OPTIMAL} \<and> value = None,
     s \<in> {SATISFIABLE, UNSATISFIABLE} \<and> (value \<noteq> None \<or> interval \<noteq> None),
     s = BOUNDED \<and> (interval = None \<or> proof \<noteq> OBJECTIVE_BOUND),
     s = OPTIMAL \<and> (interval = None \<or> lower (the interval) \<noteq> upper (the interval) \<or>
       proof \<noteq> EXHAUSTIVE_ENUMERATION),
     negative_status s \<and> proof \<noteq> EXHAUSTIVE_ENUMERATION,
     s \<in> {SATISFIABLE, FEASIBLE} \<and> proof \<noteq> PROOF_WITNESS,
     incomplete_status s \<and> proof \<noteq> PROOF_NONE,
     incomplete_status s \<and> diagnostic = None,
     \<not> incomplete_status s \<and> diagnostic \<noteq> None,
     s = UNAVAILABLE \<and> (solver_calls e \<noteq> 0 \<or> solver_steps e \<noteq> 0),
     termination_reason e \<notin> set (expected_termination s),
     (positive_status s \<or> negative_status s) \<and> (solver_calls e \<noteq> 1 \<or> solver_steps e = 0),
     (negative_status s \<or> s = OPTIMAL) \<and>
       (visited_assignments e \<noteq> ev_search_space_size e \<or> unvisited_assignments e \<noteq> 0),
     s \<in> {BOUNDED, UNKNOWN} \<and> (solver_calls e \<noteq> 1 \<or> solver_steps e \<noteq> step_limit e \<or>
       unvisited_assignments e = 0),
     s = TIMEOUT \<and> (solver_calls e \<noteq> 1 \<or> unvisited_assignments e = 0),
     s \<noteq> TIMEOUT \<and> elapsed_milliseconds e \<noteq> 0,
     s \<in> {UNAVAILABLE, ERROR} \<and> (visited_assignments e \<noteq> 0 \<or> constraint_checks e \<noteq> 0 \<or>
       elapsed_milliseconds e \<noteq> 0),
     s = ERROR \<and> solver_calls e \<noteq> 1,
     expected_diagnostic s \<noteq> None \<and> diagnostic \<noteq> expected_diagnostic s,
     s = TIMEOUT \<and> diagnostic \<noteq> Some (termination_value (termination_reason e))]"

lemma first_failure_iff: "first_failure n bs = Inr u \<longleftrightarrow> list_all Not bs"
  by (induction n bs rule: first_failure.induct) auto

definition diagnostic_codes :: "string list" where
  "diagnostic_codes = [''adapter-unavailable'', ''adapter-error'', ''request-timeout'',
     ''lease-deadline'', ''step-limit'']"

section \<open>Results\<close>

definition result_keys :: "string list" where
  "result_keys = [''sensitivity'', ''request'', ''request_id'', ''contract_id'', ''candidate'',
     ''graph_id'', ''task_id'', ''context_snapshot_id'', ''adapter_id'', ''adapter_version'',
     ''license_expression'', ''provenance'', ''lease'', ''status'', ''witness'',
     ''objective_value'', ''objective_interval'', ''tolerance'', ''proof_disposition'',
     ''resources'', ''diagnostic_code'']"

definition parse_result :: "json \<Rightarrow> solver_result result" where
  "parse_result j = bindR (object_value j) (\<lambda>item.
     bindR (only_keys item result_keys) (\<lambda>_.
     bindR (parse_tolerance (get item ''tolerance'')) (\<lambda>_.
     bindR (enum_value status_value solver_result_status_members (get item ''status'')) (\<lambda>status.
     bindR (optional_value parse_witness (get item ''witness'')) (\<lambda>witness.
     bindR (optional_value objective_text (get item ''objective_value'')) (\<lambda>objective.
     bindR (optional_value parse_interval (get item ''objective_interval'')) (\<lambda>interval.
     bindR (enum_value proof_value solver_proof_disposition_members
       (get item ''proof_disposition'')) (\<lambda>proof.
     bindR (optional_string 64 (get item ''diagnostic_code'')) (\<lambda>diagnostic.
     bindR (require (\<not> (diagnostic \<noteq> None \<and> the diagnostic \<notin> set diagnostic_codes))
       (SolverContractError (ResultShape 0))) (\<lambda>_.
     bindR (parse_resources (get item ''resources'')) (\<lambda>resources.
     bindR (validate_result_shape status witness objective interval proof diagnostic resources) (\<lambda>_.
     bindR (version_text (get item ''adapter_version'')) (\<lambda>version.
     bindR (license_text (get item ''license_expression'')) (\<lambda>license.
     bindR (enum_value sensitivity_value sensitivity_members (get item ''sensitivity'')) (\<lambda>s.
     bindR (parse_artifact_reference (get item ''request'')) (\<lambda>request.
     bindR (solver_id (type_prefix REQUEST) (get item ''request_id'')) (\<lambda>request_id.
     bindR (solver_id contract_prefix (get item ''contract_id'')) (\<lambda>contract_id.
     bindR (parse_candidate_identity (get item ''candidate'')) (\<lambda>candidate.
     bindR (pattern_id graph_pattern (get item ''graph_id'')) (\<lambda>graph_id.
     bindR (pattern_id task_pattern (get item ''task_id'')) (\<lambda>task_id.
     bindR (pattern_id context_pattern (get item ''context_snapshot_id'')) (\<lambda>context_id.
     bindR (parse_slug (get item ''adapter_id'')) (\<lambda>adapter_id.
     bindR (parse_references 1 (get item ''provenance'')) (\<lambda>provenance.
     bindR (parse_lease (get item ''lease'')) (\<lambda>lease.
     Inr \<lparr>rs_sensitivity = s, rs_request = request, rs_request_id = request_id,
          rs_contract_id = contract_id, rs_candidate = candidate, rs_graph_id = graph_id,
          rs_task_id = task_id, rs_context_snapshot_id = context_id, rs_adapter_id = adapter_id,
          rs_adapter_version = version, rs_license = license, rs_provenance = provenance,
          rs_lease = lease, rs_status = status, rs_witness = witness,
          objective_value = objective, rs_interval = interval, proof_disposition = proof,
          rs_resources = resources, diagnostic_code = diagnostic\<rparr>)))))))))))))))))))))))))"

definition result_shape_ok :: "solver_result \<Rightarrow> bool" where
  "result_shape_ok r = (validate_result_shape (rs_status r) (rs_witness r) (objective_value r)
     (rs_interval r) (proof_disposition r) (diagnostic_code r) (rs_resources r) = Inr ())"

definition wf_diagnostic :: "string option \<Rightarrow> bool" where
  "wf_diagnostic = pred_option (\<lambda>d. d \<in> set diagnostic_codes)"

definition wf_result :: "solver_result \<Rightarrow> bool" where
  "wf_result r = (wf_reference (rs_request r) \<and> wf_solver_id (type_prefix REQUEST) (rs_request_id r) \<and>
     wf_solver_id contract_prefix (rs_contract_id r) \<and> wf_candidate (rs_candidate r) \<and>
     wf_pattern graph_pattern (rs_graph_id r) \<and> wf_pattern task_pattern (rs_task_id r) \<and>
     wf_pattern context_pattern (rs_context_snapshot_id r) \<and> wf_slug (rs_adapter_id r) \<and>
     wf_version (rs_adapter_version r) \<and> wf_license (rs_license r) \<and>
     wf_references 1 (rs_provenance r) \<and> wf_lease (rs_lease r) \<and>
     pred_option wf_witness (rs_witness r) \<and> pred_option wf_objective_value (objective_value r) \<and>
     pred_option wf_interval (rs_interval r) \<and> wf_resources (rs_resources r) \<and>
     wf_diagnostic (diagnostic_code r) \<and> result_shape_ok r)"

lemma witness_not_null [simp]: "witness_to_dict w \<noteq> JNull"
  by (simp add: witness_to_dict_def)

lemma interval_not_null [simp]: "interval_to_dict i \<noteq> JNull"
  by (simp add: interval_to_dict_def)

lemma plain_diagnostics: "list_all (plain_text 64) diagnostic_codes"
  by code_simp

lemma diagnostic_enc:
  assumes "wf_diagnostic d"
  shows "optional_string 64 (enc_option JStr d) = Inr d"
  using assms plain_diagnostics
  by (cases d) (auto simp: wf_diagnostic_def list_all_iff line_codec.option_enc)

lemma diagnostic_wf: "\<not> (d \<noteq> None \<and> the d \<notin> set diagnostic_codes) \<longleftrightarrow> wf_diagnostic d"
  by (cases d) (auto simp: wf_diagnostic_def)

interpretation result_codec: codec parse_result result_to_dict wf_result
proof (unfold_locales, goal_cases)
  case (1 r)
  have eta: "\<lparr>rs_sensitivity = rs_sensitivity r, rs_request = rs_request r,
      rs_request_id = rs_request_id r,
      rs_contract_id = rs_contract_id r, rs_candidate = rs_candidate r, rs_graph_id = rs_graph_id r,
      rs_task_id = rs_task_id r, rs_context_snapshot_id = rs_context_snapshot_id r,
      rs_adapter_id = rs_adapter_id r,
      rs_adapter_version = rs_adapter_version r, rs_license = rs_license r,
      rs_provenance = rs_provenance r,
      rs_lease = rs_lease r, rs_status = rs_status r, rs_witness = rs_witness r,
      objective_value = objective_value r, rs_interval = rs_interval r,
      proof_disposition = proof_disposition r,
      rs_resources = rs_resources r, diagnostic_code = diagnostic_code r\<rparr> = r" by simp
  from 1 show ?case
    unfolding parse_result_def diagnostic_wf
    by (simp add: result_to_dict_def wf_result_def result_shape_ok_def get_Cons
        only_keys_same result_keys_def leaf_simps id_simps sensitivity_enum.enum_value_val
        status_enum.enum_value_val proof_enum.enum_value_val witness_codec.option_enc
        objective_value_codec.option_enc interval_codec.option_enc resources_codec.parse_enc
        diagnostic_enc reference_codec.parse_enc candidate_codec.parse_enc
        references_codec.parse_enc lease_codec.parse_enc eta)
next
  case (2 j r)
  then show ?case
    unfolding parse_result_def diagnostic_wf
    by (clarsimp simp: wf_result_def result_shape_ok_def result_simps
        witness_codec.option_wf objective_value_codec.option_wf interval_codec.option_wf
        resources_codec.parse_wf reference_codec.parse_wf candidate_codec.parse_wf
        references_codec.parse_wf lease_codec.parse_wf)
next
  case (3 j r)
  then show ?case
    by (clarsimp simp: parse_result_def result_to_dict_def result_keys_def result_simps
        sensitivity_enum.enum_value_iff status_enum.enum_value_iff proof_enum.enum_value_iff)
      (rule py_eq_objI; simp add: witness_codec.option_canonical
        objective_value_codec.option_canonical interval_codec.option_canonical
        resources_codec.parse_canonical line_codec.option_canonical
        reference_codec.parse_canonical candidate_codec.parse_canonical
        references_codec.parse_canonical lease_codec.parse_canonical tolerance_canonical)
qed (simp add: result_to_dict_def wf_json.simps list_all_iff reference_codec.enc_wf_json
    candidate_codec.enc_wf_json lease_codec.enc_wf_json witness_codec.option_wf_json
    objective_value_codec.option_wf_json interval_codec.option_wf_json
    resources_codec.enc_wf_json line_codec.option_wf_json tolerance_wf_json)

section \<open>Verifications\<close>

definition parse_check :: "json \<Rightarrow> solver_verification_check result" where
  "parse_check j = bindR (object_value j) (\<lambda>item.
     bindR (only_keys item [''check_id'', ''passed'']) (\<lambda>_.
     bindR (parse_slug (get item ''check_id'')) (\<lambda>i.
     bindR (boolean_value (get item ''passed'')) (\<lambda>p.
     Inr \<lparr>check_id = i, passed = p\<rparr>))))"

definition sorted_slugs :: "json \<Rightarrow> string list result" where
  "sorted_slugs j = bindR (array_value 64 j) (\<lambda>raw.
     bindR (mapR parse_slug raw) (\<lambda>slugs.
     bindR (require (slugs = sort (remdups slugs)) (SolverContractError NotSortedUnique)) (\<lambda>_.
     Inr slugs)))"

definition wf_slugs :: "string list \<Rightarrow> bool" where
  "wf_slugs xs = (length xs \<le> 64 \<and> list_all wf_slug xs \<and> sorted_wrt (<) xs)"

interpretation check_codec: codec parse_check check_to_dict "\<lambda>c. wf_slug (check_id c)"
proof (unfold_locales, goal_cases)
  case (1 c)
  then show ?case
    by (simp add: parse_check_def check_to_dict_def get_Cons only_keys_same leaf_simps)
next
  case (2 j c)
  then show ?case by (clarsimp simp: parse_check_def result_simps)
next
  case (3 j c)
  then show ?case
    by (clarsimp simp: parse_check_def check_to_dict_def result_simps) (rule py_eq_objI; simp)
qed (simp add: check_to_dict_def wf_json.simps)

interpretation slugs_codec: codec sorted_slugs "\<lambda>xs. JArr (map JStr xs)" wf_slugs
proof (unfold_locales, goal_cases)
  case (1 xs)
  then show ?case
    by (simp add: sorted_slugs_def wf_slugs_def slug_codec.mapR_enc sort_key_remdups_fix
        strict_sorted_iff)
next
  case (2 j xs)
  then show ?case
    by (clarsimp simp: sorted_slugs_def wf_slugs_def result_simps slug_codec.mapR_wf
        sort_key_remdups_fix strict_sorted_iff) (metis mapR_length)
next
  case (3 j xs)
  then show ?case
    by (clarsimp simp: sorted_slugs_def result_simps slug_codec.mapR_canonical)
qed (simp add: list_all_iff)

definition verification_keys :: "string list" where
  "verification_keys = [''sensitivity'', ''request'', ''request_id'', ''result'', ''result_id'',
     ''contract_id'', ''candidate'', ''graph_id'', ''task_id'', ''context_snapshot_id'',
     ''lease'', ''outcome'', ''adoption_allowed'', ''checks'', ''reasons'', ''verification_steps'']"

definition parse_verification :: "json \<Rightarrow> solver_verification result" where
  "parse_verification j = bindR (object_value j) (\<lambda>item.
     bindR (only_keys item verification_keys) (\<lambda>_.
     bindR (array_value 64 (get item ''checks'')) (\<lambda>raw.
     bindR (require (raw \<noteq> []) (SolverContractError EmptyList)) (\<lambda>_.
     bindR (mapR parse_check raw) (\<lambda>cs.
     bindR (require (cs = sort_key check_id cs \<and> distinct (map check_id cs))
       (SolverContractError NotSortedUnique)) (\<lambda>_.
     bindR (sorted_slugs (get item ''reasons'')) (\<lambda>rs.
     bindR (enum_value outcome_value solver_verification_outcome_members (get item ''outcome'')) (\<lambda>out.
     bindR (boolean_value (get item ''adoption_allowed'')) (\<lambda>adoption.
     bindR (require (\<not> (adoption \<and> (out \<noteq> VERIFIED \<or> \<not> list_all passed cs)))
       (SolverContractError BadAdoption)) (\<lambda>_.
     bindR (enum_value sensitivity_value sensitivity_members (get item ''sensitivity'')) (\<lambda>s.
     bindR (parse_artifact_reference (get item ''request'')) (\<lambda>request.
     bindR (solver_id (type_prefix REQUEST) (get item ''request_id'')) (\<lambda>request_id.
     bindR (parse_artifact_reference (get item ''result'')) (\<lambda>result.
     bindR (solver_id (type_prefix RESULT) (get item ''result_id'')) (\<lambda>result_id.
     bindR (solver_id contract_prefix (get item ''contract_id'')) (\<lambda>contract_id.
     bindR (parse_candidate_identity (get item ''candidate'')) (\<lambda>candidate.
     bindR (pattern_id graph_pattern (get item ''graph_id'')) (\<lambda>graph_id.
     bindR (pattern_id task_pattern (get item ''task_id'')) (\<lambda>task_id.
     bindR (pattern_id context_pattern (get item ''context_snapshot_id'')) (\<lambda>context_id.
     bindR (parse_lease (get item ''lease'')) (\<lambda>lease.
     bindR (integer_value 0 1000000 (get item ''verification_steps'')) (\<lambda>steps.
     Inr \<lparr>vf_sensitivity = s, vf_request = request, vf_request_id = request_id,
          vf_result = result, vf_result_id = result_id, vf_contract_id = contract_id,
          vf_candidate = candidate, vf_graph_id = graph_id, vf_task_id = task_id,
          vf_context_snapshot_id = context_id, vf_lease = lease, outcome = out,
          adoption_allowed = adoption, checks = cs, reasons = rs,
          verification_steps = steps\<rparr>))))))))))))))))))))))"

definition wf_verification :: "solver_verification \<Rightarrow> bool" where
  "wf_verification v = (wf_reference (vf_request v) \<and>
     wf_solver_id (type_prefix REQUEST) (vf_request_id v) \<and> wf_reference (vf_result v) \<and>
     wf_solver_id (type_prefix RESULT) (vf_result_id v) \<and>
     wf_solver_id contract_prefix (vf_contract_id v) \<and> wf_candidate (vf_candidate v) \<and>
     wf_pattern graph_pattern (vf_graph_id v) \<and> wf_pattern task_pattern (vf_task_id v) \<and>
     wf_pattern context_pattern (vf_context_snapshot_id v) \<and> wf_lease (vf_lease v) \<and>
     checks v \<noteq> [] \<and> length (checks v) \<le> 64 \<and>
     list_all (\<lambda>c. wf_slug (check_id c)) (checks v) \<and>
     sorted_wrt (<) (map check_id (checks v)) \<and> wf_slugs (reasons v) \<and>
     (adoption_allowed v \<longrightarrow> outcome v = VERIFIED \<and> list_all passed (checks v)) \<and>
     0 \<le> verification_steps v \<and> verification_steps v \<le> 1000000)"

interpretation verification_codec: codec parse_verification verification_to_dict wf_verification
proof (unfold_locales, goal_cases)
  case (1 v)
  have eta: "\<lparr>vf_sensitivity = vf_sensitivity v, vf_request = vf_request v,
      vf_request_id = vf_request_id v, vf_result = vf_result v, vf_result_id = vf_result_id v,
      vf_contract_id = vf_contract_id v, vf_candidate = vf_candidate v,
      vf_graph_id = vf_graph_id v, vf_task_id = vf_task_id v,
      vf_context_snapshot_id = vf_context_snapshot_id v, vf_lease = vf_lease v,
      outcome = outcome v, adoption_allowed = adoption_allowed v, checks = checks v,
      reasons = reasons v, verification_steps = verification_steps v\<rparr> = v" by simp
  from 1 have "\<not> (adoption_allowed v \<and> (outcome v \<noteq> VERIFIED \<or> \<not> list_all passed (checks v)))"
    by (auto simp: wf_verification_def)
  with 1 show ?case
    by (simp add: parse_verification_def verification_to_dict_def wf_verification_def get_Cons
        only_keys_same verification_keys_def leaf_simps id_simps sensitivity_enum.enum_value_val
        outcome_enum.enum_value_val check_codec.mapR_enc slugs_codec.parse_enc strict_sort_key
        reference_codec.parse_enc candidate_codec.parse_enc lease_codec.parse_enc eta)
next
  case (2 j v)
  then show ?case
    by (clarsimp simp: parse_verification_def wf_verification_def result_simps strict_sort_key
        check_codec.mapR_wf slugs_codec.parse_wf reference_codec.parse_wf
        candidate_codec.parse_wf lease_codec.parse_wf) (auto dest!: mapR_length)
next
  case (3 j v)
  then show ?case
    by (clarsimp simp: parse_verification_def verification_to_dict_def verification_keys_def
        result_simps sensitivity_enum.enum_value_iff outcome_enum.enum_value_iff)
      (frule (1) wf_get_JArr[where k = "''checks''"],
       rule py_eq_objI; simp add: check_codec.mapR_canonical slugs_codec.parse_canonical
        reference_codec.parse_canonical candidate_codec.parse_canonical lease_codec.parse_canonical)
qed (simp add: verification_to_dict_def wf_json.simps list_all_iff check_codec.enc_wf_json
    reference_codec.enc_wf_json candidate_codec.enc_wf_json lease_codec.enc_wf_json)

section \<open>Envelopes\<close>

fun parse_value :: "solver_artifact_type \<Rightarrow> json \<Rightarrow> solver_value result" where
  "parse_value REGISTRY j = bindR (parse_registry j) (\<lambda>r. Inr (RegistryValue r))"
| "parse_value REQUEST j = bindR (parse_request j) (\<lambda>r. Inr (RequestValue r))"
| "parse_value RESULT j = bindR (parse_result j) (\<lambda>r. Inr (ResultValue r))"
| "parse_value VERIFICATION j = bindR (parse_verification j) (\<lambda>v. Inr (VerificationValue v))"

fun wf_value :: "solver_artifact_type \<Rightarrow> solver_value \<Rightarrow> bool" where
  "wf_value REGISTRY (RegistryValue r) = wf_registry r"
| "wf_value REQUEST (RequestValue r) = wf_request r"
| "wf_value RESULT (ResultValue r) = wf_result r"
| "wf_value VERIFICATION (VerificationValue v) = wf_verification v"
| "wf_value _ _ = False"

interpretation value_codec: codec "parse_value t" value_to_dict "wf_value t" for t
proof (unfold_locales, goal_cases)
  case (1 v)
  then show ?case
    by (cases t; cases v) (simp_all add: registry_codec.parse_enc request_codec.parse_enc
        result_codec.parse_enc verification_codec.parse_enc)
next
  case (2 j v)
  then show ?case
    by (cases t) (auto simp: bindR_eq_Inr registry_codec.parse_wf request_codec.parse_wf
        result_codec.parse_wf verification_codec.parse_wf)
next
  case (3 j v)
  then show ?case
    by (cases t) (auto simp: bindR_eq_Inr registry_codec.parse_canonical
        request_codec.parse_canonical result_codec.parse_canonical
        verification_codec.parse_canonical)
next
  case (4 v)
  show ?case
    by (cases v) (simp_all add: registry_codec.enc_wf_json request_codec.enc_wf_json
        result_codec.enc_wf_json verification_codec.enc_wf_json)
qed

definition artifact_from_value ::
  "solver_artifact_type \<Rightarrow> solver_value \<Rightarrow> loaded_solver_artifact result" where
  "artifact_from_value t v = (let content = value_to_dict v in
     bindR (parse_value t content) (\<lambda>parsed.
     bindR (require (py_eq (value_to_dict parsed) content) (SolverContractError NotCanonical)) (\<lambda>_.
     bindR (solver_identity t content) (\<lambda>identity.
     Inr \<lparr>artifact_type = t, artifact_id = identity, artifact_value = parsed\<rparr>))))"

text \<open>\<open>_parse_solver_envelope\<close> up to its last check, and the whole.\<close>

definition read_envelope ::
  "solver_artifact_type option \<Rightarrow> json \<Rightarrow> loaded_solver_artifact result" where
  "read_envelope expected_type decoded = bindR (object_value decoded) (\<lambda>envelope.
     bindR (only_keys envelope [''schema_version'', ''artifact_type'', ''artifact_id'', ''content'']) (\<lambda>_.
     bindR (require (get envelope ''schema_version'' = JStr ''1.0'')
       (SolverContractError BadSchemaVersion)) (\<lambda>_.
     bindR (enum_value artifact_type_value solver_artifact_type_members
       (get envelope ''artifact_type'')) (\<lambda>t.
     bindR (require (\<not> (expected_type \<noteq> None \<and> expected_type \<noteq> Some t))
       (SolverContractError UnexpectedType)) (\<lambda>_.
     bindR (parse_value t (get envelope ''content'')) (\<lambda>v.
     bindR (solver_identity t (value_to_dict v)) (\<lambda>expected_id.
     bindR (solver_id (type_prefix t) (get envelope ''artifact_id'')) (\<lambda>identifier.
     bindR (require (identifier = expected_id) (SolverContractError IdentityMismatch)) (\<lambda>_.
     Inr \<lparr>artifact_type = t, artifact_id = identifier, artifact_value = v\<rparr>)))))))))"

definition parse_solver_envelope ::
  "solver_artifact_type option \<Rightarrow> json \<Rightarrow> loaded_solver_artifact result" where
  "parse_solver_envelope expected_type decoded = bindR (read_envelope expected_type decoded) (\<lambda>result.
     bindR (require (py_eq (artifact_to_dict result) decoded) (SolverContractError NotCanonical)) (\<lambda>_.
     Inr result))"

definition wf_artifact :: "loaded_solver_artifact \<Rightarrow> bool" where
  "wf_artifact a = (wf_value (artifact_type a) (artifact_value a) \<and>
     solver_identity (artifact_type a) (value_to_dict (artifact_value a)) = Inr (artifact_id a))"

lemma read_envelope_facts:
  assumes "read_envelope ty j = Inr a"
  obtains fs where "j = JObj fs"
    "has_keys fs [''schema_version'', ''artifact_type'', ''artifact_id'', ''content'']"
    "get fs ''schema_version'' = JStr ''1.0''"
    "get fs ''artifact_type'' = JStr (artifact_type_value (artifact_type a))"
    "get fs ''artifact_id'' = JStr (artifact_id a)"
    "parse_value (artifact_type a) (get fs ''content'') = Inr (artifact_value a)"
    "solver_identity (artifact_type a) (value_to_dict (artifact_value a)) = Inr (artifact_id a)"
    "ty = None \<or> ty = Some (artifact_type a)"
  using assms
  by (clarsimp simp: read_envelope_def result_simps artifact_type_enum.enum_value_iff)

lemma read_envelope_canonical:
  assumes "read_envelope ty j = Inr a" and "wf_json j"
  shows "py_eq (artifact_to_dict a) j"
  using assms(1)
proof (cases rule: read_envelope_facts)
  case (1 fs)
  then show ?thesis using assms(2) unfolding artifact_to_dict_def 1(1)
    by (intro py_eq_objI) (simp_all add: value_codec.parse_canonical)
qed

text \<open>On decoded JSON the last check of the envelope parser never fires.\<close>

lemma envelope_check_redundant:
  "wf_json j \<Longrightarrow> parse_solver_envelope ty j = read_envelope ty j"
  by (cases "read_envelope ty j")
    (simp_all add: parse_solver_envelope_def read_envelope_canonical)

lemma artifact_wf_json: "wf_json (artifact_to_dict a)"
  by (simp add: artifact_to_dict_def wf_json.simps value_codec.enc_wf_json)

lemma read_envelope_enc:
  assumes "wf_artifact a" and "ty = None \<or> ty = Some (artifact_type a)"
  shows "read_envelope ty (artifact_to_dict a) = Inr a"
proof -
  have eta: "\<lparr>artifact_type = artifact_type a, artifact_id = artifact_id a,
      artifact_value = artifact_value a\<rparr> = a" by simp
  have "wf_solver_id (type_prefix (artifact_type a)) (artifact_id a)"
    using assms(1) solver_identity_wf by (auto simp: wf_artifact_def)
  then show ?thesis using assms
    by (auto simp add: read_envelope_def artifact_to_dict_def wf_artifact_def get_Cons
        only_keys_same artifact_type_enum.enum_value_val value_codec.parse_enc id_simps eta)
qed

interpretation envelope_codec: codec "parse_solver_envelope ty" artifact_to_dict
    "\<lambda>a. wf_artifact a \<and> (ty = None \<or> ty = Some (artifact_type a))" for ty
proof (unfold_locales, goal_cases)
  case (1 a)
  then show ?case
    by (simp add: envelope_check_redundant artifact_wf_json read_envelope_enc)
next
  case (2 j a)
  then have "read_envelope ty j = Inr a" by (auto simp: parse_solver_envelope_def result_simps)
  then show ?case
    by (cases rule: read_envelope_facts) (auto simp: wf_artifact_def value_codec.parse_wf)
next
  case (3 j a)
  then show ?case by (auto simp: parse_solver_envelope_def result_simps)
qed (rule artifact_wf_json)

lemma artifact_from_value_wf:
  assumes "wf_value t v"
  shows "artifact_from_value t v = Inr a \<longleftrightarrow>
    wf_artifact a \<and> artifact_type a = t \<and> artifact_value a = v"
  using assms
  by (cases a) (auto simp: artifact_from_value_def wf_artifact_def value_codec.parse_enc
      value_codec.enc_wf_json py_eq_refl Let_def result_simps)

end
