(* ===== verification/Evaluation.thy ===== *)
theory Evaluation
  imports ResultContracts
begin

text \<open>
  The evaluation half of \<open>adapters/solver.py\<close>, shared by the reference adapter and by the
  verifier: constraints, objective and conservative objective bounds over a complete assignment,
  and what they mean.  \<open>satisfies\<close> and \<open>objective_at\<close> are the mathematical reading of a
  problem; on a well-formed problem the evaluators compute exactly that and never raise.
\<close>

section \<open>Evaluators\<close>

type_synonym valuation = "string \<rightharpoonup> int"

text \<open>\<open>dict(zip(variable_ids, assignment))\<close>: a later entry wins.\<close>

definition assignment_values :: "string list \<Rightarrow> int list \<Rightarrow> valuation" where
  "assignment_values ids a = map_of (rev (zip ids a))"

definition lookup :: "valuation \<Rightarrow> string \<Rightarrow> int result" where
  "lookup vals v = (case vals v of None \<Rightarrow> Inl KeyError | Some x \<Rightarrow> Inr x)"

definition term_product :: "valuation \<Rightarrow> linear_term \<Rightarrow> int result" where
  "term_product vals t = bindR (lookup vals (term_variable t)) (\<lambda>x. Inr (x * coefficient t))"

fun compare_relation :: "linear_relation \<Rightarrow> int \<Rightarrow> int \<Rightarrow> bool" where
  "compare_relation EQ l r = (l = r)"
| "compare_relation NE l r = (l \<noteq> r)"
| "compare_relation LT l r = (l < r)"
| "compare_relation LE l r = (l \<le> r)"
| "compare_relation GT l r = (l > r)"
| "compare_relation GE l r = (l \<ge> r)"

text \<open>\<open>any(...)\<close> stops at the first literal that holds.\<close>

fun any_literal :: "valuation \<Rightarrow> clause_literal list \<Rightarrow> bool result" where
  "any_literal vals [] = Inr False"
| "any_literal vals (l # ls) = bindR (lookup vals (literal_variable l)) (\<lambda>x.
     if x = equals l then Inr True else any_literal vals ls)"

fun evaluate_constraint :: "valuation \<Rightarrow> solver_constraint \<Rightarrow> bool result" where
  "evaluate_constraint vals (LinearConstraint i terms rel rhs) =
     bindR (mapR (term_product vals) terms) (\<lambda>products.
     Inr (compare_relation rel (sum_list products) rhs))"
| "evaluate_constraint vals (AllDifferentConstraint i ids) =
     bindR (mapR (lookup vals) ids) (\<lambda>selected. Inr (length selected = card (set selected)))"
| "evaluate_constraint vals (TableConstraint i ids mode rows) =
     bindR (mapR (lookup vals) ids) (\<lambda>row.
     Inr (if mode = ALLOWED then row \<in> set rows else row \<notin> set rows))"
| "evaluate_constraint vals (ClauseConstraint i literals) = any_literal vals literals"
| "evaluate_constraint vals (NonOverlapConstraint i l ld r rd) =
     bindR (lookup vals l) (\<lambda>left. bindR (lookup vals r) (\<lambda>right.
     Inr (left + ld \<le> right \<or> right + rd \<le> left)))"

fun constraint_loop :: "valuation \<Rightarrow> solver_constraint list \<Rightarrow> nat \<Rightarrow> (bool \<times> nat) result" where
  "constraint_loop vals [] cks = Inr (True, cks)"
| "constraint_loop vals (c # cs) cks = bindR (evaluate_constraint vals c) (\<lambda>passed.
     if \<not> passed then Inr (False, cks + 1) else constraint_loop vals cs (cks + 1))"

definition evaluate_constraints :: "solver_problem \<Rightarrow> valuation \<Rightarrow> (bool \<times> nat) result" where
  "evaluate_constraints p vals = constraint_loop vals (constraints p) 0"

definition evaluate_objective :: "solver_problem \<Rightarrow> valuation \<Rightarrow> int result" where
  "evaluate_objective p vals = (case objective p of
     None \<Rightarrow> Inl (SolverAdapterError NoObjective)
   | Some q \<Rightarrow> bindR (mapR (term_product vals) (obj_terms q)) (\<lambda>products.
       Inr (obj_constant q + sum_list products)))"

text \<open>\<open>min\<close> and \<open>max\<close> of an empty tuple raise \<open>ValueError\<close>.\<close>

definition term_bounds :: "solver_variable list \<Rightarrow> linear_term \<Rightarrow> (int \<times> int) result" where
  "term_bounds vs t =
     (case map_of (rev (map (\<lambda>v. (variable_id v, dom_values (var_domain v))) vs)) (term_variable t) of
        None \<Rightarrow> Inl KeyError
      | Some xs \<Rightarrow> (let products = map (\<lambda>x. coefficient t * x) xs in
          if products = [] then Inl ValueError
          else Inr (Min (set products), Max (set products))))"

definition objective_domain_bounds :: "solver_problem \<Rightarrow> objective_interval result" where
  "objective_domain_bounds p = (case objective p of
     None \<Rightarrow> Inl (SolverAdapterError NoObjective)
   | Some q \<Rightarrow> bindR (mapR (term_bounds (variables p)) (obj_terms q)) (\<lambda>bounds.
       Inr \<lparr>lower = obj_constant q + sum_list (map fst bounds),
            upper = obj_constant q + sum_list (map snd bounds)\<rparr>))"

section \<open>Meaning\<close>

text \<open>A total valuation: the value a variable has under a complete assignment.\<close>

definition variable_ids :: "solver_problem \<Rightarrow> string list" where
  "variable_ids p = map variable_id (variables p)"

definition problem_domains :: "solver_problem \<Rightarrow> int list list" where
  "problem_domains p = map (\<lambda>v. dom_values (var_domain v)) (variables p)"

definition value_of :: "solver_problem \<Rightarrow> int list \<Rightarrow> string \<Rightarrow> int" where
  "value_of p a v = the (assignment_values (variable_ids p) a v)"

definition linear_value :: "linear_term list \<Rightarrow> (string \<Rightarrow> int) \<Rightarrow> int" where
  "linear_value ts f = (\<Sum>t\<leftarrow>ts. coefficient t * f (term_variable t))"

fun holds :: "(string \<Rightarrow> int) \<Rightarrow> solver_constraint \<Rightarrow> bool" where
  "holds f (LinearConstraint i ts rel rhs) = compare_relation rel (linear_value ts f) rhs"
| "holds f (AllDifferentConstraint i vs) = distinct (map f vs)"
| "holds f (TableConstraint i vs m rows) = ((map f vs \<in> set rows) = (m = ALLOWED))"
| "holds f (ClauseConstraint i ls) = (\<exists>l \<in> set ls. f (literal_variable l) = equals l)"
| "holds f (NonOverlapConstraint i l ld r rd) = (f l + ld \<le> f r \<or> f r + rd \<le> f l)"

definition satisfies :: "solver_problem \<Rightarrow> int list \<Rightarrow> bool" where
  "satisfies p a = list_all (holds (value_of p a)) (constraints p)"

definition objective_at :: "solver_problem \<Rightarrow> int list \<Rightarrow> int" where
  "objective_at p a = (case objective p of None \<Rightarrow> 0
     | Some q \<Rightarrow> obj_constant q + linear_value (obj_terms q) (value_of p a))"

text \<open>Every complete assignment, in the order of \<open>itertools.product\<close>.\<close>

definition assignments :: "solver_problem \<Rightarrow> int list list" where
  "assignments p = product_lists (problem_domains p)"

definition solutions :: "solver_problem \<Rightarrow> int list set" where
  "solutions p = set (filter (satisfies p) (assignments p))"

text \<open>The number of constraints the evaluator looks at.\<close>

definition checks_at :: "solver_problem \<Rightarrow> int list \<Rightarrow> nat" where
  "checks_at p a = min (length (constraints p))
     (Suc (length (takeWhile (holds (value_of p a)) (constraints p))))"

lemma solutions_iff: "a \<in> solutions p \<longleftrightarrow> a \<in> set (assignments p) \<and> satisfies p a"
  by (auto simp: solutions_def)

text \<open>The solutions are the tuples of domain values that satisfy every constraint.\<close>

lemma solutions_domains:
  "solutions p = {a. list_all2 (\<lambda>x d. x \<in> set d) a (problem_domains p) \<and> satisfies p a}"
  by (auto simp: solutions_def assignments_def product_lists_set)

lemma product_length: "length (product_lists xss) = prod_list (map length xss)"
  by (induction xss) (simp_all add: length_concat comp_def sum_list_triv)

lemma assignments_length: "length (assignments p) = search_space_size p"
  by (simp add: assignments_def product_length search_space_size_def problem_domains_def comp_def)

lemma assignment_length: "a \<in> set (assignments p) \<Longrightarrow> length a = length (variables p)"
  by (auto simp: assignments_def problem_domains_def dest: in_set_product_lists_length)

section \<open>The evaluators compute the meaning\<close>

lemma lookup_value:
  assumes "a \<in> set (assignments p)" and "v \<in> set (variable_ids p)"
  shows "lookup (assignment_values (variable_ids p) a) v = Inr (value_of p a v)"
proof -
  have "length (variable_ids p) = length a"
    using assms(1) by (simp add: assignment_length variable_ids_def)
  then have "v \<in> fst ` set (zip (variable_ids p) a)" using assms(2)
    by (metis map_fst_zip set_map)
  then have "assignment_values (variable_ids p) a v \<noteq> None"
    by (simp add: assignment_values_def map_of_eq_None_iff)
  then show ?thesis by (auto simp: lookup_def value_of_def)
qed

lemma known_variable: "known (variable_domains (variables p)) v \<Longrightarrow> v \<in> set (variable_ids p)"
  by (auto simp: known_def variable_domains_def variable_ids_def comp_def dest!: map_of_SomeD
      simp: image_iff) 

lemma wf_terms_known:
  "wf_terms (variable_domains (variables p)) ts \<Longrightarrow> t \<in> set ts \<Longrightarrow> term_variable t \<in> set (variable_ids p)"
  by (auto simp: wf_terms_def wf_term_def list_all_iff known_variable)

lemma term_products:
  assumes "a \<in> set (assignments p)" and "\<And>t. t \<in> set ts \<Longrightarrow> term_variable t \<in> set (variable_ids p)"
  shows "mapR (term_product (assignment_values (variable_ids p) a)) ts =
    Inr (map (\<lambda>t. value_of p a (term_variable t) * coefficient t) ts)"
  using assms by (intro mapR_Inr_map) (simp add: term_product_def lookup_value)

lemma linear_value_products:
  "sum_list (map (\<lambda>t. f (term_variable t) * coefficient t) ts) = linear_value ts f"
  by (simp add: linear_value_def mult.commute)

lemma lookups:
  assumes "a \<in> set (assignments p)" and "set vs \<subseteq> set (variable_ids p)"
  shows "mapR (lookup (assignment_values (variable_ids p) a)) vs = Inr (map (value_of p a) vs)"
  using assms by (intro mapR_Inr_map) (auto simp: lookup_value)

lemma any_literal_value:
  assumes "a \<in> set (assignments p)" and "\<And>l. l \<in> set ls \<Longrightarrow> literal_variable l \<in> set (variable_ids p)"
  shows "any_literal (assignment_values (variable_ids p) a) ls =
    Inr (\<exists>l \<in> set ls. value_of p a (literal_variable l) = equals l)"
  using assms by (induction ls) (auto simp: lookup_value)

lemma wf_variable_ids_known:
  "wf_variable_ids (variable_domains (variables p)) n vs \<Longrightarrow> set vs \<subseteq> set (variable_ids p)"
  by (auto simp: wf_variable_ids_def list_all_iff known_variable)

lemma length_card_distinct: "length xs = card (set xs) \<longleftrightarrow> distinct xs"
  by (metis card_distinct distinct_card)

lemma evaluate_constraint_value:
  assumes a: "a \<in> set (assignments p)" and c: "wf_constraint (variable_domains (variables p)) prof c"
  shows "evaluate_constraint (assignment_values (variable_ids p) a) c = Inr (holds (value_of p a) c)"
proof (cases c)
  case (LinearConstraint i ts rel rhs)
  then show ?thesis using c wf_terms_known[of p ts]
    by (simp add: term_products[OF a] linear_value_products)
next
  case (AllDifferentConstraint i vs)
  then show ?thesis using c wf_variable_ids_known[of p 2 vs]
      length_card_distinct[of "map (value_of p a) vs"]
    by (simp add: lookups[OF a])
next
  case (TableConstraint i vs m rows)
  then show ?thesis using c wf_variable_ids_known[of p 1 vs]
    by (cases m) (simp_all add: lookups[OF a])
next
  case (ClauseConstraint i ls)
  then show ?thesis using c in_domain_known known_variable
    by (auto simp: wf_literal_def list_all_iff intro!: any_literal_value[OF a])
next
  case (NonOverlapConstraint i l ld r rd)
  then show ?thesis using c by (simp add: lookup_value[OF a] known_variable)
qed

lemma constraint_loop_value:
  assumes "a \<in> set (assignments p)"
    and "list_all (wf_constraint (variable_domains (variables p)) prof) cs"
  shows "constraint_loop (assignment_values (variable_ids p) a) cs n =
    Inr (list_all (holds (value_of p a)) cs,
         n + min (length cs) (Suc (length (takeWhile (holds (value_of p a)) cs))))"
  using assms(2)
  by (induction cs arbitrary: n) (simp_all add: evaluate_constraint_value[OF assms(1), where prof = prof])

lemma evaluate_constraints_value:
  assumes "wf_problem p" and "a \<in> set (assignments p)"
  shows "evaluate_constraints p (assignment_values (variable_ids p) a) =
    Inr (satisfies p a, checks_at p a)"
  using assms constraint_loop_value[OF assms(2), of "profile p" "constraints p" 0]
  by (simp add: evaluate_constraints_def satisfies_def checks_at_def wf_problem_def)

lemma wf_problem_objective:
  "wf_problem p \<Longrightarrow> objective p = Some q \<Longrightarrow> wf_objective (variable_domains (variables p)) q"
  by (simp add: wf_problem_def)

lemma evaluate_objective_value:
  assumes "wf_problem p" and "a \<in> set (assignments p)" and "objective p \<noteq> None"
  shows "evaluate_objective p (assignment_values (variable_ids p) a) = Inr (objective_at p a)"
proof -
  obtain q where q: "objective p = Some q" using assms(3) by auto
  then show ?thesis
    using wf_problem_objective[OF assms(1) q] wf_terms_known[of p "obj_terms q"]
    by (simp add: evaluate_objective_def objective_at_def term_products[OF assms(2)]
        linear_value_products wf_objective_def)
qed

lemma checks_at_le: "checks_at p a \<le> length (constraints p)"
  by (simp add: checks_at_def)

section \<open>Objective bounds\<close>

lemma distinct_ids: "wf_problem p \<Longrightarrow> distinct (variable_ids p)"
  by (simp add: wf_problem_def variable_ids_def strict_sorted_iff)

lemma map_of_rev_distinct: "distinct (map fst xs) \<Longrightarrow> map_of (rev xs) = map_of xs"
  by (subst map_of_inject_set) (simp_all add: rev_map [symmetric])

lemma value_of_nth:
  assumes "wf_problem p" and "a \<in> set (assignments p)" and "i < length (variables p)"
  shows "value_of p a (variable_id (variables p ! i)) = a ! i"
proof -
  have len: "length (variable_ids p) = length a"
    using assms(2) by (simp add: assignment_length variable_ids_def)
  then have "map_of (rev (zip (variable_ids p) a)) = map_of (zip (variable_ids p) a)"
    using distinct_ids[OF assms(1)] by (intro map_of_rev_distinct) simp
  moreover have "map_of (zip (variable_ids p) a) (variable_ids p ! i) = Some (a ! i)"
    using distinct_ids[OF assms(1)] len assms(2,3)
    by (intro Prelude.map_of_zip_nth) (simp_all add: assignment_length variable_ids_def)
  ultimately show ?thesis using assms(3)
    by (simp add: value_of_def assignment_values_def variable_ids_def)
qed

lemma value_in_domain:
  assumes "wf_problem p" and "a \<in> set (assignments p)"
    and "variable_domains (variables p) v = Some xs"
  shows "value_of p a v \<in> set xs"
proof -
  obtain w where w: "w \<in> set (variables p)" "variable_id w = v" "dom_values (var_domain w) = xs"
    using assms(3) by (auto simp: variable_domains_def dest!: map_of_SomeD)
  then obtain i where i: "i < length (variables p)" "variables p ! i = w"
    by (auto simp: in_set_conv_nth)
  have "list_all2 (\<lambda>x d. x \<in> set d) a (problem_domains p)"
    using assms(2) by (simp add: assignments_def product_lists_set)
  then have "a ! i \<in> set (problem_domains p ! i)"
    using i by (auto simp: list_all2_conv_all_nth problem_domains_def)
  then show ?thesis using value_of_nth[OF assms(1,2) i(1)] w i by (simp add: problem_domains_def)
qed

lemma domain_table:
  assumes "wf_problem p"
  shows "map_of (rev (map (\<lambda>v. (variable_id v, dom_values (var_domain v))) (variables p))) =
    variable_domains (variables p)"
  using distinct_ids[OF assms]
  by (simp add: variable_domains_def variable_ids_def comp_def map_of_rev_distinct)

lemma wf_domain_of:
  assumes "wf_problem p" and "variable_domains (variables p) v = Some xs"
  shows "xs \<noteq> [] \<and> list_all wf_scalar xs"
proof -
  obtain w where "w \<in> set (variables p)" "xs = dom_values (var_domain w)"
    using assms(2) by (auto simp: variable_domains_def dest!: map_of_SomeD)
  moreover from this have "wf_domain (var_domain w)"
    using assms(1) by (simp add: wf_problem_def list_all_iff wf_variable_def)
  ultimately show ?thesis by (simp add: wf_domain_def)
qed

lemma term_bounds_value:
  assumes p: "wf_problem p" and t: "wf_term (variable_domains (variables p)) t"
  obtains lo hi where "term_bounds (variables p) t = Inr (lo, hi)"
    "\<And>a. a \<in> set (assignments p) \<Longrightarrow>
      lo \<le> coefficient t * value_of p a (term_variable t) \<and>
      coefficient t * value_of p a (term_variable t) \<le> hi"
    "\<bar>lo\<bar> \<le> 10 ^ 12" "\<bar>hi\<bar> \<le> 10 ^ 12"
proof -
  obtain xs where xs: "variable_domains (variables p) (term_variable t) = Some xs"
    using t by (auto simp: wf_term_def known_def)
  note ne = wf_domain_of[OF p xs]
  let ?S = "(\<lambda>x. coefficient t * x) ` set xs"
  have "term_bounds (variables p) t = Inr (Min ?S, Max ?S)"
    using ne by (simp add: term_bounds_def domain_table[OF p] xs)
  moreover have "Min ?S \<le> coefficient t * value_of p a (term_variable t) \<and>
      coefficient t * value_of p a (term_variable t) \<le> Max ?S" if "a \<in> set (assignments p)" for a
    using value_in_domain[OF p that xs] by (intro conjI Min_le Max_ge) auto
  moreover have bound: "\<bar>y\<bar> \<le> 10 ^ 12" if "y \<in> ?S" for y
  proof -
    obtain x where x: "y = coefficient t * x" "wf_scalar x" using \<open>y \<in> ?S\<close> ne by (auto simp: list_all_iff)
    then have "\<bar>coefficient t\<bar> \<le> 10 ^ 6" "\<bar>x\<bar> \<le> 10 ^ 6"
      using t by (auto simp: wf_term_def wf_scalar_def max_scalar_value_def)
    then have "\<bar>coefficient t\<bar> * \<bar>x\<bar> \<le> 10 ^ 6 * 10 ^ 6" by (intro mult_mono) auto
    then show ?thesis by (simp add: x abs_mult)
  qed
  moreover have "Min ?S \<in> ?S" "Max ?S \<in> ?S" using ne by (auto intro!: Min_in Max_in)
  ultimately show ?thesis using that[of "Min ?S" "Max ?S"] by blast
qed

lemma terms_bounds_value:
  assumes p: "wf_problem p" and ts: "list_all (wf_term (variable_domains (variables p))) ts"
  shows "\<exists>bs. mapR (term_bounds (variables p)) ts = Inr bs \<and>
    (\<forall>a \<in> set (assignments p). sum_list (map fst bs) \<le> linear_value ts (value_of p a) \<and>
       linear_value ts (value_of p a) \<le> sum_list (map snd bs)) \<and>
    \<bar>sum_list (map fst bs)\<bar> \<le> 10 ^ 12 * int (length ts) \<and>
    \<bar>sum_list (map snd bs)\<bar> \<le> 10 ^ 12 * int (length ts)"
  using ts
proof (induction ts)
  case Nil
  then show ?case by (simp add: linear_value_def)
next
  case (Cons t ts)
  obtain bs where bs: "mapR (term_bounds (variables p)) ts = Inr bs"
    "\<forall>a \<in> set (assignments p). sum_list (map fst bs) \<le> linear_value ts (value_of p a) \<and>
       linear_value ts (value_of p a) \<le> sum_list (map snd bs)"
    "\<bar>sum_list (map fst bs)\<bar> \<le> 10 ^ 12 * int (length ts)"
    "\<bar>sum_list (map snd bs)\<bar> \<le> 10 ^ 12 * int (length ts)"
    using Cons by auto
  obtain lo hi where t: "term_bounds (variables p) t = Inr (lo, hi)"
    "\<And>a. a \<in> set (assignments p) \<Longrightarrow>
      lo \<le> coefficient t * value_of p a (term_variable t) \<and>
      coefficient t * value_of p a (term_variable t) \<le> hi"
    "\<bar>lo\<bar> \<le> 10 ^ 12" "\<bar>hi\<bar> \<le> 10 ^ 12"
    using term_bounds_value[OF p, of t] Cons.prems by (metis list.pred_inject(2))
  have "mapR (term_bounds (variables p)) (t # ts) = Inr ((lo, hi) # bs)" using bs t by simp
  moreover have "linear_value (t # ts) f = coefficient t * f (term_variable t) + linear_value ts f" for f
    by (simp add: linear_value_def)
  ultimately show ?case using bs(2-4) t(2-4) by (fastforce simp: algebra_simps)
qed

lemma objective_bounds_value:
  assumes p: "wf_problem p" and q: "objective p \<noteq> None"
  obtains i where "objective_domain_bounds p = Inr i"
    "\<And>a. a \<in> set (assignments p) \<Longrightarrow> lower i \<le> objective_at p a \<and> objective_at p a \<le> upper i"
    "wf_objective_value (lower i)" "wf_objective_value (upper i)"
proof -
  obtain o' where o': "objective p = Some o'" using q by auto
  note wf = wf_problem_objective[OF p o']
  then have ts: "list_all (wf_term (variable_domains (variables p))) (obj_terms o')"
    and len: "length (obj_terms o') \<le> 16" and c: "\<bar>obj_constant o'\<bar> \<le> 10 ^ 6"
    by (auto simp: wf_objective_def wf_terms_def wf_scalar_def max_scalar_value_def)
  obtain bs where bs: "mapR (term_bounds (variables p)) (obj_terms o') = Inr bs"
    "\<forall>a \<in> set (assignments p). sum_list (map fst bs) \<le> linear_value (obj_terms o') (value_of p a) \<and>
       linear_value (obj_terms o') (value_of p a) \<le> sum_list (map snd bs)"
    "\<bar>sum_list (map fst bs)\<bar> \<le> 10 ^ 12 * int (length (obj_terms o'))"
    "\<bar>sum_list (map snd bs)\<bar> \<le> 10 ^ 12 * int (length (obj_terms o'))"
    using terms_bounds_value[OF p ts] by blast
  let ?i = "\<lparr>lower = obj_constant o' + sum_list (map fst bs),
    upper = obj_constant o' + sum_list (map snd bs)\<rparr>"
  have "objective_domain_bounds p = Inr ?i" using bs(1) by (simp add: objective_domain_bounds_def o')
  moreover have "lower ?i \<le> objective_at p a \<and> objective_at p a \<le> upper ?i"
    if "a \<in> set (assignments p)" for a
    using bs(2) that by (simp add: objective_at_def o')
  moreover have "wf_objective_value (lower ?i)" "wf_objective_value (upper ?i)"
    using bs(3,4) len c by (auto simp: wf_objective_value_def)
  ultimately show ?thesis using that by blast
qed

lemma assignments_nonempty: "wf_problem p \<Longrightarrow> assignments p \<noteq> []"
proof -
  assume p: "wf_problem p"
  have "list_all (\<lambda>v. dom_values (var_domain v) \<noteq> []) (variables p)"
    using p by (auto simp: wf_problem_def list_all_iff wf_variable_def wf_domain_def)
  moreover have "list_all (\<lambda>v. f v \<noteq> []) vs \<Longrightarrow> product_lists (map f vs) \<noteq> []"
    for f :: "solver_variable \<Rightarrow> int list" and vs
    by (induction vs) (auto simp: ex_in_conv)
  ultimately show ?thesis by (simp add: assignments_def problem_domains_def)
qed

end
