(* ===== verification/Canonical.thy ===== *)
theory Canonical
  imports ResultContracts
begin

text \<open>
  Documents that always serialize: a value without floats, with ASCII keys and within the node and
  depth bounds passes \<open>_validate_canonical_value\<close>.  Results and verifications are such documents
  whatever they contain, so that computing their identity never raises.
\<close>

fun canonical_json :: "json \<Rightarrow> bool" where
  "canonical_json (JArr xs) = list_all canonical_json xs"
| "canonical_json (JObj fs) = list_all (\<lambda>(k, v). ascii_text k \<and> canonical_json v) fs"
| "canonical_json (JFloat f) = False"
| "canonical_json _ = True"

lemma canonical_json_node: "canonical_json j \<Longrightarrow> canonical_node j = Inr ()"
  by (cases j) (force simp: canonical_node_def list_all_iff require_def)+

lemma canonical_json_children: "canonical_json j \<Longrightarrow> c \<in> set (children j) \<Longrightarrow> canonical_json c"
  by (cases j) (auto simp: list_all_iff)

lemma validate_canonical_total:
  "nodes + stack_nodes stack \<le> 250000 \<Longrightarrow>
   \<forall>(j, d) \<in> set stack. d + json_depth j \<le> 64 \<and> canonical_json j \<Longrightarrow>
   validate_canonical stack nodes = Inr ()"
proof (induction stack nodes rule: validate_canonical.induct)
  case (1 nodes)
  then show ?case by simp
next
  case (2 current depth stack nodes)
  let ?push = "push_children current depth stack"
  have c: "canonical_node current = Inr ()" using "2.prems" by (simp add: canonical_json_node)
  have d: "depth \<le> 64" "\<forall>c \<in> set (children current). Suc depth + json_depth c \<le> 64"
    using "2.prems" json_depth_children[of depth current 64] by auto
  have n: "nodes + 1 + stack_nodes ?push = nodes + stack_nodes ((current, depth) # stack)"
    by (simp add: stack_nodes_push json_nodes_children[of current])
  then have le: "\<not> (depth > 64 \<or> nodes + 1 > 250000)"
    using "2.prems"(1) d by linarith
  have "\<forall>(j, d) \<in> set ?push. d + json_depth j \<le> 64 \<and> canonical_json j"
    using "2.prems"(2) d canonical_json_children by (auto simp: push_children_def)
  then have "validate_canonical ?push (nodes + 1) = Inr ()"
    using "2.IH"[of "()"] le c n "2.prems"(1) by simp
  then show ?case using le c by simp
qed

lemma canonical_bytes_total:
  assumes "canonical_json j" and "json_nodes j \<le> 250000" and "json_depth j \<le> 64"
  shows "canonical_json_bytes j = Inr (dumps j)"
  using validate_canonical_total[of 0 "[(j, 0)]"] assms by (simp add: canonical_json_bytes_def)

text \<open>Size of a document as one predicate, checked field by field.\<close>

definition fits :: "nat \<Rightarrow> nat \<Rightarrow> json \<Rightarrow> bool" where
  "fits n d j = (canonical_json j \<and> json_nodes j \<le> n \<and> json_depth j \<le> d)"

lemma fits_leaf [simp]:
  "1 \<le> n \<Longrightarrow> fits n d JNull" "1 \<le> n \<Longrightarrow> fits n d (JBool b)" "1 \<le> n \<Longrightarrow> fits n d (JInt i)"
  "1 \<le> n \<Longrightarrow> fits n d (JStr s)"
  by (simp_all add: fits_def)

lemma fits_mono: "fits n d j \<Longrightarrow> n \<le> n' \<Longrightarrow> d \<le> d' \<Longrightarrow> fits n' d' j"
  by (simp add: fits_def)

lemma sum_list_bound: "(\<And>x. x \<in> set xs \<Longrightarrow> f x \<le> (b::nat)) \<Longrightarrow> sum_list (map f xs) \<le> length xs * b"
  by (induction xs) (auto simp: add_mono)

lemma fits_obj:
  assumes "list_all (\<lambda>(k, v). ascii_text k \<and> fits b d v) fs" and "1 + length fs * b \<le> n" and "Suc d \<le> d'"
  shows "fits n d' (JObj fs)"
proof -
  have "sum_list (map (\<lambda>(k, v). json_nodes v) fs) \<le> length fs * b"
    using assms(1) by (intro sum_list_bound) (auto simp: list_all_iff fits_def)
  moreover have "fold max (map (\<lambda>(k, v). Suc (json_depth v)) fs) 0 \<le> d'"
    using assms(1,3) by (fastforce simp: fold_max_le list_all_iff fits_def)
  ultimately show ?thesis using assms by (auto simp: fits_def list_all_iff)
qed

lemma fits_arr:
  assumes "\<And>x. x \<in> set xs \<Longrightarrow> fits b d x" and "1 + length xs * b \<le> n" and "Suc d \<le> d'"
  shows "fits n d' (JArr xs)"
proof -
  have "sum_list (map json_nodes xs) \<le> length xs * b"
    using assms(1) by (intro sum_list_bound) (simp add: fits_def)
  moreover have "fold max (map (\<lambda>x. Suc (json_depth x)) xs) 0 \<le> d'"
    using assms(1,3) by (fastforce simp: fold_max_le fits_def)
  ultimately show ?thesis using assms by (auto simp: fits_def list_all_iff)
qed

lemma fits_option: "1 \<le> n \<Longrightarrow> (\<And>y. x = Some y \<Longrightarrow> fits n d (enc y)) \<Longrightarrow> fits n d (enc_option enc x)"
  by (cases x) (simp_all add: enc_option_def)

lemma fits_bytes: "fits 250000 64 j \<Longrightarrow> canonical_json_bytes j = Inr (dumps j)"
  by (simp add: fits_def canonical_bytes_total)

lemma fits_identity: "fits 250000 64 j \<Longrightarrow> solver_identity t j = Inr (type_prefix t @ sha256_hex (dumps j))"
  by (simp add: solver_identity_def content_digest_def fits_bytes)

lemmas fits_defs =
  reference_to_dict_def candidate_to_dict_def lease_to_dict_def interval_to_dict_def
  assignment_to_dict_def check_to_dict_def resources_to_dict_def exact_tolerance_def

lemma ascii_keys: "list_all (\<lambda>c. code c < 128) s \<Longrightarrow> ascii_text s"
  by (simp add: ascii_text_def code_def)

lemma fits_reference [simp]: "3 \<le> n \<Longrightarrow> 1 \<le> d \<Longrightarrow> fits n d (reference_to_dict r)"
  by (simp add: reference_to_dict_def fits_def ascii_text_def)

lemma fits_candidate [simp]: "4 \<le> n \<Longrightarrow> 1 \<le> d \<Longrightarrow> fits n d (candidate_to_dict c)"
  by (simp add: candidate_to_dict_def fits_def ascii_text_def)

lemma fits_lease [simp]: "12 \<le> n \<Longrightarrow> 1 \<le> d \<Longrightarrow> fits n d (lease_to_dict l)"
  by (simp add: lease_to_dict_def fits_def ascii_text_def)

lemma fits_interval [simp]: "3 \<le> n \<Longrightarrow> 1 \<le> d \<Longrightarrow> fits n d (interval_to_dict i)"
  by (simp add: interval_to_dict_def fits_def ascii_text_def)

lemma fits_check [simp]: "3 \<le> n \<Longrightarrow> 1 \<le> d \<Longrightarrow> fits n d (check_to_dict c)"
  by (simp add: check_to_dict_def fits_def ascii_text_def)

lemma fits_tolerance [simp]: "4 \<le> n \<Longrightarrow> 1 \<le> d \<Longrightarrow> fits n d exact_tolerance"
  by (simp add: exact_tolerance_def fits_def ascii_text_def)

lemma fits_resources [simp]: "11 \<le> n \<Longrightarrow> 1 \<le> d \<Longrightarrow> fits n d (resources_to_dict e)"
  by (cases "ev_timeout e")
    (simp_all add: resources_to_dict_def enc_option_def fits_def ascii_text_def)

lemma fits_witness: "length w \<le> 16 \<Longrightarrow> fits 50 3 (witness_to_dict w)"
proof -
  assume "length w \<le> 16"
  moreover have "fits 3 1 (assignment_to_dict a)" for a
    by (simp add: assignment_to_dict_def fits_def ascii_text_def)
  ultimately have "fits 49 2 (JArr (map assignment_to_dict w))"
    by (intro fits_arr[where b = 3 and d = 1]) auto
  then show ?thesis
    by (auto simp: witness_to_dict_def ascii_text_def intro!: fits_obj[where b = 49 and d = 2])
qed

lemma fits_result: "wf_result r \<Longrightarrow> fits 250000 64 (result_to_dict r)"
  unfolding result_to_dict_def
proof (rule fits_obj[where b = 200 and d = 3])
  assume wf: "wf_result r"
  have "fits 200 2 (JArr (map reference_to_dict (rs_provenance r)))"
    using wf
    by (intro fits_arr[where b = 3 and d = 1]) (auto simp: wf_result_def wf_references_def)
  moreover have "fits 50 3 (enc_option witness_to_dict (rs_witness r))"
    using wf fits_witness by (auto simp: wf_result_def wf_witness_def intro!: fits_option)
  moreover have "fits 3 1 (enc_option interval_to_dict (rs_interval r))"
    by (auto intro!: fits_option)
  moreover have "fits 1 1 (enc_option JInt (objective_value r))" "fits 1 1 (enc_option JStr (diagnostic_code r))"
    by (auto intro!: fits_option)
  ultimately show "list_all (\<lambda>(k, v). ascii_text k \<and> fits 200 3 v)
     [(''sensitivity'', JStr (sensitivity_value (rs_sensitivity r))),
     (''request'', reference_to_dict (rs_request r)),
     (''request_id'', JStr (rs_request_id r)),
     (''contract_id'', JStr (rs_contract_id r)),
     (''candidate'', candidate_to_dict (rs_candidate r)),
     (''graph_id'', JStr (rs_graph_id r)),
     (''task_id'', JStr (rs_task_id r)),
     (''context_snapshot_id'', JStr (rs_context_snapshot_id r)),
     (''adapter_id'', JStr (rs_adapter_id r)),
     (''adapter_version'', JStr (rs_adapter_version r)),
     (''license_expression'', JStr (rs_license r)),
     (''provenance'', JArr (map reference_to_dict (rs_provenance r))),
     (''lease'', lease_to_dict (rs_lease r)),
     (''status'', JStr (status_value (rs_status r))),
     (''witness'', enc_option witness_to_dict (rs_witness r)),
     (''objective_value'', enc_option JInt (objective_value r)),
     (''objective_interval'', enc_option interval_to_dict (rs_interval r)),
     (''tolerance'', exact_tolerance),
     (''proof_disposition'', JStr (proof_value (proof_disposition r))),
     (''resources'', resources_to_dict (rs_resources r)),
     (''diagnostic_code'', enc_option JStr (diagnostic_code r))]"
    by (auto simp: ascii_text_def elim: fits_mono)
qed simp_all

lemma fits_verification: "wf_verification v \<Longrightarrow> fits 250000 64 (verification_to_dict v)"
  unfolding verification_to_dict_def
proof (rule fits_obj[where b = 200 and d = 3])
  assume wf: "wf_verification v"
  have "fits 200 2 (JArr (map check_to_dict (checks v)))"
    using wf by (intro fits_arr[where b = 3 and d = 1]) (auto simp: wf_verification_def)
  moreover have "fits 200 2 (JArr (map JStr (reasons v)))"
    using wf by (intro fits_arr[where b = 1 and d = 1]) (auto simp: wf_verification_def wf_slugs_def)
  ultimately show "list_all (\<lambda>(k, v). ascii_text k \<and> fits 200 3 v)
    [(''sensitivity'', JStr (sensitivity_value (vf_sensitivity v))),
     (''request'', reference_to_dict (vf_request v)),
     (''request_id'', JStr (vf_request_id v)),
     (''result'', reference_to_dict (vf_result v)),
     (''result_id'', JStr (vf_result_id v)),
     (''contract_id'', JStr (vf_contract_id v)),
     (''candidate'', candidate_to_dict (vf_candidate v)),
     (''graph_id'', JStr (vf_graph_id v)),
     (''task_id'', JStr (vf_task_id v)),
     (''context_snapshot_id'', JStr (vf_context_snapshot_id v)),
     (''lease'', lease_to_dict (vf_lease v)),
     (''outcome'', JStr (outcome_value (outcome v))),
     (''adoption_allowed'', JBool (adoption_allowed v)),
     (''checks'', JArr (map check_to_dict (checks v))),
     (''reasons'', JArr (map JStr (reasons v))),
     (''verification_steps'', JInt (verification_steps v))]"
    by (auto simp: ascii_text_def elim: fits_mono)
qed simp_all

text \<open>Building the artifact of a well-formed result or verification never raises.\<close>

lemma result_artifact:
  assumes "wf_result r"
  shows "\<exists>a. artifact_from_value RESULT (ResultValue r) = Inr a \<and> artifact_value a = ResultValue r \<and>
    wf_artifact a"
proof -
  have w: "wf_value RESULT (ResultValue r)" using assms by simp
  let ?a = "\<lparr>artifact_type = RESULT, artifact_id = type_prefix RESULT @ sha256_hex (dumps (result_to_dict r)),
    artifact_value = ResultValue r\<rparr>"
  have "wf_artifact ?a"
    using w fits_identity[OF fits_result[OF assms]] by (simp add: wf_artifact_def)
  then show ?thesis using artifact_from_value_wf[OF w, of ?a] by auto
qed

lemma verification_artifact:
  assumes "wf_verification v"
  shows "\<exists>a. artifact_from_value VERIFICATION (VerificationValue v) = Inr a \<and>
    artifact_value a = VerificationValue v \<and> wf_artifact a"
proof -
  have w: "wf_value VERIFICATION (VerificationValue v)" using assms by simp
  let ?a = "\<lparr>artifact_type = VERIFICATION,
    artifact_id = type_prefix VERIFICATION @ sha256_hex (dumps (verification_to_dict v)),
    artifact_value = VerificationValue v\<rparr>"
  have "wf_artifact ?a"
    using w fits_identity[OF fits_verification[OF assms]] by (simp add: wf_artifact_def)
  then show ?thesis using artifact_from_value_wf[OF w, of ?a] by auto
qed

end
