(* ===== verification/SolverSearch.thy ===== *)
theory SolverSearch
  imports Evaluation Canonical
begin

text \<open>
  The reference adapter of \<open>adapters/solver.py\<close>: the deterministic enumeration of complete
  assignments under a lease deadline, a request timeout and a step limit, and the result it
  publishes.  The locale \<open>running_best\<close> is the contract of an incumbent update; it is interpreted
  on the adapter's \<open>_is_better\<close> here and on the verifier's update in the next theory.
\<close>

section \<open>Incumbents\<close>

definition objective_better ::
  "solver_objective \<Rightarrow> int \<Rightarrow> int list \<Rightarrow> int \<Rightarrow> int list \<Rightarrow> bool" where
  "objective_better q obj a best_obj best_a =
     (if direction q = MINIMIZE then obj < best_obj \<or> (obj = best_obj \<and> a < best_a)
      else obj > best_obj \<or> (obj = best_obj \<and> a < best_a))"

definition is_better ::
  "solver_problem \<Rightarrow> int \<Rightarrow> int list \<Rightarrow> int option \<Rightarrow> int list option \<Rightarrow> bool result" where
  "is_better p obj a best_obj best_a =
     (case best_obj of None \<Rightarrow> Inr True
      | Some bo \<Rightarrow> (case best_a of None \<Rightarrow> Inr True
         | Some ba \<Rightarrow> (case objective p of None \<Rightarrow> Inl AssertionError
             | Some q \<Rightarrow> Inr (objective_better q obj a bo ba))))"

locale running_best =
  fixes better :: "'a \<Rightarrow> 'a \<Rightarrow> bool" and key :: "'a \<Rightarrow> 'k::linorder"
  assumes better_iff: "better x y \<longleftrightarrow> key x < key y"
begin

definition improve :: "'a option \<Rightarrow> 'a \<Rightarrow> 'a option" where
  "improve best x = (case best of None \<Rightarrow> Some x | Some y \<Rightarrow> if better x y then Some x else best)"

definition best_in :: "'a list \<Rightarrow> 'a option" where
  "best_in xs = foldl improve None xs"

lemma best_in_Nil: "best_in [] = None"
  by (simp add: best_in_def)

lemma best_in_snoc: "best_in (xs @ [x]) = improve (best_in xs) x"
  by (simp add: best_in_def)

lemma best_in_spec:
  "case best_in xs of None \<Rightarrow> xs = [] | Some y \<Rightarrow> y \<in> set xs \<and> (\<forall>x \<in> set xs. key y \<le> key x)"
proof (induction xs rule: rev_induct)
  case Nil
  then show ?case by (simp add: best_in_Nil)
next
  case (snoc x xs)
  show ?case
  proof (cases "best_in xs")
    case None
    then have "best_in (xs @ [x]) = Some x" by (simp add: best_in_snoc improve_def)
    moreover have "xs = []" using snoc None by simp
    ultimately show ?thesis by simp
  next
    case (Some y)
    then have y: "y \<in> set xs" "\<forall>z \<in> set xs. key y \<le> key z" using snoc by simp_all
    show ?thesis
    proof (cases "better x y")
      case True
      then have "key x < key y" by (simp only: better_iff)
      then show ?thesis using True Some y by (auto simp: best_in_snoc improve_def)
    next
      case False
      then have "key y \<le> key x" by (simp only: better_iff not_less)
      then show ?thesis using False Some y by (auto simp: best_in_snoc improve_def)
    qed
  qed
qed

lemma best_in_None: "best_in xs = None \<longleftrightarrow> xs = []"
  using best_in_spec[of xs] by (auto simp: best_in_Nil split: option.splits)

lemma best_in_Some: "best_in xs = Some y \<Longrightarrow> y \<in> set xs \<and> (\<forall>x \<in> set xs. key y \<le> key x)"
  using best_in_spec[of xs] by simp

end

text \<open>The order of \<open>_is_better\<close>: objective first, then the assignment tuple.\<close>

definition preference :: "solver_objective \<Rightarrow> int \<times> int list \<Rightarrow> int \<times> int list" where
  "preference q x = (if direction q = MINIMIZE then fst x else - fst x, snd x)"

interpretation incumbent: running_best
    "\<lambda>x y. objective_better q (fst x) (snd x) (fst y) (snd y)" "preference q" for q
  by unfold_locales (auto simp: objective_better_def preference_def less_prod_def')

section \<open>The search\<close>

text \<open>A clock is the sequence of readings its two methods return, call by call.\<close>

record solver_clock =
  now_at :: "nat \<Rightarrow> utc"
  monotonic_at :: "nat \<Rightarrow> int"

record search_state =
  visited :: int
  checked :: int
  best_assignment :: "int list option"
  best_objective :: "int option"
  now_calls :: nat
  monotonic_calls :: nat

text \<open>One assignment taken by the loop; the flag says that the loop breaks with a witness.\<close>

definition visit :: "solver_request \<Rightarrow> int list \<Rightarrow> search_state \<Rightarrow> (search_state \<times> bool) result" where
  "visit rq a st = (let p = rq_problem rq; vals = assignment_values (variable_ids p) a;
       st = st\<lparr>visited := visited st + 1\<rparr> in
     bindR (evaluate_constraints p vals) (\<lambda>(satisfied, evaluated).
     let st = st\<lparr>checked := checked st + int evaluated\<rparr> in
     if \<not> satisfied then Inr (st, False)
     else if objective p = None then Inr (st\<lparr>best_assignment := Some a\<rparr>, True)
     else bindR (evaluate_objective p vals) (\<lambda>obj.
       if rq_required_claim rq = CLAIM_FEASIBLE then
         Inr (st\<lparr>best_assignment := Some a, best_objective := Some obj\<rparr>, True)
       else bindR (is_better p obj a (best_objective st) (best_assignment st)) (\<lambda>better.
         Inr (if better then st\<lparr>best_assignment := Some a, best_objective := Some obj\<rparr> else st,
              False)))))"

definition timed_out :: "solver_clock \<Rightarrow> int option \<Rightarrow> search_state \<Rightarrow> bool \<times> search_state" where
  "timed_out c deadline st = (case deadline of None \<Rightarrow> (False, st)
     | Some d \<Rightarrow> (monotonic_at c (monotonic_calls st) \<ge> d,
         st\<lparr>monotonic_calls := Suc (monotonic_calls st)\<rparr>))"

fun search_loop ::
  "solver_clock \<Rightarrow> solver_request \<Rightarrow> utc \<Rightarrow> int option \<Rightarrow> int list list \<Rightarrow> search_state \<Rightarrow>
   (search_state \<times> solver_termination_reason) result" where
  "search_loop c rq lease_deadline request_deadline [] st = Inr (st, SEARCH_EXHAUSTED)"
| "search_loop c rq lease_deadline request_deadline (a # as) st =
     (let expired = lease_deadline \<le> now_at c (now_calls st);
          st = st\<lparr>now_calls := Suc (now_calls st)\<rparr> in
      if expired then Inr (st, LEASE_DEADLINE)
      else (let (late, st) = timed_out c request_deadline st in
        if late then Inr (st, REQUEST_TIMEOUT)
        else if visited st \<ge> max_solve_steps (rq_policy rq) then Inr (st, STEP_LIMIT)
        else bindR (visit rq a st) (\<lambda>(st, found).
          if found then Inr (st, WITNESS_FOUND)
          else search_loop c rq lease_deadline request_deadline as st)))"

definition result_disposition ::
  "solver_problem \<Rightarrow> solver_termination_reason \<Rightarrow> int list option \<Rightarrow>
   (solver_result_status \<times> solver_proof_disposition \<times> string option) result" where
  "result_disposition p t best = (case t of
     WITNESS_FOUND \<Rightarrow>
       Inr (if objective p = None then SATISFIABLE else FEASIBLE, PROOF_WITNESS, None)
   | SEARCH_EXHAUSTED \<Rightarrow>
       Inr (if objective p = None then UNSATISFIABLE
            else if best = None then INFEASIBLE else OPTIMAL, EXHAUSTIVE_ENUMERATION, None)
   | STEP_LIMIT \<Rightarrow>
       (if objective p \<noteq> None \<and> best \<noteq> None then Inr (BOUNDED, OBJECTIVE_BOUND, None)
        else Inr (UNKNOWN, PROOF_NONE, Some ''step-limit''))
   | REQUEST_TIMEOUT \<Rightarrow> Inr (TIMEOUT, PROOF_NONE, Some ''request-timeout'')
   | LEASE_DEADLINE \<Rightarrow> Inr (TIMEOUT, PROOF_NONE, Some ''lease-deadline'')
   | _ \<Rightarrow> Inl (SolverAdapterError BadTermination))"

definition make_witness :: "string list \<Rightarrow> int list option \<Rightarrow> solver_witness option" where
  "make_witness ids best = map_option (\<lambda>a. zip ids a) best"

definition make_interval ::
  "solver_problem \<Rightarrow> solver_result_status \<Rightarrow> int option \<Rightarrow> objective_interval option result" where
  "make_interval p status obj = (case objective p of None \<Rightarrow> Inr None
     | Some q \<Rightarrow> (case obj of None \<Rightarrow> Inr None
       | Some x \<Rightarrow>
           if status = OPTIMAL then Inr (Some \<lparr>lower = x, upper = x\<rparr>)
           else if status \<noteq> BOUNDED then Inr None
           else bindR (objective_domain_bounds p) (\<lambda>bounds.
             Inr (Some (if direction q = MINIMIZE then \<lparr>lower = lower bounds, upper = x\<rparr>
                        else \<lparr>lower = x, upper = upper bounds\<rparr>)))))"

definition timeout_reason :: "solver_termination_reason \<Rightarrow> bool" where
  "timeout_reason t = (t \<in> {REQUEST_TIMEOUT, LEASE_DEADLINE})"

text \<open>The fields a result copies from its request, adapter and lease.\<close>

definition bound_result ::
  "loaded_solver_artifact \<Rightarrow> solver_request \<Rightarrow> artifact_reference \<Rightarrow> solver_adapter_definition \<Rightarrow>
   solver_lease_evidence \<Rightarrow> solver_result_status \<Rightarrow> solver_witness option \<Rightarrow> int option \<Rightarrow>
   objective_interval option \<Rightarrow> solver_proof_disposition \<Rightarrow> solver_resource_evidence \<Rightarrow>
   string option \<Rightarrow> solver_result" where
  "bound_result request rq reference adapter lease status w obj interval proof e diagnostic =
     \<lparr>rs_sensitivity = rq_sensitivity rq, rs_request = reference,
      rs_request_id = artifact_id request, rs_contract_id = rq_contract_id rq,
      rs_candidate = rq_candidate rq, rs_graph_id = rq_graph_id rq, rs_task_id = rq_task_id rq,
      rs_context_snapshot_id = rq_context_snapshot_id rq,
      rs_adapter_id = ad_adapter_id adapter, rs_adapter_version = ad_version adapter,
      rs_license = ad_license adapter, rs_provenance = ad_provenance adapter, rs_lease = lease,
      rs_status = status, rs_witness = w, objective_value = obj, rs_interval = interval,
      proof_disposition = proof, rs_resources = e, diagnostic_code = diagnostic\<rparr>"

definition incomplete_result ::
  "loaded_solver_artifact \<Rightarrow> artifact_reference \<Rightarrow> solver_adapter_definition \<Rightarrow>
   solver_lease_evidence \<Rightarrow> solver_result_status \<Rightarrow> solver_termination_reason \<Rightarrow> string \<Rightarrow> int \<Rightarrow>
   loaded_solver_artifact result" where
  "incomplete_result request reference adapter lease status t diagnostic calls =
     (case artifact_value request of
        RequestValue rq \<Rightarrow>
          (let space = int (search_space_size (rq_problem rq));
               e = \<lparr>solver_calls = calls, solver_steps = 0, ev_search_space_size = space,
                 visited_assignments = 0, unvisited_assignments = space, constraint_checks = 0,
                 elapsed_milliseconds = 0, step_limit = max_solve_steps (rq_policy rq),
                 ev_timeout = timeout_milliseconds (rq_policy rq), termination_reason = t\<rparr>
           in artifact_from_value RESULT (ResultValue (bound_result request rq reference adapter
                lease status None None None PROOF_NONE e (Some diagnostic))))
      | _ \<Rightarrow> Inl AssertionError)"

definition adapter_error_result where
  "adapter_error_result request reference adapter lease =
     incomplete_result request reference adapter lease ERROR ADAPTER_ERROR ''adapter-error'' 1"

definition adapter_unavailable_result where
  "adapter_unavailable_result request reference adapter lease =
     incomplete_result request reference adapter lease UNAVAILABLE ADAPTER_UNAVAILABLE
       ''adapter-unavailable'' 0"

definition initial_search :: search_state where
  "initial_search = \<lparr>visited = 0, checked = 0, best_assignment = None, best_objective = None,
     now_calls = 0, monotonic_calls = 1\<rparr>"

text \<open>The request deadline counts from the first monotonic reading.\<close>

definition request_deadline :: "solver_clock \<Rightarrow> solver_request \<Rightarrow> int option" where
  "request_deadline c rq = map_option (\<lambda>t. monotonic_at c 0 + t) (timeout_milliseconds (rq_policy rq))"

definition search_evidence ::
  "solver_clock \<Rightarrow> solver_request \<Rightarrow> search_state \<Rightarrow> solver_termination_reason \<Rightarrow>
   solver_resource_evidence" where
  "search_evidence c rq st t = (let space = int (search_space_size (rq_problem rq));
       elapsed = (if timeout_reason t then max 0 (monotonic_at c (monotonic_calls st) - monotonic_at c 0)
                  else 0) in
     \<lparr>solver_calls = 1, solver_steps = visited st, ev_search_space_size = space,
      visited_assignments = visited st, unvisited_assignments = space - visited st,
      constraint_checks = checked st, elapsed_milliseconds = min elapsed 3600000,
      step_limit = max_solve_steps (rq_policy rq),
      ev_timeout = timeout_milliseconds (rq_policy rq), termination_reason = t\<rparr>)"

definition search_result ::
  "solver_clock \<Rightarrow> loaded_solver_artifact \<Rightarrow> solver_request \<Rightarrow> artifact_reference \<Rightarrow>
   solver_adapter_definition \<Rightarrow> solver_lease_evidence \<Rightarrow> solver_result result" where
  "search_result c request rq reference adapter lease =
     bindR (parse_utc (le_expires_at lease)) (\<lambda>lease_deadline.
     bindR (search_loop c rq lease_deadline (request_deadline c rq) (assignments (rq_problem rq))
       initial_search) (\<lambda>(st, t).
     bindR (result_disposition (rq_problem rq) t (best_assignment st)) (\<lambda>(status, proof, diagnostic).
     bindR (make_interval (rq_problem rq) status (best_objective st)) (\<lambda>interval.
     Inr (bound_result request rq reference adapter lease status
       (make_witness (variable_ids (rq_problem rq)) (best_assignment st)) (best_objective st)
       interval proof (search_evidence c rq st t) diagnostic)))))"

definition solve ::
  "solver_clock \<Rightarrow> loaded_solver_artifact \<Rightarrow> artifact_reference \<Rightarrow> solver_adapter_definition \<Rightarrow>
   solver_lease_evidence \<Rightarrow> loaded_solver_artifact result" where
  "solve c request reference adapter lease =
     (case artifact_value request of
        RequestValue rq \<Rightarrow>
          if artifact_type request \<noteq> REQUEST then Inl (SolverAdapterError UnexpectedType)
          else if adapter_kind adapter \<noteq> REFERENCE then
            adapter_unavailable_result request reference adapter lease
          else if ad_adapter_id adapter \<noteq> reference_adapter_id then
            Inl (SolverAdapterError BadAdapter)
          else bindR (search_result c request rq reference adapter lease) (\<lambda>r.
            artifact_from_value RESULT (ResultValue r))
      | _ \<Rightarrow> Inl (SolverAdapterError UnexpectedType))"

section \<open>What the search computes\<close>

text \<open>
  The search is determined by how many assignments it takes.  \<open>taken p n\<close> are the first \<open>n\<close>
  assignments; \<open>best_of\<close> is the incumbent over a list of them; \<open>bests_ok\<close> describes the state after
  a list was taken without a break.
\<close>

definition early_exit :: "solver_request \<Rightarrow> bool" where
  "early_exit rq = (objective (rq_problem rq) = None \<or> rq_required_claim rq = CLAIM_FEASIBLE)"

definition taken :: "solver_problem \<Rightarrow> nat \<Rightarrow> int list list" where
  "taken p n = take n (assignments p)"

definition checks_of :: "solver_problem \<Rightarrow> int list list \<Rightarrow> int" where
  "checks_of p as = sum_list (map (\<lambda>a. int (checks_at p a)) as)"

definition candidates :: "solver_problem \<Rightarrow> int list list \<Rightarrow> (int \<times> int list) list" where
  "candidates p as = map (\<lambda>a. (objective_at p a, a)) (filter (satisfies p) as)"

definition best_of :: "solver_problem \<Rightarrow> int list list \<Rightarrow> (int \<times> int list) option" where
  "best_of p as = (case objective p of None \<Rightarrow> None
     | Some q \<Rightarrow> incumbent.best_in q (candidates p as))"

definition bests_ok ::
  "solver_request \<Rightarrow> int list list \<Rightarrow> int list option \<Rightarrow> int option \<Rightarrow> bool" where
  "bests_ok rq as ba bo =
     (if early_exit rq then (\<forall>a \<in> set as. \<not> satisfies (rq_problem rq) a) \<and> ba = None \<and> bo = None
      else ba = map_option snd (best_of (rq_problem rq) as) \<and>
           bo = map_option fst (best_of (rq_problem rq) as))"

text \<open>The last assignment taken is the first solution, and the loop broke there.\<close>

definition witness_ok ::
  "solver_request \<Rightarrow> int list list \<Rightarrow> int list option \<Rightarrow> int option \<Rightarrow> bool" where
  "witness_ok rq as ba bo = (early_exit rq \<and> as \<noteq> [] \<and> satisfies (rq_problem rq) (last as) \<and>
     (\<forall>a \<in> set (butlast as). \<not> satisfies (rq_problem rq) a) \<and> ba = Some (last as) \<and>
     bo = (if objective (rq_problem rq) = None then None
           else Some (objective_at (rq_problem rq) (last as))))"

definition search_spec ::
  "solver_request \<Rightarrow> nat \<Rightarrow> int list option \<Rightarrow> int option \<Rightarrow> solver_termination_reason \<Rightarrow> bool" where
  "search_spec rq n ba bo t = (let p = rq_problem rq; all = search_space_size p in
     n \<le> all \<and> int n \<le> max_solve_steps (rq_policy rq) \<and>
     (case t of
        WITNESS_FOUND \<Rightarrow> witness_ok rq (taken p n) ba bo
      | SEARCH_EXHAUSTED \<Rightarrow> n = all \<and> bests_ok rq (taken p n) ba bo
      | STEP_LIMIT \<Rightarrow> n < all \<and> int n = max_solve_steps (rq_policy rq) \<and> bests_ok rq (taken p n) ba bo
      | REQUEST_TIMEOUT \<Rightarrow> n < all \<and> timeout_milliseconds (rq_policy rq) \<noteq> None \<and>
          bests_ok rq (taken p n) ba bo
      | LEASE_DEADLINE \<Rightarrow> n < all \<and> bests_ok rq (taken p n) ba bo
      | _ \<Rightarrow> False))"

lemma candidates_snoc:
  "candidates p (as @ [a]) = candidates p as @ (if satisfies p a then [(objective_at p a, a)] else [])"
  by (simp add: candidates_def)

lemma bests_ok_Nil: "bests_ok rq [] None None"
  by (auto simp: bests_ok_def best_of_def candidates_def incumbent.best_in_Nil split: option.splits)

lemma visit_value:
  fixes rq :: solver_request
  defines "p \<equiv> rq_problem rq"
  assumes p: "wf_problem p" and a: "a \<in> set (assignments p)"
    and b: "bests_ok rq as (best_assignment st) (best_objective st)"
  obtains st' where
    "visit rq a st = Inr (st', early_exit rq \<and> satisfies p a)"
    "visited st' = visited st + 1" "checked st' = checked st + int (checks_at p a)"
    "now_calls st' = now_calls st" "monotonic_calls st' = monotonic_calls st"
    "if early_exit rq \<and> satisfies p a then
       witness_ok rq (as @ [a]) (best_assignment st') (best_objective st')
     else bests_ok rq (as @ [a]) (best_assignment st') (best_objective st')"
proof -
  note eval = evaluate_constraints_value[OF p a]
  have obj: "objective p = Some q \<Longrightarrow>
      evaluate_objective p (assignment_values (variable_ids p) a) = Inr (objective_at p a)" for q
    using evaluate_objective_value[OF p a] by simp
  show ?thesis
  proof (cases "satisfies p a")
    case False
    have "bests_ok rq (as @ [a]) (best_assignment st) (best_objective st)"
      using b False by (auto simp: bests_ok_def best_of_def candidates_snoc p_def split: option.splits)
    then show ?thesis using False eval
      by (intro that[of "st\<lparr>visited := visited st + 1, checked := checked st + int (checks_at p a)\<rparr>"])
        (simp_all add: visit_def Let_def p_def)
  next
    case sat: True
    show ?thesis
    proof (cases "objective p")
      case None
      then show ?thesis using sat eval b
        by (intro that[of "st\<lparr>visited := visited st + 1,
              checked := checked st + int (checks_at p a), best_assignment := Some a\<rparr>"])
          (simp_all add: visit_def Let_def p_def early_exit_def witness_ok_def bests_ok_def)
    next
      case (Some q)
      note ev = obj[OF Some]
      show ?thesis
      proof (cases "rq_required_claim rq = CLAIM_FEASIBLE")
        case True
        then show ?thesis using sat eval b ev Some
          by (intro that[of "st\<lparr>visited := visited st + 1, checked := checked st + int (checks_at p a),
                best_assignment := Some a, best_objective := Some (objective_at p a)\<rparr>"])
            (simp_all add: visit_def Let_def p_def early_exit_def witness_ok_def bests_ok_def)
      next
        case False
        then have ne: "\<not> early_exit rq" using Some by (simp add: early_exit_def p_def)
        define old where "old = best_of p as"
        have bests: "best_assignment st = map_option snd old" "best_objective st = map_option fst old"
          using b ne by (simp_all add: bests_ok_def p_def old_def)
        have new: "best_of p (as @ [a]) =
            (case old of None \<Rightarrow> Some (objective_at p a, a)
             | Some y \<Rightarrow> if objective_better q (objective_at p a) a (fst y) (snd y)
                 then Some (objective_at p a, a) else Some y)"
          using sat Some
          by (simp add: old_def best_of_def candidates_snoc incumbent.best_in_snoc incumbent.improve_def
              split: option.splits)
        define up where "up = (case old of None \<Rightarrow> True
            | Some y \<Rightarrow> objective_better q (objective_at p a) a (fst y) (snd y))"
        have ib: "is_better p (objective_at p a) a (best_objective st) (best_assignment st) = Inr up"
          using Some by (cases old) (simp_all add: bests is_better_def up_def)
        let ?st = "st\<lparr>visited := visited st + 1, checked := checked st + int (checks_at p a)\<rparr>"
        let ?st' = "if up then ?st\<lparr>best_assignment := Some a, best_objective := Some (objective_at p a)\<rparr>
            else ?st"
        have "visit rq a st = Inr (?st', False)"
          using sat eval ev Some False ib by (simp add: visit_def Let_def p_def)
        moreover have "bests_ok rq (as @ [a]) (best_assignment ?st') (best_objective ?st')"
          using ne new bests by (cases old) (auto simp: bests_ok_def p_def up_def)
        ultimately show ?thesis using ne by (intro that[of ?st']) simp_all
      qed
    qed
  qed
qed

text \<open>The loop, from any settled point on; \<open>n\<close> assignments were taken before it.\<close>

lemma search_loop_from:
  fixes rq :: solver_request
  defines "p \<equiv> rq_problem rq"
  assumes p: "wf_problem p"
    and rest: "rest = drop n (assignments p)" and n: "n \<le> search_space_size p"
    and limit: "int n \<le> max_solve_steps (rq_policy rq)"
    and deadline: "rd = None \<longleftrightarrow> timeout_milliseconds (rq_policy rq) = None"
    and visited: "visited st = int n" and checked: "checked st = checks_of p (taken p n)"
    and bests: "bests_ok rq (taken p n) (best_assignment st) (best_objective st)"
  shows "\<exists>st' t m. search_loop c rq ld rd rest st = Inr (st', t) \<and> visited st' = int m \<and>
    checked st' = checks_of p (taken p m) \<and>
    search_spec rq m (best_assignment st') (best_objective st') t \<and>
    (t = REQUEST_TIMEOUT \<longrightarrow> 0 < monotonic_calls st' \<and>
       the rd \<le> monotonic_at c (monotonic_calls st' - 1)) \<and>
    (t = LEASE_DEADLINE \<longrightarrow> ld \<le> now_at c (now_calls st' - 1))"
  using rest n limit visited checked bests
proof (induction rest arbitrary: n st)
  case Nil
  then have "n = search_space_size p" by (simp add: assignments_length)
  then show ?case using Nil by (auto simp: search_spec_def p_def)
next
  case (Cons a rest)
  have lt: "n < search_space_size p"
    using Cons.prems(1) by (metis assignments_length drop_all list.distinct(1) not_less)
  then have len: "n < length (assignments p)" by (simp add: assignments_length)
  have a: "a = assignments p ! n" and rest: "rest = drop (Suc n) (assignments p)"
    using Cons.prems(1) len by (metis Cons_nth_drop_Suc list.inject)+
  have take: "taken p (Suc n) = taken p n @ [a]"
    using len a by (simp add: taken_def take_Suc_conv_app_nth)
  have mem: "a \<in> set (assignments p)" using a len by simp
  let ?st1 = "st\<lparr>now_calls := Suc (now_calls st)\<rparr>"
  obtain late st2 where to: "timed_out c rd ?st1 = (late, st2)" by fastforce
  have st2: "visited st2 = int n" "checked st2 = checks_of p (taken p n)"
    "best_assignment st2 = best_assignment st" "best_objective st2 = best_objective st"
    using to Cons.prems by (auto simp: timed_out_def split: option.splits)
  consider "ld \<le> now_at c (now_calls st)" | "\<not> ld \<le> now_at c (now_calls st)" "late"
    | "\<not> ld \<le> now_at c (now_calls st)" "\<not> late" "int n = max_solve_steps (rq_policy rq)"
    | "\<not> ld \<le> now_at c (now_calls st)" "\<not> late" "int n < max_solve_steps (rq_policy rq)"
    using Cons.prems(3) by fastforce
  then show ?case
  proof cases
    case 1
    then have "search_loop c rq ld rd (a # rest) st = Inr (?st1, LEASE_DEADLINE)"
      by (simp add: Let_def)
    then show ?thesis using 1 lt Cons.prems(3-6)
      by (intro exI[of _ ?st1] exI[of _ LEASE_DEADLINE] exI[of _ n])
        (simp add: search_spec_def p_def Let_def)
  next
    case 2
    then have loop: "search_loop c rq ld rd (a # rest) st = Inr (st2, REQUEST_TIMEOUT)"
      using to by (simp add: Let_def)
    obtain d where d: "rd = Some d" "d \<le> monotonic_at c (monotonic_calls st2 - 1)"
        "0 < monotonic_calls st2"
      using to 2 by (auto simp: timed_out_def split: option.splits)
    then show ?thesis using loop lt Cons.prems(3-6) st2 deadline
      by (intro exI[of _ st2] exI[of _ REQUEST_TIMEOUT] exI[of _ n])
        (simp add: search_spec_def p_def Let_def)
  next
    case 3
    then have "search_loop c rq ld rd (a # rest) st = Inr (st2, STEP_LIMIT)"
      using to st2 by (simp add: Let_def)
    then show ?thesis using 3 lt Cons.prems(3-6) st2
      by (intro exI[of _ st2] exI[of _ STEP_LIMIT] exI[of _ n])
        (simp add: search_spec_def p_def Let_def)
  next
    case 4
    have bests2: "bests_ok rq (taken p n) (best_assignment st2) (best_objective st2)"
      using Cons.prems(6) st2 by simp
    obtain st3 where w: "visit rq a st2 = Inr (st3, early_exit rq \<and> satisfies p a)"
      "visited st3 = visited st2 + 1" "checked st3 = checked st2 + int (checks_at p a)"
      "now_calls st3 = now_calls st2" "monotonic_calls st3 = monotonic_calls st2"
      "if early_exit rq \<and> satisfies p a then
         witness_ok rq (taken p n @ [a]) (best_assignment st3) (best_objective st3)
       else bests_ok rq (taken p n @ [a]) (best_assignment st3) (best_objective st3)"
      by (rule visit_value[OF p[unfolded p_def] mem[unfolded p_def] bests2, folded p_def])
    have v: "visit rq a st2 = Inr (st3, early_exit rq \<and> satisfies p a)"
      "visited st3 = int (Suc n)" "checked st3 = checks_of p (taken p (Suc n))"
      "if early_exit rq \<and> satisfies p a then
         witness_ok rq (taken p (Suc n)) (best_assignment st3) (best_objective st3)
       else bests_ok rq (taken p (Suc n)) (best_assignment st3) (best_objective st3)"
      using w st2(1,2) unfolding take by (simp_all add: checks_of_def)
    have loop: "search_loop c rq ld rd (a # rest) st =
        (if early_exit rq \<and> satisfies p a then Inr (st3, WITNESS_FOUND)
         else search_loop c rq ld rd rest st3)"
      using 4 to st2 v(1) by (simp add: Let_def)
    show ?thesis
    proof (cases "early_exit rq \<and> satisfies p a")
      case True
      then show ?thesis using loop v 4 lt
        by (intro exI[of _ st3] exI[of _ WITNESS_FOUND] exI[of _ "Suc n"])
          (simp add: search_spec_def p_def Let_def)
    next
      case False
      have "\<exists>st' t m. search_loop c rq ld rd rest st3 = Inr (st', t) \<and> visited st' = int m \<and>
        checked st' = checks_of p (taken p m) \<and>
        search_spec rq m (best_assignment st') (best_objective st') t \<and>
        (t = REQUEST_TIMEOUT \<longrightarrow> 0 < monotonic_calls st' \<and>
           the rd \<le> monotonic_at c (monotonic_calls st' - 1)) \<and>
        (t = LEASE_DEADLINE \<longrightarrow> ld \<le> now_at c (now_calls st' - 1))"
        using Cons.IH[OF rest, of st3] v(2-4) False 4 lt by simp
      then show ?thesis using loop False by simp
    qed
  qed
qed

lemma search_loop_value:
  assumes "wf_problem (rq_problem rq)" and "0 \<le> max_solve_steps (rq_policy rq)"
  obtains st t n where
    "search_loop c rq ld (request_deadline c rq) (assignments (rq_problem rq)) initial_search =
      Inr (st, t)"
    "visited st = int n" "checked st = checks_of (rq_problem rq) (taken (rq_problem rq) n)"
    "search_spec rq n (best_assignment st) (best_objective st) t"
    "t = REQUEST_TIMEOUT \<Longrightarrow> 0 < monotonic_calls st \<and>
       the (request_deadline c rq) \<le> monotonic_at c (monotonic_calls st - 1)"
    "t = LEASE_DEADLINE \<Longrightarrow> ld \<le> now_at c (now_calls st - 1)"
  using search_loop_from[OF assms(1), of "assignments (rq_problem rq)" 0 "request_deadline c rq"
      initial_search c ld] assms(2)
  by (auto simp: initial_search_def checks_of_def taken_def bests_ok_Nil request_deadline_def)

section \<open>What a result asserts\<close>

text \<open>\<open>a\<close> is at least as good as \<open>b\<close>: better objective, or the same and not a later tuple.\<close>

definition at_least_as_good :: "solver_problem \<Rightarrow> int list \<Rightarrow> int list \<Rightarrow> bool" where
  "at_least_as_good p a b = (case objective p of None \<Rightarrow> False
     | Some q \<Rightarrow>
         (if direction q = MINIMIZE then objective_at p a < objective_at p b
          else objective_at p a > objective_at p b) \<or>
         (objective_at p a = objective_at p b \<and> a \<le> b))"

text \<open>The canonical optimum: an optimal solution, the least tuple among the optimal ones.\<close>

definition canonical_optimum :: "solver_problem \<Rightarrow> int list \<Rightarrow> bool" where
  "canonical_optimum p a = (a \<in> solutions p \<and> (\<forall>b \<in> solutions p. at_least_as_good p a b))"

definition witnesses :: "solver_problem \<Rightarrow> solver_witness option \<Rightarrow> int list \<Rightarrow> bool" where
  "witnesses p w a = (a \<in> solutions p \<and> w = Some (zip (variable_ids p) a))"

text \<open>
  The meaning of a result: what its status says about the problem, with the evidence it carries.
  The statuses that claim nothing are true of every problem.
\<close>

definition result_holds ::
  "solver_problem \<Rightarrow> solver_result_status \<Rightarrow> solver_witness option \<Rightarrow> int option \<Rightarrow>
   objective_interval option \<Rightarrow> bool" where
  "result_holds p status w obj interval = (case status of
     SATISFIABLE \<Rightarrow> objective p = None \<and> (\<exists>a \<in> solutions p. witnesses p w a)
   | UNSATISFIABLE \<Rightarrow> objective p = None \<and> solutions p = {}
   | FEASIBLE \<Rightarrow> objective p \<noteq> None \<and>
       (\<exists>a \<in> solutions p. witnesses p w a \<and> obj = Some (objective_at p a))
   | INFEASIBLE \<Rightarrow> objective p \<noteq> None \<and> solutions p = {}
   | OPTIMAL \<Rightarrow> objective p \<noteq> None \<and> (\<exists>a \<in> solutions p. witnesses p w a \<and> canonical_optimum p a \<and>
       obj = Some (objective_at p a) \<and>
       interval = Some \<lparr>lower = objective_at p a, upper = objective_at p a\<rparr>)
   | BOUNDED \<Rightarrow> objective p \<noteq> None \<and> (\<exists>a \<in> solutions p. witnesses p w a \<and> obj = Some (objective_at p a) \<and>
       interval \<noteq> None \<and> (\<forall>b \<in> solutions p. canonical_optimum p b \<longrightarrow>
         lower (the interval) \<le> objective_at p b \<and> objective_at p b \<le> upper (the interval)))
   | _ \<Rightarrow> True)"

lemma taken_all: "taken p (search_space_size p) = assignments p"
  by (simp add: taken_def flip: assignments_length)

lemma taken_subset: "set (taken p n) \<subseteq> set (assignments p)"
  by (simp add: taken_def set_take_subset)

lemma best_of_Some:
  assumes "best_of p as = Some x"
  shows "snd x \<in> set as \<and> satisfies p (snd x) \<and> fst x = objective_at p (snd x) \<and>
    (\<forall>b \<in> set as. satisfies p b \<longrightarrow> at_least_as_good p (snd x) b)"
proof -
  obtain q where q: "objective p = Some q" "incumbent.best_in q (candidates p as) = Some x"
    using assms by (auto simp: best_of_def split: option.splits)
  from incumbent.best_in_Some[OF q(2)] have x: "x \<in> set (candidates p as)"
    and best: "\<forall>y \<in> set (candidates p as). preference q x \<le> preference q y" by auto
  have "at_least_as_good p (snd x) b" if "b \<in> set as" "satisfies p b" for b
  proof -
    have "(objective_at p b, b) \<in> set (candidates p as)" using that by (simp add: candidates_def)
    then have "preference q x \<le> preference q (objective_at p b, b)" using best by blast
    then show ?thesis using x q(1)
      by (auto simp: candidates_def at_least_as_good_def preference_def less_eq_prod_def
          split: if_splits)
  qed
  then show ?thesis using x by (auto simp: candidates_def)
qed

lemma best_of_None:
  assumes "best_of p as = None" and "objective p \<noteq> None"
  shows "\<forall>b \<in> set as. \<not> satisfies p b"
proof -
  obtain q where q: "objective p = Some q" using assms(2) by auto
  then have "candidates p as = []" using assms(1)
    by (simp add: best_of_def incumbent.best_in_None)
  then show ?thesis by (auto simp: candidates_def filter_empty_conv)
qed

lemma optimum_exists:
  assumes "a \<in> solutions p" and "objective p \<noteq> None"
  obtains b where "canonical_optimum p b"
proof -
  have "best_of p (assignments p) \<noteq> None"
    using assms best_of_None[of p "assignments p"] by (metis solutions_iff)
  then obtain x where "best_of p (assignments p) = Some x" by auto
  from best_of_Some[OF this] have "canonical_optimum p (snd x)"
    by (auto simp: canonical_optimum_def solutions_iff)
  then show ?thesis by (rule that)
qed

text \<open>From what the loop did to what the published status, witness and interval assert.\<close>

definition interval_for ::
  "solver_problem \<Rightarrow> solver_result_status \<Rightarrow> int option \<Rightarrow> objective_interval option" where
  "interval_for p s bo = (case make_interval p s bo of Inl e \<Rightarrow> None | Inr i \<Rightarrow> i)"

lemma make_interval_value:
  assumes "wf_problem p"
  shows "make_interval p s bo = Inr (interval_for p s bo)"
proof -
  have "\<exists>i. make_interval p s bo = Inr i"
  proof (cases "objective p")
    case None
    then show ?thesis by (simp add: make_interval_def)
  next
    case (Some q)
    then obtain i where "objective_domain_bounds p = Inr i"
      using objective_bounds_value[OF assms] by (metis option.distinct(1))
    then show ?thesis using Some by (cases bo) (simp_all add: make_interval_def)
  qed
  then show ?thesis by (auto simp: interval_for_def)
qed

lemma search_spec_holds:
  assumes p: "wf_problem (rq_problem rq)" and spec: "search_spec rq n ba bo t"
    and disp: "result_disposition (rq_problem rq) t ba = Inr (s, proof_kind, d)"
  shows "result_holds (rq_problem rq) s (make_witness (variable_ids (rq_problem rq)) ba) bo
    (interval_for (rq_problem rq) s bo)"
proof -
  let ?p = "rq_problem rq"
  have sub: "a \<in> set (taken ?p n) \<Longrightarrow> a \<in> set (assignments ?p)" for a
    using taken_subset by blast
  show ?thesis
  proof (cases t)
    case WITNESS_FOUND
    then have w: "witness_ok rq (taken ?p n) ba bo" using spec by (simp add: search_spec_def Let_def)
    let ?a = "last (taken ?p n)"
    have "?a \<in> solutions ?p"
      using w sub[of ?a] by (simp add: witness_ok_def solutions_iff)
    then show ?thesis using w WITNESS_FOUND disp
      by (auto simp: result_disposition_def result_holds_def witnesses_def make_witness_def
          witness_ok_def split: if_splits)
  next
    case SEARCH_EXHAUSTED
    then have "n = search_space_size ?p" "bests_ok rq (taken ?p n) ba bo"
      using spec unfolding search_spec_def Let_def by auto
    then have b: "bests_ok rq (assignments ?p) ba bo" by (metis taken_all)
    show ?thesis
    proof (cases "objective ?p \<noteq> None \<and> ba \<noteq> None")
      case True
      then obtain x where x: "best_of ?p (assignments ?p) = Some x" "ba = Some (snd x)" "bo = Some (fst x)"
        using b by (auto simp: bests_ok_def split: if_splits)
      then show ?thesis using SEARCH_EXHAUSTED disp True best_of_Some[OF x(1)]
        by (auto simp: result_disposition_def result_holds_def witnesses_def make_witness_def
            canonical_optimum_def solutions_iff interval_for_def make_interval_def
            split: option.splits)
    next
      case False
      then have "\<forall>a \<in> set (assignments ?p). \<not> satisfies ?p a"
        using b best_of_None[of ?p "assignments ?p"]
        by (auto simp: bests_ok_def early_exit_def split: if_splits)
      then have "solutions ?p = {}" by (auto simp: solutions_iff)
      then show ?thesis using SEARCH_EXHAUSTED disp False
        by (auto simp: result_disposition_def result_holds_def split: if_splits)
    qed
  next
    case STEP_LIMIT
    then have b: "bests_ok rq (taken ?p n) ba bo" using spec by (simp add: search_spec_def Let_def)
    show ?thesis
    proof (cases "objective ?p \<noteq> None \<and> ba \<noteq> None")
      case False
      then show ?thesis using STEP_LIMIT disp
        by (auto simp: result_disposition_def result_holds_def)
    next
      case True
      then obtain x q where x: "best_of ?p (taken ?p n) = Some x" "ba = Some (snd x)" "bo = Some (fst x)"
        and q: "objective ?p = Some q"
        using b by (auto simp: bests_ok_def split: if_splits)
      have s: "s = BOUNDED" using STEP_LIMIT disp True by (auto simp: result_disposition_def)
      note best = best_of_Some[OF x(1)]
      have mem: "snd x \<in> solutions ?p" using best sub by (simp add: solutions_iff)
      obtain i where i: "objective_domain_bounds ?p = Inr i"
        "\<And>a. a \<in> set (assignments ?p) \<Longrightarrow> lower i \<le> objective_at ?p a \<and> objective_at ?p a \<le> upper i"
        using objective_bounds_value[OF p] True by metis
      have enclosed: "(if direction q = MINIMIZE then lower i \<le> objective_at ?p b \<and> objective_at ?p b \<le> fst x
          else fst x \<le> objective_at ?p b \<and> objective_at ?p b \<le> upper i)"
        if "canonical_optimum ?p b" for b
      proof -
        have "b \<in> set (assignments ?p)" "at_least_as_good ?p b (snd x)"
          using that mem by (auto simp: canonical_optimum_def solutions_iff)
        then show ?thesis using i(2)[of b] best q by (auto simp: at_least_as_good_def)
      qed
      have "interval_for ?p s bo = Some (if direction q = MINIMIZE then \<lparr>lower = lower i, upper = fst x\<rparr>
          else \<lparr>lower = fst x, upper = upper i\<rparr>)"
        using s x q i by (simp add: interval_for_def make_interval_def)
      then show ?thesis using s x q best mem enclosed
        by (auto simp: result_holds_def witnesses_def make_witness_def)
    qed
  qed (use spec disp in \<open>auto simp: search_spec_def Let_def result_disposition_def result_holds_def\<close>)
qed

section \<open>Published results are well formed\<close>

lemma checks_of_bounds:
  assumes "wf_problem p"
  shows "0 \<le> checks_of p as \<and> checks_of p as \<le> 256 * int (length as)"
proof -
  have "int (checks_at p a) \<le> 256" for a
    using checks_at_le[of p a] assms by (simp add: wf_problem_def)
  then show ?thesis by (induction as) (auto simp: checks_of_def add_mono)
qed

lemma wf_make_witness:
  assumes p: "wf_problem p" and a: "a \<in> set (assignments p)"
  shows "wf_witness (zip (variable_ids p) a)"
proof -
  have len: "length (variable_ids p) = length a"
    using a by (simp add: assignment_length variable_ids_def)
  have ids: "sorted_wrt (<) (variable_ids p)" "list_all wf_symbol (variable_ids p)"
    "variable_ids p \<noteq> []" "length (variable_ids p) \<le> 16"
    using p by (auto simp: wf_problem_def variable_ids_def list_all_iff wf_variable_def)
  have "wf_scalar x" if xa: "x \<in> set a" for x
  proof -
    obtain i where i: "i < length a" "a ! i = x" using xa by (auto simp: in_set_conv_nth)
    have "a ! i \<in> set (dom_values (var_domain (variables p ! i)))"
      using a i by (auto simp: assignments_def product_lists_set list_all2_conv_all_nth problem_domains_def)
    moreover have "wf_domain (var_domain (variables p ! i))"
      using p i len by (simp add: wf_problem_def list_all_iff wf_variable_def variable_ids_def)
    ultimately show ?thesis using i by (auto simp: wf_domain_def list_all_iff)
  qed
  then have "list_all wf_assignment (zip (variable_ids p) a)"
    using ids(2) by (auto simp: list_all_iff wf_assignment_def dest: set_zip_leftD set_zip_rightD)
  moreover have "zip (variable_ids p) a \<noteq> []" "length (zip (variable_ids p) a) \<le> 16"
    "map fst (zip (variable_ids p) a) = variable_ids p"
    using len ids(3,4) by auto
  ultimately show ?thesis using ids(1) by (simp add: wf_witness_def)
qed

lemma search_spec_state:
  "search_spec rq n ba bo t \<Longrightarrow> witness_ok rq (taken (rq_problem rq) n) ba bo \<or>
     bests_ok rq (taken (rq_problem rq) n) ba bo"
  by (cases t) (auto simp: search_spec_def Let_def)

lemma best_assignment_mem:
  assumes "search_spec rq n (Some a) bo t"
  shows "a \<in> set (assignments (rq_problem rq)) \<and>
    bo = (if objective (rq_problem rq) = None then None else Some (objective_at (rq_problem rq) a))"
  using search_spec_state[OF assms]
proof
  let ?p = "rq_problem rq"
  assume w: "witness_ok rq (taken ?p n) (Some a) bo"
  then have "a \<in> set (taken ?p n)" by (auto simp: witness_ok_def)
  then show ?thesis using w taken_subset[of ?p n] by (auto simp: witness_ok_def)
next
  let ?p = "rq_problem rq"
  assume "bests_ok rq (taken ?p n) (Some a) bo"
  then obtain x where x: "best_of ?p (taken ?p n) = Some x" "a = snd x" "bo = Some (fst x)"
    and "objective ?p \<noteq> None"
    by (cases "best_of ?p (taken ?p n)") (auto simp: bests_ok_def early_exit_def split: if_splits)
  then show ?thesis using best_of_Some[OF x(1)] taken_subset[of ?p n] by auto
qed

lemma search_spec_None: "search_spec rq n None bo t \<Longrightarrow> bo = None"
  by (cases t) (auto simp: search_spec_def Let_def witness_ok_def bests_ok_def split: if_splits)

lemma wf_search_bests:
  assumes p: "wf_problem (rq_problem rq)" and spec: "search_spec rq n ba bo t"
  shows "pred_option wf_witness (make_witness (variable_ids (rq_problem rq)) ba)"
    and "pred_option wf_objective_value bo"
    and "pred_option wf_interval (interval_for (rq_problem rq) s bo)"
proof -
  let ?p = "rq_problem rq"
  have mem: "ba = Some a \<Longrightarrow> a \<in> set (assignments ?p)" for a
    using best_assignment_mem spec by blast
  show "pred_option wf_witness (make_witness (variable_ids ?p) ba)"
    using mem wf_make_witness[OF p] by (cases ba) (auto simp: make_witness_def)
  have bounds: "objective ?p \<noteq> None \<and> (\<exists>i. objective_domain_bounds ?p = Inr i \<and> lower i \<le> x \<and> x \<le> upper i \<and>
      wf_objective_value (lower i) \<and> wf_objective_value (upper i))" if x: "bo = Some x" for x
  proof -
    obtain a where a: "ba = Some a" using spec search_spec_None x by (cases ba) auto
    then have o: "objective ?p \<noteq> None" "x = objective_at ?p a" "a \<in> set (assignments ?p)"
      using best_assignment_mem[OF spec[unfolded a x]] by (simp_all split: if_splits)
    obtain i where "objective_domain_bounds ?p = Inr i"
      "\<And>a. a \<in> set (assignments ?p) \<Longrightarrow> lower i \<le> objective_at ?p a \<and> objective_at ?p a \<le> upper i"
      "wf_objective_value (lower i)" "wf_objective_value (upper i)"
      using objective_bounds_value[OF p o(1)] by metis
    then show ?thesis using o by auto
  qed
  show "pred_option wf_objective_value bo"
    using bounds by (cases bo) (auto simp: wf_objective_value_def)
  show "pred_option wf_interval (interval_for ?p s bo)"
  proof (cases bo)
    case None
    then show ?thesis by (auto simp: interval_for_def make_interval_def split: option.splits)
  next
    case (Some x)
    then show ?thesis using bounds[OF Some]
      by (auto simp: interval_for_def make_interval_def wf_interval_def wf_objective_value_def)
  qed
qed

lemma search_shape:
  assumes p: "wf_problem (rq_problem rq)" and pol: "wf_policy (rq_policy rq)"
    and spec: "search_spec rq n ba bo t" and v: "visited st = int n"
    and disp: "result_disposition (rq_problem rq) t ba = Inr (s, proof_kind, d)"
  shows "validate_result_shape s (make_witness (variable_ids (rq_problem rq)) ba) bo
    (interval_for (rq_problem rq) s bo) proof_kind d (search_evidence c rq st t) = Inr ()"
proof -
  let ?p = "rq_problem rq"
  have space: "0 < search_space_size ?p"
    using assignments_nonempty[OF p] by (simp flip: assignments_length)
  have interval: "interval_for ?p s bo = (case bo of None \<Rightarrow> None | Some x \<Rightarrow>
      if s = OPTIMAL \<and> objective ?p \<noteq> None then Some \<lparr>lower = x, upper = x\<rparr> else interval_for ?p s bo)"
    by (auto simp: interval_for_def make_interval_def split: option.splits)
  have bounded: "interval_for ?p BOUNDED (Some x) \<noteq> None" if "objective ?p \<noteq> None" for x
  proof -
    obtain i where "objective_domain_bounds ?p = Inr i" using objective_bounds_value[OF p \<open>objective ?p \<noteq> None\<close>]
      by metis
    then show ?thesis using \<open>objective ?p \<noteq> None\<close>
      by (auto simp: interval_for_def make_interval_def)
  qed
  have plain: "interval_for ?p s' bo = None" if "s' \<notin> {OPTIMAL, BOUNDED}" for s'
    using that by (auto simp: interval_for_def make_interval_def split: option.splits)
  show ?thesis
  proof (cases ba)
    case None
    then have "bo = None" using spec search_spec_None by blast
    then show ?thesis using None spec disp v space plain[of s]
      by (cases t) (auto simp: validate_result_shape_def first_failure_iff result_disposition_def
          search_spec_def Let_def search_evidence_def witness_ok_def positive_status_def
          negative_status_def incomplete_status_def make_witness_def timeout_reason_def
          interval_for_def make_interval_def termination_value.simps split: if_splits option.splits)
  next
    case (Some a)
    then have bo: "bo = (if objective ?p = None then None else Some (objective_at ?p a))"
      using spec best_assignment_mem by blast
    have n: "t = WITNESS_FOUND \<Longrightarrow> 0 < n" using spec
      by (auto simp: search_spec_def Let_def witness_ok_def taken_def)
    have limit: "1 \<le> max_solve_steps (rq_policy rq)" using pol by (simp add: wf_policy_def)
    have obj: "objective ?p \<noteq> None" if "t = SEARCH_EXHAUSTED \<or> t = STEP_LIMIT"
      using that spec Some
      by (auto simp: search_spec_def Let_def bests_ok_def early_exit_def split: if_splits)
    have steps: "t = STEP_LIMIT \<Longrightarrow> n < search_space_size ?p \<and> int n = max_solve_steps (rq_policy rq)"
      "t = SEARCH_EXHAUSTED \<Longrightarrow> n = search_space_size ?p"
      "t = REQUEST_TIMEOUT \<or> t = LEASE_DEADLINE \<Longrightarrow> n < search_space_size ?p"
      using spec by (auto simp: search_spec_def Let_def)
    have opt: "objective ?p \<noteq> None \<Longrightarrow> interval_for ?p OPTIMAL (Some x) = Some \<lparr>lower = x, upper = x\<rparr>" for x
      by (auto simp: interval_for_def make_interval_def)
    have feas: "objective ?p = None \<Longrightarrow> interval_for ?p s' None = None" for s'
      by (simp add: interval_for_def make_interval_def)
    note shape = validate_result_shape_def first_failure_iff result_disposition_def Let_def
      search_evidence_def positive_status_def negative_status_def incomplete_status_def
      make_witness_def timeout_reason_def termination_value.simps
    show ?thesis
    proof (cases t)
      case WITNESS_FOUND
      then show ?thesis using Some disp v n bo plain feas
        by (auto simp: shape split: if_splits)
    next
      case SEARCH_EXHAUSTED
      then show ?thesis using Some disp v steps(2) space bo obj opt
        by (auto simp: shape split: if_splits)
    next
      case STEP_LIMIT
      then show ?thesis using Some disp v steps(1) limit bo obj bounded
        by (auto simp: shape split: if_splits)
    next
      case REQUEST_TIMEOUT
      then show ?thesis using Some disp v steps(3) by (auto simp: shape)
    next
      case LEASE_DEADLINE
      then show ?thesis using Some disp v steps(3) by (auto simp: shape)
    qed (use disp in \<open>simp_all add: result_disposition_def\<close>)
  qed
qed

section \<open>The adapter as a whole\<close>

text \<open>What a caller owes the adapter: well-formed, mutually consistent inputs.\<close>

definition solver_inputs ::
  "loaded_solver_artifact \<Rightarrow> solver_request \<Rightarrow> artifact_reference \<Rightarrow> solver_adapter_definition \<Rightarrow>
   solver_lease_evidence \<Rightarrow> bool" where
  "solver_inputs request rq reference adapter lease = (artifact_type request = REQUEST \<and>
     artifact_value request = RequestValue rq \<and> wf_artifact request \<and> wf_reference reference \<and>
     wf_adapter adapter \<and> wf_lease lease)"

lemma solver_inputs_wf:
  assumes "solver_inputs request rq reference adapter lease"
  shows "wf_request rq" "wf_problem (rq_problem rq)" "wf_policy (rq_policy rq)"
    "wf_solver_id (type_prefix REQUEST) (artifact_id request)"
proof -
  show "wf_request rq" using assms by (auto simp: solver_inputs_def wf_artifact_def)
  then show "wf_problem (rq_problem rq)" "wf_policy (rq_policy rq)" by (simp_all add: wf_request_def)
  show "wf_solver_id (type_prefix REQUEST) (artifact_id request)"
    using assms solver_identity_wf[of REQUEST] by (auto simp: solver_inputs_def wf_artifact_def)
qed

lemma disposition_total:
  assumes "search_spec rq n ba bo t"
  obtains s k d where "result_disposition (rq_problem rq) t ba = Inr (s, k, d)"
    "wf_diagnostic d" "s \<notin> {UNAVAILABLE, ERROR}"
proof -
  have "\<exists>s k d. result_disposition (rq_problem rq) t ba = Inr (s, k, d) \<and> wf_diagnostic d \<and>
      s \<notin> {UNAVAILABLE, ERROR}"
    using assms
    by (cases t; cases ba; cases "objective (rq_problem rq)")
      (auto simp: search_spec_def Let_def result_disposition_def wf_diagnostic_def
        diagnostic_codes_def)
  then show ?thesis using that by blast
qed

lemma wf_search_evidence:
  assumes p: "wf_problem (rq_problem rq)" and pol: "wf_policy (rq_policy rq)"
    and spec: "search_spec rq n ba bo t" and v: "visited st = int n"
    and k: "checked st = checks_of (rq_problem rq) (taken (rq_problem rq) n)"
  shows "wf_resources (search_evidence c rq st t)"
proof -
  let ?p = "rq_problem rq"
  have n: "n \<le> search_space_size ?p" "int n \<le> max_solve_steps (rq_policy rq)"
    using spec by (auto simp: search_spec_def Let_def)
  have space: "0 < search_space_size ?p" "search_space_size ?p \<le> 1000000"
    using assignments_nonempty[OF p] p by (simp_all add: wf_problem_def flip: assignments_length)
  have "length (taken ?p n) \<le> n" by (simp add: taken_def)
  then have "0 \<le> checked st" "checked st \<le> 256000000"
    using checks_of_bounds[OF p, of "taken ?p n"] n(1) space k by auto
  then show ?thesis using n space pol v
    by (auto simp: wf_resources_def search_evidence_def Let_def wf_policy_def)
qed

lemma wf_bound_result:
  assumes inp: "solver_inputs request rq reference adapter lease"
    and "pred_option wf_witness w" "pred_option wf_objective_value obj" "pred_option wf_interval i"
    and "wf_resources e" "wf_diagnostic d" "validate_result_shape s w obj i k d e = Inr ()"
  shows "wf_result (bound_result request rq reference adapter lease s w obj i k e d)"
  using assms solver_inputs_wf[OF inp]
  by (simp add: wf_result_def bound_result_def result_shape_ok_def solver_inputs_def
      wf_request_def wf_adapter_def)

lemma search_result_value:
  assumes inp: "solver_inputs request rq reference adapter lease"
  obtains st t n s k d where
    "search_result c request rq reference adapter lease =
       Inr (bound_result request rq reference adapter lease s
         (make_witness (variable_ids (rq_problem rq)) (best_assignment st)) (best_objective st)
         (interval_for (rq_problem rq) s (best_objective st)) k (search_evidence c rq st t) d)"
    "result_disposition (rq_problem rq) t (best_assignment st) = Inr (s, k, d)"
    "search_spec rq n (best_assignment st) (best_objective st) t"
    "visited st = int n" "checked st = checks_of (rq_problem rq) (taken (rq_problem rq) n)"
    "t = REQUEST_TIMEOUT \<Longrightarrow> 0 < monotonic_calls st \<and>
       the (request_deadline c rq) \<le> monotonic_at c (monotonic_calls st - 1)"
    "t = LEASE_DEADLINE \<Longrightarrow> utc_fields (le_expires_at lease) \<le> now_at c (now_calls st - 1)"
proof -
  note wf = solver_inputs_wf[OF inp]
  let ?p = "rq_problem rq"
  have utc: "parse_utc (le_expires_at lease) = Inr (utc_fields (le_expires_at lease))"
    using inp by (simp add: solver_inputs_def wf_lease_def parse_utc_timestamp)
  have lim: "0 \<le> max_solve_steps (rq_policy rq)" using wf(3) by (simp add: wf_policy_def)
  obtain st t n where loop: "search_loop c rq (utc_fields (le_expires_at lease)) (request_deadline c rq)
      (assignments ?p) initial_search = Inr (st, t)"
    and st: "visited st = int n" "checked st = checks_of ?p (taken ?p n)"
      "search_spec rq n (best_assignment st) (best_objective st) t"
      "t = REQUEST_TIMEOUT \<Longrightarrow> 0 < monotonic_calls st \<and>
         the (request_deadline c rq) \<le> monotonic_at c (monotonic_calls st - 1)"
      "t = LEASE_DEADLINE \<Longrightarrow> utc_fields (le_expires_at lease) \<le> now_at c (now_calls st - 1)"
    using search_loop_value[OF wf(2) lim] by metis
  obtain s k d where disp: "result_disposition ?p t (best_assignment st) = Inr (s, k, d)"
    using disposition_total[OF st(3)] by metis
  show ?thesis
    using that[OF _ disp st(3,1,2,4,5)] utc loop disp make_interval_value[OF wf(2)]
    by (simp add: search_result_def)
qed

text \<open>The reference adapter returns a well-formed result whose assertion is true.\<close>

lemma search_result_sound:
  assumes inp: "solver_inputs request rq reference adapter lease"
  obtains r where "search_result c request rq reference adapter lease = Inr r" "wf_result r"
    "result_holds (rq_problem rq) (rs_status r) (rs_witness r) (objective_value r) (rs_interval r)"
proof -
  note wf = solver_inputs_wf[OF inp]
  obtain st t n s k d where r: "search_result c request rq reference adapter lease =
       Inr (bound_result request rq reference adapter lease s
         (make_witness (variable_ids (rq_problem rq)) (best_assignment st)) (best_objective st)
         (interval_for (rq_problem rq) s (best_objective st)) k (search_evidence c rq st t) d)"
    and disp: "result_disposition (rq_problem rq) t (best_assignment st) = Inr (s, k, d)"
    and spec: "search_spec rq n (best_assignment st) (best_objective st) t"
    and v: "visited st = int n" "checked st = checks_of (rq_problem rq) (taken (rq_problem rq) n)"
    by (rule search_result_value[OF inp])
  have "wf_diagnostic d" using disposition_total[OF spec] disp by (metis Inr_inject prod.inject)
  then have "wf_result (bound_result request rq reference adapter lease s
         (make_witness (variable_ids (rq_problem rq)) (best_assignment st)) (best_objective st)
         (interval_for (rq_problem rq) s (best_objective st)) k (search_evidence c rq st t) d)"
    by (intro wf_bound_result[OF inp] wf_search_bests[OF wf(2) spec]
        wf_search_evidence[OF wf(2,3) spec v] search_shape[OF wf(2,3) spec v(1) disp])
  then show ?thesis
    using that[OF r] search_spec_holds[OF wf(2) spec disp] by (simp add: bound_result_def)
qed

lemma solve_reference:
  assumes inp: "solver_inputs request rq reference adapter lease"
    and "adapter_kind adapter = REFERENCE"
  obtains a r where "solve c request reference adapter lease = Inr a" "wf_artifact a"
    "artifact_value a = ResultValue r" "search_result c request rq reference adapter lease = Inr r"
    "result_holds (rq_problem rq) (rs_status r) (rs_witness r) (objective_value r) (rs_interval r)"
proof -
  have "ad_adapter_id adapter = reference_adapter_id"
    using assms by (simp add: solver_inputs_def wf_adapter_def adapter_boundary_def result_simps
        reference_boundary_def)
  moreover obtain r where r: "search_result c request rq reference adapter lease = Inr r" "wf_result r"
    "result_holds (rq_problem rq) (rs_status r) (rs_witness r) (objective_value r) (rs_interval r)"
    by (rule search_result_sound[OF inp])
  moreover obtain a where "artifact_from_value RESULT (ResultValue r) = Inr a" "wf_artifact a"
    "artifact_value a = ResultValue r" using result_artifact[OF r(2)] by blast
  ultimately show ?thesis using assms that[of a r] by (simp add: solve_def solver_inputs_def)
qed

end
