(* ===== verification/SolverVerify.thy ===== *)
theory SolverVerify
  imports SolverSearch
begin

text \<open>
  The independent verifier of \<open>application/solver_verification.py\<close>: the bounded replay of the
  enumeration from the recorded resource evidence, the check table, and the verification it
  publishes.  The verifier shares no state with the adapter: it recomputes everything from the
  request and compares.
\<close>

section \<open>Replay\<close>

record replay_state =
  replay_assignment :: "int list option"
  replay_objective :: "int option"
  replay_checked :: int
  witness_step :: "int option"
  evaluated_steps :: int

definition replay_improves ::
  "solver_objective \<Rightarrow> int \<Rightarrow> int list \<Rightarrow> int \<Rightarrow> int list \<Rightarrow> bool" where
  "replay_improves q obj a best_obj best_a =
     (let better = (if direction q = MINIMIZE then obj < best_obj else obj > best_obj) in
      better \<or> (obj = best_obj \<and> a < best_a))"

interpretation replay: running_best
    "\<lambda>x y. replay_improves q (fst x) (snd x) (fst y) (snd y)" "preference q" for q
  by unfold_locales (auto simp: replay_improves_def preference_def less_prod_def' Let_def)

text \<open>One step of the replay loop; the flag says that it breaks.\<close>

definition replay_step ::
  "solver_request \<Rightarrow> int \<Rightarrow> int list \<Rightarrow> replay_state \<Rightarrow> (replay_state \<times> bool) result" where
  "replay_step rq step a st = (let p = rq_problem rq; vals = assignment_values (variable_ids p) a;
       st = st\<lparr>evaluated_steps := evaluated_steps st + 1\<rparr> in
     bindR (evaluate_constraints p vals) (\<lambda>(feasible, evaluated).
     let st = st\<lparr>replay_checked := replay_checked st + int evaluated\<rparr> in
     if \<not> feasible then Inr (st, False)
     else (case objective p of
        None \<Rightarrow> Inr (st\<lparr>replay_assignment := Some a, witness_step := Some step\<rparr>, True)
      | Some q \<Rightarrow> bindR (evaluate_objective p vals) (\<lambda>obj.
          if rq_required_claim rq = CLAIM_FEASIBLE then
            Inr (st\<lparr>replay_assignment := Some a, replay_objective := Some obj,
                    witness_step := Some step\<rparr>, True)
          else (case (replay_objective st, replay_assignment st) of
             (Some bo, Some ba) \<Rightarrow>
               Inr (if replay_improves q obj a bo ba
                    then st\<lparr>replay_assignment := Some a, replay_objective := Some obj\<rparr> else st, False)
           | _ \<Rightarrow> Inr (st\<lparr>replay_assignment := Some a, replay_objective := Some obj\<rparr>, False))))))"

fun replay_loop ::
  "solver_request \<Rightarrow> int \<Rightarrow> int list list \<Rightarrow> int \<Rightarrow> replay_state \<Rightarrow> replay_state result" where
  "replay_loop rq target [] step st = Inr st"
| "replay_loop rq target (a # as) step st =
     (if step > target then Inr st
      else bindR (replay_step rq step a st) (\<lambda>(st, found).
        if found then Inr st else replay_loop rq target as (step + 1) st))"

type_synonym check_table = "(string \<times> bool) list"

definition replay_checks :: "bool \<Rightarrow> bool \<Rightarrow> bool \<Rightarrow> bool \<Rightarrow> check_table" where
  "replay_checks resource witness value pk =
     [(''resource-accounting'', resource), (''witness-feasibility'', witness),
      (''objective-evidence'', value), (''proof-disposition'', pk)]"

text \<open>The evidence every result owes, whatever its termination.\<close>

definition common_evidence ::
  "solver_request \<Rightarrow> solver_resource_evidence \<Rightarrow> solver_lease_evidence \<Rightarrow> int \<Rightarrow> bool" where
  "common_evidence rq e lease size_bytes = (let space = int (search_space_size (rq_problem rq)) in
     ev_search_space_size e = space \<and>
     step_limit e = max_solve_steps (rq_policy rq) \<and>
     ev_timeout e = timeout_milliseconds (rq_policy rq) \<and>
     solver_steps e = visited_assignments e \<and>
     solver_steps e \<le> max_solve_steps (rq_policy rq) \<and>
     0 < size_bytes \<and> size_bytes \<le> max_result_bytes (rq_policy rq) \<and>
     visited_assignments e + unvisited_assignments e = space \<and>
     solver_calls e \<le> reserved_solver_calls lease)"

text \<open>The evidence of a result that never ran the search.\<close>

definition idle_evidence ::
  "solver_request \<Rightarrow> solver_resource_evidence \<Rightarrow> int \<Rightarrow> bool" where
  "idle_evidence rq e calls = (solver_calls e = calls \<and> solver_steps e = 0 \<and>
     visited_assignments e = 0 \<and>
     unvisited_assignments e = int (search_space_size (rq_problem rq)) \<and>
     constraint_checks e = 0 \<and> elapsed_milliseconds e = 0)"

definition idle_checks ::
  "solver_result \<Rightarrow> bool \<Rightarrow> solver_result_status \<Rightarrow> string \<Rightarrow> check_table" where
  "idle_checks r resource status diagnostic = replay_checks resource (rs_witness r = None)
     (objective_value r = None \<and> rs_interval r = None)
     (rs_status r = status \<and> proof_disposition r = PROOF_NONE \<and> diagnostic_code r = Some diagnostic)"

text \<open>
  What the replayed enumeration entitles the result to say, by its termination reason: status,
  proof, diagnostic and interval, or nothing when the evidence contradicts the reason.
\<close>

definition entitled ::
  "solver_request \<Rightarrow> solver_resource_evidence \<Rightarrow> replay_state \<Rightarrow>
   (solver_result_status \<times> solver_proof_disposition \<times> string option \<times> objective_interval option) option result" where
  "entitled rq e st = (let p = rq_problem rq; space = int (search_space_size p);
       n = visited_assignments e; best = replay_assignment st in
     case termination_reason e of
       WITNESS_FOUND \<Rightarrow>
         if witness_step st = None then Inr None
         else Inr (Some (if objective p = None then SATISFIABLE else FEASIBLE, PROOF_WITNESS, None, None))
     | SEARCH_EXHAUSTED \<Rightarrow>
         if n \<noteq> space \<or> witness_step st \<noteq> None then Inr None
         else if objective p = None then
           Inr (Some (UNSATISFIABLE, EXHAUSTIVE_ENUMERATION, None, None))
         else if best = None then
           Inr (Some (INFEASIBLE, EXHAUSTIVE_ENUMERATION, None, None))
         else (case replay_objective st of
             None \<Rightarrow> Inl AssertionError
           | Some x \<Rightarrow> Inr (Some (OPTIMAL, EXHAUSTIVE_ENUMERATION, None, Some \<lparr>lower = x, upper = x\<rparr>)))
     | STEP_LIMIT \<Rightarrow>
         if n \<noteq> max_solve_steps (rq_policy rq) \<or> n \<ge> space \<or> witness_step st \<noteq> None then Inr None
         else (case objective p of
             None \<Rightarrow> Inr (Some (UNKNOWN, PROOF_NONE, Some ''step-limit'', None))
           | Some q \<Rightarrow>
               if best = None then Inr (Some (UNKNOWN, PROOF_NONE, Some ''step-limit'', None))
               else (case replay_objective st of
                   None \<Rightarrow> Inl AssertionError
                 | Some x \<Rightarrow> bindR (objective_domain_bounds p) (\<lambda>bounds.
                     Inr (Some (BOUNDED, OBJECTIVE_BOUND, None,
                       Some (if direction q = MINIMIZE then \<lparr>lower = lower bounds, upper = x\<rparr>
                             else \<lparr>lower = x, upper = upper bounds\<rparr>))))))
     | REQUEST_TIMEOUT \<Rightarrow>
         if n \<ge> space \<or> witness_step st \<noteq> None then Inr None
         else if timeout_milliseconds (rq_policy rq) = None \<or>
             elapsed_milliseconds e < the (timeout_milliseconds (rq_policy rq)) then Inr None
         else Inr (Some (TIMEOUT, PROOF_NONE, Some ''request-timeout'', None))
     | LEASE_DEADLINE \<Rightarrow>
         if n \<ge> space \<or> witness_step st \<noteq> None then Inr None
         else Inr (Some (TIMEOUT, PROOF_NONE, Some ''lease-deadline'', None))
     | _ \<Rightarrow> Inr None)"

definition initial_replay :: replay_state where
  "initial_replay = \<lparr>replay_assignment = None, replay_objective = None, replay_checked = 0,
     witness_step = None, evaluated_steps = 0\<rparr>"

definition replay_verdict ::
  "solver_request \<Rightarrow> solver_result \<Rightarrow> int \<Rightarrow> replay_state \<Rightarrow> (check_table \<times> bool \<times> int) result" where
  "replay_verdict rq r target st =
     (let e = rs_resources r; n = visited_assignments e; steps = evaluated_steps st in
      if replay_checked st > constraint_checks e then
        Inr (replay_checks False True True True, True, steps)
      else if witness_step st \<noteq> None \<and> witness_step st \<noteq> Some n then
        Inr (replay_checks False True True False, True, steps)
      else if target < n then Inr (replay_checks True True True True, False, steps)
      else if replay_checked st \<noteq> constraint_checks e then
        Inr (replay_checks False True True True, True, steps)
      else bindR (entitled rq e st) (\<lambda>granted.
        (case granted of
           None \<Rightarrow> Inr (replay_checks False True True False, True, steps)
         | Some (status, pk, diagnostic, interval) \<Rightarrow>
             Inr (replay_checks
               (timeout_reason (termination_reason e) \<or> elapsed_milliseconds e = 0)
               (rs_witness r = make_witness (variable_ids (rq_problem rq)) (replay_assignment st))
               (objective_value r = replay_objective st \<and> rs_interval r = interval)
               (rs_status r = status \<and> proof_disposition r = pk \<and> diagnostic_code r = diagnostic),
               True, steps))))"

definition resource_replay_matches ::
  "solver_request \<Rightarrow> solver_result \<Rightarrow> solver_adapter_definition \<Rightarrow> solver_lease_evidence \<Rightarrow> int \<Rightarrow>
   int \<Rightarrow> (check_table \<times> bool \<times> int) result" where
  "resource_replay_matches rq r adapter lease max_steps size_bytes =
     (let e = rs_resources r; n = visited_assignments e in
      if \<not> common_evidence rq e lease size_bytes then
        Inr (replay_checks False True True True, True, 0)
      else if adapter_kind adapter = EXTERNAL_CLI then
        Inr (idle_checks r (termination_reason e = ADAPTER_UNAVAILABLE \<and> idle_evidence rq e 0)
          UNAVAILABLE ''adapter-unavailable'', True, 0)
      else if adapter_kind adapter \<noteq> REFERENCE then
        Inr (replay_checks False True True False, True, 0)
      else if termination_reason e = ADAPTER_ERROR then
        Inr (idle_checks r (idle_evidence rq e 1) ERROR ''adapter-error'', True, 0)
      else if solver_calls e \<noteq> 1 \<or> n > int (search_space_size (rq_problem rq)) then
        Inr (replay_checks False True True True, True, 0)
      else (let target = min n max_steps in
        bindR (replay_loop rq target (assignments (rq_problem rq)) 1 initial_replay)
          (replay_verdict rq r target)))"

fun claim_allows :: "solver_required_claim \<Rightarrow> solver_result_status \<Rightarrow> bool" where
  "claim_allows CLAIM_DECISION s = (s \<in> {SATISFIABLE, UNSATISFIABLE})"
| "claim_allows CLAIM_FEASIBLE s = (s \<in> {FEASIBLE, BOUNDED, OPTIMAL})"
| "claim_allows CLAIM_BOUNDED s = (s \<in> {BOUNDED, OPTIMAL})"
| "claim_allows CLAIM_OPTIMAL s = (s = OPTIMAL)"

section \<open>Verification\<close>

definition identity_bindings ::
  "loaded_solver_artifact \<Rightarrow> solver_request \<Rightarrow> artifact_reference \<Rightarrow> solver_result \<Rightarrow> bool" where
  "identity_bindings request rq reference r = (rs_request r = reference \<and>
     rs_request_id r = artifact_id request \<and> rs_contract_id r = rq_contract_id rq \<and>
     rs_candidate r = rq_candidate rq \<and> rs_graph_id r = rq_graph_id rq \<and>
     rs_task_id r = rq_task_id rq \<and> rs_context_snapshot_id r = rq_context_snapshot_id rq \<and>
     rs_adapter_id r = rq_adapter_id rq \<and>
     sensitivity_rank (rs_sensitivity r) \<ge> sensitivity_rank (rq_sensitivity rq))"

definition lease_authority ::
  "solver_request \<Rightarrow> solver_result \<Rightarrow> solver_lease_evidence \<Rightarrow> bool" where
  "lease_authority rq r lease = (rs_lease r = lease \<and> le_graph_id lease = rq_graph_id rq \<and>
     le_task_id lease = rq_task_id rq \<and> reserved_solver_calls lease = 1 \<and>
     reserved_solver_steps lease =
       max_solve_steps (rq_policy rq) + max_verification_steps (rq_policy rq))"

definition adapter_provenance :: "solver_result \<Rightarrow> solver_adapter_definition \<Rightarrow> bool" where
  "adapter_provenance r adapter = (rs_adapter_id r = ad_adapter_id adapter \<and>
     rs_adapter_version r = ad_version adapter \<and> rs_license r = ad_license adapter \<and>
     rs_provenance r = ad_provenance adapter)"

definition verification_disposition ::
  "solver_result_status \<Rightarrow> check_table \<Rightarrow> bool \<Rightarrow> bool \<Rightarrow>
   solver_verification_outcome \<times> string list" where
  "verification_disposition status table finished claim_allowed =
     (let failed = map fst (filter (\<lambda>(i, ok). \<not> ok \<and> i \<noteq> ''required-claim'') table) in
      if failed \<noteq> [] then (REJECTED, sort (map (\<lambda>i. ''failed-'' @ i) failed))
      else if incomplete_status status \<or> \<not> finished then
        (INCONCLUSIVE, if \<not> finished then [''verification-step-limit'']
          else [''result-'' @ status_value status])
      else (VERIFIED, if claim_allowed then [] else [''required-claim-unsatisfied'']))"

definition check_result ::
  "loaded_solver_artifact \<Rightarrow> solver_request \<Rightarrow> loaded_solver_artifact \<Rightarrow> solver_result \<Rightarrow>
   artifact_reference \<Rightarrow> artifact_reference \<Rightarrow> solver_adapter_definition \<Rightarrow> solver_lease_evidence \<Rightarrow>
   int \<Rightarrow> solver_verification result" where
  "check_result request rq result r request_ref result_ref adapter lease size_bytes =
     bindR (resource_replay_matches rq r adapter lease (max_verification_steps (rq_policy rq)) size_bytes)
       (\<lambda>(replayed, finished, steps).
     let claim_allowed = claim_allows (rq_required_claim rq) (rs_status r);
         table = sort ([(''identity-bindings'', identity_bindings request rq request_ref r),
           (''lease-authority'', lease_authority rq r lease),
           (''adapter-provenance'', adapter_provenance r adapter)] @ replayed @
           [(''required-claim'', claim_allowed)]);
         (out, rs) = verification_disposition (rs_status r) table finished claim_allowed in
     Inr \<lparr>vf_sensitivity = rs_sensitivity r, vf_request = request_ref,
          vf_request_id = artifact_id request, vf_result = result_ref,
          vf_result_id = artifact_id result, vf_contract_id = rq_contract_id rq,
          vf_candidate = rq_candidate rq, vf_graph_id = rq_graph_id rq, vf_task_id = rq_task_id rq,
          vf_context_snapshot_id = rq_context_snapshot_id rq, vf_lease = lease, outcome = out,
          adoption_allowed = (out = VERIFIED \<and> claim_allowed),
          checks = map (\<lambda>(i, ok). \<lparr>check_id = i, passed = ok\<rparr>) table, reasons = rs,
          verification_steps = steps\<rparr>)"

definition verify_loaded_solver_result ::
  "loaded_solver_artifact \<Rightarrow> loaded_solver_artifact \<Rightarrow> artifact_reference \<Rightarrow> artifact_reference \<Rightarrow>
   solver_adapter_definition \<Rightarrow> solver_lease_evidence \<Rightarrow> int \<Rightarrow> loaded_solver_artifact result" where
  "verify_loaded_solver_result request result request_ref result_ref adapter lease size_bytes =
     (case (artifact_value request, artifact_value result) of
        (RequestValue rq, ResultValue r) \<Rightarrow>
          bindR (check_result request rq result r request_ref result_ref adapter lease size_bytes)
            (\<lambda>v. artifact_from_value VERIFICATION (VerificationValue v))
      | _ \<Rightarrow> Inl (SolverContractError UnexpectedType))"

section \<open>What the replay computes\<close>

text \<open>Both updates realise the same preference, so both loops keep the same incumbent.\<close>

lemma replay_improves_better: "replay_improves q x a y b = objective_better q x a y b"
  using replay.better_iff[of q "(x, a)" "(y, b)"] incumbent.better_iff[of q "(x, a)" "(y, b)"]
  by simp

definition replay_spec :: "solver_request \<Rightarrow> int \<Rightarrow> nat \<Rightarrow> replay_state \<Rightarrow> bool" where
  "replay_spec rq target m st = (let p = rq_problem rq in
     m \<le> search_space_size p \<and> int m \<le> target \<and> evaluated_steps st = int m \<and>
     replay_checked st = checks_of p (taken p m) \<and>
     (case witness_step st of
        Some k \<Rightarrow> k = int m \<and> witness_ok rq (taken p m) (replay_assignment st) (replay_objective st)
      | None \<Rightarrow> int m = min target (int (search_space_size p)) \<and>
          bests_ok rq (taken p m) (replay_assignment st) (replay_objective st)))"

lemma replay_step_value:
  fixes rq :: solver_request
  defines "p \<equiv> rq_problem rq"
  assumes p: "wf_problem p" and a: "a \<in> set (assignments p)"
    and b: "bests_ok rq as (replay_assignment st) (replay_objective st)" and w: "witness_step st = None"
  obtains st' where
    "replay_step rq step a st = Inr (st', early_exit rq \<and> satisfies p a)"
    "evaluated_steps st' = evaluated_steps st + 1"
    "replay_checked st' = replay_checked st + int (checks_at p a)"
    "witness_step st' = (if early_exit rq \<and> satisfies p a then Some step else None)"
    "if early_exit rq \<and> satisfies p a then
       witness_ok rq (as @ [a]) (replay_assignment st') (replay_objective st')
     else bests_ok rq (as @ [a]) (replay_assignment st') (replay_objective st')"
proof -
  note eval = evaluate_constraints_value[OF p a]
  have obj: "objective p = Some q \<Longrightarrow>
      evaluate_objective p (assignment_values (variable_ids p) a) = Inr (objective_at p a)" for q
    using evaluate_objective_value[OF p a] by simp
  show ?thesis
  proof (cases "satisfies p a")
    case False
    have "bests_ok rq (as @ [a]) (replay_assignment st) (replay_objective st)"
      using b False by (auto simp: bests_ok_def best_of_def candidates_snoc p_def split: option.splits)
    then show ?thesis using False eval w
      by (intro that[of "st\<lparr>evaluated_steps := evaluated_steps st + 1,
            replay_checked := replay_checked st + int (checks_at p a)\<rparr>"])
        (simp_all add: replay_step_def Let_def p_def)
  next
    case sat: True
    show ?thesis
    proof (cases "objective p")
      case None
      then show ?thesis using sat eval b w
        by (intro that[of "st\<lparr>evaluated_steps := evaluated_steps st + 1,
              replay_checked := replay_checked st + int (checks_at p a),
              replay_assignment := Some a, witness_step := Some step\<rparr>"])
          (simp_all add: replay_step_def Let_def p_def early_exit_def witness_ok_def bests_ok_def)
    next
      case (Some q)
      note ev = obj[OF Some]
      show ?thesis
      proof (cases "rq_required_claim rq = CLAIM_FEASIBLE")
        case True
        then show ?thesis using sat eval b ev Some w
          by (intro that[of "st\<lparr>evaluated_steps := evaluated_steps st + 1,
                replay_checked := replay_checked st + int (checks_at p a),
                replay_assignment := Some a, replay_objective := Some (objective_at p a),
                witness_step := Some step\<rparr>"])
            (simp_all add: replay_step_def Let_def p_def early_exit_def witness_ok_def bests_ok_def)
      next
        case False
        then have ne: "\<not> early_exit rq" using Some by (simp add: early_exit_def p_def)
        define old where "old = best_of p as"
        have bests: "replay_assignment st = map_option snd old" "replay_objective st = map_option fst old"
          using b ne by (simp_all add: bests_ok_def p_def old_def)
        have new: "best_of p (as @ [a]) =
            (case old of None \<Rightarrow> Some (objective_at p a, a)
             | Some y \<Rightarrow> if objective_better q (objective_at p a) a (fst y) (snd y)
                 then Some (objective_at p a, a) else Some y)"
          using sat Some
          by (simp add: old_def best_of_def candidates_snoc incumbent.best_in_snoc incumbent.improve_def
              split: option.splits)
        define up where "up = (case old of None \<Rightarrow> True
            | Some y \<Rightarrow> objective_better q (objective_at p a) a (fst y) (snd y))"
        let ?st = "st\<lparr>evaluated_steps := evaluated_steps st + 1,
          replay_checked := replay_checked st + int (checks_at p a)\<rparr>"
        let ?st' = "if up then
            ?st\<lparr>replay_assignment := Some a, replay_objective := Some (objective_at p a)\<rparr> else ?st"
        have "replay_step rq step a st = Inr (?st', False)"
          using sat eval ev Some False
          by (cases old) (simp_all add: replay_step_def Let_def p_def bests up_def replay_improves_better)
        moreover have "bests_ok rq (as @ [a]) (replay_assignment ?st') (replay_objective ?st')"
          using ne new bests by (cases old) (auto simp: bests_ok_def p_def up_def)
        ultimately show ?thesis using ne w by (intro that[of ?st']) simp_all
      qed
    qed
  qed
qed

lemma replay_loop_from:
  fixes rq :: solver_request
  defines "p \<equiv> rq_problem rq"
  assumes p: "wf_problem p"
    and rest: "rest = drop n (assignments p)" and n: "n \<le> search_space_size p" "int n \<le> target"
    and step: "step = int n + 1" and e: "evaluated_steps st = int n"
    and checked: "replay_checked st = checks_of p (taken p n)" and w: "witness_step st = None"
    and bests: "bests_ok rq (taken p n) (replay_assignment st) (replay_objective st)"
  shows "\<exists>st' m. replay_loop rq target rest step st = Inr st' \<and> replay_spec rq target m st'"
  using rest n step e checked w bests
proof (induction rest arbitrary: n step st)
  case Nil
  then have "n = search_space_size p" by (simp add: assignments_length)
  then have "replay_spec rq target n st" using Nil.prems(2-8)
    by (simp add: replay_spec_def p_def Let_def)
  then show ?case by auto
next
  case (Cons a rest)
  have lt: "n < search_space_size p"
    using Cons.prems(1) by (metis assignments_length drop_all list.distinct(1) not_less)
  then have len: "n < length (assignments p)" by (simp add: assignments_length)
  have a: "a = assignments p ! n" and rest: "rest = drop (Suc n) (assignments p)"
    using Cons.prems(1) len by (metis Cons_nth_drop_Suc list.inject)+
  have take: "taken p (Suc n) = taken p n @ [a]"
    using len a by (simp add: taken_def take_Suc_conv_app_nth)
  have mem: "a \<in> set (assignments p)" using a len by simp
  show ?case
  proof (cases "step > target")
    case True
    then have "replay_spec rq target n st" using Cons.prems(2-8) lt
      by (simp add: replay_spec_def p_def Let_def)
    then show ?thesis using True by auto
  next
    case False
    obtain st3 where v: "replay_step rq step a st = Inr (st3, early_exit rq \<and> satisfies p a)"
      "evaluated_steps st3 = evaluated_steps st + 1"
      "replay_checked st3 = replay_checked st + int (checks_at p a)"
      "witness_step st3 = (if early_exit rq \<and> satisfies p a then Some step else None)"
      "if early_exit rq \<and> satisfies p a then
         witness_ok rq (taken p n @ [a]) (replay_assignment st3) (replay_objective st3)
       else bests_ok rq (taken p n @ [a]) (replay_assignment st3) (replay_objective st3)"
      by (rule replay_step_value[OF p[unfolded p_def] mem[unfolded p_def] Cons.prems(8)[unfolded p_def]
        Cons.prems(7), folded p_def])
    have counts: "evaluated_steps st3 = int (Suc n)"
      "replay_checked st3 = checks_of p (taken p (Suc n))" "int (Suc n) \<le> target" "step = int (Suc n)"
      using v(2,3) Cons.prems(4-6) False unfolding take by (simp_all add: checks_of_def)
    show ?thesis
    proof (cases "early_exit rq \<and> satisfies p a")
      case True
      then have "replay_spec rq target (Suc n) st3"
        using counts v(4,5) lt take by (simp add: replay_spec_def p_def Let_def)
      then show ?thesis using True False v(1) by auto
    next
      case no: False
      have "\<exists>st' m. replay_loop rq target rest (step + 1) st3 = Inr st' \<and> replay_spec rq target m st'"
        using no counts v(4,5) lt by (intro Cons.IH[OF rest]) (auto simp: take)
      then show ?thesis using no False v(1) by auto
    qed
  qed
qed

lemma replay_loop_value:
  assumes "wf_problem (rq_problem rq)" and "0 \<le> target"
  obtains st m where "replay_loop rq target (assignments (rq_problem rq)) 1 initial_replay = Inr st"
    "replay_spec rq target m st"
  using replay_loop_from[OF assms(1), of "assignments (rq_problem rq)" 0 target 1 initial_replay]
    assms(2) bests_ok_Nil
  by (auto simp: initial_replay_def taken_def checks_of_def)

section \<open>What the verifier grants\<close>

lemma witness_not_bests:
  "witness_ok rq as ba bo \<Longrightarrow> bests_ok rq as ba' bo' \<Longrightarrow> False"
  by (auto simp: witness_ok_def bests_ok_def)

lemma bests_None: "bests_ok rq as None bo \<Longrightarrow> bo = None"
  by (auto simp: bests_ok_def split: if_splits)

lemma bests_Some: "bests_ok rq as (Some a) bo \<Longrightarrow> bo \<noteq> None \<and> objective (rq_problem rq) \<noteq> None"
  by (cases "best_of (rq_problem rq) as") (auto simp: bests_ok_def early_exit_def split: if_splits)

text \<open>The grant is exactly what the enumeration's own disposition would publish.\<close>

lemma entitled_value:
  assumes p: "wf_problem (rq_problem rq)"
    and spec: "replay_spec rq target m st" and m: "visited_assignments e = int m"
    and lim: "witness_step st = None \<Longrightarrow> int m = min target (int (search_space_size (rq_problem rq)))"
    and steps: "int m \<le> max_solve_steps (rq_policy rq)"
  shows "entitled rq e st =
    (if search_spec rq m (replay_assignment st) (replay_objective st) (termination_reason e) \<and>
        (termination_reason e = REQUEST_TIMEOUT \<longrightarrow>
           the (timeout_milliseconds (rq_policy rq)) \<le> elapsed_milliseconds e)
     then bindR (result_disposition (rq_problem rq) (termination_reason e) (replay_assignment st))
       (\<lambda>(s, k, d). Inr (Some (s, k, d, interval_for (rq_problem rq) s (replay_objective st))))
     else Inr None)"
proof -
  let ?p = "rq_problem rq"
  have le: "m \<le> search_space_size ?p" using spec by (simp add: replay_spec_def Let_def)
  have plain: "interval_for ?p s' bo = None" if "s' \<notin> {OPTIMAL, BOUNDED}" for s' bo
    using that by (auto simp: interval_for_def make_interval_def split: option.splits)
  show ?thesis
  proof (cases "witness_step st")
    case None
    then have b: "bests_ok rq (taken ?p m) (replay_assignment st) (replay_objective st)"
      using spec by (simp add: replay_spec_def Let_def)
    then have nw: "\<not> witness_ok rq (taken ?p m) (replay_assignment st) (replay_objective st)"
      using witness_not_bests by blast
    show ?thesis
    proof (cases "replay_assignment st")
      case none: None
      then have "replay_objective st = None" using b bests_None by metis
      then show ?thesis using None none b nw m le steps plain
        by (cases "termination_reason e")
          (auto simp: entitled_def search_spec_def result_disposition_def Let_def
            interval_for_def make_interval_def split: option.splits)
    next
      case (Some a)
      then obtain x q where x: "replay_objective st = Some x" "objective ?p = Some q"
        using b bests_Some by fastforce
      obtain i where "objective_domain_bounds ?p = Inr i"
        using objective_bounds_value[OF p] x(2) by (metis option.distinct(1))
      then show ?thesis using None Some b nw m le steps plain x
        by (cases "termination_reason e")
          (auto simp: entitled_def search_spec_def result_disposition_def Let_def
            interval_for_def make_interval_def)
    qed
  next
    case (Some k)
    then have w: "witness_ok rq (taken ?p m) (replay_assignment st) (replay_objective st)"
      using spec by (simp add: replay_spec_def Let_def)
    then have nb: "\<not> bests_ok rq (taken ?p m) (replay_assignment st) (replay_objective st)"
      using witness_not_bests by blast
    show ?thesis using Some w nb m le steps plain
      by (cases "termination_reason e")
        (auto simp: entitled_def search_spec_def result_disposition_def Let_def)
  qed
qed

text \<open>The check table of the replay, as a predicate on its four entries.\<close>

definition replay_passed :: "check_table \<Rightarrow> bool" where
  "replay_passed table = list_all snd table"

lemma replay_passed_checks [simp]: "replay_passed (replay_checks a b c d) \<longleftrightarrow> a \<and> b \<and> c \<and> d"
  by (auto simp: replay_passed_def replay_checks_def)

text \<open>Everything the replay may return, for any well-formed result.\<close>

definition replay_ok :: "int \<Rightarrow> int \<Rightarrow> (check_table \<times> bool \<times> int) result \<Rightarrow> bool" where
  "replay_ok max_steps n x = (\<exists>a b c d fin k. x = Inr (replay_checks a b c d, fin, k) \<and> 0 \<le> k \<and>
     k \<le> max_steps \<and> k \<le> n)"

lemma replay_okI:
  "0 \<le> k \<Longrightarrow> k \<le> max_steps \<Longrightarrow> k \<le> n \<Longrightarrow> replay_ok max_steps n (Inr (replay_checks a b c d, fin, k))"
  by (auto simp: replay_ok_def)

lemma replay_total:
  assumes p: "wf_problem (rq_problem rq)" and r: "wf_resources (rs_resources r)" and "0 \<le> max_steps"
  obtains a b c d fin k where
    "resource_replay_matches rq r adapter lease max_steps size_bytes = Inr (replay_checks a b c d, fin, k)"
    "0 \<le> k" "k \<le> max_steps" "k \<le> visited_assignments (rs_resources r)"
proof -
  let ?e = "rs_resources r" and ?n = "visited_assignments (rs_resources r)"
  have n: "0 \<le> ?n" using r by (simp add: wf_resources_def)
  obtain st m where loop: "replay_loop rq (min ?n max_steps) (assignments (rq_problem rq)) 1 initial_replay = Inr st"
    and spec: "replay_spec rq (min ?n max_steps) m st"
    using replay_loop_value[OF p, of "min ?n max_steps"] n assms(3) by auto
  have k: "0 \<le> evaluated_steps st" "evaluated_steps st \<le> max_steps" "evaluated_steps st \<le> ?n"
    using spec by (auto simp: replay_spec_def Let_def)
  let ?ok = "replay_ok max_steps ?n"
  have ent: "\<exists>g. entitled rq ?e st = Inr g"
    if common: "common_evidence rq ?e lease size_bytes"
      and w: "\<not> (witness_step st \<noteq> None \<and> witness_step st \<noteq> Some ?n)"
      and t: "\<not> ?n > int (search_space_size (rq_problem rq))" "\<not> min ?n max_steps < ?n"
  proof -
    have m: "?n = int m" using spec w t
      by (cases "witness_step st") (auto simp: replay_spec_def Let_def)
    have steps: "int m \<le> max_solve_steps (rq_policy rq)"
      using common m by (simp add: common_evidence_def Let_def)
    have lim: "witness_step st = None \<Longrightarrow> int m = min (min ?n max_steps) (int (search_space_size (rq_problem rq)))"
      using spec by (simp add: replay_spec_def Let_def)
    note ev = entitled_value[OF p spec m lim steps]
    show ?thesis
    proof (cases "search_spec rq m (replay_assignment st) (replay_objective st) (termination_reason ?e)")
      case True
      then show ?thesis using disposition_total[OF True] ev by (metis (no_types, lifting) bindR_Inr case_prod_conv)
    qed (use ev in simp)
  qed
  have verdict: "?ok (replay_verdict rq r (min ?n max_steps) st)"
    if h: "common_evidence rq ?e lease size_bytes" "\<not> ?n > int (search_space_size (rq_problem rq))"
  proof (cases "(witness_step st \<noteq> None \<and> witness_step st \<noteq> Some ?n) \<or> min ?n max_steps < ?n")
    case True
    then show ?thesis by (elim disjE) (simp_all add: replay_verdict_def Let_def replay_okI[OF k] min_less_iff_disj)
  next
    case False
    then obtain g where "entitled rq ?e st = Inr g" using ent h by blast
    then show ?thesis using replay_okI[OF k] False
      by (cases g) (simp_all add: replay_verdict_def Let_def split_beta)
  qed
  have "?ok (resource_replay_matches rq r adapter lease max_steps size_bytes)"
    using n assms(3) verdict loop
    by (simp add: resource_replay_matches_def Let_def idle_checks_def replay_okI)
  then show ?thesis using that unfolding replay_ok_def by blast
qed

text \<open>A replay that passes and is complete entitles the result to what it says.\<close>

lemma replay_sound:
  assumes p: "wf_problem (rq_problem rq)" and r: "wf_resources (rs_resources r)" and "0 \<le> max_steps"
    and res: "resource_replay_matches rq r adapter lease max_steps size_bytes = Inr (table, True, k)"
    and pass: "replay_passed table" and status: "\<not> incomplete_status (rs_status r)"
  shows "result_holds (rq_problem rq) (rs_status r) (rs_witness r) (objective_value r) (rs_interval r)"
proof -
  let ?e = "rs_resources r" and ?n = "visited_assignments (rs_resources r)" and ?p = "rq_problem rq"
  let ?target = "min ?n max_steps"
  have n: "0 \<le> ?n" using r by (simp add: wf_resources_def)
  obtain st m where loop: "replay_loop rq ?target (assignments ?p) 1 initial_replay = Inr st"
    and spec: "replay_spec rq ?target m st"
    using replay_loop_value[OF p, of ?target] n assms(3) by auto
  have common: "common_evidence rq ?e lease size_bytes"
    using res pass by (auto simp: resource_replay_matches_def Let_def split: if_splits)
  have idle: "adapter_kind adapter \<noteq> EXTERNAL_CLI" "termination_reason ?e \<noteq> ADAPTER_ERROR"
    using res pass status common
    by (auto simp: resource_replay_matches_def Let_def idle_checks_def incomplete_status_def
        split: if_splits)
  have space: "\<not> ?n > int (search_space_size ?p)"
    and verdict: "replay_verdict rq r ?target st = Inr (table, True, k)"
    using res pass common idle loop
    by (auto simp: resource_replay_matches_def Let_def split: if_splits)
  have c: "\<not> (witness_step st \<noteq> None \<and> witness_step st \<noteq> Some ?n)" "\<not> ?target < ?n"
    "\<not> replay_checked st > constraint_checks ?e" "\<not> replay_checked st \<noteq> constraint_checks ?e"
    using verdict pass by (auto simp: replay_verdict_def Let_def split: if_splits)
  have m: "?n = int m" using spec c space
    by (cases "witness_step st") (auto simp: replay_spec_def Let_def)
  have steps: "int m \<le> max_solve_steps (rq_policy rq)"
    using common m by (simp add: common_evidence_def Let_def)
  have lim: "witness_step st = None \<Longrightarrow> int m = min ?target (int (search_space_size ?p))"
    using spec by (simp add: replay_spec_def Let_def)
  note ev = entitled_value[OF p spec m lim steps]
  obtain g where g: "entitled rq ?e st = Inr (Some g)"
    using verdict pass c
    by (auto simp: replay_verdict_def Let_def bindR_eq_Inr split: option.splits)
  then have sp: "search_spec rq m (replay_assignment st) (replay_objective st) (termination_reason ?e)"
    using ev by (auto split: if_splits)
  obtain s pk d where disp: "result_disposition ?p (termination_reason ?e) (replay_assignment st) = Inr (s, pk, d)"
    using disposition_total[OF sp] by metis
  then have g': "g = (s, pk, d, interval_for ?p s (replay_objective st))"
    using ev g sp by (auto split: if_splits)
  have "rs_status r = s \<and> rs_witness r = make_witness (variable_ids ?p) (replay_assignment st) \<and>
      objective_value r = replay_objective st \<and> rs_interval r = interval_for ?p s (replay_objective st)"
    using verdict pass c g g' by (auto simp: replay_verdict_def Let_def)
  then show ?thesis using search_spec_holds[OF p sp disp] by simp
qed

section \<open>The check table\<close>

definition check_names :: "string list" where
  "check_names = [''adapter-provenance'', ''identity-bindings'', ''lease-authority'',
     ''objective-evidence'', ''proof-disposition'', ''required-claim'', ''resource-accounting'',
     ''witness-feasibility'']"

lemma check_names_ok:
  "sorted_wrt (<) check_names" "list_all wf_slug check_names"
  "sorted_wrt (<) (map (\<lambda>i. ''failed-'' @ i) check_names)"
  "list_all (\<lambda>i. wf_slug (''failed-'' @ i)) check_names"
  by code_simp+

lemma sorted_by_fst: "sorted_wrt (<) (map fst w) \<Longrightarrow> sorted (w :: ('a::linorder \<times> 'b::linorder) list)"
  by (induction w) (auto simp: less_eq_prod_def less_imp_le)

lemma table_sorted:
  "sort ([(''identity-bindings'', a), (''lease-authority'', b), (''adapter-provenance'', c)] @
      replay_checks d e f g @ [(''required-claim'', h)]) = zip check_names [c, a, b, f, g, h, d, e]"
proof -
  let ?l = "zip check_names [c, a, b, f, g, h, d, e]"
  have "map fst ?l = check_names" by (simp add: check_names_def)
  then have "sorted ?l" using sorted_by_fst check_names_ok(1) by metis
  moreover have "distinct ?l"
    using \<open>map fst ?l = check_names\<close> check_names_ok(1) by (metis distinct_map strict_sorted_iff)
  moreover have "set ?l = set ([(''identity-bindings'', a), (''lease-authority'', b),
      (''adapter-provenance'', c)] @ replay_checks d e f g @ [(''required-claim'', h)])"
    by (auto simp: check_names_def replay_checks_def)
  moreover have "distinct ([(''identity-bindings'', a), (''lease-authority'', b),
      (''adapter-provenance'', c)] @ replay_checks d e f g @ [(''required-claim'', h)])"
    by (simp add: replay_checks_def)
  ultimately show ?thesis
    by (intro sorted_distinct_set_unique) (simp_all only: sorted_sort distinct_sort set_sort)
qed

text \<open>The verification as a function of its eight checks.\<close>

lemma check_result_value:
  assumes p: "wf_problem (rq_problem rq)" and r: "wf_resources (rs_resources r)"
    and "0 \<le> max_verification_steps (rq_policy rq)"
  obtains a b c d fin k where
    "resource_replay_matches rq r adapter lease (max_verification_steps (rq_policy rq)) size_bytes =
       Inr (replay_checks a b c d, fin, k)"
    "0 \<le> k" "k \<le> max_verification_steps (rq_policy rq)" "k \<le> visited_assignments (rs_resources r)"
    "check_result request rq result r request_ref result_ref adapter lease size_bytes =
      (let allowed = claim_allows (rq_required_claim rq) (rs_status r);
           table = zip check_names [adapter_provenance r adapter,
             identity_bindings request rq request_ref r, lease_authority rq r lease, c, d, allowed, a, b];
           (out, rs) = verification_disposition (rs_status r) table fin allowed in
       Inr \<lparr>vf_sensitivity = rs_sensitivity r, vf_request = request_ref,
          vf_request_id = artifact_id request, vf_result = result_ref,
          vf_result_id = artifact_id result, vf_contract_id = rq_contract_id rq,
          vf_candidate = rq_candidate rq, vf_graph_id = rq_graph_id rq, vf_task_id = rq_task_id rq,
          vf_context_snapshot_id = rq_context_snapshot_id rq, vf_lease = lease, outcome = out,
          adoption_allowed = (out = VERIFIED \<and> allowed),
          checks = map (\<lambda>(i, ok). \<lparr>check_id = i, passed = ok\<rparr>) table, reasons = rs,
          verification_steps = k\<rparr>)"
proof -
  obtain a b c d fin k where x: "resource_replay_matches rq r adapter lease
      (max_verification_steps (rq_policy rq)) size_bytes = Inr (replay_checks a b c d, fin, k)"
    "0 \<le> k" "k \<le> max_verification_steps (rq_policy rq)" "k \<le> visited_assignments (rs_resources r)"
    by (rule replay_total[OF p r assms(3)])
  show ?thesis
    by (rule that[OF x]) (simp only: check_result_def x(1) bindR_Inr prod.case Let_def table_sorted)
qed

text \<open>Outcome, reasons and adoption by the checks.\<close>

lemma disposition_cases:
  assumes "verification_disposition s (zip check_names [c, a, b, f, g, h, d, e]) fin h = (out, rs)"
  shows "(out = REJECTED \<longleftrightarrow> \<not> (a \<and> b \<and> c \<and> d \<and> e \<and> f \<and> g)) \<and>
    (out = VERIFIED \<longleftrightarrow> (a \<and> b \<and> c \<and> d \<and> e \<and> f \<and> g) \<and> fin \<and> \<not> incomplete_status s) \<and> wf_slugs rs"
proof -
  let ?t = "zip check_names [c, a, b, f, g, h, d, e]"
  let ?failed = "map fst (filter (\<lambda>(i, ok). \<not> ok \<and> i \<noteq> ''required-claim'') ?t)"
  have names: "map fst ?t = check_names" by (simp add: check_names_def)
  have failed: "?failed = [] \<longleftrightarrow> a \<and> b \<and> c \<and> d \<and> e \<and> f \<and> g"
    by (simp add: check_names_def filter_empty_conv)
  have "sorted_wrt (<) (map (\<lambda>i. ''failed-'' @ i) (map fst ?t))"
    using check_names_ok(3) by (simp only: names)
  then have sorted: "sorted_wrt (<) (map (\<lambda>i. ''failed-'' @ i) ?failed)"
    unfolding map_map sorted_wrt_map by (rule sorted_wrt_filter)
  have "set ?failed \<subseteq> set (map fst ?t)" by auto
  then have "list_all (\<lambda>i. wf_slug (''failed-'' @ i)) ?failed"
    using check_names_ok(4) unfolding names list_all_iff by blast
  moreover have "length ?failed \<le> 64"
  proof -
    have "length ?failed \<le> length ?t" unfolding length_map by (rule length_filter_le)
    then show ?thesis by (simp add: check_names_def)
  qed
  ultimately have slugs: "wf_slugs (sort (map (\<lambda>i. ''failed-'' @ i) ?failed))"
    using sorted by (simp add: wf_slugs_def list_all_iff strict_sorted_iff sorted_sort_id)
  have single: "wf_slugs [''verification-step-limit'']" "wf_slugs [''required-claim-unsatisfied'']"
    "wf_slugs []" "wf_slugs [''result-'' @ status_value s]"
  proof -
    have "list_all (\<lambda>s. wf_slug (''result-'' @ status_value s)) solver_result_status_members"
      by code_simp
    then show "wf_slugs [''result-'' @ status_value s]"
      using status_enum.all_members by (simp add: wf_slugs_def list_all_iff)
  qed (code_simp+)
  define failures where "failures = ?failed"
  define reported where "reported = sort (map (\<lambda>i. ''failed-'' @ i) failures)"
  have disp: "(if failures \<noteq> [] then (REJECTED, reported)
      else if incomplete_status s \<or> \<not> fin then
        (INCONCLUSIVE, if \<not> fin then [''verification-step-limit'']
          else [''result-'' @ status_value s])
      else (VERIFIED, if h then [] else [''required-claim-unsatisfied''])) = (out, rs)"
    using assms unfolding verification_disposition_def Let_def failures_def reported_def .
  have "wf_slugs reported" using slugs unfolding reported_def failures_def .
  moreover have "failures = [] \<longleftrightarrow> a \<and> b \<and> c \<and> d \<and> e \<and> f \<and> g"
    using failed unfolding failures_def .
  moreover define ok where "ok \<longleftrightarrow> a \<and> b \<and> c \<and> d \<and> e \<and> f \<and> g"
  ultimately show ?thesis
    using disp single unfolding ok_def[symmetric]
    by (cases ok; cases fin; cases h; cases "incomplete_status s") auto
qed

section \<open>The verification service\<close>

text \<open>Loaded evidence: the request side of \<open>solver_inputs\<close>, a parsed result and its reference.\<close>

definition verifier_inputs ::
  "loaded_solver_artifact \<Rightarrow> solver_request \<Rightarrow> loaded_solver_artifact \<Rightarrow> solver_result \<Rightarrow>
   artifact_reference \<Rightarrow> artifact_reference \<Rightarrow> solver_adapter_definition \<Rightarrow>
   solver_lease_evidence \<Rightarrow> bool" where
  "verifier_inputs request rq result r request_ref result_ref adapter lease =
     (solver_inputs request rq request_ref adapter lease \<and> artifact_type result = RESULT \<and>
      artifact_value result = ResultValue r \<and> wf_artifact result \<and> wf_reference result_ref)"

lemma verifier_inputs_wf:
  assumes "verifier_inputs request rq result r request_ref result_ref adapter lease"
  shows "solver_inputs request rq request_ref adapter lease" "wf_result r"
    "wf_resources (rs_resources r)" "wf_solver_id (type_prefix RESULT) (artifact_id result)"
proof -
  show "solver_inputs request rq request_ref adapter lease" "wf_result r"
    using assms by (auto simp: verifier_inputs_def wf_artifact_def)
  then show "wf_resources (rs_resources r)" by (simp add: wf_result_def)
  show "wf_solver_id (type_prefix RESULT) (artifact_id result)"
    using assms solver_identity_wf[of RESULT] by (auto simp: verifier_inputs_def wf_artifact_def)
qed

text \<open>The facts about a verification that the properties below rest on.\<close>

lemma check_result_facts:
  assumes inp: "verifier_inputs request rq result r request_ref result_ref adapter lease"
  obtains v a b c d fin where
    "check_result request rq result r request_ref result_ref adapter lease size_bytes = Inr v"
    "wf_verification v"
    "resource_replay_matches rq r adapter lease (max_verification_steps (rq_policy rq)) size_bytes =
       Inr (replay_checks a b c d, fin, verification_steps v)"
    "outcome v = REJECTED \<longleftrightarrow> \<not> (identity_bindings request rq request_ref r \<and>
       lease_authority rq r lease \<and> adapter_provenance r adapter \<and> a \<and> b \<and> c \<and> d)"
    "outcome v = VERIFIED \<longleftrightarrow> (identity_bindings request rq request_ref r \<and>
       lease_authority rq r lease \<and> adapter_provenance r adapter \<and> a \<and> b \<and> c \<and> d) \<and> fin \<and>
       \<not> incomplete_status (rs_status r)"
    "adoption_allowed v \<longleftrightarrow> outcome v = VERIFIED \<and> claim_allows (rq_required_claim rq) (rs_status r)"
    "verification_steps v \<le> max_verification_steps (rq_policy rq)"
    "verification_steps v \<le> visited_assignments (rs_resources r)"
proof -
  note wf = verifier_inputs_wf[OF inp]
  note rq = solver_inputs_wf[OF wf(1)]
  have limit: "0 \<le> max_verification_steps (rq_policy rq)" "max_verification_steps (rq_policy rq) \<le> 1000000"
    using rq(3) by (simp_all add: wf_policy_def)
  obtain a b c d fin k where rep: "resource_replay_matches rq r adapter lease
      (max_verification_steps (rq_policy rq)) size_bytes = Inr (replay_checks a b c d, fin, k)"
    and k: "0 \<le> k" "k \<le> max_verification_steps (rq_policy rq)" "k \<le> visited_assignments (rs_resources r)"
    and v: "check_result request rq result r request_ref result_ref adapter lease size_bytes =
      (let allowed = claim_allows (rq_required_claim rq) (rs_status r);
           table = zip check_names [adapter_provenance r adapter,
             identity_bindings request rq request_ref r, lease_authority rq r lease, c, d, allowed, a, b];
           (out, rs) = verification_disposition (rs_status r) table fin allowed in
       Inr \<lparr>vf_sensitivity = rs_sensitivity r, vf_request = request_ref,
          vf_request_id = artifact_id request, vf_result = result_ref,
          vf_result_id = artifact_id result, vf_contract_id = rq_contract_id rq,
          vf_candidate = rq_candidate rq, vf_graph_id = rq_graph_id rq, vf_task_id = rq_task_id rq,
          vf_context_snapshot_id = rq_context_snapshot_id rq, vf_lease = lease, outcome = out,
          adoption_allowed = (out = VERIFIED \<and> allowed),
          checks = map (\<lambda>(i, ok). \<lparr>check_id = i, passed = ok\<rparr>) table, reasons = rs,
          verification_steps = k\<rparr>)"
    by (rule check_result_value[OF rq(2) wf(3) limit(1)])
  define allowed where "allowed = claim_allows (rq_required_claim rq) (rs_status r)"
  define table where "table = zip check_names [adapter_provenance r adapter,
    identity_bindings request rq request_ref r, lease_authority rq r lease, c, d, allowed, a, b]"
  obtain out rs where disp: "verification_disposition (rs_status r) table fin allowed = (out, rs)"
    by (cases "verification_disposition (rs_status r) table fin allowed")
  note cs = disposition_cases[OF disp[unfolded table_def]]
  let ?v = "\<lparr>vf_sensitivity = rs_sensitivity r, vf_request = request_ref,
          vf_request_id = artifact_id request, vf_result = result_ref,
          vf_result_id = artifact_id result, vf_contract_id = rq_contract_id rq,
          vf_candidate = rq_candidate rq, vf_graph_id = rq_graph_id rq, vf_task_id = rq_task_id rq,
          vf_context_snapshot_id = rq_context_snapshot_id rq, vf_lease = lease, outcome = out,
          adoption_allowed = (out = VERIFIED \<and> allowed),
          checks = map (\<lambda>(i, ok). \<lparr>check_id = i, passed = ok\<rparr>) table, reasons = rs,
          verification_steps = k\<rparr>"
  have eq: "check_result request rq result r request_ref result_ref adapter lease size_bytes = Inr ?v"
    using v disp unfolding allowed_def table_def by (simp add: Let_def)
  have names: "map fst table = check_names" by (simp add: table_def check_names_def)
  have ids: "map check_id (checks ?v) = check_names"
    using names by (simp add: comp_def case_prod_unfold)
  have passed: "out = VERIFIED \<and> allowed \<longrightarrow> list_all passed (checks ?v)"
    using cs by (auto simp: table_def check_names_def)
  have len: "length (checks ?v) = 8" "checks ?v \<noteq> []" by (simp_all add: table_def check_names_def)
  have slugs: "list_all (\<lambda>x. wf_slug (check_id x)) (checks ?v)"
    using check_names_ok(2) unfolding ids[symmetric] by (simp only: list.pred_map comp_def)
  have "wf_verification ?v"
    using inp wf(2,4) rq(1,4) cs passed len slugs k limit ids check_names_ok(1)
    unfolding wf_verification_def verifier_inputs_def solver_inputs_def wf_request_def
    by (simp del: list.map list.pred_inject)
  then show ?thesis
    using that[OF eq _ _ _ _ _ _ _] rep cs k by (simp add: allowed_def)
qed

section \<open>Honest results\<close>

lemma taken_last_butlast:
  assumes "m < n" and "n \<le> search_space_size p" and "taken p m \<noteq> []"
  shows "last (taken p m) \<in> set (butlast (taken p n))" "last (taken p m) \<in> set (taken p n)"
proof -
  have "butlast (taken p n) = take (n - 1) (assignments p)"
    using assms by (simp add: taken_def butlast_take assignments_length)
  moreover have "set (taken p m) \<subseteq> set (take (n - 1) (assignments p))"
    unfolding taken_def using assms(1) by (intro set_take_subset_set_take) simp
  ultimately show "last (taken p m) \<in> set (butlast (taken p n))"
    using last_in_set[OF assms(3)] by auto
  then show "last (taken p m) \<in> set (taken p n)" by (rule in_set_butlastD)
qed

text \<open>The first solution is where an early exit stops: a replay cannot stop sooner.\<close>

lemma no_earlier_witness:
  assumes spec: "search_spec rq n ba bo t" and "m < n"
    and w: "witness_ok rq (taken (rq_problem rq) m) ba' bo'"
  shows False
proof -
  let ?p = "rq_problem rq"
  have n: "n \<le> search_space_size ?p" using spec by (simp add: search_spec_def Let_def)
  have ne: "taken ?p m \<noteq> []" and sat: "satisfies ?p (last (taken ?p m))" and early: "early_exit rq"
    using w by (auto simp: witness_ok_def)
  note mem = taken_last_butlast[OF assms(2) n ne]
  from search_spec_state[OF spec] show False
    using mem sat early by (auto simp: witness_ok_def bests_ok_def)
qed

lemma replay_agrees:
  assumes spec: "search_spec rq n ba bo t" and rep: "replay_spec rq (int n) m st"
  shows "m = n" "replay_assignment st = ba" "replay_objective st = bo"
    "witness_step st = None \<or> witness_step st = Some (int n)"
proof -
  let ?p = "rq_problem rq"
  have n: "n \<le> search_space_size ?p" using spec by (simp add: search_spec_def Let_def)
  have m: "m = n"
  proof (cases "witness_step st")
    case None
    then show ?thesis using rep n by (simp add: replay_spec_def Let_def)
  next
    case (Some k)
    then have "witness_ok rq (taken ?p m) (replay_assignment st) (replay_objective st)" "m \<le> n"
      using rep by (simp_all add: replay_spec_def Let_def)
    then show ?thesis using no_earlier_witness[OF spec] by (meson le_neq_implies_less)
  qed
  then show "m = n" .
  have state: "witness_ok rq (taken ?p n) (replay_assignment st) (replay_objective st) \<or>
      bests_ok rq (taken ?p n) (replay_assignment st) (replay_objective st)"
    using rep m by (auto simp: replay_spec_def Let_def split: option.splits)
  have "replay_assignment st = ba \<and> replay_objective st = bo"
    using search_spec_state[OF spec]
  proof
    assume w: "witness_ok rq (taken ?p n) ba bo"
    then have "witness_ok rq (taken ?p n) (replay_assignment st) (replay_objective st)"
      using state witness_not_bests by blast
    then show ?thesis using w by (simp add: witness_ok_def)
  next
    assume b: "bests_ok rq (taken ?p n) ba bo"
    then have "bests_ok rq (taken ?p n) (replay_assignment st) (replay_objective st)"
      using state witness_not_bests by blast
    then show ?thesis using b by (simp add: bests_ok_def split: if_splits)
  qed
  then show "replay_assignment st = ba" "replay_objective st = bo" by auto
  show "witness_step st = None \<or> witness_step st = Some (int n)"
    using rep m by (auto simp: replay_spec_def Let_def split: option.splits)
qed

lemma checks_of_mono:
  assumes "m \<le> n" shows "checks_of p (taken p m) \<le> checks_of p (taken p n)"
proof -
  have "taken p n = taken p m @ drop m (taken p n)"
    using assms by (metis append_take_drop_id min.absorb1 take_take taken_def)
  then have "checks_of p (taken p n) = checks_of p (taken p m) + checks_of p (drop m (taken p n))"
    by (metis checks_of_def map_append sum_list_append)
  moreover have "0 \<le> checks_of p as" for as by (induction as) (simp_all add: checks_of_def)
  ultimately show ?thesis by simp
qed

text \<open>
  The replay of a result that the reference adapter itself produced: all four checks pass, and it
  is complete exactly when the verification budget covers the assignments the search took.
\<close>

lemma honest_replay:
  assumes inp: "solver_inputs request rq reference adapter lease"
    and kind: "adapter_kind adapter = REFERENCE"
    and mono: "\<And>i j. i \<le> j \<Longrightarrow> monotonic_at c i \<le> monotonic_at c j"
    and size: "0 < size_bytes" "size_bytes \<le> max_result_bytes (rq_policy rq)"
    and r: "search_result c request rq reference adapter lease = Inr r"
    and steps: "0 \<le> max_steps"
  shows "\<exists>k. resource_replay_matches rq r adapter lease max_steps size_bytes =
    Inr (replay_checks True True True True, visited_assignments (rs_resources r) \<le> max_steps, k)"
proof -
  note wf = solver_inputs_wf[OF inp]
  let ?p = "rq_problem rq"
  obtain st t n s pk d where r': "search_result c request rq reference adapter lease =
       Inr (bound_result request rq reference adapter lease s
         (make_witness (variable_ids ?p) (best_assignment st)) (best_objective st)
         (interval_for ?p s (best_objective st)) pk (search_evidence c rq st t) d)"
    and disp: "result_disposition ?p t (best_assignment st) = Inr (s, pk, d)"
    and spec: "search_spec rq n (best_assignment st) (best_objective st) t"
    and v: "visited st = int n" "checked st = checks_of ?p (taken ?p n)"
    and late: "t = REQUEST_TIMEOUT \<Longrightarrow> 0 < monotonic_calls st \<and>
       the (request_deadline c rq) \<le> monotonic_at c (monotonic_calls st - 1)"
    using search_result_value[OF inp, where c = c] by metis
  let ?e = "search_evidence c rq st t"
  have fields: "rs_resources r = ?e" "rs_status r = s" "proof_disposition r = pk"
    "diagnostic_code r = d" "objective_value r = best_objective st"
    "rs_witness r = make_witness (variable_ids ?p) (best_assignment st)"
    "rs_interval r = interval_for ?p s (best_objective st)"
    using r unfolding r' bound_result_def by auto
  have ev: "visited_assignments ?e = int n" "termination_reason ?e = t" "solver_calls ?e = 1"
    "constraint_checks ?e = checks_of ?p (taken ?p n)"
    using v by (simp_all add: search_evidence_def Let_def)
  have n: "n \<le> search_space_size ?p" "int n \<le> max_solve_steps (rq_policy rq)" "t \<noteq> ADAPTER_ERROR"
    using spec by (auto simp: search_spec_def Let_def)
  have common: "common_evidence rq ?e lease size_bytes"
    using n size inp v(1) by (simp add: common_evidence_def search_evidence_def Let_def
        solver_inputs_def wf_lease_def)
  let ?target = "min (int n) max_steps"
  obtain st2 m where loop: "replay_loop rq ?target (assignments ?p) 1 initial_replay = Inr st2"
    and rep: "replay_spec rq ?target m st2"
    using replay_loop_value[OF wf(2), of ?target] steps by auto
  have matches: "resource_replay_matches rq r adapter lease max_steps size_bytes =
      replay_verdict rq r ?target st2"
    using common kind ev n loop fields(1) by (simp add: resource_replay_matches_def Let_def)
  show ?thesis
  proof (cases "int n \<le> max_steps")
    case True
    then have rep': "replay_spec rq (int n) m st2" using rep by simp
    note agree = replay_agrees[OF spec rep']
    have chk: "replay_checked st2 = checks_of ?p (taken ?p n)"
      using rep' agree(1) by (simp add: replay_spec_def Let_def)
    have lim: "witness_step st2 = None \<Longrightarrow> int n = min (int n) (int (search_space_size ?p))"
      using n(1) by simp
    have timeout: "t = REQUEST_TIMEOUT \<Longrightarrow> the (timeout_milliseconds (rq_policy rq)) \<le> elapsed_milliseconds ?e"
    proof -
      assume t: "t = REQUEST_TIMEOUT"
      then obtain T where T: "timeout_milliseconds (rq_policy rq) = Some T"
        using spec by (auto simp: search_spec_def Let_def)
      have "T \<le> 3600000" using T wf(3) by (simp add: wf_policy_def wf_timeout_def)
      moreover have "monotonic_at c 0 + T \<le> monotonic_at c (monotonic_calls st)"
        using late[OF t] T mono[of "monotonic_calls st - 1" "monotonic_calls st"]
        by (simp add: request_deadline_def)
      ultimately show ?thesis using T t by (simp add: search_evidence_def timeout_reason_def Let_def)
    qed
    have "entitled rq ?e st2 = Inr (Some (s, pk, d, interval_for ?p s (best_objective st)))"
      using entitled_value[OF wf(2) rep'[unfolded agree(1)] ev(1) lim n(2)] agree(2,3) spec ev(2) timeout disp
      by simp
    moreover have "timeout_reason t \<or> elapsed_milliseconds ?e = 0"
      by (simp add: search_evidence_def Let_def)
    ultimately have "replay_verdict rq r ?target st2 =
        Inr (replay_checks True True True True, True, evaluated_steps st2)"
      using True agree fields ev chk by (auto simp: replay_verdict_def Let_def)
    then show ?thesis using matches True fields(1) ev(1) by simp
  next
    case False
    have none: "witness_step st2 = None"
    proof (cases "witness_step st2")
      case (Some k)
      then have "witness_ok rq (taken ?p m) (replay_assignment st2) (replay_objective st2)"
        "int m \<le> max_steps" using rep by (simp_all add: replay_spec_def Let_def)
      then show ?thesis using no_earlier_witness[OF spec] False by (metis not_le_imp_less of_nat_mono order_trans)
    qed
    have "m \<le> n" using rep by (simp add: replay_spec_def Let_def)
    then have "replay_checked st2 \<le> constraint_checks ?e"
      using rep ev(4) checks_of_mono[of m n ?p] by (simp add: replay_spec_def Let_def)
    then have "replay_verdict rq r ?target st2 =
        Inr (replay_checks True True True True, False, evaluated_steps st2)"
      using False none fields(1) ev(1) by (simp add: replay_verdict_def Let_def)
    then show ?thesis using matches False fields(1) ev(1) by simp
  qed
qed

end
