(* ===== verification/Samples.thy ===== *)
theory Samples
  imports SolverVerify
begin

text \<open>
  A concrete solver run, used by the witnesses of the properties: a small optimization problem, the
  reference adapter, a request bound to its content identity, a lease and a clock that never
  expires.  Identities are the real digests of the documents, kept symbolic.
\<close>

definition zeros :: string where
  "zeros = replicate 64 (CHR ''0'')"

definition sample_reference :: "string \<Rightarrow> artifact_reference" where
  "sample_reference path = \<lparr>ref_path = path, ref_sha256 = zeros\<rparr>"

definition sample_problem :: solver_problem where
  "sample_problem = \<lparr>problem_kind = OPTIMIZATION, profile = GENERAL,
     variables = [
       \<lparr>variable_id = ''X'', var_domain = \<lparr>dom_kind = ''integer-range'', dom_values = [0, 1, 2]\<rparr>\<rparr>,
       \<lparr>variable_id = ''Y'', var_domain = \<lparr>dom_kind = ''integer-set'', dom_values = [0, 2]\<rparr>\<rparr>],
     constraints = [
       LinearConstraint ''C1'' [\<lparr>term_variable = ''X'', coefficient = 1\<rparr>,
         \<lparr>term_variable = ''Y'', coefficient = 1\<rparr>] LE 3,
       AllDifferentConstraint ''C2'' [''X'', ''Y'']],
     objective = Some \<lparr>direction = MAXIMIZE,
       obj_terms = [\<lparr>term_variable = ''X'', coefficient = 1\<rparr>, \<lparr>term_variable = ''Y'', coefficient = 1\<rparr>],
       obj_constant = 0\<rparr>\<rparr>"

definition sample_policy :: solver_resource_policy where
  "sample_policy = \<lparr>max_solve_steps = 100, max_verification_steps = 100,
     timeout_milliseconds = None, max_result_bytes = 65536\<rparr>"

definition sample_candidate :: candidate_identity where
  "sample_candidate = \<lparr>source_spec_sha256 = zeros, git_head = replicate 40 (CHR ''0''),
     repository_digest = zeros\<rparr>"

definition sample_adapter :: solver_adapter_definition where
  "sample_adapter = \<lparr>ad_adapter_id = reference_adapter_id, adapter_kind = REFERENCE,
     implementation = ''sdaqf.adapters.solver.FiniteDomainReferenceAdapter'',
     ad_version = ''1.0.0'',
     supported_problem_kinds = sort_key problem_kind_value solver_problem_kind_members,
     supported_profiles = sort_key problem_profile_value solver_problem_profile_members,
     supported_constraints = sort_key constraint_kind_value solver_constraint_kind_members,
     numeric_domain = ''exact-integer'', ad_limits = reference_limits, network = False,
     ad_optional = False, tool_registry = None, tool_name = None, executable = None,
     input_format = None, version_matcher = None, version_observation = None,
     approval_requirements = None, ad_license = ''Apache-2.0'',
     ad_provenance = [sample_reference ''docs/adapter.json'']\<rparr>"

definition unbound_request :: solver_request where
  "unbound_request = \<lparr>rq_sensitivity = PUBLIC, rq_registry = sample_reference ''registry.json'',
     rq_registry_id = type_prefix REGISTRY @ zeros, rq_adapter_id = reference_adapter_id,
     rq_contract_id = [], rq_task_graph = sample_reference ''graph.json'',
     rq_graph_id = ''M6-TASK-GRAPH-'' @ zeros, rq_task_id = ''TSK-SOLVE'',
     rq_candidate = sample_candidate, rq_context_snapshot = sample_reference ''context.json'',
     rq_context_snapshot_id = ''CTX-SNAPSHOT-'' @ zeros, rq_problem = sample_problem,
     rq_required_claim = CLAIM_OPTIMAL, rq_policy = sample_policy\<rparr>"

definition sample_request :: solver_request where
  "sample_request = unbound_request\<lparr>rq_contract_id :=
     contract_prefix @ sha256_hex (dumps (operational_content unbound_request))\<rparr>"

definition request_artifact :: loaded_solver_artifact where
  "request_artifact = \<lparr>artifact_type = REQUEST,
     artifact_id = type_prefix REQUEST @ sha256_hex (dumps (request_to_dict sample_request)),
     artifact_value = RequestValue sample_request\<rparr>"

definition sample_lease :: solver_lease_evidence where
  "sample_lease = \<lparr>le_graph_id = ''M6-TASK-GRAPH-'' @ zeros, le_task_id = ''TSK-SOLVE'',
     le_host_id = ''HST-ONE'', le_attempt = 1, le_lease_id = ''M6-LEASE-'' @ zeros, le_fence = 1,
     le_idempotency_key = ''IDEM-'' @ zeros, le_dispatch_message_id = ''M6-MESSAGE-'' @ zeros,
     le_expires_at = ''2030-01-01T00:00:00Z'', reserved_solver_calls = 1,
     reserved_solver_steps = 200\<rparr>"

definition sample_clock :: solver_clock where
  "sample_clock = \<lparr>now_at = (\<lambda>_. [2026, 1, 1, 0, 0, 0, 0]), monotonic_at = int\<rparr>"

lemma pred_option_code [code]: "pred_option P None = True" "pred_option P (Some x) = P x"
  by simp_all

lemma sample_problem_parts:
  "list_all wf_variable (variables sample_problem)"
  "sorted_wrt (<) (map variable_id (variables sample_problem))"
  "list_all (wf_constraint (variable_domains (variables sample_problem)) GENERAL)
     (constraints sample_problem)"
  "sorted_wrt (<) (map constraint_id (constraints sample_problem))"
  "wf_objective (variable_domains (variables sample_problem)) (the (objective sample_problem))"
  by code_simp+

lemma sample_problem_wf: "wf_problem sample_problem"
proof -
  have "search_space_size sample_problem = 6"
    by (simp add: search_space_size_def sample_problem_def)
  then show ?thesis
    using sample_problem_parts by (simp add: wf_problem_def) (simp add: sample_problem_def)
qed

lemma sample_adapter_wf: "wf_adapter sample_adapter"
  by code_simp

lemma sample_lease_wf: "wf_lease sample_lease"
  by code_simp

lemma sample_reference_wf: "wf_reference (sample_reference ''request.json'')"
  by code_simp

lemma sample_references:
  "wf_reference (sample_reference ''registry.json'')"
  "wf_reference (sample_reference ''graph.json'')"
  "wf_reference (sample_reference ''context.json'')"
  by code_simp+

lemma sample_ids:
  "wf_solver_id (type_prefix REGISTRY) (type_prefix REGISTRY @ zeros)"
  "wf_slug reference_adapter_id"
  "wf_pattern graph_pattern (''M6-TASK-GRAPH-'' @ zeros)"
  "wf_pattern task_pattern ''TSK-SOLVE''"
  by code_simp+

lemma sample_context:
  "wf_pattern context_pattern (''CTX-SNAPSHOT-'' @ zeros)"
  "wf_candidate sample_candidate"
  "wf_policy sample_policy"
  by code_simp+

lemma sample_problem_fits: "fits 200 8 (problem_to_dict sample_problem)"
  by code_simp

lemma sample_policy_fits: "fits 200 8 (policy_to_dict sample_policy)"
  by code_simp

lemma sample_operational_fits: "fits 250000 64 (operational_content unbound_request)"
  unfolding operational_content_def
  by (intro fits_obj[where b = 200 and d = 8])
    (simp_all add: ascii_text_def sample_problem_fits sample_policy_fits unbound_request_def)

lemma sample_contract_id:
  "operational_contract_id (operational_content sample_request) = Inr (rq_contract_id sample_request)"
  using fits_bytes[OF sample_operational_fits]
  by (simp add: sample_request_def operational_contract_id_def content_digest_def
      operational_content_def)

lemma sample_request_wf: "wf_request sample_request"
  using sample_references sample_ids sample_context sample_contract_id operational_contract_id_wf[OF sample_contract_id]
    sample_problem_wf
  by (simp add: wf_request_def sample_request_def unbound_request_def sample_problem_def)

lemma sample_request_fits: "fits 250000 64 (request_to_dict sample_request)"
proof -
  have "rq_problem sample_request = sample_problem" "rq_policy sample_request = sample_policy"
    by (simp_all add: sample_request_def unbound_request_def)
  then show ?thesis
    unfolding request_to_dict_def
    by (intro fits_obj[where b = 200 and d = 8])
      (simp_all add: ascii_text_def sample_problem_fits sample_policy_fits)
qed

lemma request_artifact_wf: "wf_artifact request_artifact"
  using sample_request_wf fits_identity[OF sample_request_fits]
  by (simp add: wf_artifact_def request_artifact_def)

lemma sample_inputs: "solver_inputs request_artifact sample_request
    (sample_reference ''request.json'') sample_adapter sample_lease"
  using request_artifact_wf sample_adapter_wf sample_lease_wf sample_reference_wf
  by (simp add: solver_inputs_def request_artifact_def)

lemma sample_adapter_kind: "adapter_kind sample_adapter = REFERENCE"
  by (simp add: sample_adapter_def)

section \<open>The sample run\<close>

lemma sample_solution: "[1, 2] \<in> solutions sample_problem"
  by code_simp

lemma sample_run:
  obtains r where "search_result sample_clock request_artifact sample_request
      (sample_reference ''request.json'') sample_adapter sample_lease = Inr r"
    "rs_status r = OPTIMAL" "visited_assignments (rs_resources r) \<le> 6" "wf_result r"
proof -
  have p: "rq_problem sample_request = sample_problem" "rq_policy sample_request = sample_policy"
    "rq_required_claim sample_request = CLAIM_OPTIMAL"
    by (simp_all add: sample_request_def unbound_request_def)
  have space: "search_space_size sample_problem = 6"
    by (simp add: search_space_size_def sample_problem_def)
  have obj: "objective sample_problem \<noteq> None" by (simp add: sample_problem_def)
  obtain st t n s k d where r: "search_result sample_clock request_artifact sample_request
      (sample_reference ''request.json'') sample_adapter sample_lease =
       Inr (bound_result request_artifact sample_request (sample_reference ''request.json'')
         sample_adapter sample_lease s
         (make_witness (variable_ids (rq_problem sample_request)) (best_assignment st))
         (best_objective st) (interval_for (rq_problem sample_request) s (best_objective st)) k
         (search_evidence sample_clock sample_request st t) d)"
    and disp: "result_disposition (rq_problem sample_request) t (best_assignment st) = Inr (s, k, d)"
    and spec: "search_spec sample_request n (best_assignment st) (best_objective st) t"
    and v: "visited st = int n"
    and late: "t = LEASE_DEADLINE \<Longrightarrow>
      utc_fields (le_expires_at sample_lease) \<le> now_at sample_clock (now_calls st - 1)"
    using search_result_value[OF sample_inputs, where c = sample_clock] by metis
  have deadline: "\<not> utc_fields (le_expires_at sample_lease) \<le> [2026, 1, 1, 0, 0, 0, 0]"
    by code_simp
  have t: "t = SEARCH_EXHAUSTED"
    using spec late deadline space obj p
    by (cases t) (auto simp: search_spec_def Let_def sample_clock_def sample_policy_def
        witness_ok_def early_exit_def)
  have n: "n \<le> 6" using spec space p by (simp add: search_spec_def Let_def)
  have holds: "result_holds sample_problem s
      (make_witness (variable_ids sample_problem) (best_assignment st)) (best_objective st)
      (interval_for sample_problem s (best_objective st))"
    using search_spec_holds[OF _ spec disp] sample_problem_wf p by simp
  have "s = OPTIMAL"
    using disp t obj p holds sample_solution
    by (auto simp: result_disposition_def result_holds_def split: if_splits)
  moreover obtain r' where "search_result sample_clock request_artifact sample_request
      (sample_reference ''request.json'') sample_adapter sample_lease = Inr r'" "wf_result r'"
    using search_result_sound[OF sample_inputs] by metis
  ultimately show ?thesis using that r v n
    by (auto simp: bound_result_def search_evidence_def Let_def)
qed

lemma sample_monotonic: "i \<le> j \<Longrightarrow> monotonic_at sample_clock i \<le> monotonic_at sample_clock j"
  by (simp add: sample_clock_def)

lemma sample_artifact:
  obtains a r where "solve sample_clock request_artifact (sample_reference ''request.json'')
      sample_adapter sample_lease = Inr a" "wf_artifact a" "artifact_type a = RESULT"
    "artifact_value a = ResultValue r" "rs_status r = OPTIMAL"
    "search_result sample_clock request_artifact sample_request
      (sample_reference ''request.json'') sample_adapter sample_lease = Inr r"
    "visited_assignments (rs_resources r) \<le> 6"
    "verifier_inputs request_artifact sample_request a r (sample_reference ''request.json'')
      (sample_reference ''request.json'') sample_adapter sample_lease"
proof -
  obtain a r where a: "solve sample_clock request_artifact (sample_reference ''request.json'')
      sample_adapter sample_lease = Inr a" "wf_artifact a" "artifact_value a = ResultValue r"
    "search_result sample_clock request_artifact sample_request
      (sample_reference ''request.json'') sample_adapter sample_lease = Inr r"
    using solve_reference[OF sample_inputs sample_adapter_kind] by metis
  obtain r' where r': "search_result sample_clock request_artifact sample_request
      (sample_reference ''request.json'') sample_adapter sample_lease = Inr r'"
    "rs_status r' = OPTIMAL" "visited_assignments (rs_resources r') \<le> 6"
    by (rule sample_run)
  have "r' = r" using r'(1) a(4) by simp
  moreover have t: "artifact_type a = RESULT"
    using a(2,3) by (cases "artifact_type a") (auto simp: wf_artifact_def)
  moreover have "verifier_inputs request_artifact sample_request a r (sample_reference ''request.json'')
      (sample_reference ''request.json'') sample_adapter sample_lease"
    using sample_inputs a(2,3) t sample_reference_wf by (simp add: verifier_inputs_def)
  ultimately show ?thesis using that[OF a(1,2) t a(3) _ a(4)] r' by simp
qed

end
