(* ===== verification/SolverProperties.thy ===== *)
theory SolverProperties
  imports Samples
begin

text \<open>
  The properties of the solver: what an accepted verification guarantees, what the reference
  adapter guarantees, and that the two fit together.  The first section holds the lemmas the
  properties share, the second the properties with their witnesses.
\<close>

section \<open>Adapter and verifier together\<close>

lemma search_runs:
  assumes "wf_problem (rq_problem rq)" and "0 \<le> max_solve_steps (rq_policy rq)"
  shows "\<exists>st t. search_loop c rq ld (request_deadline c rq) (assignments (rq_problem rq))
    initial_search = Inr (st, t)"
  using search_loop_value[OF assms, where c = c and ld = ld] by metis

lemma verify_value:
  assumes inp: "verifier_inputs request rq result r request_ref result_ref adapter lease"
  obtains v b where
    "check_result request rq result r request_ref result_ref adapter lease size_bytes = Inr v"
    "verify_loaded_solver_result request result request_ref result_ref adapter lease size_bytes = Inr b"
    "artifact_value b = VerificationValue v" "wf_artifact b" "wf_verification v"
proof -
  obtain v where v: "check_result request rq result r request_ref result_ref adapter lease size_bytes = Inr v"
    "wf_verification v" using check_result_facts[OF inp] by metis
  obtain b where "artifact_from_value VERIFICATION (VerificationValue v) = Inr b"
    "artifact_value b = VerificationValue v" "wf_artifact b"
    using verification_artifact[OF v(2)] by blast
  then show ?thesis using v inp
    by (intro that[of v b]) (simp_all add: verify_loaded_solver_result_def verifier_inputs_def solver_inputs_def)
qed

lemma verified_facts:
  assumes inp: "verifier_inputs request rq result r request_ref result_ref adapter lease"
    and run: "verify_loaded_solver_result request result request_ref result_ref adapter lease size_bytes = Inr b"
    and v: "artifact_value b = VerificationValue v"
  shows "check_result request rq result r request_ref result_ref adapter lease size_bytes = Inr v"
    "outcome v = VERIFIED \<Longrightarrow>
       result_holds (rq_problem rq) (rs_status r) (rs_witness r) (objective_value r) (rs_interval r)"
    "adoption_allowed v \<longleftrightarrow> outcome v = VERIFIED \<and> claim_allows (rq_required_claim rq) (rs_status r)"
proof -
  note wf = verifier_inputs_wf[OF inp]
  note rq = solver_inputs_wf[OF wf(1)]
  obtain v' a b' c d fin where x:
    "check_result request rq result r request_ref result_ref adapter lease size_bytes = Inr v'"
    "resource_replay_matches rq r adapter lease (max_verification_steps (rq_policy rq)) size_bytes =
       Inr (replay_checks a b' c d, fin, verification_steps v')"
    "outcome v' = VERIFIED \<longleftrightarrow> (identity_bindings request rq request_ref r \<and>
       lease_authority rq r lease \<and> adapter_provenance r adapter \<and> a \<and> b' \<and> c \<and> d) \<and> fin \<and>
       \<not> incomplete_status (rs_status r)"
    "adoption_allowed v' \<longleftrightarrow> outcome v' = VERIFIED \<and> claim_allows (rq_required_claim rq) (rs_status r)"
    using check_result_facts[OF inp, where size_bytes = size_bytes] by metis
  have "v' = v"
    using verify_value[OF inp, where size_bytes = size_bytes] run v x(1) by (metis Inr_inject solver_value.inject(4))
  then show "check_result request rq result r request_ref result_ref adapter lease size_bytes = Inr v"
    "adoption_allowed v \<longleftrightarrow> outcome v = VERIFIED \<and> claim_allows (rq_required_claim rq) (rs_status r)"
    using x by simp_all
  assume "outcome v = VERIFIED"
  then have ok: "a" "b'" "c" "d" "fin" and s: "\<not> incomplete_status (rs_status r)"
    using x(3) \<open>v' = v\<close> by simp_all
  have "0 \<le> max_verification_steps (rq_policy rq)" using rq(3) by (simp add: wf_policy_def)
  from replay_sound[OF rq(2) wf(3) this, of adapter lease size_bytes] x(2) ok s
  show "result_holds (rq_problem rq) (rs_status r) (rs_witness r) (objective_value r) (rs_interval r)"
    by simp
qed

text \<open>Authority: the request names the adapter that runs it, and the lease was issued for it.\<close>

definition authorized ::
  "solver_request \<Rightarrow> solver_adapter_definition \<Rightarrow> solver_lease_evidence \<Rightarrow> bool" where
  "authorized rq adapter lease = (rq_adapter_id rq = ad_adapter_id adapter \<and>
     le_graph_id lease = rq_graph_id rq \<and> le_task_id lease = rq_task_id rq \<and>
     reserved_solver_calls lease = 1 \<and> reserved_solver_steps lease =
       max_solve_steps (rq_policy rq) + max_verification_steps (rq_policy rq))"

definition decided :: "solver_request \<Rightarrow> solver_result \<Rightarrow> bool" where
  "decided rq r = (\<not> incomplete_status (rs_status r) \<and>
     visited_assignments (rs_resources r) \<le> max_verification_steps (rq_policy rq))"

lemma solve_search:
  assumes inp: "solver_inputs request rq reference adapter lease"
    and kind: "adapter_kind adapter = REFERENCE"
    and run: "solve c request reference adapter lease = Inr a"
  obtains r where "artifact_value a = ResultValue r" "wf_artifact a" "artifact_type a = RESULT"
    "search_result c request rq reference adapter lease = Inr r"
proof -
  obtain a' r where a: "solve c request reference adapter lease = Inr a'" "wf_artifact a'"
    "artifact_value a' = ResultValue r" "search_result c request rq reference adapter lease = Inr r"
    using solve_reference[OF inp kind] by metis
  moreover have "artifact_type a' = RESULT"
    using a(2,3) by (cases "artifact_type a'") (auto simp: wf_artifact_def)
  ultimately show ?thesis using that[of r] run by simp
qed

lemma search_copies:
  assumes inp: "solver_inputs request rq reference adapter lease"
    and run: "search_result c request rq reference adapter lease = Inr r"
    and auth: "authorized rq adapter lease"
  shows "identity_bindings request rq reference r" "lease_authority rq r lease"
    "adapter_provenance r adapter"
proof -
  obtain st t s k d where r: "search_result c request rq reference adapter lease =
       Inr (bound_result request rq reference adapter lease s
         (make_witness (variable_ids (rq_problem rq)) (best_assignment st)) (best_objective st)
         (interval_for (rq_problem rq) s (best_objective st)) k (search_evidence c rq st t) d)"
    using search_result_value[OF inp, where c = c] by metis
  then show "identity_bindings request rq reference r" "lease_authority rq r lease"
    "adapter_provenance r adapter"
    using run auth by (auto simp: bound_result_def identity_bindings_def lease_authority_def
        adapter_provenance_def authorized_def)
qed

lemma honest_verification:
  assumes inp: "solver_inputs request rq reference adapter lease"
    and kind: "adapter_kind adapter = REFERENCE" and auth: "authorized rq adapter lease"
    and mono: "\<And>i j. i \<le> j \<Longrightarrow> monotonic_at c i \<le> monotonic_at c j"
    and size: "0 < size_bytes" "size_bytes \<le> max_result_bytes (rq_policy rq)"
    and run: "solve c request reference adapter lease = Inr a" and ref: "wf_reference result_ref"
  obtains r b v where "artifact_value a = ResultValue r"
    "verifier_inputs request rq a r reference result_ref adapter lease"
    "verify_loaded_solver_result request a reference result_ref adapter lease size_bytes = Inr b"
    "artifact_value b = VerificationValue v"
    "outcome v = (if decided rq r then VERIFIED else INCONCLUSIVE)"
    "adoption_allowed v \<longleftrightarrow> decided rq r \<and> claim_allows (rq_required_claim rq) (rs_status r)"
proof -
  obtain r where a: "artifact_value a = ResultValue r" "wf_artifact a" "artifact_type a = RESULT"
    and r: "search_result c request rq reference adapter lease = Inr r"
    by (rule solve_search[OF inp kind run])
  have vi: "verifier_inputs request rq a r reference result_ref adapter lease"
    using inp a ref by (simp add: verifier_inputs_def)
  have "0 \<le> max_verification_steps (rq_policy rq)"
    using solver_inputs_wf(3)[OF inp] by (simp add: wf_policy_def)
  from honest_replay[OF inp kind mono size r this] obtain k where replay:
    "resource_replay_matches rq r adapter lease (max_verification_steps (rq_policy rq)) size_bytes =
      Inr (replay_checks True True True True,
           visited_assignments (rs_resources r) \<le> max_verification_steps (rq_policy rq), k)"
    by blast
  obtain v a' b' c' d fin where x:
    "check_result request rq a r reference result_ref adapter lease size_bytes = Inr v"
    "resource_replay_matches rq r adapter lease (max_verification_steps (rq_policy rq)) size_bytes =
       Inr (replay_checks a' b' c' d, fin, verification_steps v)"
    "outcome v = REJECTED \<longleftrightarrow> \<not> (identity_bindings request rq reference r \<and>
       lease_authority rq r lease \<and> adapter_provenance r adapter \<and> a' \<and> b' \<and> c' \<and> d)"
    "outcome v = VERIFIED \<longleftrightarrow> (identity_bindings request rq reference r \<and>
       lease_authority rq r lease \<and> adapter_provenance r adapter \<and> a' \<and> b' \<and> c' \<and> d) \<and> fin \<and>
       \<not> incomplete_status (rs_status r)"
    "adoption_allowed v \<longleftrightarrow> outcome v = VERIFIED \<and> claim_allows (rq_required_claim rq) (rs_status r)"
    using check_result_facts[OF vi, where size_bytes = size_bytes] by metis
  have "a' \<and> b' \<and> c' \<and> d" "fin = (visited_assignments (rs_resources r) \<le> max_verification_steps (rq_policy rq))"
    using x(2) replay by (simp_all add: replay_checks_def)
  then have out: "outcome v = VERIFIED \<longleftrightarrow> decided rq r" "outcome v \<noteq> REJECTED"
    using x(3,4) search_copies[OF inp r auth] by (auto simp: decided_def)
  obtain b where "verify_loaded_solver_result request a reference result_ref adapter lease size_bytes = Inr b"
    "artifact_value b = VerificationValue v"
    using verify_value[OF vi, where size_bytes = size_bytes] x(1) by (metis Inr_inject)
  then show ?thesis using that[OF a(1) vi] out x(5) by (cases "outcome v") auto
qed

text \<open>The sample request, solved and verified.\<close>

lemma sample_authorized: "authorized sample_request sample_adapter sample_lease"
  by (simp add: authorized_def sample_request_def unbound_request_def sample_adapter_def
      sample_lease_def sample_policy_def)

lemma sample_verified:
  obtains a r b v where "solve sample_clock request_artifact (sample_reference ''request.json'')
      sample_adapter sample_lease = Inr a" "artifact_value a = ResultValue r" "rs_status r = OPTIMAL"
    "search_result sample_clock request_artifact sample_request
      (sample_reference ''request.json'') sample_adapter sample_lease = Inr r"
    "verifier_inputs request_artifact sample_request a r (sample_reference ''request.json'')
      (sample_reference ''request.json'') sample_adapter sample_lease"
    "verify_loaded_solver_result request_artifact a (sample_reference ''request.json'')
      (sample_reference ''request.json'') sample_adapter sample_lease 1 = Inr b"
    "artifact_value b = VerificationValue v" "outcome v = VERIFIED" "adoption_allowed v"
proof -
  obtain a r where a: "solve sample_clock request_artifact (sample_reference ''request.json'')
      sample_adapter sample_lease = Inr a" "artifact_value a = ResultValue r" "rs_status r = OPTIMAL"
    "search_result sample_clock request_artifact sample_request
      (sample_reference ''request.json'') sample_adapter sample_lease = Inr r"
    "visited_assignments (rs_resources r) \<le> 6"
    by (rule sample_artifact) blast
  have p: "max_result_bytes (rq_policy sample_request) = 65536"
    "max_verification_steps (rq_policy sample_request) = 100"
    "rq_required_claim sample_request = CLAIM_OPTIMAL"
    by (simp_all add: sample_request_def unbound_request_def sample_policy_def)
  have d: "decided sample_request r" using a(3,5) p by (simp add: decided_def incomplete_status_def)
  obtain r' b v where v: "artifact_value a = ResultValue r'"
    "verifier_inputs request_artifact sample_request a r' (sample_reference ''request.json'')
      (sample_reference ''request.json'') sample_adapter sample_lease"
    "verify_loaded_solver_result request_artifact a (sample_reference ''request.json'')
      (sample_reference ''request.json'') sample_adapter sample_lease 1 = Inr b"
    "artifact_value b = VerificationValue v"
    "outcome v = (if decided sample_request r' then VERIFIED else INCONCLUSIVE)"
    "adoption_allowed v \<longleftrightarrow>
       decided sample_request r' \<and> claim_allows (rq_required_claim sample_request) (rs_status r')"
    by (rule honest_verification[OF sample_inputs sample_adapter_kind sample_authorized
          sample_monotonic _ _ a(1) sample_reference_wf, of 1]) (simp_all add: p)
  have "r' = r" using v(1) a(2) by simp
  then show ?thesis using that[OF a(1-4) _ v(3,4)] v(2,5,6) d a(3) p by simp
qed

section \<open>Results without a search\<close>

definition idle_outcome :: "solver_result_status \<Rightarrow> solver_termination_reason \<Rightarrow> string \<Rightarrow> int \<Rightarrow> bool" where
  "idle_outcome s t d n =
     ((s, t, d, n) = (UNAVAILABLE, ADAPTER_UNAVAILABLE, ''adapter-unavailable'', 0) \<or>
      (s, t, d, n) = (ERROR, ADAPTER_ERROR, ''adapter-error'', 1))"

lemma idle_result:
  assumes inp: "solver_inputs request rq reference adapter lease" and idle: "idle_outcome s t d n"
  obtains a r where "incomplete_result request reference adapter lease s t d n = Inr a" "wf_artifact a"
    "artifact_type a = RESULT" "artifact_value a = ResultValue r" "wf_result r" "rs_status r = s"
    "rs_witness r = None" "objective_value r = None" "rs_interval r = None"
    "proof_disposition r = PROOF_NONE" "diagnostic_code r = Some d"
    "rs_resources r = \<lparr>solver_calls = n, solver_steps = 0,
       ev_search_space_size = int (search_space_size (rq_problem rq)), visited_assignments = 0,
       unvisited_assignments = int (search_space_size (rq_problem rq)), constraint_checks = 0,
       elapsed_milliseconds = 0, step_limit = max_solve_steps (rq_policy rq),
       ev_timeout = timeout_milliseconds (rq_policy rq), termination_reason = t\<rparr>"
    "rs_request r = reference" "rs_request_id r = artifact_id request"
    "rs_contract_id r = rq_contract_id rq" "rs_candidate r = rq_candidate rq"
    "rs_graph_id r = rq_graph_id rq" "rs_task_id r = rq_task_id rq"
    "rs_context_snapshot_id r = rq_context_snapshot_id rq" "rs_sensitivity r = rq_sensitivity rq"
    "rs_lease r = lease" "adapter_provenance r adapter" "rs_adapter_id r = ad_adapter_id adapter"
proof -
  note wf = solver_inputs_wf[OF inp]
  let ?space = "int (search_space_size (rq_problem rq))"
  define e where "e = \<lparr>solver_calls = n, solver_steps = 0, ev_search_space_size = ?space,
     visited_assignments = 0, unvisited_assignments = ?space, constraint_checks = 0,
     elapsed_milliseconds = 0, step_limit = max_solve_steps (rq_policy rq),
     ev_timeout = timeout_milliseconds (rq_policy rq), termination_reason = t\<rparr>"
  define r where "r = bound_result request rq reference adapter lease s None None None PROOF_NONE e (Some d)"
  have space: "0 < search_space_size (rq_problem rq)" "search_space_size (rq_problem rq) \<le> 1000000"
    using assignments_nonempty[OF wf(2)] wf(2) by (simp_all add: wf_problem_def flip: assignments_length)
  have "wf_resources e"
    using space wf(3) idle by (auto simp: e_def wf_resources_def wf_policy_def idle_outcome_def)
  moreover have "wf_diagnostic (Some d)"
    using idle by (auto simp: wf_diagnostic_def diagnostic_codes_def idle_outcome_def)
  moreover have "validate_result_shape s None None None PROOF_NONE (Some d) e = Inr ()"
    using idle unfolding idle_outcome_def
    by (elim disjE) (simp_all add: e_def validate_result_shape_def first_failure_iff
        positive_status_def negative_status_def incomplete_status_def)
  ultimately have r: "wf_result r" unfolding r_def by (intro wf_bound_result[OF inp]) simp_all
  obtain a where a: "artifact_from_value RESULT (ResultValue r) = Inr a" "artifact_value a = ResultValue r"
    "wf_artifact a" using result_artifact[OF r] by blast
  have "artifact_type a = RESULT"
    using a(2,3) by (cases "artifact_type a") (auto simp: wf_artifact_def)
  moreover have "incomplete_result request reference adapter lease s t d n = Inr a"
    using inp a(1) by (simp add: incomplete_result_def solver_inputs_def r_def e_def Let_def)
  ultimately show ?thesis using a r
    by (intro that[of a r]) (simp_all add: r_def bound_result_def e_def adapter_provenance_def)
qed

lemma external_replay:
  assumes "adapter_kind adapter = EXTERNAL_CLI"
    and "resource_replay_matches rq r adapter lease n size_bytes = Inr (replay_checks a b c d, fin, k)"
    and "a" "b" "c" "d"
  shows "rs_status r = UNAVAILABLE"
  using assms by (auto simp: resource_replay_matches_def Let_def idle_checks_def replay_checks_def
      split: if_splits)

text \<open>The sample adapter of the external kind.\<close>

definition external_adapter :: solver_adapter_definition where
  "external_adapter = sample_adapter\<lparr>ad_adapter_id := ''external-cli'', adapter_kind := EXTERNAL_CLI,
     ad_optional := True, tool_registry := Some (sample_reference ''tools.json''),
     tool_name := Some ''solver'', executable := Some ''solver'', input_format := Some ''text'',
     version_matcher := Some ''1.0.0'', approval_requirements := Some exact_approval,
     version_observation :=
       Some \<lparr>vo_status = NOT_OBSERVED, observed_version = None, vo_evidence = None\<rparr>\<rparr>"

lemma external_texts:
  "wf_slug ''external-cli''" "plain_text 64 ''solver''" "plain_text 120 ''solver''"
  "plain_text 64 ''text''" "plain_text 200 ''1.0.0''" "wf_reference (sample_reference ''tools.json'')"
  by code_simp+

lemma external_adapter_wf: "wf_adapter external_adapter" "adapter_kind external_adapter = EXTERNAL_CLI"
  using sample_adapter_wf external_texts
  by (simp_all add: external_adapter_def wf_adapter_def adapter_boundary_def sample_adapter_def
      wf_observation_def all_external_fields_def)

lemma external_inputs: "solver_inputs request_artifact sample_request
    (sample_reference ''request.json'') external_adapter sample_lease"
  using sample_inputs external_adapter_wf by (simp add: solver_inputs_def)

section \<open>Properties\<close>

text \<open>
  C1: whatever produced a result, a verification that says VERIFIED guarantees that what the result
  asserts about the problem is true (its witness is a solution, its optimum is the optimum, its
  negative answer means that there is no solution, its interval encloses the optimum), and adoption
  is allowed only when the status also satisfies the claim that the request required.
\<close>

theorem verified_result_holds:
  assumes inp: "verifier_inputs request rq result r request_ref result_ref adapter lease"
    and run: "verify_loaded_solver_result request result request_ref result_ref adapter lease
      size_bytes = Inr b"
    and v: "artifact_value b = VerificationValue v" and verified: "outcome v = VERIFIED"
  shows "result_holds (rq_problem rq) (rs_status r) (rs_witness r) (objective_value r) (rs_interval r)
    \<and> (adoption_allowed v \<longleftrightarrow> claim_allows (rq_required_claim rq) (rs_status r))"
  using verified_facts[OF inp run v] verified by simp

theorem verified_result_holds_witness:
  "\<exists>a r b v. verify_loaded_solver_result request_artifact a (sample_reference ''request.json'')
      (sample_reference ''request.json'') sample_adapter sample_lease 1 = Inr b \<and>
    artifact_value a = ResultValue r \<and> artifact_value b = VerificationValue v \<and>
    outcome v = VERIFIED \<and> adoption_allowed v \<and>
    result_holds sample_problem OPTIMAL (rs_witness r) (objective_value r) (rs_interval r)"
proof -
  obtain a r b v where s: "artifact_value a = ResultValue r" "rs_status r = OPTIMAL"
    "verifier_inputs request_artifact sample_request a r (sample_reference ''request.json'')
      (sample_reference ''request.json'') sample_adapter sample_lease"
    "verify_loaded_solver_result request_artifact a (sample_reference ''request.json'')
      (sample_reference ''request.json'') sample_adapter sample_lease 1 = Inr b"
    "artifact_value b = VerificationValue v" "outcome v = VERIFIED" "adoption_allowed v"
    by (rule sample_verified) blast
  moreover have "rq_problem sample_request = sample_problem"
    by (simp add: sample_request_def unbound_request_def)
  ultimately show ?thesis using verified_result_holds[OF s(3-6)] by auto
qed

text \<open>
  C2: on well-formed inputs the reference adapter always returns a well-formed result artifact,
  bound to its content identity, and what the result asserts about the problem is true.
\<close>

theorem reference_solve_sound:
  assumes inp: "solver_inputs request rq reference adapter lease"
    and kind: "adapter_kind adapter = REFERENCE"
  shows "\<exists>a r. solve c request reference adapter lease = Inr a \<and> wf_artifact a \<and>
    artifact_value a = ResultValue r \<and>
    result_holds (rq_problem rq) (rs_status r) (rs_witness r) (objective_value r) (rs_interval r)"
  using solve_reference[OF inp kind, of c] by metis

theorem reference_solve_sound_witness:
  "\<exists>a r. solve sample_clock request_artifact (sample_reference ''request.json'') sample_adapter
      sample_lease = Inr a \<and> wf_artifact a \<and> artifact_value a = ResultValue r \<and>
    result_holds (rq_problem sample_request) (rs_status r) (rs_witness r) (objective_value r)
      (rs_interval r)"
  by (rule reference_solve_sound[OF sample_inputs sample_adapter_kind])

text \<open>
  C3: with a monotone clock, a lease issued for the request and a result file within the byte
  limit, the verifier never rejects what the reference adapter produced: it says VERIFIED exactly
  when the result decides the problem and the search took no more assignments than the
  verification budget, INCONCLUSIVE otherwise, and it allows adoption exactly when a verified status
  satisfies the required claim.
\<close>

theorem honest_result_verified:
  assumes inp: "solver_inputs request rq reference adapter lease"
    and kind: "adapter_kind adapter = REFERENCE" and auth: "authorized rq adapter lease"
    and mono: "\<And>i j. i \<le> j \<Longrightarrow> monotonic_at c i \<le> monotonic_at c j"
    and size: "0 < size_bytes" "size_bytes \<le> max_result_bytes (rq_policy rq)"
    and run: "solve c request reference adapter lease = Inr a" and ref: "wf_reference result_ref"
  shows "\<exists>r b v. artifact_value a = ResultValue r \<and>
    verify_loaded_solver_result request a reference result_ref adapter lease size_bytes = Inr b \<and>
    artifact_value b = VerificationValue v \<and>
    outcome v = (if decided rq r then VERIFIED else INCONCLUSIVE) \<and>
    (adoption_allowed v \<longleftrightarrow> decided rq r \<and> claim_allows (rq_required_claim rq) (rs_status r))"
  using honest_verification[OF assms] by metis

theorem honest_result_verified_witness:
  "\<exists>a r b v. solve sample_clock request_artifact (sample_reference ''request.json'') sample_adapter
      sample_lease = Inr a \<and> artifact_value a = ResultValue r \<and>
    verify_loaded_solver_result request_artifact a (sample_reference ''request.json'')
      (sample_reference ''request.json'') sample_adapter sample_lease 1 = Inr b \<and>
    artifact_value b = VerificationValue v \<and>
    outcome v = (if decided sample_request r then VERIFIED else INCONCLUSIVE)"
proof -
  obtain a where a: "solve sample_clock request_artifact (sample_reference ''request.json'')
      sample_adapter sample_lease = Inr a" by (rule sample_artifact) blast
  have "max_result_bytes (rq_policy sample_request) = 65536"
    by (simp add: sample_request_def unbound_request_def sample_policy_def)
  then show ?thesis
    using honest_result_verified[OF sample_inputs sample_adapter_kind sample_authorized
        sample_monotonic _ _ a sample_reference_wf, of 1] a by auto
qed

text \<open>
  C4: when neither the lease nor a request timeout interrupts the search and the step limit covers
  the search space, the reference adapter decides the problem: the status says exactly whether
  there is a solution, and an optimization problem with a stronger claim than feasibility is solved
  to OPTIMAL.
\<close>

theorem uninterrupted_search_decides:
  fixes rq :: solver_request
  defines "p \<equiv> rq_problem rq"
  assumes inp: "solver_inputs request rq reference adapter lease"
    and timeout: "timeout_milliseconds (rq_policy rq) = None"
    and live: "\<And>i. \<not> utc_fields (le_expires_at lease) \<le> now_at c i"
    and budget: "int (search_space_size p) \<le> max_solve_steps (rq_policy rq)"
    and run: "search_result c request rq reference adapter lease = Inr r"
  shows "rs_status r = (if objective p = None then (if solutions p = {} then UNSATISFIABLE else SATISFIABLE)
    else if solutions p = {} then INFEASIBLE
    else if rq_required_claim rq = CLAIM_FEASIBLE then FEASIBLE else OPTIMAL)"
proof -
  obtain st t n s k d where r: "search_result c request rq reference adapter lease =
       Inr (bound_result request rq reference adapter lease s
         (make_witness (variable_ids p) (best_assignment st)) (best_objective st)
         (interval_for p s (best_objective st)) k (search_evidence c rq st t) d)"
    and disp: "result_disposition p t (best_assignment st) = Inr (s, k, d)"
    and spec: "search_spec rq n (best_assignment st) (best_objective st) t"
    and late: "t = LEASE_DEADLINE \<Longrightarrow> utc_fields (le_expires_at lease) \<le> now_at c (now_calls st - 1)"
    using search_result_value[OF inp, where c = c] unfolding p_def by metis
  have p: "wf_problem p" using solver_inputs_wf(2)[OF inp] by (simp add: p_def)
  have s: "rs_status r = s" using r run by (auto simp: bound_result_def)
  have holds: "result_holds p s (make_witness (variable_ids p) (best_assignment st)) (best_objective st)
      (interval_for p s (best_objective st))"
    using search_spec_holds[OF _ spec] disp p unfolding p_def by simp
  have t: "t = WITNESS_FOUND \<or> t = SEARCH_EXHAUSTED"
    using spec late live timeout budget
    by (cases t) (auto simp: search_spec_def Let_def p_def)
  have "t = WITNESS_FOUND \<Longrightarrow> early_exit rq"
    "t = SEARCH_EXHAUSTED \<Longrightarrow> early_exit rq \<Longrightarrow> best_assignment st = None"
    using spec by (auto simp: search_spec_def Let_def witness_ok_def bests_ok_def)
  then show ?thesis using t disp holds s
    by (auto simp: result_disposition_def result_holds_def early_exit_def p_def split: if_splits)
qed

theorem uninterrupted_search_decides_witness:
  "\<exists>r. search_result sample_clock request_artifact sample_request
      (sample_reference ''request.json'') sample_adapter sample_lease = Inr r \<and> rs_status r = OPTIMAL"
proof -
  obtain r where r: "search_result sample_clock request_artifact sample_request
      (sample_reference ''request.json'') sample_adapter sample_lease = Inr r" by (rule sample_run)
  have p: "rq_problem sample_request = sample_problem" "rq_policy sample_request = sample_policy"
    "rq_required_claim sample_request = CLAIM_OPTIMAL"
    by (simp_all add: sample_request_def unbound_request_def)
  have live: "\<not> utc_fields (le_expires_at sample_lease) \<le> now_at sample_clock i" for i
  proof -
    have "\<not> utc_fields (le_expires_at sample_lease) \<le> [2026, 1, 1, 0, 0, 0, 0]" by code_simp
    then show ?thesis by (simp add: sample_clock_def)
  qed
  have "solutions sample_problem \<noteq> {}" using sample_solution by auto
  moreover have "search_space_size sample_problem = 6" "objective sample_problem \<noteq> None"
    by (simp_all add: search_space_size_def sample_problem_def)
  moreover have "timeout_milliseconds sample_policy = None" "max_solve_steps sample_policy = 100"
    by (simp_all add: sample_policy_def)
  ultimately show ?thesis
    using uninterrupted_search_decides[OF sample_inputs _ live _ r] r by (simp add: p)
qed

text \<open>
  C5: on loaded evidence the verifier always returns: it publishes a well-formed verification, and
  the replay it records stays within the verification budget of the request and within what the
  result claims to have visited.
\<close>

theorem verification_total_and_bounded:
  assumes inp: "verifier_inputs request rq result r request_ref result_ref adapter lease"
  shows "\<exists>b v. verify_loaded_solver_result request result request_ref result_ref adapter lease
      size_bytes = Inr b \<and> wf_artifact b \<and> artifact_value b = VerificationValue v \<and>
    0 \<le> verification_steps v \<and> verification_steps v \<le> max_verification_steps (rq_policy rq) \<and>
    verification_steps v \<le> visited_assignments (rs_resources r)"
proof -
  obtain v b where v: "check_result request rq result r request_ref result_ref adapter lease size_bytes = Inr v"
    "verify_loaded_solver_result request result request_ref result_ref adapter lease size_bytes = Inr b"
    "artifact_value b = VerificationValue v" "wf_artifact b" "wf_verification v"
    by (rule verify_value[OF inp])
  obtain v' where "check_result request rq result r request_ref result_ref adapter lease size_bytes = Inr v'"
    "verification_steps v' \<le> max_verification_steps (rq_policy rq)"
    "verification_steps v' \<le> visited_assignments (rs_resources r)"
    using check_result_facts[OF inp, where size_bytes = size_bytes] by metis
  then show ?thesis using v by (auto simp: wf_verification_def)
qed

theorem verification_total_and_bounded_witness:
  "\<exists>a b v. verify_loaded_solver_result request_artifact a (sample_reference ''request.json'')
      (sample_reference ''request.json'') sample_adapter sample_lease 0 = Inr b \<and>
    artifact_value b = VerificationValue v \<and> verification_steps v \<le> 100"
proof -
  have p: "max_verification_steps (rq_policy sample_request) = 100"
    by (simp add: sample_request_def unbound_request_def sample_policy_def)
  obtain a r where "verifier_inputs request_artifact sample_request a r (sample_reference ''request.json'')
      (sample_reference ''request.json'') sample_adapter sample_lease" by (rule sample_artifact) blast
  from verification_total_and_bounded[OF this, of 0] show ?thesis by (auto simp: p)
qed

text \<open>
  C6: the resource evidence of a search is exact: it names how many assignments were taken, never
  more than the step limit nor the search space, accounts for every other assignment as unvisited,
  and its constraint checks are those of the assignments taken, in the order of the enumeration.
\<close>

theorem search_accounting:
  fixes rq :: solver_request
  defines "p \<equiv> rq_problem rq"
  assumes inp: "solver_inputs request rq reference adapter lease"
    and run: "search_result c request rq reference adapter lease = Inr r"
  shows "\<exists>n. visited_assignments (rs_resources r) = int n \<and> n \<le> search_space_size p \<and>
    int n \<le> max_solve_steps (rq_policy rq) \<and> solver_steps (rs_resources r) = int n \<and>
    unvisited_assignments (rs_resources r) = int (search_space_size p - n) \<and>
    constraint_checks (rs_resources r) = int (sum_list (map (checks_at p) (take n (assignments p)))) \<and>
    constraint_checks (rs_resources r) \<le> 256 * int n"
proof -
  obtain st t n s k d where r: "search_result c request rq reference adapter lease =
       Inr (bound_result request rq reference adapter lease s
         (make_witness (variable_ids p) (best_assignment st)) (best_objective st)
         (interval_for p s (best_objective st)) k (search_evidence c rq st t) d)"
    and spec: "search_spec rq n (best_assignment st) (best_objective st) t"
    and v: "visited st = int n" "checked st = checks_of p (taken p n)"
    using search_result_value[OF inp, where c = c] unfolding p_def by metis
  have p: "wf_problem p" using solver_inputs_wf(2)[OF inp] by (simp add: p_def)
  have e: "rs_resources r = search_evidence c rq st t" using r run by (auto simp: bound_result_def)
  have n: "n \<le> search_space_size p" "int n \<le> max_solve_steps (rq_policy rq)"
    using spec by (auto simp: search_spec_def Let_def p_def)
  have "checks_of p as = int (sum_list (map (checks_at p) as))" for as
    by (induction as) (simp_all add: checks_of_def)
  moreover have "checks_of p (taken p n) \<le> 256 * int n"
    using checks_of_bounds[OF p, of "taken p n"] by (auto simp: taken_def min_def split: if_splits)
  ultimately show ?thesis using e n v
    by (intro exI[of _ n]) (simp add: search_evidence_def Let_def p_def[symmetric] taken_def of_nat_diff)
qed

theorem search_accounting_witness:
  "\<exists>r n. search_result sample_clock request_artifact sample_request
      (sample_reference ''request.json'') sample_adapter sample_lease = Inr r \<and>
    visited_assignments (rs_resources r) = int n \<and>
    unvisited_assignments (rs_resources r) = int (search_space_size sample_problem - n)"
proof -
  obtain r where r: "search_result sample_clock request_artifact sample_request
      (sample_reference ''request.json'') sample_adapter sample_lease = Inr r" by (rule sample_run)
  have "rq_problem sample_request = sample_problem" by (simp add: sample_request_def unbound_request_def)
  then show ?thesis using search_accounting[OF sample_inputs r] r by metis
qed

text \<open>
  The replay of the verifier, stopped at the number of assignments a search took, goes through
  the states of that search: the same best assignment, the same best objective, the same number of
  constraint checks and of steps, although the two loops share no state and no code.
\<close>

theorem replay_matches_search:
  assumes p: "wf_problem (rq_problem rq)" and limit: "0 \<le> max_solve_steps (rq_policy rq)"
    and run: "search_loop c rq ld (request_deadline c rq) (assignments (rq_problem rq)) initial_search =
      Inr (st, t)"
  shows "\<exists>st'. replay_loop rq (visited st) (assignments (rq_problem rq)) 1 initial_replay = Inr st' \<and>
    replay_assignment st' = best_assignment st \<and> replay_objective st' = best_objective st \<and>
    replay_checked st' = checked st \<and> evaluated_steps st' = visited st"
proof -
  obtain st2 t2 n where "search_loop c rq ld (request_deadline c rq) (assignments (rq_problem rq))
      initial_search = Inr (st2, t2)"
    and v: "visited st2 = int n" "checked st2 = checks_of (rq_problem rq) (taken (rq_problem rq) n)"
    and spec: "search_spec rq n (best_assignment st2) (best_objective st2) t2"
    using search_loop_value[OF p limit, where c = c and ld = ld] by metis
  then have st: "st2 = st" using run by simp
  obtain st' m where rep: "replay_loop rq (int n) (assignments (rq_problem rq)) 1 initial_replay = Inr st'"
    "replay_spec rq (int n) m st'"
    using replay_loop_value[OF p, of "int n"] by auto
  from replay_agrees[OF spec rep(2)] rep v st show ?thesis
    by (auto simp: replay_spec_def Let_def)
qed

theorem replay_matches_search_witness:
  "\<exists>st t st'. search_loop sample_clock sample_request [2030] None (assignments sample_problem)
      initial_search = Inr (st, t) \<and>
    replay_loop sample_request (visited st) (assignments sample_problem) 1 initial_replay = Inr st' \<and>
    replay_assignment st' = best_assignment st"
proof -
  have p: "rq_problem sample_request = sample_problem" "max_solve_steps (rq_policy sample_request) = 100"
    "request_deadline sample_clock sample_request = None"
    by (simp_all add: sample_request_def unbound_request_def sample_policy_def request_deadline_def)
  obtain st t where "search_loop sample_clock sample_request [2030]
      (request_deadline sample_clock sample_request) (assignments (rq_problem sample_request))
      initial_search = Inr (st, t)"
    using search_runs[of sample_request sample_clock "[2030]"] p sample_problem_wf by auto
  then show ?thesis using replay_matches_search[of sample_request sample_clock "[2030]" st t]
      p sample_problem_wf by auto
qed

text \<open>
  C7: on every complete assignment of a well-formed problem the evaluators never raise:
  \<open>evaluate_constraints\<close> computes satisfaction with the number of constraints it looked at (it
  stops after the first violated one), and \<open>evaluate_objective\<close> the value of the objective.
\<close>

theorem evaluators_compute_meaning:
  assumes "wf_problem p" and "a \<in> set (assignments p)"
  shows "evaluate_constraints p (assignment_values (variable_ids p) a) = Inr (satisfies p a, checks_at p a)
    \<and> checks_at p a \<le> length (constraints p)
    \<and> (objective p \<noteq> None \<longrightarrow>
         evaluate_objective p (assignment_values (variable_ids p) a) = Inr (objective_at p a))"
  using evaluate_constraints_value[OF assms] evaluate_objective_value[OF assms] checks_at_le by simp

theorem evaluators_compute_meaning_witness:
  "evaluate_constraints sample_problem (assignment_values (variable_ids sample_problem) [1, 2]) =
    Inr (satisfies sample_problem [1, 2], checks_at sample_problem [1, 2])"
  using evaluators_compute_meaning[OF sample_problem_wf, of "[1, 2]"] sample_solution
  by (simp add: solutions_iff)

text \<open>
  The objective bounds of a well-formed optimization problem always exist, enclose the objective
  of every complete assignment and stay within the range an objective value may have.
\<close>

theorem objective_bounds_enclose:
  assumes "wf_problem p" and "objective p \<noteq> None"
  shows "\<exists>i. objective_domain_bounds p = Inr i \<and>
    (\<forall>a \<in> set (assignments p). lower i \<le> objective_at p a \<and> objective_at p a \<le> upper i) \<and>
    wf_objective_value (lower i) \<and> wf_objective_value (upper i)"
  using objective_bounds_value[OF assms] by metis

theorem objective_bounds_enclose_witness:
  "\<exists>i. objective_domain_bounds sample_problem = Inr i \<and> lower i \<le> 3 \<and> 3 \<le> upper i"
proof -
  have "objective sample_problem \<noteq> None" by (simp add: sample_problem_def)
  moreover have "[1, 2] \<in> set (assignments sample_problem)"
    using sample_solution by (simp add: solutions_iff)
  moreover have "objective_at sample_problem [1, 2] = 3" by code_simp
  ultimately show ?thesis using objective_bounds_enclose[OF sample_problem_wf] by metis
qed

text \<open>
  An enumeration that may stop at a witness (a satisfaction problem, or a request that only
  claims feasibility) stops exactly at the first solution, so every run that publishes a witness
  publishes the same one; when it stops for another reason, nothing it took was a solution.
\<close>

theorem early_exit_first_solution:
  fixes rq :: solver_request
  defines "p \<equiv> rq_problem rq"
  assumes wf: "wf_problem p" and limit: "0 \<le> max_solve_steps (rq_policy rq)"
    and early: "early_exit rq"
    and run: "search_loop c rq ld (request_deadline c rq) (assignments p) initial_search = Inr (st, t)"
  shows "if t = WITNESS_FOUND
    then best_assignment st = find (satisfies p) (assignments p) \<and> best_assignment st \<noteq> None
    else best_assignment st = None \<and>
      (\<forall>a \<in> set (take (nat (visited st)) (assignments p)). \<not> satisfies p a)"
proof -
  obtain st2 t2 n where loop: "search_loop c rq ld (request_deadline c rq) (assignments p)
      initial_search = Inr (st2, t2)" and v: "visited st2 = int n"
    and spec: "search_spec rq n (best_assignment st2) (best_objective st2) t2"
    using search_loop_value[where c = c and ld = ld and rq = rq] wf limit unfolding p_def by metis
  then have st: "st2 = st" "t2 = t" using run by simp_all
  show ?thesis
  proof (cases "t = WITNESS_FOUND")
    case True
    then have w: "witness_ok rq (taken p n) (best_assignment st) (best_objective st)"
      using spec st by (simp add: search_spec_def Let_def p_def)
    then have ne: "taken p n \<noteq> []" by (simp add: witness_ok_def)
    define pre where "pre = butlast (taken p n)"
    have "assignments p = pre @ last (taken p n) # drop n (assignments p)"
      using ne by (metis append_butlast_last_id append_Cons append_Nil append_assoc
          append_take_drop_id pre_def taken_def)
    moreover have "find (satisfies p) (pre @ x # xs) = Some x"
      if "\<forall>a \<in> set pre. \<not> satisfies p a" "satisfies p x" for x xs
      using that by (induction pre) auto
    ultimately have "find (satisfies p) (assignments p) = Some (last (taken p n))"
      using w by (metis p_def pre_def witness_ok_def)
    then show ?thesis using True w by (simp add: witness_ok_def)
  next
    case False
    then have "bests_ok rq (taken p n) (best_assignment st) (best_objective st)"
      using spec st by (cases t) (auto simp: search_spec_def Let_def p_def)
    then show ?thesis using False early v st by (simp add: bests_ok_def taken_def p_def)
  qed
qed

theorem early_exit_first_solution_witness:
  "\<exists>st t. search_loop sample_clock (sample_request\<lparr>rq_required_claim := CLAIM_FEASIBLE\<rparr>) [2030] None
      (assignments sample_problem) initial_search = Inr (st, t) \<and>
    (t = WITNESS_FOUND \<longrightarrow> best_assignment st = find (satisfies sample_problem) (assignments sample_problem))"
proof -
  let ?rq = "sample_request\<lparr>rq_required_claim := CLAIM_FEASIBLE\<rparr>"
  have p: "rq_problem ?rq = sample_problem" "max_solve_steps (rq_policy ?rq) = 100"
    "request_deadline sample_clock ?rq = None" "early_exit ?rq"
    by (simp_all add: sample_request_def unbound_request_def sample_policy_def request_deadline_def
        early_exit_def)
  obtain st t where "search_loop sample_clock ?rq [2030] (request_deadline sample_clock ?rq)
      (assignments (rq_problem ?rq)) initial_search = Inr (st, t)"
    using search_runs[of ?rq sample_clock "[2030]"] p sample_problem_wf by auto
  then show ?thesis using early_exit_first_solution[of ?rq sample_clock "[2030]" st t]
      p sample_problem_wf by (intro exI[of _ st] exI[of _ t]) auto
qed

text \<open>
  C8: an adapter of the external kind never gets a result past the verifier: whatever result is
  submitted in its name, the verification is neither VERIFIED nor adoptable.
\<close>

theorem external_result_never_adopted:
  assumes inp: "verifier_inputs request rq result r request_ref result_ref adapter lease"
    and kind: "adapter_kind adapter = EXTERNAL_CLI"
    and run: "verify_loaded_solver_result request result request_ref result_ref adapter lease
      size_bytes = Inr b"
    and v: "artifact_value b = VerificationValue v"
  shows "outcome v \<noteq> VERIFIED \<and> \<not> adoption_allowed v"
proof -
  note facts = verified_facts[OF inp run v]
  obtain v' a b' c d fin where "check_result request rq result r request_ref result_ref adapter lease
      size_bytes = Inr v'"
    "resource_replay_matches rq r adapter lease (max_verification_steps (rq_policy rq)) size_bytes =
       Inr (replay_checks a b' c d, fin, verification_steps v')"
    "outcome v' = VERIFIED \<longleftrightarrow> (identity_bindings request rq request_ref r \<and>
       lease_authority rq r lease \<and> adapter_provenance r adapter \<and> a \<and> b' \<and> c \<and> d) \<and> fin \<and>
       \<not> incomplete_status (rs_status r)"
    using check_result_facts[OF inp, where size_bytes = size_bytes] by metis
  moreover from this have "v' = v" using facts(1) by simp
  ultimately show ?thesis
    using external_replay[OF kind] facts(3) by (auto simp: incomplete_status_def)
qed

theorem external_result_never_adopted_witness:
  "\<exists>a b v. adapter_unavailable_result request_artifact (sample_reference ''request.json'')
      external_adapter sample_lease = Inr a \<and>
    verify_loaded_solver_result request_artifact a (sample_reference ''request.json'')
      (sample_reference ''request.json'') external_adapter sample_lease 1 = Inr b \<and>
    artifact_value b = VerificationValue v \<and> outcome v \<noteq> VERIFIED"
proof -
  obtain a r where a: "incomplete_result request_artifact (sample_reference ''request.json'')
      external_adapter sample_lease UNAVAILABLE ADAPTER_UNAVAILABLE ''adapter-unavailable'' 0 = Inr a"
    "wf_artifact a" "artifact_type a = RESULT" "artifact_value a = ResultValue r"
    by (rule idle_result[OF external_inputs, of UNAVAILABLE ADAPTER_UNAVAILABLE
          "''adapter-unavailable''" 0]) (auto simp: idle_outcome_def)
  then have inp: "verifier_inputs request_artifact sample_request a r
      (sample_reference ''request.json'') (sample_reference ''request.json'') external_adapter sample_lease"
    using external_inputs sample_reference_wf by (simp add: verifier_inputs_def)
  obtain b v where b: "verify_loaded_solver_result request_artifact a (sample_reference ''request.json'')
      (sample_reference ''request.json'') external_adapter sample_lease 1 = Inr b"
    "artifact_value b = VerificationValue v"
    using verify_value[OF inp, where size_bytes = 1] by metis
  then show ?thesis
    using external_result_never_adopted[OF inp external_adapter_wf(2) b] a(1)
    by (auto simp: adapter_unavailable_result_def)
qed

text \<open>
  The two results that stand for a run that did not happen (the adapter is unavailable, the
  adapter failed) can always be built, use no solver steps, and are honest: under a lease issued for
  the request the verifier records them as INCONCLUSIVE, without replaying anything, and never as
  REJECTED.
\<close>

theorem failure_results_inconclusive:
  assumes inp: "solver_inputs request rq reference adapter lease" and auth: "authorized rq adapter lease"
    and size: "0 < size_bytes" "size_bytes \<le> max_result_bytes (rq_policy rq)"
    and ref: "wf_reference result_ref"
    and made: "made = (if adapter_kind adapter = REFERENCE
      then adapter_error_result request reference adapter lease
      else adapter_unavailable_result request reference adapter lease)"
  shows "\<exists>a r b v. made = Inr a \<and> wf_artifact a \<and> artifact_value a = ResultValue r \<and>
    rs_status r = (if adapter_kind adapter = REFERENCE then ERROR else UNAVAILABLE) \<and>
    solver_steps (rs_resources r) = 0 \<and>
    verify_loaded_solver_result request a reference result_ref adapter lease size_bytes = Inr b \<and>
    artifact_value b = VerificationValue v \<and> outcome v = INCONCLUSIVE \<and> verification_steps v = 0"
proof -
  note wf = solver_inputs_wf[OF inp]
  define s t d n where "s = (if adapter_kind adapter = REFERENCE then ERROR else UNAVAILABLE)"
    and "t = (if adapter_kind adapter = REFERENCE then ADAPTER_ERROR else ADAPTER_UNAVAILABLE)"
    and "d = (if adapter_kind adapter = REFERENCE then ''adapter-error'' else ''adapter-unavailable'')"
    and "n = (if adapter_kind adapter = REFERENCE then 1 else (0::int))"
  note defs = s_def t_def d_def n_def
  have idle: "idle_outcome s t d n" by (simp add: idle_outcome_def defs)
  obtain a r where a: "incomplete_result request reference adapter lease s t d n = Inr a" "wf_artifact a"
    "artifact_type a = RESULT" "artifact_value a = ResultValue r" "rs_status r = s"
    and f: "rs_witness r = None" "objective_value r = None" "rs_interval r = None"
    "proof_disposition r = PROOF_NONE" "diagnostic_code r = Some d"
    and e: "rs_resources r = \<lparr>solver_calls = n, solver_steps = 0,
       ev_search_space_size = int (search_space_size (rq_problem rq)), visited_assignments = 0,
       unvisited_assignments = int (search_space_size (rq_problem rq)), constraint_checks = 0,
       elapsed_milliseconds = 0, step_limit = max_solve_steps (rq_policy rq),
       ev_timeout = timeout_milliseconds (rq_policy rq), termination_reason = t\<rparr>"
    and g: "rs_request r = reference" "rs_request_id r = artifact_id request"
    "rs_contract_id r = rq_contract_id rq" "rs_candidate r = rq_candidate rq"
    "rs_graph_id r = rq_graph_id rq" "rs_task_id r = rq_task_id rq"
    "rs_context_snapshot_id r = rq_context_snapshot_id rq" "rs_sensitivity r = rq_sensitivity rq"
    "rs_lease r = lease" "adapter_provenance r adapter" "rs_adapter_id r = ad_adapter_id adapter"
    by (rule idle_result[OF inp idle])
  have made': "made = Inr a"
    using a(1) by (cases "adapter_kind adapter = REFERENCE")
      (simp_all add: made defs adapter_error_result_def adapter_unavailable_result_def)
  have vi: "verifier_inputs request rq a r reference result_ref adapter lease"
    using inp a ref by (simp add: verifier_inputs_def)
  have copies: "identity_bindings request rq reference r" "lease_authority rq r lease"
    using g auth by (simp_all add: identity_bindings_def lease_authority_def authorized_def)
  have "common_evidence rq (rs_resources r) lease size_bytes"
    using e size auth wf(3) by (simp add: common_evidence_def Let_def wf_policy_def authorized_def n_def)
  then have replay: "resource_replay_matches rq r adapter lease k size_bytes =
      Inr (replay_checks True True True True, True, 0)" for k
    using e f a(5) by (cases "adapter_kind adapter")
      (simp_all add: resource_replay_matches_def idle_checks_def idle_evidence_def defs Let_def)
  obtain v a' b' c' d' fin where x: "check_result request rq a r reference result_ref adapter lease
      size_bytes = Inr v"
    "resource_replay_matches rq r adapter lease (max_verification_steps (rq_policy rq)) size_bytes =
       Inr (replay_checks a' b' c' d', fin, verification_steps v)"
    "outcome v = REJECTED \<longleftrightarrow> \<not> (identity_bindings request rq reference r \<and>
       lease_authority rq r lease \<and> adapter_provenance r adapter \<and> a' \<and> b' \<and> c' \<and> d')"
    "outcome v = VERIFIED \<longleftrightarrow> (identity_bindings request rq reference r \<and>
       lease_authority rq r lease \<and> adapter_provenance r adapter \<and> a' \<and> b' \<and> c' \<and> d') \<and> fin \<and>
       \<not> incomplete_status (rs_status r)"
    using check_result_facts[OF vi, where size_bytes = size_bytes] by metis
  have "outcome v = INCONCLUSIVE" "verification_steps v = 0"
    using x replay copies g(10) a(5)
    by (cases "outcome v"; auto simp: replay_checks_def incomplete_status_def s_def split: if_splits)+
  moreover obtain b where "verify_loaded_solver_result request a reference result_ref adapter lease
      size_bytes = Inr b" "artifact_value b = VerificationValue v"
    using verify_value[OF vi, where size_bytes = size_bytes] x(1) by (metis Inr_inject)
  ultimately show ?thesis using made' a e by (simp add: s_def)
qed

theorem failure_results_inconclusive_witness:
  "\<exists>a r b v. adapter_error_result request_artifact (sample_reference ''request.json'')
      sample_adapter sample_lease = Inr a \<and> artifact_value a = ResultValue r \<and> rs_status r = ERROR \<and>
    verify_loaded_solver_result request_artifact a (sample_reference ''request.json'')
      (sample_reference ''request.json'') sample_adapter sample_lease 1 = Inr b \<and>
    artifact_value b = VerificationValue v \<and> outcome v = INCONCLUSIVE"
proof -
  have "max_result_bytes (rq_policy sample_request) = 65536"
    by (simp add: sample_request_def unbound_request_def sample_policy_def)
  then show ?thesis
    using failure_results_inconclusive[OF sample_inputs sample_authorized, of 1
        "sample_reference ''request.json''", OF _ _ sample_reference_wf refl] sample_adapter_kind
    by auto
qed

end
