(* ===== verification/ContractProperties.thy ===== *)
theory ContractProperties
  imports Samples
begin

text \<open>
  The properties of the contracts: what the strict parsers accept, that encoding and parsing are
  inverse, and which checks of the code are consequences of others.
\<close>

section \<open>Envelopes\<close>

text \<open>
  C9: parsing what \<open>to_dict\<close> writes gives the artifact back exactly for the well-formed artifacts
  (every field in its range, the identity the digest of the content) of the expected type, and for
  no others.
\<close>

theorem envelope_round_trip:
  "parse_solver_envelope ty (artifact_to_dict a) = Inr a \<longleftrightarrow>
    wf_artifact a \<and> (ty = None \<or> ty = Some (artifact_type a))"
  using envelope_codec.parse_enc envelope_codec.parse_wf by blast

text \<open>
  C10: whatever document the envelope parser accepts, the artifact it returns is well formed, has
  the content identity of its own canonical content, equals the document under Python's comparison,
  and is accepted again when written back.
\<close>

theorem accepted_envelope:
  assumes "parse_solver_envelope ty j = Inr a"
  shows "wf_artifact a \<and> (ty = None \<or> ty = Some (artifact_type a)) \<and>
    (\<exists>b. canonical_json_bytes (value_to_dict (artifact_value a)) = Inr b \<and>
       artifact_id a = type_prefix (artifact_type a) @ sha256_hex b) \<and>
    py_eq (artifact_to_dict a) j \<and> parse_solver_envelope ty (artifact_to_dict a) = Inr a"
proof -
  have wf: "wf_artifact a \<and> (ty = None \<or> ty = Some (artifact_type a))"
    using envelope_codec.parse_wf[OF assms] .
  have "py_eq (artifact_to_dict a) j"
    using assms by (auto simp: parse_solver_envelope_def result_simps)
  moreover have "\<exists>b. canonical_json_bytes (value_to_dict (artifact_value a)) = Inr b \<and>
      artifact_id a = type_prefix (artifact_type a) @ sha256_hex b"
    using wf by (auto simp: wf_artifact_def solver_identity_def content_digest_def result_simps)
  ultimately show ?thesis using wf envelope_codec.parse_enc by blast
qed

theorem accepted_envelope_witness:
  "parse_solver_envelope None (artifact_to_dict request_artifact) = Inr request_artifact \<and>
    (\<exists>b. canonical_json_bytes (request_to_dict sample_request) = Inr b \<and>
       artifact_id request_artifact = type_prefix REQUEST @ sha256_hex b)"
proof -
  have p: "parse_solver_envelope None (artifact_to_dict request_artifact) = Inr request_artifact"
    using envelope_codec.parse_enc[of request_artifact None] request_artifact_wf by simp
  from accepted_envelope[OF p] p show ?thesis by (simp add: request_artifact_def)
qed

text \<open>
  On decoded JSON (every object key once) the final canonical comparison of
  \<open>_parse_solver_envelope\<close> never rejects anything: the field parsers already force every accepted
  document to equal its re-encoding, so the parser is the same as without the check.
\<close>

theorem canonical_check_redundant:
  assumes "wf_json j"
  shows "parse_solver_envelope ty j = read_envelope ty j"
  by (rule envelope_check_redundant[OF assms])

theorem canonical_check_redundant_witness:
  "parse_solver_envelope None (JObj [(''content'', JArr [JInt 1])]) =
    read_envelope None (JObj [(''content'', JArr [JInt 1])])"
  by (rule canonical_check_redundant) (simp add: wf_json.simps)

section \<open>Problems\<close>

text \<open>
  \<open>parse_problem\<close> accepts exactly the encodings of well-formed problems (identifiers sorted and
  unique, every constraint over declared variables and values, profile and objective consistent,
  search space within a million) up to Python equality, and reads back what it wrote.
\<close>

theorem problem_round_trip:
  "(parse_problem (problem_to_dict p) = Inr p \<longleftrightarrow> wf_problem p) \<and>
    (\<forall>j. wf_json j \<longrightarrow> parse_problem j = Inr p \<longrightarrow> wf_problem p \<and> py_eq (problem_to_dict p) j)"
  using problem_codec.parse_enc problem_codec.parse_wf problem_codec.parse_canonical by blast

theorem problem_round_trip_witness:
  "parse_problem (problem_to_dict sample_problem) = Inr sample_problem \<and> wf_problem sample_problem"
  using problem_round_trip[of sample_problem] sample_problem_wf by simp

text \<open>
  An accepted problem is finite and small: the enumeration has between one and a million
  assignments, one value per variable, each within the scalar range, and each problem that has an
  objective is an optimization problem of the general profile.
\<close>

theorem accepted_problem_bounds:
  assumes "parse_problem j = Inr p"
  shows "length (assignments p) = search_space_size p \<and> 1 \<le> search_space_size p \<and>
    search_space_size p \<le> 1000000 \<and>
    (\<forall>a \<in> set (assignments p). length a = length (variables p) \<and>
       (\<forall>x \<in> set a. \<bar>x\<bar> \<le> max_scalar_value)) \<and>
    (objective p \<noteq> None \<longrightarrow> problem_kind p = OPTIMIZATION \<and> profile p \<noteq> BOOLEAN_SAT)"
proof -
  have p: "wf_problem p" using problem_codec.parse_wf[OF assms] .
  have "0 < search_space_size p" "search_space_size p \<le> 1000000"
    using assignments_nonempty[OF p] p by (simp_all add: wf_problem_def flip: assignments_length)
  moreover have "\<bar>x\<bar> \<le> max_scalar_value" if a: "a \<in> set (assignments p)" and x: "x \<in> set a" for a x
  proof -
    have "wf_witness (zip (variable_ids p) a)" by (rule wf_make_witness[OF p a])
    then have "list_all wf_assignment (zip (variable_ids p) a)" by (simp add: wf_witness_def)
    moreover have "length (variable_ids p) = length a"
      using a by (simp add: assignment_length variable_ids_def)
    then obtain v where "(v, x) \<in> set (zip (variable_ids p) a)"
      using x by (metis in_set_impl_in_set_zip2)
    ultimately have "wf_scalar x" by (auto simp: list_all_iff wf_assignment_def)
    then show ?thesis by (auto simp: wf_scalar_def)
  qed
  moreover have "objective p \<noteq> None \<Longrightarrow> problem_kind p = OPTIMIZATION \<and> profile p \<noteq> BOOLEAN_SAT"
    using p by (cases "problem_kind p") (auto simp: wf_problem_def)
  ultimately show ?thesis
    by (simp add: assignments_length) (metis assignment_length)
qed

theorem accepted_problem_bounds_witness:
  "parse_problem (problem_to_dict sample_problem) = Inr sample_problem \<and>
    length (assignments sample_problem) = search_space_size sample_problem"
  using accepted_problem_bounds problem_codec.parse_enc[OF sample_problem_wf] by blast

section \<open>Capability tokens\<close>

text \<open>
  The capability token grammar is unambiguous: the parser accepts a text exactly when it is the
  token of a contract identity and two step counts in range, and returns them; no other spelling of
  the counts (leading zeros, signs) is accepted.
\<close>

theorem token_round_trip:
  "parse_solver_capability_token t = Inr (c, a, b) \<longleftrightarrow> wf_token c a b \<and> t = token_text c a b"
  using parse_token_sound parse_token_text by blast

section \<open>Results\<close>

text \<open>
  What a result of each status looks like, status by status: what it carries, how its run ended, and what it counted.
\<close>

definition ran :: "solver_result \<Rightarrow> solver_termination_reason \<Rightarrow> bool" where
  "ran r reason = (termination_reason (rs_resources r) = reason \<and> solver_calls (rs_resources r) = 1 \<and>
     elapsed_milliseconds (rs_resources r) = 0)"

definition exhausted :: "solver_result \<Rightarrow> bool" where
  "exhausted r = (ran r SEARCH_EXHAUSTED \<and> proof_disposition r = EXHAUSTIVE_ENUMERATION \<and> diagnostic_code r = None \<and>
     0 < solver_steps (rs_resources r) \<and> visited_assignments (rs_resources r) = ev_search_space_size (rs_resources r) \<and>
     unvisited_assignments (rs_resources r) = 0)"

definition out_of_steps :: "solver_result \<Rightarrow> bool" where
  "out_of_steps r = (ran r STEP_LIMIT \<and> solver_steps (rs_resources r) = step_limit (rs_resources r) \<and>
     0 < unvisited_assignments (rs_resources r))"

definition no_search :: "solver_result \<Rightarrow> bool" where
  "no_search r = (solver_steps (rs_resources r) = 0 \<and> visited_assignments (rs_resources r) = 0 \<and>
     constraint_checks (rs_resources r) = 0 \<and> elapsed_milliseconds (rs_resources r) = 0)"

fun result_profile :: "solver_result_status \<Rightarrow> solver_result \<Rightarrow> bool" where
  "result_profile SATISFIABLE r = (rs_witness r \<noteq> None \<and> objective_value r = None \<and> rs_interval r = None \<and>
     proof_disposition r = PROOF_WITNESS \<and> diagnostic_code r = None \<and> ran r WITNESS_FOUND \<and> 0 < solver_steps (rs_resources r))"
| "result_profile FEASIBLE r = (rs_witness r \<noteq> None \<and> objective_value r \<noteq> None \<and>
     proof_disposition r = PROOF_WITNESS \<and> diagnostic_code r = None \<and> ran r WITNESS_FOUND \<and> 0 < solver_steps (rs_resources r))"
| "result_profile BOUNDED r = (rs_witness r \<noteq> None \<and> objective_value r \<noteq> None \<and> rs_interval r \<noteq> None \<and>
     proof_disposition r = OBJECTIVE_BOUND \<and> diagnostic_code r = None \<and> out_of_steps r)"
| "result_profile OPTIMAL r = (rs_witness r \<noteq> None \<and> objective_value r \<noteq> None \<and>
     (\<exists>i. rs_interval r = Some i \<and> lower i = upper i) \<and> exhausted r)"
| "result_profile UNSATISFIABLE r = (rs_witness r = None \<and> objective_value r = None \<and> rs_interval r = None \<and> exhausted r)"
| "result_profile INFEASIBLE r = (rs_witness r = None \<and> exhausted r)"
| "result_profile UNKNOWN r = (proof_disposition r = PROOF_NONE \<and> diagnostic_code r = Some ''step-limit'' \<and> out_of_steps r)"
| "result_profile TIMEOUT r = (proof_disposition r = PROOF_NONE \<and>
     termination_reason (rs_resources r) \<in> {REQUEST_TIMEOUT, LEASE_DEADLINE} \<and>
     diagnostic_code r = Some (termination_value (termination_reason (rs_resources r))) \<and>
     solver_calls (rs_resources r) = 1 \<and> 0 < unvisited_assignments (rs_resources r))"
| "result_profile UNAVAILABLE r = (proof_disposition r = PROOF_NONE \<and> diagnostic_code r = Some ''adapter-unavailable'' \<and>
     termination_reason (rs_resources r) = ADAPTER_UNAVAILABLE \<and> solver_calls (rs_resources r) = 0 \<and> no_search r)"
| "result_profile ERROR r = (proof_disposition r = PROOF_NONE \<and> diagnostic_code r = Some ''adapter-error'' \<and>
     termination_reason (rs_resources r) = ADAPTER_ERROR \<and> solver_calls (rs_resources r) = 1 \<and> no_search r)"

text \<open>The fields on their own, each as its parser accepts it.\<close>

definition result_fields :: "solver_result \<Rightarrow> bool" where
  "result_fields r = (wf_reference (rs_request r) \<and> wf_solver_id (type_prefix REQUEST) (rs_request_id r) \<and>
     wf_solver_id contract_prefix (rs_contract_id r) \<and> wf_candidate (rs_candidate r) \<and>
     wf_pattern graph_pattern (rs_graph_id r) \<and> wf_pattern task_pattern (rs_task_id r) \<and>
     wf_pattern context_pattern (rs_context_snapshot_id r) \<and> wf_slug (rs_adapter_id r) \<and>
     wf_version (rs_adapter_version r) \<and> wf_license (rs_license r) \<and>
     wf_references 1 (rs_provenance r) \<and> wf_lease (rs_lease r) \<and>
     pred_option wf_witness (rs_witness r) \<and> pred_option wf_objective_value (objective_value r) \<and>
     pred_option wf_interval (rs_interval r) \<and> wf_resources (rs_resources r) \<and> wf_diagnostic (diagnostic_code r))"

lemma wf_resources_facts:
  assumes "wf_resources e"
  shows "0 \<le> solver_steps e" "0 \<le> unvisited_assignments e" "1 \<le> step_limit e" "visited_assignments e = solver_steps e"
  using assms by (simp_all add: wf_resources_def)

lemma shape_is_profile:
  assumes "wf_resources (rs_resources r)"
  shows "result_shape_ok r \<longleftrightarrow> result_profile (rs_status r) r"
  using wf_resources_facts[OF assms] unfolding result_shape_ok_def validate_result_shape_def first_failure_iff
  by (cases "rs_status r") (auto simp: positive_status_def negative_status_def incomplete_status_def ran_def exhausted_def
      out_of_steps_def no_search_def)

lemma wf_result_profile: "wf_result r \<longleftrightarrow> result_fields r \<and> result_profile (rs_status r) r"
  using shape_is_profile[of r] by (auto simp: wf_result_def result_fields_def)

text \<open>
  C11: an accepted result cannot contradict itself.  The checks of a result, made one after the other, accept exactly the results
  whose fields are well formed and fit the profile of their status: the status fixes the proof, the termination
  reason, the diagnostic, what is carried and what may have been counted.  So a result cannot be relabelled: the
  same evidence is never accepted under another status, except that an exhausted search without a witness may be called
  unsatisfiable or infeasible.
\<close>

theorem accepted_result_consistent:
  "(parse_result j = Inr r \<longrightarrow> result_profile (rs_status r) r) \<and>
   (parse_result (result_to_dict r) = Inr r \<longleftrightarrow> result_fields r \<and> result_profile (rs_status r) r) \<and>
   (parse_result j = Inr r \<and> parse_result j' = Inr (r\<lparr>rs_status := s\<rparr>) \<longrightarrow>
      s = rs_status r \<or> {s, rs_status r} = {UNSATISFIABLE, INFEASIBLE})"
proof (intro conjI impI)
  show "parse_result j = Inr r \<Longrightarrow> result_profile (rs_status r) r"
    using result_codec.parse_wf[of j r] by (simp add: wf_result_profile)
  show "parse_result (result_to_dict r) = Inr r \<longleftrightarrow> result_fields r \<and> result_profile (rs_status r) r"
    using result_codec.parse_wf result_codec.parse_enc unfolding wf_result_profile[symmetric] by blast
  assume "parse_result j = Inr r \<and> parse_result j' = Inr (r\<lparr>rs_status := s\<rparr>)"
  then have "wf_result r" "wf_result (r\<lparr>rs_status := s\<rparr>)" using result_codec.parse_wf by blast+
  then have "result_profile (rs_status r) r" "result_profile s (r\<lparr>rs_status := s\<rparr>)"
    by (simp_all add: wf_result_profile)
  then show "s = rs_status r \<or> {s, rs_status r} = {UNSATISFIABLE, INFEASIBLE}"
    by (cases "rs_status r"; cases s) (auto simp: ran_def exhausted_def out_of_steps_def)
qed

theorem accepted_result_consistent_witness:
  "\<exists>j r. parse_result j = Inr r \<and> rs_status r = OPTIMAL \<and> exhausted r \<and>
    (\<nexists>j'. parse_result j' = Inr (r\<lparr>rs_status := FEASIBLE\<rparr>))"
proof -
  obtain r where r: "rs_status r = OPTIMAL" "wf_result r" by (rule sample_run)
  then have p: "parse_result (result_to_dict r) = Inr r" by (simp add: result_codec.parse_enc)
  note c = accepted_result_consistent[of "result_to_dict r" r]
  have "exhausted r" using c p r(1) by (metis result_profile.simps(4))
  moreover have "\<nexists>j'. parse_result j' = Inr (r\<lparr>rs_status := FEASIBLE\<rparr>)" using c[of _ FEASIBLE] p r(1) by auto
  ultimately show ?thesis using p r(1) by (intro exI[of _ "result_to_dict r"] exI[of _ r]) simp
qed

text \<open>
  The exact-zero tolerance is compared with Python's \<open>==\<close>, so besides the integer zeros it also
  accepts a boolean and a floating-point zero: this document is not the documented form, and no
  later check refuses it.
\<close>

theorem tolerance_accepts_other_zeros:
  "parse_tolerance (JObj [(''kind'', JStr ''exact''), (''absolute'', JBool False),
     (''relative'', JFloat (Finite 0))]) = Inr () \<and>
   JObj [(''kind'', JStr ''exact''), (''absolute'', JBool False),
     (''relative'', JFloat (Finite 0))] \<noteq> exact_tolerance"
  by (simp add: parse_tolerance_def exact_tolerance_def only_keys_def py_eq.simps py_eq_fields_iff)

section \<open>Decoded documents\<close>

text \<open>
  The structure walk with its explicit stack accepts a decoded document exactly when it has at
  most 10,000 values and none is nested deeper than 64.
\<close>

theorem document_limits:
  "validate_document j = Inr () \<longleftrightarrow> json_nodes j \<le> 10000 \<and> json_depth j \<le> 64"
  using validate_json_structure_iff[of 0 10000 "[(j, 0)]"] by (simp add: validate_document_def)

end
