(* ===== verification/SchedulerDomain.thy ===== *)
theory SchedulerDomain
  imports SolverDomain
begin

text \<open>
  The typed M6 scheduler data of \<open>domain/scheduler.py\<close> that the task graph, the wait report and the
  workflow epochs use: the string enumerations, the frozen dataclasses as records and their
  \<open>to_dict\<close> encodings.  Members whose names several enumerations share carry the enumeration's name.
\<close>

section \<open>Enumerations\<close>

datatype workflow_epoch_cause = EPOCH_OPENED | TRANSITION_RESERVATION | ARTIFACT_PUBLICATION_RESERVED | ARTIFACT_PUBLICATION_CONFIRMED | TERMINAL_RESERVATION | TERMINAL_CONFIRMATION

fun epoch_cause_value :: "workflow_epoch_cause \<Rightarrow> string" where
  "epoch_cause_value EPOCH_OPENED = ''epoch-opened''"
| "epoch_cause_value TRANSITION_RESERVATION = ''transition-reserved''"
| "epoch_cause_value ARTIFACT_PUBLICATION_RESERVED = ''artifact-publication-reserved''"
| "epoch_cause_value ARTIFACT_PUBLICATION_CONFIRMED = ''artifact-publication-confirmed''"
| "epoch_cause_value TERMINAL_RESERVATION = ''terminal-reserved''"
| "epoch_cause_value TERMINAL_CONFIRMATION = ''terminal-confirmed''"

definition workflow_epoch_cause_members :: "workflow_epoch_cause list" where
  "workflow_epoch_cause_members = [EPOCH_OPENED, TRANSITION_RESERVATION, ARTIFACT_PUBLICATION_RESERVED, ARTIFACT_PUBLICATION_CONFIRMED, TERMINAL_RESERVATION, TERMINAL_CONFIRMATION]"

interpretation epoch_cause_enum: str_enum epoch_cause_value workflow_epoch_cause_members
proof (unfold_locales, goal_cases)
  case (1 e) then show ?case by (cases e) (simp_all add: workflow_epoch_cause_members_def)
qed code_simp+

datatype workflow_epoch_phase = OPEN | TRANSITION_RESERVED | ACTIVE | TERMINAL_RESERVED | TERMINAL_CONFIRMED

fun epoch_phase_value :: "workflow_epoch_phase \<Rightarrow> string" where
  "epoch_phase_value OPEN = ''open''"
| "epoch_phase_value TRANSITION_RESERVED = ''transition-reserved''"
| "epoch_phase_value ACTIVE = ''active''"
| "epoch_phase_value TERMINAL_RESERVED = ''terminal-reserved''"
| "epoch_phase_value TERMINAL_CONFIRMED = ''terminal-confirmed''"

definition workflow_epoch_phase_members :: "workflow_epoch_phase list" where
  "workflow_epoch_phase_members = [OPEN, TRANSITION_RESERVED, ACTIVE, TERMINAL_RESERVED, TERMINAL_CONFIRMED]"

interpretation epoch_phase_enum: str_enum epoch_phase_value workflow_epoch_phase_members
proof (unfold_locales, goal_cases)
  case (1 e) then show ?case by (cases e) (simp_all add: workflow_epoch_phase_members_def)
qed code_simp+

datatype workflow_receipt_status = RESERVED | CONFIRMED

fun receipt_status_value :: "workflow_receipt_status \<Rightarrow> string" where
  "receipt_status_value RESERVED = ''reserved''"
| "receipt_status_value CONFIRMED = ''confirmed''"

definition workflow_receipt_status_members :: "workflow_receipt_status list" where
  "workflow_receipt_status_members = [RESERVED, CONFIRMED]"

interpretation receipt_status_enum: str_enum receipt_status_value workflow_receipt_status_members
proof (unfold_locales, goal_cases)
  case (1 e) then show ?case by (cases e) (simp_all add: workflow_receipt_status_members_def)
qed code_simp+

datatype task_kind = DISCOVERY | IMPLEMENTATION | TEST | TOOL | REVIEW | INTEGRATION | SOLVER | HANDOFF

fun task_kind_value :: "task_kind \<Rightarrow> string" where
  "task_kind_value DISCOVERY = ''discovery''"
| "task_kind_value IMPLEMENTATION = ''implementation''"
| "task_kind_value TEST = ''test''"
| "task_kind_value TOOL = ''tool''"
| "task_kind_value REVIEW = ''review''"
| "task_kind_value INTEGRATION = ''integration''"
| "task_kind_value SOLVER = ''solver''"
| "task_kind_value HANDOFF = ''handoff''"

definition task_kind_members :: "task_kind list" where
  "task_kind_members = [DISCOVERY, IMPLEMENTATION, TEST, TOOL, REVIEW, INTEGRATION, SOLVER, HANDOFF]"

interpretation task_kind_enum: str_enum task_kind_value task_kind_members
proof (unfold_locales, goal_cases)
  case (1 e) then show ?case by (cases e) (simp_all add: task_kind_members_def)
qed code_simp+

datatype task_state = TASK_PLANNED | TASK_READY | TASK_RUNNING | TASK_BLOCKED | TASK_VERIFICATION | TASK_COMPLETED | TASK_REJECTED | TASK_SUPERSEDED

fun task_state_value :: "task_state \<Rightarrow> string" where
  "task_state_value TASK_PLANNED = ''planned''"
| "task_state_value TASK_READY = ''ready''"
| "task_state_value TASK_RUNNING = ''running''"
| "task_state_value TASK_BLOCKED = ''blocked''"
| "task_state_value TASK_VERIFICATION = ''verification''"
| "task_state_value TASK_COMPLETED = ''completed''"
| "task_state_value TASK_REJECTED = ''rejected''"
| "task_state_value TASK_SUPERSEDED = ''superseded''"

definition task_state_members :: "task_state list" where
  "task_state_members = [TASK_PLANNED, TASK_READY, TASK_RUNNING, TASK_BLOCKED, TASK_VERIFICATION, TASK_COMPLETED, TASK_REJECTED, TASK_SUPERSEDED]"

interpretation task_state_enum: str_enum task_state_value task_state_members
proof (unfold_locales, goal_cases)
  case (1 e) then show ?case by (cases e) (simp_all add: task_state_members_def)
qed code_simp+

datatype dispatch_phase = NOT_DISPATCHED | INTENT_PENDING | ACCEPTED | CANCELLATION_REQUESTED | CANCELLATION_ACKNOWLEDGED

fun dispatch_phase_value :: "dispatch_phase \<Rightarrow> string" where
  "dispatch_phase_value NOT_DISPATCHED = ''not_dispatched''"
| "dispatch_phase_value INTENT_PENDING = ''intent_pending''"
| "dispatch_phase_value ACCEPTED = ''accepted''"
| "dispatch_phase_value CANCELLATION_REQUESTED = ''cancellation_requested''"
| "dispatch_phase_value CANCELLATION_ACKNOWLEDGED = ''cancellation_acknowledged''"

definition dispatch_phase_members :: "dispatch_phase list" where
  "dispatch_phase_members = [NOT_DISPATCHED, INTENT_PENDING, ACCEPTED, CANCELLATION_REQUESTED, CANCELLATION_ACKNOWLEDGED]"

interpretation dispatch_phase_enum: str_enum dispatch_phase_value dispatch_phase_members
proof (unfold_locales, goal_cases)
  case (1 e) then show ?case by (cases e) (simp_all add: dispatch_phase_members_def)
qed code_simp+

datatype task_outcome = OUTCOME_NONE | SUCCEEDED | FAILED | CANCELLED | OUTCOME_UNKNOWN

fun task_outcome_value :: "task_outcome \<Rightarrow> string" where
  "task_outcome_value OUTCOME_NONE = ''none''"
| "task_outcome_value SUCCEEDED = ''succeeded''"
| "task_outcome_value FAILED = ''failed''"
| "task_outcome_value CANCELLED = ''cancelled''"
| "task_outcome_value OUTCOME_UNKNOWN = ''unknown''"

definition task_outcome_members :: "task_outcome list" where
  "task_outcome_members = [OUTCOME_NONE, SUCCEEDED, FAILED, CANCELLED, OUTCOME_UNKNOWN]"

interpretation task_outcome_enum: str_enum task_outcome_value task_outcome_members
proof (unfold_locales, goal_cases)
  case (1 e) then show ?case by (cases e) (simp_all add: task_outcome_members_def)
qed code_simp+

datatype effect_kind = READ_ONLY | LOCAL_WRITE | EXTERNAL | DESTRUCTIVE

fun effect_kind_value :: "effect_kind \<Rightarrow> string" where
  "effect_kind_value READ_ONLY = ''read_only''"
| "effect_kind_value LOCAL_WRITE = ''local_write''"
| "effect_kind_value EXTERNAL = ''external''"
| "effect_kind_value DESTRUCTIVE = ''destructive''"

definition effect_kind_members :: "effect_kind list" where
  "effect_kind_members = [READ_ONLY, LOCAL_WRITE, EXTERNAL, DESTRUCTIVE]"

interpretation effect_kind_enum: str_enum effect_kind_value effect_kind_members
proof (unfold_locales, goal_cases)
  case (1 e) then show ?case by (cases e) (simp_all add: effect_kind_members_def)
qed code_simp+

section \<open>Task graphs\<close>

record context_binding =
  cb_artifact_id :: string
  cb_reference :: artifact_reference
  cb_sensitivity :: sensitivity
  cb_candidate :: candidate_identity

definition binding_to_dict :: "context_binding \<Rightarrow> json" where
  "binding_to_dict b = JObj [
     (''artifact_id'', JStr (cb_artifact_id b)),
     (''path'', JStr (ref_path (cb_reference b))),
     (''sha256'', JStr (ref_sha256 (cb_reference b))),
     (''sensitivity'', JStr (sensitivity_value (cb_sensitivity b))),
     (''candidate'', candidate_to_dict (cb_candidate b))]"

record scheduler_budget =
  max_agents :: int
  max_concurrency :: int
  max_reasoning_effort :: string
  max_dispatches :: int
  max_retries :: int
  max_wall_time_seconds :: int
  max_tool_calls :: int
  max_context_bytes_per_dispatch :: int
  max_context_bytes_total :: int
  max_solver_calls :: int
  max_solver_steps :: int
  cost_status :: string
  currency :: "string option"
  max_microunits :: "int option"

definition cost_to_dict :: "scheduler_budget \<Rightarrow> json" where
  "cost_to_dict b = JObj [
     (''status'', JStr (cost_status b)),
     (''currency'', enc_option JStr (currency b)),
     (''max_microunits'', enc_option JInt (max_microunits b))]"

definition budget_to_dict :: "scheduler_budget \<Rightarrow> json" where
  "budget_to_dict b = JObj [
     (''max_agents'', JInt (max_agents b)),
     (''max_concurrency'', JInt (max_concurrency b)),
     (''max_reasoning_effort'', JStr (max_reasoning_effort b)),
     (''max_dispatches'', JInt (max_dispatches b)),
     (''max_retries'', JInt (max_retries b)),
     (''max_wall_time_seconds'', JInt (max_wall_time_seconds b)),
     (''max_tool_calls'', JInt (max_tool_calls b)),
     (''max_context_bytes_per_dispatch'', JInt (max_context_bytes_per_dispatch b)),
     (''max_context_bytes_total'', JInt (max_context_bytes_total b)),
     (''max_solver_calls'', JInt (max_solver_calls b)),
     (''max_solver_steps'', JInt (max_solver_steps b)),
     (''cost'', cost_to_dict b)]"

definition texts_to_json :: "string list \<Rightarrow> json" where
  "texts_to_json xs = JArr (map JStr xs)"

record scheduler_task =
  tk_id :: string
  tk_kind :: task_kind
  dependencies :: "string list"
  tk_role_id :: string
  tk_context_snapshot_id :: string
  required_tools :: "string list"
  required_capabilities :: "string list"
  owned_paths :: "string list"
  worktree_assignment :: "string option"
  tk_effect_kind :: effect_kind
  approval_stops :: "string list"
  evidence_predicate :: "string list"
  review_targets :: "string list"
  terminal_predicate :: "string list"
  wave :: int
  max_attempts :: int

definition task_to_dict :: "scheduler_task \<Rightarrow> json" where
  "task_to_dict t = JObj [
     (''task_id'', JStr (tk_id t)),
     (''kind'', JStr (task_kind_value (tk_kind t))),
     (''dependencies'', texts_to_json (dependencies t)),
     (''role_id'', JStr (tk_role_id t)),
     (''context_snapshot_id'', JStr (tk_context_snapshot_id t)),
     (''required_tools'', texts_to_json (required_tools t)),
     (''required_capabilities'', texts_to_json (required_capabilities t)),
     (''owned_paths'', texts_to_json (owned_paths t)),
     (''worktree_assignment'', enc_option JStr (worktree_assignment t)),
     (''effect_kind'', JStr (effect_kind_value (tk_effect_kind t))),
     (''approval_stops'', texts_to_json (approval_stops t)),
     (''evidence_predicate'', texts_to_json (evidence_predicate t)),
     (''review_targets'', texts_to_json (review_targets t)),
     (''terminal_predicate'', texts_to_json (terminal_predicate t)),
     (''wave'', JInt (wave t)),
     (''max_attempts'', JInt (max_attempts t))]"

record task_graph =
  tg_candidate :: candidate_identity
  agent_registry :: artifact_reference
  tg_tool_registry :: artifact_reference
  orchestration_request :: artifact_reference
  worktree_plan :: "artifact_reference option"
  tg_contexts :: "context_binding list"
  tg_budget :: scheduler_budget
  graph_tasks :: "scheduler_task list"

definition graph_to_dict :: "task_graph \<Rightarrow> json" where
  "graph_to_dict g = JObj [
     (''candidate'', candidate_to_dict (tg_candidate g)),
     (''agent_registry'', reference_to_dict (agent_registry g)),
     (''tool_registry'', reference_to_dict (tg_tool_registry g)),
     (''orchestration_request'', reference_to_dict (orchestration_request g)),
     (''worktree_plan'', enc_option reference_to_dict (worktree_plan g)),
     (''contexts'', JArr (map binding_to_dict (tg_contexts g))),
     (''budget'', budget_to_dict (tg_budget g)),
     (''tasks'', JArr (map task_to_dict (graph_tasks g)))]"

section \<open>Scheduler states\<close>

record blocker =
  bl_code :: string
  bl_references :: "string list"

definition blocker_to_dict :: "blocker \<Rightarrow> json" where
  "blocker_to_dict b = JObj [(''code'', JStr (bl_code b)), (''references'', texts_to_json (bl_references b))]"

record task_projection =
  pj_task_id :: string
  pj_state :: task_state
  pj_dispatch_phase :: dispatch_phase
  pj_outcome :: task_outcome
  pj_attempt :: int
  pj_fence :: int
  pj_blockers :: "blocker list"

definition projection_to_dict :: "task_projection \<Rightarrow> json" where
  "projection_to_dict p = JObj [
     (''task_id'', JStr (pj_task_id p)),
     (''state'', JStr (task_state_value (pj_state p))),
     (''dispatch_phase'', JStr (dispatch_phase_value (pj_dispatch_phase p))),
     (''outcome'', JStr (task_outcome_value (pj_outcome p))),
     (''attempt'', JInt (pj_attempt p)),
     (''fence'', JInt (pj_fence p)),
     (''blockers'', JArr (map blocker_to_dict (pj_blockers p)))]"

record scheduler_state =
  ss_graph_id :: string
  ss_candidate :: candidate_identity
  state_tasks :: "task_projection list"
  ready_order :: "string list"
  lease_ids :: "string list"
  message_ids :: "string list"
  budget_ledger_id :: string
  worktree_lease_ids :: "string list"
  event_sequence :: int
  event_head_sha256 :: string

definition state_to_dict :: "scheduler_state \<Rightarrow> json" where
  "state_to_dict s = JObj [
     (''graph_id'', JStr (ss_graph_id s)),
     (''candidate'', candidate_to_dict (ss_candidate s)),
     (''tasks'', JArr (map projection_to_dict (state_tasks s))),
     (''ready_order'', texts_to_json (ready_order s)),
     (''lease_ids'', texts_to_json (lease_ids s)),
     (''message_ids'', texts_to_json (message_ids s)),
     (''budget_ledger_id'', JStr (budget_ledger_id s)),
     (''worktree_lease_ids'', texts_to_json (worktree_lease_ids s)),
     (''event_sequence'', JInt (event_sequence s)),
     (''event_head_sha256'', JStr (event_head_sha256 s))]"

section \<open>Workflow epochs\<close>

record workflow_receipt =
  rc_type :: string
  rc_id :: string
  rc_path :: string
  rc_producer :: string
  rc_status :: workflow_receipt_status

definition receipt_to_dict :: "workflow_receipt \<Rightarrow> json" where
  "receipt_to_dict r = JObj [
     (''artifact_type'', JStr (rc_type r)),
     (''artifact_id'', JStr (rc_id r)),
     (''path'', JStr (rc_path r)),
     (''producer'', JStr (rc_producer r)),
     (''status'', JStr (receipt_status_value (rc_status r)))]"

record workflow_epoch_event =
  ee_sequence :: int
  ee_epoch_sequence :: int
  ee_previous_event_id :: "string option"
  ee_cause :: workflow_epoch_cause
  ee_plan_id :: string
  ee_predecessor_plan_id :: "string option"
  ee_predecessor_head_id :: "string option"
  ee_predecessor_state_id :: "string option"
  ee_predecessor_outcome_id :: "string option"
  ee_candidate :: candidate_identity
  ee_graph_id :: string
  ee_scheduler_state_id :: string
  ee_scheduler_event_sequence :: int
  ee_scheduler_event_head_id :: string
  ee_idempotency_key :: string
  ee_producer :: string
  ee_source_state_id :: "string option"
  ee_workflow_event_id :: "string option"
  ee_workflow_event_path :: "string option"
  ee_workflow_state_id :: "string option"
  ee_workflow_state_path :: "string option"
  ee_outcome_id :: "string option"
  ee_outcome_path :: "string option"
  ee_receipts :: "workflow_receipt list"
  ee_recorded_at :: string

definition epoch_event_to_dict :: "workflow_epoch_event \<Rightarrow> json" where
  "epoch_event_to_dict e = JObj [
     (''sequence'', JInt (ee_sequence e)),
     (''epoch_sequence'', JInt (ee_epoch_sequence e)),
     (''previous_event_id'', enc_option JStr (ee_previous_event_id e)),
     (''cause'', JStr (epoch_cause_value (ee_cause e))),
     (''plan_id'', JStr (ee_plan_id e)),
     (''predecessor_plan_id'', enc_option JStr (ee_predecessor_plan_id e)),
     (''predecessor_terminal_event_head_id'', enc_option JStr (ee_predecessor_head_id e)),
     (''predecessor_state_id'', enc_option JStr (ee_predecessor_state_id e)),
     (''predecessor_outcome_id'', enc_option JStr (ee_predecessor_outcome_id e)),
     (''candidate'', candidate_to_dict (ee_candidate e)),
     (''graph_id'', JStr (ee_graph_id e)),
     (''scheduler_state_id'', JStr (ee_scheduler_state_id e)),
     (''scheduler_event_sequence'', JInt (ee_scheduler_event_sequence e)),
     (''scheduler_event_head_id'', JStr (ee_scheduler_event_head_id e)),
     (''idempotency_key'', JStr (ee_idempotency_key e)),
     (''producer'', JStr (ee_producer e)),
     (''source_state_id'', enc_option JStr (ee_source_state_id e)),
     (''workflow_event_id'', enc_option JStr (ee_workflow_event_id e)),
     (''workflow_event_path'', enc_option JStr (ee_workflow_event_path e)),
     (''workflow_state_id'', enc_option JStr (ee_workflow_state_id e)),
     (''workflow_state_path'', enc_option JStr (ee_workflow_state_path e)),
     (''outcome_id'', enc_option JStr (ee_outcome_id e)),
     (''outcome_path'', enc_option JStr (ee_outcome_path e)),
     (''receipts'', JArr (map receipt_to_dict (ee_receipts e))),
     (''recorded_at'', JStr (ee_recorded_at e))]"

record workflow_epoch_head =
  eh_plan_id :: string
  eh_predecessor_plan_id :: "string option"
  eh_predecessor_head_id :: "string option"
  eh_predecessor_state_id :: "string option"
  eh_predecessor_outcome_id :: "string option"
  eh_candidate :: candidate_identity
  eh_graph_id :: string
  eh_sequence :: int
  eh_epoch_sequence :: int
  eh_current_event_head_id :: string
  eh_phase :: workflow_epoch_phase
  eh_scheduler_state_id :: string
  eh_scheduler_event_sequence :: int
  eh_scheduler_event_head_id :: string
  eh_idempotency_key :: string
  eh_producer :: string
  eh_source_state_id :: "string option"
  eh_workflow_event_id :: "string option"
  eh_workflow_event_path :: "string option"
  eh_workflow_state_id :: "string option"
  eh_workflow_state_path :: "string option"
  eh_outcome_id :: "string option"
  eh_outcome_path :: "string option"
  eh_receipts :: "workflow_receipt list"
  eh_recorded_at :: string
  eh_terminal_at :: "string option"

definition epoch_head_to_dict :: "workflow_epoch_head \<Rightarrow> json" where
  "epoch_head_to_dict h = JObj [
     (''plan_id'', JStr (eh_plan_id h)),
     (''predecessor_plan_id'', enc_option JStr (eh_predecessor_plan_id h)),
     (''predecessor_terminal_event_head_id'', enc_option JStr (eh_predecessor_head_id h)),
     (''predecessor_state_id'', enc_option JStr (eh_predecessor_state_id h)),
     (''predecessor_outcome_id'', enc_option JStr (eh_predecessor_outcome_id h)),
     (''candidate'', candidate_to_dict (eh_candidate h)),
     (''graph_id'', JStr (eh_graph_id h)),
     (''sequence'', JInt (eh_sequence h)),
     (''epoch_sequence'', JInt (eh_epoch_sequence h)),
     (''current_event_head_id'', JStr (eh_current_event_head_id h)),
     (''phase'', JStr (epoch_phase_value (eh_phase h))),
     (''scheduler_state_id'', JStr (eh_scheduler_state_id h)),
     (''scheduler_event_sequence'', JInt (eh_scheduler_event_sequence h)),
     (''scheduler_event_head_id'', JStr (eh_scheduler_event_head_id h)),
     (''idempotency_key'', JStr (eh_idempotency_key h)),
     (''producer'', JStr (eh_producer h)),
     (''source_state_id'', enc_option JStr (eh_source_state_id h)),
     (''workflow_event_id'', enc_option JStr (eh_workflow_event_id h)),
     (''workflow_event_path'', enc_option JStr (eh_workflow_event_path h)),
     (''workflow_state_id'', enc_option JStr (eh_workflow_state_id h)),
     (''workflow_state_path'', enc_option JStr (eh_workflow_state_path h)),
     (''outcome_id'', enc_option JStr (eh_outcome_id h)),
     (''outcome_path'', enc_option JStr (eh_outcome_path h)),
     (''receipts'', JArr (map receipt_to_dict (eh_receipts h))),
     (''recorded_at'', JStr (eh_recorded_at h)),
     (''terminal_at'', enc_option JStr (eh_terminal_at h))]"

end
