(* ===== verification/TaskGraph.thy ===== *)
theory TaskGraph
  imports SchedulerDomain "HOL-Library.Sublist"
begin

text \<open>
  The graph algorithms of \<open>application/scheduler_contracts.py\<close>: the validation of the dependency
  graph by depth-first search, the ranks that order ready tasks, and the ownership of paths.
\<close>

section \<open>Validation\<close>

text \<open>\<open>{item.task_id: item for item in tasks}\<close>: the last task with an identifier wins.\<close>

definition by_id :: "scheduler_task list \<Rightarrow> string \<Rightarrow> scheduler_task option" where
  "by_id tasks = map_of (rev (map (\<lambda>t. (tk_id t, t)) tasks))"

abbreviation task_ids :: "scheduler_task list \<Rightarrow> string set" where
  "task_ids tasks \<equiv> set (map tk_id tasks)"

lemma dom_by_id: "dom (by_id tasks) = task_ids tasks"
  by (simp add: by_id_def dom_map_of_conv_image_fst image_image)

text \<open>
  \<open>visit\<close> adds an identifier to \<open>temporary\<close>, visits the dependencies and removes it again, so on
  every return the set is what it was at the call: it is passed down, and only \<open>permanent\<close> is
  threaded.  The code recurses without a guard of its own; the first argument is the number of nested
  calls the interpreter allows, and a deeper chain raises \<open>RecursionError\<close>.
\<close>

fun visit_task :: "nat \<Rightarrow> scheduler_task list \<Rightarrow> string set \<Rightarrow> string set \<Rightarrow> string \<Rightarrow> string set result"
  and visit_tasks :: "nat \<Rightarrow> scheduler_task list \<Rightarrow> string set \<Rightarrow> string set \<Rightarrow> string list \<Rightarrow> string set result"
where
  "visit_task 0 tasks temporary permanent i = Inl RecursionError"
| "visit_task (Suc depth) tasks temporary permanent i =
     (if i \<in> temporary then Inl (SchedulerContractError DependencyCycle)
      else if i \<in> permanent then Inr permanent
      else (case by_id tasks i of
          None \<Rightarrow> Inl KeyError
        | Some t \<Rightarrow> bindR (visit_tasks depth tasks (insert i temporary) permanent (dependencies t))
            (\<lambda>permanent. Inr (insert i permanent))))"
| "visit_tasks depth tasks temporary permanent [] = Inr permanent"
| "visit_tasks depth tasks temporary permanent (d # ds) =
     bindR (visit_task depth tasks temporary permanent d) (\<lambda>permanent.
       visit_tasks depth tasks temporary permanent ds)"

definition check_references :: "scheduler_task list \<Rightarrow> scheduler_task \<Rightarrow> unit result" where
  "check_references tasks t =
     bindR (require (\<not> (tk_id t \<in> set (dependencies t) \<or> tk_id t \<in> set (review_targets t)))
       (SchedulerContractError SelfReference)) (\<lambda>_.
     require (set (dependencies t) \<subseteq> task_ids tasks \<and> set (review_targets t) \<subseteq> task_ids tasks)
       (SchedulerContractError UnknownTask))"

definition validate_dag :: "nat \<Rightarrow> scheduler_task list \<Rightarrow> unit result" where
  "validate_dag depth tasks =
     bindR (require (card (task_ids tasks) = length tasks) (SchedulerContractError DuplicateTask)) (\<lambda>_.
     bindR (mapR (check_references tasks) tasks) (\<lambda>_.
     bindR (visit_tasks depth tasks {} {} (sort (remdups (map tk_id tasks)))) (\<lambda>_. Inr ())))"

section \<open>Ranks\<close>

text \<open>
  \<open>rank\<close> of \<open>topological_ranks\<close> with its memo \<open>result\<close>.  The depth counts nested calls of \<open>rank\<close>;
  the interpreter uses two frames for each, since the maximum is taken over a generator.
\<close>

fun task_rank :: "nat \<Rightarrow> scheduler_task list \<Rightarrow> (string \<rightharpoonup> nat) \<Rightarrow> string \<Rightarrow>
    ((string \<rightharpoonup> nat) \<times> nat) result"
  and dependency_ranks :: "nat \<Rightarrow> scheduler_task list \<Rightarrow> (string \<rightharpoonup> nat) \<Rightarrow> string list \<Rightarrow>
    ((string \<rightharpoonup> nat) \<times> nat list) result"
where
  "task_rank 0 tasks memo i = Inl RecursionError"
| "task_rank (Suc depth) tasks memo i = (case memo i of Some n \<Rightarrow> Inr (memo, n)
     | None \<Rightarrow> (case by_id tasks i of None \<Rightarrow> Inl KeyError
       | Some t \<Rightarrow> bindR (dependency_ranks depth tasks memo (dependencies t)) (\<lambda>(memo, ns).
           let n = (if dependencies t = [] then 0 else 1 + Max (set ns)) in
           Inr (memo(i \<mapsto> n), n))))"
| "dependency_ranks depth tasks memo [] = Inr (memo, [])"
| "dependency_ranks depth tasks memo (d # ds) =
     bindR (task_rank depth tasks memo d) (\<lambda>(memo, n).
     bindR (dependency_ranks depth tasks memo ds) (\<lambda>(memo, ns). Inr (memo, n # ns)))"

definition topological_ranks :: "nat \<Rightarrow> scheduler_task list \<Rightarrow> (string \<rightharpoonup> nat) result" where
  "topological_ranks depth tasks =
     bindR (dependency_ranks depth tasks Map.empty (sort (remdups (map tk_id tasks))))
       (\<lambda>(memo, ns). Inr memo)"

section \<open>Path ownership\<close>

definition paths_overlap :: "string \<Rightarrow> string \<Rightarrow> bool" where
  "paths_overlap left right =
     (left = right \<or> starts (right @ ''/'') left \<or> starts (left @ ''/'') right)"

definition path_within :: "string \<Rightarrow> string \<Rightarrow> bool" where
  "path_within path base = (path = base \<or> starts (base @ ''/'') path)"

definition paths_within :: "string list \<Rightarrow> string list \<Rightarrow> bool" where
  "paths_within paths roots = list_all (\<lambda>p. list_ex (path_within p) roots) paths"

fun claim_paths :: "string \<Rightarrow> string list \<Rightarrow> (string \<times> string) list \<Rightarrow>
    (string \<times> string) list result" where
  "claim_paths owner [] owners = Inr owners"
| "claim_paths owner (p # ps) owners =
     (if list_ex (\<lambda>(q, existing). owner \<noteq> existing \<and> paths_overlap p q) owners
      then Inl (SchedulerContractError PathOverlap)
      else claim_paths owner ps (owners @ [(p, owner)]))"

fun claim_all :: "scheduler_task list \<Rightarrow> (string \<times> string) list \<Rightarrow> (string \<times> string) list result" where
  "claim_all [] owners = Inr owners"
| "claim_all (t # ts) owners =
     bindR (claim_paths (tk_id t) (owned_paths t) owners) (claim_all ts)"

definition validate_path_ownership :: "scheduler_task list \<Rightarrow> unit result" where
  "validate_path_ownership tasks = bindR (claim_all tasks []) (\<lambda>_. Inr ())"

section \<open>What validation establishes\<close>

definition dependency_edges :: "scheduler_task list \<Rightarrow> (string \<times> string) set" where
  "dependency_edges tasks = {(tk_id t, d) | t d. t \<in> set tasks \<and> d \<in> set (dependencies t)}"

definition closed_graph :: "scheduler_task list \<Rightarrow> bool" where
  "closed_graph tasks = (distinct (map tk_id tasks) \<and> (\<forall>t \<in> set tasks.
     set (dependencies t) \<subseteq> task_ids tasks \<and> set (review_targets t) \<subseteq> task_ids tasks \<and>
     tk_id t \<notin> set (dependencies t) \<and> tk_id t \<notin> set (review_targets t)))"

definition valid_dag :: "scheduler_task list \<Rightarrow> bool" where
  "valid_dag tasks = (closed_graph tasks \<and> acyclic (dependency_edges tasks))"

lemma by_id_iff:
  assumes "distinct (map tk_id tasks)"
  shows "by_id tasks i = Some t \<longleftrightarrow> t \<in> set tasks \<and> tk_id t = i"
proof -
  have "distinct (map fst (map (\<lambda>t. (tk_id t, t)) tasks))" using assms by (simp add: comp_def)
  then show ?thesis
    unfolding by_id_def
    by (subst map_of_eq_Some_iff) (auto simp: rev_map[symmetric])
qed

lemma edges_by_id:
  assumes "distinct (map tk_id tasks)"
  shows "(i, d) \<in> dependency_edges tasks \<longleftrightarrow> (\<exists>t. by_id tasks i = Some t \<and> d \<in> set (dependencies t))"
  by (auto simp: dependency_edges_def by_id_iff[OF assms])

text \<open>The permanent set is closed under dependencies and carries a height that they decrease.\<close>

definition settled :: "scheduler_task list \<Rightarrow> string set \<Rightarrow> bool" where
  "settled tasks P = (\<exists>h :: string \<Rightarrow> nat. \<forall>i \<in> P. \<forall>t. by_id tasks i = Some t \<longrightarrow>
     (\<forall>d \<in> set (dependencies t). d \<in> P \<and> h d < h i))"

lemma settled_insert:
  assumes "settled tasks P" and t: "by_id tasks i = Some t" and deps: "set (dependencies t) \<subseteq> P"
    and new: "i \<notin> P"
  shows "settled tasks (insert i P)"
proof -
  obtain h :: "string \<Rightarrow> nat" where h: "\<forall>j \<in> P. \<forall>t. by_id tasks j = Some t \<longrightarrow>
      (\<forall>d \<in> set (dependencies t). d \<in> P \<and> h d < h j)"
    using assms(1) by (auto simp: settled_def)
  define h' where "h' = h(i := Suc (Max (insert 0 (h ` set (dependencies t)))))"
  have "h d < Suc (Max (insert 0 (h ` set (dependencies t))))" if "d \<in> set (dependencies t)" for d
    using that by (simp add: less_Suc_eq_le)
  then have "\<forall>j \<in> insert i P. \<forall>t. by_id tasks j = Some t \<longrightarrow>
      (\<forall>d \<in> set (dependencies t). d \<in> insert i P \<and> h' d < h' j)"
    using h t deps new by (auto simp: h'_def)
  then show ?thesis unfolding settled_def by blast
qed

lemma visit_sound:
  "visit_task depth tasks temporary permanent i = Inr P \<Longrightarrow> settled tasks permanent \<Longrightarrow>
     permanent \<inter> temporary = {} \<Longrightarrow>
     settled tasks P \<and> insert i permanent \<subseteq> P \<and> P \<inter> temporary = {}"
  "visit_tasks depth tasks temporary permanent ds = Inr P \<Longrightarrow> settled tasks permanent \<Longrightarrow>
     permanent \<inter> temporary = {} \<Longrightarrow>
     settled tasks P \<and> set ds \<union> permanent \<subseteq> P \<and> P \<inter> temporary = {}"
proof (induction depth tasks temporary permanent i and depth tasks temporary permanent ds
    arbitrary: P and P rule: visit_task_visit_tasks.induct)
  case (2 depth tasks temporary permanent i)
  show ?case
  proof (cases "i \<in> permanent")
    case True
    then show ?thesis using 2(2,3,4) by (auto split: if_splits)
  next
    case False
    then obtain t Q where t: "i \<notin> temporary" "by_id tasks i = Some t"
      and Q: "visit_tasks depth tasks (insert i temporary) permanent (dependencies t) = Inr Q"
        "P = insert i Q"
      using 2(2) by (auto simp: bindR_eq_Inr split: if_splits option.splits)
    have "settled tasks Q \<and> set (dependencies t) \<union> permanent \<subseteq> Q \<and> Q \<inter> insert i temporary = {}"
      using 2(1)[OF t(1) False t(2) Q(1)] 2(3,4) False by auto
    then show ?thesis using settled_insert[OF _ t(2)] Q(2) t(1) by auto
  qed
next
  case (4 depth tasks temporary permanent d ds)
  obtain Q where Q: "visit_task depth tasks temporary permanent d = Inr Q"
    "visit_tasks depth tasks temporary Q ds = Inr P"
    using 4(3) by (auto simp: bindR_eq_Inr)
  have "settled tasks Q \<and> insert d permanent \<subseteq> Q \<and> Q \<inter> temporary = {}"
    using 4(1)[OF Q(1)] 4(4,5) by blast
  then show ?case using 4(2)[OF Q] by auto
qed auto

lemma visit_complete:
  assumes closed: "closed_graph tasks" and dag: "acyclic (dependency_edges tasks)"
  shows "i \<in> task_ids tasks \<Longrightarrow> temporary \<subseteq> task_ids tasks \<Longrightarrow>
      \<forall>j \<in> temporary. (j, i) \<in> (dependency_edges tasks)\<^sup>+ \<Longrightarrow>
      visit_task depth tasks temporary permanent i = Inl e \<Longrightarrow>
      e = RecursionError \<and> depth < card (task_ids tasks - temporary)"
    and "set ds \<subseteq> task_ids tasks \<Longrightarrow> temporary \<subseteq> task_ids tasks \<Longrightarrow>
      \<forall>j \<in> temporary. \<forall>d \<in> set ds. (j, d) \<in> (dependency_edges tasks)\<^sup>+ \<Longrightarrow>
      visit_tasks depth tasks temporary permanent ds = Inl e \<Longrightarrow>
      e = RecursionError \<and> depth < card (task_ids tasks - temporary)"
  using closed dag
proof (induction depth tasks temporary permanent i and depth tasks temporary permanent ds
    rule: visit_task_visit_tasks.induct)
  case (1 tasks temporary permanent i)
  then have "i \<in> task_ids tasks - temporary" by (auto simp: acyclic_def)
  then have "0 < card (task_ids tasks - temporary)" by (auto simp: card_gt_0_iff)
  then show ?case using "1.prems"(4) by simp
next
  case (2 depth tasks temporary permanent i)
  note d = conjunct1[OF iffD1[OF closed_graph_def "2.prems"(5)]]
  have fresh: "i \<notin> temporary" using "2.prems"(3,6) by (auto simp: acyclic_def)
  obtain t where t: "by_id tasks i = Some t" using "2.prems"(1) dom_by_id[of tasks] by blast
  have E: "(i, x) \<in> dependency_edges tasks" if "x \<in> set (dependencies t)" for x
    using that t edges_by_id[OF d] by blast
  have sub: "set (dependencies t) \<subseteq> task_ids tasks"
    using t "2.prems"(5) by (auto simp: by_id_iff[OF d] closed_graph_def)
  have new: "i \<notin> permanent" and
    err: "visit_tasks depth tasks (insert i temporary) permanent (dependencies t) = Inl e"
    using "2.prems"(4) fresh t by (auto simp: bindR_eq_Inl split: if_splits)
  have "\<forall>j \<in> insert i temporary. \<forall>x \<in> set (dependencies t). (j, x) \<in> (dependency_edges tasks)\<^sup>+"
    using E "2.prems"(3) by (auto intro: trancl_into_trancl)
  from "2.IH"[OF fresh new t sub _ this err "2.prems"(5,6)] "2.prems"(1,2)
  have "e = RecursionError" "depth < card (task_ids tasks - insert i temporary)" by auto
  moreover have "card (task_ids tasks - insert i temporary) < card (task_ids tasks - temporary)"
    using fresh "2.prems"(1) by (intro psubset_card_mono) auto
  ultimately show ?case by simp
next
  case (4 depth tasks temporary permanent d ds)
  then show ?case by (cases "visit_task depth tasks temporary permanent d") auto
qed auto

lemma card_ids: "card (task_ids tasks) = length tasks \<longleftrightarrow> distinct (map tk_id tasks)"
  by (metis card_distinct distinct_card length_map)

lemma validate_references:
  "(\<exists>us. mapR (check_references tasks) tasks = Inr us) \<and> card (task_ids tasks) = length tasks \<longleftrightarrow>
    closed_graph tasks"
proof -
  have "mapR (check_references tasks) tasks = Inr us \<longleftrightarrow>
      us = map (\<lambda>_. ()) tasks \<and> (\<forall>t \<in> set tasks. check_references tasks t = Inr ())" for us
    by (rule mapR_units)
  then have "(\<exists>us. mapR (check_references tasks) tasks = Inr us) \<longleftrightarrow>
      (\<forall>t \<in> set tasks. check_references tasks t = Inr ())" by blast
  then show ?thesis
    by (simp only: bindR_eq_Inr require_eq_Inr card_ids closed_graph_def check_references_def) blast
qed

lemma validate_dag_sound:
  assumes "validate_dag depth tasks = Inr ()"
  shows "valid_dag tasks"
proof -
  let ?ids = "sort (remdups (map tk_id tasks))"
  obtain us P where "card (task_ids tasks) = length tasks" "mapR (check_references tasks) tasks = Inr us"
    and visit: "visit_tasks depth tasks {} {} ?ids = Inr P"
    using assms by (auto simp: validate_dag_def bindR_eq_Inr require_eq_Inr)
  then have c: "closed_graph tasks" using validate_references by blast
  from visit_sound(2)[OF visit] have P: "settled tasks P" "task_ids tasks \<subseteq> P"
    by (auto simp: settled_def)
  obtain h :: "string \<Rightarrow> nat" where h: "\<forall>j \<in> P. \<forall>t. by_id tasks j = Some t \<longrightarrow>
      (\<forall>d \<in> set (dependencies t). d \<in> P \<and> h d < h j)"
    using P(1) unfolding settled_def by blast
  have "distinct (map tk_id tasks)" using c by (simp add: closed_graph_def)
  then have "h d < h j" if "(j, d) \<in> dependency_edges tasks" for j d
    using that h P(2) dom_by_id[of tasks] by (fastforce simp: edges_by_id)
  then have "(dependency_edges tasks)\<inverse> \<subseteq> measure h" by auto
  then have "wf ((dependency_edges tasks)\<inverse>)" using wf_measure wf_subset by blast
  then have "acyclic (dependency_edges tasks)" using wf_acyclic acyclic_converse by blast
  then show ?thesis using c by (simp add: valid_dag_def)
qed

lemma validate_dag_complete:
  assumes "valid_dag tasks" and "validate_dag depth tasks = Inl e"
  shows "e = RecursionError \<and> depth < length tasks"
proof -
  let ?ids = "sort (remdups (map tk_id tasks))"
  have c: "closed_graph tasks" "acyclic (dependency_edges tasks)" using assms(1) by (simp_all add: valid_dag_def)
  then obtain us where "mapR (check_references tasks) tasks = Inr us" and card: "card (task_ids tasks) = length tasks"
    using validate_references by blast
  then have "visit_tasks depth tasks {} {} ?ids = Inl e"
    using assms(2) by (auto simp: validate_dag_def bindR_eq_Inl)
  from visit_complete(2)[OF c _ _ _ this] show ?thesis using card by simp
qed

section \<open>What the ranks are\<close>

definition rank_value :: "(string \<rightharpoonup> nat) \<Rightarrow> scheduler_task \<Rightarrow> nat" where
  "rank_value m t = (if dependencies t = [] then 0
     else 1 + Max ((\<lambda>d. the (m d)) ` set (dependencies t)))"

text \<open>A memo is consistent: its entries obey the recursion of \<open>rank\<close>.\<close>

definition consistent :: "scheduler_task list \<Rightarrow> (string \<rightharpoonup> nat) \<Rightarrow> bool" where
  "consistent tasks m = (\<forall>i n. m i = Some n \<longrightarrow> (\<exists>t. by_id tasks i = Some t \<and>
     set (dependencies t) \<subseteq> dom m \<and> n = rank_value m t))"

lemma rank_value_mono:
  assumes "m \<subseteq>\<^sub>m m'" and "set (dependencies t) \<subseteq> dom m"
  shows "rank_value m' t = rank_value m t"
proof -
  have "m' d = m d" if "d \<in> set (dependencies t)" for d
    using assms that unfolding map_le_def by (metis subsetD)
  then show ?thesis by (simp add: rank_value_def)
qed

lemma consistent_update:
  assumes c: "consistent tasks m" and t: "by_id tasks i = Some t"
    and deps: "set (dependencies t) \<subseteq> dom m"
  shows "consistent tasks (m(i \<mapsto> rank_value m t)) \<and> m \<subseteq>\<^sub>m m(i \<mapsto> rank_value m t)"
proof (cases "m i")
  case (Some n)
  then have "n = rank_value m t" using c t unfolding consistent_def by (metis option.inject)
  then show ?thesis using c Some by (simp add: fun_upd_idem)
next
  case None
  then have le: "m \<subseteq>\<^sub>m m(i \<mapsto> rank_value m t)" by (auto simp: map_le_def)
  have "consistent tasks (m(i \<mapsto> rank_value m t))"
    unfolding consistent_def
  proof (intro allI impI)
    fix j n assume j: "(m(i \<mapsto> rank_value m t)) j = Some n"
    show "\<exists>u. by_id tasks j = Some u \<and> set (dependencies u) \<subseteq> dom (m(i \<mapsto> rank_value m t)) \<and>
        n = rank_value (m(i \<mapsto> rank_value m t)) u"
    proof (cases "j = i")
      case True
      then show ?thesis using j t deps rank_value_mono[OF le deps] by auto
    next
      case False
      then obtain u where "by_id tasks j = Some u" "set (dependencies u) \<subseteq> dom m" "n = rank_value m u"
        using c j unfolding consistent_def by (metis fun_upd_apply)
      then show ?thesis using rank_value_mono[OF le] by auto
    qed
  qed
  then show ?thesis using le by blast
qed

lemma ranks_value:
  assumes closed: "closed_graph tasks" and dag: "acyclic (dependency_edges tasks)"
  shows "i \<in> task_ids tasks \<Longrightarrow> A \<subseteq> task_ids tasks \<Longrightarrow>
      \<forall>j \<in> A. (j, i) \<in> (dependency_edges tasks)\<^sup>+ \<Longrightarrow>
      card (task_ids tasks - A) \<le> depth \<Longrightarrow> consistent tasks m \<Longrightarrow>
      \<exists>m' n. task_rank depth tasks m i = Inr (m', n) \<and> consistent tasks m' \<and> m \<subseteq>\<^sub>m m' \<and> m' i = Some n"
    and "set ds \<subseteq> task_ids tasks \<Longrightarrow> A \<subseteq> task_ids tasks \<Longrightarrow>
      \<forall>j \<in> A. \<forall>d \<in> set ds. (j, d) \<in> (dependency_edges tasks)\<^sup>+ \<Longrightarrow>
      card (task_ids tasks - A) \<le> depth \<Longrightarrow> consistent tasks m \<Longrightarrow>
      \<exists>m' ns. dependency_ranks depth tasks m ds = Inr (m', ns) \<and> consistent tasks m' \<and> m \<subseteq>\<^sub>m m' \<and>
        set ds \<subseteq> dom m' \<and> ns = map (\<lambda>d. the (m' d)) ds"
  using closed dag
proof (induction depth tasks m i and depth tasks m ds arbitrary: A and A
    rule: task_rank_dependency_ranks.induct)
  case (1 tasks m i)
  have "i \<notin> A" using "1.prems"(3,7) by (auto simp: acyclic_def)
  then have "i \<in> task_ids tasks - A" using "1.prems"(1) by blast
  then show ?case using "1.prems"(4) by (metis List.finite_set card_0_eq empty_iff finite_Diff le_zero_eq)
next
  case (2 depth tasks m i)
  note d = conjunct1[OF iffD1[OF closed_graph_def "2.prems"(6)]]
  have fresh: "i \<notin> A" using "2.prems"(3,7) by (auto simp: acyclic_def)
  obtain t where t: "by_id tasks i = Some t" using "2.prems"(1) dom_by_id[of tasks] by blast
  have sub: "set (dependencies t) \<subseteq> task_ids tasks"
    using t "2.prems"(6) by (auto simp: by_id_iff[OF d] closed_graph_def)
  show ?case
  proof (cases "m i")
    case (Some n)
    then show ?thesis using "2.prems"(5) by auto
  next
    case None
    have anc: "\<forall>j \<in> insert i A. \<forall>x \<in> set (dependencies t). (j, x) \<in> (dependency_edges tasks)\<^sup>+"
      using "2.prems"(3) t edges_by_id[OF d] by (blast intro: trancl_into_trancl)
    have "card (task_ids tasks - insert i A) < card (task_ids tasks - A)"
      using fresh "2.prems"(1) by (intro psubset_card_mono) auto
    then have "card (task_ids tasks - insert i A) \<le> depth" using "2.prems"(4) by simp
    from "2.IH"[OF None t sub _ anc this "2.prems"(5,6,7)] "2.prems"(1,2)
    obtain m' ns where m': "dependency_ranks depth tasks m (dependencies t) = Inr (m', ns)"
      "consistent tasks m'" "m \<subseteq>\<^sub>m m'" "set (dependencies t) \<subseteq> dom m'"
      "ns = map (\<lambda>x. the (m' x)) (dependencies t)" by auto
    have "rank_value m' t = (if dependencies t = [] then 0 else 1 + Max (set ns))"
      by (simp add: rank_value_def m'(5))
    then show ?thesis
      using None t m'(1) consistent_update[OF m'(2) t m'(4)] map_le_trans[OF m'(3)]
      by (auto simp: Let_def)
  qed
next
  case (4 depth tasks m x xs)
  from "4.IH"(1)[of A] "4.prems" obtain m1 n where m1: "task_rank depth tasks m x = Inr (m1, n)"
    "consistent tasks m1" "m \<subseteq>\<^sub>m m1" "m1 x = Some n" by auto
  from "4.IH"(2)[OF m1(1) refl, of A] "4.prems" m1(2) obtain m2 ns where
    m2: "dependency_ranks depth tasks m1 xs = Inr (m2, ns)" "consistent tasks m2" "m1 \<subseteq>\<^sub>m m2"
    "set xs \<subseteq> dom m2" "ns = map (\<lambda>d. the (m2 d)) xs" by auto
  have "m2 x = Some n" using m1(4) m2(3) unfolding map_le_def by (metis domI)
  then show ?case using m1 m2 map_le_trans[OF m1(3) m2(3)] by (auto simp: dom_def)
qed auto

text \<open>A chain of tasks, each a dependency of the one before.\<close>

fun dependency_chain :: "scheduler_task list \<Rightarrow> string list \<Rightarrow> bool" where
  "dependency_chain tasks [] = False"
| "dependency_chain tasks [i] = (i \<in> task_ids tasks)"
| "dependency_chain tasks (i # j # js) =
     ((i, j) \<in> dependency_edges tasks \<and> dependency_chain tasks (j # js))"

lemma topological_ranks_value:
  assumes dag: "valid_dag tasks" and depth: "length tasks \<le> depth"
  obtains m where "topological_ranks depth tasks = Inr m" "dom m = task_ids tasks"
    "\<And>t. t \<in> set tasks \<Longrightarrow> m (tk_id t) = Some (rank_value m t)"
proof -
  let ?ids = "sort (remdups (map tk_id tasks))"
  have c: "closed_graph tasks" "acyclic (dependency_edges tasks)" and d: "distinct (map tk_id tasks)"
    using dag by (simp_all add: valid_dag_def closed_graph_def)
  have "card (task_ids tasks - {}) \<le> depth" using d depth card_ids[of tasks] by (metis Diff_empty)
  from ranks_value(2)[OF c _ _ _ this, of ?ids Map.empty] obtain m ns where
    m: "dependency_ranks depth tasks Map.empty ?ids = Inr (m, ns)" "consistent tasks m"
    "set ?ids \<subseteq> dom m" by (auto simp: consistent_def)
  have "dom m \<subseteq> dom (by_id tasks)" using m(2) unfolding consistent_def by (metis domD domI subsetI)
  then have dom: "dom m = task_ids tasks" using m(3) dom_by_id[of tasks] by auto
  have "m (tk_id t) = Some (rank_value m t)" if in_tasks: "t \<in> set tasks" for t
  proof -
    have "tk_id t \<in> dom m" using dom in_tasks by simp
    then obtain n where n: "m (tk_id t) = Some n" by blast
    then obtain u where "by_id tasks (tk_id t) = Some u" "n = rank_value m u"
      using m(2) by (auto simp: consistent_def)
    moreover have "by_id tasks (tk_id t) = Some t" using in_tasks by_id_iff[OF d] by blast
    ultimately show ?thesis using n by simp
  qed
  then show ?thesis using that m(1) dom by (simp add: topological_ranks_def)
qed

lemma rank_longest_chain:
  assumes dag: "valid_dag tasks" and dom: "dom m = task_ids tasks"
    and eq: "\<And>t. t \<in> set tasks \<Longrightarrow> m (tk_id t) = Some (rank_value m t)"
  shows "dependency_chain tasks (i # js) \<Longrightarrow> length js \<le> the (m i)"
    and "i \<in> task_ids tasks \<Longrightarrow> m i = Some n \<Longrightarrow>
      \<exists>js. dependency_chain tasks (i # js) \<and> length js = n"
proof -
  have edge: "the (m d) < the (m i)" if e: "(i, d) \<in> dependency_edges tasks" for i d
  proof -
    obtain t where t: "t \<in> set tasks" "tk_id t = i" "d \<in> set (dependencies t)"
      using e by (auto simp: dependency_edges_def)
    then have "the (m d) \<le> Max ((\<lambda>d. the (m d)) ` set (dependencies t))" by (intro Max_ge) auto
    moreover have "the (m i) = 1 + Max ((\<lambda>d. the (m d)) ` set (dependencies t))"
      using eq[OF t(1)] t by (auto simp: rank_value_def)
    ultimately show ?thesis by linarith
  qed
  show "dependency_chain tasks (i # js) \<Longrightarrow> length js \<le> the (m i)"
  proof (induction js arbitrary: i)
    case (Cons j js)
    then show ?case using edge[of i j] Cons.IH[of j] by fastforce
  qed simp
  show "i \<in> task_ids tasks \<Longrightarrow> m i = Some n \<Longrightarrow> \<exists>js. dependency_chain tasks (i # js) \<and> length js = n"
  proof (induction n arbitrary: i)
    case 0
    then show ?case by (intro exI[of _ "[]"]) simp
  next
    case (Suc n)
    then obtain t where t: "t \<in> set tasks" "tk_id t = i" by auto
    then have r: "rank_value m t = Suc n" using eq Suc.prems(2) by fastforce
    then have ne: "dependencies t \<noteq> []" and "Max ((\<lambda>d. the (m d)) ` set (dependencies t)) = n"
      by (auto simp: rank_value_def split: if_splits)
    moreover have "Max ((\<lambda>d. the (m d)) ` set (dependencies t)) \<in> (\<lambda>d. the (m d)) ` set (dependencies t)"
      using ne by (intro Max_in) auto
    ultimately obtain d where d: "d \<in> set (dependencies t)" "the (m d) = n" by auto
    have "d \<in> task_ids tasks" using dag t d(1) by (auto simp: valid_dag_def closed_graph_def)
    moreover then have "m d = Some n" using d(2) dom by (metis domD option.sel)
    ultimately obtain js where "dependency_chain tasks (d # js)" "length js = n" using Suc.IH by blast
    moreover have "(i, d) \<in> dependency_edges tasks" using t d(1) by (auto simp: dependency_edges_def)
    ultimately show ?case by (intro exI[of _ "d # js"]) simp
  qed
qed

section \<open>How deep the visit goes\<close>

text \<open>A visit runs out of calls only along a chain of dependencies that is longer than the calls there are.\<close>

lemma visit_deep:
  assumes closed: "closed_graph tasks"
  shows "visit_task depth tasks temporary permanent i = Inl RecursionError \<Longrightarrow> i \<in> task_ids tasks \<Longrightarrow>
      \<exists>js. dependency_chain tasks (i # js) \<and> depth \<le> length js"
    and "visit_tasks depth tasks temporary permanent ds = Inl RecursionError \<Longrightarrow> set ds \<subseteq> task_ids tasks \<Longrightarrow>
      \<exists>d \<in> set ds. \<exists>js. dependency_chain tasks (d # js) \<and> depth \<le> length js"
  using closed
proof (induction depth tasks temporary permanent i and depth tasks temporary permanent ds
    rule: visit_task_visit_tasks.induct)
  case (1 tasks temporary permanent i)
  then show ?case by (intro exI[of _ "[]"]) simp
next
  case (2 depth tasks temporary permanent i)
  note d = conjunct1[OF iffD1[OF closed_graph_def "2.prems"(3)]]
  obtain t where t: "by_id tasks i = Some t" using "2.prems"(2) dom_by_id[of tasks] by blast
  have new: "i \<notin> temporary" "i \<notin> permanent" and
    err: "visit_tasks depth tasks (insert i temporary) permanent (dependencies t) = Inl RecursionError"
    using "2.prems"(1) t by (auto simp: bindR_eq_Inl split: if_splits)
  have "set (dependencies t) \<subseteq> task_ids tasks"
    using t "2.prems"(3) by (auto simp: by_id_iff[OF d] closed_graph_def)
  from "2.IH"[OF new t err this "2.prems"(3)] obtain x js where
    x: "x \<in> set (dependencies t)" "dependency_chain tasks (x # js)" "depth \<le> length js" by blast
  then have "dependency_chain tasks (i # x # js)" using t edges_by_id[OF d] by auto
  then show ?case using x(3) by (intro exI[of _ "x # js"]) simp
next
  case (4 depth tasks temporary permanent d ds)
  show ?case
  proof (cases "visit_task depth tasks temporary permanent d")
    case (Inl e)
    then show ?thesis using "4.IH"(1) "4.prems" by simp
  next
    case (Inr P)
    then show ?thesis using "4.IH"(2)[OF Inr] "4.prems" by auto
  qed
qed auto

text \<open>
  The chain that the visit of a task follows first: each task is the first listed dependency of the
  one before.  Nothing is permanent yet when it is followed, so all its calls are nested.
\<close>

fun leading_chain :: "scheduler_task list \<Rightarrow> string list \<Rightarrow> bool" where
  "leading_chain tasks [] = False"
| "leading_chain tasks [i] = (i \<in> task_ids tasks)"
| "leading_chain tasks (i # j # js) = ((\<exists>t \<in> set tasks. tk_id t = i \<and> dependencies t \<noteq> [] \<and>
     hd (dependencies t) = j) \<and> leading_chain tasks (j # js))"

lemma visit_leading:
  "valid_dag tasks \<Longrightarrow> leading_chain tasks c \<Longrightarrow> depth < length c \<Longrightarrow>
    \<forall>j \<in> temporary. (j, hd c) \<in> (dependency_edges tasks)\<^sup>+ \<Longrightarrow>
    visit_task depth tasks temporary {} (hd c) = Inl RecursionError"
proof (induction tasks c arbitrary: depth temporary rule: leading_chain.induct)
  case (3 tasks i j js)
  have d: "distinct (map tk_id tasks)" and acyclic: "acyclic (dependency_edges tasks)"
    using "3.prems"(1) by (simp_all add: valid_dag_def closed_graph_def)
  obtain t where t: "t \<in> set tasks" "tk_id t = i" "dependencies t \<noteq> []" "hd (dependencies t) = j"
    using "3.prems"(2) by auto
  then obtain ds where ds: "dependencies t = j # ds" by (cases "dependencies t") auto
  have edge: "(i, j) \<in> dependency_edges tasks" using t(1,2) ds by (auto simp: dependency_edges_def)
  show ?case
  proof (cases depth)
    case (Suc n)
    have "by_id tasks i = Some t" using by_id_iff[OF d] t(1,2) by blast
    moreover have "i \<notin> temporary" using "3.prems"(4) acyclic by (auto simp: acyclic_def)
    moreover have "\<forall>k \<in> insert i temporary. (k, hd (j # js)) \<in> (dependency_edges tasks)\<^sup>+"
      using "3.prems"(4) edge by (auto intro: trancl_into_trancl)
    then have "visit_task n tasks (insert i temporary) {} j = Inl RecursionError"
      using "3.IH"[of n "insert i temporary"] "3.prems"(1,2,3) Suc by simp
    ultimately show ?thesis using Suc ds by simp
  qed simp
qed simp_all

lemma validate_dag_deep:
  assumes dag: "valid_dag tasks" and c: "leading_chain tasks c" "hd c = Min (task_ids tasks)" "depth < length c"
  shows "validate_dag depth tasks = Inl RecursionError"
proof -
  let ?ids = "sort (remdups (map tk_id tasks))"
  have "tasks \<noteq> []" using c(1) by (cases "(tasks, c)" rule: leading_chain.cases) auto
  then obtain x xs where ids: "?ids = x # xs" by (cases ?ids) (auto simp: sort_eq_Nil)
  have "x = Min (set (x # xs))" using sorted_sort[of "remdups (map tk_id tasks)"] unfolding ids
    by (intro Min_eqI[symmetric]) auto
  also have "set (x # xs) = task_ids tasks" using arg_cong[OF ids, of set] by simp
  finally have "visit_task depth tasks {} {} x = Inl RecursionError"
    using visit_leading[OF dag c(1,3), of "{}"] c(2) by simp
  then have "visit_tasks depth tasks {} {} ?ids = Inl RecursionError" unfolding ids by simp
  moreover obtain us where "mapR (check_references tasks) tasks = Inr us" "card (task_ids tasks) = length tasks"
    using dag validate_references[of tasks] by (auto simp: valid_dag_def)
  ultimately show ?thesis by (simp add: validate_dag_def)
qed

lemma validate_dag_outcome:
  assumes dag: "valid_dag tasks"
  shows "validate_dag depth tasks = Inr () \<or> validate_dag depth tasks = Inl RecursionError \<and>
    (\<exists>c. dependency_chain tasks c \<and> depth < length c)"
proof (cases "validate_dag depth tasks")
  case (Inl e)
  let ?ids = "sort (remdups (map tk_id tasks))"
  have c: "closed_graph tasks" "acyclic (dependency_edges tasks)" using dag by (simp_all add: valid_dag_def)
  obtain us where "mapR (check_references tasks) tasks = Inr us" "card (task_ids tasks) = length tasks"
    using dag validate_references[of tasks] by (auto simp: valid_dag_def)
  then have err: "visit_tasks depth tasks {} {} ?ids = Inl e"
    using Inl by (auto simp: validate_dag_def bindR_eq_Inl)
  then have "e = RecursionError" using visit_complete(2)[OF c _ _ _ err] by auto
  then show ?thesis using visit_deep(2)[OF c(1), of depth "{}" "{}" ?ids] err Inl
    by (auto simp: less_Suc_eq_le intro: exI[of _ "_ # _"])
qed simp

section \<open>What path ownership means\<close>

definition exclusive :: "(string \<times> string) list \<Rightarrow> bool" where
  "exclusive = sorted_wrt (\<lambda>(q, e) (p, owner). owner = e \<or> \<not> paths_overlap p q)"

definition claims_of :: "scheduler_task list \<Rightarrow> (string \<times> string) list" where
  "claims_of tasks = concat (map (\<lambda>t. map (\<lambda>p. (p, tk_id t)) (owned_paths t)) tasks)"

lemma paths_overlap_sym: "paths_overlap p q = paths_overlap q p"
  by (auto simp: paths_overlap_def)

lemma claim_paths_iff:
  "exclusive owners \<Longrightarrow> claim_paths owner ps owners = Inr owners' \<longleftrightarrow>
    owners' = owners @ map (\<lambda>p. (p, owner)) ps \<and> exclusive owners'"
proof (induction ps arbitrary: owners)
  case Nil
  then show ?case by auto
next
  case (Cons p ps)
  have ex: "exclusive (owners @ [(p, owner)]) \<longleftrightarrow>
      \<not> list_ex (\<lambda>(q, e). owner \<noteq> e \<and> paths_overlap p q) owners"
    using Cons.prems by (auto simp: exclusive_def sorted_wrt_append list_ex_iff)
  have pre: "exclusive (xs @ ys) \<Longrightarrow> exclusive xs" for xs ys
    by (simp add: exclusive_def sorted_wrt_append)
  show ?case
    using Cons.IH[of "owners @ [(p, owner)]"] ex pre[of "owners @ [(p, owner)]"] by auto
qed

lemma claim_all_iff:
  "exclusive owners \<Longrightarrow> claim_all tasks owners = Inr owners' \<longleftrightarrow>
    owners' = owners @ claims_of tasks \<and> exclusive owners'"
proof (induction tasks arbitrary: owners)
  case Nil
  then show ?case by (auto simp: claims_of_def)
next
  case (Cons t ts)
  let ?own = "owners @ map (\<lambda>p. (p, tk_id t)) (owned_paths t)"
  have claims: "owners @ claims_of (t # ts) = ?own @ claims_of ts" by (simp add: claims_of_def)
  have pre: "exclusive (?own @ ys) \<Longrightarrow> exclusive ?own" for ys
    by (simp add: exclusive_def sorted_wrt_append)
  have "claim_all (t # ts) owners = Inr owners' \<longleftrightarrow>
      exclusive ?own \<and> claim_all ts ?own = Inr owners'"
    using claim_paths_iff[OF Cons.prems] by (auto simp: bindR_eq_Inr)
  then show ?case using Cons.IH[of ?own] pre[of "claims_of ts"] unfolding claims by metis
qed

lemma exclusive_iff:
  "exclusive cs \<longleftrightarrow> (\<forall>(p, o1) \<in> set cs. \<forall>(q, o2) \<in> set cs. o1 = o2 \<or> \<not> paths_overlap p q)"
proof (induction cs)
  case Nil
  then show ?case by (simp add: exclusive_def)
next
  case (Cons c cs)
  then show ?case using paths_overlap_sym by (cases c) (fastforce simp: exclusive_def)
qed

lemma path_ownership_iff:
  "validate_path_ownership tasks = Inr () \<longleftrightarrow>
    (\<forall>t \<in> set tasks. \<forall>u \<in> set tasks. tk_id t \<noteq> tk_id u \<longrightarrow>
      (\<forall>p \<in> set (owned_paths t). \<forall>q \<in> set (owned_paths u). \<not> paths_overlap p q))"
proof -
  have "validate_path_ownership tasks = Inr () \<longleftrightarrow> exclusive (claims_of tasks)"
    using claim_all_iff[of "[]" tasks] by (auto simp: validate_path_ownership_def bindR_eq_Inr exclusive_def)
  then show ?thesis by (fastforce simp: exclusive_iff claims_of_def)
qed

lemma starts_prefix: "starts p s \<longleftrightarrow> prefix p s"
  by (auto simp: starts_def prefix_def) (metis append_take_drop_id)

lemma within_both_overlap:
  assumes "path_within x p" and "path_within x q"
  shows "paths_overlap p q"
proof -
  have "prefix (p @ ''/'') (q @ ''/'') \<Longrightarrow> p = q \<or> prefix (p @ ''/'') q" for p q :: string
    by (metis append1_eq_conv prefix_snoc)
  moreover have "path_within x p \<Longrightarrow> path_within x q \<Longrightarrow> x = p \<or> x = q \<or>
      prefix (p @ ''/'') (q @ ''/'') \<or> prefix (q @ ''/'') (p @ ''/'')"
    by (auto simp: path_within_def starts_prefix dest: prefix_same_cases)
  ultimately show ?thesis using assms
    by (auto simp: paths_overlap_def path_within_def starts_prefix)
qed

end
