(* ===== verification/WaitReport.thy ===== *)
theory WaitReport
  imports TaskGraph
begin

text \<open>
  The wait report of \<open>application/scheduler.py\<close>: the enumeration of the simple cycles of a wait-for
  graph with an explicit stack and the choice of the canonical smallest one.  The lemma
  \<open>wait_report_value\<close> says what the report is: the least simple cycle by length and content, or the
  waits when there is no cycle.
\<close>

section \<open>The report\<close>

type_synonym wait_for = "(string \<times> string list) list"

record wait_report =
  wr_kind :: string
  wr_cycle :: "string list"
  wr_blockers :: "string list"

definition normalized :: "wait_for \<Rightarrow> wait_for" where
  "normalized w = map (\<lambda>(n, ts). (n, sort (remdups ts))) (sort_key fst w)"

definition successors :: "wait_for \<Rightarrow> string \<Rightarrow> string list" where
  "successors w n = (case map_of w n of None \<Rightarrow> [] | Some ts \<Rightarrow> ts)"

definition canonical_cycle :: "string list \<Rightarrow> string list" where
  "canonical_cycle path = Min (set (map (\<lambda>i. drop i path @ take i path) [0..<length path]))"

text \<open>
  One turn of the \<open>while\<close> loop goes through the targets of the node it popped.  The head of the list
  is the top of the stack, so \<open>append\<close> puts an entry in front.
\<close>

fun scan_targets ::
  "nat \<Rightarrow> string \<Rightarrow> string list \<Rightarrow> string list \<Rightarrow> (string \<times> string list) list \<Rightarrow> string list list \<Rightarrow>
   (string \<times> string list) list \<times> string list list" where
  "scan_targets n start path [] stack cycles = (stack, cycles)"
| "scan_targets n start path (target # targets) stack cycles =
     (if target = start then
        (let canonical = canonical_cycle path in
         scan_targets n start path targets stack
           (if canonical \<in> set cycles then cycles else cycles @ [canonical]))
      else if target \<notin> set path \<and> length path \<le> n then
        scan_targets n start path targets ((target, path @ [target]) # stack) cycles
      else scan_targets n start path targets stack cycles)"

text \<open>
  The loop ends: a popped entry is replaced by at most as many entries as the graph has edges, each
  with a path one longer, and paths longer than the graph has nodes are not extended.
\<close>

definition degree :: "wait_for \<Rightarrow> nat" where
  "degree w = sum_list (map (length \<circ> snd) w)"

definition weight :: "wait_for \<Rightarrow> string \<times> string list \<Rightarrow> nat" where
  "weight w e = (degree w + 1) ^ (length w + 2 - length (snd e))"

lemma successors_degree: "length (successors w n) \<le> degree w"
proof -
  have "length ts \<le> degree w" if "(n, ts) \<in> set w" for ts
  proof -
    have "length ts \<in> set (map (length \<circ> snd) w)" using that by force
    then show ?thesis unfolding degree_def by (rule member_le_sum_list) simp
  qed
  then show ?thesis by (auto simp: successors_def dest!: map_of_SomeD split: option.splits)
qed

definition child_weight :: "wait_for \<Rightarrow> string list \<Rightarrow> nat" where
  "child_weight w path =
     (if length path \<le> length w then (degree w + 1) ^ (length w + 1 - length path) else 0)"

lemma scan_targets_weight:
  "sum_list (map (weight w) (fst (scan_targets (length w) start path targets stack cycles))) \<le>
     sum_list (map (weight w) stack) + length targets * child_weight w path"
proof (induction targets arbitrary: stack cycles)
  case (Cons target targets)
  let ?sum = "\<lambda>stack cycles. sum_list (map (weight w)
    (fst (scan_targets (length w) start path targets stack cycles)))"
  have push: "weight w (target, path @ [target]) = child_weight w path" if "length path \<le> length w"
    using that by (simp add: weight_def child_weight_def)
  have keep: "?sum stack cs \<le> sum_list (map (weight w) stack) + length (target # targets) * child_weight w path"
    for cs using Cons.IH[of stack cs] by simp
  have "?sum ((target, path @ [target]) # stack) cycles \<le>
      sum_list (map (weight w) stack) + length (target # targets) * child_weight w path"
    if "length path \<le> length w"
    using Cons.IH[of "(target, path @ [target]) # stack" cycles] push[OF that] by simp
  then show ?case using keep by (simp add: Let_def del: length_Cons)
qed simp

lemma scan_targets_less:
  "sum_list (map (weight w) (fst (scan_targets (length w) start path
     (rev (successors w node)) stack cycles))) < sum_list (map (weight w) ((node, path) # stack))"
proof -
  let ?c = "child_weight w path"
  have "length (successors w node) * ?c \<le> degree w * ?c"
    using successors_degree by (rule mult_le_mono1)
  also have "\<dots> < weight w (node, path)"
    by (auto simp: weight_def child_weight_def Suc_diff_le)
  finally show ?thesis
    using scan_targets_weight[of w start path "rev (successors w node)" stack cycles] by simp
qed

function cycle_search ::
  "wait_for \<Rightarrow> string \<Rightarrow> (string \<times> string list) list \<Rightarrow> string list list \<Rightarrow> string list list" where
  "cycle_search w start [] cycles = cycles"
| "cycle_search w start ((node, path) # stack) cycles =
     cycle_search w start
       (fst (scan_targets (length w) start path (rev (successors w node)) stack cycles))
       (snd (scan_targets (length w) start path (rev (successors w node)) stack cycles))"
  by pat_completeness auto
termination
  by (relation "measure (\<lambda>(w, start, stack, cycles). sum_list (map (weight w) stack))")
    (simp_all only: in_measure wf_measure prod.case scan_targets_less)

definition found_cycles :: "wait_for \<Rightarrow> string list list" where
  "found_cycles w = fold (\<lambda>start. cycle_search w start [(start, [start])]) (map fst w) []"

definition deterministic_wait_report :: "wait_for \<Rightarrow> wait_report" where
  "deterministic_wait_report wait_for = (let w = normalized wait_for; cycles = found_cycles w in
     if cycles \<noteq> [] then
       \<lparr>wr_kind = ''deadlock'', wr_cycle = snd (Min (set (map (\<lambda>c. (length c, c)) cycles))),
        wr_blockers = []\<rparr>
     else (let blockers = concat (map (\<lambda>(n, ts). map (\<lambda>t. n @ ''->'' @ t) ts) w) in
       \<lparr>wr_kind = (if blockers = [] then ''clear'' else ''stall''), wr_cycle = [],
        wr_blockers = blockers\<rparr>))"

section \<open>Cycles\<close>

definition wait_edge :: "wait_for \<Rightarrow> string \<Rightarrow> string \<Rightarrow> bool" where
  "wait_edge w a b = (b \<in> set (successors w a))"

text \<open>A simple cycle: distinct nodes, each waiting for the next and the last for the first.\<close>

definition wait_cycle :: "wait_for \<Rightarrow> string list \<Rightarrow> bool" where
  "wait_cycle w c = (c \<noteq> [] \<and> distinct c \<and> successively (wait_edge w) c \<and> wait_edge w (last c) (hd c))"

text \<open>Every closed walk contains a simple cycle: a shortest one is simple.\<close>

lemma closed_walk_cycle:
  assumes "(x, x) \<in> {(a, b). wait_edge w a b}\<^sup>+"
  shows "\<exists>c. wait_cycle w c"
proof -
  let ?E = "{(a, b). wait_edge w a b}"
  let ?P = "\<lambda>n. 0 < n \<and> (\<exists>y. (y, y) \<in> ?E ^^ n)"
  obtain k where "?P k" using assms by (auto simp: trancl_power)
  then have least: "?P (LEAST n. ?P n)" by (rule LeastI)
  define n where "n = (LEAST n. ?P n)"
  obtain f where f: "0 < n" "f n = f 0" "\<forall>i < n. wait_edge w (f i) (f (Suc i))"
    using least unfolding n_def[symmetric] by (auto simp: relpow_fun_conv)
  have "inj_on f {0..<n}"
  proof (rule linorder_inj_onI)
    fix i j assume ij: "i < j" "i \<in> {0..<n}" "j \<in> {0..<n}"
    show "f i \<noteq> f j"
    proof
      assume "f i = f j"
      then have "(f i, f i) \<in> ?E ^^ (j - i)"
        using f(3) ij by (auto simp: relpow_fun_conv intro!: exI[of _ "\<lambda>k. f (i + k)"])
      then have "?P (j - i)" using ij(1) by auto
      then have "n \<le> j - i" unfolding n_def by (rule Least_le)
      then show False using ij by auto
    qed
  qed auto
  then have "wait_cycle w (map f [0..<n])"
    using f by (auto simp: wait_cycle_def distinct_map successively_conv_nth hd_map last_map)
      (metis Suc_pred lessI)
  then show ?thesis by blast
qed

definition cycles_from :: "wait_for \<Rightarrow> string list \<Rightarrow> string list set" where
  "cycles_from w path = {c. wait_cycle w c \<and> prefix path c}"

definition path_ok :: "wait_for \<Rightarrow> string \<Rightarrow> string \<times> string list \<Rightarrow> bool" where
  "path_ok w start e = (snd e \<noteq> [] \<and> hd (snd e) = start \<and> last (snd e) = fst e \<and> distinct (snd e) \<and>
     successively (wait_edge w) (snd e))"

lemma wait_edge_key: "wait_edge w a b \<Longrightarrow> a \<in> fst ` set w"
  by (cases "map_of w a") (auto simp: wait_edge_def successors_def dest!: map_of_SomeD intro: rev_image_eqI)

lemma wait_cycle_keys:
  assumes "wait_cycle w c"
  shows "set c \<subseteq> fst ` set w" "length c \<le> length w"
proof -
  have "a \<in> fst ` set w" if a: "a \<in> set c" for a
  proof -
    obtain i where i: "i < length c" "c ! i = a" using a by (auto simp: in_set_conv_nth)
    show ?thesis
    proof (cases "Suc i < length c")
      case True
      then have "wait_edge w (c ! i) (c ! Suc i)"
        using assms by (auto simp: wait_cycle_def successively_conv_nth)
      then show ?thesis using i wait_edge_key by blast
    next
      case False
      then have "a = last c" using i by (metis Suc_lessI last_conv_nth length_0_conv diff_Suc_1 less_zeroE)
      then show ?thesis using assms wait_edge_key by (auto simp: wait_cycle_def)
    qed
  qed
  then show sub: "set c \<subseteq> fst ` set w" by blast
  have "length c = card (set c)" using assms by (simp add: wait_cycle_def distinct_card)
  also have "\<dots> \<le> card (fst ` set w)" using sub by (intro card_mono) auto
  also have "\<dots> \<le> length w" by (metis card_length length_map list.set_map)
  finally show "length c \<le> length w" .
qed

declare cycle_search.simps [simp del]

lemma cycles_from_unfold:
  assumes "path_ok w start (node, path)"
  shows "cycles_from w path = (if wait_edge w node start then {path} else {}) \<union>
    (\<Union>t \<in> {t. wait_edge w node t \<and> t \<noteq> start \<and> t \<notin> set path \<and> length path \<le> length w}.
       cycles_from w (path @ [t]))" (is "_ = ?R")
proof (intro equalityI subsetI)
  have ok: "path \<noteq> []" "hd path = start" "last path = node" "distinct path"
    "successively (wait_edge w) path" using assms by (simp_all add: path_ok_def)
  fix c assume "c \<in> cycles_from w path"
  then obtain q where c: "wait_cycle w c" "c = path @ q" by (auto simp: cycles_from_def prefix_def)
  show "c \<in> ?R"
  proof (cases q)
    case Nil
    then show ?thesis using c ok by (auto simp: wait_cycle_def)
  next
    case (Cons t q')
    then have "wait_edge w node t" "t \<notin> set path"
      using c ok by (auto simp: wait_cycle_def successively_append_iff)
    moreover have "t \<noteq> start" using calculation ok by (metis hd_in_set)
    moreover have "length path \<le> length w" using wait_cycle_keys(2)[OF c(1)] c(2) by simp
    moreover have "c \<in> cycles_from w (path @ [t])" using c Cons by (auto simp: cycles_from_def)
    ultimately show ?thesis by blast
  qed
next
  have ok: "path \<noteq> []" "hd path = start" "last path = node" "distinct path"
    "successively (wait_edge w) path" using assms by (simp_all add: path_ok_def)
  fix c assume "c \<in> ?R"
  then consider "wait_edge w node start" "c = path" | t where "c \<in> cycles_from w (path @ [t])"
    by (auto split: if_splits)
  then show "c \<in> cycles_from w path"
  proof cases
    case 1
    then show ?thesis using ok by (simp add: cycles_from_def wait_cycle_def)
  next
    case 2
    then show ?thesis by (auto simp: cycles_from_def append_prefixD)
  qed
qed

lemma scan_targets_result:
  "set (fst (scan_targets n start path targets stack cycles)) = set stack \<union>
     (\<lambda>t. (t, path @ [t])) ` {t \<in> set targets. t \<noteq> start \<and> t \<notin> set path \<and> length path \<le> n}"
  "set (snd (scan_targets n start path targets stack cycles)) = set cycles \<union>
     (if start \<in> set targets then {canonical_cycle path} else {})"
  by (induction targets arbitrary: stack cycles) (auto simp: Let_def)

lemma cycle_search_result:
  "\<forall>e \<in> set stack. path_ok w start e \<Longrightarrow>
    set (cycle_search w start stack cycles) =
      set cycles \<union> canonical_cycle ` (\<Union>e \<in> set stack. cycles_from w (snd e))"
proof (induction w start stack cycles rule: cycle_search.induct)
  case (2 w start node path stack cycles)
  let ?stack = "fst (scan_targets (length w) start path (rev (successors w node)) stack cycles)"
  let ?cycles = "snd (scan_targets (length w) start path (rev (successors w node)) stack cycles)"
  have ok: "path_ok w start (node, path)" using "2.prems" by simp
  have "path_ok w start (t, path @ [t])" if "wait_edge w node t" "t \<notin> set path" for t
    using ok that by (auto simp: path_ok_def successively_append_iff)
  then have "\<forall>e \<in> set ?stack. path_ok w start e"
    using "2.prems" by (auto simp: scan_targets_result wait_edge_def)
  note IH = "2.IH"[OF this]
  have "(\<Union>e \<in> set ?stack. cycles_from w (snd e)) = (\<Union>e \<in> set stack. cycles_from w (snd e)) \<union>
      (\<Union>t \<in> {t. wait_edge w node t \<and> t \<noteq> start \<and> t \<notin> set path \<and> length path \<le> length w}.
         cycles_from w (path @ [t]))"
    by (simp add: scan_targets_result wait_edge_def UN_Un)
  moreover have "set ?cycles = set cycles \<union> canonical_cycle ` (if wait_edge w node start then {path} else {})"
    by (simp add: scan_targets_result wait_edge_def)
  ultimately show ?case unfolding cycle_search.simps IH
    by (simp add: cycles_from_unfold[OF ok] image_Un Un_ac)
qed (simp add: cycle_search.simps)

lemma found_cycles_result: "set (found_cycles w) = canonical_cycle ` {c. wait_cycle w c}"
proof -
  have fold: "set (fold (\<lambda>start. cycle_search w start [(start, [start])]) starts cycles) =
      set cycles \<union> canonical_cycle ` {c. wait_cycle w c \<and> hd c \<in> set starts}" for starts cycles
  proof (induction starts arbitrary: cycles)
    case (Cons start starts)
    have "cycles_from w [start] = {c. wait_cycle w c \<and> hd c = start}"
      by (auto simp: cycles_from_def wait_cycle_def prefix_def) (metis append_Cons append_Nil list.collapse)
    then have "set (cycle_search w start [(start, [start])] cycles) =
        set cycles \<union> canonical_cycle ` {c. wait_cycle w c \<and> hd c = start}"
      by (subst cycle_search_result) (auto simp: path_ok_def)
    then show ?case by (auto simp: Cons.IH)
  qed simp
  have "hd c \<in> set (map fst w)" if "wait_cycle w c" for c
    using wait_cycle_keys(1)[OF that] that by (auto simp: wait_cycle_def)
  then have "{c. wait_cycle w c \<and> hd c \<in> set (map fst w)} = {c. wait_cycle w c}" by blast
  then show ?thesis by (simp add: found_cycles_def fold)
qed

section \<open>The canonical cycle\<close>

lemma wait_cycle_rotate1: "wait_cycle w c \<Longrightarrow> wait_cycle w (rotate1 c)"
proof (cases c)
  case (Cons a xs)
  then show "wait_cycle w c \<Longrightarrow> wait_cycle w (rotate1 c)"
    by (cases "xs = []") (simp_all add: wait_cycle_def successively_append_iff successively_Cons)
qed simp

lemma wait_cycle_rotate: "wait_cycle w c \<Longrightarrow> wait_cycle w (rotate n c)"
  by (induction n) (simp_all add: wait_cycle_rotate1)

lemma canonical_cycle_spec:
  assumes "wait_cycle w c"
  shows "wait_cycle w (canonical_cycle c)" "canonical_cycle c \<le> c" "length (canonical_cycle c) = length c"
proof -
  let ?rs = "map (\<lambda>i. drop i c @ take i c) [0..<length c]"
  have ne: "c \<noteq> []" using assms by (simp add: wait_cycle_def)
  then have "canonical_cycle c \<in> set ?rs" unfolding canonical_cycle_def by (intro Min_in) auto
  then obtain i where i: "i < length c" "canonical_cycle c = drop i c @ take i c" by auto
  then show "wait_cycle w (canonical_cycle c)"
    using wait_cycle_rotate[OF assms, of i] by (simp add: rotate_drop_take)
  show "length (canonical_cycle c) = length c" using i by simp
  have "drop 0 c @ take 0 c \<in> set ?rs" using ne by (force simp del: drop0 take0)
  then show "canonical_cycle c \<le> c" unfolding canonical_cycle_def by (intro Min_le) auto
qed

lemma normalized_edges:
  assumes "distinct (map fst w)"
  shows "wait_edge (normalized w) = wait_edge w"
proof -
  have "map_of (sort_key fst w) = map_of w"
    using assms by (subst map_of_inject_set) (simp_all add: distinct_map)
  then have "map_of (normalized w) n = map_option (\<lambda>ts. sort (remdups ts)) (map_of w n)" for n
    by (simp add: normalized_def map_of_map option.map_comp)
  then show ?thesis
    by (intro ext) (auto simp: wait_edge_def successors_def split: option.splits)
qed

lemma wait_report_value:
  assumes "distinct (map fst w)"
  shows "(\<exists>c. wait_cycle w c) \<Longrightarrow> wr_kind (deterministic_wait_report w) = ''deadlock'' \<and>
      wait_cycle w (wr_cycle (deterministic_wait_report w)) \<and>
      (\<forall>c. wait_cycle w c \<longrightarrow> (length (wr_cycle (deterministic_wait_report w)),
         wr_cycle (deterministic_wait_report w)) \<le> (length c, c))"
    and "\<nexists>c. wait_cycle w c \<Longrightarrow> wr_cycle (deterministic_wait_report w) = [] \<and>
      set (wr_blockers (deterministic_wait_report w)) = {a @ ''->'' @ b | a b. wait_edge w a b} \<and>
      wr_kind (deterministic_wait_report w) =
        (if \<exists>a b. wait_edge w a b then ''stall'' else ''clear'')"
proof -
  let ?n = "normalized w" and ?r = "deterministic_wait_report w"
  have cyc: "wait_cycle ?n = wait_cycle w"
    using normalized_edges[OF assms] by (auto simp: wait_cycle_def fun_eq_iff)
  have set: "set (found_cycles ?n) = canonical_cycle ` {c. wait_cycle w c}"
    by (simp add: found_cycles_result cyc)
  show "(\<exists>c. wait_cycle w c) \<Longrightarrow> wr_kind ?r = ''deadlock'' \<and> wait_cycle w (wr_cycle ?r) \<and>
      (\<forall>c. wait_cycle w c \<longrightarrow> (length (wr_cycle ?r), wr_cycle ?r) \<le> (length c, c))"
  proof -
    assume ex: "\<exists>c. wait_cycle w c"
    let ?K = "(\<lambda>c. (length c, c)) ` canonical_cycle ` {c. wait_cycle w c}"
    have ne: "found_cycles ?n \<noteq> []" using ex set by force
    have K: "set (map (\<lambda>c. (length c, c)) (found_cycles ?n)) = ?K" by (simp add: set)
    have fin: "finite ?K" by (metis K List.finite_set)
    have r: "wr_kind ?r = ''deadlock''" "wr_cycle ?r = snd (Min ?K)"
      using ne by (simp_all add: deterministic_wait_report_def Let_def K[symmetric])
    have "Min ?K \<in> ?K" using fin ex by (intro Min_in) auto
    then obtain c0 where c0: "wait_cycle w c0" "Min ?K = (length (canonical_cycle c0), canonical_cycle c0)"
      by auto
    have "Min ?K \<le> (length c, c)" if c: "wait_cycle w c" for c
    proof -
      have "Min ?K \<le> (length (canonical_cycle c), canonical_cycle c)" using c fin by (intro Min_le) auto
      also have "\<dots> \<le> (length c, c)" using canonical_cycle_spec(2,3)[OF c] by (simp add: less_eq_prod_def)
      finally show ?thesis .
    qed
    then show ?thesis using r c0 canonical_cycle_spec(1)[OF c0(1)] by simp
  qed
  show "\<nexists>c. wait_cycle w c \<Longrightarrow> wr_cycle ?r = [] \<and>
      set (wr_blockers ?r) = {a @ ''->'' @ b | a b. wait_edge w a b} \<and>
      wr_kind ?r = (if \<exists>a b. wait_edge w a b then ''stall'' else ''clear'')"
  proof -
    assume "\<nexists>c. wait_cycle w c"
    then have none: "found_cycles ?n = []" using set by simp
    let ?b = "concat (map (\<lambda>(n, ts). map (\<lambda>t. n @ ''->'' @ t) ts) ?n)"
    have d: "distinct (map fst ?n)"
      using assms by (simp add: normalized_def comp_def case_prod_unfold distinct_map distinct_sort inj_on_def)
    have edge: "wait_edge w a b \<longleftrightarrow> (\<exists>ts. (a, ts) \<in> set ?n \<and> b \<in> set ts)" for a b
    proof -
      have "wait_edge ?n a b \<longleftrightarrow> (\<exists>ts. (a, ts) \<in> set ?n \<and> b \<in> set ts)"
        using d by (auto simp: wait_edge_def successors_def dest: map_of_SomeD split: option.splits)
      then show ?thesis by (simp add: normalized_edges[OF assms])
    qed
    have "x \<in> set ?b \<longleftrightarrow> (\<exists>(a, ts) \<in> set ?n. \<exists>b \<in> set ts. x = a @ ''->'' @ b)" for x
      unfolding set_concat set_map by (simp only: UN_iff bex_simps image_iff case_prod_unfold set_map)
    then have "x \<in> set ?b \<longleftrightarrow> (\<exists>a b. x = a @ ''->'' @ b \<and> wait_edge w a b)" for x
      unfolding edge by blast
    then have eq: "set ?b = {a @ ''->'' @ b | a b. wait_edge w a b}" by blast
    have "{a @ ''->'' @ b | a b. wait_edge w a b} = {} \<longleftrightarrow> \<not> (\<exists>a b. wait_edge w a b)" by simp
    then have "set ?b = {} \<longleftrightarrow> \<not> (\<exists>a b. wait_edge w a b)" by (simp only: eq)
    then have "?b = [] \<longleftrightarrow> \<not> (\<exists>a b. wait_edge w a b)" by (simp only: set_empty)
    moreover have "?r = \<lparr>wr_kind = (if ?b = [] then ''clear'' else ''stall''), wr_cycle = [], wr_blockers = ?b\<rparr>"
      using none by (simp add: deterministic_wait_report_def Let_def)
    ultimately show ?thesis using eq by (simp del: set_concat)
  qed
qed

end
