(* ===== verification/TaskWaits.thy ===== *)
theory TaskWaits
  imports WaitReport
begin

text \<open>
  \<open>scheduler_state_wait_report\<close> of \<open>application/scheduler.py\<close>: the projection of a scheduler state to
  its wait-for graph (each unfinished task waits for its dependencies, its review targets and its
  blockers) and the report of that graph.  A graph whose waits are not circular never reports a
  deadlock.
\<close>

section \<open>Waits of a scheduler state\<close>

text \<open>\<open>wait_sets\<close> with \<open>setdefault\<close>, then sorted: the edges grouped by their source.\<close>

definition group_waits :: "(string \<times> string) list \<Rightarrow> wait_for" where
  "group_waits edges = map (\<lambda>n. (n, sort (remdups (map snd (filter (\<lambda>e. fst e = n) edges)))))
     (sort (remdups (map fst edges)))"

definition projection_of :: "scheduler_state \<Rightarrow> string \<Rightarrow> task_projection result" where
  "projection_of s i =
     (case map_of (rev (map (\<lambda>p. (pj_task_id p, p)) (state_tasks s))) i of
        None \<Rightarrow> Inl KeyError | Some p \<Rightarrow> Inr p)"

definition finished_state :: "task_state \<Rightarrow> bool" where
  "finished_state s = (s \<in> {TASK_COMPLETED, TASK_REJECTED, TASK_SUPERSEDED})"

fun pending_waits :: "scheduler_state \<Rightarrow> string \<Rightarrow> string list \<Rightarrow> (string \<times> string) list result" where
  "pending_waits s node [] = Inr []"
| "pending_waits s node (i # is) = bindR (projection_of s i) (\<lambda>p.
     bindR (pending_waits s node is) (\<lambda>es.
     Inr (if pj_state p \<noteq> TASK_COMPLETED then (node, ''task:'' @ i) # es else es)))"

definition blocker_waits :: "string \<Rightarrow> string \<Rightarrow> blocker \<Rightarrow> (string \<times> string) list" where
  "blocker_waits node i b = map (\<lambda>r. (node, ''blocker:'' @ bl_code b @ '':'' @ r))
     (if bl_references b = [] then [i] else bl_references b)"

definition task_waits :: "scheduler_state \<Rightarrow> scheduler_task \<Rightarrow> (string \<times> string) list result" where
  "task_waits s t = bindR (projection_of s (tk_id t)) (\<lambda>p.
     if finished_state (pj_state p) then Inr []
     else (let node = ''task:'' @ tk_id t in
       bindR (pending_waits s node (dependencies t)) (\<lambda>deps.
       bindR (pending_waits s node (review_targets t)) (\<lambda>reviews.
       Inr (deps @ reviews @ concat (map (blocker_waits node (tk_id t)) (pj_blockers p)))))))"

definition scheduler_state_wait_report :: "task_graph \<Rightarrow> scheduler_state \<Rightarrow> wait_report result" where
  "scheduler_state_wait_report g s = bindR (mapR (task_waits s) (graph_tasks g)) (\<lambda>ess.
     Inr (deterministic_wait_report (group_waits (concat ess))))"

section \<open>Waits of a graph without circular waits\<close>

definition wait_relation :: "scheduler_task list \<Rightarrow> (string \<times> string) set" where
  "wait_relation tasks =
     {(tk_id t, d) | t d. t \<in> set tasks \<and> d \<in> set (dependencies t) \<union> set (review_targets t)}"

lemma group_waits_keys: "distinct (map fst (group_waits es))"
  by (simp add: group_waits_def comp_def)

lemma group_waits_edge: "wait_edge (group_waits es) a b \<longleftrightarrow> (a, b) \<in> set es"
proof -
  have "map_of (map (\<lambda>n. (n, f n)) xs) a = (if a \<in> set xs then Some (f a) else None)"
    for f :: "string \<Rightarrow> string list" and xs by (induction xs) auto
  then show ?thesis by (force simp: wait_edge_def successors_def group_waits_def)
qed

lemma pending_waits_edges:
  "pending_waits s node is = Inr es \<Longrightarrow> e \<in> set es \<Longrightarrow> \<exists>d \<in> set is. e = (node, ''task:'' @ d)"
  by (induction "is" arbitrary: es) (auto simp: bindR_eq_Inr split: if_splits)

lemma task_waits_edges:
  assumes "task_waits s t = Inr es" and "(a, b) \<in> set es"
  shows "a = ''task:'' @ tk_id t \<and>
    ((\<exists>d \<in> set (dependencies t) \<union> set (review_targets t). b = ''task:'' @ d) \<or> (\<exists>x. b = ''blocker:'' @ x))"
proof -
  obtain p where p: "projection_of s (tk_id t) = Inr p" using assms by (auto simp: task_waits_def bindR_eq_Inr)
  show ?thesis
  proof (cases "finished_state (pj_state p)")
    case True
    then show ?thesis using assms p by (simp add: task_waits_def)
  next
    case False
    then obtain ds rs where
      "pending_waits s (''task:'' @ tk_id t) (dependencies t) = Inr ds"
      "pending_waits s (''task:'' @ tk_id t) (review_targets t) = Inr rs"
      "es = ds @ rs @ concat (map (blocker_waits (''task:'' @ tk_id t) (tk_id t)) (pj_blockers p))"
      using assms(1) p by (auto simp: task_waits_def bindR_eq_Inr Let_def)
    then show ?thesis using assms(2) pending_waits_edges
      by (auto simp: blocker_waits_def simp del: append_Cons split: if_splits) fastforce+
  qed
qed

lemma cycle_trancl:
  assumes "wait_cycle w c"
  shows "(hd c, hd c) \<in> {(a, b). wait_edge w a b}\<^sup>+"
proof -
  have path: "successively R xs \<Longrightarrow> xs \<noteq> [] \<Longrightarrow> (hd xs, last xs) \<in> {(a, b). R a b}\<^sup>*"
    for R :: "string \<Rightarrow> string \<Rightarrow> bool" and xs
    by (induction xs) (auto simp: successively_Cons intro: converse_rtrancl_into_rtrancl)
  show ?thesis
    using path[of "wait_edge w" c] assms by (auto simp: wait_cycle_def intro: rtrancl_into_trancl1)
qed

lemma no_circular_wait:
  assumes edges: "\<And>a b. wait_edge w a b \<Longrightarrow> \<exists>i. a = ''task:'' @ i \<and>
      ((\<exists>d. b = ''task:'' @ d \<and> (i, d) \<in> R) \<or> (\<exists>x. b = ''blocker:'' @ x))"
    and "acyclic R"
  shows "\<not> wait_cycle w c"
proof
  assume c: "wait_cycle w c"
  let ?E = "{(a, b). wait_edge w a b}"
  have step: "(a, b) \<in> ?E\<^sup>+ \<Longrightarrow> \<exists>x. wait_edge w b x \<Longrightarrow>
      \<exists>i j. a = ''task:'' @ i \<and> b = ''task:'' @ j \<and> (i, j) \<in> R\<^sup>+" for a b
  proof (induction rule: trancl_induct)
    case (base b)
    then show ?case using edges[of a b] edges[of b] by fastforce
  next
    case (step b b')
    then obtain i j where ij: "a = ''task:'' @ i" "b = ''task:'' @ j" "(i, j) \<in> R\<^sup>+" by auto
    obtain k where k: "b' = ''task:'' @ k" using step.prems edges by blast
    then have "(j, k) \<in> R" using step.hyps(2) edges[of b b'] ij(2) by fastforce
    then show ?case using ij k by (metis trancl_into_trancl)
  qed
  have cyc: "(hd c, hd c) \<in> ?E\<^sup>+" by (rule cycle_trancl[OF c])
  then have "\<exists>x. wait_edge w (hd c) x" by (auto dest: tranclD)
  from step[OF cyc this] obtain i j where "hd c = ''task:'' @ i" "hd c = ''task:'' @ j" "(i, j) \<in> R\<^sup>+" by blast
  then show False using assms(2) by (auto simp: acyclic_def)
qed

lemma projection_total:
  assumes "i \<in> set (map pj_task_id (state_tasks s))"
  shows "\<exists>p. projection_of s i = Inr p"
proof -
  have "i \<in> fst ` set (map (\<lambda>p. (pj_task_id p, p)) (state_tasks s))" using assms by force
  then have "map_of (rev (map (\<lambda>p. (pj_task_id p, p)) (state_tasks s))) i \<noteq> None"
    by (simp add: map_of_eq_None_iff rev_map del: set_map) (simp add: image_image)
  then show ?thesis by (auto simp: projection_of_def)
qed

lemma pending_waits_total:
  assumes "set is \<subseteq> set (map pj_task_id (state_tasks s))"
  shows "\<exists>es. pending_waits s node is = Inr es"
  using assms
proof (induction "is")
  case (Cons i "is")
  then obtain p where "projection_of s i = Inr p" using projection_total by fastforce
  then show ?case using Cons by auto
qed simp

lemma task_waits_total:
  assumes "tk_id t \<in> set (map pj_task_id (state_tasks s))"
    and "set (dependencies t) \<subseteq> set (map pj_task_id (state_tasks s))"
    and "set (review_targets t) \<subseteq> set (map pj_task_id (state_tasks s))"
  shows "\<exists>es. task_waits s t = Inr es"
proof -
  obtain p where "projection_of s (tk_id t) = Inr p" using projection_total assms(1) by blast
  then show ?thesis
    using pending_waits_total[OF assms(2), of "''task:'' @ tk_id t"]
      pending_waits_total[OF assms(3), of "''task:'' @ tk_id t"]
    by (auto simp: task_waits_def Let_def)
qed

lemma state_waits_total:
  assumes closed: "closed_graph (graph_tasks g)"
    and known: "task_ids (graph_tasks g) \<subseteq> set (map pj_task_id (state_tasks s))"
  obtains ess where "mapR (task_waits s) (graph_tasks g) = Inr ess"
    "scheduler_state_wait_report g s = Inr (deterministic_wait_report (group_waits (concat ess)))"
    "\<And>a b. wait_edge (group_waits (concat ess)) a b \<longleftrightarrow>
       (\<exists>t \<in> set (graph_tasks g). \<exists>es. task_waits s t = Inr es \<and> (a, b) \<in> set es)"
proof -
  have all: "\<forall>t \<in> set (graph_tasks g). \<exists>es. task_waits s t = Inr es"
  proof
    fix t assume t: "t \<in> set (graph_tasks g)"
    then have "tk_id t \<in> task_ids (graph_tasks g)" by simp
    moreover have "set (dependencies t) \<subseteq> task_ids (graph_tasks g)"
      "set (review_targets t) \<subseteq> task_ids (graph_tasks g)" using closed t unfolding closed_graph_def by blast+
    ultimately show "\<exists>es. task_waits s t = Inr es" using known by (meson subsetD subset_trans task_waits_total)
  qed
  have "\<exists>ess. mapR (task_waits s) ts = Inr ess" if "\<forall>t \<in> set ts. \<exists>es. task_waits s t = Inr es" for ts
    using that by (induction ts) auto
  then obtain ess where ess: "mapR (task_waits s) (graph_tasks g) = Inr ess" using all by blast
  then have "list_all2 (\<lambda>t es. task_waits s t = Inr es) (graph_tasks g) ess"
    by (simp add: mapR_eq_Inr)
  then have "(\<exists>es \<in> set ess. e \<in> set es) \<longleftrightarrow>
      (\<exists>t \<in> set (graph_tasks g). \<exists>es. task_waits s t = Inr es \<and> e \<in> set es)" for e
    by (induction rule: list_all2_induct) auto
  then show ?thesis using that[OF ess] ess
    by (simp add: scheduler_state_wait_report_def group_waits_edge)
qed

section \<open>Waits of unfinished tasks\<close>

definition unfinished :: "scheduler_state \<Rightarrow> string \<Rightarrow> bool" where
  "unfinished s i = (case projection_of s i of Inl _ \<Rightarrow> False | Inr p \<Rightarrow> \<not> finished_state (pj_state p))"

text \<open>The waits between two unfinished tasks; only these can be circular.\<close>

definition open_waits :: "scheduler_task list \<Rightarrow> scheduler_state \<Rightarrow> (string \<times> string) set" where
  "open_waits tasks s = {(i, d) \<in> wait_relation tasks. unfinished s i \<and> unfinished s d}"

lemma pending_waits_member:
  "pending_waits s node is = Inr es \<Longrightarrow> i \<in> set is \<Longrightarrow> unfinished s i \<Longrightarrow> (node, ''task:'' @ i) \<in> set es"
proof (induction "is" arbitrary: es)
  case (Cons j "is")
  then obtain p es' where p: "projection_of s j = Inr p" "pending_waits s node is = Inr es'"
    "es = (if pj_state p \<noteq> TASK_COMPLETED then (node, ''task:'' @ j) # es' else es')"
    by (auto simp: bindR_eq_Inr)
  show ?case
  proof (cases "i = j")
    case True
    then have "pj_state p \<noteq> TASK_COMPLETED" using Cons.prems(3) p(1) by (auto simp: unfinished_def finished_state_def)
    then show ?thesis using True p(3) by simp
  next
    case False
    then show ?thesis using Cons.IH[OF p(2)] Cons.prems(2,3) p(3) by auto
  qed
qed simp

lemma open_wait_edge:
  assumes "task_waits s t = Inr es" and "d \<in> set (dependencies t) \<union> set (review_targets t)"
    and "unfinished s (tk_id t)" and "unfinished s d"
  shows "(''task:'' @ tk_id t, ''task:'' @ d) \<in> set es"
proof -
  obtain p where p: "projection_of s (tk_id t) = Inr p" "\<not> finished_state (pj_state p)"
    using assms(3) by (auto simp: unfinished_def split: sum.splits)
  then obtain ds rs where
    "pending_waits s (''task:'' @ tk_id t) (dependencies t) = Inr ds"
    "pending_waits s (''task:'' @ tk_id t) (review_targets t) = Inr rs"
    "es = ds @ rs @ concat (map (blocker_waits (''task:'' @ tk_id t) (tk_id t)) (pj_blockers p))"
    using assms(1) by (auto simp: task_waits_def bindR_eq_Inr Let_def)
  then show ?thesis using pending_waits_member assms(2,4) by (auto simp del: append_Cons)
qed

lemma task_waits_unfinished:
  "task_waits s t = Inr es \<Longrightarrow> es \<noteq> [] \<Longrightarrow> unfinished s (tk_id t)"
  by (auto simp: task_waits_def unfinished_def bindR_eq_Inr split: if_splits)

text \<open>A state is reported as a deadlock exactly when unfinished tasks wait for each other in a circle.\<close>

lemma deadlock_iff_circular:
  assumes closed: "closed_graph (graph_tasks g)"
    and known: "task_ids (graph_tasks g) \<subseteq> set (map pj_task_id (state_tasks s))"
  shows "\<exists>r. scheduler_state_wait_report g s = Inr r \<and>
    (wr_kind r = ''deadlock'' \<longleftrightarrow> \<not> acyclic (open_waits (graph_tasks g) s))"
proof -
  let ?T = "graph_tasks g"
  obtain ess where "mapR (task_waits s) ?T = Inr ess"
    and r: "scheduler_state_wait_report g s = Inr (deterministic_wait_report (group_waits (concat ess)))"
    and edges: "\<And>a b. wait_edge (group_waits (concat ess)) a b \<longleftrightarrow>
      (\<exists>t \<in> set ?T. \<exists>es. task_waits s t = Inr es \<and> (a, b) \<in> set es)"
    using state_waits_total[OF closed known] by blast
  have all: "\<exists>es. task_waits s t = Inr es" if t: "t \<in> set ?T" for t
  proof (rule task_waits_total)
    show "tk_id t \<in> set (map pj_task_id (state_tasks s))" using known t by auto
    show "set (dependencies t) \<subseteq> set (map pj_task_id (state_tasks s))"
      "set (review_targets t) \<subseteq> set (map pj_task_id (state_tasks s))"
      using known closed t unfolding closed_graph_def by blast+
  qed
  let ?w = "group_waits (concat ess)" and ?O = "open_waits ?T s"
  let ?R = "{(i, d) \<in> wait_relation ?T. unfinished s i}"
  have "(i, j) \<in> ?R\<^sup>+ \<Longrightarrow> unfinished s j \<Longrightarrow> (i, j) \<in> ?O\<^sup>+" for i j
  proof (induction rule: trancl_induct)
    case (base y)
    then show ?case by (auto simp: open_waits_def)
  next
    case (step y z)
    then show ?case by (auto simp: open_waits_def intro: trancl_into_trancl)
  qed
  moreover have "(i, j) \<in> ?R\<^sup>+ \<Longrightarrow> unfinished s i" for i j by (auto dest: tranclD)
  ultimately have acyclic: "acyclic ?O \<Longrightarrow> acyclic ?R" unfolding acyclic_def by blast
  have "\<not> wait_cycle ?w c" if "acyclic ?O" for c
  proof (rule no_circular_wait[OF _ acyclic[OF that]])
    fix a b assume "wait_edge ?w a b"
    then obtain t es where t: "t \<in> set ?T" "task_waits s t = Inr es" "(a, b) \<in> set es" unfolding edges by blast
    then have "unfinished s (tk_id t)" using task_waits_unfinished by fastforce
    then show "\<exists>i. a = ''task:'' @ i \<and> ((\<exists>d. b = ''task:'' @ d \<and> (i, d) \<in> ?R) \<or> (\<exists>x. b = ''blocker:'' @ x))"
      using task_waits_edges[OF t(2,3)] t(1) by (fastforce simp: wait_relation_def)
  qed
  moreover have "\<exists>c. wait_cycle ?w c" if "\<not> acyclic ?O"
  proof -
    have edge: "wait_edge ?w (''task:'' @ i) (''task:'' @ d)" if "(i, d) \<in> ?O" for i d
    proof -
      obtain t where t: "t \<in> set ?T" "tk_id t = i" "d \<in> set (dependencies t) \<union> set (review_targets t)"
        "unfinished s i" "unfinished s d" using \<open>(i, d) \<in> ?O\<close> by (auto simp: open_waits_def wait_relation_def)
      obtain es where "task_waits s t = Inr es" using all[OF t(1)] by blast
      then show ?thesis using open_wait_edge t unfolding edges by blast
    qed
    have "(i, j) \<in> ?O\<^sup>+ \<Longrightarrow> (''task:'' @ i, ''task:'' @ j) \<in> {(a, b). wait_edge ?w a b}\<^sup>+" for i j
      by (induction rule: trancl_induct) (auto intro: edge trancl_into_trancl simp del: append_Cons)
    then show ?thesis using that closed_walk_cycle unfolding acyclic_def by blast
  qed
  ultimately have "(\<exists>c. wait_cycle ?w c) \<longleftrightarrow> \<not> acyclic ?O" by blast
  moreover have "wr_kind (deterministic_wait_report ?w) = ''deadlock'' \<longleftrightarrow> (\<exists>c. wait_cycle ?w c)"
    using wait_report_value[OF group_waits_keys, of "concat ess"] by (cases "\<exists>c. wait_cycle ?w c") auto
  ultimately show ?thesis using r by blast
qed

end
