(* ===== verification/GraphProperties.thy ===== *)
theory GraphProperties
  imports TaskWaits Samples
begin

text \<open>
  The properties of the task graph: what the validation accepts and when it fails, what the ranks
  are, exclusive ownership of paths, the wait report and the deadlocks it can and cannot show.
\<close>

section \<open>Sample graphs\<close>

definition sample_task :: "string \<Rightarrow> string list \<Rightarrow> string list \<Rightarrow> string list \<Rightarrow> scheduler_task" where
  "sample_task i deps reviews paths = \<lparr>tk_id = i, tk_kind = IMPLEMENTATION, dependencies = deps,
     tk_role_id = ''ROL-DEV'', tk_context_snapshot_id = ''CTX-SNAPSHOT-0'', required_tools = [],
     required_capabilities = [], owned_paths = paths, worktree_assignment = None,
     tk_effect_kind = READ_ONLY, approval_stops = [], evidence_predicate = [], review_targets = reviews,
     terminal_predicate = [''agent-result-valid''], wave = 0, max_attempts = 1\<rparr>"

lemma sample_task_simps [simp]:
  "tk_id (sample_task i ds rs ps) = i" "dependencies (sample_task i ds rs ps) = ds"
  "review_targets (sample_task i ds rs ps) = rs" "owned_paths (sample_task i ds rs ps) = ps"
  by (simp_all add: sample_task_def)

definition sample_projection :: "string \<Rightarrow> task_projection" where
  "sample_projection i = \<lparr>pj_task_id = i, pj_state = TASK_PLANNED, pj_dispatch_phase = NOT_DISPATCHED,
     pj_outcome = OUTCOME_NONE, pj_attempt = 0, pj_fence = 0, pj_blockers = []\<rparr>"

text \<open>The identifiers in order, each task depending on the next.\<close>

fun chain_graph :: "string list \<Rightarrow> scheduler_task list" where
  "chain_graph [] = []"
| "chain_graph [i] = [sample_task i [] [] [i]]"
| "chain_graph (i # j # js) = sample_task i [j] [] [i] # chain_graph (j # js)"

lemma chain_ids [simp]: "map tk_id (chain_graph ids) = ids"
  by (induction ids rule: chain_graph.induct) simp_all

lemma chain_length [simp]: "length (chain_graph ids) = length ids"
  by (induction ids rule: chain_graph.induct) simp_all

lemma chain_tasks:
  "t \<in> set (chain_graph ids) \<Longrightarrow> sorted_wrt (<) ids \<Longrightarrow> review_targets t = [] \<and>
    set (dependencies t) \<subseteq> set ids \<and> (\<forall>d \<in> set (dependencies t). tk_id t < d)"
  by (induction ids rule: chain_graph.induct) auto

lemma chain_valid:
  assumes sorted: "sorted_wrt (<) ids"
  shows "valid_dag (chain_graph ids)"
proof -
  note t = chain_tasks[OF _ sorted]
  have ids: "task_ids (chain_graph ids) = set ids" by (metis chain_ids)
  have "closed_graph (chain_graph ids)"
    unfolding closed_graph_def ids using t sorted by (auto simp: strict_sorted_iff dest: t)
  moreover have edge: "i < j" if "(i, j) \<in> dependency_edges (chain_graph ids)" for i j
    using that t by (auto simp: dependency_edges_def)
  have "(i, j) \<in> (dependency_edges (chain_graph ids))\<^sup>+ \<Longrightarrow> i < j" for i j
    by (induction rule: trancl_induct) (auto dest: edge order.strict_trans)
  then have "acyclic (dependency_edges (chain_graph ids))" by (auto simp: acyclic_def)
  ultimately show ?thesis by (simp add: valid_dag_def)
qed

section \<open>Validation\<close>

lemma dag_validation_accepts: "valid_dag tasks \<Longrightarrow> length tasks \<le> depth \<Longrightarrow> validate_dag depth tasks = Inr ()"
  using validate_dag_complete[of tasks depth] by (cases "validate_dag depth tasks") auto

text \<open>
  C12: with as many nested calls as the graph has tasks, the validation of the dependency graph
  accepts exactly the graphs with unique identifiers, known references, no task that depends on or
  reviews itself, and no cycle of dependencies.
\<close>

theorem dag_validation_decides:
  assumes "length tasks \<le> depth"
  shows "validate_dag depth tasks = Inr () \<longleftrightarrow> valid_dag tasks"
  using assms validate_dag_sound[of depth tasks] validate_dag_complete[of tasks depth]
  by (cases "validate_dag depth tasks") auto

theorem dag_validation_decides_witness:
  "validate_dag 3 (chain_graph [''A'', ''B'', ''C'']) = Inr () \<and>
   validate_dag 3 [sample_task ''A'' [''B''] [] [], sample_task ''B'' [''A''] [] []] =
     Inl (SchedulerContractError DependencyCycle) \<and>
   \<not> valid_dag [sample_task ''A'' [''B''] [] [], sample_task ''B'' [''A''] [] []]"
proof -
  have "validate_dag 3 [sample_task ''A'' [''B''] [] [], sample_task ''B'' [''A''] [] []] =
     Inl (SchedulerContractError DependencyCycle)" by code_simp
  moreover have "valid_dag (chain_graph [''A'', ''B'', ''C''])" by (rule chain_valid) code_simp
  ultimately show ?thesis
    using dag_validation_decides[of "chain_graph [''A'', ''B'', ''C'']" 3]
      dag_validation_decides[of "[sample_task ''A'' [''B''] [] [], sample_task ''B'' [''A''] [] []]" 3] by simp
qed

text \<open>
  C13: on a valid graph the validation never blames the graph, but it may run out of nested calls.  It
  accepts whenever the interpreter allows as many as the longest chain of dependencies has tasks, and it
  fails with \<open>RecursionError\<close> instead of a contract error when the chain of first listed dependencies that
  starts at the least identifier is longer than that.
\<close>

theorem long_chain_recursion:
  assumes "valid_dag tasks"
  shows "validate_dag depth tasks \<in> {Inr (), Inl RecursionError} \<and>
    ((\<forall>c. dependency_chain tasks c \<longrightarrow> length c \<le> depth) \<longrightarrow> validate_dag depth tasks = Inr ()) \<and>
    (\<forall>c. leading_chain tasks c \<and> hd c = Min (task_ids tasks) \<and> depth < length c \<longrightarrow>
       validate_dag depth tasks = Inl RecursionError)"
  using validate_dag_outcome[OF assms, of depth] validate_dag_deep[OF assms] by (fastforce simp: not_less[symmetric])

text \<open>The order of the identifiers decides: the same chain named the other way round passes.\<close>

theorem long_chain_recursion_witness:
  "validate_dag 2 (chain_graph [''A'', ''B'', ''C'']) = Inl RecursionError \<and>
   validate_dag 2 [sample_task ''A'' [] [] [], sample_task ''B'' [''A''] [] [], sample_task ''C'' [''B''] [] []] = Inr ()"
proof
  have "valid_dag (chain_graph [''A'', ''B'', ''C''])" by (rule chain_valid) code_simp
  moreover have "leading_chain (chain_graph [''A'', ''B'', ''C'']) [''A'', ''B'', ''C''] \<and>
      hd [''A'', ''B'', ''C''] = Min (task_ids (chain_graph [''A'', ''B'', ''C''])) \<and> 2 < length [''A'', ''B'', ''C'']"
    by code_simp
  ultimately show "validate_dag 2 (chain_graph [''A'', ''B'', ''C'']) = Inl RecursionError"
    using long_chain_recursion by blast
qed code_simp

text \<open>
  C14: for a valid graph \<open>topological_ranks\<close> returns a rank for every task and nothing else, and the
  rank is the length of the longest chain of dependencies that starts at the task.
\<close>

theorem ranks_are_longest_chains:
  assumes "valid_dag tasks" and "length tasks \<le> depth"
  shows "\<exists>m. topological_ranks depth tasks = Inr m \<and> dom m = task_ids tasks \<and>
    (\<forall>i \<in> task_ids tasks. (\<exists>js. dependency_chain tasks (i # js) \<and> length js = the (m i)) \<and>
       (\<forall>js. dependency_chain tasks (i # js) \<longrightarrow> length js \<le> the (m i)))"
proof -
  from topological_ranks_value[OF assms] obtain m where m: "topological_ranks depth tasks = Inr m"
    "dom m = task_ids tasks" "\<And>t. t \<in> set tasks \<Longrightarrow> m (tk_id t) = Some (rank_value m t)" by blast
  have r: "dependency_chain tasks (i # js) \<Longrightarrow> length js \<le> the (m i)"
    "i \<in> task_ids tasks \<Longrightarrow> m i = Some n \<Longrightarrow> \<exists>js. dependency_chain tasks (i # js) \<and> length js = n" for i js n
    using rank_longest_chain[OF assms(1) m(2)] m(3) by simp_all
  have "\<exists>js. dependency_chain tasks (i # js) \<and> length js = the (m i)" if "i \<in> task_ids tasks" for i
    using r(2)[OF that] that m(2) by (metis domD option.sel)
  then show ?thesis using m(1,2) r(1) by blast
qed

theorem ranks_are_longest_chains_witness:
  "\<exists>m. topological_ranks 3 (chain_graph [''A'', ''B'', ''C'']) = Inr m \<and> dom m = {''A'', ''B'', ''C''} \<and>
    2 \<le> the (m ''A'')"
proof -
  let ?g = "chain_graph [''A'', ''B'', ''C'']"
  have v: "valid_dag ?g" by (rule chain_valid) code_simp
  have c: "dependency_chain ?g [''A'', ''B'', ''C'']" by (force simp: dependency_edges_def)
  have "length ?g \<le> 3" by simp
  from ranks_are_longest_chains[OF v this] obtain m where m: "topological_ranks 3 ?g = Inr m"
    "dom m = task_ids ?g" and all: "\<forall>i \<in> task_ids ?g. \<forall>js. dependency_chain ?g (i # js) \<longrightarrow> length js \<le> the (m i)"
    by blast
  have "''A'' \<in> task_ids ?g" by simp
  with all c have "length [''B'', ''C''] \<le> the (m ''A'')" by blast
  moreover have "task_ids ?g = {''A'', ''B'', ''C''}" unfolding chain_ids by simp
  ultimately show ?thesis using m by (metis length_Cons list.size(3) numeral_2_eq_2)
qed


section \<open>Ownership of paths\<close>

text \<open>
  C15: the check of path ownership passes exactly when no path, existing or not, lies within the
  owned paths of two different tasks, so two tasks can never be granted the same file.
\<close>

theorem owned_paths_exclusive:
  "validate_path_ownership tasks = Inr () \<longleftrightarrow>
    (\<forall>t \<in> set tasks. \<forall>u \<in> set tasks. \<forall>x. (\<exists>p \<in> set (owned_paths t). path_within x p) \<and>
       (\<exists>q \<in> set (owned_paths u). path_within x q) \<longrightarrow> tk_id t = tk_id u)"
proof -
  have common: "paths_overlap p q \<longleftrightarrow> (\<exists>x. path_within x p \<and> path_within x q)" for p q
  proof
    show "paths_overlap p q \<Longrightarrow> \<exists>x. path_within x p \<and> path_within x q"
      by (auto simp: paths_overlap_def path_within_def)
  qed (use within_both_overlap in blast)
  show ?thesis unfolding path_ownership_iff common by blast
qed

theorem owned_paths_exclusive_witness:
  "validate_path_ownership [sample_task ''A'' [] [] [''src/a''], sample_task ''B'' [] [] [''src/b'']] = Inr () \<and>
   \<not> (path_within ''src/a/x.py'' ''src/a'' \<and> path_within ''src/a/x.py'' ''src/b'') \<and>
   validate_path_ownership [sample_task ''A'' [] [] [''src''], sample_task ''B'' [] [] [''src/b'']] \<noteq> Inr ()"
proof -
  have ok: "validate_path_ownership [sample_task ''A'' [] [] [''src/a''], sample_task ''B'' [] [] [''src/b'']] = Inr ()"
    by code_simp
  have both: "path_within ''src/b'' ''src'' \<and> path_within ''src/b'' ''src/b''" by code_simp
  have "\<not> (path_within ''src/a/x.py'' ''src/a'' \<and> path_within ''src/a/x.py'' ''src/b'')"
    using iffD1[OF owned_paths_exclusive ok] by fastforce
  moreover have "validate_path_ownership [sample_task ''A'' [] [] [''src''], sample_task ''B'' [] [] [''src/b'']] \<noteq> Inr ()"
    unfolding owned_paths_exclusive using both by fastforce
  ultimately show ?thesis using ok by blast
qed

section \<open>Waits\<close>

text \<open>
  C16: the wait report is \<open>deadlock\<close> exactly when the wait-for graph has a cycle, and then it shows
  the least simple cycle by length and content; without a cycle it lists every wait, and is \<open>stall\<close>
  or \<open>clear\<close> as there are waits or none.
\<close>

theorem wait_report_shows_cycle:
  assumes "distinct (map fst w)"
  shows "wr_kind (deterministic_wait_report w) =
      (if \<exists>c. wait_cycle w c then ''deadlock'' else if \<exists>a b. wait_edge w a b then ''stall'' else ''clear'') \<and>
    (if \<exists>c. wait_cycle w c then wait_cycle w (wr_cycle (deterministic_wait_report w)) \<and>
       (\<forall>c. wait_cycle w c \<longrightarrow> (length (wr_cycle (deterministic_wait_report w)),
          wr_cycle (deterministic_wait_report w)) \<le> (length c, c))
     else wr_cycle (deterministic_wait_report w) = [] \<and>
       set (wr_blockers (deterministic_wait_report w)) = {a @ ''->'' @ b | a b. wait_edge w a b})"
proof (cases "\<exists>c. wait_cycle w c")
  case True
  then show ?thesis using wait_report_value(1)[OF assms True] by simp
next
  case False
  then show ?thesis using wait_report_value(2)[OF assms False] by simp
qed

theorem wait_report_shows_cycle_witness:
  "wr_kind (deterministic_wait_report [(''b'', [''a'', ''c'']), (''a'', [''b''])]) = ''deadlock'' \<and>
   (length (wr_cycle (deterministic_wait_report [(''b'', [''a'', ''c'']), (''a'', [''b''])])),
    wr_cycle (deterministic_wait_report [(''b'', [''a'', ''c'']), (''a'', [''b''])])) \<le> (2, [''a'', ''b''])"
proof -
  let ?w = "[(''b'', [''a'', ''c'']), (''a'', [''b''])]"
  have c: "wait_cycle ?w [''a'', ''b'']" by (simp add: wait_cycle_def wait_edge_def successors_def)
  then have ex: "\<exists>c. wait_cycle ?w c" by (rule exI)
  have "distinct (map fst ?w)" by simp
  from wait_report_shows_cycle[OF this, unfolded if_P[OF ex]] have
    "wr_kind (deterministic_wait_report ?w) = ''deadlock''"
    "\<forall>c. wait_cycle ?w c \<longrightarrow> (length (wr_cycle (deterministic_wait_report ?w)),
       wr_cycle (deterministic_wait_report ?w)) \<le> (length c, c)" by blast+
  then show ?thesis using c by (metis length_Cons list.size(3) numeral_2_eq_2)
qed

text \<open>
  C17: whatever the states of its tasks and their blockers, a closed task graph whose dependencies
  and review targets together have no cycle is never reported as a deadlock, and the report exists
  for every state that has a projection of each task.
\<close>

theorem acyclic_waits_never_deadlock:
  assumes "closed_graph (graph_tasks g)" and "acyclic (wait_relation (graph_tasks g))"
    and "task_ids (graph_tasks g) \<subseteq> set (map pj_task_id (state_tasks s))"
  shows "\<exists>r. scheduler_state_wait_report g s = Inr r \<and> wr_kind r \<in> {''stall'', ''clear''} \<and> wr_cycle r = []"
proof -
  obtain ess where "mapR (task_waits s) (graph_tasks g) = Inr ess"
    and r: "scheduler_state_wait_report g s = Inr (deterministic_wait_report (group_waits (concat ess)))"
    and edges: "\<And>a b. wait_edge (group_waits (concat ess)) a b \<longleftrightarrow>
      (\<exists>t \<in> set (graph_tasks g). \<exists>es. task_waits s t = Inr es \<and> (a, b) \<in> set es)"
    using state_waits_total[OF assms(1,3)] by blast
  let ?w = "group_waits (concat ess)"
  have "\<nexists>c. wait_cycle ?w c"
  proof (safe, rule notE[OF no_circular_wait[OF _ assms(2)]])
    fix a b assume "wait_edge ?w a b"
    then obtain t es where t: "t \<in> set (graph_tasks g)" "task_waits s t = Inr es" "(a, b) \<in> set es"
      unfolding edges by blast
    then show "\<exists>i. a = ''task:'' @ i \<and> ((\<exists>d. b = ''task:'' @ d \<and> (i, d) \<in> wait_relation (graph_tasks g)) \<or>
        (\<exists>x. b = ''blocker:'' @ x))"
      using task_waits_edges[OF t(2,3)] by (fastforce simp: wait_relation_def)
  qed
  from wait_report_value(2)[OF group_waits_keys this] show ?thesis using r by auto
qed

lemma wait_relation_simps [simp]:
  "wait_relation [] = {}"
  "wait_relation (t # ts) = {tk_id t} \<times> (set (dependencies t) \<union> set (review_targets t)) \<union> wait_relation ts"
  by (auto simp: wait_relation_def)

definition sample_graph :: "scheduler_task list \<Rightarrow> task_graph" where
  "sample_graph tasks = \<lparr>tg_candidate = sample_candidate, agent_registry = sample_reference ''agents.json'',
     tg_tool_registry = sample_reference ''tools.json'', orchestration_request = sample_reference ''request.json'',
     worktree_plan = None, tg_contexts = [], tg_budget = \<lparr>max_agents = 2, max_concurrency = 1,
       max_reasoning_effort = ''high'', max_dispatches = 8, max_retries = 1, max_wall_time_seconds = 60,
       max_tool_calls = 8, max_context_bytes_per_dispatch = 1024, max_context_bytes_total = 8192,
       max_solver_calls = 1, max_solver_steps = 200, cost_status = ''unknown'', currency = None,
       max_microunits = None\<rparr>, graph_tasks = tasks\<rparr>"

definition sample_state :: "string list \<Rightarrow> scheduler_state" where
  "sample_state ids = \<lparr>ss_graph_id = ''M6-TASK-GRAPH-'' @ zeros, ss_candidate = sample_candidate,
     state_tasks = map sample_projection ids, ready_order = [], lease_ids = [], message_ids = [],
     budget_ledger_id = ''M6-BUDGET-LEDGER-'' @ zeros, worktree_lease_ids = [], event_sequence = 1,
     event_head_sha256 = zeros\<rparr>"

theorem acyclic_waits_never_deadlock_witness:
  "\<exists>r. scheduler_state_wait_report (sample_graph (chain_graph [''A'', ''B'']))
      (sample_state [''A'', ''B'']) = Inr r \<and> wr_kind r = ''stall''"
proof -
  let ?g = "sample_graph (chain_graph [''A'', ''B''])" and ?s = "sample_state [''A'', ''B'']"
  have v: "valid_dag (chain_graph [''A'', ''B''])" by (rule chain_valid) code_simp
  have c: "closed_graph (graph_tasks ?g)" using v by (simp add: valid_dag_def sample_graph_def)
  have "wait_relation (graph_tasks ?g) = {(''A'', ''B'')}" by (simp add: sample_graph_def)
  then have a: "acyclic (wait_relation (graph_tasks ?g))" by (simp add: acyclic_insert) (simp add: acyclic_def)
  have "task_ids (graph_tasks ?g) \<subseteq> set (map pj_task_id (state_tasks ?s))"
    by (auto simp: sample_graph_def sample_state_def sample_projection_def)
  from acyclic_waits_never_deadlock[OF c a this] obtain r where
    r: "scheduler_state_wait_report ?g ?s = Inr r" "wr_kind r \<in> {''stall'', ''clear''}" by blast
  have "task_waits ?s (sample_task ''A'' [''B''] [] [''A'']) = Inr [(''task:A'', ''task:B'')]"
    by (simp add: sample_state_def sample_projection_def task_waits_def projection_of_def finished_state_def)
  moreover have "task_waits ?s (sample_task ''B'' [] [] [''B'']) = Inr []"
    by (simp add: sample_state_def sample_projection_def task_waits_def projection_of_def finished_state_def)
  ultimately have "r = deterministic_wait_report [(''task:A'', [''task:B''])]"
    using r(1) by (simp add: scheduler_state_wait_report_def sample_graph_def group_waits_def)
  moreover have "wait_edge [(''task:A'', [''task:B''])] ''task:A'' ''task:B''"
    by (simp add: wait_edge_def successors_def)
  ultimately show ?thesis
    using r wait_report_shows_cycle[of "[(''task:A'', [''task:B''])]"] by (auto split: if_splits)
qed

text \<open>
  C18: review targets are waited for like dependencies, but the validation only excludes cycles of
  dependencies.  For every graph that passes it, the report of a state is a deadlock exactly when unfinished
  tasks wait for each other in a circle, so every task that reviews an unfinished task depending on
  it, while it is unfinished itself, makes a state of an accepted graph a deadlock.
\<close>

theorem review_cycle_deadlocks:
  assumes "valid_dag (graph_tasks g)" and "length (graph_tasks g) \<le> depth"
    and "task_ids (graph_tasks g) \<subseteq> set (map pj_task_id (state_tasks s))"
  shows "validate_dag depth (graph_tasks g) = Inr () \<and> (\<exists>r. scheduler_state_wait_report g s = Inr r \<and>
    (wr_kind r = ''deadlock'' \<longleftrightarrow> \<not> acyclic (open_waits (graph_tasks g) s)) \<and>
    (\<forall>t \<in> set (graph_tasks g). \<forall>u \<in> set (graph_tasks g). tk_id u \<in> set (review_targets t) \<and>
       tk_id t \<in> set (dependencies u) \<and> unfinished s (tk_id t) \<and> unfinished s (tk_id u) \<longrightarrow> wr_kind r = ''deadlock''))"
proof -
  have "closed_graph (graph_tasks g)" using assms(1) by (simp add: valid_dag_def)
  from deadlock_iff_circular[OF this assms(3)] obtain r where r: "scheduler_state_wait_report g s = Inr r"
    "wr_kind r = ''deadlock'' \<longleftrightarrow> \<not> acyclic (open_waits (graph_tasks g) s)" by blast
  have "\<not> acyclic (open_waits (graph_tasks g) s)" if "t \<in> set (graph_tasks g)" "u \<in> set (graph_tasks g)"
    "tk_id u \<in> set (review_targets t)" "tk_id t \<in> set (dependencies u)" "unfinished s (tk_id t)" "unfinished s (tk_id u)" for t u
  proof -
    have "(tk_id t, tk_id u) \<in> open_waits (graph_tasks g) s" "(tk_id u, tk_id t) \<in> open_waits (graph_tasks g) s"
      using that by (auto simp: open_waits_def wait_relation_def)
    then show ?thesis unfolding acyclic_def by (blast intro: trancl_into_trancl)
  qed
  then show ?thesis using r dag_validation_accepts[OF assms(1,2)] by blast
qed

theorem review_cycle_deadlocks_witness:
  "\<exists>r. validate_dag 2 [sample_task ''TSK-A'' [] [''TSK-B''] [], sample_task ''TSK-B'' [''TSK-A''] [] []] = Inr () \<and>
    scheduler_state_wait_report
      (sample_graph [sample_task ''TSK-A'' [] [''TSK-B''] [], sample_task ''TSK-B'' [''TSK-A''] [] []])
      (sample_state [''TSK-A'', ''TSK-B'']) = Inr r \<and> wr_kind r = ''deadlock''"
proof -
  let ?t = "sample_task ''TSK-A'' [] [''TSK-B''] []" and ?u = "sample_task ''TSK-B'' [''TSK-A''] [] []"
  let ?g = "sample_graph [?t, ?u]" and ?s = "sample_state [''TSK-A'', ''TSK-B'']"
  have tasks: "graph_tasks ?g = [?t, ?u]" by (simp add: sample_graph_def)
  have "validate_dag 2 [?t, ?u] = Inr ()" by code_simp
  then have v: "valid_dag (graph_tasks ?g)" unfolding tasks by (rule validate_dag_sound)
  have k: "task_ids (graph_tasks ?g) \<subseteq> set (map pj_task_id (state_tasks ?s))"
    by (simp add: tasks sample_state_def sample_projection_def)
  have open_tasks: "unfinished ?s (tk_id ?t)" "unfinished ?s (tk_id ?u)"
    by (simp_all add: sample_state_def sample_projection_def unfinished_def projection_of_def finished_state_def)
  have "length (graph_tasks ?g) \<le> 2" by (simp add: tasks)
  from review_cycle_deadlocks[OF v this k] open_tasks show ?thesis unfolding tasks by auto
qed

end
