(* ===== verification/EpochContracts.thy ===== *)
theory EpochContracts
  imports SchedulerDomain RegistryContracts
begin

text \<open>
  The contract of workflow epoch events in \<open>application/scheduler_contracts.py\<close>: identifiers,
  canonical timestamps, receipts, the event parser and the content-addressed envelope.  Unlike the
  solver documents an accepted event need not be the encoding of its value: \<open>format_utc\<close> drops the
  fraction of a second.  Its parsers are interpretations of \<open>normal_form\<close>.
\<close>

section \<open>Identifiers\<close>

datatype scheduler_artifact_type = TASK_GRAPH | SCHEDULER_STATE | LEASE | MAILBOX_MESSAGE
  | SCHEDULER_EVENT | BUDGET_LEDGER | WORKTREE_LEASE | WORKFLOW_EPOCH_EVENT
  | MIGRATION_APPROVAL | MIGRATION_RESULT

fun scheduler_type_value :: "scheduler_artifact_type \<Rightarrow> string" where
  "scheduler_type_value TASK_GRAPH = ''task-graph''"
| "scheduler_type_value SCHEDULER_STATE = ''scheduler-state''"
| "scheduler_type_value LEASE = ''lease''"
| "scheduler_type_value MAILBOX_MESSAGE = ''mailbox-message''"
| "scheduler_type_value SCHEDULER_EVENT = ''scheduler-event''"
| "scheduler_type_value BUDGET_LEDGER = ''budget-ledger''"
| "scheduler_type_value WORKTREE_LEASE = ''worktree-lease''"
| "scheduler_type_value WORKFLOW_EPOCH_EVENT = ''workflow-epoch-event''"
| "scheduler_type_value MIGRATION_APPROVAL = ''scheduler-store-migration-approval''"
| "scheduler_type_value MIGRATION_RESULT = ''scheduler-store-migration-result''"

definition scheduler_artifact_type_members :: "scheduler_artifact_type list" where
  "scheduler_artifact_type_members = [TASK_GRAPH, SCHEDULER_STATE, LEASE, MAILBOX_MESSAGE,
     SCHEDULER_EVENT, BUDGET_LEDGER, WORKTREE_LEASE, WORKFLOW_EPOCH_EVENT, MIGRATION_APPROVAL,
     MIGRATION_RESULT]"

interpretation scheduler_type_enum: str_enum scheduler_type_value scheduler_artifact_type_members
proof (unfold_locales, goal_cases)
  case (1 e) then show ?case by (cases e) (simp_all add: scheduler_artifact_type_members_def)
qed code_simp+

fun scheduler_prefix :: "scheduler_artifact_type \<Rightarrow> string" where
  "scheduler_prefix TASK_GRAPH = ''M6-TASK-GRAPH-''"
| "scheduler_prefix SCHEDULER_STATE = ''M6-SCHEDULER-STATE-''"
| "scheduler_prefix LEASE = ''M6-LEASE-''"
| "scheduler_prefix MAILBOX_MESSAGE = ''M6-MESSAGE-''"
| "scheduler_prefix SCHEDULER_EVENT = ''M6-EVENT-''"
| "scheduler_prefix BUDGET_LEDGER = ''M6-BUDGET-LEDGER-''"
| "scheduler_prefix WORKTREE_LEASE = ''M6-WORKTREE-LEASE-''"
| "scheduler_prefix WORKFLOW_EPOCH_EVENT = ''M6-WORKFLOW-EPOCH-EVENT-''"
| "scheduler_prefix MIGRATION_APPROVAL = ''M6-SCHEDULER-STORE-MIGRATION-APPROVAL-''"
| "scheduler_prefix MIGRATION_RESULT = ''M6-SCHEDULER-STORE-MIGRATION-RESULT-''"

text \<open>\<open>^M6-[A-Z-]+-[0-9A-F]{64}$\<close>.\<close>

definition m6_id :: "string \<Rightarrow> bool" where
  "m6_id s = (let front = take (length s - 64) s; middle = butlast (drop 3 front) in
     starts ''M6-'' s \<and> hex64 (drop (length s - 64) s) \<and> middle \<noteq> [] \<and>
     list_all (\<lambda>c. is_upper c \<or> c = CHR ''-'') middle \<and> last front = CHR ''-'')"

definition scheduler_id :: "scheduler_artifact_type \<Rightarrow> json \<Rightarrow> string result" where
  "scheduler_id t = matched_text 160 (\<lambda>s. m6_id s \<and> starts (scheduler_prefix t) s)
     (SchedulerContractError BadSchedulerText)"

definition wf_scheduler_id :: "scheduler_artifact_type \<Rightarrow> string \<Rightarrow> bool" where
  "wf_scheduler_id t s = (plain_text 160 s \<and> m6_id s \<and> starts (scheduler_prefix t) s)"

definition choice :: "string list \<Rightarrow> json \<Rightarrow> string result" where
  "choice allowed = matched_text 100 (\<lambda>s. s \<in> set allowed) (SchedulerContractError BadSchedulerText)"

definition wf_choice :: "string list \<Rightarrow> string \<Rightarrow> bool" where
  "wf_choice allowed s = (plain_text 100 s \<and> s \<in> set allowed)"

definition workflow_producers :: "string list" where
  "workflow_producers = [''workflow-plan'', ''workflow-run'', ''workflow-resume'',
     ''workflow-recover'', ''workflow-outcome'', ''workflow-supersede'', ''workflow-simulate'']"

definition workflow_prefixes :: "(string \<times> string) list" where
  "workflow_prefixes = [(''integrated-plan'', ''M8-INTEGRATED-PLAN-''),
     (''workflow-state'', ''M8-WORKFLOW-STATE-''), (''workflow-event'', ''M8-WORKFLOW-EVENT-''),
     (''workflow-outcome'', ''M8-WORKFLOW-OUTCOME-'')]"

definition m8_artifact_id :: "string \<Rightarrow> bool" where
  "m8_artifact_id s = list_ex (\<lambda>(_, p). starts p s \<and> hex64 (drop (length p) s)) workflow_prefixes"

definition workflow_artifact_id :: "string \<Rightarrow> json \<Rightarrow> string result" where
  "workflow_artifact_id ty j = bindR (line_value 128 j) (\<lambda>text.
     (case map_of workflow_prefixes ty of
        None \<Rightarrow> Inl KeyError
      | Some p \<Rightarrow> bindR (require (starts p text \<and> m8_artifact_id text)
          (SchedulerContractError BadSchedulerText)) (\<lambda>_. Inr text)))"

definition wf_workflow_id :: "string \<Rightarrow> string \<Rightarrow> bool" where
  "wf_workflow_id ty s = (plain_text 128 s \<and> m8_artifact_id s \<and>
     (case map_of workflow_prefixes ty of None \<Rightarrow> False | Some p \<Rightarrow> starts p s))"

definition workflow_idempotency_key :: "json \<Rightarrow> string result" where
  "workflow_idempotency_key = matched_text 72 (\<lambda>s. starts ''M8-IDEM-'' s \<and> hex64 (drop 8 s))
     (SchedulerContractError BadSchedulerText)"

definition wf_workflow_key :: "string \<Rightarrow> bool" where
  "wf_workflow_key s = (plain_text 72 s \<and> starts ''M8-IDEM-'' s \<and> hex64 (drop 8 s))"

interpretation scheduler_id_codec: codec "scheduler_id t" JStr "wf_scheduler_id t" for t
  unfolding scheduler_id_def wf_scheduler_id_def[abs_def] by (rule codec_matched)

interpretation choice_codec: codec "choice allowed" JStr "wf_choice allowed" for allowed
  unfolding choice_def wf_choice_def[abs_def] by (rule codec_matched)

interpretation workflow_key_codec: codec workflow_idempotency_key JStr wf_workflow_key
  unfolding workflow_idempotency_key_def wf_workflow_key_def[abs_def] by (rule codec_matched)

lemma scheduler_id_iff [result_simps]: "scheduler_id t j = Inr s \<longleftrightarrow> j = JStr s \<and> wf_scheduler_id t s"
  by (auto simp: scheduler_id_def wf_scheduler_id_def matched_text_iff)

lemma choice_iff [result_simps]: "choice allowed j = Inr s \<longleftrightarrow> j = JStr s \<and> wf_choice allowed s"
  by (auto simp: choice_def wf_choice_def matched_text_iff)

lemma workflow_key_iff [result_simps]:
  "workflow_idempotency_key j = Inr s \<longleftrightarrow> j = JStr s \<and> wf_workflow_key s"
  by (auto simp: workflow_idempotency_key_def wf_workflow_key_def matched_text_iff)

lemma workflow_artifact_id_iff [result_simps]:
  "workflow_artifact_id ty j = Inr s \<longleftrightarrow> j = JStr s \<and> wf_workflow_id ty s"
  by (auto simp: workflow_artifact_id_def wf_workflow_id_def result_simps split: option.splits)

interpretation workflow_id_codec: codec "workflow_artifact_id ty" JStr "wf_workflow_id ty" for ty
  by unfold_locales (auto simp: workflow_artifact_id_iff)

section \<open>Canonical timestamps\<close>

definition pad :: "nat \<Rightarrow> int \<Rightarrow> string" where
  "pad n i = (let t = nat_text (nat i) in replicate (n - length t) (CHR ''0'') @ t)"

text \<open>\<open>isoformat(timespec="seconds")\<close> of a UTC \<open>datetime\<close>, with \<open>Z\<close> for the offset.\<close>

fun format_utc :: "utc \<Rightarrow> string" where
  "format_utc [y, m, d, h, mi, s, us] = pad 4 y @ ''-'' @ pad 2 m @ ''-'' @ pad 2 d @ ''T'' @
     pad 2 h @ '':'' @ pad 2 mi @ '':'' @ pad 2 s @ ''Z''"
| "format_utc _ = []"

definition canonical_timestamp :: "json \<Rightarrow> string result" where
  "canonical_timestamp j = bindR (utc_timestamp j) (\<lambda>text.
     bindR (parse_utc text) (\<lambda>u. Inr (format_utc u)))"

definition wf_recorded :: "string \<Rightarrow> bool" where
  "wf_recorded s = (wf_timestamp s \<and> format_utc (utc_fields s) = s)"

lemma pad_snoc:
  assumes "0 \<le> v" and "d < 10" and "0 < n"
  shows "pad (Suc n) (10 * v + int d) = pad n v @ [digit_char d]"
proof -
  have nat: "nat (10 * v + int d) = 10 * nat v + d" using assms(1) by linarith
  show ?thesis
  proof (cases "nat v = 0")
    case True
    then have "nat_text (10 * nat v + d) = [digit_char d]" "nat_text (nat v) = ''0''"
      using assms(2) by (simp_all add: nat_text.simps) (simp add: digit_char_def, code_simp)
    moreover have "replicate n (CHR ''0'') = replicate (n - 1) (CHR ''0'') @ ''0''"
      using assms(3) by (metis Suc_pred' append_Cons replicate_Suc replicate_append_same append_Nil)
    ultimately show ?thesis by (simp add: pad_def nat Let_def)
  next
    case False
    then have "\<not> 10 * nat v + d < 10" by linarith
    then have "nat_text (10 * nat v + d) = nat_text (nat v) @ [digit_char d]"
      using assms(2) by (subst nat_text.simps) (simp del: not_less)
    then show ?thesis by (simp add: pad_def nat Let_def)
  qed
qed

lemma digit_charE:
  assumes "is_digit c"
  obtains d where "d < 10" "c = digit_char d" "int (code c) - 48 = int d"
proof
  show "code c - 48 < 10" "c = digit_char (code c - 48)" "int (code c) - 48 = int (code c - 48)"
    using assms by (auto simp: is_digit_def between_def digit_char_def code_def Let_def of_nat_diff)
qed

lemma digits_value_nonneg: "list_all is_digit ds \<Longrightarrow> 0 \<le> digits_value ds"
proof (induction ds rule: rev_induct)
  case (snoc c ds)
  then obtain d where "int (code c) - 48 = int d" by (auto elim: digit_charE)
  then show ?case using snoc by (simp add: digits_value_snoc)
qed (simp add: digits_value_def)

lemma pad_digits: "list_all is_digit ds \<Longrightarrow> ds \<noteq> [] \<Longrightarrow> pad (length ds) (digits_value ds) = ds"
proof (induction ds rule: rev_induct)
  case (snoc c ds)
  then obtain d where d: "d < 10" "c = digit_char d" "int (code c) - 48 = int d" by (auto elim: digit_charE)
  show ?case
  proof (cases "ds = []")
    case True
    then show ?thesis using d by (simp add: digits_value_def pad_def nat_text.simps)
  next
    case False
    then show ?thesis using snoc d pad_snoc[of "digits_value ds" d "length ds"] digits_value_nonneg[of ds]
      by (simp add: digits_value_snoc)
  qed
qed simp

lemma pad2: "is_digit a \<Longrightarrow> is_digit b \<Longrightarrow> pad 2 (digits_value [a, b]) = [a, b]"
  using pad_digits[of "[a, b]"] by (simp add: numeral_2_eq_2)

lemma pad4: "is_digit a \<Longrightarrow> is_digit b \<Longrightarrow> is_digit c \<Longrightarrow> is_digit d \<Longrightarrow>
    pad 4 (digits_value [a, b, c, d]) = [a, b, c, d]"
  using pad_digits[of "[a, b, c, d]"] by (simp add: eval_nat_numeral)

lemma take_19_shape:
  assumes "rfc3339_utc t"
  obtains y1 y2 y3 y4 m1 m2 d1 d2 h1 h2 i1 i2 s1 s2 where
    "take 19 t = [y1, y2, y3, y4, CHR ''-'', m1, m2, CHR ''-'', d1, d2, CHR ''T'', h1, h2, CHR '':'',
       i1, i2, CHR '':'', s1, s2]"
    "list_all is_digit [y1, y2, y3, y4, m1, m2, d1, d2, h1, h2, i1, i2, s1, s2]"
proof -
  let ?P = "\<lambda>p c. if p = CHR ''d'' then is_digit c else c = p"
  have l: "list_all2 ?P ''dddd-dd-ddTdd:dd:dd'' (take 19 t)" using assms by (simp add: rfc3339_utc_def)
  then have "length (take 19 t) = 19" by (auto dest!: list_all2_lengthD)
  then obtain f where "take 19 t = map f [0..<19]" by (metis map_nth)
  then have e: "take 19 t = [f 0, f 1, f 2, f 3, f 4, f 5, f 6, f 7, f 8, f 9, f 10, f 11, f 12, f 13, f 14, f 15, f 16, f 17, f 18]"
    by (simp add: upt_rec eval_nat_numeral)
  show thesis using l that unfolding e by simp
qed

lemma fields_of_shape:
  "take 19 t = [y1, y2, y3, y4, c1, m1, m2, c2, d1, d2, c3, h1, h2, c4, i1, i2, c5, s1, s2] \<Longrightarrow>
    \<exists>us. utc_fields t = [digits_value [y1, y2, y3, y4], digits_value [m1, m2], digits_value [d1, d2],
       digits_value [h1, h2], digits_value [i1, i2], digits_value [s1, s2], us]"
proof -
  assume "take 19 t = [y1, y2, y3, y4, c1, m1, m2, c2, d1, d2, c3, h1, h2, c4, i1, i2, c5, s1, s2]"
  then have "t = [y1, y2, y3, y4, c1, m1, m2, c2, d1, d2, c3, h1, h2, c4, i1, i2, c5, s1, s2] @ drop 19 t"
    by (metis append_take_drop_id)
  then obtain r where "t = [y1, y2, y3, y4, c1, m1, m2, c2, d1, d2, c3, h1, h2, c4, i1, i2, c5, s1, s2] @ r"
    by blast
  then show ?thesis by (simp add: utc_fields_def Let_def)
qed

lemma format_utc_fields: "rfc3339_utc t \<Longrightarrow> format_utc (utc_fields t) = take 19 t @ ''Z''"
proof (erule take_19_shape, goal_cases)
  case (1 y1 y2 y3 y4 m1 m2 d1 d2 h1 h2 i1 i2 s1 s2)
  then show ?case using fields_of_shape[OF 1(1)] by (auto simp: pad2 pad4)
qed

lemma timestamp_char: "is_digit c \<or> c \<in> set ''-T:Z'' \<Longrightarrow> \<not> py_space c \<and> code c \<notin> {0, 10, 13} \<and>
    c \<noteq> CHR ''K'' \<and> c \<noteq> CHR ''g'' \<and> c \<noteq> CHR '' ''"
  by (auto simp: is_digit_def between_def py_space_def code_def Let_def)

lemma timestamp_plain:
  assumes "xs \<noteq> []" and "length xs \<le> n" and "list_all (\<lambda>c. is_digit c \<or> c \<in> set ''-T:Z'') xs"
  shows "plain_text n xs"
proof -
  have chars: "\<not> py_space c \<and> code c \<notin> {0, 10, 13} \<and> c \<noteq> CHR ''K'' \<and> c \<noteq> CHR ''g'' \<and> c \<noteq> CHR '' ''"
    if "c \<in> set xs" for c
    using that assms(3) by (intro timestamp_char) (simp only: list_all_iff)
  then have "\<not> secret_text xs" using secret_text_chars[of xs] by blast
  moreover have "\<not> list_all py_space xs" using chars assms(1) by (cases xs) auto
  ultimately show ?thesis using assms(2) chars unfolding plain_text_def list_all_iff by blast
qed

lemma canonical_timestamp_wf:
  assumes "wf_timestamp t"
  shows "wf_recorded (format_utc (utc_fields t))"
proof -
  let ?f = "take 19 t @ ''Z''"
  have r: "rfc3339_utc t" and v: "valid_utc (utc_fields t)" using assms by (simp_all add: wf_timestamp_def)
  show ?thesis
    using r
  proof (cases rule: take_19_shape)
    case (1 y1 y2 y3 y4 m1 m2 d1 d2 h1 h2 i1 i2 s1 s2)
    have t19: "take 19 ?f = take 19 t" using 1(1) by simp
    have r': "rfc3339_utc ?f" using r 1(1) by (simp add: rfc3339_utc_def Let_def)
    obtain u u' where "utc_fields t = [digits_value [y1, y2, y3, y4], digits_value [m1, m2],
        digits_value [d1, d2], digits_value [h1, h2], digits_value [i1, i2], digits_value [s1, s2], u]"
      "utc_fields ?f = [digits_value [y1, y2, y3, y4], digits_value [m1, m2],
        digits_value [d1, d2], digits_value [h1, h2], digits_value [i1, i2], digits_value [s1, s2], u']"
      using fields_of_shape[OF 1(1)] fields_of_shape[OF t19[unfolded 1(1)]] 1(1) by metis
    then have v': "valid_utc (utc_fields ?f)" using v by simp
    have "plain_text 40 ?f" using 1 by (intro timestamp_plain) simp_all
    then show ?thesis using r' v' format_utc_fields[OF r] format_utc_fields[OF r'] t19
      by (simp add: wf_recorded_def wf_timestamp_def)
  qed
qed

interpretation recorded_form: normal_form canonical_timestamp JStr wf_recorded
proof (unfold_locales, goal_cases)
  case (1 s)
  then show ?case by (simp add: canonical_timestamp_def wf_recorded_def bindR_eq_Inr
      utc_timestamp_iff parse_utc_timestamp)
next
  case (2 j s)
  then show ?case
    by (auto simp: canonical_timestamp_def result_simps parse_utc_timestamp canonical_timestamp_wf)
qed simp

section \<open>Receipts\<close>

definition parse_workflow_receipt :: "json \<Rightarrow> workflow_receipt result" where
  "parse_workflow_receipt j = bindR (object_value j) (\<lambda>item.
     bindR (only_keys item [''artifact_type'', ''artifact_id'', ''path'', ''producer'', ''status'']) (\<lambda>_.
     bindR (choice (map fst workflow_prefixes) (get item ''artifact_type'')) (\<lambda>ty.
     bindR (workflow_artifact_id ty (get item ''artifact_id'')) (\<lambda>identifier.
     bindR (safe_relative_path (get item ''path'')) (\<lambda>path.
     bindR (choice workflow_producers (get item ''producer'')) (\<lambda>producer.
     bindR (enum_value receipt_status_value workflow_receipt_status_members (get item ''status'')) (\<lambda>status.
     Inr \<lparr>rc_type = ty, rc_id = identifier, rc_path = path, rc_producer = producer,
          rc_status = status\<rparr>)))))))"

definition wf_receipt :: "workflow_receipt \<Rightarrow> bool" where
  "wf_receipt r = (wf_choice (map fst workflow_prefixes) (rc_type r) \<and>
     wf_workflow_id (rc_type r) (rc_id r) \<and> safe_path (rc_path r) \<and>
     wf_choice workflow_producers (rc_producer r))"

interpretation receipt_codec: codec parse_workflow_receipt receipt_to_dict wf_receipt
proof (unfold_locales, goal_cases)
  case (1 r)
  have eta: "\<lparr>rc_type = rc_type r, rc_id = rc_id r, rc_path = rc_path r,
      rc_producer = rc_producer r, rc_status = rc_status r\<rparr> = r" by simp
  from 1 show ?case
    by (simp add: parse_workflow_receipt_def receipt_to_dict_def wf_receipt_def get_Cons only_keys_same
        choice_codec.parse_enc workflow_id_codec.parse_enc path_codec.parse_enc
        receipt_status_enum.enum_value_val eta)
next
  case (2 j r)
  then show ?case by (clarsimp simp: parse_workflow_receipt_def wf_receipt_def result_simps)
next
  case (3 j r)
  then show ?case
    by (clarsimp simp: parse_workflow_receipt_def receipt_to_dict_def result_simps
        receipt_status_enum.enum_value_iff) (rule py_eq_objI; simp)
qed (simp add: receipt_to_dict_def wf_json.simps)

section \<open>Epoch events\<close>

text \<open>
  \<open>str.casefold\<close> on the paths the contract lets through: \<open>safe_relative_path\<close> keeps ASCII letters,
  digits, dots, underscores, slashes and dashes only.
\<close>

definition casefold :: "string \<Rightarrow> string" where
  "casefold s = map (\<lambda>c. if is_upper c then char_of (code c + 32) else c) s"

definition receipt_order :: "workflow_receipt \<Rightarrow> string \<times> string" where
  "receipt_order r = (casefold (rc_path r), rc_id r)"

definition receipts_canonical :: "workflow_receipt list \<Rightarrow> bool" where
  "receipts_canonical rs = (map receipt_order rs = sort (map receipt_order rs) \<and>
     card (set (map fst (map receipt_order rs))) = length (map receipt_order rs))"

definition parse_receipts :: "json \<Rightarrow> workflow_receipt list result" where
  "parse_receipts j = bindR (array_value 1024 j) (\<lambda>raw.
     bindR (mapR parse_workflow_receipt raw) (\<lambda>rs.
     bindR (require (rs \<noteq> []) (SchedulerContractError BadEpochEvent)) (\<lambda>_.
     bindR (require (receipts_canonical rs) (SchedulerContractError BadEpochEvent)) (\<lambda>_.
     Inr rs))))"

text \<open>Either all predecessor fields are there or none; an artifact head has an identity and a path.\<close>

definition all_or_none :: "string option list \<Rightarrow> bool" where
  "all_or_none xs = (\<not> (list_ex (\<lambda>x. x = None) xs \<and> list_ex (\<lambda>x. x \<noteq> None) xs))"

definition paired_heads :: "(string option \<times> string option) list \<Rightarrow> bool" where
  "paired_heads ps = (\<not> list_ex (\<lambda>(i, p). (i = None) \<noteq> (p = None)) ps)"

definition epoch_keys :: "string list" where
  "epoch_keys = [''sequence'', ''epoch_sequence'', ''previous_event_id'', ''cause'', ''plan_id'',
     ''predecessor_plan_id'', ''predecessor_terminal_event_head_id'', ''predecessor_state_id'',
     ''predecessor_outcome_id'', ''candidate'', ''graph_id'', ''scheduler_state_id'',
     ''scheduler_event_sequence'', ''scheduler_event_head_id'', ''idempotency_key'', ''producer'',
     ''source_state_id'', ''workflow_event_id'', ''workflow_event_path'', ''workflow_state_id'',
     ''workflow_state_path'', ''outcome_id'', ''outcome_path'', ''receipts'', ''recorded_at'']"

abbreviation positive_value :: "json \<Rightarrow> int result" where
  "positive_value \<equiv> integer_value 1 2147483647"

definition parse_workflow_epoch_event :: "json \<Rightarrow> workflow_epoch_event result" where
  "parse_workflow_epoch_event j = bindR (object_value j) (\<lambda>item.
     bindR (only_keys item epoch_keys) (\<lambda>_.
     bindR (positive_value (get item ''sequence'')) (\<lambda>sequence.
     bindR (positive_value (get item ''epoch_sequence'')) (\<lambda>epoch_sequence.
     bindR (optional_value (scheduler_id WORKFLOW_EPOCH_EVENT) (get item ''previous_event_id'')) (\<lambda>previous.
     bindR (require (\<not> (epoch_sequence = 1) \<noteq> (previous = None)) (SchedulerContractError BadEpochEvent)) (\<lambda>_.
     bindR (enum_value epoch_cause_value workflow_epoch_cause_members (get item ''cause'')) (\<lambda>cause.
     bindR (workflow_artifact_id ''integrated-plan'' (get item ''plan_id'')) (\<lambda>plan.
     bindR (optional_value (workflow_artifact_id ''integrated-plan'') (get item ''predecessor_plan_id'')) (\<lambda>pre_plan.
     bindR (optional_value (scheduler_id WORKFLOW_EPOCH_EVENT)
       (get item ''predecessor_terminal_event_head_id'')) (\<lambda>pre_head.
     bindR (optional_value (workflow_artifact_id ''workflow-state'') (get item ''predecessor_state_id'')) (\<lambda>pre_state.
     bindR (optional_value (workflow_artifact_id ''workflow-outcome'') (get item ''predecessor_outcome_id'')) (\<lambda>pre_outcome.
     bindR (require (all_or_none [pre_plan, pre_head, pre_state, pre_outcome])
       (SchedulerContractError BadEpochEvent)) (\<lambda>_.
     bindR (scheduler_id TASK_GRAPH (get item ''graph_id'')) (\<lambda>graph.
     bindR (scheduler_id SCHEDULER_STATE (get item ''scheduler_state_id'')) (\<lambda>state.
     bindR (scheduler_id SCHEDULER_EVENT (get item ''scheduler_event_head_id'')) (\<lambda>event_head.
     bindR (choice workflow_producers (get item ''producer'')) (\<lambda>producer.
     bindR (parse_receipts (get item ''receipts'')) (\<lambda>receipts.
     bindR (optional_value (workflow_artifact_id ''workflow-state'') (get item ''source_state_id'')) (\<lambda>source.
     bindR (optional_value (workflow_artifact_id ''workflow-event'') (get item ''workflow_event_id'')) (\<lambda>event_id.
     bindR (optional_value safe_relative_path (get item ''workflow_event_path'')) (\<lambda>event_path.
     bindR (optional_value (workflow_artifact_id ''workflow-state'') (get item ''workflow_state_id'')) (\<lambda>state_id.
     bindR (optional_value safe_relative_path (get item ''workflow_state_path'')) (\<lambda>state_path.
     bindR (optional_value (workflow_artifact_id ''workflow-outcome'') (get item ''outcome_id'')) (\<lambda>outcome_id.
     bindR (optional_value safe_relative_path (get item ''outcome_path'')) (\<lambda>outcome_path.
     bindR (require (paired_heads [(event_id, event_path), (state_id, state_path), (outcome_id, outcome_path)])
       (SchedulerContractError BadEpochEvent)) (\<lambda>_.
     bindR (canonical_timestamp (get item ''recorded_at'')) (\<lambda>recorded.
     bindR (parse_candidate_identity (get item ''candidate'')) (\<lambda>candidate.
     bindR (positive_value (get item ''scheduler_event_sequence'')) (\<lambda>event_sequence.
     bindR (workflow_idempotency_key (get item ''idempotency_key'')) (\<lambda>key.
     Inr \<lparr>ee_sequence = sequence, ee_epoch_sequence = epoch_sequence, ee_previous_event_id = previous,
          ee_cause = cause, ee_plan_id = plan, ee_predecessor_plan_id = pre_plan,
          ee_predecessor_head_id = pre_head, ee_predecessor_state_id = pre_state,
          ee_predecessor_outcome_id = pre_outcome, ee_candidate = candidate, ee_graph_id = graph,
          ee_scheduler_state_id = state, ee_scheduler_event_sequence = event_sequence,
          ee_scheduler_event_head_id = event_head, ee_idempotency_key = key, ee_producer = producer,
          ee_source_state_id = source, ee_workflow_event_id = event_id,
          ee_workflow_event_path = event_path, ee_workflow_state_id = state_id,
          ee_workflow_state_path = state_path, ee_outcome_id = outcome_id,
          ee_outcome_path = outcome_path, ee_receipts = receipts, ee_recorded_at = recorded\<rparr>))))))))))))))))))))))))))))))"

definition wf_receipts :: "workflow_receipt list \<Rightarrow> bool" where
  "wf_receipts rs = (list_all wf_receipt rs \<and> rs \<noteq> [] \<and> length rs \<le> 1024 \<and> receipts_canonical rs)"

definition wf_positive :: "int \<Rightarrow> bool" where
  "wf_positive i = (1 \<le> i \<and> i \<le> 2147483647)"

definition wf_epoch_event :: "workflow_epoch_event \<Rightarrow> bool" where
  "wf_epoch_event e = (wf_positive (ee_sequence e) \<and> wf_positive (ee_epoch_sequence e) \<and>
     pred_option (wf_scheduler_id WORKFLOW_EPOCH_EVENT) (ee_previous_event_id e) \<and>
     (ee_epoch_sequence e = 1) = (ee_previous_event_id e = None) \<and>
     wf_workflow_id ''integrated-plan'' (ee_plan_id e) \<and>
     pred_option (wf_workflow_id ''integrated-plan'') (ee_predecessor_plan_id e) \<and>
     pred_option (wf_scheduler_id WORKFLOW_EPOCH_EVENT) (ee_predecessor_head_id e) \<and>
     pred_option (wf_workflow_id ''workflow-state'') (ee_predecessor_state_id e) \<and>
     pred_option (wf_workflow_id ''workflow-outcome'') (ee_predecessor_outcome_id e) \<and>
     all_or_none [ee_predecessor_plan_id e, ee_predecessor_head_id e, ee_predecessor_state_id e,
       ee_predecessor_outcome_id e] \<and>
     wf_candidate (ee_candidate e) \<and> wf_scheduler_id TASK_GRAPH (ee_graph_id e) \<and>
     wf_scheduler_id SCHEDULER_STATE (ee_scheduler_state_id e) \<and>
     wf_positive (ee_scheduler_event_sequence e) \<and>
     wf_scheduler_id SCHEDULER_EVENT (ee_scheduler_event_head_id e) \<and>
     wf_workflow_key (ee_idempotency_key e) \<and> wf_choice workflow_producers (ee_producer e) \<and>
     pred_option (wf_workflow_id ''workflow-state'') (ee_source_state_id e) \<and>
     pred_option (wf_workflow_id ''workflow-event'') (ee_workflow_event_id e) \<and>
     pred_option safe_path (ee_workflow_event_path e) \<and>
     pred_option (wf_workflow_id ''workflow-state'') (ee_workflow_state_id e) \<and>
     pred_option safe_path (ee_workflow_state_path e) \<and>
     pred_option (wf_workflow_id ''workflow-outcome'') (ee_outcome_id e) \<and>
     pred_option safe_path (ee_outcome_path e) \<and>
     paired_heads [(ee_workflow_event_id e, ee_workflow_event_path e),
       (ee_workflow_state_id e, ee_workflow_state_path e), (ee_outcome_id e, ee_outcome_path e)] \<and>
     wf_receipts (ee_receipts e) \<and> wf_recorded (ee_recorded_at e))"

interpretation positive_codec: codec positive_value JInt wf_positive
  unfolding wf_positive_def[abs_def] by (rule codec_integer)

interpretation receipts_codec: codec parse_receipts "\<lambda>rs. JArr (map receipt_to_dict rs)" wf_receipts
proof (unfold_locales, goal_cases)
  case (1 rs)
  then show ?case
    by (simp add: parse_receipts_def wf_receipts_def array_value_iff bindR_eq_Inr receipt_codec.mapR_enc)
next
  case (2 j rs)
  then show ?case
    by (auto simp: parse_receipts_def wf_receipts_def result_simps receipt_codec.mapR_wf dest: mapR_length)
next
  case (3 j rs)
  then show ?case
    by (auto simp: parse_receipts_def result_simps wf_json.simps py_eq.simps receipt_codec.mapR_canonical)
qed (rule receipt_codec.wf_json_map)

lemmas epoch_encs =
  positive_codec.parse_enc scheduler_id_codec.parse_enc scheduler_id_codec.option_enc
  workflow_id_codec.parse_enc workflow_id_codec.option_enc path_codec.option_enc
  choice_codec.parse_enc workflow_key_codec.parse_enc candidate_codec.parse_enc
  receipts_codec.parse_enc recorded_form.parse_form epoch_cause_enum.enum_value_val

lemmas epoch_wfs =
  scheduler_id_codec.option_wf workflow_id_codec.option_wf path_codec.option_wf
  candidate_codec.parse_wf receipts_codec.parse_wf recorded_form.parsed_form

interpretation epoch_event_form: normal_form parse_workflow_epoch_event epoch_event_to_dict wf_epoch_event
proof (unfold_locales, goal_cases)
  case (1 e)
  have eta: "\<lparr>ee_sequence = ee_sequence e, ee_epoch_sequence = ee_epoch_sequence e,
      ee_previous_event_id = ee_previous_event_id e, ee_cause = ee_cause e, ee_plan_id = ee_plan_id e,
      ee_predecessor_plan_id = ee_predecessor_plan_id e, ee_predecessor_head_id = ee_predecessor_head_id e,
      ee_predecessor_state_id = ee_predecessor_state_id e,
      ee_predecessor_outcome_id = ee_predecessor_outcome_id e, ee_candidate = ee_candidate e,
      ee_graph_id = ee_graph_id e, ee_scheduler_state_id = ee_scheduler_state_id e,
      ee_scheduler_event_sequence = ee_scheduler_event_sequence e,
      ee_scheduler_event_head_id = ee_scheduler_event_head_id e,
      ee_idempotency_key = ee_idempotency_key e, ee_producer = ee_producer e,
      ee_source_state_id = ee_source_state_id e, ee_workflow_event_id = ee_workflow_event_id e,
      ee_workflow_event_path = ee_workflow_event_path e, ee_workflow_state_id = ee_workflow_state_id e,
      ee_workflow_state_path = ee_workflow_state_path e, ee_outcome_id = ee_outcome_id e,
      ee_outcome_path = ee_outcome_path e, ee_receipts = ee_receipts e,
      ee_recorded_at = ee_recorded_at e\<rparr> = e" by simp
  from 1 show ?case
    by (simp add: parse_workflow_epoch_event_def epoch_event_to_dict_def wf_epoch_event_def epoch_keys_def
        get_Cons only_keys_same epoch_encs eta)
next
  case (2 j e)
  then show ?case
    by (clarsimp simp: parse_workflow_epoch_event_def wf_epoch_event_def result_simps epoch_wfs
        positive_codec.parse_wf epoch_cause_enum.enum_value_iff wf_positive_def)
next
  case (3 e)
  show ?case
    by (simp add: epoch_event_to_dict_def wf_json.simps candidate_codec.enc_wf_json
        scheduler_id_codec.option_wf_json receipt_codec.enc_wf_json list_all_iff)
qed

end
