(* ===== verification/EpochArtifacts.thy ===== *)
theory EpochArtifacts
  imports EpochContracts Canonical
begin

text \<open>
  The content-addressed envelope of workflow epoch events: \<open>artifact_from_value\<close>,
  \<open>scheduler_identity\<close> and \<open>parse_scheduler_artifact_bytes\<close> of \<open>application/scheduler_contracts.py\<close>
  for the type \<open>workflow-epoch-event\<close>, the one type the workflow log stores.  A well-formed event
  always has an artifact, and its stored document parses back to it.  The byte limit on the stored text is
  left to the text layer, as the JSON tokenizer is.
\<close>

type_synonym epoch_artifact = "string \<times> workflow_epoch_event"

definition scheduler_identity :: "scheduler_artifact_type \<Rightarrow> json \<Rightarrow> string result" where
  "scheduler_identity t content = bindR (content_digest content) (\<lambda>d. Inr (scheduler_prefix t @ d))"

definition epoch_artifact_from_value :: "workflow_epoch_event \<Rightarrow> epoch_artifact result" where
  "epoch_artifact_from_value e = (let content = epoch_event_to_dict e in
     bindR (parse_workflow_epoch_event content) (\<lambda>parsed.
     bindR (require (py_eq (epoch_event_to_dict parsed) content)
       (SchedulerContractError BadSchedulerEnvelope)) (\<lambda>_.
     bindR (scheduler_identity WORKFLOW_EPOCH_EVENT (epoch_event_to_dict parsed)) (\<lambda>identity.
     Inr (identity, parsed)))))"

definition epoch_artifact_to_dict :: "epoch_artifact \<Rightarrow> json" where
  "epoch_artifact_to_dict a = JObj [
     (''schema_version'', JStr ''1.0''),
     (''artifact_type'', JStr (scheduler_type_value WORKFLOW_EPOCH_EVENT)),
     (''artifact_id'', JStr (fst a)),
     (''content'', epoch_event_to_dict (snd a))]"

text \<open>
  The text layer (UTF-8, duplicate keys, the byte limit) belongs to \<open>json.loads\<close>; the document is
  the decoded value.  Every contract error leaves as a \<open>SchedulerContractError\<close>.
\<close>

definition wrap_error :: "py_error \<Rightarrow> 'a result \<Rightarrow> 'a result" where
  "wrap_error e r = (case r of Inl _ \<Rightarrow> Inl e | Inr x \<Rightarrow> Inr x)"

definition read_epoch_envelope :: "json \<Rightarrow> epoch_artifact result" where
  "read_epoch_envelope document = bindR (validate_document document) (\<lambda>_.
     bindR (object_value document) (\<lambda>envelope.
     bindR (only_keys envelope [''schema_version'', ''artifact_type'', ''artifact_id'', ''content'']) (\<lambda>_.
     bindR (require (get envelope ''schema_version'' = JStr ''1.0'')
       (SchedulerContractError BadSchedulerEnvelope)) (\<lambda>_.
     bindR (enum_value scheduler_type_value scheduler_artifact_type_members
       (get envelope ''artifact_type'')) (\<lambda>t.
     bindR (require (t = WORKFLOW_EPOCH_EVENT) (SchedulerContractError BadSchedulerEnvelope)) (\<lambda>_.
     bindR (parse_workflow_epoch_event (get envelope ''content'')) (\<lambda>event.
     bindR (scheduler_identity t (epoch_event_to_dict event)) (\<lambda>expected_id.
     bindR (scheduler_id t (get envelope ''artifact_id'')) (\<lambda>identifier.
     bindR (require (identifier = expected_id) (SchedulerContractError StaleIdentity)) (\<lambda>_.
     Inr (identifier, event)))))))))))"

definition parse_epoch_artifact :: "json \<Rightarrow> epoch_artifact result" where
  "parse_epoch_artifact document =
     wrap_error (SchedulerAdapterError BadSchedulerEnvelope) (read_epoch_envelope document)"

definition wf_epoch_artifact :: "epoch_artifact \<Rightarrow> bool" where
  "wf_epoch_artifact a = (wf_epoch_event (snd a) \<and>
     scheduler_identity WORKFLOW_EPOCH_EVENT (epoch_event_to_dict (snd a)) = Inr (fst a))"

lemma wrap_error_iff [result_simps]: "wrap_error e r = Inr x \<longleftrightarrow> r = Inr x"
  by (cases r) (simp_all add: wrap_error_def)

section \<open>Well-formed events fit\<close>

lemma fits_receipt [simp]: "6 \<le> n \<Longrightarrow> 1 \<le> d \<Longrightarrow> fits n d (receipt_to_dict r)"
  by (simp add: receipt_to_dict_def fits_def ascii_text_def)

lemma epoch_event_nodes:
  assumes "length (ee_receipts e) \<le> 1024"
  shows "json_nodes (epoch_event_to_dict e) \<le> 6200"
proof -
  have "sum_list (map json_nodes (map receipt_to_dict (ee_receipts e))) \<le> 6 * 1024"
    using sum_list_bound[of "ee_receipts e" "json_nodes \<circ> receipt_to_dict" 6] assms fits_receipt[of 6 1]
    by (simp add: fits_def)
  moreover have "json_nodes (candidate_to_dict (ee_candidate e)) \<le> 4"
    using fits_candidate[of 4 1] by (simp add: fits_def)
  moreover have "json_nodes (enc_option JStr x) = 1" for x by (cases x) (simp_all add: enc_option_def)
  ultimately show ?thesis by (simp add: epoch_event_to_dict_def comp_def)
qed

lemma fits_epoch_event:
  assumes "length (ee_receipts e) \<le> 1024"
  shows "fits 6200 3 (epoch_event_to_dict e)"
proof -
  have rs: "fits 6145 2 (JArr (map receipt_to_dict (ee_receipts e)))"
    using assms by (intro fits_arr[where b = 6 and d = 1]) auto
  have leaf: "fits 6145 2 (enc_option JStr x)" for x by (cases x) (simp_all add: enc_option_def)
  have "fits 200000 3 (epoch_event_to_dict e)"
    unfolding epoch_event_to_dict_def
    by (intro fits_obj[where b = 6145 and d = 2]) (simp_all add: rs leaf ascii_text_def)
  then show ?thesis using epoch_event_nodes[OF assms] by (simp add: fits_def)
qed

text \<open>A computed identity has the syntax of an identity; no secret shape hides in it.\<close>

abbreviation epoch_prefix :: string where
  "epoch_prefix \<equiv> ''M6-WORKFLOW-EPOCH-EVENT-''"

lemma secret_text_needs: "secret_text s \<Longrightarrow> CHR ''I'' \<in> set s \<or> CHR ''g'' \<in> set s \<or> CHR '' '' \<in> set s"
proof -
  have a: "access_key_at t \<Longrightarrow> CHR ''I'' \<in> set t" for t
    using starts_subset[of "''AKIA''" t] by (auto simp: access_key_at_def)
  have b: "host_token_at t \<Longrightarrow> CHR ''g'' \<in> set t" for t
    using starts_subset[of "''gh''" t] by (auto simp: host_token_at_def)
  have c: "private_key_at t \<Longrightarrow> CHR '' '' \<in> set t" for t
  proof -
    assume "private_key_at t"
    then obtain k where "starts (''-----BEGIN '' @ k @ ''PRIVATE KEY-----'') t"
      by (auto simp only: private_key_at_def list_ex_iff)
    then show ?thesis using starts_subset by fastforce
  qed
  show "secret_text s \<Longrightarrow> CHR ''I'' \<in> set s \<or> CHR ''g'' \<in> set s \<or> CHR '' '' \<in> set s"
    unfolding secret_text_def using search_subset[of _ s] a b c by blast
qed

lemma epoch_prefix_chars: "c \<in> set epoch_prefix \<Longrightarrow> \<not> py_space c \<and> code c \<notin> {0, 10, 13} \<and>
    c \<noteq> CHR ''I'' \<and> c \<noteq> CHR ''g'' \<and> c \<noteq> CHR '' ''"
proof -
  have "list_all (\<lambda>c. \<not> py_space c \<and> code c \<notin> {0, 10, 13} \<and>
    c \<noteq> CHR ''I'' \<and> c \<noteq> CHR ''g'' \<and> c \<noteq> CHR '' '') epoch_prefix" by code_simp
  then show "c \<in> set epoch_prefix \<Longrightarrow> \<not> py_space c \<and> code c \<notin> {0, 10, 13} \<and>
    c \<noteq> CHR ''I'' \<and> c \<noteq> CHR ''g'' \<and> c \<noteq> CHR '' ''" unfolding list_all_iff by blast
qed

lemma hex_digit_chars: "hex_digit c \<Longrightarrow> is_hex_upper c \<and> \<not> py_space c \<and> code c \<notin> {0, 10, 13} \<and>
    c \<noteq> CHR ''I'' \<and> c \<noteq> CHR ''g'' \<and> c \<noteq> CHR '' ''"
  by (auto simp: hex_digit_def is_hex_upper_def is_digit_def between_def py_space_def code_def Let_def)

lemma scheduler_identity_wf:
  assumes "scheduler_identity WORKFLOW_EPOCH_EVENT content = Inr i"
  shows "wf_scheduler_id WORKFLOW_EPOCH_EVENT i"
proof -
  obtain bytes where i: "i = epoch_prefix @ sha256_hex bytes"
    using assms by (auto simp: scheduler_identity_def content_digest_def result_simps)
  let ?h = "sha256_hex bytes"
  have h: "length ?h = 64" "list_all is_hex_upper ?h"
    using sha256_hex_shape[where t = bytes] hex_digit_chars by (auto simp: list_all_iff)
  have chars: "\<not> py_space c \<and> code c \<notin> {0, 10, 13} \<and> c \<noteq> CHR ''I'' \<and> c \<noteq> CHR ''g'' \<and> c \<noteq> CHR '' ''"
    if "c \<in> set i" for c
    using that epoch_prefix_chars[of c] sha256_hex_shape(2)[of c bytes] hex_digit_chars[of c]
    unfolding i set_append by blast
  have "\<not> secret_text i" using chars secret_text_needs[of i] by blast
  moreover have "\<not> list_all py_space i" "list_all (\<lambda>c. code c \<notin> {0, 10, 13}) i"
    using chars i by (auto simp: list_all_iff)
  moreover have "length i = 88" using h by (simp add: i)
  ultimately have "plain_text 160 i" by (simp add: plain_text_def)
  then show ?thesis using h by (simp add: i wf_scheduler_id_def m6_id_def starts_def hex64_def Let_def
      is_upper_def between_def code_def)
qed

lemma epoch_identity_total:
  "wf_epoch_event e \<Longrightarrow> \<exists>i. scheduler_identity WORKFLOW_EPOCH_EVENT (epoch_event_to_dict e) = Inr i"
  using fits_bytes[OF fits_mono[OF fits_epoch_event]]
  by (simp add: scheduler_identity_def content_digest_def wf_epoch_event_def wf_receipts_def)

lemma epoch_artifact_from_value_iff:
  "wf_epoch_event e \<Longrightarrow> epoch_artifact_from_value e = Inr a \<longleftrightarrow> wf_epoch_artifact a \<and> snd a = e"
  by (cases a) (auto simp: epoch_artifact_from_value_def wf_epoch_artifact_def Let_def result_simps
      epoch_event_form.parse_form epoch_event_form.form_json py_eq_refl)

lemma epoch_artifact_total: "wf_epoch_event e \<Longrightarrow> \<exists>i. epoch_artifact_from_value e = Inr (i, e)"
  using epoch_identity_total[of e] epoch_artifact_from_value_iff[of e]
  by (fastforce simp: wf_epoch_artifact_def)

lemma read_epoch_envelope_wf: "read_epoch_envelope j = Inr a \<Longrightarrow> wf_epoch_artifact a"
  by (auto simp: read_epoch_envelope_def result_simps wf_epoch_artifact_def epoch_event_form.parsed_form)

lemma epoch_document_valid:
  assumes "wf_epoch_event (snd a)"
  shows "validate_document (epoch_artifact_to_dict a) = Inr ()"
proof -
  have "fits 6200 3 (epoch_event_to_dict (snd a))"
    using assms by (intro fits_epoch_event) (simp add: wf_epoch_event_def wf_receipts_def)
  then have "json_nodes (epoch_artifact_to_dict a) \<le> 10000" "json_depth (epoch_artifact_to_dict a) \<le> 64"
    by (simp_all add: epoch_artifact_to_dict_def fits_def)
  then show ?thesis
    using validate_json_structure_iff[of 0 10000 "[(epoch_artifact_to_dict a, 0)]"]
    by (simp add: validate_document_def)
qed

interpretation epoch_artifact_form: normal_form parse_epoch_artifact epoch_artifact_to_dict wf_epoch_artifact
proof (unfold_locales, goal_cases)
  case (1 a)
  then have "wf_scheduler_id WORKFLOW_EPOCH_EVENT (fst a)"
    by (auto simp: wf_epoch_artifact_def intro: scheduler_identity_wf)
  with 1 show ?case using epoch_document_valid[of a]
    by (simp add: parse_epoch_artifact_def wrap_error_iff read_epoch_envelope_def epoch_artifact_to_dict_def
        wf_epoch_artifact_def get_Cons only_keys_same scheduler_id_codec.parse_enc
        epoch_event_form.parse_form scheduler_type_enum.enum_value_val del: scheduler_type_value.simps)
next
  case (2 j a)
  then show ?case by (simp add: parse_epoch_artifact_def wrap_error_iff read_epoch_envelope_wf)
next
  case (3 a)
  show ?case by (simp add: epoch_artifact_to_dict_def wf_json.simps epoch_event_form.form_json)
qed

end
