(* ===== verification/WorkflowEpoch.thy ===== *)
theory WorkflowEpoch
  imports EpochArtifacts
begin

text \<open>
  The workflow epoch reducer of \<open>adapters/scheduler.py\<close>: \<open>_reduce_workflow_event\<close> folds one epoch
  event into the head of its plan, and a chain of accepted events is a run of the step relation
  \<open>epoch_step\<close>.  The lemmas give the phase automaton, the invariant of every reachable head and
  the absorbing terminal phase.
\<close>

section \<open>Receipts by key\<close>

type_synonym receipt_key = "string \<times> string \<times> string \<times> string"

definition receipt_key :: "workflow_receipt \<Rightarrow> receipt_key" where
  "receipt_key r = (rc_type r, rc_id r, rc_path r, rc_producer r)"

text \<open>A dictionary built by a comprehension: a later item replaces an earlier one of the same key.\<close>

definition receipt_map :: "workflow_receipt list \<Rightarrow> receipt_key \<Rightarrow> workflow_receipt option" where
  "receipt_map rs = map_of (rev (map (\<lambda>r. (receipt_key r, r)) rs))"

definition receipt_keys :: "workflow_receipt list \<Rightarrow> receipt_key list" where
  "receipt_keys rs = remdups (map receipt_key rs)"

text \<open>
  \<open>set(current) - set(prior)\<close> is iterated in hash order, which differs between processes: the order
  is a parameter, a function that lists the elements of a set of keys in some order.
\<close>

type_synonym set_order = "receipt_key list \<Rightarrow> receipt_key list"

definition iteration_order :: "set_order \<Rightarrow> bool" where
  "iteration_order ord = (\<forall>ks. set (ord ks) = set ks \<and> length (ord ks) = length ks)"

definition added_receipts ::
  "set_order \<Rightarrow> workflow_receipt list \<Rightarrow> workflow_receipt list \<Rightarrow> workflow_receipt list" where
  "added_receipts ord prior current = map (\<lambda>k. the (receipt_map current k))
     (ord (filter (\<lambda>k. k \<notin> set (receipt_keys prior)) (receipt_keys current)))"

definition added_by_type :: "workflow_receipt list \<Rightarrow> string \<Rightarrow> workflow_receipt option" where
  "added_by_type added = map_of (rev (map (\<lambda>r. (rc_type r, r)) added))"

section \<open>The reducer\<close>

text \<open>What a cause changes in the head: the phase, the terminal time and the three artifact heads.\<close>

record epoch_update =
  up_phase :: workflow_epoch_phase
  up_terminal_at :: "string option"
  up_event_id :: "string option"
  up_event_path :: "string option"
  up_state_id :: "string option"
  up_state_path :: "string option"
  up_outcome_id :: "string option"
  up_outcome_path :: "string option"

definition prior_update :: "workflow_epoch_head \<Rightarrow> epoch_update" where
  "prior_update h = \<lparr>up_phase = eh_phase h, up_terminal_at = eh_terminal_at h,
     up_event_id = eh_workflow_event_id h, up_event_path = eh_workflow_event_path h,
     up_state_id = eh_workflow_state_id h, up_state_path = eh_workflow_state_path h,
     up_outcome_id = eh_outcome_id h, up_outcome_path = eh_outcome_path h\<rparr>"

definition root_update :: "workflow_epoch_event \<Rightarrow> epoch_update result" where
  "root_update e = bindR (require (\<not> (ee_cause e \<noteq> EPOCH_OPENED \<or> ee_epoch_sequence e \<noteq> 1 \<or>
       ee_previous_event_id e \<noteq> None \<or> ee_source_state_id e \<noteq> None \<or>
       length (ee_receipts e) \<noteq> 1 \<or> rc_type (ee_receipts e ! 0) \<noteq> ''integrated-plan'' \<or>
       rc_id (ee_receipts e ! 0) \<noteq> ee_plan_id e \<or> rc_status (ee_receipts e ! 0) \<noteq> RESERVED \<or>
       \<not> all_or_none [ee_predecessor_plan_id e, ee_predecessor_head_id e, ee_predecessor_state_id e,
         ee_predecessor_outcome_id e])) (SchedulerAdapterError BadEpochRoot)) (\<lambda>_.
     Inr \<lparr>up_phase = OPEN, up_terminal_at = None, up_event_id = None, up_event_path = None,
          up_state_id = None, up_state_path = None, up_outcome_id = None, up_outcome_path = None\<rparr>)"

definition same_chain :: "workflow_epoch_head \<Rightarrow> workflow_epoch_event \<Rightarrow> bool" where
  "same_chain h e = (ee_plan_id e = eh_plan_id h \<and>
     ee_predecessor_plan_id e = eh_predecessor_plan_id h \<and>
     ee_predecessor_head_id e = eh_predecessor_head_id h \<and>
     ee_predecessor_state_id e = eh_predecessor_state_id h \<and>
     ee_predecessor_outcome_id e = eh_predecessor_outcome_id h \<and>
     ee_candidate e = eh_candidate h \<and> ee_graph_id e = eh_graph_id h \<and>
     ee_epoch_sequence e = eh_epoch_sequence h + 1 \<and>
     ee_previous_event_id e = Some (eh_current_event_head_id h))"

definition chain_continues :: "workflow_epoch_head \<Rightarrow> workflow_epoch_event \<Rightarrow> unit result" where
  "chain_continues h e =
     bindR (require (same_chain h e) (SchedulerAdapterError ChainBroken)) (\<lambda>_.
     bindR (parse_utc (ee_recorded_at e)) (\<lambda>recorded.
     bindR (parse_utc (eh_recorded_at h)) (\<lambda>before.
     bindR (require (\<not> recorded < before) (SchedulerAdapterError ChainBroken)) (\<lambda>_.
     require (set (receipt_keys (eh_receipts h)) \<subseteq> set (receipt_keys (ee_receipts e)))
       (SchedulerAdapterError ReceiptRemoved)))))"

definition same_reservation :: "workflow_epoch_head \<Rightarrow> workflow_epoch_event \<Rightarrow> bool" where
  "same_reservation h e = (ee_idempotency_key e = eh_idempotency_key h \<and> ee_producer e = eh_producer h \<and>
     ee_source_state_id e = eh_source_state_id h \<and>
     ee_scheduler_state_id e = eh_scheduler_state_id h \<and>
     ee_scheduler_event_sequence e = eh_scheduler_event_sequence h \<and>
     ee_scheduler_event_head_id e = eh_scheduler_event_head_id h \<and>
     set (receipt_keys (ee_receipts e)) = set (receipt_keys (eh_receipts h)))"

definition transition_update ::
  "set_order \<Rightarrow> workflow_epoch_head \<Rightarrow> workflow_epoch_event \<Rightarrow> epoch_update result" where
  "transition_update ord h e = (let added = added_receipts ord (eh_receipts h) (ee_receipts e);
       types = added_by_type added in
     bindR (require (eh_phase h \<in> {OPEN, ACTIVE}) (SchedulerAdapterError BadPhase)) (\<lambda>_.
     bindR (require (ee_source_state_id e = eh_workflow_state_id h) (SchedulerAdapterError BadSource)) (\<lambda>_.
     bindR (require (\<not> (added = [] \<or> list_ex (\<lambda>r. rc_status r \<noteq> RESERVED) added))
       (SchedulerAdapterError BadReceipts)) (\<lambda>_.
     bindR (require (set (map rc_type added) = {''workflow-event'', ''workflow-state''})
       (SchedulerAdapterError BadReceipts)) (\<lambda>_.
     Inr ((prior_update h)\<lparr>up_phase := TRANSITION_RESERVED,
       up_event_id := Some (rc_id (the (types ''workflow-event''))),
       up_event_path := Some (rc_path (the (types ''workflow-event''))),
       up_state_id := Some (rc_id (the (types ''workflow-state''))),
       up_state_path := Some (rc_path (the (types ''workflow-state'')))\<rparr>))))))"

definition status_of :: "workflow_receipt list \<Rightarrow> receipt_key \<Rightarrow> workflow_receipt_status" where
  "status_of rs k = rc_status (the (receipt_map rs k))"

definition changed_keys :: "workflow_receipt list \<Rightarrow> workflow_receipt list \<Rightarrow> receipt_key list" where
  "changed_keys prior current =
     filter (\<lambda>k. status_of current k \<noteq> status_of prior k) (receipt_keys current)"

definition confirmation_update ::
  "workflow_epoch_head \<Rightarrow> workflow_epoch_event \<Rightarrow> epoch_update result" where
  "confirmation_update h e = (let changed = changed_keys (eh_receipts h) (ee_receipts e) in
     bindR (require (same_reservation h e) (SchedulerAdapterError ChangedReservation)) (\<lambda>_.
     bindR (require (length changed = 1 \<and> status_of (eh_receipts h) (changed ! 0) = RESERVED \<and>
         status_of (ee_receipts e) (changed ! 0) = CONFIRMED)
       (SchedulerAdapterError BadConfirmation)) (\<lambda>_.
     Inr (if eh_phase h \<noteq> TERMINAL_RESERVED then
            (prior_update h)\<lparr>up_phase :=
              if list_all (\<lambda>k. status_of (ee_receipts e) k = CONFIRMED) (receipt_keys (ee_receipts e))
              then ACTIVE else eh_phase h\<rparr>
          else prior_update h))))"

definition terminal_update ::
  "set_order \<Rightarrow> workflow_epoch_head \<Rightarrow> workflow_epoch_event \<Rightarrow> epoch_update result" where
  "terminal_update ord h e = (let added = added_receipts ord (eh_receipts h) (ee_receipts e);
       types = added_by_type added in
     bindR (require (eh_phase h \<in> {OPEN, ACTIVE}) (SchedulerAdapterError BadPhase)) (\<lambda>_.
     bindR (require (\<not> (ee_source_state_id e = None \<or> ee_source_state_id e \<noteq> eh_workflow_state_id h))
       (SchedulerAdapterError BadSource)) (\<lambda>_.
     bindR (require (\<not> (set (map rc_type added) \<noteq> {''workflow-event'', ''workflow-state'', ''workflow-outcome''} \<or>
         list_ex (\<lambda>r. rc_status r \<noteq> RESERVED) added)) (SchedulerAdapterError BadReceipts)) (\<lambda>_.
     Inr \<lparr>up_phase = TERMINAL_RESERVED, up_terminal_at = Some (ee_recorded_at e),
          up_event_id = Some (rc_id (the (types ''workflow-event''))),
          up_event_path = Some (rc_path (the (types ''workflow-event''))),
          up_state_id = Some (rc_id (the (types ''workflow-state''))),
          up_state_path = Some (rc_path (the (types ''workflow-state''))),
          up_outcome_id = Some (rc_id (the (types ''workflow-outcome''))),
          up_outcome_path = Some (rc_path (the (types ''workflow-outcome'')))\<rparr>))))"

definition closing_update ::
  "workflow_epoch_head \<Rightarrow> workflow_epoch_event \<Rightarrow> epoch_update result" where
  "closing_update h e =
     bindR (require (eh_phase h = TERMINAL_RESERVED \<and> Some (ee_recorded_at e) = eh_terminal_at h \<and>
         same_reservation h e \<and> list_all (\<lambda>r. rc_status r = CONFIRMED) (ee_receipts e))
       (SchedulerAdapterError BadConfirmation)) (\<lambda>_.
     Inr ((prior_update h)\<lparr>up_phase := TERMINAL_CONFIRMED\<rparr>))"

fun cause_update ::
  "set_order \<Rightarrow> workflow_epoch_head \<Rightarrow> workflow_epoch_event \<Rightarrow> workflow_epoch_cause \<Rightarrow> epoch_update result" where
  "cause_update ord h e EPOCH_OPENED = Inl (SchedulerAdapterError ReopenedEpoch)"
| "cause_update ord h e TRANSITION_RESERVATION = transition_update ord h e"
| "cause_update ord h e ARTIFACT_PUBLICATION_RESERVED = transition_update ord h e"
| "cause_update ord h e ARTIFACT_PUBLICATION_CONFIRMED = confirmation_update h e"
| "cause_update ord h e TERMINAL_RESERVATION = terminal_update ord h e"
| "cause_update ord h e TERMINAL_CONFIRMATION = closing_update h e"

definition epoch_update ::
  "set_order \<Rightarrow> workflow_epoch_head option \<Rightarrow> workflow_epoch_event \<Rightarrow> epoch_update result" where
  "epoch_update ord prior e = (case prior of
     None \<Rightarrow> root_update e
   | Some h \<Rightarrow> bindR (chain_continues h e) (\<lambda>_. cause_update ord h e (ee_cause e)))"

definition projects :: "epoch_update \<Rightarrow> workflow_epoch_event \<Rightarrow> bool" where
  "projects u e = (ee_workflow_event_id e = up_event_id u \<and> ee_workflow_event_path e = up_event_path u \<and>
     ee_workflow_state_id e = up_state_id u \<and> ee_workflow_state_path e = up_state_path u \<and>
     ee_outcome_id e = up_outcome_id u \<and> ee_outcome_path e = up_outcome_path u)"

definition head_of :: "epoch_update \<Rightarrow> epoch_artifact \<Rightarrow> workflow_epoch_head" where
  "head_of u a = (let e = snd a in
     \<lparr>eh_plan_id = ee_plan_id e, eh_predecessor_plan_id = ee_predecessor_plan_id e,
      eh_predecessor_head_id = ee_predecessor_head_id e,
      eh_predecessor_state_id = ee_predecessor_state_id e,
      eh_predecessor_outcome_id = ee_predecessor_outcome_id e, eh_candidate = ee_candidate e,
      eh_graph_id = ee_graph_id e, eh_sequence = ee_sequence e,
      eh_epoch_sequence = ee_epoch_sequence e, eh_current_event_head_id = fst a,
      eh_phase = up_phase u, eh_scheduler_state_id = ee_scheduler_state_id e,
      eh_scheduler_event_sequence = ee_scheduler_event_sequence e,
      eh_scheduler_event_head_id = ee_scheduler_event_head_id e,
      eh_idempotency_key = ee_idempotency_key e, eh_producer = ee_producer e,
      eh_source_state_id = ee_source_state_id e, eh_workflow_event_id = up_event_id u,
      eh_workflow_event_path = up_event_path u, eh_workflow_state_id = up_state_id u,
      eh_workflow_state_path = up_state_path u, eh_outcome_id = up_outcome_id u,
      eh_outcome_path = up_outcome_path u, eh_receipts = ee_receipts e,
      eh_recorded_at = ee_recorded_at e, eh_terminal_at = up_terminal_at u\<rparr>)"

definition reduce_workflow_event ::
  "set_order \<Rightarrow> workflow_epoch_head option \<Rightarrow> epoch_artifact \<Rightarrow> workflow_epoch_head result" where
  "reduce_workflow_event ord prior a =
     bindR (epoch_update ord prior (snd a)) (\<lambda>u.
     bindR (require (projects u (snd a)) (SchedulerAdapterError BadHeadProjection)) (\<lambda>_.
     Inr (head_of u a)))"

section \<open>Receipts of an accepted event\<close>

lemma wf_receipts_paths: "wf_receipts rs \<Longrightarrow> distinct (map (casefold \<circ> rc_path) rs)"
proof -
  assume "wf_receipts rs"
  then have "card (set (map (casefold \<circ> rc_path) rs)) = length (map (casefold \<circ> rc_path) rs)"
    by (simp add: wf_receipts_def receipts_canonical_def receipt_order_def comp_def)
  then show ?thesis by (rule card_distinct)
qed

lemma distinct_by_path:
  assumes "distinct (map (casefold \<circ> rc_path) rs)"
  shows "distinct (map receipt_key rs)" and "distinct rs"
proof -
  show "distinct (map receipt_key rs)"
    using assms by (auto simp: distinct_map inj_on_def receipt_key_def)
  then show "distinct rs" by (simp add: distinct_map)
qed

lemma receipt_keys_set [simp]: "set (receipt_keys rs) = receipt_key ` set rs"
  by (simp add: receipt_keys_def)

lemma receipt_map_key:
  assumes "wf_receipts rs" and "r \<in> set rs"
  shows "receipt_map rs (receipt_key r) = Some r"
proof -
  have "distinct (map receipt_key rs)" using assms(1) wf_receipts_paths distinct_by_path(1) by blast
  then have "distinct (map fst (rev (map (\<lambda>r. (receipt_key r, r)) rs)))" by (simp add: rev_map comp_def distinct_map)
  moreover have "(receipt_key r, r) \<in> set (rev (map (\<lambda>r. (receipt_key r, r)) rs))" using assms(2) by simp
  ultimately show ?thesis unfolding receipt_map_def by (rule map_of_is_SomeI)
qed

lemma status_of_receipt: "wf_receipts rs \<Longrightarrow> r \<in> set rs \<Longrightarrow> status_of rs (receipt_key r) = rc_status r"
  by (simp add: status_of_def receipt_map_key)

lemma iteration_order_set: "iteration_order ord \<Longrightarrow> set (ord ks) = set ks"
  by (simp add: iteration_order_def)

lemma added_receipts_set:
  assumes "iteration_order ord" and "wf_receipts current"
  shows "set (added_receipts ord prior current) = {r \<in> set current. receipt_key r \<notin> receipt_key ` set prior}"
proof -
  have "set (added_receipts ord prior current) =
      (\<lambda>k. the (receipt_map current k)) ` {k \<in> receipt_key ` set current. k \<notin> receipt_key ` set prior}"
    using assms(1) by (simp add: added_receipts_def iteration_order_set)
  also have "\<dots> = {r \<in> set current. receipt_key r \<notin> receipt_key ` set prior}"
    using receipt_map_key[OF assms(2)] by (force simp: image_iff)
  finally show ?thesis .
qed

lemma added_by_type_some:
  assumes "ty \<in> rc_type ` set added"
  shows "\<exists>r \<in> set added. added_by_type added ty = Some r \<and> rc_type r = ty"
proof -
  let ?ps = "rev (map (\<lambda>r. (rc_type r, r)) added)"
  have "ty \<in> fst ` set ?ps" using assms by force
  then obtain r where "map_of ?ps ty = Some r" by (metis map_of_eq_None_iff option.exhaust)
  then show ?thesis by (auto simp: added_by_type_def dest: map_of_SomeD)
qed

lemma added_by_type_member:
  "ty \<in> rc_type ` set added \<Longrightarrow>
    the (added_by_type added ty) \<in> set added \<and> rc_type (the (added_by_type added ty)) = ty"
  using added_by_type_some by force

section \<open>Steps and reachable heads\<close>

inductive epoch_step :: "workflow_epoch_head \<Rightarrow> epoch_artifact \<Rightarrow> workflow_epoch_head \<Rightarrow> bool" where
  step: "iteration_order ord \<Longrightarrow> wf_epoch_artifact a \<Longrightarrow>
    reduce_workflow_event ord (Some h) a = Inr h' \<Longrightarrow> epoch_step h a h'"

inductive epoch_root :: "epoch_artifact \<Rightarrow> workflow_epoch_head \<Rightarrow> bool" where
  root: "wf_epoch_artifact a \<Longrightarrow> reduce_workflow_event ord None a = Inr h \<Longrightarrow> epoch_root a h"

inductive epoch_run :: "workflow_epoch_head \<Rightarrow> epoch_artifact list \<Rightarrow> workflow_epoch_head \<Rightarrow> bool" where
  none: "epoch_run h [] h"
| step: "epoch_step h a h' \<Longrightarrow> epoch_run h' as h'' \<Longrightarrow> epoch_run h (a # as) h''"

definition epoch_reachable :: "workflow_epoch_head \<Rightarrow> bool" where
  "epoch_reachable h = (\<exists>a h0 as. epoch_root a h0 \<and> epoch_run h0 as h)"

inductive_cases epoch_runE: "epoch_run h as h'"
inductive_cases epoch_run_ConsE: "epoch_run h (a # as) h'"

text \<open>The phases alone: the closed state machine of an epoch.\<close>

inductive phase_step :: "workflow_epoch_phase \<Rightarrow> workflow_epoch_cause \<Rightarrow> workflow_epoch_phase \<Rightarrow> bool" where
  reserve: "p \<in> {OPEN, ACTIVE} \<Longrightarrow> c \<in> {TRANSITION_RESERVATION, ARTIFACT_PUBLICATION_RESERVED} \<Longrightarrow>
    phase_step p c TRANSITION_RESERVED"
| confirm_all: "p \<in> {OPEN, TRANSITION_RESERVED} \<Longrightarrow> phase_step p ARTIFACT_PUBLICATION_CONFIRMED ACTIVE"
| confirm_some: "p \<in> {TRANSITION_RESERVED, TERMINAL_RESERVED} \<Longrightarrow>
    phase_step p ARTIFACT_PUBLICATION_CONFIRMED p"
| terminate: "phase_step ACTIVE TERMINAL_RESERVATION TERMINAL_RESERVED"
| close: "phase_step TERMINAL_RESERVED TERMINAL_CONFIRMATION TERMINAL_CONFIRMED"

inductive_simps phase_step_simps: "phase_step p c p'"

text \<open>What every reachable head satisfies.\<close>

definition bound_head ::
  "workflow_receipt list \<Rightarrow> string \<Rightarrow> string option \<Rightarrow> string option \<Rightarrow> bool" where
  "bound_head rs ty i p = (case (i, p) of (None, None) \<Rightarrow> True
     | (Some i, Some p) \<Rightarrow> \<exists>r \<in> set rs. rc_type r = ty \<and> rc_id r = i \<and> rc_path r = p | _ \<Rightarrow> False)"

definition all_confirmed :: "workflow_epoch_head \<Rightarrow> bool" where
  "all_confirmed h = (\<forall>r \<in> set (eh_receipts h). rc_status r = CONFIRMED)"

fun phase_fits :: "workflow_epoch_phase \<Rightarrow> workflow_epoch_head \<Rightarrow> bool" where
  "phase_fits OPEN h = (length (eh_receipts h) = 1 \<and> \<not> all_confirmed h \<and> eh_workflow_state_id h = None \<and>
     eh_outcome_id h = None \<and> eh_terminal_at h = None)"
| "phase_fits TRANSITION_RESERVED h = (\<not> all_confirmed h \<and> eh_workflow_state_id h \<noteq> None \<and>
     eh_outcome_id h = None \<and> eh_terminal_at h = None)"
| "phase_fits ACTIVE h = (all_confirmed h \<and> eh_outcome_id h = None \<and> eh_terminal_at h = None)"
| "phase_fits TERMINAL_RESERVED h = (eh_workflow_state_id h \<noteq> None \<and> eh_outcome_id h \<noteq> None \<and>
     eh_terminal_at h \<noteq> None)"
| "phase_fits TERMINAL_CONFIRMED h = (all_confirmed h \<and> eh_workflow_state_id h \<noteq> None \<and>
     eh_outcome_id h \<noteq> None \<and> eh_terminal_at h = Some (eh_recorded_at h))"

definition epoch_invariant :: "workflow_epoch_head \<Rightarrow> bool" where
  "epoch_invariant h = (wf_receipts (eh_receipts h) \<and> wf_recorded (eh_recorded_at h) \<and>
     (\<exists>r \<in> set (eh_receipts h). rc_type r = ''integrated-plan'' \<and> rc_id r = eh_plan_id h) \<and>
     bound_head (eh_receipts h) ''workflow-event'' (eh_workflow_event_id h) (eh_workflow_event_path h) \<and>
     bound_head (eh_receipts h) ''workflow-state'' (eh_workflow_state_id h) (eh_workflow_state_path h) \<and>
     bound_head (eh_receipts h) ''workflow-outcome'' (eh_outcome_id h) (eh_outcome_path h) \<and>
     phase_fits (eh_phase h) h)"

lemma head_of_simps [simp]:
  "eh_plan_id (head_of u a) = ee_plan_id (snd a)" "eh_phase (head_of u a) = up_phase u"
  "eh_receipts (head_of u a) = ee_receipts (snd a)" "eh_recorded_at (head_of u a) = ee_recorded_at (snd a)"
  "eh_terminal_at (head_of u a) = up_terminal_at u" "eh_workflow_event_id (head_of u a) = up_event_id u"
  "eh_workflow_event_path (head_of u a) = up_event_path u"
  "eh_workflow_state_id (head_of u a) = up_state_id u"
  "eh_workflow_state_path (head_of u a) = up_state_path u" "eh_outcome_id (head_of u a) = up_outcome_id u"
  "eh_outcome_path (head_of u a) = up_outcome_path u" "eh_current_event_head_id (head_of u a) = fst a"
  "eh_epoch_sequence (head_of u a) = ee_epoch_sequence (snd a)" "eh_candidate (head_of u a) = ee_candidate (snd a)"
  "eh_graph_id (head_of u a) = ee_graph_id (snd a)" "eh_sequence (head_of u a) = ee_sequence (snd a)"
  "eh_predecessor_plan_id (head_of u a) = ee_predecessor_plan_id (snd a)"
  "eh_predecessor_head_id (head_of u a) = ee_predecessor_head_id (snd a)"
  "eh_predecessor_state_id (head_of u a) = ee_predecessor_state_id (snd a)"
  "eh_predecessor_outcome_id (head_of u a) = ee_predecessor_outcome_id (snd a)"
  "eh_scheduler_state_id (head_of u a) = ee_scheduler_state_id (snd a)"
  "eh_scheduler_event_sequence (head_of u a) = ee_scheduler_event_sequence (snd a)"
  "eh_scheduler_event_head_id (head_of u a) = ee_scheduler_event_head_id (snd a)"
  "eh_idempotency_key (head_of u a) = ee_idempotency_key (snd a)" "eh_producer (head_of u a) = ee_producer (snd a)"
  "eh_source_state_id (head_of u a) = ee_source_state_id (snd a)"
  by (simp_all add: head_of_def Let_def)

lemma reduce_step:
  assumes "reduce_workflow_event ord (Some h) a = Inr h'"
  obtains u where "chain_continues h (snd a) = Inr ()" "cause_update ord h (snd a) (ee_cause (snd a)) = Inr u"
    "projects u (snd a)" "h' = head_of u a"
  using assms by (auto simp: reduce_workflow_event_def epoch_update_def result_simps)

lemma chain_kept:
  assumes "chain_continues h e = Inr u"
  shows "same_chain h e" "receipt_key ` set (eh_receipts h) \<subseteq> receipt_key ` set (ee_receipts e)"
    "\<exists>t t'. parse_utc (eh_recorded_at h) = Inr t \<and> parse_utc (ee_recorded_at e) = Inr t' \<and> t \<le> t'"
  using assms by (auto simp: chain_continues_def result_simps not_less)

section \<open>The invariant\<close>

lemma bound_head_mono:
  assumes "bound_head rs ty i p" and "receipt_key ` set rs \<subseteq> receipt_key ` set rs'"
  shows "bound_head rs' ty i p"
proof (cases "i = None")
  case False
  then obtain r where "r \<in> set rs" "rc_type r = ty" "Some (rc_id r) = i" "Some (rc_path r) = p"
    using assms(1) by (auto simp: bound_head_def split: option.splits)
  moreover obtain r' where "r' \<in> set rs'" "receipt_key r' = receipt_key r"
    using assms(2) calculation(1) by (metis image_eqI in_mono imageE)
  ultimately show ?thesis by (auto simp: bound_head_def receipt_key_def)
qed (use assms(1) in \<open>auto simp: bound_head_def split: option.splits\<close>)

lemma bound_head_receipt:
  "r \<in> set rs \<Longrightarrow> rc_type r = ty \<Longrightarrow> bound_head rs ty (Some (rc_id r)) (Some (rc_path r))"
  by (auto simp: bound_head_def)

lemma added_head:
  assumes "iteration_order ord" and "wf_receipts current"
    and "ty \<in> set (map rc_type (added_receipts ord prior current))"
    and "\<not> list_ex (\<lambda>r. rc_status r \<noteq> RESERVED) (added_receipts ord prior current)"
  defines "r \<equiv> the (added_by_type (added_receipts ord prior current) ty)"
  shows "bound_head current ty (Some (rc_id r)) (Some (rc_path r))"
    and "r \<in> set current" "rc_status r = RESERVED" "receipt_key r \<notin> receipt_key ` set prior"
proof -
  have r: "r \<in> set (added_receipts ord prior current) \<and> rc_type r = ty"
    unfolding r_def using assms(3) by (intro added_by_type_member) simp
  then show "rc_status r = RESERVED" using assms(4) by (auto simp: list_ex_iff)
  have "r \<in> set current \<and> receipt_key r \<notin> receipt_key ` set prior"
    using r added_receipts_set[OF assms(1,2)] by blast
  then show "r \<in> set current" "receipt_key r \<notin> receipt_key ` set prior" by simp_all
  then show "bound_head current ty (Some (rc_id r)) (Some (rc_path r))" using r bound_head_receipt by blast
qed

text \<open>The added receipts of a reservation: of the given types, reserved, and nothing else.\<close>

definition adds :: "set_order \<Rightarrow> workflow_epoch_head \<Rightarrow> workflow_epoch_event \<Rightarrow> string set \<Rightarrow> bool" where
  "adds ord h e types = (let added = added_receipts ord (eh_receipts h) (ee_receipts e) in
     set (map rc_type added) = types \<and> \<not> list_ex (\<lambda>r. rc_status r \<noteq> RESERVED) added)"

definition newest :: "set_order \<Rightarrow> workflow_epoch_head \<Rightarrow> workflow_epoch_event \<Rightarrow> string \<Rightarrow> workflow_receipt" where
  "newest ord h e ty = the (added_by_type (added_receipts ord (eh_receipts h) (ee_receipts e)) ty)"

lemma transition_update_iff: "transition_update ord h e = Inr u \<longleftrightarrow> eh_phase h \<in> {OPEN, ACTIVE} \<and>
    ee_source_state_id e = eh_workflow_state_id h \<and> adds ord h e {''workflow-event'', ''workflow-state''} \<and>
    u = (prior_update h)\<lparr>up_phase := TRANSITION_RESERVED,
       up_event_id := Some (rc_id (newest ord h e ''workflow-event'')),
       up_event_path := Some (rc_path (newest ord h e ''workflow-event'')),
       up_state_id := Some (rc_id (newest ord h e ''workflow-state'')),
       up_state_path := Some (rc_path (newest ord h e ''workflow-state''))\<rparr>"
proof -
  obtain A where A: "added_receipts ord (eh_receipts h) (ee_receipts e) = A" by blast
  obtain S B where S: "set (map rc_type A) = S" and B: "list_ex (\<lambda>r. rc_status r \<noteq> RESERVED) A = B" by blast
  have "A = [] \<Longrightarrow> S = {}" using S by auto
  then show ?thesis unfolding transition_update_def adds_def newest_def Let_def A S B result_simps by auto
qed

lemma terminal_update_iff: "terminal_update ord h e = Inr u \<longleftrightarrow> eh_phase h \<in> {OPEN, ACTIVE} \<and>
    ee_source_state_id e = eh_workflow_state_id h \<and> eh_workflow_state_id h \<noteq> None \<and>
    adds ord h e {''workflow-event'', ''workflow-state'', ''workflow-outcome''} \<and>
    u = \<lparr>up_phase = TERMINAL_RESERVED, up_terminal_at = Some (ee_recorded_at e),
       up_event_id = Some (rc_id (newest ord h e ''workflow-event'')),
       up_event_path = Some (rc_path (newest ord h e ''workflow-event'')),
       up_state_id = Some (rc_id (newest ord h e ''workflow-state'')),
       up_state_path = Some (rc_path (newest ord h e ''workflow-state'')),
       up_outcome_id = Some (rc_id (newest ord h e ''workflow-outcome'')),
       up_outcome_path = Some (rc_path (newest ord h e ''workflow-outcome''))\<rparr>"
proof -
  obtain A where A: "added_receipts ord (eh_receipts h) (ee_receipts e) = A" by blast
  obtain S B where S: "set (map rc_type A) = S" and B: "list_ex (\<lambda>r. rc_status r \<noteq> RESERVED) A = B" by blast
  have "A = [] \<Longrightarrow> S = {}" using S by auto
  then show ?thesis unfolding terminal_update_def adds_def newest_def Let_def A S B result_simps by auto
qed

lemma newest_head:
  assumes "iteration_order ord" and "wf_receipts (ee_receipts e)" and "adds ord h e types" and "ty \<in> types"
  shows "bound_head (ee_receipts e) ty (Some (rc_id (newest ord h e ty))) (Some (rc_path (newest ord h e ty)))"
    and "newest ord h e ty \<in> set (ee_receipts e)" "rc_status (newest ord h e ty) = RESERVED"
    and "receipt_key (newest ord h e ty) \<notin> receipt_key ` set (eh_receipts h)"
  using added_head[OF assms(1,2), where ty = ty and prior = "eh_receipts h"] assms(3,4)
  unfolding adds_def Let_def newest_def by metis+

lemma transition_facts:
  assumes "transition_update ord h e = Inr u" and "iteration_order ord" and "wf_receipts (ee_receipts e)"
  shows "eh_phase h \<in> {OPEN, ACTIVE}" "up_phase u = TRANSITION_RESERVED"
    "ee_source_state_id e = eh_workflow_state_id h"
    "up_terminal_at u = eh_terminal_at h" "up_outcome_id u = eh_outcome_id h"
    "up_outcome_path u = eh_outcome_path h" "up_state_id u \<noteq> None"
    "bound_head (ee_receipts e) ''workflow-event'' (up_event_id u) (up_event_path u)"
    "bound_head (ee_receipts e) ''workflow-state'' (up_state_id u) (up_state_path u)"
    "\<exists>r \<in> set (ee_receipts e). rc_status r = RESERVED \<and> receipt_key r \<notin> receipt_key ` set (eh_receipts h)"
proof -
  note u = assms(1)[unfolded transition_update_iff]
  show "eh_phase h \<in> {OPEN, ACTIVE}" "ee_source_state_id e = eh_workflow_state_id h"
    "up_phase u = TRANSITION_RESERVED" "up_terminal_at u = eh_terminal_at h" "up_outcome_id u = eh_outcome_id h"
    "up_outcome_path u = eh_outcome_path h" "up_state_id u \<noteq> None"
    using u by (simp_all add: prior_update_def)
  show "bound_head (ee_receipts e) ''workflow-event'' (up_event_id u) (up_event_path u)"
    "bound_head (ee_receipts e) ''workflow-state'' (up_state_id u) (up_state_path u)"
    using u newest_head(1)[OF assms(2,3), of h] by auto
  show "\<exists>r \<in> set (ee_receipts e). rc_status r = RESERVED \<and> receipt_key r \<notin> receipt_key ` set (eh_receipts h)"
    using u newest_head(2-4)[OF assms(2,3), where ty = "''workflow-event''"] by blast
qed

lemma terminal_facts:
  assumes "terminal_update ord h e = Inr u" and "iteration_order ord" and "wf_receipts (ee_receipts e)"
  shows "eh_phase h \<in> {OPEN, ACTIVE}" "up_phase u = TERMINAL_RESERVED"
    "ee_source_state_id e = eh_workflow_state_id h" "eh_workflow_state_id h \<noteq> None"
    "up_terminal_at u = Some (ee_recorded_at e)" "up_outcome_id u \<noteq> None" "up_state_id u \<noteq> None"
    "bound_head (ee_receipts e) ''workflow-event'' (up_event_id u) (up_event_path u)"
    "bound_head (ee_receipts e) ''workflow-state'' (up_state_id u) (up_state_path u)"
    "bound_head (ee_receipts e) ''workflow-outcome'' (up_outcome_id u) (up_outcome_path u)"
    "\<exists>r \<in> set (ee_receipts e). rc_status r = RESERVED \<and> receipt_key r \<notin> receipt_key ` set (eh_receipts h)"
proof -
  note u = assms(1)[unfolded terminal_update_iff]
  show "eh_phase h \<in> {OPEN, ACTIVE}" "ee_source_state_id e = eh_workflow_state_id h"
    "eh_workflow_state_id h \<noteq> None" "up_phase u = TERMINAL_RESERVED"
    "up_terminal_at u = Some (ee_recorded_at e)" "up_outcome_id u \<noteq> None" "up_state_id u \<noteq> None"
    using u by simp_all
  show "bound_head (ee_receipts e) ''workflow-event'' (up_event_id u) (up_event_path u)"
    "bound_head (ee_receipts e) ''workflow-state'' (up_state_id u) (up_state_path u)"
    "bound_head (ee_receipts e) ''workflow-outcome'' (up_outcome_id u) (up_outcome_path u)"
    using u newest_head(1)[OF assms(2,3), of h] by auto
  show "\<exists>r \<in> set (ee_receipts e). rc_status r = RESERVED \<and> receipt_key r \<notin> receipt_key ` set (eh_receipts h)"
    using u newest_head(2-4)[OF assms(2,3), where ty = "''workflow-event''"] by blast
qed

text \<open>A confirmation turns exactly one reserved receipt into a confirmed one.\<close>

definition reserved_keys :: "workflow_receipt list \<Rightarrow> receipt_key set" where
  "reserved_keys rs = receipt_key ` {r \<in> set rs. rc_status r = RESERVED}"

lemma reserved_keys_iff:
  assumes "wf_receipts rs"
  shows "k \<in> reserved_keys rs \<longleftrightarrow> k \<in> receipt_key ` set rs \<and> status_of rs k = RESERVED"
  using status_of_receipt[OF assms] by (force simp: reserved_keys_def)

lemma all_confirmed_iff: "all_confirmed h \<longleftrightarrow> reserved_keys (eh_receipts h) = {}"
  by (auto simp: all_confirmed_def reserved_keys_def) (metis workflow_receipt_status.exhaust)

lemma status_other: "s \<noteq> RESERVED \<longleftrightarrow> s = CONFIRMED" "s \<noteq> CONFIRMED \<longleftrightarrow> s = RESERVED"
  by (cases s; simp)+

lemma confirmation_facts:
  assumes "confirmation_update h e = Inr u" and "wf_receipts (ee_receipts e)" and "wf_receipts (eh_receipts h)"
  shows "same_reservation h e"
    "\<exists>k \<in> reserved_keys (eh_receipts h). reserved_keys (ee_receipts e) = reserved_keys (eh_receipts h) - {k}"
    "up_phase u = (if eh_phase h = TERMINAL_RESERVED then TERMINAL_RESERVED
       else if reserved_keys (ee_receipts e) = {} then ACTIVE else eh_phase h)"
    "u\<lparr>up_phase := eh_phase h\<rparr> = prior_update h"
proof -
  let ?old = "eh_receipts h" and ?new = "ee_receipts e"
  have keys: "receipt_key ` set ?new = receipt_key ` set ?old"
    using assms(1) by (auto simp: confirmation_update_def result_simps Let_def same_reservation_def)
  obtain k where k: "changed_keys ?old ?new = [k]" "status_of ?old k = RESERVED" "status_of ?new k = CONFIRMED"
    using assms(1) by (auto simp: confirmation_update_def result_simps Let_def length_Suc_conv)
  have "set (changed_keys ?old ?new) = {k}" using k(1) by simp
  then have one: "k' \<in> receipt_key ` set ?new \<and> status_of ?new k' \<noteq> status_of ?old k' \<longleftrightarrow> k' = k" for k'
    unfolding changed_keys_def by auto
  have "k' \<in> reserved_keys ?new \<longleftrightarrow> k' \<in> reserved_keys ?old - {k}" for k'
    unfolding Diff_iff singleton_iff reserved_keys_iff[OF assms(2)] reserved_keys_iff[OF assms(3)]
    using one[of k'] k keys by metis
  then have "reserved_keys ?new = reserved_keys ?old - {k}" by blast
  moreover have "k \<in> reserved_keys ?old"
    unfolding reserved_keys_iff[OF assms(3)] using one[of k] k keys by metis
  ultimately show "\<exists>k \<in> reserved_keys ?old. reserved_keys ?new = reserved_keys ?old - {k}" by blast
  have "list_all (\<lambda>k. status_of ?new k = CONFIRMED) (receipt_keys ?new) \<longleftrightarrow> reserved_keys ?new = {}"
    unfolding list_all_iff receipt_keys_set set_eq_iff[of "reserved_keys ?new"] reserved_keys_iff[OF assms(2)]
    using status_other by (metis empty_iff)
  then show "up_phase u = (if eh_phase h = TERMINAL_RESERVED then TERMINAL_RESERVED
       else if reserved_keys ?new = {} then ACTIVE else eh_phase h)"
    using assms(1) by (auto simp: confirmation_update_def result_simps Let_def prior_update_def)
qed (use assms(1) in \<open>auto simp: confirmation_update_def result_simps Let_def prior_update_def\<close>)

end
