(* ===== verification/EpochInvariant.thy ===== *)
theory EpochInvariant
  imports WorkflowEpoch
begin

text \<open>
  What holds of every head the workflow epoch reducer can produce: the invariant, the phase
  automaton as an abstraction, the chain of events, the absorbing terminal phase and the bound on
  the events that follow a terminal reservation.
\<close>

lemma epoch_artifact_event: "wf_epoch_artifact a \<Longrightarrow> wf_epoch_event (snd a)"
  by (simp add: wf_epoch_artifact_def)

lemma epoch_event_parts:
  "wf_epoch_event e \<Longrightarrow> wf_receipts (ee_receipts e)" "wf_epoch_event e \<Longrightarrow> wf_recorded (ee_recorded_at e)"
  by (simp_all add: wf_epoch_event_def)

lemma root_update_iff: "root_update e = Inr u \<longleftrightarrow> ee_cause e = EPOCH_OPENED \<and> ee_epoch_sequence e = 1 \<and>
    ee_previous_event_id e = None \<and> ee_source_state_id e = None \<and>
    (\<exists>r. ee_receipts e = [r] \<and> rc_type r = ''integrated-plan'' \<and> rc_id r = ee_plan_id e \<and> rc_status r = RESERVED) \<and>
    all_or_none [ee_predecessor_plan_id e, ee_predecessor_head_id e, ee_predecessor_state_id e,
      ee_predecessor_outcome_id e] \<and>
    u = \<lparr>up_phase = OPEN, up_terminal_at = None, up_event_id = None, up_event_path = None,
      up_state_id = None, up_state_path = None, up_outcome_id = None, up_outcome_path = None\<rparr>"
  by (auto simp: root_update_def result_simps length_Suc_conv)

lemma root_invariant:
  assumes "epoch_root a h"
  shows "epoch_invariant h" "eh_phase h = OPEN" "eh_epoch_sequence h = 1"
proof -
  obtain ord u where w: "wf_epoch_event (snd a)" and u: "root_update (snd a) = Inr u" and h: "h = head_of u a"
    using assms by (auto simp: epoch_root.simps reduce_workflow_event_def epoch_update_def result_simps
        epoch_artifact_event)
  show "eh_phase h = OPEN" "eh_epoch_sequence h = 1" using u h by (auto simp: root_update_iff)
  show "epoch_invariant h" using u h epoch_event_parts[OF w]
    by (auto simp: epoch_invariant_def root_update_iff bound_head_def all_confirmed_def)
qed

text \<open>One step: the receipts only grow, and the phase moves as the automaton says.\<close>

lemma plan_receipt_kept:
  assumes "\<exists>r \<in> set rs. rc_type r = ty \<and> rc_id r = i" and "receipt_key ` set rs \<subseteq> receipt_key ` set rs'"
  shows "\<exists>r \<in> set rs'. rc_type r = ty \<and> rc_id r = i"
proof -
  obtain r where r: "r \<in> set rs" "rc_type r = ty" "rc_id r = i" using assms(1) by blast
  then obtain r' where "r' \<in> set rs'" "receipt_key r' = receipt_key r"
    using assms(2) by (metis image_eqI in_mono imageE)
  then show ?thesis using r by (auto simp: receipt_key_def)
qed

lemma single_reserved:
  assumes "length rs = 1" and "k \<in> reserved_keys rs"
  shows "reserved_keys rs - {k} = {}"
  using assms by (auto simp: length_Suc_conv reserved_keys_def split: if_splits)

lemma step_invariant:
  assumes "epoch_step h a h'" and "epoch_invariant h"
  shows "epoch_invariant h' \<and> phase_step (eh_phase h) (ee_cause (snd a)) (eh_phase h')"
proof -
  obtain ord where ord: "iteration_order ord" and w: "wf_epoch_artifact a"
    and red: "reduce_workflow_event ord (Some h) a = Inr h'" using assms(1) by (auto simp: epoch_step.simps)
  let ?e = "snd a" and ?h = "eh_receipts h"
  have wr: "wf_receipts (ee_receipts ?e)" and wt: "wf_recorded (ee_recorded_at ?e)"
    using epoch_event_parts epoch_artifact_event[OF w] by blast+
  obtain u where chain: "chain_continues h ?e = Inr ()" and u: "cause_update ord h ?e (ee_cause ?e) = Inr u"
    and pr: "projects u ?e" and h': "h' = head_of u a" using red by (rule reduce_step)
  note keys = chain_kept(2)[OF chain]
  have plan: "\<exists>r \<in> set (ee_receipts ?e). rc_type r = ''integrated-plan'' \<and> rc_id r = ee_plan_id ?e"
    using assms(2) chain_kept(1)[OF chain] keys plan_receipt_kept[of ?h]
    by (simp add: epoch_invariant_def same_chain_def)
  note old = assms(2)[unfolded epoch_invariant_def]
  note kept = bound_head_mono[where rs = ?h, OF _ keys]
  have fields: "eh_phase h' = up_phase u" "eh_receipts h' = ee_receipts ?e" "eh_outcome_id h' = up_outcome_id u"
    "eh_terminal_at h' = up_terminal_at u" "eh_workflow_state_id h' = up_state_id u"
    "eh_recorded_at h' = ee_recorded_at ?e" by (simp_all add: h')
  have new: "epoch_invariant h' \<longleftrightarrow>
      bound_head (ee_receipts ?e) ''workflow-event'' (up_event_id u) (up_event_path u) \<and>
      bound_head (ee_receipts ?e) ''workflow-state'' (up_state_id u) (up_state_path u) \<and>
      bound_head (ee_receipts ?e) ''workflow-outcome'' (up_outcome_id u) (up_outcome_path u) \<and>
      phase_fits (up_phase u) h'"
    using wr wt plan by (simp add: h' epoch_invariant_def)
  show ?thesis
  proof (cases "ee_cause ?e")
    case EPOCH_OPENED
    then show ?thesis using u by simp
  next
    case TRANSITION_RESERVATION
    with u have t: "transition_update ord h ?e = Inr u" by simp
    note f = transition_facts[OF t ord wr]
    have "\<not> all_confirmed h'" using f(10) by (auto simp: fields all_confirmed_def)
    then show ?thesis using f old kept TRANSITION_RESERVATION
      by (auto simp: new fields phase_step_simps)
  next
    case ARTIFACT_PUBLICATION_RESERVED
    with u have t: "transition_update ord h ?e = Inr u" by simp
    note f = transition_facts[OF t ord wr]
    have "\<not> all_confirmed h'" using f(10) by (auto simp: fields all_confirmed_def)
    then show ?thesis using f old kept ARTIFACT_PUBLICATION_RESERVED
      by (auto simp: new fields phase_step_simps)
  next
    case ARTIFACT_PUBLICATION_CONFIRMED
    with u have t: "confirmation_update h ?e = Inr u" by simp
    have "wf_receipts ?h" using old by simp
    note f = confirmation_facts[OF t wr this]
    obtain k where k: "k \<in> reserved_keys ?h" "reserved_keys (ee_receipts ?e) = reserved_keys ?h - {k}"
      using f(2) by blast
    have same: "up_terminal_at u = eh_terminal_at h" "up_event_id u = eh_workflow_event_id h"
      "up_event_path u = eh_workflow_event_path h" "up_state_id u = eh_workflow_state_id h"
      "up_state_path u = eh_workflow_state_path h" "up_outcome_id u = eh_outcome_id h"
      "up_outcome_path u = eh_outcome_path h"
      using f(4) by (cases u, simp add: prior_update_def)+
    have nac: "\<not> all_confirmed h" using k(1) by (auto simp: all_confirmed_iff)
    have ac: "all_confirmed h' \<longleftrightarrow> reserved_keys (ee_receipts ?e) = {}" by (simp add: all_confirmed_iff fields)
    have "phase_step (eh_phase h) ARTIFACT_PUBLICATION_CONFIRMED (up_phase u) \<and> phase_fits (up_phase u) h'"
    proof (cases "eh_phase h")
      case OPEN
      then have "reserved_keys (ee_receipts ?e) = {}" using old k single_reserved by simp
      then show ?thesis using OPEN f(3) same ac old by (simp add: fields phase_step_simps)
    next
      case TRANSITION_RESERVED
      then show ?thesis using f(3) same ac old by (auto simp: fields phase_step_simps)
    next
      case ACTIVE
      then show ?thesis using old nac by simp
    next
      case TERMINAL_RESERVED
      then show ?thesis using f(3) same old by (auto simp: fields phase_step_simps)
    next
      case TERMINAL_CONFIRMED
      then show ?thesis using old nac by simp
    qed
    moreover have "bound_head (ee_receipts ?e) ''workflow-event'' (up_event_id u) (up_event_path u)"
      "bound_head (ee_receipts ?e) ''workflow-state'' (up_state_id u) (up_state_path u)"
      "bound_head (ee_receipts ?e) ''workflow-outcome'' (up_outcome_id u) (up_outcome_path u)"
      using old kept same by simp_all
    ultimately show ?thesis using ARTIFACT_PUBLICATION_CONFIRMED by (simp add: new fields)
  next
    case TERMINAL_RESERVATION
    with u have t: "terminal_update ord h ?e = Inr u" by simp
    note f = terminal_facts[OF t ord wr]
    have "eh_phase h = ACTIVE" using f(1,4) old by auto
    then show ?thesis using f TERMINAL_RESERVATION by (simp add: new fields phase_step_simps)
  next
    case TERMINAL_CONFIRMATION
    with u have t: "closing_update h ?e = Inr u" by simp
    have f: "eh_phase h = TERMINAL_RESERVED" "Some (ee_recorded_at ?e) = eh_terminal_at h"
      "list_all (\<lambda>r. rc_status r = CONFIRMED) (ee_receipts ?e)" "u = (prior_update h)\<lparr>up_phase := TERMINAL_CONFIRMED\<rparr>"
      using t by (auto simp: closing_update_def result_simps)
    then show ?thesis using old kept TERMINAL_CONFIRMATION
      by (simp add: new fields phase_step_simps prior_update_def all_confirmed_def list_all_iff)
  qed
qed

section \<open>Runs\<close>

lemma run_invariant:
  "epoch_run h as h' \<Longrightarrow> epoch_invariant h \<Longrightarrow> epoch_invariant h'"
  by (induction rule: epoch_run.induct) (auto dest: step_invariant)

lemma reachable_invariant: "epoch_reachable h \<Longrightarrow> epoch_invariant h"
  by (auto simp: epoch_reachable_def dest: root_invariant(1) run_invariant)

lemma run_snoc: "epoch_run h as h' \<Longrightarrow> epoch_step h' a h'' \<Longrightarrow> epoch_run h (as @ [a]) h''"
  by (induction rule: epoch_run.induct) (auto intro: epoch_run.intros)

lemma reachable_root: "epoch_root a h \<Longrightarrow> epoch_reachable h"
  unfolding epoch_reachable_def by (blast intro: epoch_run.none)

lemma reachable_step: "epoch_reachable h \<Longrightarrow> epoch_step h a h' \<Longrightarrow> epoch_reachable h'"
  unfolding epoch_reachable_def by (blast intro: run_snoc)

lemma step_facts:
  assumes "epoch_step h a h'"
  shows "same_chain h (snd a)" "eh_plan_id h' = eh_plan_id h" "eh_epoch_sequence h' = eh_epoch_sequence h + 1"
    "ee_previous_event_id (snd a) = Some (eh_current_event_head_id h)" "eh_current_event_head_id h' = fst a"
    "receipt_key ` set (eh_receipts h) \<subseteq> receipt_key ` set (eh_receipts h')"
    "\<exists>t t'. parse_utc (eh_recorded_at h) = Inr t \<and> parse_utc (eh_recorded_at h') = Inr t' \<and> t \<le> t'"
    "eh_receipts h' = ee_receipts (snd a)"
proof -
  obtain ord where "reduce_workflow_event ord (Some h) a = Inr h'" using assms by (auto simp: epoch_step.simps)
  then obtain u where c: "chain_continues h (snd a) = Inr ()" and h': "h' = head_of u a" by (rule reduce_step)
  note k = chain_kept[OF c]
  show "same_chain h (snd a)" by (rule k(1))
  then show "eh_plan_id h' = eh_plan_id h" "eh_epoch_sequence h' = eh_epoch_sequence h + 1"
    "ee_previous_event_id (snd a) = Some (eh_current_event_head_id h)" "eh_current_event_head_id h' = fst a"
    by (simp_all add: h' same_chain_def)
  show "receipt_key ` set (eh_receipts h) \<subseteq> receipt_key ` set (eh_receipts h')"
    "\<exists>t t'. parse_utc (eh_recorded_at h) = Inr t \<and> parse_utc (eh_recorded_at h') = Inr t' \<and> t \<le> t'"
    "eh_receipts h' = ee_receipts (snd a)" using k(2,3) by (simp_all add: h')
qed

lemma run_facts:
  assumes "epoch_run h as h'"
  shows "eh_plan_id h' = eh_plan_id h" "eh_epoch_sequence h' = eh_epoch_sequence h + int (length as)"
    "receipt_key ` set (eh_receipts h) \<subseteq> receipt_key ` set (eh_receipts h')"
  using assms
proof (induction rule: epoch_run.induct)
  case (step h a h' as h'')
  { case 1 then show ?case using step step_facts(2)[OF step.hyps(1)] by simp }
  { case 2 then show ?case using step step_facts(3)[OF step.hyps(1)] by simp }
  { case 3 then show ?case using step step_facts(6)[OF step.hyps(1)] by blast }
qed simp_all

text \<open>Times along a run: a canonical time is its fields, so a later event never goes back.\<close>

definition instant :: "string \<Rightarrow> utc" where
  "instant s = (case parse_utc s of Inl _ \<Rightarrow> [] | Inr t \<Rightarrow> t)"

lemma step_instant: "epoch_step h a h' \<Longrightarrow> instant (eh_recorded_at h) \<le> instant (eh_recorded_at h')"
  by (auto simp: instant_def dest: step_facts(7))

lemma run_instant: "epoch_run h as h' \<Longrightarrow> instant (eh_recorded_at h) \<le> instant (eh_recorded_at h')"
  by (induction rule: epoch_run.induct) (auto dest: step_instant)

section \<open>After the terminal reservation\<close>

lemma terminal_step:
  assumes "epoch_step h a h'" and inv: "epoch_invariant h" and "eh_phase h = TERMINAL_RESERVED"
  shows "eh_terminal_at h' = eh_terminal_at h"
    "eh_phase h' = TERMINAL_RESERVED \<and> card (reserved_keys (eh_receipts h')) < card (reserved_keys (eh_receipts h)) \<or>
     eh_phase h' = TERMINAL_CONFIRMED \<and> Some (eh_recorded_at h') = eh_terminal_at h"
proof -
  obtain ord where w: "wf_epoch_artifact a" and "reduce_workflow_event ord (Some h) a = Inr h'"
    using assms(1) by (auto simp: epoch_step.simps)
  then obtain u where u: "cause_update ord h (snd a) (ee_cause (snd a)) = Inr u" and h': "h' = head_of u a"
    by (auto elim: reduce_step)
  have wr: "wf_receipts (ee_receipts (snd a))" using epoch_event_parts epoch_artifact_event[OF w] by blast
  have old: "wf_receipts (eh_receipts h)" using inv by (simp add: epoch_invariant_def)
  have "phase_step (eh_phase h) (ee_cause (snd a)) (eh_phase h')" using step_invariant assms(1) inv by blast
  then consider "ee_cause (snd a) = ARTIFACT_PUBLICATION_CONFIRMED" | "ee_cause (snd a) = TERMINAL_CONFIRMATION"
    using assms(3) by (auto simp: phase_step_simps)
  then have "eh_terminal_at h' = eh_terminal_at h \<and>
    (eh_phase h' = TERMINAL_RESERVED \<and> card (reserved_keys (eh_receipts h')) < card (reserved_keys (eh_receipts h)) \<or>
     eh_phase h' = TERMINAL_CONFIRMED \<and> Some (eh_recorded_at h') = eh_terminal_at h)"
  proof cases
    case 1
    with u have c: "confirmation_update h (snd a) = Inr u" by simp
    note f = confirmation_facts[OF c wr old]
    obtain k where k: "k \<in> reserved_keys (eh_receipts h)"
      "reserved_keys (ee_receipts (snd a)) = reserved_keys (eh_receipts h) - {k}" using f(2) by blast
    have "finite (reserved_keys (eh_receipts h))" by (simp add: reserved_keys_def)
    then have "card (reserved_keys (ee_receipts (snd a))) < card (reserved_keys (eh_receipts h))"
      using k by (metis card_Diff1_less)
    moreover have "up_terminal_at u = eh_terminal_at h" using f(4) by (cases u) (simp add: prior_update_def)
    ultimately show ?thesis using f(3) assms(3) by (simp add: h')
  next
    case 2
    then show ?thesis using u by (auto simp: h' closing_update_def result_simps prior_update_def)
  qed
  then show "eh_terminal_at h' = eh_terminal_at h"
    "eh_phase h' = TERMINAL_RESERVED \<and> card (reserved_keys (eh_receipts h')) < card (reserved_keys (eh_receipts h)) \<or>
     eh_phase h' = TERMINAL_CONFIRMED \<and> Some (eh_recorded_at h') = eh_terminal_at h" by blast+
qed

lemma confirmed_stops: "epoch_invariant h \<Longrightarrow> eh_phase h = TERMINAL_CONFIRMED \<Longrightarrow> \<not> epoch_step h a h'"
  using step_invariant by (fastforce simp: phase_step_simps)

lemma terminal_run_bound:
  assumes "epoch_run h as h'" and "epoch_invariant h" and "eh_phase h = TERMINAL_RESERVED"
  shows "length as \<le> card (reserved_keys (eh_receipts h)) + 1"
  using assms
proof (induction rule: epoch_run.induct)
  case (step h a h' as h'')
  have inv: "epoch_invariant h'" using step.hyps(1) step.prems(1) step_invariant by blast
  show ?case
  proof (cases "eh_phase h' = TERMINAL_RESERVED")
    case True
    then show ?thesis using step inv terminal_step(2)[OF step.hyps(1) step.prems] by simp
  next
    case False
    then have "as = []" using terminal_step(2)[OF step.hyps(1) step.prems] inv confirmed_stops step.hyps(2)
      by (auto elim: epoch_run.cases)
    then show ?thesis by simp
  qed
qed simp

lemma late_run_stuck:
  assumes "epoch_run h as h'" and "epoch_invariant h" and "eh_phase h = TERMINAL_RESERVED"
    and "instant (the (eh_terminal_at h)) < instant (eh_recorded_at h)"
  shows "eh_phase h' = TERMINAL_RESERVED"
  using assms
proof (induction rule: epoch_run.induct)
  case (step h a h' as h'')
  note t = terminal_step[OF step.hyps(1) step.prems(1,2)]
  have late: "instant (the (eh_terminal_at h)) < instant (eh_recorded_at h')"
    using step_instant[OF step.hyps(1)] step.prems(3) by order
  then have "eh_phase h' = TERMINAL_RESERVED" using t(2) by (metis less_irrefl option.sel)
  then show ?case using step.IH step_invariant[OF step.hyps(1) step.prems(1)] late t(1) by simp
qed

section \<open>The order of a set\<close>

lemma added_by_type_unique:
  assumes "inj_on rc_type (set added)" and "r \<in> set added"
  shows "added_by_type added (rc_type r) = Some r"
proof -
  have "rc_type r \<in> rc_type ` set added" using assms(2) by simp
  then obtain r' where "r' \<in> set added" "added_by_type added (rc_type r) = Some r'" "rc_type r' = rc_type r"
    using added_by_type_some by blast
  then show ?thesis using assms by (metis inj_onD)
qed

lemma adds_order:
  assumes "iteration_order ord" "iteration_order ord'" and "wf_receipts (ee_receipts e)"
  shows "adds ord h e types = adds ord' h e types"
  unfolding adds_def Let_def set_map list_ex_iff
  using added_receipts_set[OF assms(1,3)] added_receipts_set[OF assms(2,3)] by simp

lemma newest_order:
  assumes "iteration_order ord" "iteration_order ord'" and "wf_receipts (ee_receipts e)"
    and "inj_on rc_type {r \<in> set (ee_receipts e). receipt_key r \<notin> receipt_key ` set (eh_receipts h)}"
    and "adds ord h e types" and "ty \<in> types"
  shows "newest ord h e ty = newest ord' h e ty"
proof -
  note s = added_receipts_set[OF assms(1,3), of "eh_receipts h"] added_receipts_set[OF assms(2,3), of "eh_receipts h"]
  obtain r where "r \<in> set (added_receipts ord (eh_receipts h) (ee_receipts e))" "rc_type r = ty"
    using assms(5,6) by (auto simp: adds_def Let_def)
  then have "newest ord h e ty = r" "newest ord' h e ty = r"
    using added_by_type_unique assms(4) s by (metis newest_def option.sel)+
  then show ?thesis by simp
qed

end
