(* ===== verification/EpochStore.thy ===== *)
theory EpochStore
  imports EpochInvariant
begin

text \<open>
  The workflow authority of the scheduler store in \<open>adapters/scheduler.py\<close>: the append-only table of
  epoch events, the materialized table of heads, the replay that relates them, and the five
  operations a workflow calls (open an epoch, reserve a transition, reserve the end, confirm an
  artifact, confirm the end) with the transaction each runs in.  An error leaves the store as it was.

  The M6 side of the database enters as \<open>scheduler_authority\<close>: the graph, the candidate, and for each
  scheduler event in order its identity and the identity of the scheduler state after it.
\<close>

section \<open>Tables\<close>

record scheduler_authority =
  au_graph_id :: string
  au_candidate :: candidate_identity
  au_history :: "(string \<times> string) list"

record epoch_row =
  rw_sequence :: int
  rw_plan_id :: string
  rw_epoch_sequence :: int
  rw_artifact_id :: string
  rw_previous_event_id :: "string option"
  rw_cause :: string
  rw_recorded_at :: string
  rw_artifact :: json

record head_row =
  hr_current_event_head_id :: string
  hr_phase :: string
  hr_json :: string

text \<open>Rows are in the order of their sequence; heads are keyed by plan.\<close>

record workflow_store =
  ws_authority :: scheduler_authority
  ws_rows :: "epoch_row list"
  ws_heads :: "(string \<times> head_row) list"

section \<open>Replay\<close>

definition row_of :: "epoch_artifact \<Rightarrow> epoch_row" where
  "row_of a = (let e = snd a in
     \<lparr>rw_sequence = ee_sequence e, rw_plan_id = ee_plan_id e, rw_epoch_sequence = ee_epoch_sequence e,
      rw_artifact_id = fst a, rw_previous_event_id = ee_previous_event_id e,
      rw_cause = epoch_cause_value (ee_cause e), rw_recorded_at = ee_recorded_at e,
      rw_artifact = epoch_artifact_to_dict a\<rparr>)"

definition row_agrees :: "epoch_row \<Rightarrow> epoch_artifact \<Rightarrow> bool" where
  "row_agrees row a = (let e = snd a in
     \<not> (ee_sequence e \<noteq> rw_sequence row \<or> ee_plan_id e \<noteq> rw_plan_id row \<or>
        ee_epoch_sequence e \<noteq> rw_epoch_sequence row \<or> fst a \<noteq> rw_artifact_id row \<or>
        ee_previous_event_id e \<noteq> rw_previous_event_id row \<or>
        epoch_cause_value (ee_cause e) \<noteq> rw_cause row \<or> ee_recorded_at e \<noteq> rw_recorded_at row))"

type_synonym heads = "(string \<times> workflow_epoch_head) list"

fun replay_rows :: "set_order \<Rightarrow> heads \<Rightarrow> epoch_row list \<Rightarrow> heads result" where
  "replay_rows ord heads [] = Inr heads"
| "replay_rows ord heads (row # rows) =
     bindR (parse_epoch_artifact (rw_artifact row)) (\<lambda>a.
     bindR (require (row_agrees row a) (SchedulerAdapterError RowMismatch)) (\<lambda>_.
     bindR (reduce_workflow_event ord (map_of heads (ee_plan_id (snd a))) a) (\<lambda>h.
     replay_rows ord (upsert (ee_plan_id (snd a)) h heads) rows)))"

definition replay_workflow_epochs :: "set_order \<Rightarrow> epoch_row list \<Rightarrow> heads result" where
  "replay_workflow_epochs ord rows =
     bindR (require (map rw_sequence rows = map int [1..<Suc (length rows)])
       (SchedulerAdapterError SequenceGap)) (\<lambda>_. replay_rows ord [] rows)"

definition workflow_head :: "set_order \<Rightarrow> workflow_store \<Rightarrow> string \<Rightarrow> workflow_epoch_head option result" where
  "workflow_head ord s plan =
     bindR (replay_workflow_epochs ord (ws_rows s)) (\<lambda>heads. Inr (map_of heads plan))"

definition required_workflow_head :: "set_order \<Rightarrow> workflow_store \<Rightarrow> string \<Rightarrow> workflow_epoch_head result" where
  "required_workflow_head ord s plan = bindR (workflow_head ord s plan) (\<lambda>h.
     (case h of None \<Rightarrow> Inl (SchedulerAdapterError EpochMissing) | Some h \<Rightarrow> Inr h))"

definition pending_terminals :: "heads \<Rightarrow> workflow_epoch_head list" where
  "pending_terminals heads = filter (\<lambda>h. eh_phase h = TERMINAL_RESERVED) (map snd heads)"

definition require_pending_terminal_scope :: "set_order \<Rightarrow> workflow_store \<Rightarrow> string \<Rightarrow> unit result" where
  "require_pending_terminal_scope ord s plan =
     bindR (replay_workflow_epochs ord (ws_rows s)) (\<lambda>heads. let pending = pending_terminals heads in
     require (\<not> (pending \<noteq> [] \<and> (length pending \<noteq> 1 \<or> eh_plan_id (hd pending) \<noteq> plan)))
       (SchedulerAdapterError PendingTerminal))"

section \<open>Validation and transactions\<close>

definition history_at :: "scheduler_authority \<Rightarrow> int \<Rightarrow> (string \<times> string) option" where
  "history_at au i = (if 1 \<le> i \<and> i \<le> int (length (au_history au)) then Some (au_history au ! nat (i - 1)) else None)"

text \<open>The current scheduler state, sequence and event.\<close>

definition current_triple :: "scheduler_authority \<Rightarrow> (string \<times> int \<times> string) result" where
  "current_triple au = (if au_history au = [] then Inl (SchedulerAdapterError NonAuthoritative)
     else Inr (snd (last (au_history au)), int (length (au_history au)), fst (last (au_history au))))"

definition head_triple :: "workflow_epoch_head \<Rightarrow> string \<times> int \<times> string" where
  "head_triple h = (eh_scheduler_state_id h, eh_scheduler_event_sequence h, eh_scheduler_event_head_id h)"

definition row_authority :: "scheduler_authority \<Rightarrow> epoch_row \<Rightarrow> unit result" where
  "row_authority au row = bindR (parse_epoch_artifact (rw_artifact row)) (\<lambda>a.
     (case history_at au (ee_scheduler_event_sequence (snd a)) of
        None \<Rightarrow> Inl (SchedulerAdapterError NonAuthoritative)
      | Some (event_id, state_id) \<Rightarrow>
          bindR (require (event_id = ee_scheduler_event_head_id (snd a)) (SchedulerAdapterError NonAuthoritative)) (\<lambda>_.
          require (state_id = ee_scheduler_state_id (snd a)) (SchedulerAdapterError NonAuthoritative))))"

definition pending_pinned :: "scheduler_authority \<Rightarrow> heads \<Rightarrow> unit result" where
  "pending_pinned au heads = (let pending = pending_terminals heads in
     if pending = [] then Inr ()
     else bindR (current_triple au) (\<lambda>final.
       require (\<not> (length pending \<noteq> 1 \<or> head_triple (hd pending) \<noteq> final))
         (SchedulerAdapterError PendingTerminal)))"

definition validate_workflow_epoch_evidence :: "set_order \<Rightarrow> workflow_store \<Rightarrow> unit result" where
  "validate_workflow_epoch_evidence ord s = (let au = ws_authority s in
     bindR (replay_workflow_epochs ord (ws_rows s)) (\<lambda>heads.
     bindR (require (\<not> list_ex (\<lambda>(_, h). eh_graph_id h \<noteq> au_graph_id au \<or> eh_candidate h \<noteq> au_candidate au) heads)
       (SchedulerAdapterError AuthorityMismatch)) (\<lambda>_.
     bindR (mapR (row_authority au) (ws_rows s)) (\<lambda>_.
     pending_pinned au heads))))"

definition head_row_of :: "workflow_epoch_head \<Rightarrow> head_row result" where
  "head_row_of h = bindR (canonical_json_bytes (epoch_head_to_dict h)) (\<lambda>text.
     Inr \<lparr>hr_current_event_head_id = eh_current_event_head_id h, hr_phase = epoch_phase_value (eh_phase h),
          hr_json = text\<rparr>)"

definition validate_workflow_epoch_projection :: "set_order \<Rightarrow> workflow_store \<Rightarrow> unit result" where
  "validate_workflow_epoch_projection ord s =
     bindR (replay_workflow_epochs ord (ws_rows s)) (\<lambda>expected. let rows = sort_key fst (ws_heads s) in
     bindR (require (map fst rows = sort (map fst expected)) (SchedulerAdapterError ProjectionMismatch)) (\<lambda>_.
     bindR (mapR (\<lambda>(plan, row). bindR (head_row_of (the (map_of expected plan))) (\<lambda>wanted.
       require (row = wanted) (SchedulerAdapterError ProjectionMismatch))) rows) (\<lambda>_. Inr ())))"

definition validate_store :: "set_order \<Rightarrow> workflow_store \<Rightarrow> unit result" where
  "validate_store ord s = bindR (validate_workflow_epoch_evidence ord s) (\<lambda>_.
     validate_workflow_epoch_projection ord s)"

definition pending_row :: "workflow_store \<Rightarrow> bool" where
  "pending_row s = list_ex (\<lambda>(_, row). hr_phase row = epoch_phase_value TERMINAL_RESERVED) (ws_heads s)"

definition workflow_transaction ::
  "set_order \<Rightarrow> bool \<Rightarrow> workflow_store \<Rightarrow> (workflow_store \<Rightarrow> (workflow_store \<times> workflow_epoch_head) result) \<Rightarrow>
   (workflow_store \<times> workflow_epoch_head) result" where
  "workflow_transaction ord allow_pending s body =
     bindR (validate_store ord s) (\<lambda>_.
     bindR (require (\<not> (\<not> allow_pending \<and> pending_row s)) (SchedulerAdapterError PendingTerminal)) (\<lambda>_.
     bindR (body s) (\<lambda>(s', h).
     bindR (validate_store ord s') (\<lambda>_. Inr (s', h)))))"

section \<open>Receipts of a request\<close>

definition ordered_workflow_receipts :: "workflow_receipt list \<Rightarrow> workflow_receipt list" where
  "ordered_workflow_receipts rs = sort_key receipt_order rs"

definition dict_of :: "(workflow_receipt \<Rightarrow> string) \<Rightarrow> workflow_receipt list \<Rightarrow> (string \<times> workflow_receipt) list" where
  "dict_of f rs = fold (\<lambda>r. upsert (f r) r) rs []"

fun merge_additions ::
  "(string \<times> workflow_receipt) list \<Rightarrow> (string \<times> workflow_receipt) list \<Rightarrow> workflow_receipt list \<Rightarrow>
   workflow_receipt list result" where
  "merge_additions by_path by_id [] = Inr (ordered_workflow_receipts (map snd by_path))"
| "merge_additions by_path by_id (item # items) =
     (let path_match = map_of by_path (casefold (rc_path item)); id_match = map_of by_id (rc_id item) in
     bindR (require (\<not> (case path_match of None \<Rightarrow> False
         | Some m \<Rightarrow> rc_path m \<noteq> rc_path item \<or> rc_id m \<noteq> rc_id item \<or> rc_type m \<noteq> rc_type item \<or>
             rc_producer m \<noteq> rc_producer item)) (SchedulerAdapterError ReceiptCollision)) (\<lambda>_.
     bindR (require (\<not> (case id_match of None \<Rightarrow> False | Some m \<Rightarrow> rc_path m \<noteq> rc_path item))
       (SchedulerAdapterError ReceiptCollision)) (\<lambda>_.
     if path_match = None then
       merge_additions (upsert (casefold (rc_path item)) item by_path) (upsert (rc_id item) item by_id) items
     else merge_additions by_path by_id items)))"

definition merge_workflow_receipts ::
  "workflow_receipt list \<Rightarrow> workflow_receipt list \<Rightarrow> workflow_receipt list result" where
  "merge_workflow_receipts existing additions =
     merge_additions (dict_of (casefold \<circ> rc_path) existing) (dict_of rc_id existing) additions"

text \<open>The artifact heads after a request: the last new receipt of each type.\<close>

definition artifact_head ::
  "receipt_key set \<Rightarrow> workflow_receipt list \<Rightarrow> string \<Rightarrow> string option \<times> string option \<Rightarrow>
   string option \<times> string option" where
  "artifact_head prior_keys receipts ty start =
     fold (\<lambda>r h. if receipt_key r \<notin> prior_keys \<and> rc_type r = ty then (Some (rc_id r), Some (rc_path r)) else h)
       receipts start"

definition workflow_artifact_heads ::
  "workflow_epoch_head option \<Rightarrow> workflow_receipt list \<Rightarrow> string \<Rightarrow> string option \<times> string option" where
  "workflow_artifact_heads prior receipts ty = (case prior of
     None \<Rightarrow> artifact_head {} receipts ty (None, None)
   | Some h \<Rightarrow> artifact_head (receipt_key ` set (eh_receipts h)) receipts ty
       (if ty = ''workflow-event'' then (eh_workflow_event_id h, eh_workflow_event_path h)
        else if ty = ''workflow-state'' then (eh_workflow_state_id h, eh_workflow_state_path h)
        else (eh_outcome_id h, eh_outcome_path h)))"

record workflow_request =
  wq_plan_id :: string
  wq_candidate :: candidate_identity
  wq_graph_id :: string
  wq_scheduler_state_id :: string
  wq_scheduler_event_sequence :: int
  wq_scheduler_event_head_id :: string
  wq_idempotency_key :: string
  wq_producer :: string
  wq_source_state_id :: "string option"
  wq_receipts :: "workflow_receipt list"

definition same_workflow_request :: "workflow_epoch_head \<Rightarrow> workflow_request \<Rightarrow> bool" where
  "same_workflow_request h q = (eh_candidate h = wq_candidate q \<and> eh_graph_id h = wq_graph_id q \<and>
     eh_scheduler_state_id h = wq_scheduler_state_id q \<and>
     eh_scheduler_event_sequence h = wq_scheduler_event_sequence q \<and>
     eh_scheduler_event_head_id h = wq_scheduler_event_head_id q \<and>
     eh_idempotency_key h = wq_idempotency_key q \<and> eh_producer h = wq_producer q \<and>
     eh_source_state_id h = wq_source_state_id q \<and>
     receipt_key ` set (wq_receipts q) \<subseteq> receipt_key ` set (eh_receipts h))"

type_synonym predecessor = "string option \<times> string option \<times> string option \<times> string option"

definition head_predecessor :: "workflow_epoch_head \<Rightarrow> predecessor" where
  "head_predecessor h = (eh_predecessor_plan_id h, eh_predecessor_head_id h, eh_predecessor_state_id h,
     eh_predecessor_outcome_id h)"

section \<open>Appending an event\<close>

definition next_event ::
  "workflow_epoch_head option \<Rightarrow> int \<Rightarrow> workflow_epoch_cause \<Rightarrow> workflow_request \<Rightarrow> string \<Rightarrow> predecessor \<Rightarrow>
   workflow_epoch_event" where
  "next_event prior sequence cause q recorded predecessor =
     (let (pre_plan, pre_head, pre_state, pre_outcome) =
            (case prior of None \<Rightarrow> predecessor | Some h \<Rightarrow> head_predecessor h);
          heads = workflow_artifact_heads prior (wq_receipts q) in
     \<lparr>ee_sequence = sequence,
      ee_epoch_sequence = (case prior of None \<Rightarrow> 1 | Some h \<Rightarrow> eh_epoch_sequence h + 1),
      ee_previous_event_id = map_option eh_current_event_head_id prior, ee_cause = cause,
      ee_plan_id = wq_plan_id q, ee_predecessor_plan_id = pre_plan, ee_predecessor_head_id = pre_head,
      ee_predecessor_state_id = pre_state, ee_predecessor_outcome_id = pre_outcome,
      ee_candidate = wq_candidate q, ee_graph_id = wq_graph_id q,
      ee_scheduler_state_id = wq_scheduler_state_id q,
      ee_scheduler_event_sequence = wq_scheduler_event_sequence q,
      ee_scheduler_event_head_id = wq_scheduler_event_head_id q,
      ee_idempotency_key = wq_idempotency_key q, ee_producer = wq_producer q,
      ee_source_state_id = wq_source_state_id q,
      ee_workflow_event_id = fst (heads ''workflow-event''), ee_workflow_event_path = snd (heads ''workflow-event''),
      ee_workflow_state_id = fst (heads ''workflow-state''), ee_workflow_state_path = snd (heads ''workflow-state''),
      ee_outcome_id = fst (heads ''workflow-outcome''), ee_outcome_path = snd (heads ''workflow-outcome''),
      ee_receipts = ordered_workflow_receipts (wq_receipts q), ee_recorded_at = recorded\<rparr>)"

definition next_sequence :: "workflow_store \<Rightarrow> int" where
  "next_sequence s = fold max (map rw_sequence (ws_rows s)) 0 + 1"

definition append_workflow_event ::
  "set_order \<Rightarrow> workflow_store \<Rightarrow> workflow_epoch_cause \<Rightarrow> workflow_request \<Rightarrow> string \<Rightarrow> predecessor \<Rightarrow>
   (workflow_store \<times> workflow_epoch_head) result" where
  "append_workflow_event ord s cause q recorded predecessor =
     bindR (workflow_head ord s (wq_plan_id q)) (\<lambda>prior.
     bindR (epoch_artifact_from_value (next_event prior (next_sequence s) cause q recorded predecessor)) (\<lambda>a.
     bindR (reduce_workflow_event ord prior a) (\<lambda>h.
     bindR (head_row_of h) (\<lambda>row.
     Inr (s\<lparr>ws_rows := ws_rows s @ [row_of a], ws_heads := upsert (eh_plan_id h) row (ws_heads s)\<rparr>, h)))))"

end
