(* ===== verification/WorkflowAuthority.thy ===== *)
theory WorkflowAuthority
  imports EpochStore
begin

text \<open>
  The operations of \<open>SQLiteSchedulerStore\<close> (\<open>adapters/scheduler.py\<close>) on workflow epochs, and the
  publication of a terminal outcome that composes them (\<open>application/workflow_outcome.py\<close>).
\<close>

section \<open>Operations\<close>

text \<open>A time given as text in the store's own format; \<open>datetime\<close> arguments are already UTC.\<close>

definition workflow_timestamp :: "string \<Rightarrow> string result" where
  "workflow_timestamp t = bindR (parse_utc t) (\<lambda>u. Inr (format_utc u))"

definition require_scheduler_head :: "workflow_store \<Rightarrow> workflow_request \<Rightarrow> unit result" where
  "require_scheduler_head s q = (let au = ws_authority s in
     bindR (current_triple au) (\<lambda>current.
     require (\<not> (au_graph_id au \<noteq> wq_graph_id q \<or> au_candidate au \<noteq> wq_candidate q \<or>
         current \<noteq> (wq_scheduler_state_id q, wq_scheduler_event_sequence q, wq_scheduler_event_head_id q)))
       (SchedulerAdapterError AuthorityMismatch)))"

definition require_unchanged_scheduler_head :: "workflow_store \<Rightarrow> workflow_epoch_head \<Rightarrow> unit result" where
  "require_unchanged_scheduler_head s h = bindR (current_triple (ws_authority s)) (\<lambda>current.
     require (current = head_triple h) (SchedulerAdapterError HeadChanged))"

definition reserved_receipt :: "string \<Rightarrow> string \<Rightarrow> string \<Rightarrow> string \<Rightarrow> workflow_receipt" where
  "reserved_receipt ty identifier path producer =
     \<lparr>rc_type = ty, rc_id = identifier, rc_path = path, rc_producer = producer, rc_status = RESERVED\<rparr>"

definition open_request :: "workflow_request \<Rightarrow> string \<Rightarrow> string \<Rightarrow> string \<Rightarrow> workflow_request" where
  "open_request q identifier ty path = q\<lparr>wq_source_state_id := None,
     wq_receipts := [reserved_receipt ty identifier path (wq_producer q)]\<rparr>"

definition open_workflow_epoch ::
  "set_order \<Rightarrow> workflow_store \<Rightarrow> workflow_request \<Rightarrow> string \<Rightarrow> string \<Rightarrow> string \<Rightarrow> string \<Rightarrow> predecessor \<Rightarrow>
   (workflow_store \<times> workflow_epoch_head) result" where
  "open_workflow_epoch ord s q0 identifier ty path recorded_at predecessor =
     (let q = open_request q0 identifier ty path in
     bindR (workflow_timestamp recorded_at) (\<lambda>recorded.
     workflow_transaction ord False s (\<lambda>s.
       bindR (workflow_head ord s (wq_plan_id q)) (\<lambda>existing.
       (case existing of
          Some h \<Rightarrow> if same_workflow_request h q \<and> head_predecessor h = predecessor then Inr (s, h)
                    else Inl (SchedulerAdapterError EpochConflict)
        | None \<Rightarrow> bindR (require_scheduler_head s q) (\<lambda>_.
            append_workflow_event ord s EPOCH_OPENED q recorded predecessor))))))"

definition none_predecessor :: predecessor where
  "none_predecessor = (None, None, None, None)"

text \<open>Is the request the one the head already stands for?\<close>

definition head_authority :: "workflow_epoch_head \<Rightarrow> workflow_request \<Rightarrow> workflow_request" where
  "head_authority h q = q\<lparr>wq_candidate := eh_candidate h, wq_graph_id := eh_graph_id h\<rparr>"

definition already_reserved :: "workflow_epoch_cause \<Rightarrow> workflow_epoch_head \<Rightarrow> workflow_request \<Rightarrow> string \<Rightarrow> bool" where
  "already_reserved cause h q recorded =
     (same_workflow_request h (head_authority h q) \<and>
      (cause = TERMINAL_RESERVATION \<and> eh_phase h \<in> {TERMINAL_RESERVED, TERMINAL_CONFIRMED} \<or>
       cause = TRANSITION_RESERVATION \<and> eh_phase h \<in> {TRANSITION_RESERVED, ACTIVE}) \<and>
      (cause \<noteq> TERMINAL_RESERVATION \<or> eh_terminal_at h = Some recorded))"

definition reserve_workflow_change ::
  "set_order \<Rightarrow> workflow_store \<Rightarrow> workflow_epoch_cause \<Rightarrow> workflow_epoch_phase set \<Rightarrow> workflow_request \<Rightarrow>
   string \<Rightarrow> string \<Rightarrow> (workflow_store \<times> workflow_epoch_head) result" where
  "reserve_workflow_change ord s cause phase_guard q expected_head_id recorded_at =
     bindR (workflow_timestamp recorded_at) (\<lambda>recorded.
     workflow_transaction ord True s (\<lambda>s.
       bindR (replay_workflow_epochs ord (ws_rows s)) (\<lambda>heads. let pending = pending_terminals heads in
       bindR (require (\<not> (pending \<noteq> [] \<and> (length pending \<noteq> 1 \<or> cause \<noteq> TERMINAL_RESERVATION \<or>
           eh_plan_id (hd pending) \<noteq> wq_plan_id q))) (SchedulerAdapterError PendingTerminal)) (\<lambda>_.
       bindR (required_workflow_head ord s (wq_plan_id q)) (\<lambda>h.
       if already_reserved cause h q recorded then Inr (s, h)
       else
         bindR (require (eh_phase h \<in> phase_guard) (SchedulerAdapterError BadPhase)) (\<lambda>_.
         bindR (require (eh_current_event_head_id h = expected_head_id) (SchedulerAdapterError HeadChanged)) (\<lambda>_.
         bindR (require_scheduler_head s (head_authority h q)) (\<lambda>_.
         bindR (merge_workflow_receipts (eh_receipts h) (wq_receipts q)) (\<lambda>merged.
         append_workflow_event ord s cause ((head_authority h q)\<lparr>wq_receipts := merged\<rparr>) recorded
           none_predecessor)))))))))"

definition reserve_workflow_transition ::
  "set_order \<Rightarrow> workflow_store \<Rightarrow> workflow_request \<Rightarrow> string \<Rightarrow> string \<times> string \<Rightarrow> string \<times> string \<Rightarrow> string \<Rightarrow>
   (workflow_store \<times> workflow_epoch_head) result" where
  "reserve_workflow_transition ord s q expected_head_id event state recorded_at =
     (let receipts = ordered_workflow_receipts
        [reserved_receipt ''workflow-event'' (fst event) (snd event) (wq_producer q),
         reserved_receipt ''workflow-state'' (fst state) (snd state) (wq_producer q)] in
     reserve_workflow_change ord s TRANSITION_RESERVATION {OPEN, ACTIVE}
       (q\<lparr>wq_receipts := receipts\<rparr>) expected_head_id recorded_at)"

definition reserve_workflow_terminal ::
  "set_order \<Rightarrow> workflow_store \<Rightarrow> workflow_request \<Rightarrow> string \<Rightarrow> string \<times> string \<Rightarrow> string \<times> string \<Rightarrow>
   string \<times> string \<Rightarrow> string \<Rightarrow> (workflow_store \<times> workflow_epoch_head) result" where
  "reserve_workflow_terminal ord s q expected_head_id event state closing recorded_at =
     (let receipts = ordered_workflow_receipts
        [reserved_receipt ''workflow-event'' (fst event) (snd event) (wq_producer q),
         reserved_receipt ''workflow-state'' (fst state) (snd state) (wq_producer q),
         reserved_receipt ''workflow-outcome'' (fst closing) (snd closing) (wq_producer q)] in
     reserve_workflow_change ord s TERMINAL_RESERVATION {OPEN, ACTIVE}
       (q\<lparr>wq_receipts := receipts\<rparr>) expected_head_id recorded_at)"

text \<open>The request that repeats what a head pins, with other receipts.\<close>

definition head_request :: "workflow_epoch_head \<Rightarrow> workflow_receipt list \<Rightarrow> workflow_request" where
  "head_request h receipts = \<lparr>wq_plan_id = eh_plan_id h, wq_candidate = eh_candidate h,
     wq_graph_id = eh_graph_id h, wq_scheduler_state_id = eh_scheduler_state_id h,
     wq_scheduler_event_sequence = eh_scheduler_event_sequence h,
     wq_scheduler_event_head_id = eh_scheduler_event_head_id h,
     wq_idempotency_key = eh_idempotency_key h, wq_producer = eh_producer h,
     wq_source_state_id = eh_source_state_id h, wq_receipts = receipts\<rparr>"

definition matches_receipt :: "string \<Rightarrow> string \<Rightarrow> workflow_receipt \<Rightarrow> bool" where
  "matches_receipt identifier path r = (rc_id r = identifier \<and> rc_path r = path)"

definition confirm_receipts :: "string \<Rightarrow> string \<Rightarrow> workflow_receipt list \<Rightarrow> workflow_receipt list" where
  "confirm_receipts identifier path rs =
     map (\<lambda>r. if matches_receipt identifier path r then r\<lparr>rc_status := CONFIRMED\<rparr> else r) rs"

definition confirm_workflow_artifact ::
  "set_order \<Rightarrow> workflow_store \<Rightarrow> string \<Rightarrow> string \<Rightarrow> string \<Rightarrow> string \<Rightarrow> string \<Rightarrow> string \<Rightarrow> string option \<Rightarrow>
   string option \<Rightarrow> (workflow_store \<times> workflow_epoch_head) result" where
  "confirm_workflow_artifact ord s plan expected_head_id identifier path key recorded_at ty producer =
     bindR (workflow_timestamp recorded_at) (\<lambda>recorded.
     workflow_transaction ord True s (\<lambda>s.
       bindR (required_workflow_head ord s plan) (\<lambda>h.
       bindR (require_pending_terminal_scope ord s plan) (\<lambda>_.
       (case find (matches_receipt identifier path) (eh_receipts h) of
          None \<Rightarrow> Inl (SchedulerAdapterError ChangedReservation)
        | Some m \<Rightarrow>
            bindR (require (\<not> ((case ty of None \<Rightarrow> False | Some t \<Rightarrow> rc_type m \<noteq> t) \<or>
                (case producer of None \<Rightarrow> False | Some p \<Rightarrow> rc_producer m \<noteq> p) \<or>
                eh_idempotency_key h \<noteq> key)) (SchedulerAdapterError ChangedReservation)) (\<lambda>_.
            if rc_status m = CONFIRMED then Inr (s, h)
            else
              bindR (require (eh_current_event_head_id h = expected_head_id) (SchedulerAdapterError HeadChanged)) (\<lambda>_.
              bindR (require_unchanged_scheduler_head s h) (\<lambda>_.
              append_workflow_event ord s ARTIFACT_PUBLICATION_CONFIRMED
                (head_request h (ordered_workflow_receipts (confirm_receipts identifier path (eh_receipts h))))
                recorded none_predecessor))))))))"

definition confirm_workflow_terminal ::
  "set_order \<Rightarrow> workflow_store \<Rightarrow> string \<Rightarrow> string \<Rightarrow> string \<Rightarrow> string \<Rightarrow> string option \<Rightarrow>
   (workflow_store \<times> workflow_epoch_head) result" where
  "confirm_workflow_terminal ord s plan expected_head_id key recorded_at producer =
     bindR (workflow_timestamp recorded_at) (\<lambda>recorded.
     workflow_transaction ord True s (\<lambda>s.
       bindR (required_workflow_head ord s plan) (\<lambda>h.
       bindR (require_pending_terminal_scope ord s plan) (\<lambda>_.
       if eh_phase h = TERMINAL_CONFIRMED then
         (if eh_idempotency_key h = key \<and> eh_terminal_at h = Some recorded \<and>
             (case producer of None \<Rightarrow> True | Some p \<Rightarrow> eh_producer h = p) then Inr (s, h)
          else Inl (SchedulerAdapterError TerminalConflict))
       else
         bindR (require (\<not> (eh_phase h \<noteq> TERMINAL_RESERVED \<or> eh_current_event_head_id h \<noteq> expected_head_id \<or>
             eh_idempotency_key h \<noteq> key \<or> eh_terminal_at h \<noteq> Some recorded \<or>
             (case producer of None \<Rightarrow> False | Some p \<Rightarrow> eh_producer h \<noteq> p) \<or>
             list_ex (\<lambda>r. rc_status r \<noteq> CONFIRMED) (eh_receipts h)))
           (SchedulerAdapterError BadConfirmation)) (\<lambda>_.
         bindR (require_unchanged_scheduler_head s h) (\<lambda>_.
         append_workflow_event ord s TERMINAL_CONFIRMATION (head_request h (eh_receipts h)) recorded
           none_predecessor))))))"

definition authenticate_workflow_artifact ::
  "set_order \<Rightarrow> workflow_store \<Rightarrow> string \<Rightarrow> string \<Rightarrow> string \<Rightarrow> string \<Rightarrow> string \<Rightarrow> candidate_identity \<Rightarrow> string \<Rightarrow>
   workflow_epoch_head result" where
  "authenticate_workflow_artifact ord s plan ty identifier path producer candidate graph =
     bindR (validate_store ord s) (\<lambda>_.
     bindR (workflow_head ord s plan) (\<lambda>head.
     (case head of
        None \<Rightarrow> Inl (SchedulerAdapterError AuthorityMismatch)
      | Some h \<Rightarrow>
          bindR (require (\<not> (eh_candidate h \<noteq> candidate \<or> eh_graph_id h \<noteq> graph))
            (SchedulerAdapterError AuthorityMismatch)) (\<lambda>_.
          bindR (require (list_ex (\<lambda>r. rc_type r = ty \<and> rc_id r = identifier \<and> rc_path r = path \<and>
              rc_producer r = producer \<and> rc_status r = CONFIRMED) (eh_receipts h))
            (SchedulerAdapterError ReceiptUnconfirmed)) (\<lambda>_. Inr h)))))"

section \<open>Publishing an outcome\<close>

text \<open>
  The authority calls of \<open>WorkflowOutcomeService.publish\<close>: the reservation, the confirmation of each
  artifact in turn against the head the previous call returned, then the end.  Between them the code
  writes the files (\<open>publish_idempotent\<close>) and lets Git confirm them (\<open>confirm_outputs\<close>); these touch
  files only, and a failure there leaves the store as the last call left it, an interruption.
\<close>

fun confirm_each ::
  "set_order \<Rightarrow> workflow_store \<Rightarrow> workflow_epoch_head \<Rightarrow> string \<Rightarrow> string \<Rightarrow> string \<Rightarrow> string \<Rightarrow>
   (string \<times> string \<times> string) list \<Rightarrow> (workflow_store \<times> workflow_epoch_head) result" where
  "confirm_each ord s confirmed plan key now producer [] = Inr (s, confirmed)"
| "confirm_each ord s confirmed plan key now producer ((ty, identifier, path) # confirmations) =
     bindR (confirm_workflow_artifact ord s plan (eh_current_event_head_id confirmed) identifier path key now
       (Some ty) (Some producer)) (\<lambda>(s', confirmed').
     confirm_each ord s' confirmed' plan key now producer confirmations)"

definition publish_terminal ::
  "set_order \<Rightarrow> workflow_store \<Rightarrow> workflow_request \<Rightarrow> string \<Rightarrow> string \<times> string \<Rightarrow> string \<times> string \<Rightarrow>
   string \<times> string \<Rightarrow> string \<Rightarrow> (workflow_store \<times> workflow_epoch_head) result" where
  "publish_terminal ord s q expected_head_id event state closing now =
     bindR (reserve_workflow_terminal ord s q expected_head_id event state closing now) (\<lambda>(s1, reserved).
     bindR (confirm_each ord s1 reserved (wq_plan_id q) (wq_idempotency_key q) now (wq_producer q)
       [(''workflow-event'', event), (''workflow-state'', state), (''workflow-outcome'', closing)]) (\<lambda>(s2, confirmed).
     confirm_workflow_terminal ord s2 (wq_plan_id q) (eh_current_event_head_id confirmed)
       (wq_idempotency_key q) now (Some (wq_producer q))))"

end
