(* ===== verification/StoreReplay.thy ===== *)
theory StoreReplay
  imports WorkflowAuthority
begin

text \<open>
  Replay and append: an append succeeds only with an artifact that replays to the head it returned,
  so the table of heads never drifts from the event log.  The heads a replay produces are reachable
  in the sense of the reducer's step relation.
\<close>

section \<open>The identity of an accepted event\<close>

lemma optional_text:
  "optional_value (scheduler_id t) (enc_option JStr x) = Inr y \<longleftrightarrow> y = x \<and> pred_option (wf_scheduler_id t) x"
  "optional_value (workflow_artifact_id ty) (enc_option JStr x) = Inr y \<longleftrightarrow> y = x \<and> pred_option (wf_workflow_id ty) x"
  "optional_value safe_relative_path (enc_option JStr x) = Inr y \<longleftrightarrow> y = x \<and> pred_option safe_path x"
  by (cases x; auto simp: optional_value_def enc_option_def result_simps)+

lemma cause_value_inject: "epoch_cause_value c = epoch_cause_value c' \<longleftrightarrow> c = c'"
  using epoch_cause_enum.val_inject by auto

lemma parse_receipts_same: "parse_receipts (JArr (map receipt_to_dict rs)) = Inr rs' \<Longrightarrow> rs' = rs"
proof -
  assume "parse_receipts (JArr (map receipt_to_dict rs)) = Inr rs'"
  then have "mapR parse_workflow_receipt (map receipt_to_dict rs) = Inr rs'"
    by (auto simp: parse_receipts_def result_simps)
  moreover have "parse_workflow_receipt (receipt_to_dict r) = Inr r' \<Longrightarrow> r' = r" for r r'
    by (cases r) (clarsimp simp: parse_workflow_receipt_def receipt_to_dict_def result_simps get_Cons
        receipt_status_enum.enum_value_iff receipt_status_enum.val_inject)
  ultimately show "rs' = rs"
    by (induction rs arbitrary: rs') (auto simp: result_simps)
qed

lemma parse_candidate_same: "parse_candidate_identity (candidate_to_dict c) = Inr c' \<Longrightarrow> c' = c"
  by (cases c) (auto simp: parse_candidate_identity_def candidate_to_dict_def result_simps get_Cons
      split: option.splits)

lemma parse_epoch_event_same:
  assumes "parse_workflow_epoch_event (epoch_event_to_dict e) = Inr p"
    and "py_eq (epoch_event_to_dict p) (epoch_event_to_dict e)"
  shows "p = e"
proof -
  have rec: "ee_recorded_at p = ee_recorded_at e"
    using assms(2) by (simp add: epoch_event_to_dict_def py_eq.simps)
  have "p\<lparr>ee_recorded_at := ee_recorded_at e\<rparr> = e"
    using assms(1)
    by (cases e) (clarsimp simp: parse_workflow_epoch_event_def epoch_event_to_dict_def result_simps get_Cons
        parse_receipts_same parse_candidate_same epoch_cause_enum.enum_value_iff cause_value_inject optional_text)
  then show ?thesis using rec by (cases p) simp
qed


lemma epoch_artifact_from_value_result:
  assumes "epoch_artifact_from_value e = Inr a"
  shows "wf_epoch_artifact a" "snd a = e"
proof -
  obtain p i where p: "parse_workflow_epoch_event (epoch_event_to_dict e) = Inr p"
    "py_eq (epoch_event_to_dict p) (epoch_event_to_dict e)"
    "scheduler_identity WORKFLOW_EPOCH_EVENT (epoch_event_to_dict p) = Inr i" "a = (i, p)"
    using assms by (auto simp: epoch_artifact_from_value_def result_simps Let_def)
  have "p = e" by (rule parse_epoch_event_same[OF p(1,2)])
  then show "wf_epoch_artifact a" "snd a = e"
    using p epoch_event_form.parsed_form by (auto simp: wf_epoch_artifact_def)
qed

section \<open>Replayed heads\<close>

lemma replay_rows_snoc:
  "replay_rows ord heads (rows @ [row]) = bindR (replay_rows ord heads rows) (\<lambda>hs. replay_rows ord hs [row])"
  by (induction ord heads rows rule: replay_rows.induct) (auto simp: bindR_def split: sum.splits)

definition sound_head :: "nat \<Rightarrow> string \<Rightarrow> workflow_epoch_head \<Rightarrow> bool" where
  "sound_head n plan h = (epoch_reachable h \<and> eh_plan_id h = plan \<and> eh_epoch_sequence h \<le> int n \<and>
     (\<exists>a u. wf_epoch_artifact a \<and> projects u (snd a) \<and> h = head_of u a))"

definition sound_heads :: "nat \<Rightarrow> heads \<Rightarrow> bool" where
  "sound_heads n heads = (distinct (map fst heads) \<and> (\<forall>(plan, h) \<in> set heads. sound_head n plan h))"

lemma reduce_sound:
  assumes "iteration_order ord" and "wf_epoch_artifact a" and "sound_heads n heads"
    and "reduce_workflow_event ord (map_of heads (ee_plan_id (snd a))) a = Inr h"
  shows "sound_head (Suc n) (ee_plan_id (snd a)) h"
proof -
  let ?prior = "map_of heads (ee_plan_id (snd a))"
  have "\<exists>u. projects u (snd a) \<and> h = head_of u a"
    using assms(4) by (auto simp: reduce_workflow_event_def result_simps)
  then have shape: "\<exists>a' u. wf_epoch_artifact a' \<and> projects u (snd a') \<and> h = head_of u a'"
    using assms(2) by blast
  have plan: "eh_plan_id h = ee_plan_id (snd a)" using assms(4) by (auto simp: reduce_workflow_event_def result_simps)
  show ?thesis
  proof (cases ?prior)
    case None
    then have root: "epoch_root a h"
      using assms(2,4) by (auto simp: epoch_root.simps reduce_workflow_event_def epoch_update_def)
    have "eh_epoch_sequence h \<le> int (Suc n)" using root_invariant(3)[OF root] by simp
    then show ?thesis using reachable_root[OF root] shape plan unfolding sound_head_def by blast
  next
    case (Some h0)
    then have "sound_head n (ee_plan_id (snd a)) h0"
      using assms(3) by (auto simp: sound_heads_def dest!: map_of_SomeD)
    moreover have step: "epoch_step h0 a h" using assms Some by (auto intro: epoch_step.intros)
    ultimately have "epoch_reachable h" "eh_epoch_sequence h \<le> int (Suc n)"
      using reachable_step[OF _ step] step_facts(3)[OF step] unfolding sound_head_def by simp_all
    then show ?thesis using shape plan unfolding sound_head_def by blast
  qed
qed

lemma sound_head_mono: "sound_head n p h \<Longrightarrow> n \<le> n' \<Longrightarrow> sound_head n' p h"
  by (auto simp: sound_head_def)

lemma upsert_sound:
  "sound_heads n heads \<Longrightarrow> sound_head (Suc n) p h \<Longrightarrow> sound_heads (Suc n) (upsert p h heads)"
  by (auto simp: sound_heads_def upsert_distinct upsert_members intro: sound_head_mono)

lemma replay_rows_sound:
  "iteration_order ord \<Longrightarrow> replay_rows ord heads rows = Inr heads' \<Longrightarrow> sound_heads n heads \<Longrightarrow>
    sound_heads (n + length rows) heads'"
proof (induction rows arbitrary: heads n)
  case (Cons row rows)
  then obtain a h where a: "parse_epoch_artifact (rw_artifact row) = Inr a"
    "reduce_workflow_event ord (map_of heads (ee_plan_id (snd a))) a = Inr h"
    "replay_rows ord (upsert (ee_plan_id (snd a)) h heads) rows = Inr heads'" by (auto simp: result_simps)
  have "wf_epoch_artifact a" using a(1) epoch_artifact_form.parsed_form by blast
  then have "sound_heads (Suc n) (upsert (ee_plan_id (snd a)) h heads)"
    using Cons.prems a(2) by (intro upsert_sound reduce_sound)
  then show ?case using Cons.IH[OF Cons.prems(1) a(3)] by fastforce
qed simp

lemma store_replay_sound:
  "iteration_order ord \<Longrightarrow> replay_workflow_epochs ord rows = Inr heads \<Longrightarrow> sound_heads (length rows) heads"
  using replay_rows_sound[of ord "[]" rows heads 0]
  by (auto simp: replay_workflow_epochs_def result_simps sound_heads_def)

section \<open>An append replays to the head it returns\<close>

lemma row_of_agrees: "row_agrees (row_of a) a"
  by (simp add: row_agrees_def row_of_def Let_def)

lemma fold_max_upto: "fold max (map int [Suc 0..<Suc n]) 0 = int n"
  by (induction n) (auto simp: max_def)

lemma next_sequence_contiguous:
  "map rw_sequence (ws_rows s) = map int [1..<Suc (length (ws_rows s))] \<Longrightarrow>
    next_sequence s = int (Suc (length (ws_rows s)))"
  by (simp add: next_sequence_def fold_max_upto del: upt_Suc)

lemma replay_append:
  assumes "replay_workflow_epochs ord rows = Inr heads" and "wf_epoch_artifact a"
    and "ee_sequence (snd a) = int (Suc (length rows))"
    and "reduce_workflow_event ord (map_of heads (ee_plan_id (snd a))) a = Inr h"
  shows "replay_workflow_epochs ord (rows @ [row_of a]) = Inr (upsert (ee_plan_id (snd a)) h heads)"
proof -
  have seq: "map rw_sequence rows = map int [1..<Suc (length rows)]" and rep: "replay_rows ord [] rows = Inr heads"
    using assms(1) by (auto simp: replay_workflow_epochs_def result_simps)
  have "rw_sequence (row_of a) = int (Suc (length rows))" using assms(3) by (simp add: row_of_def Let_def)
  then have "map rw_sequence (rows @ [row_of a]) = map int [1..<Suc (length (rows @ [row_of a]))]"
    using seq by simp
  moreover have "rw_artifact (row_of a) = epoch_artifact_to_dict a" by (simp add: row_of_def Let_def)
  then have "replay_rows ord heads [row_of a] = Inr (upsert (ee_plan_id (snd a)) h heads)"
    using assms(2,4) by (simp add: epoch_artifact_form.parse_form row_of_agrees)
  ultimately show ?thesis using rep unfolding replay_workflow_epochs_def replay_rows_snoc by simp
qed

lemma reduce_plan: "reduce_workflow_event ord prior a = Inr h \<Longrightarrow> eh_plan_id h = ee_plan_id (snd a)"
  by (auto simp: reduce_workflow_event_def result_simps)

lemma append_result:
  assumes "append_workflow_event ord s cause q recorded predecessor = Inr (s', h)"
    and "replay_workflow_epochs ord (ws_rows s) = Inr heads"
  obtains a row where "wf_epoch_artifact a"
    "snd a = next_event (map_of heads (wq_plan_id q)) (next_sequence s) cause q recorded predecessor"
    "reduce_workflow_event ord (map_of heads (wq_plan_id q)) a = Inr h"
    "head_row_of h = Inr row" "eh_plan_id h = wq_plan_id q"
    "s' = s\<lparr>ws_rows := ws_rows s @ [row_of a], ws_heads := upsert (wq_plan_id q) row (ws_heads s)\<rparr>"
    "replay_workflow_epochs ord (ws_rows s') = Inr (upsert (wq_plan_id q) h heads)"
proof -
  obtain a row where a: "epoch_artifact_from_value
      (next_event (map_of heads (wq_plan_id q)) (next_sequence s) cause q recorded predecessor) = Inr a"
    and red: "reduce_workflow_event ord (map_of heads (wq_plan_id q)) a = Inr h" and row: "head_row_of h = Inr row"
    and s': "s' = s\<lparr>ws_rows := ws_rows s @ [row_of a], ws_heads := upsert (eh_plan_id h) row (ws_heads s)\<rparr>"
    using assms by (auto simp: append_workflow_event_def workflow_head_def result_simps)
  note w = epoch_artifact_from_value_result[OF a]
  have plan: "ee_plan_id (snd a) = wq_plan_id q"
    by (simp add: w(2) next_event_def Let_def split: prod.splits)
  have "ee_sequence (snd a) = int (Suc (length (ws_rows s)))"
    using assms(2) next_sequence_contiguous[of s]
    by (auto simp: w(2) next_event_def Let_def replay_workflow_epochs_def result_simps split: prod.splits)
  then have "replay_workflow_epochs ord (ws_rows s @ [row_of a]) = Inr (upsert (wq_plan_id q) h heads)"
    using replay_append[OF assms(2) w(1)] red plan by simp
  then show ?thesis using that[OF w(1) w(2) red row] s' reduce_plan[OF red] plan by simp
qed

end
