(* ===== verification/StoreSafety.thy ===== *)
theory StoreSafety
  imports StoreReplay
begin

text \<open>
  One successful operation of the workflow authority: what it can change, the receipts it keeps, and
  the exclusion a pending terminal reservation enforces.
\<close>

section \<open>Calls of the store\<close>

datatype workflow_call =
    OpenEpoch workflow_request string string string string predecessor
  | ReserveTransition workflow_request string "string \<times> string" "string \<times> string" string
  | ReserveTerminal workflow_request string "string \<times> string" "string \<times> string" "string \<times> string" string
  | ConfirmArtifact string string string string string string "string option" "string option"
  | ConfirmTerminal string string string string "string option"

fun perform :: "set_order \<Rightarrow> workflow_call \<Rightarrow> workflow_store \<Rightarrow> (workflow_store \<times> workflow_epoch_head) result" where
  "perform ord (OpenEpoch q i ty path t pre) s = open_workflow_epoch ord s q i ty path t pre"
| "perform ord (ReserveTransition q expected event state t) s =
     reserve_workflow_transition ord s q expected event state t"
| "perform ord (ReserveTerminal q expected event state closing t) s =
     reserve_workflow_terminal ord s q expected event state closing t"
| "perform ord (ConfirmArtifact plan expected i path key t ty producer) s =
     confirm_workflow_artifact ord s plan expected i path key t ty producer"
| "perform ord (ConfirmTerminal plan expected key t producer) s =
     confirm_workflow_terminal ord s plan expected key t producer"

fun call_plan :: "workflow_call \<Rightarrow> string" where
  "call_plan (OpenEpoch q i ty path t pre) = wq_plan_id q"
| "call_plan (ReserveTransition q expected event state t) = wq_plan_id q"
| "call_plan (ReserveTerminal q expected event state closing t) = wq_plan_id q"
| "call_plan (ConfirmArtifact plan expected i path key t ty producer) = plan"
| "call_plan (ConfirmTerminal plan expected key t producer) = plan"

lemma transaction_result: "workflow_transaction ord allow s body = Inr (s', h) \<longleftrightarrow>
    validate_store ord s = Inr () \<and> (allow \<or> \<not> pending_row s) \<and> body s = Inr (s', h) \<and>
    validate_store ord s' = Inr ()"
  by (auto simp: workflow_transaction_def result_simps)

lemma workflow_head_iff: "workflow_head ord s plan = Inr x \<longleftrightarrow>
    (\<exists>heads. replay_workflow_epochs ord (ws_rows s) = Inr heads \<and> x = map_of heads plan)"
  by (auto simp: workflow_head_def result_simps)

lemma required_head_iff: "required_workflow_head ord s plan = Inr h \<longleftrightarrow>
    (\<exists>heads. replay_workflow_epochs ord (ws_rows s) = Inr heads \<and> map_of heads plan = Some h)"
  by (auto simp: required_workflow_head_def workflow_head_iff result_simps split: option.splits)

lemma scope_iff: "require_pending_terminal_scope ord s plan = Inr u \<longleftrightarrow>
    (\<exists>heads. replay_workflow_epochs ord (ws_rows s) = Inr heads \<and>
       (pending_terminals heads = [] \<or> (\<exists>p. pending_terminals heads = [p] \<and> eh_plan_id p = plan)))"
  by (auto simp: require_pending_terminal_scope_def result_simps Let_def length_Suc_conv)

text \<open>The five operations, read as what holds when they succeed.\<close>

lemma open_result: "open_workflow_epoch ord s q0 i ty path t pre = Inr (s', h) \<longleftrightarrow>
    (\<exists>recorded heads. workflow_timestamp t = Inr recorded \<and> validate_store ord s = Inr () \<and>
       validate_store ord s' = Inr () \<and> \<not> pending_row s \<and>
       replay_workflow_epochs ord (ws_rows s) = Inr heads \<and>
       (case map_of heads (wq_plan_id q0) of
          Some h0 \<Rightarrow> same_workflow_request h0 (open_request q0 i ty path) \<and> head_predecessor h0 = pre \<and>
            s' = s \<and> h = h0
        | None \<Rightarrow> require_scheduler_head s (open_request q0 i ty path) = Inr () \<and>
            append_workflow_event ord s EPOCH_OPENED (open_request q0 i ty path) recorded pre = Inr (s', h)))"
proof -
  have plan: "wq_plan_id (open_request q0 i ty path) = wq_plan_id q0" by (simp add: open_request_def)
  show ?thesis
  proof (cases "replay_workflow_epochs ord (ws_rows s)")
    case (Inr heads)
    then show ?thesis
      by (cases "map_of heads (wq_plan_id q0)")
        (auto simp: open_workflow_epoch_def Let_def bindR_eq_Inr transaction_result workflow_head_def plan)
  qed (auto simp: open_workflow_epoch_def Let_def bindR_eq_Inr transaction_result workflow_head_def)
qed

lemma reserve_result: "reserve_workflow_change ord s cause guard q expected t = Inr (s', h) \<longleftrightarrow>
    (\<exists>recorded heads h0. workflow_timestamp t = Inr recorded \<and> validate_store ord s = Inr () \<and>
       validate_store ord s' = Inr () \<and> replay_workflow_epochs ord (ws_rows s) = Inr heads \<and>
       (pending_terminals heads = [] \<or> (\<exists>p. pending_terminals heads = [p] \<and> eh_plan_id p = wq_plan_id q \<and>
         cause = TERMINAL_RESERVATION)) \<and>
       map_of heads (wq_plan_id q) = Some h0 \<and>
       (if already_reserved cause h0 q recorded then s' = s \<and> h = h0
        else eh_phase h0 \<in> guard \<and> eh_current_event_head_id h0 = expected \<and>
          require_scheduler_head s (head_authority h0 q) = Inr () \<and>
          (\<exists>merged. merge_workflow_receipts (eh_receipts h0) (wq_receipts q) = Inr merged \<and>
             append_workflow_event ord s cause ((head_authority h0 q)\<lparr>wq_receipts := merged\<rparr>) recorded
               none_predecessor = Inr (s', h))))"
proof -
  have single: "length ps = Suc 0 \<and> eh_plan_id (hd ps) = x \<longleftrightarrow> (\<exists>p. ps = [p] \<and> eh_plan_id p = x)"
    for ps x by (cases ps) auto
  show ?thesis
  proof (cases "replay_workflow_epochs ord (ws_rows s)")
    case (Inr heads)
    show ?thesis
    proof (cases "map_of heads (wq_plan_id q)")
      case None
      then show ?thesis using Inr
        by (simp add: reserve_workflow_change_def Let_def bindR_eq_Inr transaction_result
            required_workflow_head_def workflow_head_def)
    next
      case (Some h0)
      then show ?thesis using Inr
        by (cases "workflow_timestamp t"; cases "already_reserved cause h0 q (projr (workflow_timestamp t))")
          (simp_all add: reserve_workflow_change_def Let_def bindR_eq_Inr require_eq_Inr transaction_result
            required_workflow_head_def workflow_head_def conj_ac single[simplified conj_ac], blast+)
    qed
  qed (simp add: reserve_workflow_change_def Let_def bindR_eq_Inr transaction_result)
qed

definition receipt_accepted ::
  "workflow_epoch_head \<Rightarrow> workflow_receipt \<Rightarrow> string option \<Rightarrow> string option \<Rightarrow> string \<Rightarrow> bool" where
  "receipt_accepted h m ty producer key = (\<not> ((case ty of None \<Rightarrow> False | Some t \<Rightarrow> rc_type m \<noteq> t) \<or>
     (case producer of None \<Rightarrow> False | Some p \<Rightarrow> rc_producer m \<noteq> p) \<or> eh_idempotency_key h \<noteq> key))"

lemma confirm_result: "confirm_workflow_artifact ord s plan expected i path key t ty producer = Inr (s', h) \<longleftrightarrow>
    (\<exists>recorded heads h0 m. workflow_timestamp t = Inr recorded \<and> validate_store ord s = Inr () \<and>
       validate_store ord s' = Inr () \<and> replay_workflow_epochs ord (ws_rows s) = Inr heads \<and>
       (pending_terminals heads = [] \<or> (\<exists>p. pending_terminals heads = [p] \<and> eh_plan_id p = plan)) \<and>
       map_of heads plan = Some h0 \<and> find (matches_receipt i path) (eh_receipts h0) = Some m \<and>
       receipt_accepted h0 m ty producer key \<and>
       (if rc_status m = CONFIRMED then s' = s \<and> h = h0
        else eh_current_event_head_id h0 = expected \<and> require_unchanged_scheduler_head s h0 = Inr () \<and>
          append_workflow_event ord s ARTIFACT_PUBLICATION_CONFIRMED
            (head_request h0 (ordered_workflow_receipts (confirm_receipts i path (eh_receipts h0))))
            recorded none_predecessor = Inr (s', h)))"
proof (cases "replay_workflow_epochs ord (ws_rows s)")
  case (Inr heads)
  show ?thesis
  proof (cases "map_of heads plan")
    case None
    then show ?thesis using Inr
      by (simp add: confirm_workflow_artifact_def Let_def bindR_eq_Inr transaction_result required_workflow_head_def workflow_head_def)
  next
    case (Some h0)
    then show ?thesis using Inr
      by (cases "find (matches_receipt i path) (eh_receipts h0)")
        (auto simp: confirm_workflow_artifact_def Let_def bindR_eq_Inr require_eq_Inr transaction_result scope_iff
          required_workflow_head_def workflow_head_def receipt_accepted_def)
  qed
qed (simp add: confirm_workflow_artifact_def Let_def bindR_eq_Inr transaction_result required_workflow_head_def workflow_head_def)

definition terminal_accepted ::
  "workflow_epoch_head \<Rightarrow> string \<Rightarrow> string \<Rightarrow> string option \<Rightarrow> bool" where
  "terminal_accepted h key recorded producer = (eh_idempotency_key h = key \<and> eh_terminal_at h = Some recorded \<and>
     (case producer of None \<Rightarrow> True | Some p \<Rightarrow> eh_producer h = p))"

lemma closed_result: "confirm_workflow_terminal ord s plan expected key t producer = Inr (s', h) \<longleftrightarrow>
    (\<exists>recorded heads h0. workflow_timestamp t = Inr recorded \<and> validate_store ord s = Inr () \<and>
       validate_store ord s' = Inr () \<and> replay_workflow_epochs ord (ws_rows s) = Inr heads \<and>
       (pending_terminals heads = [] \<or> (\<exists>p. pending_terminals heads = [p] \<and> eh_plan_id p = plan)) \<and>
       map_of heads plan = Some h0 \<and> terminal_accepted h0 key recorded producer \<and>
       (if eh_phase h0 = TERMINAL_CONFIRMED then s' = s \<and> h = h0
        else eh_phase h0 = TERMINAL_RESERVED \<and> eh_current_event_head_id h0 = expected \<and> all_confirmed h0 \<and>
          require_unchanged_scheduler_head s h0 = Inr () \<and>
          append_workflow_event ord s TERMINAL_CONFIRMATION (head_request h0 (eh_receipts h0)) recorded
            none_predecessor = Inr (s', h)))"
proof (cases "replay_workflow_epochs ord (ws_rows s)")
  case (Inr heads)
  show ?thesis
  proof (cases "map_of heads plan")
    case None
    then show ?thesis using Inr
      by (simp add: confirm_workflow_terminal_def Let_def bindR_eq_Inr transaction_result required_workflow_head_def workflow_head_def)
  next
    case (Some h0)
    then show ?thesis using Inr
      by (cases "eh_phase h0 = TERMINAL_CONFIRMED")
        (auto simp: confirm_workflow_terminal_def Let_def bindR_eq_Inr require_eq_Inr transaction_result scope_iff
          required_workflow_head_def workflow_head_def terminal_accepted_def all_confirmed_def list_ex_iff
          split: option.splits)
  qed
qed (simp add: confirm_workflow_terminal_def Let_def bindR_eq_Inr transaction_result required_workflow_head_def workflow_head_def)

section \<open>Merged receipts\<close>

lemma distinct_map_sort_key: "distinct (map f xs) \<Longrightarrow> distinct (map f (sort_key g xs))"
  by (simp add: distinct_map)

lemma fold_upsert:
  "distinct (map f rs) \<Longrightarrow> distinct (map fst xs) \<Longrightarrow> f ` set rs \<inter> fst ` set xs = {} \<Longrightarrow>
    set (fold (\<lambda>r. upsert (f r) r) rs xs) = set xs \<union> (\<lambda>r. (f r, r)) ` set rs \<and>
    distinct (map fst (fold (\<lambda>r. upsert (f r) r) rs xs))"
proof (induction rs arbitrary: xs)
  case (Cons r rs)
  have "distinct (map f rs)" "f ` set rs \<inter> fst ` set (upsert (f r) r xs) = {}" "f r \<notin> fst ` set xs"
    using Cons.prems by auto
  moreover have "set (upsert (f r) r xs) = insert (f r, r) (set xs)"
    using upsert_members[OF Cons.prems(2), of "f r" r] calculation(3) by force
  ultimately show ?case using Cons.IH[of "upsert (f r) r xs"] upsert_distinct[OF Cons.prems(2)] by auto
qed simp

lemma dict_of_members:
  "distinct (map f rs) \<Longrightarrow> set (dict_of f rs) = (\<lambda>r. (f r, r)) ` set rs \<and> distinct (map fst (dict_of f rs))"
  using fold_upsert[of f rs "[]"] by (simp add: dict_of_def)

lemma merge_additions_facts:
  "merge_additions by_path by_id items = Inr rs \<Longrightarrow> distinct (map fst by_path) \<Longrightarrow>
    \<forall>(p, r) \<in> set by_path. p = casefold (rc_path r) \<Longrightarrow>
    snd ` set by_path \<subseteq> set rs \<and> receipt_key ` set items \<subseteq> receipt_key ` set rs \<and>
    set rs \<subseteq> snd ` set by_path \<union> set items \<and> distinct (map (casefold \<circ> rc_path) rs) \<and>
    ordered_workflow_receipts rs = rs"
proof (induction items arbitrary: by_path by_id)
  case Nil
  have eq: "map (casefold \<circ> rc_path) (map snd by_path) = map fst by_path"
    using Nil.prems(3) by (auto simp: case_prod_unfold)
  have "distinct (map (casefold \<circ> rc_path) (map snd by_path))" unfolding eq by (rule Nil.prems(2))
  then have "distinct (map (casefold \<circ> rc_path) (ordered_workflow_receipts (map snd by_path)))"
    unfolding ordered_workflow_receipts_def by (rule distinct_map_sort_key)
  moreover have "rs = ordered_workflow_receipts (map snd by_path)" using Nil.prems(1) by simp
  moreover have "ordered_workflow_receipts (ordered_workflow_receipts (map snd by_path)) =
      ordered_workflow_receipts (map snd by_path)"
    unfolding ordered_workflow_receipts_def by (rule sort_key_id_if_sorted) (rule sorted_sort_key)
  moreover have "set (ordered_workflow_receipts (map snd by_path)) = snd ` set by_path"
    by (simp add: ordered_workflow_receipts_def)
  ultimately show ?case by (simp add: comp_def)
next
  case (Cons item items)
  let ?p = "casefold (rc_path item)"
  show ?case
  proof (cases "map_of by_path ?p")
    case None
    then have fresh: "?p \<notin> fst ` set by_path" by (simp add: map_of_eq_None_iff)
    have mem: "set (upsert ?p item by_path) = insert (?p, item) (set by_path)"
      using upsert_members[OF Cons.prems(2), of ?p item] fresh by force
    have rest: "merge_additions (upsert ?p item by_path) (upsert (rc_id item) item by_id) items = Inr rs"
      using Cons.prems(1) None by (auto simp: result_simps Let_def split: option.splits)
    have "snd ` set (upsert ?p item by_path) \<subseteq> set rs \<and> receipt_key ` set items \<subseteq> receipt_key ` set rs \<and>
        set rs \<subseteq> snd ` set (upsert ?p item by_path) \<union> set items \<and> distinct (map (casefold \<circ> rc_path) rs) \<and>
        ordered_workflow_receipts rs = rs"
      using Cons.IH[OF rest] upsert_distinct[OF Cons.prems(2)] Cons.prems(3) mem by (auto simp: comp_def)
    then show ?thesis using mem by (auto simp: comp_def)
  next
    case (Some m)
    then have m: "rc_path m = rc_path item" "rc_id m = rc_id item" "rc_type m = rc_type item"
      "rc_producer m = rc_producer item" and rest: "merge_additions by_path by_id items = Inr rs"
      using Cons.prems(1) by (auto simp: result_simps Let_def split: option.splits)
    have rest_facts: "snd ` set by_path \<subseteq> set rs \<and> receipt_key ` set items \<subseteq> receipt_key ` set rs \<and>
        set rs \<subseteq> snd ` set by_path \<union> set items \<and> distinct (map (casefold \<circ> rc_path) rs) \<and>
        ordered_workflow_receipts rs = rs"
      using Cons.IH[OF rest] Cons.prems(2,3) by (auto simp: comp_def)
    then have "snd ` set by_path \<subseteq> set rs" by blast
    moreover have "m \<in> snd ` set by_path" using map_of_SomeD[OF Some] by force
    moreover have "receipt_key m = receipt_key item" using m by (simp add: receipt_key_def)
    ultimately have "receipt_key item \<in> receipt_key ` set rs" by (metis image_eqI subsetD)
    then show ?thesis using rest_facts by (auto simp: comp_def)
  qed
qed

lemma merge_facts:
  assumes "merge_workflow_receipts existing additions = Inr rs" and "distinct (map (casefold \<circ> rc_path) existing)"
  shows "set existing \<subseteq> set rs" "receipt_key ` set additions \<subseteq> receipt_key ` set rs"
    "set rs \<subseteq> set existing \<union> set additions" "distinct (map (casefold \<circ> rc_path) rs)"
    "ordered_workflow_receipts rs = rs"
proof -
  note d = dict_of_members[OF assms(2)]
  have "snd ` set (dict_of (casefold \<circ> rc_path) existing) = set existing" using d by (simp add: image_image)
  moreover have "\<forall>(p, r) \<in> set (dict_of (casefold \<circ> rc_path) existing). p = casefold (rc_path r)" using d by auto
  ultimately show "set existing \<subseteq> set rs" "receipt_key ` set additions \<subseteq> receipt_key ` set rs"
    "set rs \<subseteq> set existing \<union> set additions" "distinct (map (casefold \<circ> rc_path) rs)"
    "ordered_workflow_receipts rs = rs"
    using merge_additions_facts[OF assms(1)[unfolded merge_workflow_receipts_def]] d by simp_all
qed

section \<open>What a successful call did\<close>

lemma head_receipts_distinct:
  assumes "iteration_order ord" and "replay_workflow_epochs ord rows = Inr heads" and "map_of heads plan = Some h"
  shows "sound_head (length rows) plan h" "epoch_invariant h" "distinct (map (casefold \<circ> rc_path) (eh_receipts h))"
proof -
  have "(plan, h) \<in> set heads" using assms(3) by (rule map_of_SomeD)
  then show "sound_head (length rows) plan h"
    using store_replay_sound[OF assms(1,2)] by (auto simp: sound_heads_def)
  then show "epoch_invariant h" using reachable_invariant by (simp add: sound_head_def)
  then show "distinct (map (casefold \<circ> rc_path) (eh_receipts h))"
    by (simp add: epoch_invariant_def wf_receipts_paths)
qed

text \<open>Either the call found its work done, or it appended one event that keeps every confirmation.\<close>

definition keeps_confirmed :: "workflow_epoch_head option \<Rightarrow> workflow_receipt list \<Rightarrow> bool" where
  "keeps_confirmed prior rs = (case prior of None \<Rightarrow> True
     | Some h \<Rightarrow> \<forall>r \<in> set (eh_receipts h). rc_status r = CONFIRMED \<longrightarrow> r \<in> set rs)"

definition call_scope :: "heads \<Rightarrow> string \<Rightarrow> bool" where
  "call_scope heads plan = (pending_terminals heads = [] \<or>
     (\<exists>p. pending_terminals heads = [p] \<and> eh_plan_id p = plan))"

lemma projection_pending:
  assumes "validate_workflow_epoch_projection ord s = Inr ()" and "replay_workflow_epochs ord (ws_rows s) = Inr heads"
    and "distinct (map fst heads)"
  shows "pending_row s \<longleftrightarrow> pending_terminals heads \<noteq> []"
proof -
  let ?rows = "sort_key fst (ws_heads s)"
  have keys: "map fst ?rows = sort (map fst heads)"
    and "\<exists>us. mapR (\<lambda>(plan, row). bindR (head_row_of (the (map_of heads plan))) (\<lambda>wanted.
       require (row = wanted) (SchedulerAdapterError ProjectionMismatch))) ?rows = Inr us"
    using assms(1,2) by (auto simp: validate_workflow_epoch_projection_def result_simps Let_def)
  then have each: "head_row_of (the (map_of heads plan)) = Inr row" if "(plan, row) \<in> set ?rows" for plan row
    using list_all2_set1[where x = "(plan, row)"] that by (fastforce simp: mapR_eq_Inr result_simps)
  have phase: "hr_phase row = epoch_phase_value (eh_phase (the (map_of heads plan)))"
    if "(plan, row) \<in> set ?rows" for plan row
    using each[OF that] by (auto simp: head_row_of_def result_simps)
  have dom: "fst ` set ?rows = fst ` set heads" using keys by (metis list.set_map set_sort)
  have entry: "the (map_of heads (fst e)) = snd e" if "e \<in> set heads" for e
    using map_of_is_SomeI[OF assms(3), of "fst e" "snd e"] that by simp
  have "pending_row s \<longleftrightarrow> (\<exists>(plan, row) \<in> set ?rows. hr_phase row = epoch_phase_value TERMINAL_RESERVED)"
    by (auto simp: pending_row_def list_ex_iff)
  also have "\<dots> \<longleftrightarrow> (\<exists>(plan, row) \<in> set ?rows. eh_phase (the (map_of heads plan)) = TERMINAL_RESERVED)"
    by (rule bex_cong) (auto simp: phase epoch_phase_enum.val_inject)
  also have "\<dots> \<longleftrightarrow> (\<exists>plan \<in> fst ` set ?rows. eh_phase (the (map_of heads plan)) = TERMINAL_RESERVED)"
    by (simp add: case_prod_unfold)
  also have "\<dots> \<longleftrightarrow> (\<exists>e \<in> set heads. eh_phase (the (map_of heads (fst e))) = TERMINAL_RESERVED)"
    unfolding dom by simp
  also have "\<dots> \<longleftrightarrow> (\<exists>e \<in> set heads. eh_phase (snd e) = TERMINAL_RESERVED)"
    by (rule bex_cong) (simp_all only: entry)
  also have "\<dots> \<longleftrightarrow> pending_terminals heads \<noteq> []" by (auto simp: pending_terminals_def filter_empty_conv)
  finally show ?thesis .
qed

definition call_result ::
  "set_order \<Rightarrow> workflow_store \<Rightarrow> string \<Rightarrow> heads \<Rightarrow> workflow_store \<Rightarrow> workflow_epoch_head \<Rightarrow> bool" where
  "call_result ord s plan heads s' h = (replay_workflow_epochs ord (ws_rows s) = Inr heads \<and>
     validate_store ord s = Inr () \<and> validate_store ord s' = Inr () \<and> call_scope heads plan \<and>
     (s' = s \<and> map_of heads plan = Some h \<or>
      (\<exists>cause q recorded pre. append_workflow_event ord s cause q recorded pre = Inr (s', h) \<and>
         wq_plan_id q = plan \<and> keeps_confirmed (map_of heads plan) (wq_receipts q))))"

lemma reserve_call:
  assumes "reserve_workflow_change ord s cause guard q expected t = Inr (s', h)" and ord: "iteration_order ord"
  shows "\<exists>heads. call_result ord s (wq_plan_id q) heads s' h"
proof -
  obtain recorded heads h0 where v: "validate_store ord s = Inr ()" "validate_store ord s' = Inr ()"
    and rep: "replay_workflow_epochs ord (ws_rows s) = Inr heads"
    and scope: "pending_terminals heads = [] \<or> (\<exists>p. pending_terminals heads = [p] \<and>
      eh_plan_id p = wq_plan_id q \<and> cause = TERMINAL_RESERVATION)" and h0: "map_of heads (wq_plan_id q) = Some h0"
    and did: "if already_reserved cause h0 q recorded then s' = s \<and> h = h0 else
      eh_phase h0 \<in> guard \<and> eh_current_event_head_id h0 = expected \<and>
      require_scheduler_head s (head_authority h0 q) = Inr () \<and> (\<exists>merged. merge_workflow_receipts (eh_receipts h0) (wq_receipts q) = Inr merged \<and>
         append_workflow_event ord s cause ((head_authority h0 q)\<lparr>wq_receipts := merged\<rparr>) recorded
           none_predecessor = Inr (s', h))"
    using iffD1[OF reserve_result assms(1)] by blast
  have sc: "call_scope heads (wq_plan_id q)" using scope by (auto simp: call_scope_def)
  show ?thesis
  proof (cases "already_reserved cause h0 q recorded")
    case True
    then show ?thesis using did v rep sc h0 unfolding call_result_def by auto
  next
    case False
    then obtain merged where m: "merge_workflow_receipts (eh_receipts h0) (wq_receipts q) = Inr merged"
      "append_workflow_event ord s cause ((head_authority h0 q)\<lparr>wq_receipts := merged\<rparr>) recorded
         none_predecessor = Inr (s', h)" using did by auto
    have "keeps_confirmed (map_of heads (wq_plan_id q)) merged"
      using merge_facts(1)[OF m(1) head_receipts_distinct(3)[OF ord rep h0]] h0 by (auto simp: keeps_confirmed_def)
    then have "wq_plan_id ((head_authority h0 q)\<lparr>wq_receipts := merged\<rparr>) = wq_plan_id q \<and>
        keeps_confirmed (map_of heads (wq_plan_id q)) (wq_receipts ((head_authority h0 q)\<lparr>wq_receipts := merged\<rparr>))"
      by (simp add: head_authority_def)
    then show ?thesis using m(2) v rep sc unfolding call_result_def by blast
  qed
qed

lemma head_plan:
  "iteration_order ord \<Longrightarrow> replay_workflow_epochs ord rows = Inr heads \<Longrightarrow> map_of heads plan = Some h \<Longrightarrow>
    eh_plan_id h = plan"
  using head_receipts_distinct(1) by (auto simp: sound_head_def)

lemma open_call:
  assumes "open_workflow_epoch ord s q i ty path t pre = Inr (s', h)" and ord: "iteration_order ord"
  shows "\<exists>heads. call_result ord s (wq_plan_id q) heads s' h"
proof -
  obtain recorded heads where v: "validate_store ord s = Inr ()" "validate_store ord s' = Inr ()"
    and np: "\<not> pending_row s" and rep: "replay_workflow_epochs ord (ws_rows s) = Inr heads"
    and did: "case map_of heads (wq_plan_id q) of
        Some h0 \<Rightarrow> same_workflow_request h0 (open_request q i ty path) \<and> head_predecessor h0 = pre \<and> s' = s \<and> h = h0
      | None \<Rightarrow> require_scheduler_head s (open_request q i ty path) = Inr () \<and> append_workflow_event ord s EPOCH_OPENED (open_request q i ty path) recorded pre = Inr (s', h)"
    using iffD1[OF open_result assms(1)] by blast
  have "distinct (map fst heads)" using store_replay_sound[OF ord rep] by (simp add: sound_heads_def)
  then have sc: "call_scope heads (wq_plan_id q)"
    using projection_pending[OF _ rep] v(1) np by (auto simp: call_scope_def validate_store_def result_simps)
  have plan: "wq_plan_id (open_request q i ty path) = wq_plan_id q" by (simp add: open_request_def)
  show ?thesis
  proof (cases "map_of heads (wq_plan_id q)")
    case None
    then have "keeps_confirmed (map_of heads (wq_plan_id q)) (wq_receipts (open_request q i ty path))"
      by (simp add: keeps_confirmed_def)
    moreover have "append_workflow_event ord s EPOCH_OPENED (open_request q i ty path) recorded pre = Inr (s', h)"
      using did None by simp
    ultimately show ?thesis using v rep sc plan unfolding call_result_def by blast
  qed (use did v rep sc in \<open>auto simp: call_result_def\<close>)
qed

lemma confirm_call:
  assumes "confirm_workflow_artifact ord s plan expected i path key t ty producer = Inr (s', h)"
    and ord: "iteration_order ord"
  shows "\<exists>heads. call_result ord s plan heads s' h"
proof -
  obtain recorded heads h0 m where v: "validate_store ord s = Inr ()" "validate_store ord s' = Inr ()"
    and rep: "replay_workflow_epochs ord (ws_rows s) = Inr heads" 
    and pend: "pending_terminals heads = [] \<or> (\<exists>p. pending_terminals heads = [p] \<and> eh_plan_id p = plan)"
    and h0: "map_of heads plan = Some h0" and "find (matches_receipt i path) (eh_receipts h0) = Some m"
    and did: "if rc_status m = CONFIRMED then s' = s \<and> h = h0 else
      eh_current_event_head_id h0 = expected \<and> require_unchanged_scheduler_head s h0 = Inr () \<and> append_workflow_event ord s ARTIFACT_PUBLICATION_CONFIRMED
        (head_request h0 (ordered_workflow_receipts (confirm_receipts i path (eh_receipts h0))))
        recorded none_predecessor = Inr (s', h)"
    using iffD1[OF confirm_result assms(1)] by blast
  have sc: "call_scope heads plan" using pend by (simp add: call_scope_def)
  have "r \<in> set (confirm_receipts i path (eh_receipts h0))" if "r \<in> set (eh_receipts h0)" "rc_status r = CONFIRMED" for r
  proof -
    have "r = (if matches_receipt i path r then r\<lparr>rc_status := CONFIRMED\<rparr> else r)" using that(2) by simp
    then show ?thesis using that(1) unfolding confirm_receipts_def set_map by (rule image_eqI)
  qed
  then have "keeps_confirmed (map_of heads plan) (wq_receipts (head_request h0
      (ordered_workflow_receipts (confirm_receipts i path (eh_receipts h0)))))"
    using h0 by (simp add: keeps_confirmed_def head_request_def ordered_workflow_receipts_def)
  moreover have "wq_plan_id (head_request h0 rs) = plan" for rs
    using head_plan[OF ord rep h0] by (simp add: head_request_def)
  ultimately show ?thesis using did v rep sc h0 unfolding call_result_def by (metis (full_types))
qed

lemma closed_call:
  assumes "confirm_workflow_terminal ord s plan expected key t producer = Inr (s', h)" and ord: "iteration_order ord"
  shows "\<exists>heads. call_result ord s plan heads s' h"
proof -
  obtain recorded heads h0 where v: "validate_store ord s = Inr ()" "validate_store ord s' = Inr ()"
    and rep: "replay_workflow_epochs ord (ws_rows s) = Inr heads" 
    and pend: "pending_terminals heads = [] \<or> (\<exists>p. pending_terminals heads = [p] \<and> eh_plan_id p = plan)"
    and h0: "map_of heads plan = Some h0"
    and did: "if eh_phase h0 = TERMINAL_CONFIRMED then s' = s \<and> h = h0 else
      eh_phase h0 = TERMINAL_RESERVED \<and> eh_current_event_head_id h0 = expected \<and> all_confirmed h0 \<and>
      require_unchanged_scheduler_head s h0 = Inr () \<and> append_workflow_event ord s TERMINAL_CONFIRMATION (head_request h0 (eh_receipts h0)) recorded
        none_predecessor = Inr (s', h)"
    using iffD1[OF closed_result assms(1)] by (elim exE conjE) (rule that)
  have sc: "call_scope heads plan" using pend by (simp add: call_scope_def)
  have "keeps_confirmed (map_of heads plan) (wq_receipts (head_request h0 (eh_receipts h0)))"
    "wq_plan_id (head_request h0 (eh_receipts h0)) = plan"
    using h0 head_plan[OF ord rep h0] by (simp_all add: keeps_confirmed_def head_request_def)
  then show ?thesis using did v rep sc h0 unfolding call_result_def by (metis (full_types))
qed

lemma perform_result:
  assumes "perform ord c s = Inr (s', h)" and "iteration_order ord"
  shows "\<exists>heads. call_result ord s (call_plan c) heads s' h"
proof (cases c)
  case (OpenEpoch q i ty path t pre)
  then show ?thesis using assms open_call by simp
next
  case (ReserveTransition q expected event state t)
  then show ?thesis using assms reserve_call by (fastforce simp: reserve_workflow_transition_def Let_def)
next
  case (ReserveTerminal q expected event state closing t)
  then show ?thesis using assms reserve_call by (fastforce simp: reserve_workflow_terminal_def Let_def)
next
  case (ConfirmArtifact plan expected i path key t ty producer)
  then show ?thesis using assms confirm_call by simp
next
  case (ConfirmTerminal plan expected key t producer)
  then show ?thesis using assms closed_call by simp
qed

text \<open>The effect of a call on the heads the log replays to.\<close>

lemma call_heads:
  assumes "call_result ord s plan heads s' h"
  obtains heads' where "replay_workflow_epochs ord (ws_rows s') = Inr heads'"
    "map_of heads' = (map_of heads)(plan \<mapsto> h)" "ws_authority s' = ws_authority s"
    "s' = s \<and> map_of heads plan = Some h \<and> heads' = heads \<or>
     (\<exists>a rs. wf_epoch_artifact a \<and> reduce_workflow_event ord (map_of heads plan) a = Inr h \<and>
        ws_rows s' = ws_rows s @ [row_of a] \<and> heads' = upsert plan h heads \<and>
        eh_receipts h = ordered_workflow_receipts rs \<and> keeps_confirmed (map_of heads plan) rs)"
proof -
  have rep: "replay_workflow_epochs ord (ws_rows s) = Inr heads" using assms by (simp add: call_result_def)
  consider "s' = s" "map_of heads plan = Some h"
    | cause q recorded pre where "append_workflow_event ord s cause q recorded pre = Inr (s', h)"
      "wq_plan_id q = plan" "keeps_confirmed (map_of heads plan) (wq_receipts q)"
    using assms unfolding call_result_def by blast
  then show thesis
  proof cases
    case 1
    then have "map_of heads = (map_of heads)(plan \<mapsto> h)" by (simp add: fun_upd_idem)
    then show thesis using that[of heads] rep 1 by simp
  next
    case 2
    from append_result[OF 2(1) rep] obtain a row where a: "wf_epoch_artifact a"
      "snd a = next_event (map_of heads plan) (next_sequence s) cause q recorded pre"
      "reduce_workflow_event ord (map_of heads plan) a = Inr h"
      "s' = s\<lparr>ws_rows := ws_rows s @ [row_of a], ws_heads := upsert plan row (ws_heads s)\<rparr>"
      "replay_workflow_epochs ord (ws_rows s') = Inr (upsert plan h heads)"
      unfolding 2(2) by metis
    have "eh_receipts h = ee_receipts (snd a)" using a(3) by (auto simp: reduce_workflow_event_def result_simps)
    then have "eh_receipts h = ordered_workflow_receipts (wq_receipts q)"
      by (simp add: a(2) next_event_def Let_def split: prod.splits)
    moreover have "ws_rows s' = ws_rows s @ [row_of a]" "ws_authority s' = ws_authority s" by (simp_all add: a(4))
    ultimately show thesis using that[OF a(5) map_of_upsert] a(1,3) 2(3) by blast
  qed
qed

lemma filter_upsert:
  "distinct (map fst xs) \<Longrightarrow> (\<And>k v. (k, v) \<in> set xs \<Longrightarrow> k \<noteq> key \<Longrightarrow> \<not> P v) \<Longrightarrow>
    filter P (map snd (upsert key x xs)) = (if P x then [x] else [])"
proof (induction xs)
  case (Cons e xs)
  obtain k v where e: "e = (k, v)" by (cases e)
  show ?case
  proof (cases "k = key")
    case True
    have "\<not> P w" if w: "w \<in> set (map snd xs)" for w
    proof -
      obtain k' where k': "(k', w) \<in> set xs" using w by auto
      then have "k' \<noteq> key" using Cons.prems(1) e True by force
      then show ?thesis using Cons.prems(2)[of k' w] k' by simp
    qed
    then have "filter P (map snd xs) = []" by (simp only: filter_empty_conv) blast
    then show ?thesis using e True by simp
  next
    case False
    then have "\<not> P v" using Cons.prems(2)[of k v] e by simp
    moreover have "filter P (map snd (upsert key x xs)) = (if P x then [x] else [])"
    proof (rule Cons.IH)
      show "distinct (map fst xs)" using Cons.prems(1) by simp
      show "\<not> P v'" if "(k', v') \<in> set xs" "k' \<noteq> key" for k' v'
        using Cons.prems(2)[of k' v'] that by simp
    qed
    ultimately show ?thesis using e False by simp
  qed
qed simp

lemma pending_upsert:
  assumes "iteration_order ord" and "replay_workflow_epochs ord rows = Inr heads" and "call_scope heads plan"
  shows "pending_terminals (upsert plan h heads) = (if eh_phase h = TERMINAL_RESERVED then [h] else [])"
proof -
  have sound: "distinct (map fst heads)" "\<forall>(k, v) \<in> set heads. eh_plan_id v = k"
    using store_replay_sound[OF assms(1,2)] by (auto simp: sound_heads_def sound_head_def)
  have "eh_phase v \<noteq> TERMINAL_RESERVED" if kv: "(k, v) \<in> set heads" "k \<noteq> plan" for k v
  proof
    assume "eh_phase v = TERMINAL_RESERVED"
    then have "v \<in> set (pending_terminals heads)" using kv(1) by (force simp: pending_terminals_def)
    then have "eh_plan_id v = plan" using assms(3) by (auto simp: call_scope_def)
    then show False using sound(2) kv by auto
  qed
  then show ?thesis unfolding pending_terminals_def by (intro filter_upsert sound(1))
qed

end
