(* ===== verification/StoreRetry.thy ===== *)
theory StoreRetry
  imports StoreSafety
begin

text \<open>
  Repeating a call: a call that succeeded is recognised when the caller repeats it, whatever head the
  caller still expects, and returns the same head without touching the store.
\<close>

section \<open>The head an append returns\<close>

lemma next_event_simps [simp]:
  "ee_plan_id (next_event prior n cause q t pre) = wq_plan_id q"
  "ee_cause (next_event prior n cause q t pre) = cause"
  "ee_candidate (next_event prior n cause q t pre) = wq_candidate q"
  "ee_graph_id (next_event prior n cause q t pre) = wq_graph_id q"
  "ee_scheduler_state_id (next_event prior n cause q t pre) = wq_scheduler_state_id q"
  "ee_scheduler_event_sequence (next_event prior n cause q t pre) = wq_scheduler_event_sequence q"
  "ee_scheduler_event_head_id (next_event prior n cause q t pre) = wq_scheduler_event_head_id q"
  "ee_idempotency_key (next_event prior n cause q t pre) = wq_idempotency_key q"
  "ee_producer (next_event prior n cause q t pre) = wq_producer q"
  "ee_source_state_id (next_event prior n cause q t pre) = wq_source_state_id q"
  "ee_receipts (next_event prior n cause q t pre) = ordered_workflow_receipts (wq_receipts q)"
  "ee_recorded_at (next_event prior n cause q t pre) = t"
  "ee_sequence (next_event prior n cause q t pre) = n"
  by (simp_all add: next_event_def Let_def split: prod.splits)

definition head_carries :: "workflow_epoch_head \<Rightarrow> workflow_request \<Rightarrow> string \<Rightarrow> bool" where
  "head_carries h q t = (eh_plan_id h = wq_plan_id q \<and> eh_candidate h = wq_candidate q \<and>
     eh_graph_id h = wq_graph_id q \<and> eh_scheduler_state_id h = wq_scheduler_state_id q \<and>
     eh_scheduler_event_sequence h = wq_scheduler_event_sequence q \<and>
     eh_scheduler_event_head_id h = wq_scheduler_event_head_id q \<and>
     eh_idempotency_key h = wq_idempotency_key q \<and> eh_producer h = wq_producer q \<and>
     eh_source_state_id h = wq_source_state_id q \<and>
     eh_receipts h = ordered_workflow_receipts (wq_receipts q) \<and> eh_recorded_at h = t)"

lemma append_carries:
  assumes "append_workflow_event ord s cause q t pre = Inr (s', h)"
    and "replay_workflow_epochs ord (ws_rows s) = Inr heads"
  shows "head_carries h q t" "replay_workflow_epochs ord (ws_rows s') = Inr (upsert (wq_plan_id q) h heads)"
    "\<exists>a u. epoch_update ord (map_of heads (wq_plan_id q)) (snd a) = Inr u \<and> h = head_of u a \<and>
       snd a = next_event (map_of heads (wq_plan_id q)) (next_sequence s) cause q t pre"
proof -
  from append_result[OF assms] obtain a where a: "snd a = next_event (map_of heads (wq_plan_id q)) (next_sequence s) cause q t pre"
    "reduce_workflow_event ord (map_of heads (wq_plan_id q)) a = Inr h"
    and r: "replay_workflow_epochs ord (ws_rows s') = Inr (upsert (wq_plan_id q) h heads)" by metis
  obtain u where u: "epoch_update ord (map_of heads (wq_plan_id q)) (snd a) = Inr u" "h = head_of u a"
    using a(2) by (auto simp: reduce_workflow_event_def result_simps)
  show "head_carries h q t" by (simp add: head_carries_def u(2) a(1))
  show "\<exists>a u. epoch_update ord (map_of heads (wq_plan_id q)) (snd a) = Inr u \<and> h = head_of u a \<and>
       snd a = next_event (map_of heads (wq_plan_id q)) (next_sequence s) cause q t pre" using u a(1) by blast
qed (rule append_result[OF assms])

text \<open>What the reducer made of the cause.\<close>

lemma append_phase:
  assumes "append_workflow_event ord s cause q t pre = Inr (s', h)"
    and "replay_workflow_epochs ord (ws_rows s) = Inr heads" and "map_of heads (wq_plan_id q) = Some h0"
  shows "cause = TRANSITION_RESERVATION \<Longrightarrow> eh_phase h = TRANSITION_RESERVED"
    "cause = TERMINAL_RESERVATION \<Longrightarrow> eh_phase h = TERMINAL_RESERVED \<and> eh_terminal_at h = Some t"
    "cause = TERMINAL_CONFIRMATION \<Longrightarrow> eh_phase h = TERMINAL_CONFIRMED \<and> eh_terminal_at h = eh_terminal_at h0"
    "cause = ARTIFACT_PUBLICATION_CONFIRMED \<Longrightarrow> eh_terminal_at h = eh_terminal_at h0"
proof -
  obtain a u where u: "epoch_update ord (Some h0) (snd a) = Inr u" "h = head_of u a"
    "snd a = next_event (Some h0) (next_sequence s) cause q t pre" using append_carries(3)[OF assms(1,2)] assms(3) by auto
  then have c: "cause_update ord h0 (snd a) cause = Inr u" by (auto simp: epoch_update_def result_simps)
  show "cause = TRANSITION_RESERVATION \<Longrightarrow> eh_phase h = TRANSITION_RESERVED"
    using c u(2) by (simp add: transition_update_iff)
  show "cause = TERMINAL_RESERVATION \<Longrightarrow> eh_phase h = TERMINAL_RESERVED \<and> eh_terminal_at h = Some t"
    using c u(2,3) by (simp add: terminal_update_iff)
  show "cause = TERMINAL_CONFIRMATION \<Longrightarrow> eh_phase h = TERMINAL_CONFIRMED \<and> eh_terminal_at h = eh_terminal_at h0"
    using c u(2) by (auto simp: closing_update_def result_simps prior_update_def)
  show "cause = ARTIFACT_PUBLICATION_CONFIRMED \<Longrightarrow> eh_terminal_at h = eh_terminal_at h0"
    using c u(2) by (auto simp: confirmation_update_def result_simps prior_update_def Let_def)
qed

section \<open>Repeating a call\<close>

lemma reserve_again:
  assumes call: "reserve_workflow_change ord s cause guard q expected t = Inr (s', h)" and ord: "iteration_order ord"
    and cause: "cause \<in> {TRANSITION_RESERVATION, TERMINAL_RESERVATION}"
  shows "reserve_workflow_change ord s' cause guard q expected' t = Inr (s', h)"
proof -
  obtain recorded heads h0 where t: "workflow_timestamp t = Inr recorded"
    and v: "validate_store ord s = Inr ()" "validate_store ord s' = Inr ()"
    and rep: "replay_workflow_epochs ord (ws_rows s) = Inr heads"
    and scope: "pending_terminals heads = [] \<or> (\<exists>p. pending_terminals heads = [p] \<and>
      eh_plan_id p = wq_plan_id q \<and> cause = TERMINAL_RESERVATION)" and h0: "map_of heads (wq_plan_id q) = Some h0"
    and did: "if already_reserved cause h0 q recorded then s' = s \<and> h = h0 else
      eh_phase h0 \<in> guard \<and> eh_current_event_head_id h0 = expected \<and>
      require_scheduler_head s (head_authority h0 q) = Inr () \<and> (\<exists>merged.
         merge_workflow_receipts (eh_receipts h0) (wq_receipts q) = Inr merged \<and>
         append_workflow_event ord s cause ((head_authority h0 q)\<lparr>wq_receipts := merged\<rparr>) recorded
           none_predecessor = Inr (s', h))"
    using iffD1[OF reserve_result call] by blast
  show ?thesis
  proof (cases "already_reserved cause h0 q recorded")
    case True
    then show ?thesis using did t v rep scope h0 unfolding reserve_result by auto
  next
    case False
    then obtain merged where m: "merge_workflow_receipts (eh_receipts h0) (wq_receipts q) = Inr merged"
      and app: "append_workflow_event ord s cause ((head_authority h0 q)\<lparr>wq_receipts := merged\<rparr>) recorded
         none_predecessor = Inr (s', h)" using did by auto
    let ?q = "(head_authority h0 q)\<lparr>wq_receipts := merged\<rparr>"
    have plan: "wq_plan_id ?q = wq_plan_id q" by (simp add: head_authority_def)
    have carries: "head_carries h ?q recorded" by (rule append_carries(1)[OF app rep])
    have rep': "replay_workflow_epochs ord (ws_rows s') = Inr (upsert (wq_plan_id q) h heads)"
      using append_carries(2)[OF app rep] unfolding plan .
    have "map_of heads (wq_plan_id ?q) = Some h0" using h0 unfolding plan .
    note phase = append_phase[OF app rep this]
    have "receipt_key ` set (wq_receipts q) \<subseteq> receipt_key ` set merged"
      by (rule merge_facts(2)[OF m head_receipts_distinct(3)[OF ord rep h0]])
    then have "already_reserved cause h q recorded"
      using carries phase(1,2) cause
      by (auto simp: already_reserved_def same_workflow_request_def head_carries_def head_authority_def
          ordered_workflow_receipts_def)
    moreover have "call_scope heads (wq_plan_id q)" using scope by (auto simp: call_scope_def)
    then have "pending_terminals (upsert (wq_plan_id q) h heads) = [] \<or>
       pending_terminals (upsert (wq_plan_id q) h heads) = [h] \<and> eh_plan_id h = wq_plan_id q \<and> cause = TERMINAL_RESERVATION"
      using pending_upsert[OF ord rep, of "wq_plan_id q" h] phase(1) cause carries plan by (auto simp: head_carries_def)
    moreover have "map_of (upsert (wq_plan_id q) h heads) (wq_plan_id q) = Some h" by (simp add: map_of_upsert)
    ultimately show ?thesis using t v rep' unfolding reserve_result by auto
  qed
qed

lemma open_again:
  assumes call: "open_workflow_epoch ord s q i ty path t pre = Inr (s', h)" and ord: "iteration_order ord"
  shows "open_workflow_epoch ord s' q i ty path t pre = Inr (s', h)"
proof -
  let ?q = "open_request q i ty path"
  obtain recorded heads where t: "workflow_timestamp t = Inr recorded"
    and v: "validate_store ord s = Inr ()" "validate_store ord s' = Inr ()"
    and np: "\<not> pending_row s" and rep: "replay_workflow_epochs ord (ws_rows s) = Inr heads"
    and did: "case map_of heads (wq_plan_id q) of
        Some h0 \<Rightarrow> same_workflow_request h0 ?q \<and> head_predecessor h0 = pre \<and> s' = s \<and> h = h0
      | None \<Rightarrow> require_scheduler_head s ?q = Inr () \<and>
          append_workflow_event ord s EPOCH_OPENED ?q recorded pre = Inr (s', h)"
    using iffD1[OF open_result call] by blast
  have plan: "wq_plan_id ?q = wq_plan_id q" by (simp add: open_request_def)
  show ?thesis
  proof (cases "map_of heads (wq_plan_id q)")
    case (Some h0)
    then show ?thesis using did t v np rep unfolding open_result by auto
  next
    case None
    then have app: "append_workflow_event ord s EPOCH_OPENED ?q recorded pre = Inr (s', h)" using did by simp
    have rep': "replay_workflow_epochs ord (ws_rows s') = Inr (upsert (wq_plan_id q) h heads)"
      using append_carries(2)[OF app rep] unfolding plan .
    obtain a u where u: "epoch_update ord None (snd a) = Inr u" "h = head_of u a"
      "snd a = next_event None (next_sequence s) EPOCH_OPENED ?q recorded pre"
      using append_carries(3)[OF app rep] None unfolding plan by auto
    then have phase: "eh_phase h = OPEN" by (auto simp: epoch_update_def root_update_iff)
    have sound: "distinct (map fst heads)" "distinct (map fst (upsert (wq_plan_id q) h heads))"
      using store_replay_sound[OF ord rep] store_replay_sound[OF ord rep'] by (simp_all add: sound_heads_def)
    have proj: "validate_workflow_epoch_projection ord s = Inr ()" "validate_workflow_epoch_projection ord s' = Inr ()"
      using v by (simp_all add: validate_store_def result_simps)
    have "call_scope heads (wq_plan_id q)" using projection_pending[OF proj(1) rep sound(1)] np by (simp add: call_scope_def)
    then have "\<not> pending_row s'"
      using projection_pending[OF proj(2) rep' sound(2)] pending_upsert[OF ord rep, of "wq_plan_id q" h] phase by simp
    moreover have "same_workflow_request h ?q"
      using append_carries(1)[OF app rep]
      by (simp add: same_workflow_request_def head_carries_def ordered_workflow_receipts_def)
    moreover have "head_predecessor h = pre"
      by (cases pre) (simp add: head_predecessor_def u(2,3) next_event_def Let_def)
    moreover have "map_of (upsert (wq_plan_id q) h heads) (wq_plan_id q) = Some h" by (simp add: map_of_upsert)
    ultimately show ?thesis using t v rep' unfolding open_result by auto
  qed
qed

text \<open>The receipt a confirmation names is found again, now confirmed.\<close>

lemma find_confirmed:
  assumes find: "find (matches_receipt i path) rs = Some m" and paths: "distinct (map (casefold \<circ> rc_path) rs)"
  shows "find (matches_receipt i path) (ordered_workflow_receipts (confirm_receipts i path rs)) =
    Some (m\<lparr>rc_status := CONFIRMED\<rparr>)"
proof -
  let ?new = "ordered_workflow_receipts (confirm_receipts i path rs)"
  have m: "m \<in> set rs" "matches_receipt i path m"
    using find by (auto simp: find_Some_iff)
  have only: "r = m" if "r \<in> set rs" "matches_receipt i path r" for r
    using paths that m by (auto simp: distinct_map inj_on_def matches_receipt_def)
  have new: "set ?new = (\<lambda>r. if matches_receipt i path r then r\<lparr>rc_status := CONFIRMED\<rparr> else r) ` set rs"
    by (simp add: ordered_workflow_receipts_def confirm_receipts_def)
  have keep: "matches_receipt i path (r\<lparr>rc_status := st\<rparr>) = matches_receipt i path r" for r st
    by (simp add: matches_receipt_def)
  have all: "r = m\<lparr>rc_status := CONFIRMED\<rparr>" if "r \<in> set ?new" "matches_receipt i path r" for r
    using that only unfolding new by (auto simp: keep split: if_splits)
  have "m\<lparr>rc_status := CONFIRMED\<rparr> \<in> set ?new" using m unfolding new by force
  moreover have "matches_receipt i path (m\<lparr>rc_status := CONFIRMED\<rparr>)" using m keep by simp
  ultimately obtain r where "find (matches_receipt i path) ?new = Some r"
    by (cases "find (matches_receipt i path) ?new") (auto simp: find_None_iff)
  then show ?thesis using all[of r] by (auto simp: find_Some_iff)
qed

lemma ordered_again: "ordered_workflow_receipts (ordered_workflow_receipts rs) = ordered_workflow_receipts rs"
  unfolding ordered_workflow_receipts_def by (rule sort_key_id_if_sorted) (rule sorted_sort_key)

lemma head_request_simps [simp]:
  "wq_plan_id (head_request h rs) = eh_plan_id h" "wq_receipts (head_request h rs) = rs"
  "wq_idempotency_key (head_request h rs) = eh_idempotency_key h" "wq_producer (head_request h rs) = eh_producer h"
  by (simp_all add: head_request_def)

lemma scope_again:
  assumes "iteration_order ord" and "replay_workflow_epochs ord rows = Inr heads" and "call_scope heads plan"
    and "eh_plan_id h = plan"
  shows "pending_terminals (upsert plan h heads) = [] \<or>
    (\<exists>p. pending_terminals (upsert plan h heads) = [p] \<and> eh_plan_id p = plan)"
  using pending_upsert[OF assms(1-3)] assms(4) by simp

lemma confirm_again:
  assumes call: "confirm_workflow_artifact ord s plan expected i path key t ty producer = Inr (s', h)"
    and ord: "iteration_order ord"
  shows "confirm_workflow_artifact ord s' plan expected' i path key t ty producer = Inr (s', h)"
proof -
  obtain recorded heads h0 m where t: "workflow_timestamp t = Inr recorded"
    and v: "validate_store ord s = Inr ()" "validate_store ord s' = Inr ()"
    and rep: "replay_workflow_epochs ord (ws_rows s) = Inr heads"
    and pend: "pending_terminals heads = [] \<or> (\<exists>p. pending_terminals heads = [p] \<and> eh_plan_id p = plan)"
    and h0: "map_of heads plan = Some h0" and m: "find (matches_receipt i path) (eh_receipts h0) = Some m"
    and acc: "receipt_accepted h0 m ty producer key"
    and did: "if rc_status m = CONFIRMED then s' = s \<and> h = h0 else
      eh_current_event_head_id h0 = expected \<and> require_unchanged_scheduler_head s h0 = Inr () \<and>
      append_workflow_event ord s ARTIFACT_PUBLICATION_CONFIRMED
        (head_request h0 (ordered_workflow_receipts (confirm_receipts i path (eh_receipts h0))))
        recorded none_predecessor = Inr (s', h)"
    using iffD1[OF confirm_result call] by blast
  have plan: "eh_plan_id h0 = plan" by (rule head_plan[OF ord rep h0])
  show ?thesis
  proof (cases "rc_status m = CONFIRMED")
    case True
    then show ?thesis using did t v rep pend h0 m acc unfolding confirm_result by auto
  next
    case False
    let ?q = "head_request h0 (ordered_workflow_receipts (confirm_receipts i path (eh_receipts h0)))"
    have app: "append_workflow_event ord s ARTIFACT_PUBLICATION_CONFIRMED ?q recorded none_predecessor = Inr (s', h)"
      using did False by simp
    have rep': "replay_workflow_epochs ord (ws_rows s') = Inr (upsert plan h heads)"
      and carries: "head_carries h ?q recorded"
      using append_carries(1,2)[OF app rep] plan by simp_all
    have "find (matches_receipt i path) (eh_receipts h) = Some (m\<lparr>rc_status := CONFIRMED\<rparr>)"
      using carries find_confirmed[OF m head_receipts_distinct(3)[OF ord rep h0]]
      by (simp add: head_carries_def ordered_again)
    moreover have "receipt_accepted h (m\<lparr>rc_status := CONFIRMED\<rparr>) ty producer key"
      using acc carries by (simp add: receipt_accepted_def head_carries_def split: option.splits)
    moreover have "pending_terminals (upsert plan h heads) = [] \<or>
        (\<exists>p. pending_terminals (upsert plan h heads) = [p] \<and> eh_plan_id p = plan)"
      using carries plan pend by (intro scope_again[OF ord rep]) (auto simp: call_scope_def head_carries_def)
    moreover have "map_of (upsert plan h heads) plan = Some h" by (simp add: map_of_upsert)
    ultimately show ?thesis using t v rep' unfolding confirm_result by fastforce
  qed
qed

lemma closed_again:
  assumes call: "confirm_workflow_terminal ord s plan expected key t producer = Inr (s', h)"
    and ord: "iteration_order ord"
  shows "confirm_workflow_terminal ord s' plan expected' key t producer = Inr (s', h)"
proof -
  obtain recorded heads h0 where t: "workflow_timestamp t = Inr recorded"
    and v: "validate_store ord s = Inr ()" "validate_store ord s' = Inr ()"
    and rep: "replay_workflow_epochs ord (ws_rows s) = Inr heads"
    and pend: "pending_terminals heads = [] \<or> (\<exists>p. pending_terminals heads = [p] \<and> eh_plan_id p = plan)"
    and h0: "map_of heads plan = Some h0" and acc: "terminal_accepted h0 key recorded producer"
    and did: "if eh_phase h0 = TERMINAL_CONFIRMED then s' = s \<and> h = h0 else
      eh_phase h0 = TERMINAL_RESERVED \<and> eh_current_event_head_id h0 = expected \<and> all_confirmed h0 \<and>
      require_unchanged_scheduler_head s h0 = Inr () \<and>
      append_workflow_event ord s TERMINAL_CONFIRMATION (head_request h0 (eh_receipts h0)) recorded
        none_predecessor = Inr (s', h)"
    using iffD1[OF closed_result call] by (elim exE conjE) (rule that)
  have plan: "eh_plan_id h0 = plan" by (rule head_plan[OF ord rep h0])
  show ?thesis
  proof (cases "eh_phase h0 = TERMINAL_CONFIRMED")
    case True
    then show ?thesis using did t v rep pend h0 acc unfolding closed_result by auto
  next
    case False
    let ?q = "head_request h0 (eh_receipts h0)"
    have app: "append_workflow_event ord s TERMINAL_CONFIRMATION ?q recorded none_predecessor = Inr (s', h)"
      using did False by simp
    have rep': "replay_workflow_epochs ord (ws_rows s') = Inr (upsert plan h heads)"
      and carries: "head_carries h ?q recorded"
      using append_carries(1,2)[OF app rep] plan by simp_all
    have "map_of heads (wq_plan_id ?q) = Some h0" using h0 plan by simp
    from append_phase(3)[OF app rep this] have phase: "eh_phase h = TERMINAL_CONFIRMED" "eh_terminal_at h = eh_terminal_at h0"
      by simp_all
    moreover have "terminal_accepted h key recorded producer"
      using acc carries phase by (simp add: terminal_accepted_def head_carries_def split: option.splits)
    moreover have "pending_terminals (upsert plan h heads) = [] \<or>
        (\<exists>p. pending_terminals (upsert plan h heads) = [p] \<and> eh_plan_id p = plan)"
      using carries plan pend by (intro scope_again[OF ord rep]) (auto simp: call_scope_def head_carries_def)
    moreover have "map_of (upsert plan h heads) plan = Some h" by (simp add: map_of_upsert)
    ultimately show ?thesis using t v rep' unfolding closed_result by fastforce
  qed
qed

lemma perform_again:
  assumes "perform ord c s = Inr (s', h)" and "iteration_order ord"
  shows "perform ord c s' = Inr (s', h)"
proof (cases c)
  case (OpenEpoch q i ty path t pre)
  then show ?thesis using assms open_again by simp
next
  case (ReserveTransition q expected event state t)
  then show ?thesis using assms reserve_again by (simp add: reserve_workflow_transition_def Let_def)
next
  case (ReserveTerminal q expected event state closing t)
  then show ?thesis using assms reserve_again by (simp add: reserve_workflow_terminal_def Let_def)
next
  case (ConfirmArtifact plan expected i path key t ty producer)
  then show ?thesis using assms confirm_again by simp
next
  case (ConfirmTerminal plan expected key t producer)
  then show ?thesis using assms closed_again by simp
qed

end
