(* ===== verification/StoreProgress.thy ===== *)
theory StoreProgress
  imports StoreRetry
begin

text \<open>
  When an append succeeds: the event built from a well-formed request on a validated store always has
  an artifact and a stored head, and the store after it validates again.
\<close>

section \<open>What validation means\<close>

lemma projection_iff:
  assumes rep: "replay_workflow_epochs ord (ws_rows s) = Inr heads" and d: "distinct (map fst heads)"
  shows "validate_workflow_epoch_projection ord s = Inr () \<longleftrightarrow> distinct (map fst (ws_heads s)) \<and>
    fst ` set (ws_heads s) = fst ` set heads \<and>
    (\<forall>e \<in> set (ws_heads s). head_row_of (the (map_of heads (fst e))) = Inr (snd e))"
proof -
  let ?rows = "sort_key fst (ws_heads s)"
  let ?f = "\<lambda>(plan, row). bindR (head_row_of (the (map_of heads plan))) (\<lambda>wanted.
       require (row = wanted) (SchedulerAdapterError ProjectionMismatch))"
  have sorted: "sorted (map fst ?rows)" by simp
  have keys: "map fst ?rows = sort (map fst heads) \<longleftrightarrow> distinct (map fst (ws_heads s)) \<and>
      fst ` set (ws_heads s) = fst ` set heads"
  proof
    assume eq: "map fst ?rows = sort (map fst heads)"
    then have "distinct (map fst ?rows)" using d by simp
    moreover have "set (map fst ?rows) = set (sort (map fst heads))" using eq by simp
    ultimately show "distinct (map fst (ws_heads s)) \<and> fst ` set (ws_heads s) = fst ` set heads"
      by (simp add: distinct_map)
  next
    assume "distinct (map fst (ws_heads s)) \<and> fst ` set (ws_heads s) = fst ` set heads"
    then show "map fst ?rows = sort (map fst heads)"
      using d sorted by (intro sorted_distinct_set_unique) (simp_all add: distinct_map)
  qed
  have ok: "?f e = Inr u \<longleftrightarrow> head_row_of (the (map_of heads (fst e))) = Inr (snd e)" for e u
    by (auto simp: case_prod_unfold result_simps)
  have "validate_workflow_epoch_projection ord s = Inr () \<longleftrightarrow>
      map fst ?rows = sort (map fst heads) \<and> (\<exists>us. mapR ?f ?rows = Inr us)"
    by (simp add: validate_workflow_epoch_projection_def rep Let_def result_simps)
  also have "\<dots> \<longleftrightarrow> map fst ?rows = sort (map fst heads) \<and>
      (\<forall>e \<in> set (ws_heads s). head_row_of (the (map_of heads (fst e))) = Inr (snd e))"
    unfolding mapR_ok ok by simp
  finally show ?thesis unfolding keys by blast
qed

definition pinned :: "scheduler_authority \<Rightarrow> heads \<Rightarrow> bool" where
  "pinned au heads = (pending_terminals heads = [] \<or>
     (\<exists>p. pending_terminals heads = [p] \<and> current_triple au = Inr (head_triple p)))"

lemma evidence_iff:
  assumes rep: "replay_workflow_epochs ord (ws_rows s) = Inr heads"
  shows "validate_workflow_epoch_evidence ord s = Inr () \<longleftrightarrow>
    (\<forall>e \<in> set heads. eh_graph_id (snd e) = au_graph_id (ws_authority s) \<and>
       eh_candidate (snd e) = au_candidate (ws_authority s)) \<and>
    (\<forall>row \<in> set (ws_rows s). row_authority (ws_authority s) row = Inr ()) \<and>
    pinned (ws_authority s) heads"
proof -
  have pend: "pending_pinned au heads = Inr u \<longleftrightarrow> pinned au heads" for au u
    by (cases "pending_terminals heads" rule: remdups_adj.cases)
      (auto simp: pending_pinned_def pinned_def Let_def result_simps head_triple_def)
  have agree: "(\<not> list_ex (\<lambda>(_, h). eh_graph_id h \<noteq> g \<or> eh_candidate h \<noteq> c) heads) \<longleftrightarrow>
      (\<forall>e \<in> set heads. eh_graph_id (snd e) = g \<and> eh_candidate (snd e) = c)" for g c
    by (auto simp: list_ex_iff)
  have "validate_workflow_epoch_evidence ord s = Inr () \<longleftrightarrow>
      \<not> list_ex (\<lambda>(_, h). eh_graph_id h \<noteq> au_graph_id (ws_authority s) \<or>
          eh_candidate h \<noteq> au_candidate (ws_authority s)) heads \<and>
      (\<exists>us. mapR (row_authority (ws_authority s)) (ws_rows s) = Inr us) \<and> pinned (ws_authority s) heads"
    by (simp only: validate_workflow_epoch_evidence_def rep Let_def bindR_Inr bindR_eq_Inr require_eq_Inr pend) blast
  then show ?thesis unfolding agree mapR_ok by simp
qed

section \<open>Well-formed requests and heads\<close>

definition wf_request :: "workflow_request \<Rightarrow> bool" where
  "wf_request q = (wf_workflow_id ''integrated-plan'' (wq_plan_id q) \<and> wf_candidate (wq_candidate q) \<and>
     wf_scheduler_id TASK_GRAPH (wq_graph_id q) \<and>
     wf_scheduler_id SCHEDULER_STATE (wq_scheduler_state_id q) \<and>
     wf_positive (wq_scheduler_event_sequence q) \<and>
     wf_scheduler_id SCHEDULER_EVENT (wq_scheduler_event_head_id q) \<and>
     wf_workflow_key (wq_idempotency_key q) \<and> wf_choice workflow_producers (wq_producer q) \<and>
     pred_option (wf_workflow_id ''workflow-state'') (wq_source_state_id q) \<and>
     wf_receipts (ordered_workflow_receipts (wq_receipts q)))"

definition wf_predecessor :: "predecessor \<Rightarrow> bool" where
  "wf_predecessor pre = (case pre of (plan, head, state, closing) \<Rightarrow>
     pred_option (wf_workflow_id ''integrated-plan'') plan \<and>
     pred_option (wf_scheduler_id WORKFLOW_EPOCH_EVENT) head \<and>
     pred_option (wf_workflow_id ''workflow-state'') state \<and>
     pred_option (wf_workflow_id ''workflow-outcome'') closing \<and> all_or_none [plan, head, state, closing])"

definition wf_heads :: "string \<Rightarrow> string option \<times> string option \<Rightarrow> bool" where
  "wf_heads ty ip = (pred_option (wf_workflow_id ty) (fst ip) \<and> pred_option safe_path (snd ip) \<and>
     (fst ip = None) = (snd ip = None))"

lemma sound_head_wf:
  assumes "sound_head n plan h"
  shows "wf_scheduler_id WORKFLOW_EPOCH_EVENT (eh_current_event_head_id h)" "wf_predecessor (head_predecessor h)"
    "wf_heads ''workflow-event'' (eh_workflow_event_id h, eh_workflow_event_path h)"
    "wf_heads ''workflow-state'' (eh_workflow_state_id h, eh_workflow_state_path h)"
    "wf_heads ''workflow-outcome'' (eh_outcome_id h, eh_outcome_path h)"
    "1 \<le> eh_epoch_sequence h" "eh_epoch_sequence h \<le> int n" "wf_recorded (eh_recorded_at h)"
    "wf_receipts (eh_receipts h)" "eh_plan_id h = plan" "epoch_invariant h"
proof -
  obtain a u where a: "wf_epoch_artifact a" and p: "projects u (snd a)" and h: "h = head_of u a"
    using assms by (auto simp: sound_head_def)
  have e: "wf_epoch_event (snd a)" using a by (rule epoch_artifact_event)
  show "wf_scheduler_id WORKFLOW_EPOCH_EVENT (eh_current_event_head_id h)"
    using a by (auto simp: h wf_epoch_artifact_def intro: scheduler_identity_wf)
  show "wf_predecessor (head_predecessor h)" "wf_recorded (eh_recorded_at h)" "wf_receipts (eh_receipts h)"
    "1 \<le> eh_epoch_sequence h"
    using e by (simp_all add: h wf_epoch_event_def wf_predecessor_def head_predecessor_def wf_positive_def)
  show "wf_heads ''workflow-event'' (eh_workflow_event_id h, eh_workflow_event_path h)"
    "wf_heads ''workflow-state'' (eh_workflow_state_id h, eh_workflow_state_path h)"
    "wf_heads ''workflow-outcome'' (eh_outcome_id h, eh_outcome_path h)"
    using e p by (simp_all add: h wf_epoch_event_def wf_heads_def paired_heads_def projects_def)
  show "eh_epoch_sequence h \<le> int n" "eh_plan_id h = plan" using assms by (simp_all add: sound_head_def)
  show "epoch_invariant h" using assms reachable_invariant by (simp add: sound_head_def)
qed

lemma artifact_head_wf:
  assumes "wf_heads ty start" and "\<forall>r \<in> set rs. wf_receipt r"
  shows "wf_heads ty (artifact_head keys rs ty start)"
  using assms by (induction rs arbitrary: start) (auto simp: artifact_head_def wf_heads_def wf_receipt_def)

lemma next_event_wf:
  assumes wf: "wf_request q" "wf_recorded t" "wf_positive n"
    and prior: "\<And>h. prior = Some h \<Longrightarrow> sound_head k (wq_plan_id q) h" and k: "k < 2147483647"
    and pre: "prior = None \<Longrightarrow> wf_predecessor pre"
  shows "wf_epoch_event (next_event prior n cause q t pre)"
proof -
  let ?e = "next_event prior n cause q t pre"
  have rs: "\<forall>r \<in> set (wq_receipts q). wf_receipt r"
    using wf(1) by (simp add: wf_request_def wf_receipts_def list_all_iff ordered_workflow_receipts_def)
  have none: "wf_heads ty (None, None)" for ty by (simp add: wf_heads_def)
  have "wf_heads ty (workflow_artifact_heads prior (wq_receipts q) ty)"
    if "ty \<in> {''workflow-event'', ''workflow-state'', ''workflow-outcome''}" for ty
  proof (cases prior)
    case None
    then show ?thesis using artifact_head_wf[OF none rs] by (simp add: workflow_artifact_heads_def)
  next
    case (Some h)
    note w = sound_head_wf(3-5)[OF prior[OF Some]]
    show ?thesis using Some that w artifact_head_wf[OF _ rs] by (auto simp: workflow_artifact_heads_def)
  qed
  then have heads: "wf_heads ''workflow-event'' (ee_workflow_event_id ?e, ee_workflow_event_path ?e)"
    "wf_heads ''workflow-state'' (ee_workflow_state_id ?e, ee_workflow_state_path ?e)"
    "wf_heads ''workflow-outcome'' (ee_outcome_id ?e, ee_outcome_path ?e)"
    by (simp_all add: next_event_def Let_def split: prod.splits)
  have pred: "wf_predecessor (ee_predecessor_plan_id ?e, ee_predecessor_head_id ?e, ee_predecessor_state_id ?e,
      ee_predecessor_outcome_id ?e)"
  proof (cases prior)
    case None
    then show ?thesis using pre by (cases pre) (simp add: next_event_def Let_def)
  next
    case (Some h)
    then show ?thesis using sound_head_wf(2)[OF prior[OF Some]]
      by (simp add: next_event_def Let_def head_predecessor_def)
  qed
  have chain: "wf_positive (ee_epoch_sequence ?e) \<and>
      pred_option (wf_scheduler_id WORKFLOW_EPOCH_EVENT) (ee_previous_event_id ?e) \<and>
      (ee_epoch_sequence ?e = 1) = (ee_previous_event_id ?e = None)"
  proof (cases prior)
    case None
    then show ?thesis by (simp add: next_event_def Let_def wf_positive_def split: prod.splits)
  next
    case (Some h)
    note w = sound_head_wf(1,6,7)[OF prior[OF Some]]
    have "ee_epoch_sequence ?e = eh_epoch_sequence h + 1" "ee_previous_event_id ?e = Some (eh_current_event_head_id h)"
      by (simp_all add: Some next_event_def Let_def split: prod.splits)
    then show ?thesis using w k by (simp add: wf_positive_def)
  qed
  show ?thesis unfolding wf_epoch_event_def
    using heads pred chain wf
    by (simp add: wf_heads_def wf_predecessor_def wf_request_def paired_heads_def)
qed

section \<open>Appending\<close>

lemma fits_head:
  assumes "length (eh_receipts h) \<le> 1024"
  shows "fits 250000 64 (epoch_head_to_dict h)"
proof -
  have rs: "fits 6145 2 (JArr (map receipt_to_dict (eh_receipts h)))"
    using assms by (intro fits_arr[where b = 6 and d = 1]) auto
  have leaf: "fits 6145 2 (enc_option JStr x)" for x by (cases x) (simp_all add: enc_option_def)
  show ?thesis
    unfolding epoch_head_to_dict_def
    by (intro fits_obj[where b = 6145 and d = 2]) (simp_all add: rs leaf ascii_text_def)
qed

lemma head_row_total: "wf_receipts (eh_receipts h) \<Longrightarrow> \<exists>row. head_row_of h = Inr row"
  using fits_bytes[OF fits_head] by (simp add: head_row_of_def wf_receipts_def)

lemma scheduler_head_iff:
  "require_scheduler_head s q = Inr () \<longleftrightarrow> au_graph_id (ws_authority s) = wq_graph_id q \<and>
    au_candidate (ws_authority s) = wq_candidate q \<and>
    current_triple (ws_authority s) = Inr (wq_scheduler_state_id q, wq_scheduler_event_sequence q,
      wq_scheduler_event_head_id q)"
  by (auto simp: require_scheduler_head_def result_simps Let_def)

lemma current_history:
  "current_triple au = Inr (state, n, event) \<Longrightarrow> history_at au n = Some (event, state)"
  by (cases "length (au_history au)")
    (auto simp: current_triple_def history_at_def last_conv_nth split: if_splits)

lemma append_progress:
  assumes ord: "iteration_order ord" and valid: "validate_store ord s = Inr ()"
    and rep: "replay_workflow_epochs ord (ws_rows s) = Inr heads"
    and wf: "wf_request q" "wf_recorded t" and len: "length (ws_rows s) < 2147483646"
    and pre: "map_of heads (wq_plan_id q) = None \<Longrightarrow> wf_predecessor pre"
    and auth: "require_scheduler_head s q = Inr ()" and scope: "call_scope heads (wq_plan_id q)"
    and upd: "epoch_update ord (map_of heads (wq_plan_id q))
      (next_event (map_of heads (wq_plan_id q)) (next_sequence s) cause q t pre) = Inr u"
    and pr: "projects u (next_event (map_of heads (wq_plan_id q)) (next_sequence s) cause q t pre)"
  obtains s' h where "append_workflow_event ord s cause q t pre = Inr (s', h)" "validate_store ord s' = Inr ()"
    "eh_phase h = up_phase u" "eh_terminal_at h = up_terminal_at u" "head_carries h q t"
    "ws_authority s' = ws_authority s" "length (ws_rows s') = Suc (length (ws_rows s))"
    "replay_workflow_epochs ord (ws_rows s') = Inr (upsert (wq_plan_id q) h heads)"
    "eh_workflow_state_id h = up_state_id u"
proof -
  let ?plan = "wq_plan_id q" and ?au = "ws_authority s"
  let ?e = "next_event (map_of heads ?plan) (next_sequence s) cause q t pre"
  have seq: "next_sequence s = int (Suc (length (ws_rows s)))"
    using rep next_sequence_contiguous[of s] by (auto simp: replay_workflow_epochs_def result_simps)
  have "wf_epoch_event ?e"
    using wf len seq pre head_receipts_distinct(1)[OF ord rep]
    by (intro next_event_wf[where k = "length (ws_rows s)"]) (simp_all add: wf_positive_def)
  from epoch_artifact_total[OF this] obtain i where i: "epoch_artifact_from_value ?e = Inr (i, ?e)" by blast
  let ?h = "head_of u (i, ?e)"
  have wfa: "wf_epoch_artifact (i, ?e)" by (rule epoch_artifact_from_value_result(1)[OF i])
  have red: "reduce_workflow_event ord (map_of heads ?plan) (i, ?e) = Inr ?h"
    using upd pr by (simp add: reduce_workflow_event_def)
  have hr: "wf_receipts (eh_receipts ?h)" using wf(1) by (simp add: wf_request_def)
  from head_row_total[OF this] obtain row where row: "head_row_of ?h = Inr row" by blast
  let ?s = "s\<lparr>ws_rows := ws_rows s @ [row_of (i, ?e)], ws_heads := upsert ?plan row (ws_heads s)\<rparr>"
  have app: "append_workflow_event ord s cause q t pre = Inr (?s, ?h)"
    by (simp add: append_workflow_event_def workflow_head_def rep i red row)
  have rep': "replay_workflow_epochs ord (ws_rows ?s) = Inr (upsert ?plan ?h heads)"
    by (rule append_carries(2)[OF app rep])
  note sound = store_replay_sound[OF ord rep] store_replay_sound[OF ord rep']
  have d: "distinct (map fst heads)" "distinct (map fst (upsert ?plan ?h heads))"
    using sound by (simp_all add: sound_heads_def)
  have ev: "validate_workflow_epoch_evidence ord s = Inr ()" and pj: "validate_workflow_epoch_projection ord s = Inr ()"
    using valid by (simp_all add: validate_store_def result_simps)
  note old = ev[unfolded evidence_iff[OF rep]] pj[unfolded projection_iff[OF rep d(1)]]
  note au = auth[unfolded scheduler_head_iff]
  have "row_authority ?au (row_of (i, ?e)) = Inr ()"
  proof -
    have "parse_epoch_artifact (rw_artifact (row_of (i, ?e))) = Inr (i, ?e)"
      using epoch_artifact_form.parse_form[OF wfa] by (simp add: row_of_def Let_def)
    then show ?thesis using current_history au by (simp add: row_authority_def)
  qed
  moreover have "pinned ?au (upsert ?plan ?h heads)"
    using pending_upsert[OF ord rep scope, of ?h] au by (simp add: pinned_def head_triple_def)
  moreover have "set (upsert ?plan ?h heads) \<subseteq> insert (?plan, ?h) (set heads)"
    using upsert_members[OF d(1), of ?plan ?h] by auto
  then have "\<forall>e \<in> set (upsert ?plan ?h heads). eh_graph_id (snd e) = au_graph_id ?au \<and>
      eh_candidate (snd e) = au_candidate ?au"
    using old(1) au by auto
  ultimately have ev': "validate_workflow_epoch_evidence ord ?s = Inr ()"
    using old(1) unfolding evidence_iff[OF rep'] by simp
  have mem: "set (upsert ?plan row (ws_heads s)) = insert (?plan, row) {(k, v) \<in> set (ws_heads s). k \<noteq> ?plan}"
    using old(2) by (intro upsert_members) simp
  have "\<forall>e \<in> set (upsert ?plan row (ws_heads s)).
      head_row_of (the (map_of (upsert ?plan ?h heads) (fst e))) = Inr (snd e)"
    using old(2) row unfolding mem map_of_upsert by auto
  then have "validate_workflow_epoch_projection ord ?s = Inr ()"
    using old(2) upsert_distinct unfolding projection_iff[OF rep' d(2)] by auto
  then have "validate_store ord ?s = Inr ()" using ev' by (simp add: validate_store_def)
  then show ?thesis using that[OF app _ _ _ append_carries(1)[OF app rep] _ _ rep'] by simp
qed

end
