(* ===== verification/StoreOperations.thy ===== *)
theory StoreOperations
  imports StoreProgress
begin

text \<open>
  When the operations of the workflow authority succeed: a reservation on an active epoch, the
  confirmation of a reserved artifact, the confirmation of the end.  Each lemma builds the event the
  code builds and follows it through the reducer and the validation of the store.
\<close>

section \<open>The chain\<close>

lemma next_event_heads:
  "ee_workflow_event_id (next_event prior n c q t pre) = fst (workflow_artifact_heads prior (wq_receipts q) ''workflow-event'')"
  "ee_workflow_event_path (next_event prior n c q t pre) = snd (workflow_artifact_heads prior (wq_receipts q) ''workflow-event'')"
  "ee_workflow_state_id (next_event prior n c q t pre) = fst (workflow_artifact_heads prior (wq_receipts q) ''workflow-state'')"
  "ee_workflow_state_path (next_event prior n c q t pre) = snd (workflow_artifact_heads prior (wq_receipts q) ''workflow-state'')"
  "ee_outcome_id (next_event prior n c q t pre) = fst (workflow_artifact_heads prior (wq_receipts q) ''workflow-outcome'')"
  "ee_outcome_path (next_event prior n c q t pre) = snd (workflow_artifact_heads prior (wq_receipts q) ''workflow-outcome'')"
  by (simp_all add: next_event_def Let_def split: prod.splits)

definition same_epoch :: "workflow_epoch_head \<Rightarrow> workflow_request \<Rightarrow> bool" where
  "same_epoch h q = (wq_plan_id q = eh_plan_id h \<and> wq_candidate q = eh_candidate h \<and> wq_graph_id q = eh_graph_id h)"

lemma chain_progress:
  assumes "same_epoch h q" and "wf_recorded (eh_recorded_at h)" and "wf_recorded t"
    and "instant (eh_recorded_at h) \<le> instant t"
    and "receipt_key ` set (eh_receipts h) \<subseteq> receipt_key ` set (wq_receipts q)"
  shows "chain_continues h (next_event (Some h) n c q t pre) = Inr ()"
proof -
  have chain: "same_chain h (next_event (Some h) n c q t pre)"
    using assms(1) by (simp add: same_chain_def same_epoch_def next_event_def Let_def head_predecessor_def)
  have "parse_utc (eh_recorded_at h) = Inr (utc_fields (eh_recorded_at h))" "parse_utc t = Inr (utc_fields t)"
    using assms(2,3) by (simp_all add: wf_recorded_def parse_utc_timestamp)
  then show ?thesis using chain assms(4,5)
    by (simp add: chain_continues_def instant_def ordered_workflow_receipts_def not_less)
qed

section \<open>Artifact heads of a request\<close>

lemma artifact_head_none:
  "(\<And>r. r \<in> set rs \<Longrightarrow> receipt_key r \<notin> keys \<Longrightarrow> rc_type r \<noteq> ty) \<Longrightarrow> artifact_head keys rs ty start = start"
  unfolding artifact_head_def by (induction rs arbitrary: start) auto

lemma artifact_head_one:
  "(\<And>r. r \<in> set rs \<Longrightarrow> receipt_key r \<notin> keys \<Longrightarrow> rc_type r = ty \<Longrightarrow> r = r0) \<Longrightarrow> r0 \<in> set rs \<Longrightarrow>
    receipt_key r0 \<notin> keys \<Longrightarrow> rc_type r0 = ty \<Longrightarrow>
    artifact_head keys rs ty start = (Some (rc_id r0), Some (rc_path r0))"
proof (induction rs rule: rev_induct)
  case (snoc r rs)
  show ?case
  proof (cases "receipt_key r \<notin> keys \<and> rc_type r = ty")
    case True
    then have "r = r0" using snoc.prems(1) by simp
    then show ?thesis using True by (simp add: artifact_head_def)
  next
    case False
    then have "r0 \<in> set rs" using snoc.prems(2-4) by auto
    moreover have "artifact_head keys (rs @ [r]) ty start = artifact_head keys rs ty start"
      using False by (auto simp: artifact_head_def)
    ultimately show ?thesis using snoc.IH snoc.prems by simp
  qed
qed simp

lemma kept_heads:
  assumes "receipt_key ` set rs \<subseteq> receipt_key ` set (eh_receipts h)"
  shows "workflow_artifact_heads (Some h) rs ty = (if ty = ''workflow-event'' then (eh_workflow_event_id h, eh_workflow_event_path h)
        else if ty = ''workflow-state'' then (eh_workflow_state_id h, eh_workflow_state_path h)
        else (eh_outcome_id h, eh_outcome_path h))"
proof -
  have "artifact_head (receipt_key ` set (eh_receipts h)) rs ty start = start" for start
    by (rule artifact_head_none) (use assms in blast)
  then show ?thesis by (simp add: workflow_artifact_heads_def)
qed

lemma prior_projects:
  assumes "receipt_key ` set (wq_receipts q) \<subseteq> receipt_key ` set (eh_receipts h)" and "u\<lparr>up_phase := p\<rparr> = prior_update h"
  shows "projects u (next_event (Some h) n c q t pre)"
proof -
  have "up_event_id u = eh_workflow_event_id h" "up_event_path u = eh_workflow_event_path h"
    "up_state_id u = eh_workflow_state_id h" "up_state_path u = eh_workflow_state_path h"
    "up_outcome_id u = eh_outcome_id h" "up_outcome_path u = eh_outcome_path h"
    using assms(2) by (cases u, simp add: prior_update_def)+
  then show ?thesis by (simp add: projects_def next_event_heads kept_heads[OF assms(1)])
qed

section \<open>Receipts of a request\<close>

lemma wf_receipts_ordered:
  assumes "list_all wf_receipt rs" and "rs \<noteq> []" and "length rs \<le> 1024" and "distinct (map (casefold \<circ> rc_path) rs)"
  shows "wf_receipts (ordered_workflow_receipts rs)"
proof -
  let ?o = "ordered_workflow_receipts rs"
  have "map receipt_order ?o = sort (map receipt_order ?o)"
    unfolding ordered_workflow_receipts_def by (metis sorted_sort_key sorted_sort_id)
  moreover have "distinct (map (casefold \<circ> rc_path) ?o)"
    using assms(4) unfolding ordered_workflow_receipts_def by (rule distinct_map_sort_key)
  then have "card (set (map (casefold \<circ> rc_path) ?o)) = length (map (casefold \<circ> rc_path) ?o)" by (rule distinct_card)
  then have "card (set (map fst (map receipt_order ?o))) = length (map receipt_order ?o)"
    by (simp add: receipt_order_def comp_def)
  moreover have same: "set ?o = set rs" "length ?o = length rs" by (simp_all add: ordered_workflow_receipts_def)
  then have "?o \<noteq> []" using assms(2) by (metis set_empty)
  ultimately show ?thesis
    using assms(1,3) same unfolding wf_receipts_def receipts_canonical_def list_all_iff by simp
qed

definition fresh_receipts :: "workflow_receipt list \<Rightarrow> workflow_receipt list \<Rightarrow> bool" where
  "fresh_receipts existing new = (distinct (map (casefold \<circ> rc_path) (existing @ new)) \<and>
     distinct (map rc_id new) \<and> rc_id ` set existing \<inter> rc_id ` set new = {})"

lemma merge_additions_total:
  "distinct (map (casefold \<circ> rc_path) items) \<Longrightarrow> (casefold \<circ> rc_path) ` set items \<inter> fst ` set by_path = {} \<Longrightarrow>
    distinct (map rc_id items) \<Longrightarrow> rc_id ` set items \<inter> fst ` set by_id = {} \<Longrightarrow>
    \<exists>rs. merge_additions by_path by_id items = Inr rs"
proof (induction items arbitrary: by_path by_id)
  case (Cons item items)
  then have "map_of by_path (casefold (rc_path item)) = None" "map_of by_id (rc_id item) = None"
    by (auto simp: map_of_eq_None_iff)
  moreover have "\<exists>rs. merge_additions (upsert (casefold (rc_path item)) item by_path) (upsert (rc_id item) item by_id) items = Inr rs"
    using Cons.prems by (intro Cons.IH) auto
  ultimately show ?case by simp
qed simp

lemma dict_of_keys: "fst ` set (dict_of f rs) = f ` set rs"
proof -
  have "fst ` set (fold (\<lambda>r. upsert (f r) r) rs xs) = fst ` set xs \<union> f ` set rs" for xs
    by (induction rs arbitrary: xs) auto
  then show ?thesis by (simp add: dict_of_def)
qed

lemma merge_progress:
  assumes "fresh_receipts existing new"
  obtains rs where "merge_workflow_receipts existing new = Inr rs" "set rs = set existing \<union> set new"
    "distinct (map (casefold \<circ> rc_path) rs)" "length rs = length existing + length new"
proof -
  have d: "distinct (map (casefold \<circ> rc_path) existing)" "distinct (map (casefold \<circ> rc_path) new)"
    "(casefold \<circ> rc_path) ` set new \<inter> (casefold \<circ> rc_path) ` set existing = {}"
    "distinct (map rc_id new)" "rc_id ` set new \<inter> rc_id ` set existing = {}"
    using assms by (auto simp: fresh_receipts_def)
  obtain rs where rs: "merge_workflow_receipts existing new = Inr rs"
    using merge_additions_total[OF d(2) _ d(4)] d(3,5) by (metis dict_of_keys merge_workflow_receipts_def)
  note f = merge_facts[OF rs d(1)]
  have "r \<in> set rs" if r: "r \<in> set new" for r
  proof -
    have "receipt_key r \<in> receipt_key ` set rs" using f(2) r by blast
    then obtain r' where r': "r' \<in> set rs" "rc_path r' = rc_path r" by (auto simp: receipt_key_def)
    then have "r' \<notin> set existing" using d(3) r by (metis IntI comp_apply empty_iff image_eqI)
    then have "r' \<in> set new" using f(3) r' by blast
    then have "r' = r" using d(2) r r'(2) by (auto simp: distinct_map inj_on_def)
    then show ?thesis using r'(1) by simp
  qed
  then have set: "set rs = set existing \<union> set new" using f(1,3) by blast
  have "distinct rs" "distinct (existing @ new)"
    using f(4) assms distinct_by_path(2) by (auto simp: fresh_receipts_def)
  then have "length rs = length (existing @ new)" using set by (metis distinct_card set_append)
  then show ?thesis using that[OF rs set f(4)] by simp
qed

lemma new_keys:
  assumes "fresh_receipts existing new"
  shows "receipt_key ` set new \<inter> receipt_key ` set existing = {}"
proof -
  have "receipt_key r \<noteq> receipt_key r'" if "r \<in> set new" "r' \<in> set existing" for r r'
  proof
    assume "receipt_key r = receipt_key r'"
    then have "(casefold \<circ> rc_path) r = (casefold \<circ> rc_path) r'" by (simp add: receipt_key_def)
    then show False using assms that by (auto simp: fresh_receipts_def)
  qed
  then show ?thesis by blast
qed

section \<open>Reservations\<close>

definition reservation_types :: "workflow_epoch_cause \<Rightarrow> string set" where
  "reservation_types cause = (if cause = TERMINAL_RESERVATION
     then {''workflow-event'', ''workflow-state'', ''workflow-outcome''} else {''workflow-event'', ''workflow-state''})"

definition reservation_phase :: "workflow_epoch_cause \<Rightarrow> workflow_epoch_phase" where
  "reservation_phase cause = (if cause = TERMINAL_RESERVATION then TERMINAL_RESERVED else TRANSITION_RESERVED)"

text \<open>The new receipts of a reservation: one of each type, reserved, on fresh paths and identifiers.\<close>

definition reservable :: "workflow_epoch_cause \<Rightarrow> workflow_epoch_head \<Rightarrow> workflow_receipt list \<Rightarrow> bool" where
  "reservable cause h new = (fresh_receipts (eh_receipts h) new \<and> list_all wf_receipt new \<and>
     list_all (\<lambda>r. rc_status r = RESERVED) new \<and> rc_type ` set new = reservation_types cause \<and>
     inj_on rc_type (set new) \<and> length (eh_receipts h) + length new \<le> 1024)"

lemma reservation_event:
  assumes ord: "iteration_order ord" and inv: "epoch_invariant h" and res: "reservable cause h new"
    and cause: "cause \<in> {TRANSITION_RESERVATION, TERMINAL_RESERVATION}"
    and phase: "eh_phase h \<in> {OPEN, ACTIVE}" and src: "wq_source_state_id q = eh_workflow_state_id h"
    and started: "cause = TERMINAL_RESERVATION \<Longrightarrow> eh_workflow_state_id h \<noteq> None"
    and rs: "set (wq_receipts q) = set (eh_receipts h) \<union> set new" and wr: "wf_receipts (ordered_workflow_receipts (wq_receipts q))"
    and chain: "chain_continues h (next_event (Some h) n cause q t pre) = Inr ()"
  obtains u where "epoch_update ord (Some h) (next_event (Some h) n cause q t pre) = Inr u"
    "projects u (next_event (Some h) n cause q t pre)" "up_phase u = reservation_phase cause"
    "up_terminal_at u = (if cause = TERMINAL_RESERVATION then Some t else eh_terminal_at h)"
    "up_state_id u \<noteq> None"
proof -
  let ?e = "next_event (Some h) n cause q t pre" and ?keys = "receipt_key ` set (eh_receipts h)"
  have nk: "receipt_key ` set new \<inter> ?keys = {}" using res new_keys by (simp add: reservable_def)
  have added: "set (added_receipts ord (eh_receipts h) (ee_receipts ?e)) = set new"
    using added_receipts_set[OF ord, of "ee_receipts ?e" "eh_receipts h"] wr rs nk
    by (auto simp: ordered_workflow_receipts_def)
  have adds: "adds ord h ?e (reservation_types cause)"
    using added res by (simp add: adds_def reservable_def list_ex_iff list_all_iff)
  have newest: "newest ord h ?e (rc_type r) = r" if "r \<in> set new" for r
    using added_by_type_unique[of "added_receipts ord (eh_receipts h) (ee_receipts ?e)" r] that res added
    by (simp add: newest_def reservable_def)
  have fresh: "r \<in> set new" if "r \<in> set (wq_receipts q)" "receipt_key r \<notin> ?keys" for r using that rs by blast
  have heads: "artifact_head ?keys (wq_receipts q) (rc_type r) start = (Some (rc_id r), Some (rc_path r))"
    if r: "r \<in> set new" for r start
  proof (rule artifact_head_one)
    show "r' = r" if "r' \<in> set (wq_receipts q)" "receipt_key r' \<notin> ?keys" "rc_type r' = rc_type r" for r'
      using fresh[OF that(1,2)] that(3) r res by (auto simp: reservable_def inj_on_def)
  qed (use r rs nk in auto)
  have of_type: "\<exists>r \<in> set new. rc_type r = ty" if "ty \<in> reservation_types cause" for ty
    using that res by (metis imageE reservable_def)
  have typed: "workflow_artifact_heads (Some h) (wq_receipts q) ty =
      (Some (rc_id (newest ord h ?e ty)), Some (rc_path (newest ord h ?e ty)))" if ty: "ty \<in> reservation_types cause" for ty
  proof -
    obtain r where r: "r \<in> set new" "rc_type r = ty" using of_type[OF ty] by blast
    then show ?thesis using heads[OF r(1)] newest[OF r(1)] by (simp add: workflow_artifact_heads_def)
  qed
  show thesis
  proof (cases "cause = TERMINAL_RESERVATION")
    case True
    let ?u = "\<lparr>up_phase = TERMINAL_RESERVED, up_terminal_at = Some (ee_recorded_at ?e),
       up_event_id = Some (rc_id (newest ord h ?e ''workflow-event'')),
       up_event_path = Some (rc_path (newest ord h ?e ''workflow-event'')),
       up_state_id = Some (rc_id (newest ord h ?e ''workflow-state'')),
       up_state_path = Some (rc_path (newest ord h ?e ''workflow-state'')),
       up_outcome_id = Some (rc_id (newest ord h ?e ''workflow-outcome'')),
       up_outcome_path = Some (rc_path (newest ord h ?e ''workflow-outcome''))\<rparr>"
    have "terminal_update ord h ?e = Inr ?u"
      unfolding terminal_update_iff using phase src started True adds by (simp add: reservation_types_def)
    then have "epoch_update ord (Some h) ?e = Inr ?u" using chain True by (simp add: epoch_update_def)
    moreover have "projects ?u ?e" using typed True by (simp add: projects_def next_event_heads reservation_types_def)
    ultimately show thesis using that[of ?u] True by (simp add: reservation_phase_def)
  next
    case False
    then have c: "cause = TRANSITION_RESERVATION" using cause by simp
    let ?u = "(prior_update h)\<lparr>up_phase := TRANSITION_RESERVED,
       up_event_id := Some (rc_id (newest ord h ?e ''workflow-event'')),
       up_event_path := Some (rc_path (newest ord h ?e ''workflow-event'')),
       up_state_id := Some (rc_id (newest ord h ?e ''workflow-state'')),
       up_state_path := Some (rc_path (newest ord h ?e ''workflow-state''))\<rparr>"
    have "transition_update ord h ?e = Inr ?u"
      unfolding transition_update_iff using phase src c adds by (simp add: reservation_types_def)
    then have "epoch_update ord (Some h) ?e = Inr ?u" using chain c by (simp add: epoch_update_def)
    moreover have "artifact_head ?keys (wq_receipts q) ''workflow-outcome'' (eh_outcome_id h, eh_outcome_path h) =
        (eh_outcome_id h, eh_outcome_path h)"
    proof (rule artifact_head_none)
      fix r assume "r \<in> set (wq_receipts q)" "receipt_key r \<notin> ?keys"
      then have "rc_type r \<in> reservation_types cause" using fresh res by (auto simp: reservable_def)
      then show "rc_type r \<noteq> ''workflow-outcome''" by (auto simp: c reservation_types_def)
    qed
    then have "workflow_artifact_heads (Some h) (wq_receipts q) ''workflow-outcome'' = (eh_outcome_id h, eh_outcome_path h)"
      by (simp add: workflow_artifact_heads_def)
    then have "projects ?u ?e"
      using typed c by (simp add: projects_def next_event_heads reservation_types_def prior_update_def)
    ultimately show thesis using that[of ?u] c by (simp add: reservation_phase_def prior_update_def)
  qed
qed

section \<open>Times and pins\<close>

lemma timestamp_progress:
  assumes "wf_timestamp t"
  obtains recorded where "workflow_timestamp t = Inr recorded" "wf_recorded recorded"
  using assms canonical_timestamp_wf[OF assms] by (simp add: workflow_timestamp_def parse_utc_timestamp)

text \<open>The scheduler authority still stands where the head pinned it.\<close>

definition at_pin :: "workflow_store \<Rightarrow> workflow_epoch_head \<Rightarrow> bool" where
  "at_pin s h = (current_triple (ws_authority s) = Inr (head_triple h))"

lemma ordered_same: "wf_receipts rs \<Longrightarrow> ordered_workflow_receipts rs = rs"
proof -
  assume "wf_receipts rs"
  then have "map receipt_order rs = sort (map receipt_order rs)" by (simp add: wf_receipts_def receipts_canonical_def)
  then have "sorted (map receipt_order rs)" by (metis sorted_sort)
  then show ?thesis unfolding ordered_workflow_receipts_def by (rule sort_key_id_if_sorted)
qed

lemma head_request_wf:
  assumes "sound_head n plan h"
  shows "wf_request (head_request h (eh_receipts h))"
proof -
  obtain a u where a: "wf_epoch_artifact a" and h: "h = head_of u a" using assms by (auto simp: sound_head_def)
  have e: "wf_epoch_event (snd a)" using a by (rule epoch_artifact_event)
  then have "ordered_workflow_receipts (ee_receipts (snd a)) = ee_receipts (snd a)"
    by (intro ordered_same) (simp add: wf_epoch_event_def)
  then show ?thesis using e by (simp add: h wf_epoch_event_def wf_request_def head_request_def)
qed

lemma sound_state:
  assumes "sound_head n plan h"
  shows "pred_option (wf_workflow_id ''workflow-state'') (eh_workflow_state_id h)"
  using sound_head_wf(4)[OF assms] by (simp add: wf_heads_def)

lemma head_request_authority:
  assumes valid: "validate_store ord s = Inr ()" and rep: "replay_workflow_epochs ord (ws_rows s) = Inr heads"
    and h: "map_of heads plan = Some h" and pin: "at_pin s h"
  shows "require_scheduler_head s (head_request h rs) = Inr ()"
proof -
  have "(plan, h) \<in> set heads" using h by (rule map_of_SomeD)
  then have "eh_graph_id h = au_graph_id (ws_authority s)" "eh_candidate h = au_candidate (ws_authority s)"
    using valid by (auto simp: validate_store_def result_simps evidence_iff[OF rep])
  then show ?thesis using pin by (simp add: scheduler_head_iff at_pin_def head_triple_def head_request_def)
qed

section \<open>Confirmations\<close>

lemma distinct_set_singleton: "distinct xs \<Longrightarrow> (\<And>x. x \<in> set xs \<longleftrightarrow> x = a) \<Longrightarrow> xs = [a]"
proof -
  assume d: "distinct xs" and x: "\<And>x. x \<in> set xs \<longleftrightarrow> x = a"
  then have "set xs = {a}" by blast
  moreover have "length xs = 1" using distinct_card[OF d] calculation by simp
  ultimately show "xs = [a]" by (cases xs) simp_all
qed

lemma confirm_receipts_keys: "receipt_key ` set (ordered_workflow_receipts (confirm_receipts i p rs)) = receipt_key ` set rs"
  unfolding ordered_workflow_receipts_def confirm_receipts_def set_sort set_map image_image
  by (rule image_cong) (simp_all add: receipt_key_def)

lemma confirm_event:
  assumes inv: "epoch_invariant h" and r: "r \<in> set (eh_receipts h)" "rc_status r = RESERVED"
    and rs: "rs = ordered_workflow_receipts (confirm_receipts (rc_id r) (rc_path r) (eh_receipts h))"
    and chain: "chain_continues h (next_event (Some h) n ARTIFACT_PUBLICATION_CONFIRMED (head_request h rs) t pre) = Inr ()"
  obtains u where "epoch_update ord (Some h) (next_event (Some h) n ARTIFACT_PUBLICATION_CONFIRMED (head_request h rs) t pre) = Inr u"
    "projects u (next_event (Some h) n ARTIFACT_PUBLICATION_CONFIRMED (head_request h rs) t pre)"
    "u\<lparr>up_phase := eh_phase h\<rparr> = prior_update h"
    "up_phase u = (if eh_phase h = TERMINAL_RESERVED then TERMINAL_RESERVED
       else if reserved_keys (eh_receipts h) = {receipt_key r} then ACTIVE else eh_phase h)"
    "set rs = (\<lambda>x. if x = r then r\<lparr>rc_status := CONFIRMED\<rparr> else x) ` set (eh_receipts h)"
    "wf_receipts rs" "reserved_keys rs = reserved_keys (eh_receipts h) - {receipt_key r}"
proof -
  let ?e = "next_event (Some h) n ARTIFACT_PUBLICATION_CONFIRMED (head_request h rs) t pre"
  let ?old = "eh_receipts h" and ?f = "\<lambda>x. if x = r then r\<lparr>rc_status := CONFIRMED\<rparr> else x"
  have wf: "wf_receipts ?old" using inv by (simp add: epoch_invariant_def)
  have only: "matches_receipt (rc_id r) (rc_path r) x \<longleftrightarrow> x = r" if "x \<in> set ?old" for x
    using wf_receipts_paths[OF wf] that r(1) by (auto simp: distinct_map inj_on_def matches_receipt_def)
  have cr: "confirm_receipts (rc_id r) (rc_path r) ?old = map ?f ?old"
    unfolding confirm_receipts_def by (rule map_cong) (simp_all add: only)
  have set: "set rs = ?f ` set ?old" by (simp add: rs cr ordered_workflow_receipts_def)
  have order: "receipt_order (?f x) = receipt_order x" "casefold (rc_path (?f x)) = casefold (rc_path x)"
    "receipt_key (?f x) = receipt_key x" "wf_receipt (?f x) = wf_receipt x" for x
    by (simp_all add: receipt_order_def receipt_key_def wf_receipt_def)
  have wfr: "wf_receipts rs"
    unfolding rs cr
  proof (rule wf_receipts_ordered)
    show "distinct (map (casefold \<circ> rc_path) (map ?f ?old))"
      using wf_receipts_paths[OF wf] order(2) by (simp add: comp_def)
    show "list_all wf_receipt (map ?f ?old)" using wf by (simp only: wf_receipts_def list.pred_map comp_def order(4))
  qed (use wf in \<open>simp_all add: wf_receipts_def\<close>)
  have keys: "receipt_key ` set rs = receipt_key ` set ?old" unfolding set image_image order(3) ..
  have new: "status_of rs (receipt_key x) = rc_status (?f x)" if "x \<in> set ?old" for x
    using status_of_receipt[OF wfr, of "?f x"] that unfolding set order(3) by blast
  have same: "receipt_key x = receipt_key r \<longleftrightarrow> x = r" if "x \<in> set ?old" for x
    using distinct_by_path(1)[OF wf_receipts_paths[OF wf]] that r(1) by (auto simp: distinct_map inj_on_def)
  have diff: "rc_status (?f x) \<noteq> rc_status x \<longleftrightarrow> x = r" for x using r(2) by simp
  have changed: "k \<in> set (changed_keys ?old rs) \<longleftrightarrow> k = receipt_key r" for k
  proof -
    have "k \<in> set (changed_keys ?old rs) \<longleftrightarrow>
        (\<exists>x \<in> set ?old. k = receipt_key x \<and> status_of rs k \<noteq> status_of ?old k)"
      unfolding changed_keys_def set_filter receipt_keys_set keys by blast
    also have "\<dots> \<longleftrightarrow> (\<exists>x \<in> set ?old. k = receipt_key x \<and> x = r)"
      using new status_of_receipt[OF wf] diff by (intro bex_cong refl conj_cong) simp_all
    finally show ?thesis using r(1) by blast
  qed
  have "distinct (changed_keys ?old rs)" by (simp add: changed_keys_def receipt_keys_def)
  then have one: "changed_keys ?old rs = [receipt_key r]"
    by (rule distinct_set_singleton) (rule changed)
  have er: "ee_receipts ?e = rs" by (simp add: ordered_same[OF wfr])
  have reservation: "same_reservation h ?e"
    using keys by (simp add: same_reservation_def ordered_same[OF wfr] head_request_def)
  let ?u = "if eh_phase h \<noteq> TERMINAL_RESERVED then
            (prior_update h)\<lparr>up_phase :=
              if list_all (\<lambda>k. status_of (ee_receipts ?e) k = CONFIRMED) (receipt_keys (ee_receipts ?e))
              then ACTIVE else eh_phase h\<rparr>
          else prior_update h"
  have c: "confirmation_update h ?e = Inr ?u"
    using reservation one status_of_receipt[OF wf r(1)] r(2) new[OF r(1)]
    by (simp add: confirmation_update_def Let_def ordered_same[OF wfr])
  have wfe: "wf_receipts (ee_receipts ?e)" unfolding er by (rule wfr)
  note facts = confirmation_facts[OF c wfe wf]
  have "reserved_keys rs = reserved_keys ?old - {receipt_key r}"
  proof -
    obtain k where k: "k \<in> reserved_keys ?old" "reserved_keys rs = reserved_keys ?old - {k}" using facts(2) unfolding er by blast
    have "receipt_key r \<notin> reserved_keys rs" unfolding reserved_keys_iff[OF wfr] using new[OF r(1)] by simp
    moreover have "receipt_key r \<in> reserved_keys ?old" using r by (simp add: reserved_keys_def)
    ultimately show ?thesis using k by blast
  qed
  moreover have "epoch_update ord (Some h) ?e = Inr ?u" using chain c by (simp add: epoch_update_def)
  moreover have "projects ?u ?e"
  proof (rule prior_projects)
    show "?u\<lparr>up_phase := eh_phase h\<rparr> = prior_update h" by (simp add: prior_update_def)
  qed (simp add: keys)
  moreover have "up_phase ?u = (if eh_phase h = TERMINAL_RESERVED then TERMINAL_RESERVED
       else if reserved_keys ?old = {receipt_key r} then ACTIVE else eh_phase h)"
    using facts(3) calculation(1) r unfolding er by (auto simp: reserved_keys_def)
  ultimately show thesis using that[of ?u] facts(4) set wfr by simp
qed

section \<open>Operations that succeed\<close>

text \<open>A validated store, the head of a plan and room for the next event no earlier than the last.\<close>

definition ready :: "set_order \<Rightarrow> workflow_store \<Rightarrow> string \<Rightarrow> workflow_epoch_head \<Rightarrow> string \<Rightarrow> bool" where
  "ready ord s plan h t = (validate_store ord s = Inr () \<and> length (ws_rows s) < 2147483646 \<and> at_pin s h \<and>
     wf_timestamp t \<and> instant (eh_recorded_at h) \<le> instant (projr (workflow_timestamp t)) \<and>
     (\<exists>heads. replay_workflow_epochs ord (ws_rows s) = Inr heads \<and> map_of heads plan = Some h \<and>
        call_scope heads plan))"

lemma readyE:
  assumes "ready ord s plan h t" and "iteration_order ord"
  obtains recorded heads where "validate_store ord s = Inr ()" "length (ws_rows s) < 2147483646" "at_pin s h"
    "workflow_timestamp t = Inr recorded" "wf_recorded recorded" "instant (eh_recorded_at h) \<le> instant recorded"
    "replay_workflow_epochs ord (ws_rows s) = Inr heads" "map_of heads plan = Some h" "call_scope heads plan"
    "sound_head (length (ws_rows s)) plan h"
proof -
  obtain recorded where r: "workflow_timestamp t = Inr recorded" "wf_recorded recorded"
    using timestamp_progress assms(1) by (auto simp: ready_def)
  obtain heads where h: "replay_workflow_epochs ord (ws_rows s) = Inr heads" "map_of heads plan = Some h"
    "call_scope heads plan" using assms(1) by (auto simp: ready_def)
  show thesis
    by (rule that[OF _ _ _ r _ h head_receipts_distinct(1)[OF assms(2) h(1,2)]])
      (use assms(1) r in \<open>simp_all add: ready_def\<close>)
qed

text \<open>After an append the head is the newest event, at the time of the call.\<close>

lemma ready_again:
  assumes "head_carries h q recorded" and "workflow_timestamp t = Inr recorded" and "wf_timestamp t"
    and "validate_store ord s' = Inr ()" and "ws_authority s' = ws_authority s"
    and "require_scheduler_head s q = Inr ()" and "length (ws_rows s') < 2147483646"
    and "replay_workflow_epochs ord (ws_rows s') = Inr (upsert (wq_plan_id q) h heads)"
    and "iteration_order ord" and "replay_workflow_epochs ord (ws_rows s) = Inr heads" and "call_scope heads (wq_plan_id q)"
  shows "ready ord s' (wq_plan_id q) h t"
proof -
  have "at_pin s' h" using assms(1,5,6) by (simp add: at_pin_def scheduler_head_iff head_carries_def head_triple_def)
  moreover have "call_scope (upsert (wq_plan_id q) h heads) (wq_plan_id q)"
    using scope_again[OF assms(9,10,11)] assms(1) unfolding call_scope_def head_carries_def by blast
  ultimately show ?thesis using assms(1-4,7,8) by (simp add: ready_def head_carries_def map_of_upsert)
qed

lemma confirm_progress:
  assumes ready: "ready ord s plan h t" and ord: "iteration_order ord" and r: "r \<in> set (eh_receipts h)"
    and ty: "ty = None \<or> ty = Some (rc_type r)" and producer: "producer = None \<or> producer = Some (rc_producer r)"
  obtains s' h' where
    "confirm_workflow_artifact ord s plan (eh_current_event_head_id h) (rc_id r) (rc_path r)
       (eh_idempotency_key h) t ty producer = Inr (s', h')"
    "length (ws_rows s') \<le> Suc (length (ws_rows s))"
    "length (ws_rows s') < 2147483646 \<longrightarrow> ready ord s' plan h' t"
    "eh_terminal_at h' = eh_terminal_at h" "eh_idempotency_key h' = eh_idempotency_key h"
    "eh_producer h' = eh_producer h" "eh_source_state_id h' = eh_source_state_id h"
    "eh_workflow_state_id h' = eh_workflow_state_id h"
    "ws_authority s' = ws_authority s" "receipt_key ` set (eh_receipts h') = receipt_key ` set (eh_receipts h)"
    "reserved_keys (eh_receipts h') = reserved_keys (eh_receipts h) - {receipt_key r}"
    "rc_status r = RESERVED \<longrightarrow> eh_phase h' = (if eh_phase h = TERMINAL_RESERVED then TERMINAL_RESERVED
       else if reserved_keys (eh_receipts h) = {receipt_key r} then ACTIVE else eh_phase h)"
    "rc_status r = CONFIRMED \<longrightarrow> h' = h"
    "rc_status r = RESERVED \<longrightarrow> eh_recorded_at h' = projr (workflow_timestamp t)"
proof -
  obtain recorded heads where v: "validate_store ord s = Inr ()" and len: "length (ws_rows s) < 2147483646"
    and pin: "at_pin s h" and t: "workflow_timestamp t = Inr recorded" "wf_recorded recorded"
    and time: "instant (eh_recorded_at h) \<le> instant recorded"
    and rep: "replay_workflow_epochs ord (ws_rows s) = Inr heads" and h: "map_of heads plan = Some h"
    and scope: "call_scope heads plan" and sound: "sound_head (length (ws_rows s)) plan h"
    by (rule readyE[OF ready ord])
  have inv: "epoch_invariant h" and plan: "eh_plan_id h = plan" and wfh: "wf_recorded (eh_recorded_at h)"
    and wfr: "wf_receipts (eh_receipts h)" using sound_head_wf[OF sound] by blast+
  have wft: "wf_timestamp t" using ready by (simp add: ready_def)
  have only: "x = r" if "x \<in> set (eh_receipts h)" "matches_receipt (rc_id r) (rc_path r) x" for x
    using wf_receipts_paths[OF wfr] that r by (auto simp: distinct_map inj_on_def matches_receipt_def)
  have "\<exists>x. find (matches_receipt (rc_id r) (rc_path r)) (eh_receipts h) = Some x"
    using r by (cases "find (matches_receipt (rc_id r) (rc_path r)) (eh_receipts h)")
      (auto simp: find_None_iff matches_receipt_def)
  then have find: "find (matches_receipt (rc_id r) (rc_path r)) (eh_receipts h) = Some r"
    using only by (metis find_Some_iff nth_mem)
  have acc: "receipt_accepted h r ty producer (eh_idempotency_key h)"
    using ty producer by (auto simp: receipt_accepted_def)
  note scope' = scope[unfolded call_scope_def]
  show thesis
  proof (cases "rc_status r = CONFIRMED")
    case True
    have "receipt_key r \<notin> reserved_keys (eh_receipts h)"
      using r True status_of_receipt[OF wfr r] by (simp add: reserved_keys_iff[OF wfr])
    moreover have "confirm_workflow_artifact ord s plan (eh_current_event_head_id h) (rc_id r) (rc_path r)
       (eh_idempotency_key h) t ty producer = Inr (s, h)"
      unfolding confirm_result using t v rep scope' h find acc True by auto
    ultimately show thesis using that[of s h] ready True by simp
  next
    case False
    then have res: "rc_status r = RESERVED" by (cases "rc_status r") simp_all
    let ?rs = "ordered_workflow_receipts (confirm_receipts (rc_id r) (rc_path r) (eh_receipts h))"
    let ?q = "head_request h ?rs" and ?f = "\<lambda>x. if x = r then r\<lparr>rc_status := CONFIRMED\<rparr> else x"
    let ?e = "next_event (Some h) (next_sequence s) ARTIFACT_PUBLICATION_CONFIRMED ?q recorded none_predecessor"
    have keys: "receipt_key ` set ?rs = receipt_key ` set (eh_receipts h)" by (rule confirm_receipts_keys)
    have "same_epoch h ?q" by (simp add: same_epoch_def head_request_def)
    from chain_progress[OF this wfh t(2) time] have
      chain: "chain_continues h ?e = Inr ()" by (simp add: keys)
    obtain u where upd: "epoch_update ord (Some h) ?e = Inr u" and pr: "projects u ?e"
      and same: "u\<lparr>up_phase := eh_phase h\<rparr> = prior_update h"
      and phase: "up_phase u = (if eh_phase h = TERMINAL_RESERVED then TERMINAL_RESERVED
         else if reserved_keys (eh_receipts h) = {receipt_key r} then ACTIVE else eh_phase h)"
      and wfn: "wf_receipts ?rs" and left: "reserved_keys ?rs = reserved_keys (eh_receipts h) - {receipt_key r}"
      by (rule confirm_event[OF inv r res HOL.refl chain])
    have wq: "wf_request ?q"
      using head_request_wf[OF sound] wfn by (simp add: wf_request_def head_request_def ordered_same)
    have auth: "require_scheduler_head s ?q = Inr ()" by (rule head_request_authority[OF v rep h pin])
    have here: "map_of heads (wq_plan_id ?q) = Some h" "wq_plan_id ?q = plan" using h plan by simp_all
    obtain s' h' where app: "append_workflow_event ord s ARTIFACT_PUBLICATION_CONFIRMED ?q recorded none_predecessor = Inr (s', h')"
      and v': "validate_store ord s' = Inr ()" and ph: "eh_phase h' = up_phase u" and tt: "eh_terminal_at h' = up_terminal_at u"
      and carries: "head_carries h' ?q recorded" and au: "ws_authority s' = ws_authority s"
      and rows: "length (ws_rows s') = Suc (length (ws_rows s))"
      and rep': "replay_workflow_epochs ord (ws_rows s') = Inr (upsert (wq_plan_id ?q) h' heads)"
      and st: "eh_workflow_state_id h' = up_state_id u"
      by (rule append_progress[OF ord v rep wq t(2) len, of none_predecessor]) (use here auth scope upd pr in simp_all)
    have call: "confirm_workflow_artifact ord s plan (eh_current_event_head_id h) (rc_id r) (rc_path r)
       (eh_idempotency_key h) t ty producer = Inr (s', h')"
      unfolding confirm_result
      using t(1) v v' rep scope' h find acc res app pin
      by (auto simp: require_unchanged_scheduler_head_def at_pin_def result_simps)
    have recs: "eh_receipts h' = ?rs" using carries by (simp add: head_carries_def ordered_same[OF wfn])
    have "ready ord s' plan h' t" if "length (ws_rows s') < 2147483646"
      using ready_again[OF carries t(1) wft v' au auth that rep' ord rep] scope unfolding here(2) .
    moreover have "up_terminal_at u = eh_terminal_at h" "up_state_id u = eh_workflow_state_id h"
      using same by (cases u, simp add: prior_update_def)+
    ultimately show thesis
      using that[OF call] rows ph tt st phase au carries recs keys left res t(1) by (simp add: head_carries_def head_request_def)
  qed
qed

lemma closing_progress:
  assumes ready: "ready ord s plan h t" and ord: "iteration_order ord" and phase: "eh_phase h = TERMINAL_RESERVED"
    and conf: "all_confirmed h" and at: "workflow_timestamp t = Inr recorded" "eh_terminal_at h = Some recorded"
    and producer: "producer = None \<or> producer = Some (eh_producer h)"
  obtains s' h' where
    "confirm_workflow_terminal ord s plan (eh_current_event_head_id h) (eh_idempotency_key h) t producer = Inr (s', h')"
    "eh_phase h' = TERMINAL_CONFIRMED" "eh_receipts h' = eh_receipts h" "ws_authority s' = ws_authority s"
    "length (ws_rows s') = Suc (length (ws_rows s))" "validate_store ord s' = Inr ()"
    "workflow_head ord s' plan = Inr (Some h')"
proof -
  obtain recorded' heads where v: "validate_store ord s = Inr ()" and len: "length (ws_rows s) < 2147483646"
    and pin: "at_pin s h" and t': "workflow_timestamp t = Inr recorded'" "wf_recorded recorded'"
    and time: "instant (eh_recorded_at h) \<le> instant recorded'"
    and rep: "replay_workflow_epochs ord (ws_rows s) = Inr heads" and h: "map_of heads plan = Some h"
    and scope: "call_scope heads plan" and sound: "sound_head (length (ws_rows s)) plan h"
    by (rule readyE[OF ready ord])
  have [simp]: "recorded' = recorded" using t'(1) at(1) by simp
  have plan: "eh_plan_id h = plan" and wfh: "wf_recorded (eh_recorded_at h)" and wfr: "wf_receipts (eh_receipts h)"
    using sound_head_wf[OF sound] by blast+
  let ?q = "head_request h (eh_receipts h)"
  let ?e = "next_event (Some h) (next_sequence s) TERMINAL_CONFIRMATION ?q recorded none_predecessor"
  define u where "u = (prior_update h)\<lparr>up_phase := TERMINAL_CONFIRMED\<rparr>"
  have "same_epoch h ?q" by (simp add: same_epoch_def head_request_def)
  from chain_progress[OF this wfh t'(2) time] have chain: "chain_continues h ?e = Inr ()" by simp
  have "same_reservation h ?e" by (simp add: same_reservation_def ordered_same[OF wfr] head_request_def)
  then have "closing_update h ?e = Inr u"
    using phase conf at(2) by (simp add: u_def closing_update_def ordered_same[OF wfr] all_confirmed_def list_all_iff)
  then have upd: "epoch_update ord (Some h) ?e = Inr u" using chain by (simp add: epoch_update_def)
  have pr: "projects u ?e" by (rule prior_projects[where p = "eh_phase h"]) (simp_all add: u_def prior_update_def)
  have auth: "require_scheduler_head s ?q = Inr ()" by (rule head_request_authority[OF v rep h pin])
  have here: "map_of heads (wq_plan_id ?q) = Some h" "wq_plan_id ?q = plan" using h plan by simp_all
  obtain s' h' where app: "append_workflow_event ord s TERMINAL_CONFIRMATION ?q recorded none_predecessor = Inr (s', h')"
    and v': "validate_store ord s' = Inr ()" and ph: "eh_phase h' = up_phase u"
    and carries: "head_carries h' ?q recorded" and au: "ws_authority s' = ws_authority s"
    and rows: "length (ws_rows s') = Suc (length (ws_rows s))"
    and rep': "replay_workflow_epochs ord (ws_rows s') = Inr (upsert (wq_plan_id ?q) h' heads)"
    by (rule append_progress[OF ord v rep head_request_wf[OF sound] t'(2) len, of none_predecessor])
      (use here auth scope upd pr in simp_all)
  have acc: "terminal_accepted h (eh_idempotency_key h) recorded producer"
    using producer at(2) by (auto simp: terminal_accepted_def)
  have call: "confirm_workflow_terminal ord s plan (eh_current_event_head_id h) (eh_idempotency_key h) t producer = Inr (s', h')"
    unfolding closed_result
    using at(1) v v' rep scope[unfolded call_scope_def] h acc phase conf app pin
    by (auto simp: require_unchanged_scheduler_head_def at_pin_def result_simps)
  have "workflow_head ord s' plan = Inr (Some h')" using rep' here(2) by (simp add: workflow_head_def map_of_upsert)
  then show thesis
    using that[OF call _ _ au rows v'] ph carries by (simp add: u_def head_carries_def ordered_same[OF wfr])
qed

lemma reserve_progress:
  assumes ready: "ready ord s (wq_plan_id q) h t" and ord: "iteration_order ord"
    and cause: "cause \<in> {TRANSITION_RESERVATION, TERMINAL_RESERVATION}" and phase: "eh_phase h \<in> {OPEN, ACTIVE}"
    and new: "reservable cause h (wq_receipts q)" and src: "wq_source_state_id q = eh_workflow_state_id h"
    and started: "cause = TERMINAL_RESERVATION \<Longrightarrow> eh_workflow_state_id h \<noteq> None"
    and key: "wf_workflow_key (wq_idempotency_key q)" "wf_choice workflow_producers (wq_producer q)"
    and pin: "head_triple h = (wq_scheduler_state_id q, wq_scheduler_event_sequence q, wq_scheduler_event_head_id q)"
  obtains s' h' where
    "reserve_workflow_change ord s cause {OPEN, ACTIVE} q (eh_current_event_head_id h) t = Inr (s', h')"
    "eh_phase h' = reservation_phase cause" "length (ws_rows s') < 2147483646 \<longrightarrow> ready ord s' (wq_plan_id q) h' t"
    "eh_terminal_at h' = (if cause = TERMINAL_RESERVATION then Some (projr (workflow_timestamp t)) else eh_terminal_at h)"
    "eh_idempotency_key h' = wq_idempotency_key q" "eh_producer h' = wq_producer q" "eh_workflow_state_id h' \<noteq> None"
    "set (eh_receipts h') = set (eh_receipts h) \<union> set (wq_receipts q)" "ws_authority s' = ws_authority s"
    "length (ws_rows s') = Suc (length (ws_rows s))" "head_triple h' = head_triple h"
    "wf_receipts (eh_receipts h')" "eh_source_state_id h' = wq_source_state_id q"
    "eh_recorded_at h' = projr (workflow_timestamp t)"
proof -
  obtain recorded heads where v: "validate_store ord s = Inr ()" and len: "length (ws_rows s) < 2147483646"
    and at: "at_pin s h" and t: "workflow_timestamp t = Inr recorded" "wf_recorded recorded"
    and time: "instant (eh_recorded_at h) \<le> instant recorded"
    and rep: "replay_workflow_epochs ord (ws_rows s) = Inr heads" and h: "map_of heads (wq_plan_id q) = Some h"
    and scope: "call_scope heads (wq_plan_id q)" and sound: "sound_head (length (ws_rows s)) (wq_plan_id q) h"
    by (rule readyE[OF ready ord])
  have inv: "epoch_invariant h" and plan: "eh_plan_id h = wq_plan_id q" and wfh: "wf_recorded (eh_recorded_at h)"
    and wfr: "wf_receipts (eh_receipts h)" using sound_head_wf[OF sound] by blast+
  have wft: "wf_timestamp t" using ready by (simp add: ready_def)
  obtain merged where m: "merge_workflow_receipts (eh_receipts h) (wq_receipts q) = Inr merged"
    and set: "set merged = set (eh_receipts h) \<union> set (wq_receipts q)" and paths: "distinct (map (casefold \<circ> rc_path) merged)"
    and lm: "length merged = length (eh_receipts h) + length (wq_receipts q)"
    using new merge_progress by (auto simp: reservable_def)
  have wfm: "wf_receipts (ordered_workflow_receipts merged)"
  proof (rule wf_receipts_ordered)
    show "list_all wf_receipt merged" using set new wfr by (auto simp: reservable_def wf_receipts_def list_all_iff)
    show "merged \<noteq> []" using set wfr by (auto simp: wf_receipts_def)
  qed (use lm new paths in \<open>simp_all add: reservable_def\<close>)
  let ?q = "(head_authority h q)\<lparr>wq_receipts := merged\<rparr>"
  have wq: "wf_request ?q"
    using head_request_wf[OF sound] wfm key pin src sound_state[OF sound] plan
    by (simp add: wf_request_def head_request_def head_authority_def head_triple_def)
  have se: "same_epoch h ?q" by (simp add: same_epoch_def head_authority_def plan)
  let ?e = "next_event (Some h) (next_sequence s) cause ?q recorded none_predecessor"
  have "receipt_key ` set (eh_receipts h) \<subseteq> receipt_key ` set (wq_receipts ?q)" using set by auto
  then have chain: "chain_continues h ?e = Inr ()" by (rule chain_progress[OF se wfh t(2) time])
  obtain u where upd: "epoch_update ord (Some h) ?e = Inr u" and pr: "projects u ?e"
    and up: "up_phase u = reservation_phase cause"
    and ut: "up_terminal_at u = (if cause = TERMINAL_RESERVATION then Some recorded else eh_terminal_at h)"
    and us: "up_state_id u \<noteq> None"
    by (rule reservation_event[OF ord inv new cause phase _ started _ _ chain])
      (use src set wfm in \<open>simp_all add: head_authority_def\<close>)
  have auth: "require_scheduler_head s (head_authority h q) = Inr ()"
    using head_request_authority[OF v rep h at, of "[]"] pin
    by (simp add: scheduler_head_iff head_authority_def head_request_def head_triple_def)
  then have auth': "require_scheduler_head s ?q = Inr ()" by (simp add: scheduler_head_iff)
  have here: "wq_plan_id ?q = wq_plan_id q" by (simp add: head_authority_def)
  obtain s' h' where app: "append_workflow_event ord s cause ?q recorded none_predecessor = Inr (s', h')"
    and v': "validate_store ord s' = Inr ()" and ph: "eh_phase h' = up_phase u" and tt: "eh_terminal_at h' = up_terminal_at u"
    and carries: "head_carries h' ?q recorded" and au: "ws_authority s' = ws_authority s"
    and rows: "length (ws_rows s') = Suc (length (ws_rows s))"
    and rep': "replay_workflow_epochs ord (ws_rows s') = Inr (upsert (wq_plan_id ?q) h' heads)"
    and st: "eh_workflow_state_id h' = up_state_id u"
    by (rule append_progress[OF ord v rep wq t(2) len, of none_predecessor])
      (use here h auth' scope upd pr in simp_all)
  have idle: "pending_terminals heads = []"
  proof (rule ccontr)
    assume "pending_terminals heads \<noteq> []"
    then obtain p where p: "pending_terminals heads = [p]" "eh_plan_id p = wq_plan_id q" using scope by (auto simp: call_scope_def)
    have "p \<in> set (pending_terminals heads)" using p(1) by simp
    then obtain k where k: "(k, p) \<in> set heads" "eh_phase p = TERMINAL_RESERVED" by (auto simp: pending_terminals_def)
    have d: "distinct (map fst heads)" "k = eh_plan_id p"
      using store_replay_sound[OF ord rep] k by (auto simp: sound_heads_def sound_head_def)
    then have "map_of heads (wq_plan_id q) = Some p" using k(1) p(2) by simp
    then show False using h phase k(2) by auto
  qed
  obtain r where r: "r \<in> set (wq_receipts q)" using new cause by (force simp: reservable_def reservation_types_def split: if_splits)
  have "receipt_key r \<notin> receipt_key ` set (eh_receipts h)"
    using new_keys r new by (auto simp: reservable_def)
  then have fresh: "\<not> already_reserved cause h q recorded"
    using r by (auto simp: already_reserved_def same_workflow_request_def head_authority_def)
  have call: "reserve_workflow_change ord s cause {OPEN, ACTIVE} q (eh_current_event_head_id h) t = Inr (s', h')"
    unfolding reserve_result using t(1) v v' rep idle h fresh phase auth m app by auto
  have recs: "eh_receipts h' = ordered_workflow_receipts merged" using carries by (simp add: head_carries_def)
  show thesis
    using that[OF call] ph up tt ut st us au rows recs set wfm carries t(1) pin
      ready_again[OF carries t(1) wft v' au auth' _ rep' ord rep] scope
    unfolding here by (simp add: head_carries_def head_authority_def head_triple_def ordered_workflow_receipts_def)
qed

section \<open>Opening an epoch\<close>

lemma open_progress:
  assumes ord: "iteration_order ord" and v: "validate_store ord s = Inr ()" and len: "length (ws_rows s) < 2147483645"
    and rep: "replay_workflow_epochs ord (ws_rows s) = Inr heads" and none: "map_of heads (wq_plan_id q) = None"
    and idle: "pending_terminals heads = []" and t: "wf_timestamp t"
    and wf: "wf_request (open_request q i ty path)" and ty: "ty = ''integrated-plan''" "i = wq_plan_id q"
    and auth: "require_scheduler_head s (open_request q i ty path) = Inr ()"
  obtains s' h where "open_workflow_epoch ord s q i ty path t none_predecessor = Inr (s', h)"
    "eh_phase h = OPEN" "ready ord s' (wq_plan_id q) h t" "ws_authority s' = ws_authority s"
    "length (ws_rows s') = Suc (length (ws_rows s))" "eh_idempotency_key h = wq_idempotency_key q"
    "eh_receipts h = [reserved_receipt ty i path (wq_producer q)]" "eh_terminal_at h = None"
proof -
  let ?q = "open_request q i ty path" and ?r = "reserved_receipt ty i path (wq_producer q)"
  obtain recorded where t': "workflow_timestamp t = Inr recorded" "wf_recorded recorded"
    using timestamp_progress[OF t] by blast
  have q: "wq_plan_id ?q = wq_plan_id q" "wq_receipts ?q = [?r]" "wq_idempotency_key ?q = wq_idempotency_key q"
    "wq_source_state_id ?q = None" by (simp_all add: open_request_def)
  have sort1: "ordered_workflow_receipts [?r] = [?r]" by (simp add: ordered_workflow_receipts_def)
  let ?e = "next_event None (next_sequence s) EPOCH_OPENED ?q recorded none_predecessor"
  define u where "u = \<lparr>up_phase = OPEN, up_terminal_at = None, up_event_id = None, up_event_path = None,
     up_state_id = None, up_state_path = None, up_outcome_id = None, up_outcome_path = None\<rparr>"
  have "root_update ?e = Inr u"
    unfolding root_update_iff u_def using ty q sort1
    by (simp add: reserved_receipt_def) (simp add: next_event_def Let_def none_predecessor_def all_or_none_def)
  then have upd: "epoch_update ord (map_of heads (wq_plan_id ?q)) (next_event (map_of heads (wq_plan_id ?q))
      (next_sequence s) EPOCH_OPENED ?q recorded none_predecessor) = Inr u"
    using none q by (simp add: epoch_update_def)
  have "workflow_artifact_heads None [?r] ty' = (None, None)"
    if "ty' \<in> {''workflow-event'', ''workflow-state'', ''workflow-outcome''}" for ty'
    using that ty by (auto simp: workflow_artifact_heads_def artifact_head_def reserved_receipt_def)
  then have pr: "projects u (next_event (map_of heads (wq_plan_id ?q))
      (next_sequence s) EPOCH_OPENED ?q recorded none_predecessor)"
    using none q by (simp add: projects_def next_event_heads u_def)
  have pre: "wf_predecessor none_predecessor" by (simp add: wf_predecessor_def none_predecessor_def all_or_none_def)
  have scope: "call_scope heads (wq_plan_id ?q)" using idle by (simp add: call_scope_def)
  have len': "length (ws_rows s) < 2147483646" using len by simp
  obtain s' h where app: "append_workflow_event ord s EPOCH_OPENED ?q recorded none_predecessor = Inr (s', h)"
    and v': "validate_store ord s' = Inr ()" and ph: "eh_phase h = up_phase u" "eh_terminal_at h = up_terminal_at u"
    and carries: "head_carries h ?q recorded" and au: "ws_authority s' = ws_authority s"
    and rows: "length (ws_rows s') = Suc (length (ws_rows s))"
    and rep': "replay_workflow_epochs ord (ws_rows s') = Inr (upsert (wq_plan_id ?q) h heads)"
    and st: "eh_workflow_state_id h = up_state_id u"
    by (rule append_progress[OF ord v rep wf t'(2) len' pre auth scope upd pr])
  have sound: "distinct (map fst heads)" using store_replay_sound[OF ord rep] by (simp add: sound_heads_def)
  have "\<not> pending_row s"
    using projection_pending[OF _ rep sound] v idle by (simp add: validate_store_def result_simps)
  then have call: "open_workflow_epoch ord s q i ty path t none_predecessor = Inr (s', h)"
    unfolding open_result using t'(1) v v' rep none auth app by auto
  have "length (ws_rows s') < 2147483646" using len rows by simp
  from ready_again[OF carries t'(1) t v' au auth this rep' ord rep scope]
  have "ready ord s' (wq_plan_id q) h t" unfolding q(1) .
  then show thesis using that[OF call] ph au rows carries q sort1 by (simp add: u_def head_carries_def)
qed

end
