(* ===== verification/TerminalPublication.thy ===== *)
theory TerminalPublication
  imports StoreOperations
begin

text \<open>
  The publication of a terminal outcome as a whole: started on an active epoch it completes, and
  interrupted after any of its calls it completes when it is started again.
\<close>

section \<open>Publishing a terminal outcome\<close>

definition terminal_receipts ::
  "workflow_request \<Rightarrow> string \<times> string \<Rightarrow> string \<times> string \<Rightarrow> string \<times> string \<Rightarrow> workflow_receipt list" where
  "terminal_receipts q event state closing =
     [reserved_receipt ''workflow-event'' (fst event) (snd event) (wq_producer q),
      reserved_receipt ''workflow-state'' (fst state) (snd state) (wq_producer q),
      reserved_receipt ''workflow-outcome'' (fst closing) (snd closing) (wq_producer q)]"

definition confirmations ::
  "string \<times> string \<Rightarrow> string \<times> string \<Rightarrow> string \<times> string \<Rightarrow> (string \<times> string \<times> string) list" where
  "confirmations event state closing =
     [(''workflow-event'', event), (''workflow-state'', state), (''workflow-outcome'', closing)]"

definition confirmation_key :: "workflow_request \<Rightarrow> string \<times> string \<times> string \<Rightarrow> receipt_key" where
  "confirmation_key q c = (fst c, fst (snd c), snd (snd c), wq_producer q)"

lemma terminal_keys: "receipt_key ` set (terminal_receipts q event state closing) =
    confirmation_key q ` set (confirmations event state closing)"
  by (simp add: terminal_receipts_def confirmations_def confirmation_key_def receipt_key_def reserved_receipt_def)

text \<open>
  A publication under way: the end is reserved by this request at this time, and only its own
  receipts may still be unconfirmed.
\<close>

definition publishing ::
  "set_order \<Rightarrow> workflow_store \<Rightarrow> workflow_request \<Rightarrow> (string \<times> string \<times> string) list \<Rightarrow> string \<Rightarrow>
   workflow_epoch_head \<Rightarrow> bool" where
  "publishing ord s q cs now h = (ready ord s (wq_plan_id q) h now \<and> eh_phase h = TERMINAL_RESERVED \<and>
     eh_terminal_at h = Some (projr (workflow_timestamp now)) \<and> eh_idempotency_key h = wq_idempotency_key q \<and>
     eh_producer h = wq_producer q \<and> eh_source_state_id h = wq_source_state_id q \<and>
     head_triple h = (wq_scheduler_state_id q, wq_scheduler_event_sequence q, wq_scheduler_event_head_id q) \<and>
     confirmation_key q ` set cs \<subseteq> receipt_key ` set (eh_receipts h) \<and>
     reserved_keys (eh_receipts h) \<subseteq> confirmation_key q ` set cs)"

lemma confirm_step:
  assumes pub: "publishing ord s q cs now h" and ord: "iteration_order ord" and c: "(ty, i, path) \<in> set cs"
    and len: "length (ws_rows s) < 2147483645"
  obtains s' h' where
    "confirm_workflow_artifact ord s (wq_plan_id q) (eh_current_event_head_id h) i path (wq_idempotency_key q) now
       (Some ty) (Some (wq_producer q)) = Inr (s', h')"
    "publishing ord s' q cs now h'" "length (ws_rows s') \<le> Suc (length (ws_rows s))"
    "reserved_keys (eh_receipts h') = reserved_keys (eh_receipts h) - {confirmation_key q (ty, i, path)}"
proof -
  have rdy: "ready ord s (wq_plan_id q) h now" using pub by (simp add: publishing_def)
  have "confirmation_key q (ty, i, path) \<in> receipt_key ` set (eh_receipts h)" using pub c by (auto simp: publishing_def)
  then obtain r where r: "r \<in> set (eh_receipts h)" "receipt_key r = confirmation_key q (ty, i, path)" by auto
  then have f: "rc_type r = ty" "rc_id r = i" "rc_path r = path" "rc_producer r = wq_producer q"
    by (simp_all add: receipt_key_def confirmation_key_def)
  have key: "eh_idempotency_key h = wq_idempotency_key q" using pub by (simp add: publishing_def)
  have unit: "Some ty = None \<or> Some ty = Some (rc_type r)" "Some (wq_producer q) = None \<or> Some (wq_producer q) = Some (rc_producer r)"
    using f by simp_all
  obtain s' h' where call: "confirm_workflow_artifact ord s (wq_plan_id q) (eh_current_event_head_id h) (rc_id r) (rc_path r)
       (eh_idempotency_key h) now (Some ty) (Some (wq_producer q)) = Inr (s', h')"
    and rows: "length (ws_rows s') \<le> Suc (length (ws_rows s))"
    and again: "length (ws_rows s') < 2147483646 \<longrightarrow> ready ord s' (wq_plan_id q) h' now"
    and same: "eh_terminal_at h' = eh_terminal_at h" "eh_idempotency_key h' = eh_idempotency_key h"
      "eh_producer h' = eh_producer h" "eh_source_state_id h' = eh_source_state_id h"
      "eh_workflow_state_id h' = eh_workflow_state_id h" "ws_authority s' = ws_authority s"
    and keys: "receipt_key ` set (eh_receipts h') = receipt_key ` set (eh_receipts h)"
    and left: "reserved_keys (eh_receipts h') = reserved_keys (eh_receipts h) - {receipt_key r}"
    and phase: "rc_status r = RESERVED \<longrightarrow> eh_phase h' = (if eh_phase h = TERMINAL_RESERVED then TERMINAL_RESERVED
       else if reserved_keys (eh_receipts h) = {receipt_key r} then ACTIVE else eh_phase h)"
    and stay: "rc_status r = CONFIRMED \<longrightarrow> h' = h"
    and late: "rc_status r = RESERVED \<longrightarrow> eh_recorded_at h' = projr (workflow_timestamp now)"
    by (rule confirm_progress[OF rdy ord r(1) unit])
  have rdy': "ready ord s' (wq_plan_id q) h' now" using again rows len by simp
  then have "head_triple h' = head_triple h" using rdy same(6) by (simp add: ready_def at_pin_def)
  moreover have "eh_phase h' = TERMINAL_RESERVED"
    using phase stay pub by (cases "rc_status r") (simp_all add: publishing_def)
  ultimately have "publishing ord s' q cs now h'"
    using pub rdy' same keys left by (auto simp: publishing_def)
  then show thesis using that call rows left r(2) key f by simp
qed

lemma confirm_each_progress:
  assumes "iteration_order ord"
  shows "publishing ord s q cs now h \<Longrightarrow> set ds \<subseteq> set cs \<Longrightarrow> length (ws_rows s) + length ds < 2147483646 \<Longrightarrow>
    \<exists>s' h'. confirm_each ord s h (wq_plan_id q) (wq_idempotency_key q) now (wq_producer q) ds = Inr (s', h') \<and>
      publishing ord s' q cs now h' \<and> length (ws_rows s') \<le> length (ws_rows s) + length ds \<and>
      reserved_keys (eh_receipts h') = reserved_keys (eh_receipts h) - confirmation_key q ` set ds"
proof (induction ds arbitrary: s h)
  case (Cons d ds)
  obtain ty i path where d: "d = (ty, i, path)" by (metis surj_pair)
  have c: "(ty, i, path) \<in> set cs" and len: "length (ws_rows s) < 2147483645" using Cons.prems d by auto
  obtain s1 h1 where 1: "confirm_workflow_artifact ord s (wq_plan_id q) (eh_current_event_head_id h) i path (wq_idempotency_key q) now
       (Some ty) (Some (wq_producer q)) = Inr (s1, h1)" "publishing ord s1 q cs now h1"
    "length (ws_rows s1) \<le> Suc (length (ws_rows s))"
    "reserved_keys (eh_receipts h1) = reserved_keys (eh_receipts h) - {confirmation_key q (ty, i, path)}"
    by (rule confirm_step[OF Cons.prems(1) assms c len])
  have "set ds \<subseteq> set cs" "length (ws_rows s1) + length ds < 2147483646" using Cons.prems 1(3) by simp_all
  from Cons.IH[OF 1(2) this] obtain s' h' where
    "confirm_each ord s1 h1 (wq_plan_id q) (wq_idempotency_key q) now (wq_producer q) ds = Inr (s', h')"
    "publishing ord s' q cs now h'" "length (ws_rows s') \<le> length (ws_rows s1) + length ds"
    "reserved_keys (eh_receipts h') = reserved_keys (eh_receipts h1) - confirmation_key q ` set ds" by blast
  then show ?case using 1 d by auto
qed auto

lemma publication_completes:
  assumes pub: "publishing ord s q (confirmations event state closing) now h" and ord: "iteration_order ord"
    and len: "length (ws_rows s) + 4 < 2147483646"
  obtains s2 h2 s' h' where
    "confirm_each ord s h (wq_plan_id q) (wq_idempotency_key q) now (wq_producer q)
       (confirmations event state closing) = Inr (s2, h2)"
    "confirm_workflow_terminal ord s2 (wq_plan_id q) (eh_current_event_head_id h2) (wq_idempotency_key q) now
       (Some (wq_producer q)) = Inr (s', h')"
    "eh_phase h' = TERMINAL_CONFIRMED" "all_confirmed h'" "workflow_head ord s' (wq_plan_id q) = Inr (Some h')"
    "validate_store ord s' = Inr ()" "length (ws_rows s') \<le> length (ws_rows s) + 4"
proof -
  let ?cs = "confirmations event state closing"
  have three: "length ?cs = 3" by (simp add: confirmations_def)
  have "length (ws_rows s) + length ?cs < 2147483646" using len three by simp
  from confirm_each_progress[OF ord pub order.refl this] obtain s2 h2 where
    each: "confirm_each ord s h (wq_plan_id q) (wq_idempotency_key q) now (wq_producer q) ?cs = Inr (s2, h2)"
    and pub2: "publishing ord s2 q ?cs now h2" and rows: "length (ws_rows s2) \<le> length (ws_rows s) + length ?cs"
    and left: "reserved_keys (eh_receipts h2) = reserved_keys (eh_receipts h) - confirmation_key q ` set ?cs" by blast
  have "reserved_keys (eh_receipts h2) = {}" using left pub by (auto simp: publishing_def)
  then have conf: "all_confirmed h2" by (simp add: all_confirmed_iff)
  have rdy: "ready ord s2 (wq_plan_id q) h2 now" and phase: "eh_phase h2 = TERMINAL_RESERVED"
    and key: "eh_idempotency_key h2 = wq_idempotency_key q" "eh_producer h2 = wq_producer q"
    and at: "eh_terminal_at h2 = Some (projr (workflow_timestamp now))"
    using pub2 by (simp_all add: publishing_def)
  obtain recorded where t: "workflow_timestamp now = Inr recorded" by (rule readyE[OF rdy ord])
  have at': "eh_terminal_at h2 = Some recorded" using at t by simp
  have unit: "Some (wq_producer q) = None \<or> Some (wq_producer q) = Some (eh_producer h2)" using key by simp
  obtain s' h' where fin: "confirm_workflow_terminal ord s2 (wq_plan_id q) (eh_current_event_head_id h2)
      (eh_idempotency_key h2) now (Some (wq_producer q)) = Inr (s', h')"
    "eh_phase h' = TERMINAL_CONFIRMED" "eh_receipts h' = eh_receipts h2" "ws_authority s' = ws_authority s2"
    "length (ws_rows s') = Suc (length (ws_rows s2))" "validate_store ord s' = Inr ()"
    "workflow_head ord s' (wq_plan_id q) = Inr (Some h')"
    by (rule closing_progress[OF rdy ord phase conf t at' unit])
  have "all_confirmed h'" using conf fin(3) by (simp add: all_confirmed_def)
  then show thesis using that[OF each fin(1)[unfolded key(1)]] fin rows three by simp
qed

text \<open>The reservation a publication makes, and the request it makes it for.\<close>

definition terminal_request ::
  "workflow_request \<Rightarrow> string \<times> string \<Rightarrow> string \<times> string \<Rightarrow> string \<times> string \<Rightarrow> workflow_request" where
  "terminal_request q event state closing =
     q\<lparr>wq_receipts := ordered_workflow_receipts (terminal_receipts q event state closing)\<rparr>"

lemma terminal_request_simps [simp]:
  "wq_plan_id (terminal_request q event state closing) = wq_plan_id q"
  "wq_idempotency_key (terminal_request q event state closing) = wq_idempotency_key q"
  "wq_producer (terminal_request q event state closing) = wq_producer q"
  "wq_source_state_id (terminal_request q event state closing) = wq_source_state_id q"
  "wq_scheduler_state_id (terminal_request q event state closing) = wq_scheduler_state_id q"
  "wq_scheduler_event_sequence (terminal_request q event state closing) = wq_scheduler_event_sequence q"
  "wq_scheduler_event_head_id (terminal_request q event state closing) = wq_scheduler_event_head_id q"
  "set (wq_receipts (terminal_request q event state closing)) = set (terminal_receipts q event state closing)"
  by (simp_all add: terminal_request_def ordered_workflow_receipts_def)

lemma reserve_terminal_request:
  "reserve_workflow_terminal ord s q expected event state closing now =
    reserve_workflow_change ord s TERMINAL_RESERVATION {OPEN, ACTIVE} (terminal_request q event state closing) expected now"
  by (simp add: reserve_workflow_terminal_def terminal_request_def terminal_receipts_def Let_def)

lemma publish_unfold:
  assumes "reserve_workflow_terminal ord s q expected event state closing now = Inr (s1, h1)"
    and "confirm_each ord s1 h1 (wq_plan_id q) (wq_idempotency_key q) now (wq_producer q)
       (confirmations event state closing) = Inr (s2, h2)"
  shows "publish_terminal ord s q expected event state closing now =
    confirm_workflow_terminal ord s2 (wq_plan_id q) (eh_current_event_head_id h2) (wq_idempotency_key q) now
       (Some (wq_producer q))"
  using assms by (simp add: publish_terminal_def confirmations_def)

text \<open>An interrupted publication finds its reservation.\<close>

lemma reservation_found:
  assumes pub: "publishing ord s q (confirmations event state closing) now h" and ord: "iteration_order ord"
  shows "reserve_workflow_terminal ord s q expected event state closing now = Inr (s, h)"
proof -
  let ?q = "terminal_request q event state closing"
  have rdy: "ready ord s (wq_plan_id q) h now" using pub by (simp add: publishing_def)
  obtain recorded heads where v: "validate_store ord s = Inr ()" and t: "workflow_timestamp now = Inr recorded"
    and rep: "replay_workflow_epochs ord (ws_rows s) = Inr heads" and h: "map_of heads (wq_plan_id q) = Some h"
    and scope: "call_scope heads (wq_plan_id q)"
    by (rule readyE[OF rdy ord])
  have "same_workflow_request h (head_authority h ?q)"
    using pub by (simp add: same_workflow_request_def head_authority_def publishing_def head_triple_def terminal_keys)
  then have "already_reserved TERMINAL_RESERVATION h ?q recorded"
    using pub t by (simp add: already_reserved_def publishing_def)
  then show ?thesis
    unfolding reserve_terminal_request reserve_result using v t rep h scope by (auto simp: call_scope_def)
qed

lemma publication_resumes:
  assumes pub: "publishing ord s q (confirmations event state closing) now h" and ord: "iteration_order ord"
    and len: "length (ws_rows s) + 4 < 2147483646"
  shows "\<exists>s' h'. publish_terminal ord s q expected event state closing now = Inr (s', h') \<and>
    eh_phase h' = TERMINAL_CONFIRMED \<and> all_confirmed h' \<and> workflow_head ord s' (wq_plan_id q) = Inr (Some h')"
proof -
  note res = reservation_found[OF pub ord, of expected]
  show ?thesis
    by (rule publication_completes[OF pub ord len]) (use publish_unfold[OF res] in auto)
qed

text \<open>What a publication needs to start.\<close>

definition publishable ::
  "set_order \<Rightarrow> workflow_store \<Rightarrow> workflow_request \<Rightarrow> string \<times> string \<Rightarrow> string \<times> string \<Rightarrow> string \<times> string \<Rightarrow>
   string \<Rightarrow> workflow_epoch_head \<Rightarrow> bool" where
  "publishable ord s q event state closing now h = (ready ord s (wq_plan_id q) h now \<and> eh_phase h = ACTIVE \<and>
     eh_workflow_state_id h \<noteq> None \<and> wq_source_state_id q = eh_workflow_state_id h \<and>
     reservable TERMINAL_RESERVATION h (terminal_receipts q event state closing) \<and>
     wf_workflow_key (wq_idempotency_key q) \<and> wf_choice workflow_producers (wq_producer q) \<and>
     head_triple h = (wq_scheduler_state_id q, wq_scheduler_event_sequence q, wq_scheduler_event_head_id q) \<and>
     length (ws_rows s) < 2147483630)"

lemma reservable_order:
  assumes "reservable cause h rs"
  shows "reservable cause h (ordered_workflow_receipts rs)"
proof -
  have "distinct (map (casefold \<circ> rc_path) (ordered_workflow_receipts rs))" "distinct (map rc_id (ordered_workflow_receipts rs))"
    using assms unfolding ordered_workflow_receipts_def
    by (auto simp: reservable_def fresh_receipts_def intro: distinct_map_sort_key)
  then show ?thesis
    using assms by (simp add: reservable_def fresh_receipts_def list_all_iff ordered_workflow_receipts_def)
qed

lemma publication_starts:
  assumes p: "publishable ord s q event state closing now h" and ord: "iteration_order ord"
  obtains s1 h1 where
    "reserve_workflow_terminal ord s q (eh_current_event_head_id h) event state closing now = Inr (s1, h1)"
    "publishing ord s1 q (confirmations event state closing) now h1" "length (ws_rows s1) = Suc (length (ws_rows s))"
    "set (eh_receipts h1) = set (eh_receipts h) \<union> set (terminal_receipts q event state closing)"
    "eh_recorded_at h1 = projr (workflow_timestamp now)"
proof -
  let ?q = "terminal_request q event state closing" and ?new = "terminal_receipts q event state closing"
  have rdy: "ready ord s (wq_plan_id ?q) h now" and ph: "eh_phase h \<in> {OPEN, ACTIVE}"
    and src: "wq_source_state_id ?q = eh_workflow_state_id h" and st: "eh_workflow_state_id h \<noteq> None"
    and key: "wf_workflow_key (wq_idempotency_key ?q)" "wf_choice workflow_producers (wq_producer ?q)"
    and pin: "head_triple h = (wq_scheduler_state_id ?q, wq_scheduler_event_sequence ?q, wq_scheduler_event_head_id ?q)"
    and len: "length (ws_rows s) < 2147483630"
    using p by (simp_all add: publishable_def)
  have new: "reservable TERMINAL_RESERVATION h (wq_receipts ?q)"
    using p reservable_order by (simp add: publishable_def terminal_request_def)
  have cause: "TERMINAL_RESERVATION \<in> {TRANSITION_RESERVATION, TERMINAL_RESERVATION}" by simp
  obtain s1 h1 where call: "reserve_workflow_change ord s TERMINAL_RESERVATION {OPEN, ACTIVE} ?q (eh_current_event_head_id h) now = Inr (s1, h1)"
    and f: "eh_phase h1 = reservation_phase TERMINAL_RESERVATION"
      "length (ws_rows s1) < 2147483646 \<longrightarrow> ready ord s1 (wq_plan_id ?q) h1 now"
      "eh_terminal_at h1 = (if TERMINAL_RESERVATION = TERMINAL_RESERVATION then Some (projr (workflow_timestamp now)) else eh_terminal_at h)"
      "eh_idempotency_key h1 = wq_idempotency_key ?q" "eh_producer h1 = wq_producer ?q" "eh_workflow_state_id h1 \<noteq> None"
      "set (eh_receipts h1) = set (eh_receipts h) \<union> set (wq_receipts ?q)" "ws_authority s1 = ws_authority s"
      "length (ws_rows s1) = Suc (length (ws_rows s))" "head_triple h1 = head_triple h" "wf_receipts (eh_receipts h1)"
      "eh_source_state_id h1 = wq_source_state_id ?q" "eh_recorded_at h1 = projr (workflow_timestamp now)"
    by (rule reserve_progress[OF rdy ord cause ph new src st key pin])
  have "sound_head (length (ws_rows s)) (wq_plan_id ?q) h" by (rule readyE[OF rdy ord])
  then have "epoch_invariant h" by (rule sound_head_wf(11))
  then have "all_confirmed h" using p by (simp add: epoch_invariant_def publishable_def)
  then have res: "reserved_keys (eh_receipts h1) \<subseteq> confirmation_key q ` set (confirmations event state closing)"
    using f(7) unfolding terminal_keys[symmetric] by (auto simp: reserved_keys_def all_confirmed_def)
  have "publishing ord s1 q (confirmations event state closing) now h1"
    using f res pin len terminal_keys[of q event state closing]
    by (simp add: publishing_def reservation_phase_def image_Un)
  then show thesis using that call f(7,9,13) unfolding reserve_terminal_request by simp
qed

end
