(* ===== verification/StoreRuns.thy ===== *)
theory StoreRuns
  imports TerminalPublication
begin

text \<open>
  Sequences of calls: one successful call as a step of the epoch machine, the exclusion a pending end
  enforces, and the end that a confirmation at a later time puts out of reach.
\<close>

fun perform_all :: "set_order \<Rightarrow> workflow_call list \<Rightarrow> workflow_store \<Rightarrow> workflow_store result" where
  "perform_all ord [] s = Inr s"
| "perform_all ord (c # cs) s = bindR (perform ord c s) (\<lambda>(s', h). perform_all ord cs s')"

section \<open>One call\<close>

lemma call_epoch:
  assumes call: "call_result ord s plan heads s' h" and ord: "iteration_order ord"
  shows "case map_of heads plan of None \<Rightarrow> \<exists>a. epoch_root a h
    | Some h0 \<Rightarrow> h = h0 \<and> s' = s \<or> (\<exists>a. epoch_step h0 a h)"
proof -
  from call_heads[OF call] consider "s' = s" "map_of heads plan = Some h"
    | a where "wf_epoch_artifact a" "reduce_workflow_event ord (map_of heads plan) a = Inr h" by metis
  then show ?thesis
  proof cases
    case 2
    show ?thesis
    proof (cases "map_of heads plan")
      case None
      then show ?thesis using epoch_root.intros[of a ord h] 2 by (simp del: split_paired_Ex) blast
    next
      case (Some h0)
      then show ?thesis using epoch_step.intros[OF ord 2(1), of h0 h] 2(2) by (simp del: split_paired_Ex) blast
    qed
  qed simp
qed

lemma call_scope_plan:
  assumes "iteration_order ord" and rep: "replay_workflow_epochs ord rows = Inr heads"
    and "call_scope heads plan" and h: "map_of heads p = Some h" and "eh_phase h = TERMINAL_RESERVED"
  shows "plan = p"
proof -
  have "h \<in> set (pending_terminals heads)" using map_of_SomeD[OF h] assms(5) by (force simp: pending_terminals_def)
  then have "eh_plan_id h = plan" using assms(3) by (auto simp: call_scope_def)
  then show ?thesis using head_plan[OF assms(1) rep h] by simp
qed

lemma pending_pin:
  assumes ord: "iteration_order ord" and v: "validate_store ord s = Inr ()"
    and rep: "replay_workflow_epochs ord (ws_rows s) = Inr heads" and h: "map_of heads p = Some h"
    and phase: "eh_phase h = TERMINAL_RESERVED"
  shows "current_triple (ws_authority s) = Inr (head_triple h)"
proof -
  have mem: "h \<in> set (pending_terminals heads)" using map_of_SomeD[OF h] phase by (force simp: pending_terminals_def)
  moreover have "pinned (ws_authority s) heads" using v by (simp add: validate_store_def result_simps evidence_iff[OF rep])
  ultimately show ?thesis by (auto simp: pinned_def)
qed

lemma receipts_kept:
  assumes call: "call_result ord s plan heads s' h" and h0: "map_of heads plan = Some h0"
    and r: "r \<in> set (eh_receipts h0)" "rc_status r = CONFIRMED"
  shows "r \<in> set (eh_receipts h)"
proof -
  from call_heads[OF call] consider "map_of heads plan = Some h"
    | rs where "eh_receipts h = ordered_workflow_receipts rs" "keeps_confirmed (map_of heads plan) rs" by metis
  then show ?thesis
  proof cases
    case 2
    then show ?thesis using h0 r by (simp add: keeps_confirmed_def ordered_workflow_receipts_def)
  qed (use h0 r in simp)
qed

section \<open>A late confirmation\<close>

definition late_head :: "workflow_epoch_head \<Rightarrow> bool" where
  "late_head h = (eh_phase h = TERMINAL_RESERVED \<and>
     instant (the (eh_terminal_at h)) < instant (eh_recorded_at h))"

lemma late_step:
  assumes "epoch_step h a h'" and "epoch_invariant h" and "late_head h"
  shows "late_head h'"
proof -
  have phase: "eh_phase h = TERMINAL_RESERVED" using assms(3) by (simp add: late_head_def)
  have "epoch_run h [a] h'" by (rule epoch_run.intros(2)[OF assms(1) epoch_run.intros(1)])
  from late_run_stuck[OF this assms(2) phase] have "eh_phase h' = TERMINAL_RESERVED"
    using assms(3) by (simp add: late_head_def)
  moreover have "instant (the (eh_terminal_at h)) < instant (eh_recorded_at h')"
    by (rule less_le_trans[OF _ step_instant[OF assms(1)]]) (use assms(3) in \<open>simp add: late_head_def\<close>)
  ultimately show ?thesis
    using terminal_step(1)[OF assms(1,2) phase] by (simp add: late_head_def)
qed

lemma late_store:
  assumes ord: "iteration_order ord"
  shows "workflow_head ord s plan = Inr (Some h) \<Longrightarrow> late_head h \<Longrightarrow> perform_all ord cs s = Inr s' \<Longrightarrow>
    (\<forall>c \<in> set cs. call_plan c = plan) \<and> (\<exists>h'. workflow_head ord s' plan = Inr (Some h') \<and> late_head h')"
proof (induction cs arbitrary: s h)
  case (Cons c cs)
  obtain s1 h1 where 1: "perform ord c s = Inr (s1, h1)" "perform_all ord cs s1 = Inr s'"
    using Cons.prems(3) by (auto simp: result_simps)
  obtain heads where call: "call_result ord s (call_plan c) heads s1 h1" using perform_result[OF 1(1) ord] by blast
  then have rep: "replay_workflow_epochs ord (ws_rows s) = Inr heads" and scope: "call_scope heads (call_plan c)"
    by (simp_all add: call_result_def)
  have h: "map_of heads plan = Some h" using Cons.prems(1) rep by (simp add: workflow_head_iff)
  have plan: "call_plan c = plan"
    by (rule call_scope_plan[OF ord rep scope h]) (use Cons.prems(2) in \<open>simp add: late_head_def\<close>)
  have "late_head h1"
    using call_epoch[OF call ord] h plan Cons.prems(2) late_step head_receipts_distinct(2)[OF ord rep h] by auto
  moreover have "workflow_head ord s1 plan = Inr (Some h1)"
    by (rule call_heads[OF call]) (use plan in \<open>auto simp: workflow_head_def\<close>)
  ultimately show ?case using Cons.IH[of s1 h1] 1(2) plan by simp
qed auto

section \<open>Order of a set\<close>

lemma reduction_order:
  assumes ord: "iteration_order ord" "iteration_order ord'" and a: "wf_epoch_artifact a"
    and one: "inj_on rc_type {r \<in> set (ee_receipts (snd a)). receipt_key r \<notin> receipt_key ` set (eh_receipts h)}"
    and red: "reduce_workflow_event ord (Some h) a = Inr h'"
  shows "reduce_workflow_event ord' (Some h) a = Inr h'"
proof -
  let ?e = "snd a"
  have wr: "wf_receipts (ee_receipts ?e)" using epoch_event_parts(1) epoch_artifact_event[OF a] by blast
  note adds = adds_order[OF ord wr, of h] and newest = newest_order[OF ord wr one]
  obtain u where u: "chain_continues h ?e = Inr ()" "cause_update ord h ?e (ee_cause ?e) = Inr u" "projects u ?e" "h' = head_of u a"
    using red by (rule reduce_step)
  have tr: "transition_update ord' h ?e = Inr u" if "transition_update ord h ?e = Inr u"
    using that newest[of "{''workflow-event'', ''workflow-state''}" "''workflow-event''"]
      newest[of "{''workflow-event'', ''workflow-state''}" "''workflow-state''"]
    by (simp add: transition_update_iff adds)
  have te: "terminal_update ord' h ?e = Inr u" if "terminal_update ord h ?e = Inr u"
    using that newest[of "{''workflow-event'', ''workflow-state'', ''workflow-outcome''}" "''workflow-event''"]
      newest[of "{''workflow-event'', ''workflow-state'', ''workflow-outcome''}" "''workflow-state''"]
      newest[of "{''workflow-event'', ''workflow-state'', ''workflow-outcome''}" "''workflow-outcome''"]
    by (simp add: terminal_update_iff adds)
  have "cause_update ord' h ?e (ee_cause ?e) = Inr u" using u(2) tr te by (cases "ee_cause ?e") simp_all
  then show ?thesis using u by (simp add: reduce_workflow_event_def epoch_update_def)
qed

end
