(* ===== verification/StoreSamples.thy ===== *)
theory StoreSamples
  imports StoreRuns Samples
begin

text \<open>
  A concrete run of the workflow authority, used by the witnesses: a store with one scheduler event,
  an epoch that is opened, confirmed, moved by one transition and closed.  The identities of the
  events are the real digests, kept symbolic, and the iteration order of sets is any order.
\<close>

definition ones :: string where
  "ones = replicate 64 (CHR ''1'')"

definition sample_plan :: string where
  "sample_plan = ''M8-INTEGRATED-PLAN-'' @ zeros"

definition sample_key :: string where
  "sample_key = ''M8-IDEM-'' @ zeros"

definition sample_now :: string where
  "sample_now = ''2026-01-01T00:00:00Z''"

definition sample_authority :: scheduler_authority where
  "sample_authority = \<lparr>au_graph_id = ''M6-TASK-GRAPH-'' @ zeros, au_candidate = sample_candidate,
     au_history = [(''M6-EVENT-'' @ zeros, ''M6-SCHEDULER-STATE-'' @ zeros)]\<rparr>"

definition sample_store :: workflow_store where
  "sample_store = \<lparr>ws_authority = sample_authority, ws_rows = [], ws_heads = []\<rparr>"

definition sample_call :: "string option \<Rightarrow> workflow_request" where
  "sample_call source = \<lparr>wq_plan_id = sample_plan, wq_candidate = sample_candidate,
     wq_graph_id = ''M6-TASK-GRAPH-'' @ zeros, wq_scheduler_state_id = ''M6-SCHEDULER-STATE-'' @ zeros,
     wq_scheduler_event_sequence = 1, wq_scheduler_event_head_id = ''M6-EVENT-'' @ zeros,
     wq_idempotency_key = sample_key, wq_producer = ''workflow-run'',
     wq_source_state_id = source, wq_receipts = []\<rparr>"

lemma sample_call_simps [simp]:
  "wq_plan_id (sample_call x) = sample_plan" "wq_source_state_id (sample_call x) = x"
  "wq_idempotency_key (sample_call x) = sample_key" "wq_producer (sample_call x) = ''workflow-run''"
  "wq_scheduler_state_id (sample_call x) = ''M6-SCHEDULER-STATE-'' @ zeros"
  "wq_scheduler_event_sequence (sample_call x) = 1" "wq_scheduler_event_head_id (sample_call x) = ''M6-EVENT-'' @ zeros"
  by (simp_all add: sample_call_def)

lemma sample_call_wf:
  "wf_workflow_key (sample_key)" "wf_choice workflow_producers ''workflow-run''"
  "wf_timestamp sample_now"
  by code_simp+

lemma sample_plan_wf: "wf_workflow_id ''integrated-plan'' sample_plan"
  by code_simp

lemma sample_candidate_wf: "wf_candidate sample_candidate"
  by code_simp

lemma sample_graph_wf: "wf_scheduler_id TASK_GRAPH (''M6-TASK-GRAPH-'' @ zeros)"
  by code_simp

lemma sample_state_wf: "wf_scheduler_id SCHEDULER_STATE (''M6-SCHEDULER-STATE-'' @ zeros)"
  by code_simp

lemma sample_event_wf: "wf_scheduler_id SCHEDULER_EVENT (''M6-EVENT-'' @ zeros)"
  by code_simp

lemma plan_receipt_wf: "wf_receipt (reserved_receipt ''integrated-plan'' sample_plan ''plan.json'' ''workflow-run'')"
  by code_simp

lemmas sample_ids_wf = sample_plan_wf sample_candidate_wf sample_graph_wf sample_state_wf sample_event_wf
  plan_receipt_wf

lemma sample_opening_wf: "wf_request (open_request (sample_call None) sample_plan ''integrated-plan'' ''plan.json'')"
  using sample_ids_wf sample_call_wf
  by (simp add: wf_request_def open_request_def sample_call_def wf_positive_def wf_receipts_def
      ordered_workflow_receipts_def receipts_canonical_def del: append.simps)

lemma sample_store_parts [simp]:
  "ws_rows sample_store = []" "ws_heads sample_store = []" "ws_authority sample_store = sample_authority"
  "replay_workflow_epochs ord [] = Inr []"
  by (simp_all add: sample_store_def replay_workflow_epochs_def)

lemma sample_store_valid: "validate_store ord sample_store = Inr ()"
proof -
  have rep: "replay_workflow_epochs ord (ws_rows sample_store) = Inr []" by simp
  have d: "distinct (map fst ([] :: heads))" by simp
  show ?thesis
    by (simp add: validate_store_def result_simps evidence_iff[OF rep] projection_iff[OF rep d] pinned_def
        pending_terminals_def)
qed

section \<open>Fresh receipts by key\<close>

fun key_path :: "receipt_key \<Rightarrow> string" where
  "key_path (ty, i, p, producer) = casefold p"

fun key_id :: "receipt_key \<Rightarrow> string" where
  "key_id (ty, i, p, producer) = i"

lemma fresh_by_keys:
  assumes "wf_receipts existing" and keys: "receipt_key ` set existing = set ks"
    and paths: "distinct (map key_path ks @ map (casefold \<circ> rc_path) new)"
    and ids: "distinct (map key_id ks @ map rc_id new)"
  shows "fresh_receipts existing new" "length existing \<le> length ks"
proof -
  have "key_path (receipt_key r) = (casefold \<circ> rc_path) r" "key_id (receipt_key r) = rc_id r" for r
    by (simp_all add: receipt_key_def)
  then have "(casefold \<circ> rc_path) ` set existing = key_path ` set ks" "rc_id ` set existing = key_id ` set ks"
    unfolding keys[symmetric] image_image by simp_all
  then show "fresh_receipts existing new"
    using wf_receipts_paths[OF assms(1)] paths ids unfolding fresh_receipts_def by auto
  have "distinct (map receipt_key existing)" using distinct_by_path(1) wf_receipts_paths[OF assms(1)] by blast
  then have "length existing = card (receipt_key ` set existing)" by (metis distinct_card length_map list.set_map)
  then show "length existing \<le> length ks" by (simp add: keys card_length)
qed

section \<open>The run\<close>

definition run_keys :: "string \<Rightarrow> string \<Rightarrow> receipt_key list" where
  "run_keys hex suffix = [(''workflow-event'', ''M8-WORKFLOW-EVENT-'' @ hex, ''event'' @ suffix, ''workflow-run''),
     (''workflow-state'', ''M8-WORKFLOW-STATE-'' @ hex, ''state'' @ suffix, ''workflow-run'')]"

definition plan_key :: receipt_key where
  "plan_key = (''integrated-plan'', sample_plan, ''plan.json'', ''workflow-run'')"

lemma sample_opened:
  assumes "iteration_order ord"
  obtains s h where
    "open_workflow_epoch ord sample_store (sample_call None) sample_plan ''integrated-plan'' ''plan.json''
       sample_now none_predecessor = Inr (s, h)"
    "ready ord s sample_plan h sample_now" "ws_authority s = sample_authority" "length (ws_rows s) = 1"
    "eh_phase h = OPEN" "eh_receipts h = [reserved_receipt ''integrated-plan'' sample_plan ''plan.json'' ''workflow-run'']"
    "eh_idempotency_key h = sample_key"
proof -
  have auth: "require_scheduler_head sample_store (open_request (sample_call None) sample_plan ''integrated-plan'' ''plan.json'') = Inr ()"
    by (simp add: scheduler_head_iff current_triple_def sample_authority_def open_request_def sample_call_def)
  show thesis
    by (rule open_progress[OF assms sample_store_valid[of ord], where q = "sample_call None" and heads = "[]"
          and ty = "''integrated-plan''" and i = sample_plan and path = "''plan.json''" and t = sample_now])
      (use auth sample_opening_wf sample_call_wf in \<open>auto simp: pending_terminals_def intro: that\<close>)
qed

lemma sample_triple:
  assumes "ready ord s plan h t" and "ws_authority s = sample_authority"
  shows "head_triple h = (''M6-SCHEDULER-STATE-'' @ zeros, 1, ''M6-EVENT-'' @ zeros)"
  using assms by (simp add: ready_def at_pin_def current_triple_def sample_authority_def)

text \<open>The plan itself is confirmed.\<close>

lemma sample_confirmed:
  assumes ord: "iteration_order ord"
  obtains s0 h0 s h where
    "open_workflow_epoch ord sample_store (sample_call None) sample_plan ''integrated-plan'' ''plan.json''
       sample_now none_predecessor = Inr (s0, h0)"
    "confirm_workflow_artifact ord s0 sample_plan (eh_current_event_head_id h0) sample_plan ''plan.json''
       (sample_key) sample_now None None = Inr (s, h)"
    "ready ord s sample_plan h sample_now" "ws_authority s = sample_authority" "length (ws_rows s) \<le> 2"
    "eh_phase h = ACTIVE" "receipt_key ` set (eh_receipts h) = {plan_key}"
proof -
  let ?r = "reserved_receipt ''integrated-plan'' sample_plan ''plan.json'' ''workflow-run''"
  obtain s0 h0 where o: "open_workflow_epoch ord sample_store (sample_call None) sample_plan ''integrated-plan'' ''plan.json''
       sample_now none_predecessor = Inr (s0, h0)"
    "ready ord s0 sample_plan h0 sample_now" "ws_authority s0 = sample_authority" "length (ws_rows s0) = 1"
    "eh_phase h0 = OPEN" "eh_receipts h0 = [?r]" "eh_idempotency_key h0 = sample_key"
    by (rule sample_opened[OF ord])
  have r: "?r \<in> set (eh_receipts h0)" using o(6) by simp
  have f: "rc_id ?r = sample_plan" "rc_path ?r = ''plan.json''" "rc_status ?r = RESERVED" "receipt_key ?r = plan_key"
    by (simp_all add: reserved_receipt_def receipt_key_def plan_key_def)
  have res: "reserved_keys (eh_receipts h0) = {plan_key}" using o(6) f(3,4) by (auto simp: reserved_keys_def)
  have none: "(None :: string option) = None \<or> None = Some x" for x by simp
  obtain s h where c: "confirm_workflow_artifact ord s0 sample_plan (eh_current_event_head_id h0) (rc_id ?r) (rc_path ?r)
       (eh_idempotency_key h0) sample_now None None = Inr (s, h)"
    "length (ws_rows s) \<le> Suc (length (ws_rows s0))"
    "length (ws_rows s) < 2147483646 \<longrightarrow> ready ord s sample_plan h sample_now"
    "eh_terminal_at h = eh_terminal_at h0" "eh_idempotency_key h = eh_idempotency_key h0"
    "eh_producer h = eh_producer h0" "eh_source_state_id h = eh_source_state_id h0"
    "eh_workflow_state_id h = eh_workflow_state_id h0"
    "ws_authority s = ws_authority s0" "receipt_key ` set (eh_receipts h) = receipt_key ` set (eh_receipts h0)"
    "reserved_keys (eh_receipts h) = reserved_keys (eh_receipts h0) - {receipt_key ?r}"
    "rc_status ?r = RESERVED \<longrightarrow> eh_phase h = (if eh_phase h0 = TERMINAL_RESERVED then TERMINAL_RESERVED
       else if reserved_keys (eh_receipts h0) = {receipt_key ?r} then ACTIVE else eh_phase h0)"
    "rc_status ?r = CONFIRMED \<longrightarrow> h = h0"
    "rc_status ?r = RESERVED \<longrightarrow> eh_recorded_at h = projr (workflow_timestamp sample_now)"
    by (rule confirm_progress[OF o(2) ord r none none])
  have ph: "eh_phase h = ACTIVE" using c(12) f(3,4) res o(5) by simp
  have keys: "receipt_key ` set (eh_receipts h) = {plan_key}" using c(10) o(6) f(4) by simp
  show thesis
    by (rule that[OF o(1) c(1)[unfolded f(1,2) o(7)] _ _ _ ph keys]) (use c(2,3,9) o(3,4) in simp_all)
qed

text \<open>A transition is reserved and its two artifacts are confirmed.\<close>

definition run_receipts :: "string \<Rightarrow> string \<Rightarrow> workflow_receipt list" where
  "run_receipts hex suffix =
     [reserved_receipt ''workflow-event'' (''M8-WORKFLOW-EVENT-'' @ hex) (''event'' @ suffix) ''workflow-run'',
      reserved_receipt ''workflow-state'' (''M8-WORKFLOW-STATE-'' @ hex) (''state'' @ suffix) ''workflow-run'']"

definition transition_call :: "workflow_epoch_head \<Rightarrow> workflow_request" where
  "transition_call h = (sample_call (eh_workflow_state_id h))\<lparr>wq_receipts :=
     ordered_workflow_receipts (run_receipts zeros ''0.json'')\<rparr>"

lemma transition_call_simps [simp]:
  "wq_plan_id (transition_call h) = sample_plan" "wq_source_state_id (transition_call h) = eh_workflow_state_id h"
  "wq_idempotency_key (transition_call h) = sample_key" "wq_producer (transition_call h) = ''workflow-run''"
  "wq_scheduler_state_id (transition_call h) = ''M6-SCHEDULER-STATE-'' @ zeros"
  "wq_scheduler_event_sequence (transition_call h) = 1"
  "wq_scheduler_event_head_id (transition_call h) = ''M6-EVENT-'' @ zeros"
  by (simp_all add: transition_call_def)

lemma run_receipts_facts:
  "receipt_key ` set (run_receipts hex suffix) = set (run_keys hex suffix)"
  "list_all (\<lambda>r. rc_status r = RESERVED) (run_receipts hex suffix)"
  "rc_type ` set (run_receipts hex suffix) = {''workflow-event'', ''workflow-state''}"
  "inj_on rc_type (set (run_receipts hex suffix))" "length (run_receipts hex suffix) = 2"
  by (simp_all add: run_receipts_def run_keys_def reserved_receipt_def receipt_key_def)

lemma run_receipts_wf: "list_all wf_receipt (run_receipts zeros ''0.json'')"
  by code_simp

lemma run_receipts_fresh:
  "distinct (map key_path [plan_key] @ map (casefold \<circ> rc_path) (run_receipts zeros ''0.json''))"
  "distinct (map key_id [plan_key] @ map rc_id (run_receipts zeros ''0.json''))"
  by code_simp+

lemma transition_reservable:
  assumes "wf_receipts (eh_receipts h)" and "receipt_key ` set (eh_receipts h) = {plan_key}"
  shows "reservable TRANSITION_RESERVATION h (wq_receipts (transition_call h))"
proof -
  have keys: "receipt_key ` set (eh_receipts h) = set [plan_key]" using assms(2) by simp
  note f = fresh_by_keys[OF assms(1) keys run_receipts_fresh]
  have "reservable TRANSITION_RESERVATION h (run_receipts zeros ''0.json'')"
    using f run_receipts_wf run_receipts_facts by (simp add: reservable_def reservation_types_def)
  then show ?thesis using reservable_order by (simp add: transition_call_def)
qed

lemma ready_receipts:
  assumes "ready ord s plan h t" and "iteration_order ord"
  shows "wf_receipts (eh_receipts h)" "epoch_invariant h" "epoch_reachable h"
proof -
  have "sound_head (length (ws_rows s)) plan h" by (rule readyE[OF assms])
  then show "wf_receipts (eh_receipts h)" "epoch_invariant h" "epoch_reachable h"
    using sound_head_wf(9,11) by (blast, blast, simp add: sound_head_def)
qed

lemma sample_active:
  assumes ord: "iteration_order ord"
  obtains s h where "ready ord s sample_plan h sample_now" "ws_authority s = sample_authority"
    "length (ws_rows s) \<le> 5" "eh_phase h = ACTIVE" "eh_workflow_state_id h \<noteq> None"
    "receipt_key ` set (eh_receipts h) = set (plan_key # run_keys zeros ''0.json'')"
proof -
  obtain s1 h1 where 1: "ready ord s1 sample_plan h1 sample_now" "ws_authority s1 = sample_authority"
    "length (ws_rows s1) \<le> 2" "eh_phase h1 = ACTIVE" "receipt_key ` set (eh_receipts h1) = {plan_key}"
    by (rule sample_confirmed[OF ord])
  let ?q = "transition_call h1"
  have rdy: "ready ord s1 (wq_plan_id ?q) h1 sample_now" using 1(1) by simp
  have cause: "TRANSITION_RESERVATION \<in> {TRANSITION_RESERVATION, TERMINAL_RESERVATION}" by simp
  have new: "reservable TRANSITION_RESERVATION h1 (wq_receipts ?q)"
    by (rule transition_reservable[OF ready_receipts(1)[OF 1(1) ord] 1(5)])
  have ph: "eh_phase h1 \<in> {OPEN, ACTIVE}" and src: "wq_source_state_id ?q = eh_workflow_state_id h1"
    and key: "wf_workflow_key (wq_idempotency_key ?q)" "wf_choice workflow_producers (wq_producer ?q)"
    and pin: "head_triple h1 = (wq_scheduler_state_id ?q, wq_scheduler_event_sequence ?q, wq_scheduler_event_head_id ?q)"
    and st: "TRANSITION_RESERVATION = TERMINAL_RESERVATION \<Longrightarrow> eh_workflow_state_id h1 \<noteq> None"
    using 1(4) sample_call_wf sample_triple[OF 1(1,2)] by simp_all
  obtain s2 h2 where call: "reserve_workflow_change ord s1 TRANSITION_RESERVATION {OPEN, ACTIVE} ?q
      (eh_current_event_head_id h1) sample_now = Inr (s2, h2)"
    and 2: "eh_phase h2 = reservation_phase TRANSITION_RESERVATION"
      "length (ws_rows s2) < 2147483646 \<longrightarrow> ready ord s2 (wq_plan_id ?q) h2 sample_now"
      "eh_terminal_at h2 = (if TRANSITION_RESERVATION = TERMINAL_RESERVATION then Some (projr (workflow_timestamp sample_now)) else eh_terminal_at h1)"
      "eh_idempotency_key h2 = wq_idempotency_key ?q" "eh_producer h2 = wq_producer ?q" "eh_workflow_state_id h2 \<noteq> None"
      "set (eh_receipts h2) = set (eh_receipts h1) \<union> set (wq_receipts ?q)" "ws_authority s2 = ws_authority s1"
      "length (ws_rows s2) = Suc (length (ws_rows s1))" "head_triple h2 = head_triple h1" "wf_receipts (eh_receipts h2)"
      "eh_source_state_id h2 = wq_source_state_id ?q" "eh_recorded_at h2 = projr (workflow_timestamp sample_now)"
    by (rule reserve_progress[OF rdy ord cause ph new src st key pin])
  have recs: "set (wq_receipts ?q) = set (run_receipts zeros ''0.json'')"
    by (simp add: transition_call_def ordered_workflow_receipts_def)
  note 2 = 2(1,2,6)[unfolded transition_call_simps] 2(7)[unfolded recs] 2(8)[unfolded 1(2)] 2(9)
  have ph2: "eh_phase h2 = TRANSITION_RESERVED" using 2(1) by (simp add: reservation_phase_def)
  let ?e = "hd (run_receipts zeros ''0.json'')" and ?s = "last (run_receipts zeros ''0.json'')"
  have es: "set (run_receipts zeros ''0.json'') = {?e, ?s}" "receipt_key ?e \<noteq> receipt_key ?s"
    by (simp_all add: run_receipts_def receipt_key_def reserved_receipt_def)
  have "all_confirmed h1" using ready_receipts(2)[OF 1(1) ord] 1(4) by (simp add: epoch_invariant_def)
  then have res: "reserved_keys (eh_receipts h2) = {receipt_key ?e, receipt_key ?s}"
    using run_receipts_facts(2)[of zeros "''0.json''"] unfolding reserved_keys_def 2(4) es(1)
    by (auto simp: all_confirmed_def list_all_iff es(1))
  have keys: "receipt_key ` set (eh_receipts h2) = set (plan_key # run_keys zeros ''0.json'')"
    unfolding 2(4) image_Un 1(5) run_receipts_facts(1) by simp
  have rdy2: "ready ord s2 sample_plan h2 sample_now" using 2(2,6) 1(3) by simp
  have ein: "?e \<in> set (eh_receipts h2)" "rc_status ?e = RESERVED" using es(1) 2(4) by (auto simp: run_receipts_def reserved_receipt_def)
  have none: "(None :: string option) = None \<or> None = Some x" for x by simp
  obtain s3 h3 where 3: "confirm_workflow_artifact ord s2 sample_plan (eh_current_event_head_id h2) (rc_id ?e) (rc_path ?e)
       (eh_idempotency_key h2) sample_now None None = Inr (s3, h3)"
    "length (ws_rows s3) \<le> Suc (length (ws_rows s2))"
    "length (ws_rows s3) < 2147483646 \<longrightarrow> ready ord s3 sample_plan h3 sample_now"
    "eh_terminal_at h3 = eh_terminal_at h2" "eh_idempotency_key h3 = eh_idempotency_key h2"
    "eh_producer h3 = eh_producer h2" "eh_source_state_id h3 = eh_source_state_id h2"
    "eh_workflow_state_id h3 = eh_workflow_state_id h2"
    "ws_authority s3 = ws_authority s2" "receipt_key ` set (eh_receipts h3) = receipt_key ` set (eh_receipts h2)"
    "reserved_keys (eh_receipts h3) = reserved_keys (eh_receipts h2) - {receipt_key ?e}"
    "rc_status ?e = RESERVED \<longrightarrow> eh_phase h3 = (if eh_phase h2 = TERMINAL_RESERVED then TERMINAL_RESERVED
       else if reserved_keys (eh_receipts h2) = {receipt_key ?e} then ACTIVE else eh_phase h2)"
    "rc_status ?e = CONFIRMED \<longrightarrow> h3 = h2"
    "rc_status ?e = RESERVED \<longrightarrow> eh_recorded_at h3 = projr (workflow_timestamp sample_now)"
    by (rule confirm_progress[OF rdy2 ord ein(1) none none])
  have ph3: "eh_phase h3 = TRANSITION_RESERVED" using 3(12) ein(2) ph2 res es(2) by auto
  have rdy3: "ready ord s3 sample_plan h3 sample_now" using 3(2,3) 2(6) 1(3) by simp
  have left: "reserved_keys (eh_receipts h3) = {receipt_key ?s}" using 3(11) res es(2) by auto
  then have "receipt_key ?s \<in> reserved_keys (eh_receipts h3)" by (simp only: singletonI)
  then obtain r where r: "r \<in> set (eh_receipts h3)" "rc_status r = RESERVED" "receipt_key r = receipt_key ?s"
    unfolding reserved_keys_def by force
  obtain s4 h4 where 4: "confirm_workflow_artifact ord s3 sample_plan (eh_current_event_head_id h3) (rc_id r) (rc_path r)
       (eh_idempotency_key h3) sample_now None None = Inr (s4, h4)"
    "length (ws_rows s4) \<le> Suc (length (ws_rows s3))"
    "length (ws_rows s4) < 2147483646 \<longrightarrow> ready ord s4 sample_plan h4 sample_now"
    "eh_terminal_at h4 = eh_terminal_at h3" "eh_idempotency_key h4 = eh_idempotency_key h3"
    "eh_producer h4 = eh_producer h3" "eh_source_state_id h4 = eh_source_state_id h3"
    "eh_workflow_state_id h4 = eh_workflow_state_id h3"
    "ws_authority s4 = ws_authority s3" "receipt_key ` set (eh_receipts h4) = receipt_key ` set (eh_receipts h3)"
    "reserved_keys (eh_receipts h4) = reserved_keys (eh_receipts h3) - {receipt_key r}"
    "rc_status r = RESERVED \<longrightarrow> eh_phase h4 = (if eh_phase h3 = TERMINAL_RESERVED then TERMINAL_RESERVED
       else if reserved_keys (eh_receipts h3) = {receipt_key r} then ACTIVE else eh_phase h3)"
    "rc_status r = CONFIRMED \<longrightarrow> h4 = h3"
    "rc_status r = RESERVED \<longrightarrow> eh_recorded_at h4 = projr (workflow_timestamp sample_now)"
    by (rule confirm_progress[OF rdy3 ord r(1) none none])
  have ph4: "eh_phase h4 = ACTIVE" using 4(12) r(2,3) left ph3 by simp
  have "ready ord s4 sample_plan h4 sample_now" using 4(2,3) 3(2) 2(6) 1(3) by simp
  then show thesis
    using that[of s4 h4] 1(3) 2(3,5,6) 3(2,8,9,10) 4(2,8,9,10) ph4 keys by simp
qed

section \<open>The end\<close>

definition closing_output :: "string \<Rightarrow> string \<times> string" where
  "closing_output ty = (if ty = ''workflow-event'' then (''M8-WORKFLOW-EVENT-'' @ ones, ''event1.json'')
     else if ty = ''workflow-state'' then (''M8-WORKFLOW-STATE-'' @ ones, ''state1.json'')
     else (''M8-WORKFLOW-OUTCOME-'' @ ones, ''outcome.json''))"

abbreviation sample_event :: "string \<times> string" where "sample_event \<equiv> closing_output ''workflow-event''"
abbreviation sample_closure :: "string \<times> string" where "sample_closure \<equiv> closing_output ''workflow-state''"
abbreviation sample_outcome :: "string \<times> string" where "sample_outcome \<equiv> closing_output ''workflow-outcome''"

lemma closing_event_wf: "wf_receipt (reserved_receipt ''workflow-event'' (fst sample_event) (snd sample_event) ''workflow-run'')"
  by code_simp

lemma closing_state_wf: "wf_receipt (reserved_receipt ''workflow-state'' (fst sample_closure) (snd sample_closure) ''workflow-run'')"
  by code_simp

lemma closing_outcome_wf: "wf_receipt (reserved_receipt ''workflow-outcome'' (fst sample_outcome) (snd sample_outcome) ''workflow-run'')"
  by code_simp

lemma closing_wf: "list_all wf_receipt (terminal_receipts (sample_call None) sample_event sample_closure sample_outcome)"
  using closing_event_wf closing_state_wf closing_outcome_wf by (simp add: terminal_receipts_def)

lemma closing_fresh:
  "distinct (map key_path (plan_key # run_keys zeros ''0.json'') @
     map (casefold \<circ> rc_path) (terminal_receipts (sample_call None) sample_event sample_closure sample_outcome))"
  "distinct (map key_id (plan_key # run_keys zeros ''0.json'') @
     map rc_id (terminal_receipts (sample_call None) sample_event sample_closure sample_outcome))"
  by code_simp+

lemma sample_publishable:
  assumes ord: "iteration_order ord"
  obtains s h where
    "publishable ord s (sample_call (eh_workflow_state_id h)) sample_event sample_closure sample_outcome sample_now h"
    "length (ws_rows s) \<le> 5"
proof -
  obtain s h where a: "ready ord s sample_plan h sample_now" "ws_authority s = sample_authority"
    "length (ws_rows s) \<le> 5" "eh_phase h = ACTIVE" "eh_workflow_state_id h \<noteq> None"
    "receipt_key ` set (eh_receipts h) = set (plan_key # run_keys zeros ''0.json'')"
    by (rule sample_active[OF ord])
  let ?q = "sample_call (eh_workflow_state_id h)"
  let ?new = "terminal_receipts (sample_call None) sample_event sample_closure sample_outcome"
  have same: "terminal_receipts ?q sample_event sample_closure sample_outcome = ?new"
    by (simp add: terminal_receipts_def)
  note f = fresh_by_keys[OF ready_receipts(1)[OF a(1) ord] a(6) closing_fresh]
  have "rc_type ` set ?new = reservation_types TERMINAL_RESERVATION" "inj_on rc_type (set ?new)"
    "list_all (\<lambda>r. rc_status r = RESERVED) ?new" "length ?new = 3"
    by (simp_all add: terminal_receipts_def reserved_receipt_def reservation_types_def)
  then have "reservable TERMINAL_RESERVATION h ?new"
    using f closing_wf by (simp add: reservable_def run_keys_def)
  then have "publishable ord s ?q sample_event sample_closure sample_outcome sample_now h"
    using a sample_call_wf sample_triple[OF a(1,2)] by (simp add: publishable_def same)
  then show thesis using that a(3) by blast
qed

end
