(* ===== verification/WorkflowProperties.thy ===== *)
theory WorkflowProperties
  imports StoreSamples
begin

text \<open>
  The properties of the workflow epochs and of the authority that stores them: the events as
  documents, the reducer against its phase automaton, and the store against the epochs.
\<close>

lemma iteration_order_id: "iteration_order id"
  by (simp add: iteration_order_def)

lemma called_head:
  assumes "call_result ord s plan heads s' h"
  shows "workflow_head ord s' p = Inr (if p = plan then Some h else map_of heads p)"
  by (rule call_heads[OF assms]) (simp add: workflow_head_def)

section \<open>Epochs\<close>

text \<open>
  C19: The document an epoch event is written as reads back to the same event exactly when its
  fields are valid and its identifier is the digest of its canonical content.
\<close>

theorem epoch_artifact_round_trip:
  "parse_epoch_artifact (epoch_artifact_to_dict a) = Inr a \<longleftrightarrow> wf_epoch_artifact a"
  using epoch_artifact_form.parse_form epoch_artifact_form.parsed_form by blast

text \<open>
  C20: Every head the reducer reaches has ordered, distinct receipts among which is the plan's own, heads
  that name receipts it holds, and a phase that fits them: in particular an active or confirmed
  epoch has no unconfirmed receipt, and only a terminal one has an outcome.
\<close>

theorem reachable_head_invariant:
  assumes "epoch_reachable h"
  shows "epoch_invariant h"
  using assms by (rule reachable_invariant)

lemma sample_reachable:
  obtains s h where "ready id s sample_plan h sample_now" "epoch_reachable h" "eh_phase h = ACTIVE"
    "eh_workflow_state_id h \<noteq> None"
proof -
  obtain s h where a: "ready id s sample_plan h sample_now" "ws_authority s = sample_authority"
    "length (ws_rows s) \<le> 5" "eh_phase h = ACTIVE" "eh_workflow_state_id h \<noteq> None"
    "receipt_key ` set (eh_receipts h) = set (plan_key # run_keys zeros ''0.json'')"
    by (rule sample_active[OF iteration_order_id])
  show thesis by (rule that[OF a(1) ready_receipts(3)[OF a(1) iteration_order_id] a(4,5)])
qed

theorem reachable_head_invariant_witness:
  "\<exists>h. epoch_reachable h \<and> eh_phase h = ACTIVE \<and> eh_workflow_state_id h \<noteq> None \<and> epoch_invariant h"
  by (rule sample_reachable) (use reachable_head_invariant in blast)

text \<open>A path of the phase automaton, by the causes of its events.\<close>

fun phase_path :: "workflow_epoch_phase \<Rightarrow> workflow_epoch_cause list \<Rightarrow> workflow_epoch_phase \<Rightarrow> bool" where
  "phase_path p [] p' = (p = p')"
| "phase_path p (c # cs) p' = (\<exists>q. phase_step p c q \<and> phase_path q cs p')"

lemma run_phase_path:
  "epoch_run h as h' \<Longrightarrow> epoch_invariant h \<Longrightarrow> phase_path (eh_phase h) (map (ee_cause \<circ> snd) as) (eh_phase h')"
  by (induction rule: epoch_run.induct) (auto dest: step_invariant)

text \<open>A real step: the confirmation of the plan.\<close>

lemma sample_step:
  obtains h a h' where "epoch_reachable h" "epoch_step h a h'" "eh_phase h = OPEN" "eh_phase h' = ACTIVE"
proof -
  obtain s0 h0 s h where c:
    "open_workflow_epoch id sample_store (sample_call None) sample_plan ''integrated-plan'' ''plan.json''
       sample_now none_predecessor = Inr (s0, h0)"
    "confirm_workflow_artifact id s0 sample_plan (eh_current_event_head_id h0) sample_plan ''plan.json''
       (sample_key) sample_now None None = Inr (s, h)"
    "ready id s sample_plan h sample_now" "ws_authority s = sample_authority" "length (ws_rows s) \<le> 2"
    "eh_phase h = ACTIVE" "receipt_key ` set (eh_receipts h) = {plan_key}"
    by (rule sample_confirmed[OF iteration_order_id])
  obtain heads where opened: "call_result id sample_store (wq_plan_id (sample_call None)) heads s0 h0"
    using open_call[OF c(1) iteration_order_id] by blast
  obtain heads1 where conf: "call_result id s0 sample_plan heads1 s h"
    using confirm_call[OF c(2) iteration_order_id] by blast
  have none: "map_of heads sample_plan = None" and h0: "map_of heads1 sample_plan = Some h0"
    using opened conf called_head[OF opened, of sample_plan] by (auto simp: call_result_def workflow_head_iff)
  have "\<exists>a. epoch_root a h0" using call_epoch[OF opened iteration_order_id] none by simp
  then have h: "epoch_reachable h0" "eh_phase h0 = OPEN" using reachable_root root_invariant(2) by blast+
  moreover have "\<exists>a. epoch_step h0 a h" using call_epoch[OF conf iteration_order_id] h0 c(6) h(2) by auto
  ultimately show thesis using that c(6) by blast
qed

text \<open>
  C21: The reducer implements the phase automaton: the phases along any run of a reachable epoch
  follow a path of it, one edge for the cause of each event.
\<close>

theorem epochs_refine_automaton:
  assumes "epoch_reachable h" and "epoch_run h as h'"
  shows "phase_path (eh_phase h) (map (ee_cause \<circ> snd) as) (eh_phase h')"
  by (rule run_phase_path[OF assms(2) reachable_invariant[OF assms(1)]])

theorem epochs_refine_automaton_witness:
  "\<exists>h a h'. epoch_run h [a] h' \<and> phase_path (eh_phase h) [ee_cause (snd a)] (eh_phase h') \<and>
     eh_phase h = OPEN \<and> eh_phase h' = ACTIVE"
proof -
  obtain h a h' where s: "epoch_reachable h" "epoch_step h a h'" "eh_phase h = OPEN" "eh_phase h' = ACTIVE"
    by (rule sample_step)
  have run: "epoch_run h [a] h'" by (rule epoch_run.step[OF s(2) epoch_run.none])
  show ?thesis using epochs_refine_automaton[OF s(1) run] run s(3,4)
    by (intro exI[of _ h] exI[of _ a] exI[of _ h']) simp
qed

text \<open>A chain of events: each names the one before it and counts one further.\<close>

fun linked :: "string \<Rightarrow> int \<Rightarrow> epoch_artifact list \<Rightarrow> bool" where
  "linked previous n [] = True"
| "linked previous n (a # as) = (ee_previous_event_id (snd a) = Some previous \<and>
     ee_epoch_sequence (snd a) = n + 1 \<and> linked (fst a) (n + 1) as)"

lemma run_linked: "epoch_run h as h' \<Longrightarrow> linked (eh_current_event_head_id h) (eh_epoch_sequence h) as"
proof (induction rule: epoch_run.induct)
  case (step h a h' as h'')
  note f = step_facts[OF step.hyps(1)]
  have "ee_epoch_sequence (snd a) = eh_epoch_sequence h + 1" using f(1) by (simp add: same_chain_def)
  then show ?case using f(3-5) step.IH by simp
qed simp

text \<open>
  C22: A run extends the epoch's chain: every event names the one before it and has the next number,
  the plan stays the same, no receipt is lost, and recorded time does not go back.
\<close>

theorem run_extends_chain:
  assumes "epoch_run h as h'"
  shows "linked (eh_current_event_head_id h) (eh_epoch_sequence h) as \<and>
    eh_epoch_sequence h' = eh_epoch_sequence h + int (length as) \<and> eh_plan_id h' = eh_plan_id h \<and>
    receipt_key ` set (eh_receipts h) \<subseteq> receipt_key ` set (eh_receipts h') \<and>
    instant (eh_recorded_at h) \<le> instant (eh_recorded_at h')"
  using run_linked[OF assms] run_facts[OF assms] run_instant[OF assms] by simp

theorem run_extends_chain_witness:
  "\<exists>h a h'. epoch_run h [a] h' \<and> linked (eh_current_event_head_id h) (eh_epoch_sequence h) [a] \<and>
     eh_epoch_sequence h' = eh_epoch_sequence h + 1"
proof -
  obtain h a h' where s: "epoch_reachable h" "epoch_step h a h'" "eh_phase h = OPEN" "eh_phase h' = ACTIVE"
    by (rule sample_step)
  have run: "epoch_run h [a] h'" by (rule epoch_run.step[OF s(2) epoch_run.none])
  show ?thesis using run_extends_chain[OF run] run
    by (intro exI[of _ h] exI[of _ a] exI[of _ h']) simp
qed

text \<open>
  C23: A reserved end is near: of an epoch whose terminal outcome is reserved, a run has at most one
  event for each unconfirmed receipt and the closing one, and once the end is confirmed no event
  follows.
\<close>

theorem terminal_runs_bounded:
  assumes "epoch_reachable h" and "epoch_run h as h'" and "eh_phase h = TERMINAL_RESERVED"
  shows "length as \<le> card (reserved_keys (eh_receipts h)) + 1 \<and>
    (eh_phase h' = TERMINAL_CONFIRMED \<longrightarrow> (\<forall>a h''. \<not> epoch_step h' a h''))"
proof -
  note inv = reachable_invariant[OF assms(1)]
  have "epoch_invariant h'" by (rule run_invariant[OF assms(2) inv])
  then show ?thesis using terminal_run_bound[OF assms(2) inv assms(3)] confirmed_stops by blast
qed

text \<open>A publication under way, one confirmation on.\<close>

lemma sample_publishing:
  obtains s q now h where "publishing id s q (confirmations sample_event sample_closure sample_outcome) sample_now h"
    "wq_plan_id q = sample_plan" "wq_producer q = ''workflow-run''" "length (ws_rows s) \<le> 6"
    "\<exists>r \<in> set (eh_receipts h). receipt_key r = confirmation_key q (''workflow-event'', sample_event) \<and> rc_status r = RESERVED"
proof -
  obtain s h where p:
    "publishable id s (sample_call (eh_workflow_state_id h)) sample_event sample_closure sample_outcome sample_now h"
    "length (ws_rows s) \<le> 5" by (rule sample_publishable[OF iteration_order_id])
  obtain s1 h1 where 1:
    "reserve_workflow_terminal id s (sample_call (eh_workflow_state_id h)) (eh_current_event_head_id h)
       sample_event sample_closure sample_outcome sample_now = Inr (s1, h1)"
    "publishing id s1 (sample_call (eh_workflow_state_id h)) (confirmations sample_event sample_closure sample_outcome) sample_now h1"
    "length (ws_rows s1) = Suc (length (ws_rows s))"
    "set (eh_receipts h1) = set (eh_receipts h) \<union>
       set (terminal_receipts (sample_call (eh_workflow_state_id h)) sample_event sample_closure sample_outcome)"
    "eh_recorded_at h1 = projr (workflow_timestamp sample_now)"
    by (rule publication_starts[OF p(1) iteration_order_id])
  let ?r = "reserved_receipt ''workflow-event'' (fst sample_event) (snd sample_event) ''workflow-run''"
  have "?r \<in> set (eh_receipts h1)" "rc_status ?r = RESERVED"
    "receipt_key ?r = confirmation_key (sample_call (eh_workflow_state_id h)) (''workflow-event'', sample_event)"
    using 1(4) by (simp_all add: terminal_receipts_def receipt_key_def reserved_receipt_def confirmation_key_def)
  then show thesis using that[OF 1(2)] 1(3) p(2) by fastforce
qed

theorem terminal_runs_bounded_witness:
  "\<exists>h. epoch_reachable h \<and> eh_phase h = TERMINAL_RESERVED \<and> reserved_keys (eh_receipts h) \<noteq> {} \<and>
     (\<forall>as h'. epoch_run h as h' \<longrightarrow> length as \<le> card (reserved_keys (eh_receipts h)) + 1)"
proof -
  obtain s q now h where p: "publishing id s q (confirmations sample_event sample_closure sample_outcome) sample_now h"
    "wq_plan_id q = sample_plan" "wq_producer q = ''workflow-run''" "length (ws_rows s) \<le> 6"
    "\<exists>r \<in> set (eh_receipts h). receipt_key r = confirmation_key q (''workflow-event'', sample_event) \<and> rc_status r = RESERVED"
    by (rule sample_publishing)
  have rdy: "ready id s (wq_plan_id q) h sample_now" and ph: "eh_phase h = TERMINAL_RESERVED"
    using p(1) by (simp_all add: publishing_def)
  have "reserved_keys (eh_receipts h) \<noteq> {}" using p(5) by (auto simp: reserved_keys_def)
  then show ?thesis
    using terminal_runs_bounded[OF ready_receipts(3)[OF rdy iteration_order_id] _ ph] ph
      ready_receipts(3)[OF rdy iteration_order_id] by blast
qed

text \<open>
  C24: The order in which a set is traversed does not matter to the reducer as long as the receipts
  an event adds have distinct types.
\<close>

theorem reduction_order_independent:
  assumes "iteration_order ord" "iteration_order ord'" and "wf_epoch_artifact a"
    and "inj_on rc_type {r \<in> set (ee_receipts (snd a)). receipt_key r \<notin> receipt_key ` set (eh_receipts h)}"
  shows "reduce_workflow_event ord (Some h) a = Inr h' \<longleftrightarrow> reduce_workflow_event ord' (Some h) a = Inr h'"
  using reduction_order[OF assms(1,2,3,4)] reduction_order[OF assms(2,1,3,4)] by blast

text \<open>The reservation of an end, as a step of the reducer.\<close>

lemma sample_reservation:
  obtains h a h' where "wf_epoch_artifact a" "reduce_workflow_event id (Some h) a = Inr h'"
    "eh_phase h = ACTIVE" "eh_phase h' = TERMINAL_RESERVED"
    "inj_on rc_type {r \<in> set (ee_receipts (snd a)). receipt_key r \<notin> receipt_key ` set (eh_receipts h)}"
proof -
  obtain s h where p:
    "publishable id s (sample_call (eh_workflow_state_id h)) sample_event sample_closure sample_outcome sample_now h"
    "length (ws_rows s) \<le> 5" by (rule sample_publishable[OF iteration_order_id])
  let ?q = "sample_call (eh_workflow_state_id h)"
  let ?new = "terminal_receipts ?q sample_event sample_closure sample_outcome"
  obtain s1 h1 where 1:
    "reserve_workflow_terminal id s ?q (eh_current_event_head_id h)
       sample_event sample_closure sample_outcome sample_now = Inr (s1, h1)"
    "publishing id s1 ?q (confirmations sample_event sample_closure sample_outcome) sample_now h1"
    "length (ws_rows s1) = Suc (length (ws_rows s))"
    "set (eh_receipts h1) = set (eh_receipts h) \<union> set ?new"
    "eh_recorded_at h1 = projr (workflow_timestamp sample_now)"
    by (rule publication_starts[OF p(1) iteration_order_id])
  obtain heads where call: "call_result id s (wq_plan_id ?q) heads s1 h1"
    using perform_result[of id "ReserveTerminal ?q (eh_current_event_head_id h) sample_event sample_closure
        sample_outcome sample_now" s s1 h1] 1(1) iteration_order_id by auto
  have rep: "replay_workflow_epochs id (ws_rows s) = Inr heads" using call by (simp add: call_result_def)
  have h: "map_of heads (wq_plan_id ?q) = Some h" and ph: "eh_phase h = ACTIVE"
    using p(1) rep by (auto simp: publishable_def ready_def)
  have ph1: "eh_phase h1 = TERMINAL_RESERVED" using 1(2) by (simp add: publishing_def)
  have "h1 \<noteq> h" using ph ph1 by auto
  then obtain a where a: "wf_epoch_artifact a" "reduce_workflow_event id (Some h) a = Inr h1"
    using h call_heads[OF call] by (metis option.inject)
  then have "eh_receipts h1 = ee_receipts (snd a)"
    using step_facts(8)[OF epoch_step.intros[OF iteration_order_id a]] by simp
  then have sub: "{r \<in> set (ee_receipts (snd a)). receipt_key r \<notin> receipt_key ` set (eh_receipts h)} \<subseteq> set ?new"
    using 1(4) by auto
  have "inj_on rc_type (set ?new)" by (simp add: terminal_receipts_def reserved_receipt_def)
  then show thesis using that[OF a ph ph1] sub inj_on_subset by blast
qed

theorem reduction_order_independent_witness:
  "\<exists>h a h'. reduce_workflow_event id (Some h) a = Inr h' \<and> reduce_workflow_event rev (Some h) a = Inr h' \<and>
     eh_phase h = ACTIVE \<and> eh_phase h' = TERMINAL_RESERVED"
proof -
  obtain h a h' where s: "wf_epoch_artifact a" "reduce_workflow_event id (Some h) a = Inr h'"
    "eh_phase h = ACTIVE" "eh_phase h' = TERMINAL_RESERVED"
    "inj_on rc_type {r \<in> set (ee_receipts (snd a)). receipt_key r \<notin> receipt_key ` set (eh_receipts h)}"
    by (rule sample_reservation)
  have "iteration_order rev" by (simp add: iteration_order_def)
  then show ?thesis using reduction_order_independent[OF iteration_order_id _ s(1,5)] s(2-4) by blast
qed

section \<open>The authority store\<close>

text \<open>
  C25: The authority implements the epochs: a successful call leaves a valid store over the same
  scheduler authority, moves the head of its own plan only, and either changes nothing or appends the
  one row of an event that opens the epoch or is a step of it.
\<close>

theorem store_refines_epochs:
  assumes "iteration_order ord" and "perform ord c s = Inr (s', h)"
  shows "\<exists>heads heads'. replay_workflow_epochs ord (ws_rows s) = Inr heads \<and>
    replay_workflow_epochs ord (ws_rows s') = Inr heads' \<and> map_of heads' = (map_of heads)(call_plan c \<mapsto> h) \<and>
    validate_store ord s' = Inr () \<and> ws_authority s' = ws_authority s \<and>
    (s' = s \<or> (\<exists>a. ws_rows s' = ws_rows s @ [row_of a] \<and>
       (case map_of heads (call_plan c) of None \<Rightarrow> epoch_root a h | Some h0 \<Rightarrow> epoch_step h0 a h)))"
proof -
  obtain heads where call: "call_result ord s (call_plan c) heads s' h" using perform_result assms by blast
  obtain heads' where c: "replay_workflow_epochs ord (ws_rows s') = Inr heads'"
    "map_of heads' = (map_of heads)(call_plan c \<mapsto> h)" "ws_authority s' = ws_authority s"
    "s' = s \<and> map_of heads (call_plan c) = Some h \<and> heads' = heads \<or>
     (\<exists>a rs. wf_epoch_artifact a \<and> reduce_workflow_event ord (map_of heads (call_plan c)) a = Inr h \<and>
        ws_rows s' = ws_rows s @ [row_of a] \<and> heads' = upsert (call_plan c) h heads \<and>
        eh_receipts h = ordered_workflow_receipts rs \<and> keeps_confirmed (map_of heads (call_plan c)) rs)"
    by (rule call_heads[OF call])
  have "s' = s \<or> (\<exists>a. ws_rows s' = ws_rows s @ [row_of a] \<and>
      (case map_of heads (call_plan c) of None \<Rightarrow> epoch_root a h | Some h0 \<Rightarrow> epoch_step h0 a h))"
    using c(4) epoch_root.intros epoch_step.intros[OF assms(1)] by (cases "map_of heads (call_plan c)") fastforce+
  then show ?thesis using call c(1-3) by (auto simp: call_result_def)
qed

text \<open>
  C26: Every call is idempotent: made again on the store it left, it succeeds, returns the same head
  and changes nothing.
\<close>

theorem calls_idempotent:
  assumes "iteration_order ord" and "perform ord c s = Inr (s', h)"
  shows "perform ord c s' = Inr (s', h)"
  by (rule perform_again[OF assms(2,1)])

lemma sample_calls:
  obtains s0 h0 s h where
    "perform id (OpenEpoch (sample_call None) sample_plan ''integrated-plan'' ''plan.json'' sample_now none_predecessor)
       sample_store = Inr (s0, h0)"
    "perform id (ConfirmArtifact sample_plan (eh_current_event_head_id h0) sample_plan ''plan.json''
       sample_key sample_now None None) s0 = Inr (s, h)" "eh_phase h = ACTIVE" "ready id s sample_plan h sample_now"
    "receipt_key ` set (eh_receipts h) = {plan_key}"
proof -
  obtain s0 h0 s h where c:
    "open_workflow_epoch id sample_store (sample_call None) sample_plan ''integrated-plan'' ''plan.json''
       sample_now none_predecessor = Inr (s0, h0)"
    "confirm_workflow_artifact id s0 sample_plan (eh_current_event_head_id h0) sample_plan ''plan.json''
       (sample_key) sample_now None None = Inr (s, h)"
    "ready id s sample_plan h sample_now" "ws_authority s = sample_authority" "length (ws_rows s) \<le> 2"
    "eh_phase h = ACTIVE" "receipt_key ` set (eh_receipts h) = {plan_key}"
    by (rule sample_confirmed[OF iteration_order_id])
  then show thesis using that by simp
qed

theorem store_refines_epochs_witness:
  "\<exists>s h a. perform id (OpenEpoch (sample_call None) sample_plan ''integrated-plan'' ''plan.json'' sample_now
      none_predecessor) sample_store = Inr (s, h) \<and> ws_rows s = [row_of a] \<and> epoch_root a h"
proof -
  obtain s0 h0 where c:
    "open_workflow_epoch id sample_store (sample_call None) sample_plan ''integrated-plan'' ''plan.json''
       sample_now none_predecessor = Inr (s0, h0)"
    "ready id s0 sample_plan h0 sample_now" "ws_authority s0 = sample_authority" "length (ws_rows s0) = 1"
    "eh_phase h0 = OPEN" "eh_receipts h0 = [reserved_receipt ''integrated-plan'' sample_plan ''plan.json'' ''workflow-run'']"
    "eh_idempotency_key h0 = sample_key"
    by (rule sample_opened[OF iteration_order_id])
  let ?c = "OpenEpoch (sample_call None) sample_plan ''integrated-plan'' ''plan.json'' sample_now none_predecessor"
  have p: "perform id ?c sample_store = Inr (s0, h0)" using c(1) by simp
  have "s0 \<noteq> sample_store" using c(4) by auto
  then show ?thesis using store_refines_epochs[OF iteration_order_id p] p by (auto simp del: perform.simps)
qed

theorem calls_idempotent_witness:
  "\<exists>s h. perform id (OpenEpoch (sample_call None) sample_plan ''integrated-plan'' ''plan.json'' sample_now
      none_predecessor) s = Inr (s, h) \<and> eh_plan_id h = sample_plan"
proof -
  obtain s0 h0 s h where c:
    "perform id (OpenEpoch (sample_call None) sample_plan ''integrated-plan'' ''plan.json'' sample_now none_predecessor)
       sample_store = Inr (s0, h0)"
    "perform id (ConfirmArtifact sample_plan (eh_current_event_head_id h0) sample_plan ''plan.json''
       sample_key sample_now None None) s0 = Inr (s, h)" "eh_phase h = ACTIVE" "ready id s sample_plan h sample_now"
    "receipt_key ` set (eh_receipts h) = {plan_key}"
    by (rule sample_calls)
  obtain heads where "call_result id sample_store (wq_plan_id (sample_call None)) heads s0 h0"
    using perform_result[OF c(1) iteration_order_id] by auto
  from called_head[OF this, of sample_plan]
  obtain heads' where "replay_workflow_epochs id (ws_rows s0) = Inr heads'" "map_of heads' sample_plan = Some h0"
    by (auto simp: workflow_head_iff)
  then have "eh_plan_id h0 = sample_plan" by (rule head_plan[OF iteration_order_id])
  then show ?thesis using calls_idempotent[OF iteration_order_id c(1)] by blast
qed

text \<open>One call keeps what was authenticated, for every plan.\<close>

lemma authenticated_iff: "authenticate_workflow_artifact ord s plan ty i path producer candidate graph = Inr h \<longleftrightarrow>
    validate_store ord s = Inr () \<and> workflow_head ord s plan = Inr (Some h) \<and> eh_candidate h = candidate \<and>
    eh_graph_id h = graph \<and> (\<exists>r \<in> set (eh_receipts h). rc_type r = ty \<and> rc_id r = i \<and> rc_path r = path \<and>
      rc_producer r = producer \<and> rc_status r = CONFIRMED)"
  by (auto simp: authenticate_workflow_artifact_def result_simps list_ex_iff split: option.splits)

lemma step_identity: "epoch_step h a h' \<Longrightarrow> eh_candidate h' = eh_candidate h \<and> eh_graph_id h' = eh_graph_id h"
proof -
  assume s: "epoch_step h a h'"
  then obtain ord u where "h' = head_of u a" by (auto simp: epoch_step.simps elim: reduce_step)
  then show ?thesis using step_facts(1)[OF s] by (simp add: same_chain_def)
qed

lemma authentication_call:
  assumes ord: "iteration_order ord" and call: "perform ord c s = Inr (s', h1)"
    and auth: "authenticate_workflow_artifact ord s plan ty i path producer candidate graph = Inr h"
  shows "\<exists>h'. authenticate_workflow_artifact ord s' plan ty i path producer candidate graph = Inr h'"
proof -
  obtain heads where c: "call_result ord s (call_plan c) heads s' h1" using perform_result[OF call ord] by blast
  then have rep: "replay_workflow_epochs ord (ws_rows s) = Inr heads" and v: "validate_store ord s' = Inr ()"
    by (simp_all add: call_result_def)
  then have h: "map_of heads plan = Some h" using auth by (simp add: authenticated_iff workflow_head_iff)
  have head': "workflow_head ord s' plan = Inr (if plan = call_plan c then Some h1 else Some h)"
    using called_head[OF c] h by simp
  show ?thesis
  proof (cases "plan = call_plan c")
    case True
    have "h1 = h \<or> (\<exists>a. epoch_step h a h1)" using call_epoch[OF c ord] h True by auto
    then have "eh_candidate h1 = eh_candidate h \<and> eh_graph_id h1 = eh_graph_id h" using step_identity by auto
    then show ?thesis using auth v head' True receipts_kept[OF c h[unfolded True]] by (auto simp: authenticated_iff)
  qed (use auth v head' in \<open>auto simp: authenticated_iff\<close>)
qed

text \<open>
  C27: Once an artifact is authenticated it stays so: no sequence of calls, of this plan or of
  others, makes the authority refuse it later.
\<close>

theorem authentication_persists:
  assumes "iteration_order ord" and "perform_all ord cs s = Inr s'"
    and "authenticate_workflow_artifact ord s plan ty i path producer candidate graph = Inr h"
  shows "\<exists>h'. authenticate_workflow_artifact ord s' plan ty i path producer candidate graph = Inr h'"
  using assms(2,3)
proof (induction cs arbitrary: s h)
  case (Cons c cs)
  then obtain s1 h1 where 1: "perform ord c s = Inr (s1, h1)" "perform_all ord cs s1 = Inr s'"
    by (auto simp: result_simps)
  then show ?case using authentication_call[OF assms(1) 1(1) Cons.prems(2)] Cons.IH by blast
qed auto

lemma ready_head: "ready ord s plan h t \<Longrightarrow> workflow_head ord s plan = Inr (Some h) \<and> validate_store ord s = Inr ()"
  by (auto simp: ready_def workflow_head_iff)

theorem authentication_persists_witness:
  "\<exists>s s' cs (h :: workflow_epoch_head) h'. cs \<noteq> [] \<and> perform_all id cs s = Inr s' \<and>
     authenticate_workflow_artifact id s' sample_plan ''integrated-plan'' sample_plan ''plan.json'' ''workflow-run''
       (eh_candidate h) (eh_graph_id h) = Inr h'"
proof -
  obtain s0 h0 s h where c:
    "perform id (OpenEpoch (sample_call None) sample_plan ''integrated-plan'' ''plan.json'' sample_now none_predecessor)
       sample_store = Inr (s0, h0)"
    "perform id (ConfirmArtifact sample_plan (eh_current_event_head_id h0) sample_plan ''plan.json''
       sample_key sample_now None None) s0 = Inr (s, h)" "eh_phase h = ACTIVE" "ready id s sample_plan h sample_now"
    "receipt_key ` set (eh_receipts h) = {plan_key}"
    by (rule sample_calls)
  have "all_confirmed h" using ready_receipts(2)[OF c(4) iteration_order_id] c(3) by (simp add: epoch_invariant_def)
  moreover obtain r where "r \<in> set (eh_receipts h)" "receipt_key r = plan_key" using c(5) by blast
  ultimately have auth: "authenticate_workflow_artifact id s sample_plan ''integrated-plan'' sample_plan ''plan.json'' ''workflow-run''
       (eh_candidate h) (eh_graph_id h) = Inr h"
    using ready_head[OF c(4)] by (auto simp: authenticated_iff receipt_key_def plan_key_def all_confirmed_def)
  have "perform id (ConfirmArtifact sample_plan (eh_current_event_head_id h0) sample_plan ''plan.json''
       sample_key sample_now None None) s = Inr (s, h)" by (rule perform_again[OF c(2) iteration_order_id])
  then have "perform_all id [ConfirmArtifact sample_plan (eh_current_event_head_id h0) sample_plan ''plan.json''
       sample_key sample_now None None] s = Inr s" by simp
  then obtain cs where run: "perform_all id cs s = Inr s" and cs: "cs \<noteq> []" by blast
  obtain h' where "authenticate_workflow_artifact id s sample_plan ''integrated-plan'' sample_plan ''plan.json''
       ''workflow-run'' (eh_candidate h) (eh_graph_id h) = Inr h'"
    using authentication_persists[OF iteration_order_id run auth] by (elim exE)
  with run cs show ?thesis by (intro exI[of _ s] exI[of _ cs] exI[of _ h] exI[of _ h']) simp
qed

text \<open>
  C28: A reserved end excludes everything else: while a plan's terminal outcome is reserved, only
  calls for that plan succeed, and the scheduler head is still the one the plan is pinned to.
\<close>

theorem pending_terminal_excludes:
  assumes "iteration_order ord" and "perform ord c s = Inr (s', h')"
    and "workflow_head ord s plan = Inr (Some h)" and "eh_phase h = TERMINAL_RESERVED"
  shows "call_plan c = plan \<and> current_triple (ws_authority s') = Inr (head_triple h)"
proof -
  obtain heads where call: "call_result ord s (call_plan c) heads s' h'" using perform_result assms(1,2) by blast
  then have rep: "replay_workflow_epochs ord (ws_rows s) = Inr heads" and v: "validate_store ord s = Inr ()"
    and scope: "call_scope heads (call_plan c)" by (simp_all add: call_result_def)
  have h: "map_of heads plan = Some h" using assms(3) rep by (simp add: workflow_head_iff)
  have "ws_authority s' = ws_authority s" by (rule call_heads[OF call])
  then show ?thesis using call_scope_plan[OF assms(1) rep scope h assms(4)] pending_pin[OF assms(1) v rep h assms(4)] by simp
qed

theorem pending_terminal_excludes_witness:
  "\<exists>s s' h h' c. perform id c s = Inr (s', h') \<and> workflow_head id s sample_plan = Inr (Some h) \<and>
     eh_phase h = TERMINAL_RESERVED \<and> call_plan c = sample_plan \<and>
     current_triple (ws_authority s') = Inr (head_triple h)"
proof -
  obtain s q now h where p: "publishing id s q (confirmations sample_event sample_closure sample_outcome) sample_now h"
    "wq_plan_id q = sample_plan" "wq_producer q = ''workflow-run''" "length (ws_rows s) \<le> 6"
    "\<exists>r \<in> set (eh_receipts h). receipt_key r = confirmation_key q (''workflow-event'', sample_event) \<and> rc_status r = RESERVED"
    by (rule sample_publishing)
  let ?c = "ReserveTerminal q [] sample_event sample_closure sample_outcome sample_now"
  have call: "perform id ?c s = Inr (s, h)" using reservation_found[OF p(1) iteration_order_id] by simp
  have h: "workflow_head id s sample_plan = Inr (Some h)" "eh_phase h = TERMINAL_RESERVED"
    using p(1,2) ready_head by (auto simp: publishing_def)
  show ?thesis using pending_terminal_excludes[OF iteration_order_id call h] call h by blast
qed

section \<open>Publishing an outcome\<close>

text \<open>
  C29: A publication completes, whatever interrupts it: on an active epoch it ends with the epoch
  confirmed and no receipt left open, and when it stops after the reservation and any number of its
  confirmations, the same publication started again completes in the same way.
\<close>

theorem interrupted_publication_completes:
  assumes "iteration_order ord" and "publishable ord s q event state closing now h"
  shows "\<exists>s1 h1. reserve_workflow_terminal ord s q (eh_current_event_head_id h) event state closing now = Inr (s1, h1) \<and>
    (\<forall>n. \<exists>s2 h2 s3 h3.
       confirm_each ord s1 h1 (wq_plan_id q) (wq_idempotency_key q) now (wq_producer q)
         (take n (confirmations event state closing)) = Inr (s2, h2) \<and>
       publish_terminal ord s2 q (eh_current_event_head_id h) event state closing now = Inr (s3, h3) \<and>
       eh_phase h3 = TERMINAL_CONFIRMED \<and> all_confirmed h3 \<and> workflow_head ord s3 (wq_plan_id q) = Inr (Some h3)) \<and>
    (\<exists>s3 h3. publish_terminal ord s q (eh_current_event_head_id h) event state closing now = Inr (s3, h3) \<and>
       eh_phase h3 = TERMINAL_CONFIRMED \<and> all_confirmed h3)"
proof -
  let ?cs = "confirmations event state closing"
  obtain s1 h1 where 1:
    "reserve_workflow_terminal ord s q (eh_current_event_head_id h) event state closing now = Inr (s1, h1)"
    "publishing ord s1 q ?cs now h1" "length (ws_rows s1) = Suc (length (ws_rows s))"
    "set (eh_receipts h1) = set (eh_receipts h) \<union> set (terminal_receipts q event state closing)"
    "eh_recorded_at h1 = projr (workflow_timestamp now)"
    by (rule publication_starts[OF assms(2,1)])
  have "length (ws_rows s) < 2147483630" using assms(2) by (simp add: publishable_def)
  then have len: "length (ws_rows s1) \<le> 2147483630" using 1(3) by linarith
  then have len4: "length (ws_rows s1) + 4 < 2147483646" by simp
  have three: "length (take n ?cs) \<le> 3" for n by (simp add: confirmations_def)
  have "\<exists>s2 h2 s3 h3. confirm_each ord s1 h1 (wq_plan_id q) (wq_idempotency_key q) now (wq_producer q) (take n ?cs) = Inr (s2, h2) \<and>
       publish_terminal ord s2 q (eh_current_event_head_id h) event state closing now = Inr (s3, h3) \<and>
       eh_phase h3 = TERMINAL_CONFIRMED \<and> all_confirmed h3 \<and> workflow_head ord s3 (wq_plan_id q) = Inr (Some h3)" for n
  proof -
    have "length (ws_rows s1) + length (take n ?cs) < 2147483646" using len three[of n] by linarith
    from confirm_each_progress[OF assms(1) 1(2) set_take_subset this] obtain s2 h2 where
      2: "confirm_each ord s1 h1 (wq_plan_id q) (wq_idempotency_key q) now (wq_producer q) (take n ?cs) = Inr (s2, h2)"
      "publishing ord s2 q ?cs now h2" "length (ws_rows s2) \<le> length (ws_rows s1) + length (take n ?cs)" by blast
    have "length (ws_rows s) < 2147483630" using assms(2) by (simp add: publishable_def)
    then have "length (ws_rows s2) + 4 < 2147483646" using 2(3) three[of n] 1(3) by linarith
    from publication_resumes[OF 2(2) assms(1) this] 2(1) show ?thesis by blast
  qed
  moreover from len4 have "\<exists>s3 h3. publish_terminal ord s q (eh_current_event_head_id h) event state closing now = Inr (s3, h3) \<and>
       eh_phase h3 = TERMINAL_CONFIRMED \<and> all_confirmed h3"
    by (rule publication_completes[OF 1(2) assms(1)]) (use publish_unfold[OF 1(1)] in auto)
  ultimately show ?thesis using 1(1) by blast
qed

theorem interrupted_publication_completes_witness:
  "\<exists>s (h :: workflow_epoch_head). eh_phase h = ACTIVE \<and> (\<exists>s3 h3. publish_terminal id s (sample_call (eh_workflow_state_id h)) (eh_current_event_head_id h)
     sample_event sample_closure sample_outcome sample_now = Inr (s3, h3) \<and> eh_phase h3 = TERMINAL_CONFIRMED)"
proof -
  obtain s h where p:
    "publishable id s (sample_call (eh_workflow_state_id h)) sample_event sample_closure sample_outcome sample_now h"
    "length (ws_rows s) \<le> 5" by (rule sample_publishable[OF iteration_order_id])
  have "eh_phase h = ACTIVE" using p(1) by (simp add: publishable_def)
  moreover obtain s3 h3 where "publish_terminal id s (sample_call (eh_workflow_state_id h)) (eh_current_event_head_id h)
     sample_event sample_closure sample_outcome sample_now = Inr (s3, h3)" "eh_phase h3 = TERMINAL_CONFIRMED"
    using interrupted_publication_completes[OF iteration_order_id p(1)] by (elim exE conjE)
  ultimately show ?thesis by (intro exI[of _ s] exI[of _ h]) simp
qed

text \<open>
  C30: A confirmation at the wrong time is fatal: the store accepts the confirmation of a reserved
  terminal artifact at a later time than the reservation's, and from then on no sequence of calls
  confirms the end, and none for another plan succeeds.
\<close>

theorem late_confirmation_wedges:
  assumes "iteration_order ord" and "publishable ord s q event state closing now h" and "wf_timestamp later"
    and "instant (projr (workflow_timestamp now)) < instant (projr (workflow_timestamp later))"
  shows "\<exists>s1 h1 s2 h2.
    reserve_workflow_terminal ord s q (eh_current_event_head_id h) event state closing now = Inr (s1, h1) \<and>
    confirm_workflow_artifact ord s1 (wq_plan_id q) (eh_current_event_head_id h1) (fst event) (snd event)
      (wq_idempotency_key q) later (Some ''workflow-event'') (Some (wq_producer q)) = Inr (s2, h2) \<and>
    (\<forall>cs s3. perform_all ord cs s2 = Inr s3 \<longrightarrow> (\<forall>c \<in> set cs. call_plan c = wq_plan_id q) \<and>
       (\<exists>h3. workflow_head ord s3 (wq_plan_id q) = Inr (Some h3) \<and> eh_phase h3 = TERMINAL_RESERVED))"
proof -
  let ?cs = "confirmations event state closing"
  let ?r = "reserved_receipt ''workflow-event'' (fst event) (snd event) (wq_producer q)"
  obtain s1 h1 where 1:
    "reserve_workflow_terminal ord s q (eh_current_event_head_id h) event state closing now = Inr (s1, h1)"
    "publishing ord s1 q ?cs now h1" "length (ws_rows s1) = Suc (length (ws_rows s))"
    "set (eh_receipts h1) = set (eh_receipts h) \<union> set (terminal_receipts q event state closing)"
    "eh_recorded_at h1 = projr (workflow_timestamp now)"
    by (rule publication_starts[OF assms(2,1)])
  have rdy: "ready ord s1 (wq_plan_id q) h1 later"
    using 1(2,5) assms(3,4) by (simp add: publishing_def ready_def order.strict_implies_order)
  have r: "?r \<in> set (eh_receipts h1)" using 1(4) by (simp add: terminal_receipts_def)
  have f: "rc_id ?r = fst event" "rc_path ?r = snd event" "rc_type ?r = ''workflow-event''" "rc_producer ?r = wq_producer q"
    "rc_status ?r = RESERVED" by (simp_all add: reserved_receipt_def)
  have k: "eh_idempotency_key h1 = wq_idempotency_key q" "eh_phase h1 = TERMINAL_RESERVED"
    "eh_terminal_at h1 = Some (projr (workflow_timestamp now))" using 1(2) by (simp_all add: publishing_def)
  have unit: "Some (rc_type ?r) = None \<or> Some (rc_type ?r) = Some (rc_type ?r)"
    "Some (rc_producer ?r) = None \<or> Some (rc_producer ?r) = Some (rc_producer ?r)" by simp_all
  obtain s2 h2 where 2: "confirm_workflow_artifact ord s1 (wq_plan_id q) (eh_current_event_head_id h1) (rc_id ?r) (rc_path ?r)
       (eh_idempotency_key h1) later (Some (rc_type ?r)) (Some (rc_producer ?r)) = Inr (s2, h2)"
    "length (ws_rows s2) \<le> Suc (length (ws_rows s1))"
    "length (ws_rows s2) < 2147483646 \<longrightarrow> ready ord s2 (wq_plan_id q) h2 later"
    "eh_terminal_at h2 = eh_terminal_at h1" "eh_idempotency_key h2 = eh_idempotency_key h1"
    "eh_producer h2 = eh_producer h1" "eh_source_state_id h2 = eh_source_state_id h1"
    "eh_workflow_state_id h2 = eh_workflow_state_id h1"
    "ws_authority s2 = ws_authority s1" "receipt_key ` set (eh_receipts h2) = receipt_key ` set (eh_receipts h1)"
    "reserved_keys (eh_receipts h2) = reserved_keys (eh_receipts h1) - {receipt_key ?r}"
    "rc_status ?r = RESERVED \<longrightarrow> eh_phase h2 = (if eh_phase h1 = TERMINAL_RESERVED then TERMINAL_RESERVED
       else if reserved_keys (eh_receipts h1) = {receipt_key ?r} then ACTIVE else eh_phase h1)"
    "rc_status ?r = CONFIRMED \<longrightarrow> h2 = h1"
    "rc_status ?r = RESERVED \<longrightarrow> eh_recorded_at h2 = projr (workflow_timestamp later)"
    by (rule confirm_progress[OF rdy assms(1) r unit])
  have late: "late_head h2" using 2(4,12,14) f(5) k assms(4) by (simp add: late_head_def)
  have "length (ws_rows s2) < 2147483646" using 2(2) 1(3) assms(2) by (simp add: publishable_def)
  then have "workflow_head ord s2 (wq_plan_id q) = Inr (Some h2)" using 2(3) ready_head by blast
  from late_store[OF assms(1) this late] have "(\<forall>c \<in> set cs. call_plan c = wq_plan_id q) \<and>
      (\<exists>h3. workflow_head ord s3 (wq_plan_id q) = Inr (Some h3) \<and> eh_phase h3 = TERMINAL_RESERVED)"
    if "perform_all ord cs s2 = Inr s3" for cs s3 using that unfolding late_head_def by blast
  then show ?thesis using 1(1) 2(1)[unfolded f k(1)] by blast
qed

definition sample_later :: string where
  "sample_later = ''2026-01-01T00:00:01Z''"

theorem late_confirmation_wedges_witness:
  "\<exists>s (h :: workflow_epoch_head) s1 h1 s2 h2.
    reserve_workflow_terminal id s (sample_call (eh_workflow_state_id h)) (eh_current_event_head_id h) sample_event
      sample_closure sample_outcome sample_now = Inr (s1, h1) \<and>
    confirm_workflow_artifact id s1 sample_plan (eh_current_event_head_id h1) (fst sample_event) (snd sample_event)
      sample_key sample_later (Some ''workflow-event'') (Some ''workflow-run'') = Inr (s2, h2)"
proof -
  obtain s h where p:
    "publishable id s (sample_call (eh_workflow_state_id h)) sample_event sample_closure sample_outcome sample_now h"
    "length (ws_rows s) \<le> 5" by (rule sample_publishable[OF iteration_order_id])
  have "wf_timestamp sample_later"
    "instant (projr (workflow_timestamp sample_now)) < instant (projr (workflow_timestamp sample_later))" by code_simp+
  from late_confirmation_wedges[OF iteration_order_id p(1) this, unfolded sample_call_simps] show ?thesis by blast
qed

end
