(* ===== verification/ContextDomain.thy ===== *)
theory ContextDomain
  imports SolverDomain
begin

text \<open>
  The typed M5 context data of \<open>domain/context.py\<close>: the string enumerations, the ranks of authority and
  sensitivity, and the frozen dataclasses of manifests, nodes, edges, graphs, queries, selections, snapshots,
  compactions and quality reports with their \<open>content_dict\<close> and \<open>to_dict\<close> encodings.
\<close>

section \<open>Enumerations\<close>

datatype context_artifact_type = CTX_MANIFEST | CTX_GRAPH | CTX_QUERY | CTX_SELECTION | CTX_SNAPSHOT | CTX_COMPACTION | CTX_HOST_SUMMARY_PROPOSAL | CTX_QUALITY_REPORT

fun context_type_value :: "context_artifact_type \<Rightarrow> string" where
  "context_type_value CTX_MANIFEST = ''context-manifest''"
| "context_type_value CTX_GRAPH = ''context-graph''"
| "context_type_value CTX_QUERY = ''context-query''"
| "context_type_value CTX_SELECTION = ''context-selection''"
| "context_type_value CTX_SNAPSHOT = ''context-snapshot''"
| "context_type_value CTX_COMPACTION = ''context-compaction''"
| "context_type_value CTX_HOST_SUMMARY_PROPOSAL = ''context-host-summary-proposal''"
| "context_type_value CTX_QUALITY_REPORT = ''context-quality-report''"

definition context_artifact_type_members :: "context_artifact_type list" where
  "context_artifact_type_members = [CTX_MANIFEST, CTX_GRAPH, CTX_QUERY, CTX_SELECTION, CTX_SNAPSHOT, CTX_COMPACTION, CTX_HOST_SUMMARY_PROPOSAL, CTX_QUALITY_REPORT]"

interpretation context_type_enum: str_enum context_type_value context_artifact_type_members
proof (unfold_locales, goal_cases)
  case (1 e) then show ?case by (cases e) (simp_all add: context_artifact_type_members_def)
qed code_simp+

datatype root_scope = SCOPE_REPOSITORY | SCOPE_OWNER

fun root_scope_value :: "root_scope \<Rightarrow> string" where
  "root_scope_value SCOPE_REPOSITORY = ''repository''"
| "root_scope_value SCOPE_OWNER = ''owner''"

definition root_scope_members :: "root_scope list" where
  "root_scope_members = [SCOPE_REPOSITORY, SCOPE_OWNER]"

interpretation root_scope_enum: str_enum root_scope_value root_scope_members
proof (unfold_locales, goal_cases)
  case (1 e) then show ?case by (cases e) (simp_all add: root_scope_members_def)
qed code_simp+

datatype source_kind = KIND_SPECIFICATION | KIND_REQUIREMENT | KIND_DECISION | KIND_DESIGN | KIND_SOURCE | KIND_TEST | KIND_EVIDENCE | KIND_FINDING | KIND_TASK | KIND_HANDOFF | KIND_TOOL_OBSERVATION | KIND_SOLVER_ARTIFACT

fun source_kind_value :: "source_kind \<Rightarrow> string" where
  "source_kind_value KIND_SPECIFICATION = ''specification''"
| "source_kind_value KIND_REQUIREMENT = ''requirement''"
| "source_kind_value KIND_DECISION = ''decision''"
| "source_kind_value KIND_DESIGN = ''design''"
| "source_kind_value KIND_SOURCE = ''source''"
| "source_kind_value KIND_TEST = ''test''"
| "source_kind_value KIND_EVIDENCE = ''evidence''"
| "source_kind_value KIND_FINDING = ''finding''"
| "source_kind_value KIND_TASK = ''task''"
| "source_kind_value KIND_HANDOFF = ''handoff''"
| "source_kind_value KIND_TOOL_OBSERVATION = ''tool-observation''"
| "source_kind_value KIND_SOLVER_ARTIFACT = ''solver-artifact''"

definition source_kind_members :: "source_kind list" where
  "source_kind_members = [KIND_SPECIFICATION, KIND_REQUIREMENT, KIND_DECISION, KIND_DESIGN, KIND_SOURCE, KIND_TEST, KIND_EVIDENCE, KIND_FINDING, KIND_TASK, KIND_HANDOFF, KIND_TOOL_OBSERVATION, KIND_SOLVER_ARTIFACT]"

interpretation source_kind_enum: str_enum source_kind_value source_kind_members
proof (unfold_locales, goal_cases)
  case (1 e) then show ?case by (cases e) (simp_all add: source_kind_members_def)
qed code_simp+

datatype edge_type = REFERENCES | IMPLEMENTS | VERIFIES | DEPENDS_ON | SUPERSEDES | CONTRADICTS | DERIVED_FROM

fun edge_type_value :: "edge_type \<Rightarrow> string" where
  "edge_type_value REFERENCES = ''references''"
| "edge_type_value IMPLEMENTS = ''implements''"
| "edge_type_value VERIFIES = ''verifies''"
| "edge_type_value DEPENDS_ON = ''depends-on''"
| "edge_type_value SUPERSEDES = ''supersedes''"
| "edge_type_value CONTRADICTS = ''contradicts''"
| "edge_type_value DERIVED_FROM = ''derived-from''"

definition edge_type_members :: "edge_type list" where
  "edge_type_members = [REFERENCES, IMPLEMENTS, VERIFIES, DEPENDS_ON, SUPERSEDES, CONTRADICTS, DERIVED_FROM]"

interpretation edge_type_enum: str_enum edge_type_value edge_type_members
proof (unfold_locales, goal_cases)
  case (1 e) then show ?case by (cases e) (simp_all add: edge_type_members_def)
qed code_simp+

datatype authority_class = OWNER_APPROVED | CANONICAL_SPECIFICATION | ACCEPTED_PUBLIC_CONTRACT | VERIFIED_EVIDENCE | REPOSITORY_RECORD | UNTRUSTED_OBSERVATION | UNTRUSTED_PROPOSAL

fun authority_value :: "authority_class \<Rightarrow> string" where
  "authority_value OWNER_APPROVED = ''owner-approved''"
| "authority_value CANONICAL_SPECIFICATION = ''canonical-specification''"
| "authority_value ACCEPTED_PUBLIC_CONTRACT = ''accepted-public-contract''"
| "authority_value VERIFIED_EVIDENCE = ''verified-evidence''"
| "authority_value REPOSITORY_RECORD = ''repository-record''"
| "authority_value UNTRUSTED_OBSERVATION = ''untrusted-observation''"
| "authority_value UNTRUSTED_PROPOSAL = ''untrusted-proposal''"

definition authority_class_members :: "authority_class list" where
  "authority_class_members = [OWNER_APPROVED, CANONICAL_SPECIFICATION, ACCEPTED_PUBLIC_CONTRACT, VERIFIED_EVIDENCE, REPOSITORY_RECORD, UNTRUSTED_OBSERVATION, UNTRUSTED_PROPOSAL]"

interpretation authority_enum: str_enum authority_value authority_class_members
proof (unfold_locales, goal_cases)
  case (1 e) then show ?case by (cases e) (simp_all add: authority_class_members_def)
qed code_simp+

datatype freshness_kind = IMMUTABLE | CANDIDATE_BOUND | EXPIRES_AT

fun freshness_value :: "freshness_kind \<Rightarrow> string" where
  "freshness_value IMMUTABLE = ''immutable''"
| "freshness_value CANDIDATE_BOUND = ''candidate-bound''"
| "freshness_value EXPIRES_AT = ''expires-at''"

definition freshness_kind_members :: "freshness_kind list" where
  "freshness_kind_members = [IMMUTABLE, CANDIDATE_BOUND, EXPIRES_AT]"

interpretation freshness_enum: str_enum freshness_value freshness_kind_members
proof (unfold_locales, goal_cases)
  case (1 e) then show ?case by (cases e) (simp_all add: freshness_kind_members_def)
qed code_simp+

text \<open>\<open>AUTHORITY_RANK\<close>: the position of a class in its enumeration.\<close>

fun authority_rank :: "authority_class \<Rightarrow> int" where
  "authority_rank OWNER_APPROVED = 0"
| "authority_rank CANONICAL_SPECIFICATION = 1"
| "authority_rank ACCEPTED_PUBLIC_CONTRACT = 2"
| "authority_rank VERIFIED_EVIDENCE = 3"
| "authority_rank REPOSITORY_RECORD = 4"
| "authority_rank UNTRUSTED_OBSERVATION = 5"
| "authority_rank UNTRUSTED_PROPOSAL = 6"

section \<open>Records\<close>

record freshness =
  fr_kind :: freshness_kind
  fr_observed_at :: "string option"
  fr_valid_until :: "string option"

definition freshness_to_dict :: "freshness \<Rightarrow> json" where
  "freshness_to_dict f = JObj [
     (''kind'', JStr (freshness_value (fr_kind f))),
     (''observed_at'', enc_option JStr (fr_observed_at f)),
     (''valid_until'', enc_option JStr (fr_valid_until f))]"

record context_provenance =
  pv_producer :: string
  pv_recorded_by :: string
  pv_references :: "artifact_reference list"

definition provenance_to_dict :: "context_provenance \<Rightarrow> json" where
  "provenance_to_dict p = JObj [
     (''producer'', JStr (pv_producer p)),
     (''recorded_by'', JStr (pv_recorded_by p)),
     (''references'', JArr (map reference_to_dict (pv_references p)))]"

record source_locator =
  lo_root_scope :: root_scope
  lo_path :: string
  lo_sha256 :: string
  lo_line_start :: int
  lo_line_end :: int

definition locator_to_dict :: "source_locator \<Rightarrow> json" where
  "locator_to_dict l = JObj [
     (''root_scope'', JStr (root_scope_value (lo_root_scope l))),
     (''path'', JStr (lo_path l)),
     (''sha256'', JStr (lo_sha256 l)),
     (''line_start'', JInt (lo_line_start l)),
     (''line_end'', JInt (lo_line_end l))]"

record context_node =
  nd_node_id :: string
  nd_source_id :: string
  nd_kind :: source_kind
  nd_title :: string
  nd_text :: string
  nd_text_sha256 :: string
  nd_locator :: source_locator
  nd_provenance :: context_provenance
  nd_authority :: authority_class
  nd_freshness :: freshness
  nd_sensitivity :: sensitivity
  nd_identifiers :: "string list"
  nd_labels :: "string list"
  nd_required :: bool

definition source_content_dict :: "context_node \<Rightarrow> json" where
  "source_content_dict n = JObj [
     (''kind'', JStr (source_kind_value (nd_kind n))),
     (''title'', JStr (nd_title n)),
     (''locator'', locator_to_dict (nd_locator n)),
     (''provenance'', provenance_to_dict (nd_provenance n)),
     (''authority'', JStr (authority_value (nd_authority n))),
     (''freshness'', freshness_to_dict (nd_freshness n)),
     (''sensitivity'', JStr (sensitivity_value (nd_sensitivity n))),
     (''identifiers'', JArr (map JStr (nd_identifiers n))),
     (''labels'', JArr (map JStr (nd_labels n))),
     (''required'', JBool (nd_required n))]"

definition node_content_dict :: "context_node \<Rightarrow> json" where
  "node_content_dict n = JObj [
     (''source_id'', JStr (nd_source_id n)),
     (''kind'', JStr (source_kind_value (nd_kind n))),
     (''title'', JStr (nd_title n)),
     (''text'', JStr (nd_text n)),
     (''text_sha256'', JStr (nd_text_sha256 n)),
     (''locator'', locator_to_dict (nd_locator n)),
     (''provenance'', provenance_to_dict (nd_provenance n)),
     (''authority'', JStr (authority_value (nd_authority n))),
     (''freshness'', freshness_to_dict (nd_freshness n)),
     (''sensitivity'', JStr (sensitivity_value (nd_sensitivity n))),
     (''identifiers'', JArr (map JStr (nd_identifiers n))),
     (''labels'', JArr (map JStr (nd_labels n))),
     (''required'', JBool (nd_required n))]"

definition node_to_dict :: "context_node \<Rightarrow> json" where
  "node_to_dict n = JObj [
     (''node_id'', JStr (nd_node_id n)),
     (''source_id'', JStr (nd_source_id n)),
     (''kind'', JStr (source_kind_value (nd_kind n))),
     (''title'', JStr (nd_title n)),
     (''text'', JStr (nd_text n)),
     (''text_sha256'', JStr (nd_text_sha256 n)),
     (''locator'', locator_to_dict (nd_locator n)),
     (''provenance'', provenance_to_dict (nd_provenance n)),
     (''authority'', JStr (authority_value (nd_authority n))),
     (''freshness'', freshness_to_dict (nd_freshness n)),
     (''sensitivity'', JStr (sensitivity_value (nd_sensitivity n))),
     (''identifiers'', JArr (map JStr (nd_identifiers n))),
     (''labels'', JArr (map JStr (nd_labels n))),
     (''required'', JBool (nd_required n))]"

record context_edge =
  ed_edge_id :: string
  ed_edge_type :: edge_type
  ed_source_node_id :: string
  ed_target_node_id :: string
  ed_provenance :: context_provenance

definition edge_content_dict :: "context_edge \<Rightarrow> json" where
  "edge_content_dict e = JObj [
     (''edge_type'', JStr (edge_type_value (ed_edge_type e))),
     (''source_node_id'', JStr (ed_source_node_id e)),
     (''target_node_id'', JStr (ed_target_node_id e)),
     (''provenance'', provenance_to_dict (ed_provenance e))]"

definition edge_to_dict :: "context_edge \<Rightarrow> json" where
  "edge_to_dict e = JObj [
     (''edge_id'', JStr (ed_edge_id e)),
     (''edge_type'', JStr (edge_type_value (ed_edge_type e))),
     (''source_node_id'', JStr (ed_source_node_id e)),
     (''target_node_id'', JStr (ed_target_node_id e)),
     (''provenance'', provenance_to_dict (ed_provenance e))]"

record context_source =
  sc_source_id :: string
  sc_kind :: source_kind
  sc_title :: string
  sc_locator :: source_locator
  sc_provenance :: context_provenance
  sc_authority :: authority_class
  sc_freshness :: freshness
  sc_sensitivity :: sensitivity
  sc_identifiers :: "string list"
  sc_labels :: "string list"
  sc_required :: bool

definition declared_content_dict :: "context_source \<Rightarrow> json" where
  "declared_content_dict s = JObj [
     (''kind'', JStr (source_kind_value (sc_kind s))),
     (''title'', JStr (sc_title s)),
     (''locator'', locator_to_dict (sc_locator s)),
     (''provenance'', provenance_to_dict (sc_provenance s)),
     (''authority'', JStr (authority_value (sc_authority s))),
     (''freshness'', freshness_to_dict (sc_freshness s)),
     (''sensitivity'', JStr (sensitivity_value (sc_sensitivity s))),
     (''identifiers'', JArr (map JStr (sc_identifiers s))),
     (''labels'', JArr (map JStr (sc_labels s))),
     (''required'', JBool (sc_required s))]"

definition source_to_dict :: "context_source \<Rightarrow> json" where
  "source_to_dict s = JObj [
     (''source_id'', JStr (sc_source_id s)),
     (''kind'', JStr (source_kind_value (sc_kind s))),
     (''title'', JStr (sc_title s)),
     (''locator'', locator_to_dict (sc_locator s)),
     (''provenance'', provenance_to_dict (sc_provenance s)),
     (''authority'', JStr (authority_value (sc_authority s))),
     (''freshness'', freshness_to_dict (sc_freshness s)),
     (''sensitivity'', JStr (sensitivity_value (sc_sensitivity s))),
     (''identifiers'', JArr (map JStr (sc_identifiers s))),
     (''labels'', JArr (map JStr (sc_labels s))),
     (''required'', JBool (sc_required s))]"

record context_relationship =
  rl_edge_type :: edge_type
  rl_source_id :: string
  rl_target_id :: string
  rl_provenance :: context_provenance

definition relationship_to_dict :: "context_relationship \<Rightarrow> json" where
  "relationship_to_dict r = JObj [
     (''edge_type'', JStr (edge_type_value (rl_edge_type r))),
     (''source_id'', JStr (rl_source_id r)),
     (''target_id'', JStr (rl_target_id r)),
     (''provenance'', provenance_to_dict (rl_provenance r))]"

record context_manifest =
  cm_candidate :: candidate_identity
  cm_sensitivity :: sensitivity
  cm_sources :: "context_source list"
  cm_relationships :: "context_relationship list"

definition context_manifest_to_dict :: "context_manifest \<Rightarrow> json" where
  "context_manifest_to_dict m = JObj [
     (''candidate'', candidate_to_dict (cm_candidate m)),
     (''sensitivity'', JStr (sensitivity_value (cm_sensitivity m))),
     (''sources'', JArr (map source_to_dict (cm_sources m))),
     (''relationships'', JArr (map relationship_to_dict (cm_relationships m)))]"

record source_exclusion =
  sx_source_id :: string
  sx_reason :: string
  sx_details :: "string list"

definition source_exclusion_to_dict :: "source_exclusion \<Rightarrow> json" where
  "source_exclusion_to_dict x = JObj [
     (''source_id'', JStr (sx_source_id x)),
     (''reason'', JStr (sx_reason x)),
     (''details'', JArr (map JStr (sx_details x)))]"

record context_graph =
  cg_candidate :: candidate_identity
  cg_manifest_id :: string
  cg_sensitivity :: sensitivity
  cg_nodes :: "context_node list"
  cg_edges :: "context_edge list"
  cg_excluded_sources :: "source_exclusion list"

definition context_graph_to_dict :: "context_graph \<Rightarrow> json" where
  "context_graph_to_dict g = JObj [
     (''candidate'', candidate_to_dict (cg_candidate g)),
     (''manifest_id'', JStr (cg_manifest_id g)),
     (''sensitivity'', JStr (sensitivity_value (cg_sensitivity g))),
     (''nodes'', JArr (map node_to_dict (cg_nodes g))),
     (''edges'', JArr (map edge_to_dict (cg_edges g))),
     (''excluded_sources'', JArr (map source_exclusion_to_dict (cg_excluded_sources g)))]"

record context_budget =
  cb_budget_bytes :: int
  cb_max_nodes :: int
  cb_max_edges :: int
  cb_max_traversal_depth :: int

definition context_budget_to_dict :: "context_budget \<Rightarrow> json" where
  "context_budget_to_dict b = JObj [
     (''unit'', JStr ''canonical_utf8_bytes''),
     (''budget_bytes'', JInt (cb_budget_bytes b)),
     (''max_nodes'', JInt (cb_max_nodes b)),
     (''max_edges'', JInt (cb_max_edges b)),
     (''max_traversal_depth'', JInt (cb_max_traversal_depth b))]"

record context_query =
  cq_candidate :: candidate_identity
  cq_graph_id :: string
  cq_as_of :: string
  cq_clearance :: sensitivity
  cq_required_node_ids :: "string list"
  cq_seed_node_ids :: "string list"
  cq_identifiers :: "string list"
  cq_terms :: "string list"
  cq_allowed_edge_types :: "edge_type list"
  cq_budget :: context_budget

definition context_query_to_dict :: "context_query \<Rightarrow> json" where
  "context_query_to_dict q = JObj [
     (''candidate'', candidate_to_dict (cq_candidate q)),
     (''graph_id'', JStr (cq_graph_id q)),
     (''as_of'', JStr (cq_as_of q)),
     (''clearance'', JStr (sensitivity_value (cq_clearance q))),
     (''required_node_ids'', JArr (map JStr (cq_required_node_ids q))),
     (''seed_node_ids'', JArr (map JStr (cq_seed_node_ids q))),
     (''identifiers'', JArr (map JStr (cq_identifiers q))),
     (''terms'', JArr (map JStr (cq_terms q))),
     (''allowed_edge_types'', JArr (map (JStr \<circ> edge_type_value) (cq_allowed_edge_types q))),
     (''budget'', context_budget_to_dict (cq_budget q))]"

record selection_decision =
  sd_node_id :: string
  sd_reasons :: "string list"
  sd_phase :: int
  sd_authority_rank :: int
  sd_graph_distance :: int
  sd_lexical_score :: int
  sd_sensitivity_rank :: int
  sd_cost_bytes :: int

definition decision_to_dict :: "selection_decision \<Rightarrow> json" where
  "decision_to_dict d = JObj [
     (''node_id'', JStr (sd_node_id d)),
     (''reasons'', JArr (map JStr (sd_reasons d))),
     (''rank'', JObj [
       (''phase'', JInt (sd_phase d)),
       (''authority_rank'', JInt (sd_authority_rank d)),
       (''graph_distance'', JInt (sd_graph_distance d)),
       (''lexical_score'', JInt (sd_lexical_score d)),
       (''sensitivity_rank'', JInt (sd_sensitivity_rank d)),
       (''node_id'', JStr (sd_node_id d))]),
     (''cost_bytes'', JInt (sd_cost_bytes d))]"

record exclusion_decision =
  xd_node_id :: string
  xd_reason :: string
  xd_details :: "string list"

definition exclusion_to_dict :: "exclusion_decision \<Rightarrow> json" where
  "exclusion_to_dict x = JObj [
     (''node_id'', JStr (xd_node_id x)),
     (''reason'', JStr (xd_reason x)),
     (''details'', JArr (map JStr (xd_details x)))]"

record context_selection =
  cs_candidate :: candidate_identity
  cs_graph_id :: string
  cs_query_id :: string
  cs_query :: context_query
  cs_as_of :: string
  cs_sensitivity :: sensitivity
  cs_selected :: "selection_decision list"
  cs_excluded :: "exclusion_decision list"
  cs_selected_edge_ids :: "string list"
  cs_unresolved_contradiction_ids :: "string list"
  cs_edge_cost_bytes :: int
  cs_used_bytes :: int
  cs_budget_bytes :: int
  cs_traversal_truncated :: bool

definition context_selection_to_dict :: "context_selection \<Rightarrow> json" where
  "context_selection_to_dict s = JObj [
     (''candidate'', candidate_to_dict (cs_candidate s)),
     (''graph_id'', JStr (cs_graph_id s)),
     (''query_id'', JStr (cs_query_id s)),
     (''query'', context_query_to_dict (cs_query s)),
     (''as_of'', JStr (cs_as_of s)),
     (''sensitivity'', JStr (sensitivity_value (cs_sensitivity s))),
     (''selected'', JArr (map decision_to_dict (cs_selected s))),
     (''excluded'', JArr (map exclusion_to_dict (cs_excluded s))),
     (''selected_edge_ids'', JArr (map JStr (cs_selected_edge_ids s))),
     (''unresolved_contradiction_ids'', JArr (map JStr (cs_unresolved_contradiction_ids s))),
     (''edge_cost_bytes'', JInt (cs_edge_cost_bytes s)),
     (''used_bytes'', JInt (cs_used_bytes s)),
     (''budget_bytes'', JInt (cs_budget_bytes s)),
     (''traversal_truncated'', JBool (cs_traversal_truncated s))]"

record context_snapshot =
  sn_candidate :: candidate_identity
  sn_graph_id :: string
  sn_query_id :: string
  sn_selection_id :: string
  sn_as_of :: string
  sn_sensitivity :: sensitivity
  sn_nodes :: "context_node list"
  sn_edges :: "context_edge list"
  sn_selected :: "selection_decision list"
  sn_excluded :: "exclusion_decision list"
  sn_unresolved_contradiction_ids :: "string list"
  sn_context_bytes :: int
  sn_budget_bytes :: int

definition context_snapshot_to_dict :: "context_snapshot \<Rightarrow> json" where
  "context_snapshot_to_dict s = JObj [
     (''candidate'', candidate_to_dict (sn_candidate s)),
     (''graph_id'', JStr (sn_graph_id s)),
     (''query_id'', JStr (sn_query_id s)),
     (''selection_id'', JStr (sn_selection_id s)),
     (''as_of'', JStr (sn_as_of s)),
     (''sensitivity'', JStr (sensitivity_value (sn_sensitivity s))),
     (''nodes'', JArr (map node_to_dict (sn_nodes s))),
     (''edges'', JArr (map edge_to_dict (sn_edges s))),
     (''selected'', JArr (map decision_to_dict (sn_selected s))),
     (''excluded'', JArr (map exclusion_to_dict (sn_excluded s))),
     (''unresolved_contradiction_ids'', JArr (map JStr (sn_unresolved_contradiction_ids s))),
     (''context_bytes'', JInt (sn_context_bytes s)),
     (''budget_bytes'', JInt (sn_budget_bytes s))]"

record context_snapshot_delta =
  dl_base_snapshot_id :: string
  dl_current_snapshot_id :: string
  dl_added_node_ids :: "string list"
  dl_removed_node_ids :: "string list"
  dl_added_edge_ids :: "string list"
  dl_removed_edge_ids :: "string list"
  dl_sensitivity_changed :: bool
  dl_candidate_changed :: bool

definition snapshot_delta_to_dict :: "context_snapshot_delta \<Rightarrow> json" where
  "snapshot_delta_to_dict d = JObj [
     (''base_snapshot_id'', JStr (dl_base_snapshot_id d)),
     (''current_snapshot_id'', JStr (dl_current_snapshot_id d)),
     (''added_node_ids'', JArr (map JStr (dl_added_node_ids d))),
     (''removed_node_ids'', JArr (map JStr (dl_removed_node_ids d))),
     (''added_edge_ids'', JArr (map JStr (dl_added_edge_ids d))),
     (''removed_edge_ids'', JArr (map JStr (dl_removed_edge_ids d))),
     (''sensitivity_changed'', JBool (dl_sensitivity_changed d)),
     (''candidate_changed'', JBool (dl_candidate_changed d))]"

record context_extract =
  ex_node_id :: string
  ex_source_id :: string
  ex_text :: string
  ex_text_sha256 :: string
  ex_authority :: authority_class
  ex_sensitivity :: sensitivity
  ex_required :: bool
  ex_contradiction_ids :: "string list"
  ex_cost_bytes :: int

definition extract_to_dict :: "context_extract \<Rightarrow> json" where
  "extract_to_dict x = JObj [
     (''node_id'', JStr (ex_node_id x)),
     (''source_id'', JStr (ex_source_id x)),
     (''text'', JStr (ex_text x)),
     (''text_sha256'', JStr (ex_text_sha256 x)),
     (''authority'', JStr (authority_value (ex_authority x))),
     (''sensitivity'', JStr (sensitivity_value (ex_sensitivity x))),
     (''required'', JBool (ex_required x)),
     (''contradiction_ids'', JArr (map JStr (ex_contradiction_ids x))),
     (''cost_bytes'', JInt (ex_cost_bytes x))]"

record context_compaction =
  co_candidate :: candidate_identity
  co_snapshot_id :: string
  co_sensitivity :: sensitivity
  co_budget_bytes :: int
  co_used_bytes :: int
  co_extracts :: "context_extract list"
  co_omitted_node_ids :: "string list"
  co_unresolved_contradiction_ids :: "string list"
  co_host_summary_proposal_id :: "string option"

definition context_compaction_to_dict :: "context_compaction \<Rightarrow> json" where
  "context_compaction_to_dict c = JObj [
     (''candidate'', candidate_to_dict (co_candidate c)),
     (''snapshot_id'', JStr (co_snapshot_id c)),
     (''sensitivity'', JStr (sensitivity_value (co_sensitivity c))),
     (''budget_bytes'', JInt (co_budget_bytes c)),
     (''used_bytes'', JInt (co_used_bytes c)),
     (''extracts'', JArr (map extract_to_dict (co_extracts c))),
     (''omitted_node_ids'', JArr (map JStr (co_omitted_node_ids c))),
     (''unresolved_contradiction_ids'', JArr (map JStr (co_unresolved_contradiction_ids c))),
     (''host_summary_proposal_id'', enc_option JStr (co_host_summary_proposal_id c))]"

record source_linked_claim =
  cl_claim :: string
  cl_source_node_ids :: "string list"
  cl_extract_sha256s :: "string list"

definition claim_to_dict :: "source_linked_claim \<Rightarrow> json" where
  "claim_to_dict c = JObj [
     (''claim'', JStr (cl_claim c)),
     (''source_node_ids'', JArr (map JStr (cl_source_node_ids c))),
     (''extract_sha256s'', JArr (map JStr (cl_extract_sha256s c)))]"

record host_summary_proposal =
  hp_snapshot_id :: string
  hp_authority :: authority_class
  hp_sensitivity :: sensitivity
  hp_claims :: "source_linked_claim list"

definition host_proposal_to_dict :: "host_summary_proposal \<Rightarrow> json" where
  "host_proposal_to_dict p = JObj [
     (''snapshot_id'', JStr (hp_snapshot_id p)),
     (''authority'', JStr (authority_value (hp_authority p))),
     (''sensitivity'', JStr (sensitivity_value (hp_sensitivity p))),
     (''claims'', JArr (map claim_to_dict (hp_claims p)))]"

record context_quality_report =
  qr_candidate :: candidate_identity
  qr_snapshot_id :: string
  qr_sensitivity :: sensitivity
  qr_required_reference_recall :: int
  qr_stale_required_count :: int
  qr_provenance_complete_count :: int
  qr_provenance_missing_count :: int
  qr_sensitivity_violation_count :: int
  qr_selected_context_bytes :: int
  qr_budget_bytes :: int
  qr_redundant_bytes :: int
  qr_selected_node_count :: int
  qr_excluded_node_count :: int
  qr_unresolved_contradiction_count :: int
  qr_traversal_truncated :: bool

definition quality_report_to_dict :: "context_quality_report \<Rightarrow> json" where
  "quality_report_to_dict r = JObj [
     (''candidate'', candidate_to_dict (qr_candidate r)),
     (''snapshot_id'', JStr (qr_snapshot_id r)),
     (''sensitivity'', JStr (sensitivity_value (qr_sensitivity r))),
     (''required_reference_recall'', JInt (qr_required_reference_recall r)),
     (''stale_required_count'', JInt (qr_stale_required_count r)),
     (''provenance_complete_count'', JInt (qr_provenance_complete_count r)),
     (''provenance_missing_count'', JInt (qr_provenance_missing_count r)),
     (''sensitivity_violation_count'', JInt (qr_sensitivity_violation_count r)),
     (''selected_context_bytes'', JInt (qr_selected_context_bytes r)),
     (''budget_bytes'', JInt (qr_budget_bytes r)),
     (''redundant_bytes'', JInt (qr_redundant_bytes r)),
     (''selected_node_count'', JInt (qr_selected_node_count r)),
     (''excluded_node_count'', JInt (qr_excluded_node_count r)),
     (''unresolved_contradiction_count'', JInt (qr_unresolved_contradiction_count r)),
     (''traversal_truncated'', JBool (qr_traversal_truncated r))]"

section \<open>Artifacts\<close>

text \<open>The values an envelope carries.\<close>

datatype context_value = ManifestValue context_manifest | GraphValue context_graph | QueryValue context_query
  | SelectionValue context_selection | SnapshotValue context_snapshot
  | CompactionValue context_compaction | ProposalValue host_summary_proposal
  | QualityValue context_quality_report

fun context_value_to_dict :: "context_value \<Rightarrow> json" where
  "context_value_to_dict (ManifestValue m) = context_manifest_to_dict m"
| "context_value_to_dict (GraphValue g) = context_graph_to_dict g"
| "context_value_to_dict (QueryValue q) = context_query_to_dict q"
| "context_value_to_dict (SelectionValue s) = context_selection_to_dict s"
| "context_value_to_dict (SnapshotValue s) = context_snapshot_to_dict s"
| "context_value_to_dict (CompactionValue c) = context_compaction_to_dict c"
| "context_value_to_dict (ProposalValue p) = host_proposal_to_dict p"
| "context_value_to_dict (QualityValue r) = quality_report_to_dict r"

record context_artifact =
  ca_type :: context_artifact_type
  ca_id :: string
  ca_value :: context_value

definition context_artifact_to_dict :: "context_artifact \<Rightarrow> json" where
  "context_artifact_to_dict a = JObj [
     (''schema_version'', JStr ''1.0''),
     (''artifact_type'', JStr (context_type_value (ca_type a))),
     (''artifact_id'', JStr (ca_id a)),
     (''content'', context_value_to_dict (ca_value a))]"

end
