(* ===== verification/ContextLeaves.thy ===== *)
theory ContextLeaves
  imports ContextDomain RegistryContracts
begin

text \<open>
  The value helpers of \<open>application/context_contracts.py\<close>: bounded text, context identifiers,
  timestamps, ascending lists, the derived sensitivity, and the parsers of the parts that context
  documents share (locator, provenance, freshness), each an interpretation of \<open>codec\<close>.
\<close>

section \<open>Text\<close>

text \<open>UTF-8 of the code points below 256.\<close>

definition utf8_bytes :: "string \<Rightarrow> string" where
  "utf8_bytes s = concat (map (\<lambda>c. if code c < 128 then [c]
     else [char_of (192 + code c div 64), char_of (128 + code c mod 64)]) s)"

abbreviation source_bytes :: nat where "source_bytes \<equiv> 262144"
abbreviation source_characters :: nat where "source_characters \<equiv> 65536"

definition context_text :: "nat \<Rightarrow> bool \<Rightarrow> json \<Rightarrow> string result" where
  "context_text maximum allow_empty j = (case j of
     JStr s \<Rightarrow>
       if \<not> allow_empty \<and> list_all py_space s then Inl (ContextContractError EmptyText)
       else if length s > maximum then Inl (ContextContractError TextLimit)
       else if maximum = source_bytes \<and> (length s > source_characters \<or> length (utf8_bytes s) > source_bytes)
         then Inl (ContextContractError TextLimit)
       else if list_ex (\<lambda>c. code c = 0) s then Inl (ContextContractError UnsupportedText)
       else if secret_text s then Inl (ContextContractError SecretText)
       else Inr s
   | _ \<Rightarrow> Inl (ContextContractError EmptyText))"

definition wf_text :: "nat \<Rightarrow> bool \<Rightarrow> string \<Rightarrow> bool" where
  "wf_text maximum allow_empty s = ((allow_empty \<or> \<not> list_all py_space s) \<and> length s \<le> maximum \<and>
     (maximum = source_bytes \<longrightarrow> length s \<le> source_characters \<and> length (utf8_bytes s) \<le> source_bytes) \<and>
     list_all (\<lambda>c. code c \<noteq> 0) s \<and> \<not> secret_text s)"

lemma context_text_iff [result_simps]:
  "context_text n e j = Inr s \<longleftrightarrow> j = JStr s \<and> wf_text n e s"
  by (cases j) (auto simp: context_text_def wf_text_def list_ex_iff list_all_iff not_less)

interpretation context_text_codec: codec "context_text n e" JStr "wf_text n e" for n e
  by unfold_locales (auto simp: context_text_iff)

section \<open>Identifiers and timestamps\<close>

definition context_id_pattern :: "string \<Rightarrow> bool" where
  "context_id_pattern s = (let head = take (length s - 64) s; middle = butlast (drop 4 head) in
     64 < length s \<and> starts ''CTX-'' head \<and> 4 < length head \<and> last head = CHR ''-'' \<and> middle \<noteq> [] \<and>
     list_all (\<lambda>c. is_upper c \<or> c = CHR ''-'') middle \<and> hex64 (drop (length s - 64) s))"

definition context_id :: "string \<Rightarrow> json \<Rightarrow> string result" where
  "context_id prefix = matched_text 128 (\<lambda>s. context_id_pattern s \<and> starts prefix s)
     (ContextContractError BadContextId)"

definition wf_context_id :: "string \<Rightarrow> string \<Rightarrow> bool" where
  "wf_context_id prefix s = (plain_text 128 s \<and> context_id_pattern s \<and> starts prefix s)"

lemma context_id_iff [result_simps]: "context_id p j = Inr s \<longleftrightarrow> j = JStr s \<and> wf_context_id p s"
  by (auto simp: context_id_def wf_context_id_def matched_text_iff)

interpretation context_id_codec: codec "context_id p" JStr "wf_context_id p" for p
  by unfold_locales (auto simp: context_id_iff)

definition context_timestamp :: "json \<Rightarrow> string result" where
  "context_timestamp j = bindR (line_value 40 j) (\<lambda>text.
     bindR (require (rfc3339_utc text) (ContextContractError BadTimestamp)) (\<lambda>_.
     bindR (require (valid_utc (utc_fields text)) (ContextContractError BadTimestamp)) (\<lambda>_.
     Inr text)))"

lemma context_timestamp_iff [result_simps]: "context_timestamp j = Inr s \<longleftrightarrow> j = JStr s \<and> wf_timestamp s"
  by (auto simp: context_timestamp_def wf_timestamp_def result_simps)

interpretation context_time_codec: codec context_timestamp JStr wf_timestamp
  by unfold_locales (auto simp: context_timestamp_iff)

section \<open>Ascending lists\<close>

definition ascending_unique :: "'a::linorder list \<Rightarrow> unit result" where
  "ascending_unique xs = bindR (require (xs = sort xs) (ContextContractError NotAscending)) (\<lambda>_.
     require (distinct xs) (ContextContractError NotUnique))"

lemma ascending_unique_iff [result_simps]: "ascending_unique xs = Inr u \<longleftrightarrow> sorted_wrt (<) xs"
  by (simp add: ascending_unique_def result_simps strict_sorted_iff) (metis sorted_sort sorted_sort_id)

lemma ascending_unique_ok [simp]: "sorted_wrt (<) xs \<Longrightarrow> ascending_unique xs = Inr ()"
  by (simp add: ascending_unique_iff)

text \<open>An array of at most \<open>n\<close> items.\<close>

definition array_of :: "nat \<Rightarrow> (json \<Rightarrow> 'a result) \<Rightarrow> json \<Rightarrow> 'a list result" where
  "array_of n p j = bindR (array_value n j) (\<lambda>raw. mapR p raw)"

lemma codec_array:
  assumes c: "codec p enc ok"
  shows "codec (array_of n p) (\<lambda>xs. JArr (map enc xs)) (\<lambda>xs. length xs \<le> n \<and> list_all ok xs)"
proof (unfold_locales, goal_cases)
  case (1 xs) then show ?case by (simp add: array_of_def codec.mapR_enc[OF c])
next
  case (2 j xs) then show ?case
    by (clarsimp simp: array_of_def result_simps codec.mapR_wf[OF c]) (metis mapR_length)
next
  case (3 j xs) then show ?case by (clarsimp simp: array_of_def result_simps codec.mapR_canonical[OF c])
qed (rule codec.wf_json_map[OF c])

definition sorted_of :: "nat \<Rightarrow> nat \<Rightarrow> (json \<Rightarrow> 'a::linorder result) \<Rightarrow> json \<Rightarrow> 'a list result" where
  "sorted_of minimum maximum p j = bindR (array_of maximum p j) (\<lambda>xs.
     bindR (require (\<not> length xs < minimum) (ContextContractError TooFewItems)) (\<lambda>_.
     bindR (ascending_unique xs) (\<lambda>_. Inr xs)))"

definition wf_sorted :: "nat \<Rightarrow> nat \<Rightarrow> ('a::linorder \<Rightarrow> bool) \<Rightarrow> 'a list \<Rightarrow> bool" where
  "wf_sorted minimum maximum ok xs =
     (minimum \<le> length xs \<and> length xs \<le> maximum \<and> list_all ok xs \<and> sorted_wrt (<) xs)"

lemma codec_sorted:
  assumes c: "codec p enc ok"
  shows "codec (sorted_of lo hi p) (\<lambda>xs. JArr (map enc xs)) (wf_sorted lo hi ok)"
proof (unfold_locales, goal_cases)
  case (1 xs)
  then show ?case using codec.parse_enc[OF codec_array[OF c]] by (simp add: sorted_of_def wf_sorted_def)
next
  case (2 j xs)
  then show ?case using codec.parse_wf[OF codec_array[OF c]] by (auto simp: sorted_of_def wf_sorted_def result_simps)
next
  case (3 j xs)
  then show ?case using codec.parse_canonical[OF codec_array[OF c]] by (auto simp: sorted_of_def result_simps)
qed (rule codec.wf_json_map[OF c])

abbreviation sorted_texts :: "nat \<Rightarrow> nat \<Rightarrow> json \<Rightarrow> string list result" where
  "sorted_texts lo hi \<equiv> sorted_of lo hi (context_text 500 False)"

abbreviation sorted_ids :: "string \<Rightarrow> nat \<Rightarrow> json \<Rightarrow> string list result" where
  "sorted_ids prefix maximum \<equiv> sorted_of 0 maximum (context_id prefix)"

abbreviation graph_nodes_limit :: nat where "graph_nodes_limit \<equiv> 4096"
abbreviation graph_edges_limit :: nat where "graph_edges_limit \<equiv> 16384"

interpretation texts_codec: codec "sorted_texts lo hi" "\<lambda>xs. JArr (map JStr xs)" "wf_sorted lo hi (wf_text 500 False)"
  for lo hi
  by (rule codec_sorted[OF context_text_codec.codec_axioms])

interpretation ids_codec: codec "sorted_ids p hi" "\<lambda>xs. JArr (map JStr xs)" "wf_sorted 0 hi (wf_context_id p)"
  for p hi
  by (rule codec_sorted[OF context_id_codec.codec_axioms])

section \<open>Sensitivity\<close>

text \<open>\<open>max\<close> by rank: the first of the greatest, and \<open>ValueError\<close> of nothing.\<close>

fun max_sensitivity :: "sensitivity list \<Rightarrow> sensitivity result" where
  "max_sensitivity [] = Inl ValueError"
| "max_sensitivity (s # ss) =
     Inr (foldl (\<lambda>m x. if sensitivity_rank x > sensitivity_rank m then x else m) s ss)"

definition reject_prohibited :: "sensitivity \<Rightarrow> unit result" where
  "reject_prohibited s = require (s \<noteq> SECRET_OR_PROHIBITED) (ContextContractError Prohibited)"

definition derived_sensitivity :: "sensitivity \<Rightarrow> sensitivity list \<Rightarrow> unit result" where
  "derived_sensitivity declared sources = (if sources = [] then Inr ()
     else bindR (max_sensitivity sources) (\<lambda>s. require (declared = s) (ContextContractError SensitivityDiffers)))"

lemma derived_sensitivity_iff [result_simps]:
  "derived_sensitivity s ss = Inr u \<longleftrightarrow> ss = [] \<or> max_sensitivity ss = Inr s"
  by (auto simp: derived_sensitivity_def result_simps)

lemma reject_prohibited_iff [result_simps]: "reject_prohibited s = Inr u \<longleftrightarrow> s \<noteq> SECRET_OR_PROHIBITED"
  by (simp add: reject_prohibited_def result_simps)

lemma reject_prohibited_ok [simp]: "s \<noteq> SECRET_OR_PROHIBITED \<Longrightarrow> reject_prohibited s = Inr ()"
  by (simp add: reject_prohibited_iff)

section \<open>Identities\<close>

definition context_prefix :: "context_artifact_type \<Rightarrow> string" where
  "context_prefix t = (case t of CTX_MANIFEST \<Rightarrow> ''CTX-MANIFEST-'' | CTX_GRAPH \<Rightarrow> ''CTX-GRAPH-''
     | CTX_QUERY \<Rightarrow> ''CTX-QUERY-'' | CTX_SELECTION \<Rightarrow> ''CTX-SELECTION-'' | CTX_SNAPSHOT \<Rightarrow> ''CTX-SNAPSHOT-''
     | CTX_COMPACTION \<Rightarrow> ''CTX-COMPACTION-''
     | CTX_HOST_SUMMARY_PROPOSAL \<Rightarrow> ''CTX-HOST-SUMMARY-PROPOSAL-''
     | CTX_QUALITY_REPORT \<Rightarrow> ''CTX-QUALITY-REPORT-'')"

definition context_identity :: "string \<Rightarrow> json \<Rightarrow> string result" where
  "context_identity prefix content = bindR (content_digest content) (\<lambda>d. Inr (prefix @ d))"

definition context_artifact_from_value :: "context_artifact_type \<Rightarrow> context_value \<Rightarrow> context_artifact result" where
  "context_artifact_from_value t v =
     bindR (context_identity (context_prefix t) (context_value_to_dict v)) (\<lambda>i.
     Inr \<lparr>ca_type = t, ca_id = i, ca_value = v\<rparr>)"

text \<open>The length of the canonical text, which every byte count of a context document means.\<close>

definition canonical_size :: "json \<Rightarrow> int result" where
  "canonical_size content = bindR (canonical_json_bytes content) (\<lambda>bytes. Inr (int (length bytes)))"

end
