(* ===== verification/ContextParts.thy ===== *)
theory ContextParts
  imports ContextLeaves
begin

text \<open>
  The parsers of the parts of a context document, \<open>application/context_contracts.py\<close>: locators,
  provenance, freshness, the authority rules, declared sources, nodes, edges and relationships.
\<close>

section \<open>Locators, provenance, freshness\<close>

definition parse_locator :: "json \<Rightarrow> source_locator result" where
  "parse_locator j = bindR (object_value j) (\<lambda>item.
     bindR (only_keys item [''root_scope'', ''path'', ''sha256'', ''line_start'', ''line_end'']) (\<lambda>_.
     bindR (integer_value 1 1000000 (get item ''line_start'')) (\<lambda>start.
     bindR (integer_value 1 1000000 (get item ''line_end'')) (\<lambda>stop.
     bindR (require (\<not> stop < start) (ContextContractError LineOrder)) (\<lambda>_.
     bindR (enum_value root_scope_value root_scope_members (get item ''root_scope'')) (\<lambda>scope.
     bindR (safe_relative_path (get item ''path'')) (\<lambda>path.
     bindR (sha256_value (get item ''sha256'')) (\<lambda>digest.
     Inr \<lparr>lo_root_scope = scope, lo_path = path, lo_sha256 = digest, lo_line_start = start, lo_line_end = stop\<rparr>))))))))"

definition wf_locator :: "source_locator \<Rightarrow> bool" where
  "wf_locator l = (1 \<le> lo_line_start l \<and> lo_line_start l \<le> lo_line_end l \<and> lo_line_end l \<le> 1000000 \<and>
     safe_path (lo_path l) \<and> wf_digest (lo_sha256 l))"

interpretation locator_codec: codec parse_locator locator_to_dict wf_locator
proof (unfold_locales, goal_cases)
  case (1 l)
  then show ?case
    by (simp add: parse_locator_def locator_to_dict_def wf_locator_def get_Cons only_keys_same
        root_scope_enum.enum_value_val path_codec.parse_enc sha256_value_iff bindR_eq_Inr)
next
  case (2 j l)
  then show ?case by (clarsimp simp: parse_locator_def wf_locator_def result_simps not_less)
next
  case (3 j l)
  then show ?case
    by (clarsimp simp: parse_locator_def locator_to_dict_def result_simps root_scope_enum.enum_value_iff)
      (rule py_eq_objI; simp)
qed (simp add: locator_to_dict_def wf_json.simps)

interpretation references_list_codec: codec "array_of n parse_artifact_reference"
    "\<lambda>rs. JArr (map reference_to_dict rs)" "\<lambda>rs. length rs \<le> n \<and> list_all wf_reference rs" for n
  by (rule codec_array[OF reference_codec.codec_axioms])

definition parse_provenance :: "json \<Rightarrow> context_provenance result" where
  "parse_provenance j = bindR (object_value j) (\<lambda>item.
     bindR (only_keys item [''producer'', ''recorded_by'', ''references'']) (\<lambda>_.
     bindR (array_of 64 parse_artifact_reference (get item ''references'')) (\<lambda>refs.
     bindR (require (refs \<noteq> []) (ContextContractError NoItems)) (\<lambda>_.
     bindR (ascending_unique (map reference_key refs)) (\<lambda>_.
     bindR (context_text 100 False (get item ''producer'')) (\<lambda>producer.
     bindR (context_text 100 False (get item ''recorded_by'')) (\<lambda>recorder.
     Inr \<lparr>pv_producer = producer, pv_recorded_by = recorder, pv_references = refs\<rparr>)))))))"

definition wf_provenance :: "context_provenance \<Rightarrow> bool" where
  "wf_provenance p = (wf_text 100 False (pv_producer p) \<and> wf_text 100 False (pv_recorded_by p) \<and>
     pv_references p \<noteq> [] \<and> length (pv_references p) \<le> 64 \<and> list_all wf_reference (pv_references p) \<and>
     sorted_wrt (<) (map reference_key (pv_references p)))"

interpretation provenance_codec: codec parse_provenance provenance_to_dict wf_provenance
proof (unfold_locales, goal_cases)
  case (1 p)
  then show ?case
    by (simp add: parse_provenance_def provenance_to_dict_def wf_provenance_def get_Cons only_keys_same
        references_list_codec.parse_enc context_text_codec.parse_enc)
next
  case (2 j p)
  then show ?case
    by (clarsimp simp: parse_provenance_def wf_provenance_def result_simps dest!: references_list_codec.parse_wf)
next
  case (3 j p)
  then show ?case
    by (clarsimp simp: parse_provenance_def provenance_to_dict_def result_simps)
      (rule py_eq_objI; simp add: references_list_codec.parse_canonical del: py_eq_JArr)
qed (simp add: provenance_to_dict_def wf_json.simps list_all_iff reference_codec.enc_wf_json)

text \<open>The window of a freshness: both ends of \<open>expires-at\<close> in order, and none otherwise.\<close>

definition freshness_window :: "freshness_kind \<Rightarrow> string option \<Rightarrow> string option \<Rightarrow> bool" where
  "freshness_window kind observed valid =
     (if kind = EXPIRES_AT then
        (case (observed, valid) of (Some a, Some b) \<Rightarrow> \<not> utc_fields a > utc_fields b | _ \<Rightarrow> False)
      else observed = None \<and> valid = None)"

definition parse_freshness :: "json \<Rightarrow> freshness result" where
  "parse_freshness j = bindR (object_value j) (\<lambda>item.
     bindR (only_keys item [''kind'', ''observed_at'', ''valid_until'']) (\<lambda>_.
     bindR (enum_value freshness_value freshness_kind_members (get item ''kind'')) (\<lambda>kind.
     bindR (optional_value context_timestamp (get item ''observed_at'')) (\<lambda>observed.
     bindR (optional_value context_timestamp (get item ''valid_until'')) (\<lambda>valid.
     bindR (require (freshness_window kind observed valid) (ContextContractError BadFreshness)) (\<lambda>_.
     Inr \<lparr>fr_kind = kind, fr_observed_at = observed, fr_valid_until = valid\<rparr>))))))"

definition wf_freshness :: "freshness \<Rightarrow> bool" where
  "wf_freshness f = (pred_option wf_timestamp (fr_observed_at f) \<and> pred_option wf_timestamp (fr_valid_until f) \<and>
     freshness_window (fr_kind f) (fr_observed_at f) (fr_valid_until f))"

interpretation freshness_codec: codec parse_freshness freshness_to_dict wf_freshness
proof (unfold_locales, goal_cases)
  case (1 f)
  then show ?case
    by (simp add: parse_freshness_def freshness_to_dict_def wf_freshness_def get_Cons only_keys_same
        freshness_enum.enum_value_val context_time_codec.option_enc)
next
  case (2 j f)
  then show ?case
    by (clarsimp simp: parse_freshness_def wf_freshness_def result_simps context_time_codec.option_wf)
next
  case (3 j f)
  then show ?case
    by (clarsimp simp: parse_freshness_def freshness_to_dict_def result_simps freshness_enum.enum_value_iff)
      (rule py_eq_objI; simp add: context_time_codec.option_canonical)
qed (simp add: freshness_to_dict_def wf_json.simps context_time_codec.option_wf_json)

section \<open>Authority\<close>

definition self_reference :: "source_locator \<Rightarrow> context_provenance \<Rightarrow> bool" where
  "self_reference l p = list_ex (\<lambda>r. ref_path r = lo_path l \<and> ref_sha256 r = lo_sha256 l) (pv_references p)"

definition authoritative :: "authority_class \<Rightarrow> bool" where
  "authoritative a = (a \<in> {OWNER_APPROVED, CANONICAL_SPECIFICATION, ACCEPTED_PUBLIC_CONTRACT, VERIFIED_EVIDENCE})"

definition lower_char :: "char \<Rightarrow> char" where
  "lower_char c = (if is_upper c then char_of (code c + 32) else c)"

definition json_path :: "string \<Rightarrow> bool" where
  "json_path p = (map lower_char (drop (length p - 5) p) = ''.json'')"

definition validate_immutable_context ::
  "source_locator \<Rightarrow> context_provenance \<Rightarrow> authority_class \<Rightarrow> freshness \<Rightarrow> unit result" where
  "validate_immutable_context l p a f = require (\<not> (fr_kind f = IMMUTABLE \<and>
     (\<not> json_path (lo_path l) \<or> \<not> authoritative a \<or> \<not> self_reference l p))) (ContextContractError BadFreshness)"

definition owner_approved_ok :: "source_kind \<Rightarrow> source_locator \<Rightarrow> context_provenance \<Rightarrow> bool" where
  "owner_approved_ok k l p = (lo_root_scope l = SCOPE_OWNER \<and>
     k \<in> {KIND_REQUIREMENT, KIND_DECISION, KIND_DESIGN, KIND_HANDOFF} \<and>
     pv_producer p = ''Owner'' \<and> pv_recorded_by p = ''Owner'')"

definition validate_context_authority ::
  "source_kind \<Rightarrow> source_locator \<Rightarrow> context_provenance \<Rightarrow> authority_class \<Rightarrow> freshness \<Rightarrow> unit result" where
  "validate_context_authority k l p a f =
     bindR (require (\<not> (authoritative a \<and> \<not> self_reference l p)) (ContextContractError NoSelfProvenance)) (\<lambda>_.
     bindR (require (\<not> (a = OWNER_APPROVED \<and> \<not> owner_approved_ok k l p)) (ContextContractError BadAuthority)) (\<lambda>_.
     bindR (require (\<not> (a = CANONICAL_SPECIFICATION \<and>
         (lo_root_scope l \<noteq> SCOPE_REPOSITORY \<or> k \<noteq> KIND_SPECIFICATION))) (ContextContractError BadAuthority)) (\<lambda>_.
     bindR (require (\<not> (a = ACCEPTED_PUBLIC_CONTRACT \<and>
         (lo_root_scope l \<noteq> SCOPE_REPOSITORY \<or> k \<notin> {KIND_REQUIREMENT, KIND_DECISION, KIND_DESIGN})))
       (ContextContractError BadAuthority)) (\<lambda>_.
     bindR (require (\<not> (a = VERIFIED_EVIDENCE \<and>
         (lo_root_scope l \<noteq> SCOPE_REPOSITORY \<or> k \<noteq> KIND_EVIDENCE))) (ContextContractError BadAuthority)) (\<lambda>_.
     bindR (require (\<not> (k = KIND_TOOL_OBSERVATION \<and> a \<noteq> UNTRUSTED_OBSERVATION)) (ContextContractError BadAuthority)) (\<lambda>_.
     validate_immutable_context l p a f))))))"

definition node_authority :: "context_node \<Rightarrow> unit result" where
  "node_authority n = validate_context_authority (nd_kind n) (nd_locator n) (nd_provenance n) (nd_authority n) (nd_freshness n)"

section \<open>Declared sources\<close>

definition source_identity :: "json \<Rightarrow> string result" where
  "source_identity = context_identity ''CTX-SOURCE-''"

definition node_identity :: "json \<Rightarrow> string result" where
  "node_identity = context_identity ''CTX-NODE-''"

definition edge_identity :: "json \<Rightarrow> string result" where
  "edge_identity = context_identity ''CTX-EDGE-''"

text \<open>\<open>require\<close> that an identifier is the identity of its content.\<close>

definition identified :: "string result \<Rightarrow> string \<Rightarrow> unit result" where
  "identified computed i = bindR computed (\<lambda>c. require (i = c) (ContextContractError IdentityDiffers))"

lemma identified_iff [result_simps]: "identified computed i = Inr u \<longleftrightarrow> computed = Inr i"
  by (auto simp: identified_def result_simps)

lemma identified_ok [simp]: "computed = Inr i \<Longrightarrow> identified computed i = Inr ()"
  by (simp add: identified_iff)

text \<open>A source without a sensitivity is \<open>owner-private\<close>.\<close>

definition with_sensitivity :: "(string \<times> json) list \<Rightarrow> (string \<times> json) list" where
  "with_sensitivity item = (if map_of item ''sensitivity'' = None
     then item @ [(''sensitivity'', JStr (sensitivity_value OWNER_PRIVATE))] else item)"

definition parse_source :: "json \<Rightarrow> context_source result" where
  "parse_source j = bindR (object_value j) (\<lambda>object. let item = with_sensitivity object in
     bindR (only_keys item [''source_id'', ''kind'', ''title'', ''locator'', ''provenance'', ''authority'',
       ''freshness'', ''sensitivity'', ''identifiers'', ''labels'', ''required'']) (\<lambda>_.
     bindR (enum_value sensitivity_value sensitivity_members (get item ''sensitivity'')) (\<lambda>sens.
     bindR (reject_prohibited sens) (\<lambda>_.
     bindR (context_id ''CTX-SOURCE-'' (get item ''source_id'')) (\<lambda>i.
     bindR (enum_value source_kind_value source_kind_members (get item ''kind'')) (\<lambda>kind.
     bindR (context_text 500 False (get item ''title'')) (\<lambda>title.
     bindR (parse_locator (get item ''locator'')) (\<lambda>locator.
     bindR (parse_provenance (get item ''provenance'')) (\<lambda>provenance.
     bindR (enum_value authority_value authority_class_members (get item ''authority'')) (\<lambda>auth.
     bindR (parse_freshness (get item ''freshness'')) (\<lambda>fresh.
     bindR (sorted_texts 0 128 (get item ''identifiers'')) (\<lambda>identifiers.
     bindR (sorted_texts 0 64 (get item ''labels'')) (\<lambda>labels.
     bindR (boolean_value (get item ''required'')) (\<lambda>required.
     let source = \<lparr>sc_source_id = i, sc_kind = kind, sc_title = title, sc_locator = locator,
           sc_provenance = provenance, sc_authority = auth, sc_freshness = fresh, sc_sensitivity = sens,
           sc_identifiers = identifiers, sc_labels = labels, sc_required = required\<rparr> in
     bindR (identified (source_identity (declared_content_dict source)) i) (\<lambda>_.
     bindR (require (\<not> (kind = KIND_TOOL_OBSERVATION \<and> fr_kind fresh \<noteq> EXPIRES_AT))
       (ContextContractError BadFreshness)) (\<lambda>_.
     bindR (validate_immutable_context locator provenance auth fresh) (\<lambda>_.
     Inr source)))))))))))))))))"

definition wf_source :: "context_source \<Rightarrow> bool" where
  "wf_source s = (wf_context_id ''CTX-SOURCE-'' (sc_source_id s) \<and> wf_text 500 False (sc_title s) \<and>
     wf_locator (sc_locator s) \<and> wf_provenance (sc_provenance s) \<and> wf_freshness (sc_freshness s) \<and>
     sc_sensitivity s \<noteq> SECRET_OR_PROHIBITED \<and> wf_sorted 0 128 (wf_text 500 False) (sc_identifiers s) \<and>
     wf_sorted 0 64 (wf_text 500 False) (sc_labels s) \<and>
     source_identity (declared_content_dict s) = Inr (sc_source_id s) \<and>
     \<not> (sc_kind s = KIND_TOOL_OBSERVATION \<and> fr_kind (sc_freshness s) \<noteq> EXPIRES_AT) \<and>
     validate_immutable_context (sc_locator s) (sc_provenance s) (sc_authority s) (sc_freshness s) = Inr ())"

lemmas context_encs = context_id_codec.parse_enc context_text_codec.parse_enc texts_codec.parse_enc
  ids_codec.parse_enc locator_codec.parse_enc provenance_codec.parse_enc freshness_codec.parse_enc
  source_kind_enum.enum_value_val authority_enum.enum_value_val sensitivity_enum.enum_value_val
  edge_type_enum.enum_value_val root_scope_enum.enum_value_val
  context_time_codec.parse_enc candidate_codec.parse_enc

lemmas context_wfs = texts_codec.parse_wf ids_codec.parse_wf locator_codec.parse_wf provenance_codec.parse_wf
  freshness_codec.parse_wf candidate_codec.parse_wf

lemmas context_eqs = texts_codec.parse_canonical ids_codec.parse_canonical locator_codec.parse_canonical
  provenance_codec.parse_canonical freshness_codec.parse_canonical candidate_codec.parse_canonical

lemmas context_values = source_kind_enum.enum_value_iff authority_enum.enum_value_iff
  sensitivity_enum.enum_value_iff edge_type_enum.enum_value_iff

lemmas context_jsons = locator_codec.enc_wf_json provenance_codec.enc_wf_json freshness_codec.enc_wf_json
  candidate_codec.enc_wf_json

text \<open>A document may leave the sensitivity out, so an accepted one need not be the encoding.\<close>

interpretation source_form: normal_form parse_source source_to_dict wf_source
proof (unfold_locales, goal_cases)
  case (1 s)
  have eta: "\<lparr>sc_source_id = sc_source_id s, sc_kind = sc_kind s, sc_title = sc_title s, sc_locator = sc_locator s,
      sc_provenance = sc_provenance s, sc_authority = sc_authority s, sc_freshness = sc_freshness s,
      sc_sensitivity = sc_sensitivity s, sc_identifiers = sc_identifiers s, sc_labels = sc_labels s,
      sc_required = sc_required s\<rparr> = s" by simp
  from 1 show ?case
    by (simp add: parse_source_def source_to_dict_def wf_source_def get_Cons only_keys_same with_sensitivity_def
        context_encs eta)
next
  case (2 j s)
  then show ?case
    by (clarsimp simp: parse_source_def wf_source_def result_simps Let_def context_wfs)
qed (simp add: source_to_dict_def wf_json.simps list_all_iff context_jsons)

definition parse_relationship :: "string set \<Rightarrow> json \<Rightarrow> context_relationship result" where
  "parse_relationship source_ids j = bindR (object_value j) (\<lambda>item.
     bindR (only_keys item [''edge_type'', ''source_id'', ''target_id'', ''provenance'']) (\<lambda>_.
     bindR (enum_value edge_type_value edge_type_members (get item ''edge_type'')) (\<lambda>ty.
     bindR (context_id ''CTX-SOURCE-'' (get item ''source_id'')) (\<lambda>source.
     bindR (context_id ''CTX-SOURCE-'' (get item ''target_id'')) (\<lambda>target.
     bindR (require (source \<noteq> target) (ContextContractError SelfEdge)) (\<lambda>_.
     bindR (require (source \<in> source_ids \<and> target \<in> source_ids) (ContextContractError MissingEndpoint)) (\<lambda>_.
     bindR (require (\<not> (ty = CONTRADICTS \<and> source > target)) (ContextContractError DescendingEnds)) (\<lambda>_.
     bindR (parse_provenance (get item ''provenance'')) (\<lambda>provenance.
     Inr \<lparr>rl_edge_type = ty, rl_source_id = source, rl_target_id = target, rl_provenance = provenance\<rparr>)))))))))"

definition wf_relationship :: "string set \<Rightarrow> context_relationship \<Rightarrow> bool" where
  "wf_relationship source_ids r = (wf_context_id ''CTX-SOURCE-'' (rl_source_id r) \<and>
     wf_context_id ''CTX-SOURCE-'' (rl_target_id r) \<and> rl_source_id r \<noteq> rl_target_id r \<and>
     rl_source_id r \<in> source_ids \<and> rl_target_id r \<in> source_ids \<and>
     \<not> (rl_edge_type r = CONTRADICTS \<and> rl_source_id r > rl_target_id r) \<and> wf_provenance (rl_provenance r))"

interpretation relationship_codec: codec "parse_relationship ids" relationship_to_dict "wf_relationship ids" for ids
proof (unfold_locales, goal_cases)
  case (1 r)
  then show ?case
    by (simp add: parse_relationship_def relationship_to_dict_def wf_relationship_def get_Cons only_keys_same
        context_encs)
next
  case (2 j r)
  then show ?case
    by (clarsimp simp: parse_relationship_def wf_relationship_def result_simps context_wfs)
next
  case (3 j r)
  then show ?case
    by (clarsimp simp: parse_relationship_def relationship_to_dict_def result_simps context_values)
      (rule py_eq_objI; simp add: context_eqs)
qed (simp add: relationship_to_dict_def wf_json.simps context_jsons)

section \<open>Nodes and edges\<close>

definition text_digest :: "string \<Rightarrow> string" where
  "text_digest text = sha256_hex (utf8_bytes text)"

definition parse_node :: "json \<Rightarrow> context_node result" where
  "parse_node j = bindR (object_value j) (\<lambda>item.
     bindR (only_keys item [''node_id'', ''source_id'', ''kind'', ''title'', ''text'', ''text_sha256'', ''locator'',
       ''provenance'', ''authority'', ''freshness'', ''sensitivity'', ''identifiers'', ''labels'', ''required'']) (\<lambda>_.
     bindR (enum_value sensitivity_value sensitivity_members (get item ''sensitivity'')) (\<lambda>sens.
     bindR (reject_prohibited sens) (\<lambda>_.
     bindR (context_text source_bytes True (get item ''text'')) (\<lambda>text.
     bindR (sha256_value (get item ''text_sha256'')) (\<lambda>digest.
     bindR (require (text_digest text = digest) (ContextContractError DigestDiffers)) (\<lambda>_.
     bindR (context_id ''CTX-NODE-'' (get item ''node_id'')) (\<lambda>i.
     bindR (context_id ''CTX-SOURCE-'' (get item ''source_id'')) (\<lambda>source.
     bindR (enum_value source_kind_value source_kind_members (get item ''kind'')) (\<lambda>kind.
     bindR (context_text 500 False (get item ''title'')) (\<lambda>title.
     bindR (parse_locator (get item ''locator'')) (\<lambda>locator.
     bindR (parse_provenance (get item ''provenance'')) (\<lambda>provenance.
     bindR (enum_value authority_value authority_class_members (get item ''authority'')) (\<lambda>auth.
     bindR (parse_freshness (get item ''freshness'')) (\<lambda>fresh.
     bindR (sorted_texts 0 128 (get item ''identifiers'')) (\<lambda>identifiers.
     bindR (sorted_texts 0 64 (get item ''labels'')) (\<lambda>labels.
     bindR (boolean_value (get item ''required'')) (\<lambda>required.
     let node = \<lparr>nd_node_id = i, nd_source_id = source, nd_kind = kind, nd_title = title, nd_text = text,
           nd_text_sha256 = digest, nd_locator = locator, nd_provenance = provenance, nd_authority = auth,
           nd_freshness = fresh, nd_sensitivity = sens, nd_identifiers = identifiers, nd_labels = labels,
           nd_required = required\<rparr> in
     bindR (identified (node_identity (node_content_dict node)) i) (\<lambda>_.
     bindR (identified (source_identity (source_content_dict node)) source) (\<lambda>_.
     bindR (validate_immutable_context locator provenance auth fresh) (\<lambda>_.
     Inr node)))))))))))))))))))))"

definition wf_node :: "context_node \<Rightarrow> bool" where
  "wf_node n = (wf_context_id ''CTX-NODE-'' (nd_node_id n) \<and> wf_context_id ''CTX-SOURCE-'' (nd_source_id n) \<and>
     wf_text 500 False (nd_title n) \<and> wf_text source_bytes True (nd_text n) \<and> wf_digest (nd_text_sha256 n) \<and>
     text_digest (nd_text n) = nd_text_sha256 n \<and>
     wf_locator (nd_locator n) \<and> wf_provenance (nd_provenance n) \<and> wf_freshness (nd_freshness n) \<and>
     nd_sensitivity n \<noteq> SECRET_OR_PROHIBITED \<and> wf_sorted 0 128 (wf_text 500 False) (nd_identifiers n) \<and>
     wf_sorted 0 64 (wf_text 500 False) (nd_labels n) \<and>
     node_identity (node_content_dict n) = Inr (nd_node_id n) \<and>
     source_identity (source_content_dict n) = Inr (nd_source_id n) \<and>
     validate_immutable_context (nd_locator n) (nd_provenance n) (nd_authority n) (nd_freshness n) = Inr ())"

interpretation node_codec: codec parse_node node_to_dict wf_node
proof (unfold_locales, goal_cases)
  case (1 n)
  have eta: "\<lparr>nd_node_id = nd_node_id n, nd_source_id = nd_source_id n, nd_kind = nd_kind n, nd_title = nd_title n,
      nd_text = nd_text n, nd_text_sha256 = nd_text_sha256 n, nd_locator = nd_locator n,
      nd_provenance = nd_provenance n, nd_authority = nd_authority n, nd_freshness = nd_freshness n,
      nd_sensitivity = nd_sensitivity n, nd_identifiers = nd_identifiers n, nd_labels = nd_labels n,
      nd_required = nd_required n\<rparr> = n" by simp
  from 1 show ?case
    by (simp add: parse_node_def node_to_dict_def wf_node_def get_Cons only_keys_same sha256_value_iff
        bindR_eq_Inr context_encs eta)
next
  case (2 j n)
  then show ?case
    by (clarsimp simp: parse_node_def wf_node_def result_simps Let_def context_wfs)
next
  case (3 j n)
  then show ?case
    by (clarsimp simp: parse_node_def node_to_dict_def result_simps Let_def context_values)
      (rule py_eq_objI; simp add: context_eqs del: py_eq_JArr)
qed (simp add: node_to_dict_def wf_json.simps list_all_iff context_jsons)

definition parse_edge :: "string set \<Rightarrow> json \<Rightarrow> context_edge result" where
  "parse_edge node_ids j = bindR (object_value j) (\<lambda>item.
     bindR (only_keys item [''edge_id'', ''edge_type'', ''source_node_id'', ''target_node_id'', ''provenance'']) (\<lambda>_.
     bindR (enum_value edge_type_value edge_type_members (get item ''edge_type'')) (\<lambda>ty.
     bindR (context_id ''CTX-NODE-'' (get item ''source_node_id'')) (\<lambda>source.
     bindR (context_id ''CTX-NODE-'' (get item ''target_node_id'')) (\<lambda>target.
     bindR (require (source \<noteq> target) (ContextContractError SelfEdge)) (\<lambda>_.
     bindR (require (source \<in> node_ids \<and> target \<in> node_ids) (ContextContractError MissingEndpoint)) (\<lambda>_.
     bindR (require (\<not> (ty = CONTRADICTS \<and> source > target)) (ContextContractError DescendingEnds)) (\<lambda>_.
     bindR (context_id ''CTX-EDGE-'' (get item ''edge_id'')) (\<lambda>i.
     bindR (parse_provenance (get item ''provenance'')) (\<lambda>provenance.
     let edge = \<lparr>ed_edge_id = i, ed_edge_type = ty, ed_source_node_id = source, ed_target_node_id = target,
           ed_provenance = provenance\<rparr> in
     bindR (identified (edge_identity (edge_content_dict edge)) i) (\<lambda>_. Inr edge)))))))))))"

definition wf_edge :: "string set \<Rightarrow> context_edge \<Rightarrow> bool" where
  "wf_edge node_ids e = (wf_context_id ''CTX-EDGE-'' (ed_edge_id e) \<and>
     wf_context_id ''CTX-NODE-'' (ed_source_node_id e) \<and> wf_context_id ''CTX-NODE-'' (ed_target_node_id e) \<and>
     ed_source_node_id e \<noteq> ed_target_node_id e \<and> ed_source_node_id e \<in> node_ids \<and> ed_target_node_id e \<in> node_ids \<and>
     \<not> (ed_edge_type e = CONTRADICTS \<and> ed_source_node_id e > ed_target_node_id e) \<and>
     wf_provenance (ed_provenance e) \<and> edge_identity (edge_content_dict e) = Inr (ed_edge_id e))"

interpretation edge_codec: codec "parse_edge ids" edge_to_dict "wf_edge ids" for ids
proof (unfold_locales, goal_cases)
  case (1 e)
  have eta: "\<lparr>ed_edge_id = ed_edge_id e, ed_edge_type = ed_edge_type e, ed_source_node_id = ed_source_node_id e,
      ed_target_node_id = ed_target_node_id e, ed_provenance = ed_provenance e\<rparr> = e" by simp
  from 1 show ?case
    by (simp add: parse_edge_def edge_to_dict_def wf_edge_def get_Cons only_keys_same context_encs eta)
next
  case (2 j e)
  then show ?case by (clarsimp simp: parse_edge_def wf_edge_def result_simps Let_def context_wfs)
next
  case (3 j e)
  then show ?case
    by (clarsimp simp: parse_edge_def edge_to_dict_def result_simps Let_def context_values)
      (rule py_eq_objI; simp add: context_eqs)
qed (simp add: edge_to_dict_def wf_json.simps context_jsons)

end
