(* ===== verification/ContextDocuments.thy ===== *)
theory ContextDocuments
  imports ContextParts
begin

text \<open>
  The parsers of manifests and graphs, \<open>application/context_contracts.py\<close>, with what makes one well
  formed.
\<close>

lemma wf_get_JObj: "wf_json (JObj fs) \<Longrightarrow> get fs k = JObj gs \<Longrightarrow> wf_json (JObj gs)"
  by (metis wf_get)

section \<open>Manifests\<close>

definition relationship_key :: "context_relationship \<Rightarrow> string \<times> string \<times> string" where
  "relationship_key r = (edge_type_value (rl_edge_type r), rl_source_id r, rl_target_id r)"

definition parse_manifest :: "json \<Rightarrow> context_manifest result" where
  "parse_manifest j = bindR (object_value j) (\<lambda>item.
     bindR (only_keys item [''candidate'', ''sensitivity'', ''sources'', ''relationships'']) (\<lambda>_.
     bindR (array_of graph_nodes_limit parse_source (get item ''sources'')) (\<lambda>sources.
     bindR (require (sources \<noteq> []) (ContextContractError NoItems)) (\<lambda>_.
     bindR (ascending_unique (map sc_source_id sources)) (\<lambda>_.
     bindR (array_of graph_edges_limit (parse_relationship (set (map sc_source_id sources))) (get item ''relationships'')) (\<lambda>rels.
     bindR (ascending_unique (map relationship_key rels)) (\<lambda>_.
     bindR (enum_value sensitivity_value sensitivity_members (get item ''sensitivity'')) (\<lambda>sens.
     bindR (reject_prohibited sens) (\<lambda>_.
     bindR (derived_sensitivity sens (map sc_sensitivity sources)) (\<lambda>_.
     bindR (parse_candidate_identity (get item ''candidate'')) (\<lambda>candidate.
     Inr \<lparr>cm_candidate = candidate, cm_sensitivity = sens, cm_sources = sources, cm_relationships = rels\<rparr>)))))))))))"

definition wf_manifest :: "context_manifest \<Rightarrow> bool" where
  "wf_manifest m = (cm_sources m \<noteq> [] \<and> length (cm_sources m) \<le> graph_nodes_limit \<and> list_all wf_source (cm_sources m) \<and>
     sorted_wrt (<) (map sc_source_id (cm_sources m)) \<and> length (cm_relationships m) \<le> graph_edges_limit \<and>
     list_all (wf_relationship (set (map sc_source_id (cm_sources m)))) (cm_relationships m) \<and>
     sorted_wrt (<) (map relationship_key (cm_relationships m)) \<and> cm_sensitivity m \<noteq> SECRET_OR_PROHIBITED \<and>
     max_sensitivity (map sc_sensitivity (cm_sources m)) = Inr (cm_sensitivity m) \<and> wf_candidate (cm_candidate m))"

lemma array_of_form:
  assumes c: "normal_form p enc ok"
  shows "length xs \<le> n \<Longrightarrow> list_all ok xs \<Longrightarrow> array_of n p (JArr (map enc xs)) = Inr xs"
    "array_of n p j = Inr xs \<Longrightarrow> length xs \<le> n \<and> list_all ok xs"
proof -
  have "mapR p (map enc xs) = Inr xs" if "list_all ok xs" for xs
    using that by (induction xs) (simp_all add: normal_form.parse_form[OF c])
  then show "length xs \<le> n \<Longrightarrow> list_all ok xs \<Longrightarrow> array_of n p (JArr (map enc xs)) = Inr xs"
    by (simp add: array_of_def)
  have "list_all ok xs" if "mapR p js = Inr xs" for js xs
    using that by (induction js arbitrary: xs) (auto simp: result_simps normal_form.parsed_form[OF c])
  then show "array_of n p j = Inr xs \<Longrightarrow> length xs \<le> n \<and> list_all ok xs"
    by (auto simp: array_of_def result_simps dest: mapR_length)
qed

lemmas sources_form = array_of_form[OF source_form.normal_form_axioms]

interpretation relationships_codec: codec "array_of n (parse_relationship ids)"
    "\<lambda>rs. JArr (map relationship_to_dict rs)" "\<lambda>rs. length rs \<le> n \<and> list_all (wf_relationship ids) rs" for n ids
  by (rule codec_array[OF relationship_codec.codec_axioms])

lemma derived_sensitivity_ok [simp]: "max_sensitivity ss = Inr s \<Longrightarrow> derived_sensitivity s ss = Inr ()"
  by (simp add: derived_sensitivity_iff)

lemma max_of_some: "derived_sensitivity s ss = Inr u \<Longrightarrow> ss \<noteq> [] \<Longrightarrow> max_sensitivity ss = Inr s"
  by (simp add: derived_sensitivity_iff)

interpretation manifest_form: normal_form parse_manifest context_manifest_to_dict wf_manifest
proof (unfold_locales, goal_cases)
  case (1 m)
  then show ?case
    by (simp add: parse_manifest_def context_manifest_to_dict_def wf_manifest_def get_Cons only_keys_same
        sources_form(1) relationships_codec.parse_enc context_encs)
next
  case (2 j m)
  then show ?case
    by (clarsimp simp: parse_manifest_def wf_manifest_def result_simps)
      (auto dest: sources_form(2) relationships_codec.parse_wf context_wfs)
qed (simp add: context_manifest_to_dict_def wf_json.simps list_all_iff context_jsons source_form.form_json
    relationship_codec.enc_wf_json)

section \<open>Graphs\<close>

definition parse_source_exclusion :: "json \<Rightarrow> source_exclusion result" where
  "parse_source_exclusion j = bindR (object_value j) (\<lambda>item.
     bindR (only_keys item [''source_id'', ''reason'', ''details'']) (\<lambda>_.
     bindR (context_id ''CTX-SOURCE-'' (get item ''source_id'')) (\<lambda>i.
     bindR (context_text 100 False (get item ''reason'')) (\<lambda>why.
     bindR (sorted_texts 0 16 (get item ''details'')) (\<lambda>details.
     Inr \<lparr>sx_source_id = i, sx_reason = why, sx_details = details\<rparr>)))))"

definition wf_source_exclusion :: "source_exclusion \<Rightarrow> bool" where
  "wf_source_exclusion x = (wf_context_id ''CTX-SOURCE-'' (sx_source_id x) \<and> wf_text 100 False (sx_reason x) \<and>
     wf_sorted 0 16 (wf_text 500 False) (sx_details x))"

interpretation source_exclusion_codec: codec parse_source_exclusion source_exclusion_to_dict wf_source_exclusion
proof (unfold_locales, goal_cases)
  case (1 x)
  then show ?case
    by (simp add: parse_source_exclusion_def source_exclusion_to_dict_def wf_source_exclusion_def get_Cons
        only_keys_same context_encs)
next
  case (2 j x)
  then show ?case by (clarsimp simp: parse_source_exclusion_def wf_source_exclusion_def result_simps context_wfs)
next
  case (3 j x)
  then show ?case
    by (clarsimp simp: parse_source_exclusion_def source_exclusion_to_dict_def result_simps)
      (rule py_eq_objI; simp add: context_eqs del: py_eq_JArr)
qed (simp add: source_exclusion_to_dict_def wf_json.simps list_all_iff)

interpretation nodes_codec: codec "array_of n parse_node" "\<lambda>ns. JArr (map node_to_dict ns)"
    "\<lambda>ns. length ns \<le> n \<and> list_all wf_node ns" for n
  by (rule codec_array[OF node_codec.codec_axioms])

interpretation edges_codec: codec "array_of n (parse_edge ids)" "\<lambda>es. JArr (map edge_to_dict es)"
    "\<lambda>es. length es \<le> n \<and> list_all (wf_edge ids) es" for n ids
  by (rule codec_array[OF edge_codec.codec_axioms])

interpretation source_exclusions_codec: codec "array_of n parse_source_exclusion"
    "\<lambda>xs. JArr (map source_exclusion_to_dict xs)" "\<lambda>xs. length xs \<le> n \<and> list_all wf_source_exclusion xs" for n
  by (rule codec_array[OF source_exclusion_codec.codec_axioms])

text \<open>One canonical specification, required, in the repository and of the candidate's digest.\<close>

definition bound_specification :: "candidate_identity \<Rightarrow> context_node list \<Rightarrow> bool" where
  "bound_specification c nodes = (case filter (\<lambda>n. nd_authority n = CANONICAL_SPECIFICATION) nodes of
     [n] \<Rightarrow> nd_required n \<and> nd_kind n = KIND_SPECIFICATION \<and> lo_root_scope (nd_locator n) = SCOPE_REPOSITORY \<and>
       lo_sha256 (nd_locator n) = source_spec_sha256 c
   | _ \<Rightarrow> False)"

definition text_bytes :: "context_node list \<Rightarrow> nat" where
  "text_bytes nodes = sum_list (map (\<lambda>n. length (utf8_bytes (nd_text n))) nodes)"

definition graph_keys :: "string list" where
  "graph_keys = [''candidate'', ''manifest_id'', ''sensitivity'', ''nodes'', ''edges'', ''excluded_sources'']"

definition parse_graph :: "json \<Rightarrow> context_graph result" where
  "parse_graph j = bindR (object_value j) (\<lambda>item.
     bindR (only_keys item graph_keys) (\<lambda>_.
     bindR (array_of graph_nodes_limit parse_node (get item ''nodes'')) (\<lambda>nodes.
     bindR (require (nodes \<noteq> []) (ContextContractError NoItems)) (\<lambda>_.
     bindR (require (\<not> text_bytes nodes > 8388608) (ContextContractError SizeLimit)) (\<lambda>_.
     bindR (ascending_unique (map nd_node_id nodes)) (\<lambda>_.
     bindR (require (distinct (map nd_source_id nodes)) (ContextContractError DuplicateSource)) (\<lambda>_.
     bindR (mapR node_authority nodes) (\<lambda>_.
     bindR (parse_candidate_identity (get item ''candidate'')) (\<lambda>candidate.
     bindR (require (bound_specification candidate nodes) (ContextContractError BadSpecification)) (\<lambda>_.
     bindR (array_of graph_edges_limit (parse_edge (set (map nd_node_id nodes))) (get item ''edges'')) (\<lambda>edges.
     bindR (ascending_unique (map ed_edge_id edges)) (\<lambda>_.
     bindR (array_of graph_nodes_limit parse_source_exclusion (get item ''excluded_sources'')) (\<lambda>excluded.
     bindR (ascending_unique (map sx_source_id excluded)) (\<lambda>_.
     bindR (require (set (map nd_source_id nodes) \<inter> set (map sx_source_id excluded) = {})
       (ContextContractError NotDisjoint)) (\<lambda>_.
     bindR (enum_value sensitivity_value sensitivity_members (get item ''sensitivity'')) (\<lambda>sens.
     bindR (reject_prohibited sens) (\<lambda>_.
     bindR (derived_sensitivity sens (map nd_sensitivity nodes)) (\<lambda>_.
     bindR (context_id ''CTX-MANIFEST-'' (get item ''manifest_id'')) (\<lambda>manifest.
     Inr \<lparr>cg_candidate = candidate, cg_manifest_id = manifest, cg_sensitivity = sens, cg_nodes = nodes,
       cg_edges = edges, cg_excluded_sources = excluded\<rparr>)))))))))))))))))))"

text \<open>The checks that graphs and snapshots share.\<close>

definition wf_nodes :: "candidate_identity \<Rightarrow> sensitivity \<Rightarrow> context_node list \<Rightarrow> context_edge list \<Rightarrow> bool" where
  "wf_nodes c s nodes edges = (nodes \<noteq> [] \<and> length nodes \<le> graph_nodes_limit \<and> list_all wf_node nodes \<and>
     sorted_wrt (<) (map nd_node_id nodes) \<and> distinct (map nd_source_id nodes) \<and>
     (\<forall>n \<in> set nodes. node_authority n = Inr ()) \<and> wf_candidate c \<and> bound_specification c nodes \<and>
     length edges \<le> graph_edges_limit \<and> list_all (wf_edge (set (map nd_node_id nodes))) edges \<and>
     sorted_wrt (<) (map ed_edge_id edges) \<and> s \<noteq> SECRET_OR_PROHIBITED \<and>
     max_sensitivity (map nd_sensitivity nodes) = Inr s)"

definition wf_context_graph :: "context_graph \<Rightarrow> bool" where
  "wf_context_graph g = (wf_nodes (cg_candidate g) (cg_sensitivity g) (cg_nodes g) (cg_edges g) \<and>
     text_bytes (cg_nodes g) \<le> 8388608 \<and> length (cg_excluded_sources g) \<le> graph_nodes_limit \<and>
     list_all wf_source_exclusion (cg_excluded_sources g) \<and>
     sorted_wrt (<) (map sx_source_id (cg_excluded_sources g)) \<and>
     set (map nd_source_id (cg_nodes g)) \<inter> set (map sx_source_id (cg_excluded_sources g)) = {} \<and>
     wf_context_id ''CTX-MANIFEST-'' (cg_manifest_id g))"

lemma units_ok: "(\<forall>x \<in> set xs. f x = Inr ()) \<Longrightarrow> mapR f xs = Inr (map (\<lambda>_. ()) xs)"
  by (simp add: mapR_units)

interpretation context_graph_codec: codec parse_graph context_graph_to_dict wf_context_graph
proof (unfold_locales, goal_cases)
  case (1 g)
  then show ?case
    by (simp add: parse_graph_def context_graph_to_dict_def wf_context_graph_def wf_nodes_def graph_keys_def
        get_Cons only_keys_same nodes_codec.parse_enc edges_codec.parse_enc source_exclusions_codec.parse_enc
        units_ok context_encs)
next
  case (2 j g)
  then show ?case
    by (clarsimp simp: parse_graph_def wf_context_graph_def wf_nodes_def result_simps mapR_units)
      (auto dest: nodes_codec.parse_wf edges_codec.parse_wf source_exclusions_codec.parse_wf context_wfs)
next
  case (3 j g)
  then show ?case
    by (clarsimp simp: parse_graph_def context_graph_to_dict_def graph_keys_def result_simps context_values)
      (rule py_eq_objI; simp add: context_eqs nodes_codec.parse_canonical edges_codec.parse_canonical
        source_exclusions_codec.parse_canonical del: py_eq_JArr)
qed (simp add: context_graph_to_dict_def wf_json.simps list_all_iff context_jsons node_codec.enc_wf_json
    edge_codec.enc_wf_json source_exclusion_codec.enc_wf_json)

end
