(* ===== verification/ContextQueries.thy ===== *)
theory ContextQueries
  imports ContextDocuments
begin

text \<open>
  The parsers of queries and selections, \<open>application/context_contracts.py\<close>: the budget, the decisions
  about nodes, and the selection with the query it embeds.
\<close>

section \<open>Queries\<close>

definition parse_context_budget :: "json \<Rightarrow> context_budget result" where
  "parse_context_budget j = bindR (object_value j) (\<lambda>item.
     bindR (only_keys item [''unit'', ''budget_bytes'', ''max_nodes'', ''max_edges'', ''max_traversal_depth'']) (\<lambda>_.
     bindR (require (get item ''unit'' = JStr ''canonical_utf8_bytes'') (ContextContractError BadUnit)) (\<lambda>_.
     bindR (integer_value 1024 8388608 (get item ''budget_bytes'')) (\<lambda>bytes.
     bindR (integer_value 1 4096 (get item ''max_nodes'')) (\<lambda>nodes.
     bindR (integer_value 0 16384 (get item ''max_edges'')) (\<lambda>edges.
     bindR (integer_value 0 8 (get item ''max_traversal_depth'')) (\<lambda>depth.
     Inr \<lparr>cb_budget_bytes = bytes, cb_max_nodes = nodes, cb_max_edges = edges, cb_max_traversal_depth = depth\<rparr>)))))))"

definition wf_context_budget :: "context_budget \<Rightarrow> bool" where
  "wf_context_budget b = (1024 \<le> cb_budget_bytes b \<and> cb_budget_bytes b \<le> 8388608 \<and>
     1 \<le> cb_max_nodes b \<and> cb_max_nodes b \<le> 4096 \<and> 0 \<le> cb_max_edges b \<and> cb_max_edges b \<le> 16384 \<and>
     0 \<le> cb_max_traversal_depth b \<and> cb_max_traversal_depth b \<le> 8)"

interpretation context_budget_codec: codec parse_context_budget context_budget_to_dict wf_context_budget
proof (unfold_locales, goal_cases)
  case (1 b)
  then show ?case
    by (simp add: parse_context_budget_def context_budget_to_dict_def wf_context_budget_def get_Cons only_keys_same)
next
  case (2 j b)
  then show ?case by (clarsimp simp: parse_context_budget_def wf_context_budget_def result_simps)
next
  case (3 j b)
  then show ?case
    by (clarsimp simp: parse_context_budget_def context_budget_to_dict_def result_simps) (rule py_eq_objI; simp)
qed (simp add: context_budget_to_dict_def wf_json.simps)

interpretation edge_types_codec: codec "array_of n (enum_value edge_type_value edge_type_members)"
    "\<lambda>ts. JArr (map (\<lambda>t. JStr (edge_type_value t)) ts)" "\<lambda>ts. length ts \<le> n \<and> list_all (\<lambda>_. True) ts" for n
  by (rule codec_array[OF edge_type_enum.codec_axioms])

lemma edge_types_enc: "length ts \<le> n \<Longrightarrow> array_of n (enum_value edge_type_value edge_type_members)
    (JArr (map (\<lambda>t. JStr (edge_type_value t)) ts)) = Inr ts"
  by (rule edge_types_codec.parse_enc) (simp add: list_all_iff)

definition query_keys :: "string list" where
  "query_keys = [''candidate'', ''graph_id'', ''as_of'', ''clearance'', ''required_node_ids'', ''seed_node_ids'',
     ''identifiers'', ''terms'', ''allowed_edge_types'', ''budget'']"

definition parse_query :: "json \<Rightarrow> context_query result" where
  "parse_query j = bindR (object_value j) (\<lambda>item.
     bindR (only_keys item query_keys) (\<lambda>_.
     bindR (sorted_ids ''CTX-NODE-'' graph_nodes_limit (get item ''required_node_ids'')) (\<lambda>required.
     bindR (sorted_ids ''CTX-NODE-'' graph_nodes_limit (get item ''seed_node_ids'')) (\<lambda>seeds.
     bindR (array_of (length edge_type_members) (enum_value edge_type_value edge_type_members)
       (get item ''allowed_edge_types'')) (\<lambda>types.
     bindR (ascending_unique (map edge_type_value types)) (\<lambda>_.
     bindR (require (types \<noteq> []) (ContextContractError NoItems)) (\<lambda>_.
     bindR (parse_candidate_identity (get item ''candidate'')) (\<lambda>candidate.
     bindR (context_id ''CTX-GRAPH-'' (get item ''graph_id'')) (\<lambda>graph.
     bindR (context_timestamp (get item ''as_of'')) (\<lambda>as_of.
     bindR (enum_value sensitivity_value sensitivity_members (get item ''clearance'')) (\<lambda>clearance.
     bindR (sorted_texts 0 128 (get item ''identifiers'')) (\<lambda>identifiers.
     bindR (sorted_texts 0 128 (get item ''terms'')) (\<lambda>words.
     bindR (parse_context_budget (get item ''budget'')) (\<lambda>budget.
     Inr \<lparr>cq_candidate = candidate, cq_graph_id = graph, cq_as_of = as_of, cq_clearance = clearance,
       cq_required_node_ids = required, cq_seed_node_ids = seeds, cq_identifiers = identifiers,
       cq_terms = words, cq_allowed_edge_types = types, cq_budget = budget\<rparr>))))))))))))))"

definition wf_query :: "context_query \<Rightarrow> bool" where
  "wf_query q = (wf_candidate (cq_candidate q) \<and> wf_context_id ''CTX-GRAPH-'' (cq_graph_id q) \<and>
     wf_timestamp (cq_as_of q) \<and> wf_sorted 0 graph_nodes_limit (wf_context_id ''CTX-NODE-'') (cq_required_node_ids q) \<and>
     wf_sorted 0 graph_nodes_limit (wf_context_id ''CTX-NODE-'') (cq_seed_node_ids q) \<and>
     wf_sorted 0 128 (wf_text 500 False) (cq_identifiers q) \<and> wf_sorted 0 128 (wf_text 500 False) (cq_terms q) \<and>
     cq_allowed_edge_types q \<noteq> [] \<and> length (cq_allowed_edge_types q) \<le> length edge_type_members \<and>
     sorted_wrt (<) (map edge_type_value (cq_allowed_edge_types q)) \<and> wf_context_budget (cq_budget q))"

interpretation query_codec: codec parse_query context_query_to_dict wf_query
proof (unfold_locales, goal_cases)
  case (1 q)
  then show ?case
    by (simp add: parse_query_def context_query_to_dict_def wf_query_def query_keys_def get_Cons only_keys_same
        context_encs edge_types_enc context_budget_codec.parse_enc comp_def)
next
  case (2 j q)
  then show ?case
    by (clarsimp simp: parse_query_def wf_query_def result_simps context_wfs context_budget_codec.parse_wf
        edge_types_codec.parse_wf)
next
  case (3 j q)
  then show ?case
    by (clarsimp simp: parse_query_def context_query_to_dict_def query_keys_def result_simps context_values comp_def)
      (rule py_eq_objI; simp add: context_eqs edge_types_codec.parse_canonical
        context_budget_codec.parse_canonical del: py_eq_JArr)
qed (simp add: context_query_to_dict_def wf_json.simps list_all_iff context_jsons context_budget_codec.enc_wf_json)

section \<open>Decisions\<close>

definition rank_keys :: "string list" where
  "rank_keys = [''phase'', ''authority_rank'', ''graph_distance'', ''lexical_score'', ''sensitivity_rank'', ''node_id'']"

definition parse_selection_decision :: "json \<Rightarrow> selection_decision result" where
  "parse_selection_decision j = bindR (object_value j) (\<lambda>item.
     bindR (only_keys item [''node_id'', ''reasons'', ''rank'', ''cost_bytes'']) (\<lambda>_.
     bindR (context_id ''CTX-NODE-'' (get item ''node_id'')) (\<lambda>node.
     bindR (sorted_texts 1 16 (get item ''reasons'')) (\<lambda>reasons.
     bindR (object_value (get item ''rank'')) (\<lambda>rank.
     bindR (only_keys rank rank_keys) (\<lambda>_.
     bindR (require (get rank ''node_id'' = JStr node) (ContextContractError RankDiffers)) (\<lambda>_.
     bindR (integer_value 0 3 (get rank ''phase'')) (\<lambda>phase.
     bindR (integer_value 0 6 (get rank ''authority_rank'')) (\<lambda>auth.
     bindR (integer_value 0 8 (get rank ''graph_distance'')) (\<lambda>distance.
     bindR (integer_value 0 1000000 (get rank ''lexical_score'')) (\<lambda>score.
     bindR (integer_value 0 3 (get rank ''sensitivity_rank'')) (\<lambda>sens.
     bindR (integer_value 1 8388608 (get item ''cost_bytes'')) (\<lambda>cost.
     Inr \<lparr>sd_node_id = node, sd_reasons = reasons, sd_phase = phase, sd_authority_rank = auth,
       sd_graph_distance = distance, sd_lexical_score = score, sd_sensitivity_rank = sens,
       sd_cost_bytes = cost\<rparr>)))))))))))))"

definition wf_decision :: "selection_decision \<Rightarrow> bool" where
  "wf_decision d = (wf_context_id ''CTX-NODE-'' (sd_node_id d) \<and> wf_sorted 1 16 (wf_text 500 False) (sd_reasons d) \<and>
     0 \<le> sd_phase d \<and> sd_phase d \<le> 3 \<and> 0 \<le> sd_authority_rank d \<and> sd_authority_rank d \<le> 6 \<and>
     0 \<le> sd_graph_distance d \<and> sd_graph_distance d \<le> 8 \<and> 0 \<le> sd_lexical_score d \<and> sd_lexical_score d \<le> 1000000 \<and>
     0 \<le> sd_sensitivity_rank d \<and> sd_sensitivity_rank d \<le> 3 \<and> 1 \<le> sd_cost_bytes d \<and> sd_cost_bytes d \<le> 8388608)"

interpretation decision_codec: codec parse_selection_decision decision_to_dict wf_decision
proof (unfold_locales, goal_cases)
  case (1 d)
  then show ?case
    by (simp add: parse_selection_decision_def decision_to_dict_def wf_decision_def rank_keys_def get_Cons
        only_keys_same context_encs)
next
  case (2 j d)
  then show ?case
    by (clarsimp simp: parse_selection_decision_def wf_decision_def result_simps context_wfs)
next
  case (3 j d)
  then show ?case
    by (clarsimp simp: parse_selection_decision_def decision_to_dict_def rank_keys_def result_simps)
      (frule (1) wf_get_JObj, rule py_eq_objI; (simp add: context_eqs del: py_eq_JArr)?; rule py_eq_objI; simp)
qed (simp add: decision_to_dict_def wf_json.simps list_all_iff)

definition parse_exclusion :: "json \<Rightarrow> exclusion_decision result" where
  "parse_exclusion j = bindR (object_value j) (\<lambda>item.
     bindR (only_keys item [''node_id'', ''reason'', ''details'']) (\<lambda>_.
     bindR (context_id ''CTX-NODE-'' (get item ''node_id'')) (\<lambda>i.
     bindR (context_text 100 False (get item ''reason'')) (\<lambda>why.
     bindR (sorted_texts 0 16 (get item ''details'')) (\<lambda>details.
     Inr \<lparr>xd_node_id = i, xd_reason = why, xd_details = details\<rparr>)))))"

definition wf_exclusion :: "exclusion_decision \<Rightarrow> bool" where
  "wf_exclusion x = (wf_context_id ''CTX-NODE-'' (xd_node_id x) \<and> wf_text 100 False (xd_reason x) \<and>
     wf_sorted 0 16 (wf_text 500 False) (xd_details x))"

interpretation exclusion_codec: codec parse_exclusion exclusion_to_dict wf_exclusion
proof (unfold_locales, goal_cases)
  case (1 x)
  then show ?case
    by (simp add: parse_exclusion_def exclusion_to_dict_def wf_exclusion_def get_Cons only_keys_same context_encs)
next
  case (2 j x)
  then show ?case by (clarsimp simp: parse_exclusion_def wf_exclusion_def result_simps context_wfs)
next
  case (3 j x)
  then show ?case
    by (clarsimp simp: parse_exclusion_def exclusion_to_dict_def result_simps)
      (rule py_eq_objI; simp add: context_eqs del: py_eq_JArr)
qed (simp add: exclusion_to_dict_def wf_json.simps list_all_iff)

interpretation decisions_codec: codec "array_of n parse_selection_decision" "\<lambda>ds. JArr (map decision_to_dict ds)"
    "\<lambda>ds. length ds \<le> n \<and> list_all wf_decision ds" for n
  by (rule codec_array[OF decision_codec.codec_axioms])

interpretation exclusions_codec: codec "array_of n parse_exclusion" "\<lambda>xs. JArr (map exclusion_to_dict xs)"
    "\<lambda>xs. length xs \<le> n \<and> list_all wf_exclusion xs" for n
  by (rule codec_array[OF exclusion_codec.codec_axioms])

section \<open>Selections\<close>

definition selection_keys :: "string list" where
  "selection_keys = [''candidate'', ''graph_id'', ''query_id'', ''query'', ''as_of'', ''sensitivity'', ''selected'',
     ''excluded'', ''selected_edge_ids'', ''unresolved_contradiction_ids'', ''edge_cost_bytes'', ''used_bytes'',
     ''budget_bytes'', ''traversal_truncated'']"

definition query_identity :: "context_query \<Rightarrow> string result" where
  "query_identity q = context_identity ''CTX-QUERY-'' (context_query_to_dict q)"

definition parse_selection :: "json \<Rightarrow> context_selection result" where
  "parse_selection j = bindR (object_value j) (\<lambda>item.
     bindR (only_keys item selection_keys) (\<lambda>_.
     bindR (parse_query (get item ''query'')) (\<lambda>query.
     bindR (context_id ''CTX-QUERY-'' (get item ''query_id'')) (\<lambda>query_id.
     bindR (identified (query_identity query) query_id) (\<lambda>_.
     bindR (parse_candidate_identity (get item ''candidate'')) (\<lambda>candidate.
     bindR (context_id ''CTX-GRAPH-'' (get item ''graph_id'')) (\<lambda>graph_id.
     bindR (context_timestamp (get item ''as_of'')) (\<lambda>as_of.
     bindR (require (cq_candidate query = candidate \<and> cq_graph_id query = graph_id \<and> cq_as_of query = as_of)
       (ContextContractError QueryDiffers)) (\<lambda>_.
     bindR (enum_value sensitivity_value sensitivity_members (get item ''sensitivity'')) (\<lambda>sens.
     bindR (reject_prohibited sens) (\<lambda>_.
     bindR (array_of graph_nodes_limit parse_selection_decision (get item ''selected'')) (\<lambda>selected.
     bindR (require (selected \<noteq> []) (ContextContractError NoItems)) (\<lambda>_.
     bindR (require (distinct (map sd_node_id selected)) (ContextContractError NotUnique)) (\<lambda>_.
     bindR (array_of graph_nodes_limit parse_exclusion (get item ''excluded'')) (\<lambda>excluded.
     bindR (ascending_unique (map xd_node_id excluded)) (\<lambda>_.
     bindR (require (set (map sd_node_id selected) \<inter> set (map xd_node_id excluded) = {})
       (ContextContractError NotDisjoint)) (\<lambda>_.
     bindR (integer_value 1024 8388608 (get item ''budget_bytes'')) (\<lambda>budget.
     bindR (integer_value 0 8388608 (get item ''used_bytes'')) (\<lambda>used.
     bindR (integer_value 0 8388608 (get item ''edge_cost_bytes'')) (\<lambda>edge_cost.
     bindR (require (\<not> used > budget) (ContextContractError AccountingDiffers)) (\<lambda>_.
     bindR (require (budget = cb_budget_bytes (cq_budget query)) (ContextContractError QueryDiffers)) (\<lambda>_.
     bindR (require (used = sum_list (map sd_cost_bytes selected) + edge_cost)
       (ContextContractError AccountingDiffers)) (\<lambda>_.
     bindR (sorted_ids ''CTX-EDGE-'' graph_edges_limit (get item ''selected_edge_ids'')) (\<lambda>edges.
     bindR (sorted_ids ''CTX-EDGE-'' graph_edges_limit (get item ''unresolved_contradiction_ids'')) (\<lambda>unresolved.
     bindR (boolean_value (get item ''traversal_truncated'')) (\<lambda>truncated.
     Inr \<lparr>cs_candidate = candidate, cs_graph_id = graph_id, cs_query_id = query_id, cs_query = query,
       cs_as_of = as_of, cs_sensitivity = sens, cs_selected = selected, cs_excluded = excluded,
       cs_selected_edge_ids = edges, cs_unresolved_contradiction_ids = unresolved, cs_edge_cost_bytes = edge_cost,
       cs_used_bytes = used, cs_budget_bytes = budget, cs_traversal_truncated = truncated\<rparr>))))))))))))))))))))))))))"

definition wf_selection :: "context_selection \<Rightarrow> bool" where
  "wf_selection s = (wf_query (cs_query s) \<and> wf_context_id ''CTX-QUERY-'' (cs_query_id s) \<and>
     query_identity (cs_query s) = Inr (cs_query_id s) \<and> wf_context_id ''CTX-GRAPH-'' (cs_graph_id s) \<and>
     wf_candidate (cs_candidate s) \<and> wf_timestamp (cs_as_of s) \<and>
     cq_candidate (cs_query s) = cs_candidate s \<and> cq_graph_id (cs_query s) = cs_graph_id s \<and>
     cq_as_of (cs_query s) = cs_as_of s \<and> cs_sensitivity s \<noteq> SECRET_OR_PROHIBITED \<and>
     cs_selected s \<noteq> [] \<and> length (cs_selected s) \<le> graph_nodes_limit \<and> list_all wf_decision (cs_selected s) \<and>
     distinct (map sd_node_id (cs_selected s)) \<and> length (cs_excluded s) \<le> graph_nodes_limit \<and>
     list_all wf_exclusion (cs_excluded s) \<and> sorted_wrt (<) (map xd_node_id (cs_excluded s)) \<and>
     set (map sd_node_id (cs_selected s)) \<inter> set (map xd_node_id (cs_excluded s)) = {} \<and>
     1024 \<le> cs_budget_bytes s \<and> cs_budget_bytes s \<le> 8388608 \<and> 0 \<le> cs_edge_cost_bytes s \<and>
     cs_edge_cost_bytes s \<le> 8388608 \<and> 0 \<le> cs_used_bytes s \<and> cs_used_bytes s \<le> cs_budget_bytes s \<and>
     cs_budget_bytes s = cb_budget_bytes (cq_budget (cs_query s)) \<and>
     cs_used_bytes s = sum_list (map sd_cost_bytes (cs_selected s)) + cs_edge_cost_bytes s \<and>
     wf_sorted 0 graph_edges_limit (wf_context_id ''CTX-EDGE-'') (cs_selected_edge_ids s) \<and>
     wf_sorted 0 graph_edges_limit (wf_context_id ''CTX-EDGE-'') (cs_unresolved_contradiction_ids s))"

interpretation selection_codec: codec parse_selection context_selection_to_dict wf_selection
proof (unfold_locales, goal_cases)
  case (1 s)
  have eta: "\<lparr>cs_candidate = cs_candidate s, cs_graph_id = cs_graph_id s, cs_query_id = cs_query_id s,
      cs_query = cs_query s, cs_as_of = cs_as_of s, cs_sensitivity = cs_sensitivity s, cs_selected = cs_selected s,
      cs_excluded = cs_excluded s, cs_selected_edge_ids = cs_selected_edge_ids s,
      cs_unresolved_contradiction_ids = cs_unresolved_contradiction_ids s, cs_edge_cost_bytes = cs_edge_cost_bytes s,
      cs_used_bytes = cs_used_bytes s, cs_budget_bytes = cs_budget_bytes s,
      cs_traversal_truncated = cs_traversal_truncated s\<rparr> = s" by simp
  from 1 have "0 \<le> cs_used_bytes s" "cs_used_bytes s \<le> 8388608" by (simp_all add: wf_selection_def)
  with 1 show ?case
    unfolding parse_selection_def context_selection_to_dict_def wf_selection_def selection_keys_def
    by (simp add: get_Cons only_keys_same context_encs query_codec.parse_enc decisions_codec.parse_enc
        exclusions_codec.parse_enc not_less)
next
  case (2 j s)
  then show ?case
    by (clarsimp simp: parse_selection_def wf_selection_def result_simps context_wfs query_codec.parse_wf
        decisions_codec.parse_wf exclusions_codec.parse_wf not_less)
next
  case (3 j s)
  then show ?case
    by (clarsimp simp: parse_selection_def context_selection_to_dict_def selection_keys_def result_simps context_values)
      (rule py_eq_objI; simp add: context_eqs query_codec.parse_canonical decisions_codec.parse_canonical
        exclusions_codec.parse_canonical del: py_eq_JArr)
qed (simp add: context_selection_to_dict_def wf_json.simps list_all_iff context_jsons query_codec.enc_wf_json
    decision_codec.enc_wf_json exclusion_codec.enc_wf_json)

end
