(* ===== verification/ContextReports.thy ===== *)
theory ContextReports
  imports ContextQueries
begin

text \<open>
  The parsers of snapshots, compactions, host summary proposals and quality reports,
  \<open>application/context_contracts.py\<close>.
\<close>

section \<open>Snapshots\<close>

text \<open>A decision about a node repeats the node's canonical size and ranks.\<close>

definition decision_matches :: "context_node \<times> selection_decision \<Rightarrow> unit result" where
  "decision_matches p = (let (node, d) = p in
     bindR (canonical_size (node_content_dict node)) (\<lambda>expected.
     bindR (require (sd_cost_bytes d = expected) (ContextContractError AccountingDiffers)) (\<lambda>_.
     require (sd_authority_rank d = authority_rank (nd_authority node) \<and>
       sd_sensitivity_rank d = int (sensitivity_rank (nd_sensitivity node))) (ContextContractError RankDiffers))))"

definition total_size :: "json list \<Rightarrow> int result" where
  "total_size js = bindR (mapR canonical_size js) (\<lambda>cs. Inr (sum_list cs))"

definition content_bytes :: "context_node list \<Rightarrow> context_edge list \<Rightarrow> int result" where
  "content_bytes nodes edges = bindR (total_size (map node_content_dict nodes)) (\<lambda>node_bytes.
     bindR (total_size (map edge_content_dict edges)) (\<lambda>edge_bytes. Inr (node_bytes + edge_bytes)))"

definition snapshot_keys :: "string list" where
  "snapshot_keys = [''candidate'', ''graph_id'', ''query_id'', ''selection_id'', ''as_of'', ''sensitivity'', ''nodes'',
     ''edges'', ''selected'', ''excluded'', ''unresolved_contradiction_ids'', ''context_bytes'', ''budget_bytes'']"

definition contradiction_ids :: "context_edge list \<Rightarrow> string list" where
  "contradiction_ids edges = map ed_edge_id (filter (\<lambda>e. ed_edge_type e = CONTRADICTS) edges)"

definition parse_snapshot :: "json \<Rightarrow> context_snapshot result" where
  "parse_snapshot j = bindR (object_value j) (\<lambda>item.
     bindR (only_keys item snapshot_keys) (\<lambda>_.
     bindR (array_of graph_nodes_limit parse_node (get item ''nodes'')) (\<lambda>nodes.
     bindR (require (nodes \<noteq> []) (ContextContractError NoItems)) (\<lambda>_.
     bindR (ascending_unique (map nd_node_id nodes)) (\<lambda>_.
     bindR (require (distinct (map nd_source_id nodes)) (ContextContractError DuplicateSource)) (\<lambda>_.
     bindR (mapR node_authority nodes) (\<lambda>_.
     bindR (parse_candidate_identity (get item ''candidate'')) (\<lambda>candidate.
     bindR (require (bound_specification candidate nodes) (ContextContractError BadSpecification)) (\<lambda>_.
     bindR (array_of graph_edges_limit (parse_edge (set (map nd_node_id nodes))) (get item ''edges'')) (\<lambda>edges.
     bindR (ascending_unique (map ed_edge_id edges)) (\<lambda>_.
     bindR (array_of graph_nodes_limit parse_selection_decision (get item ''selected'')) (\<lambda>selected.
     bindR (require (map sd_node_id selected = map nd_node_id nodes) (ContextContractError NotAscending)) (\<lambda>_.
     bindR (mapR decision_matches (zip nodes selected)) (\<lambda>_.
     bindR (array_of graph_nodes_limit parse_exclusion (get item ''excluded'')) (\<lambda>excluded.
     bindR (ascending_unique (map xd_node_id excluded)) (\<lambda>_.
     bindR (require (set (map nd_node_id nodes) \<inter> set (map xd_node_id excluded) = {})
       (ContextContractError NotDisjoint)) (\<lambda>_.
     bindR (enum_value sensitivity_value sensitivity_members (get item ''sensitivity'')) (\<lambda>sens.
     bindR (reject_prohibited sens) (\<lambda>_.
     bindR (derived_sensitivity sens (map nd_sensitivity nodes)) (\<lambda>_.
     bindR (integer_value 0 8388608 (get item ''context_bytes'')) (\<lambda>bytes.
     bindR (integer_value 1024 8388608 (get item ''budget_bytes'')) (\<lambda>budget.
     bindR (require (\<not> bytes > budget) (ContextContractError AccountingDiffers)) (\<lambda>_.
     bindR (content_bytes nodes edges) (\<lambda>expected.
     bindR (require (bytes = expected) (ContextContractError AccountingDiffers)) (\<lambda>_.
     bindR (sorted_ids ''CTX-EDGE-'' graph_edges_limit (get item ''unresolved_contradiction_ids'')) (\<lambda>unresolved.
     bindR (require (unresolved = contradiction_ids edges) (ContextContractError MarkersDiffer)) (\<lambda>_.
     bindR (context_id ''CTX-GRAPH-'' (get item ''graph_id'')) (\<lambda>graph_id.
     bindR (context_id ''CTX-QUERY-'' (get item ''query_id'')) (\<lambda>query_id.
     bindR (context_id ''CTX-SELECTION-'' (get item ''selection_id'')) (\<lambda>selection_id.
     bindR (context_timestamp (get item ''as_of'')) (\<lambda>as_of.
     Inr \<lparr>sn_candidate = candidate, sn_graph_id = graph_id, sn_query_id = query_id, sn_selection_id = selection_id,
       sn_as_of = as_of, sn_sensitivity = sens, sn_nodes = nodes, sn_edges = edges, sn_selected = selected,
       sn_excluded = excluded, sn_unresolved_contradiction_ids = unresolved, sn_context_bytes = bytes,
       sn_budget_bytes = budget\<rparr>)))))))))))))))))))))))))))))))"

definition wf_snapshot :: "context_snapshot \<Rightarrow> bool" where
  "wf_snapshot s = (wf_nodes (sn_candidate s) (sn_sensitivity s) (sn_nodes s) (sn_edges s) \<and>
     length (sn_selected s) \<le> graph_nodes_limit \<and> list_all wf_decision (sn_selected s) \<and>
     map sd_node_id (sn_selected s) = map nd_node_id (sn_nodes s) \<and>
     (\<forall>p \<in> set (zip (sn_nodes s) (sn_selected s)). decision_matches p = Inr ()) \<and>
     length (sn_excluded s) \<le> graph_nodes_limit \<and> list_all wf_exclusion (sn_excluded s) \<and>
     sorted_wrt (<) (map xd_node_id (sn_excluded s)) \<and>
     set (map nd_node_id (sn_nodes s)) \<inter> set (map xd_node_id (sn_excluded s)) = {} \<and>
     0 \<le> sn_context_bytes s \<and> sn_context_bytes s \<le> sn_budget_bytes s \<and> 1024 \<le> sn_budget_bytes s \<and>
     sn_budget_bytes s \<le> 8388608 \<and>
     content_bytes (sn_nodes s) (sn_edges s) = Inr (sn_context_bytes s) \<and>
     wf_sorted 0 graph_edges_limit (wf_context_id ''CTX-EDGE-'') (contradiction_ids (sn_edges s)) \<and>
     sn_unresolved_contradiction_ids s = contradiction_ids (sn_edges s) \<and>
     wf_context_id ''CTX-GRAPH-'' (sn_graph_id s) \<and> wf_context_id ''CTX-QUERY-'' (sn_query_id s) \<and>
     wf_context_id ''CTX-SELECTION-'' (sn_selection_id s) \<and> wf_timestamp (sn_as_of s))"

lemma parse_snapshot_enc:
  assumes "wf_snapshot s"
  shows "parse_snapshot (context_snapshot_to_dict s) = Inr s"
proof -
  have eta: "\<lparr>sn_candidate = sn_candidate s, sn_graph_id = sn_graph_id s, sn_query_id = sn_query_id s,
      sn_selection_id = sn_selection_id s, sn_as_of = sn_as_of s, sn_sensitivity = sn_sensitivity s,
      sn_nodes = sn_nodes s, sn_edges = sn_edges s, sn_selected = sn_selected s, sn_excluded = sn_excluded s,
      sn_unresolved_contradiction_ids = contradiction_ids (sn_edges s), sn_context_bytes = sn_context_bytes s,
      sn_budget_bytes = sn_budget_bytes s\<rparr> = s" using assms by (cases s) (simp add: wf_snapshot_def)
  have "sn_context_bytes s \<le> 8388608" using assms by (simp add: wf_snapshot_def)
  then show ?thesis using assms eta
    unfolding parse_snapshot_def context_snapshot_to_dict_def wf_snapshot_def wf_nodes_def snapshot_keys_def
    by (simp add: get_Cons only_keys_same context_encs nodes_codec.parse_enc edges_codec.parse_enc
        decisions_codec.parse_enc exclusions_codec.parse_enc units_ok not_less)
qed

lemma parse_snapshot_wf: "parse_snapshot j = Inr s \<Longrightarrow> wf_snapshot s"
  unfolding parse_snapshot_def
  by (clarsimp simp: result_simps mapR_units not_less)
    (simp add: wf_snapshot_def wf_nodes_def context_wfs nodes_codec.parse_wf edges_codec.parse_wf
      decisions_codec.parse_wf exclusions_codec.parse_wf)

interpretation snapshot_codec: codec parse_snapshot context_snapshot_to_dict wf_snapshot
proof (unfold_locales, goal_cases)
  case (1 s) then show ?case by (rule parse_snapshot_enc)
next
  case (2 j s) then show ?case by (rule parse_snapshot_wf)
next
  case (3 j s)
  then show ?case
    by (clarsimp simp: parse_snapshot_def context_snapshot_to_dict_def snapshot_keys_def result_simps context_values)
      (rule py_eq_objI; simp add: context_eqs nodes_codec.parse_canonical edges_codec.parse_canonical
        decisions_codec.parse_canonical exclusions_codec.parse_canonical del: py_eq_JArr)
qed (simp add: context_snapshot_to_dict_def wf_json.simps list_all_iff context_jsons node_codec.enc_wf_json
    edge_codec.enc_wf_json decision_codec.enc_wf_json exclusion_codec.enc_wf_json)

section \<open>Compactions\<close>

definition parse_extract :: "json \<Rightarrow> context_extract result" where
  "parse_extract j = bindR (object_value j) (\<lambda>item.
     bindR (only_keys item [''node_id'', ''source_id'', ''text'', ''text_sha256'', ''authority'', ''sensitivity'',
       ''required'', ''contradiction_ids'', ''cost_bytes'']) (\<lambda>_.
     bindR (context_text source_bytes True (get item ''text'')) (\<lambda>text.
     bindR (sha256_value (get item ''text_sha256'')) (\<lambda>digest.
     bindR (require (text_digest text = digest) (ContextContractError DigestDiffers)) (\<lambda>_.
     bindR (integer_value 1 8388608 (get item ''cost_bytes'')) (\<lambda>cost.
     bindR (canonical_size (JStr text)) (\<lambda>expected.
     bindR (require (cost = expected) (ContextContractError AccountingDiffers)) (\<lambda>_.
     bindR (enum_value sensitivity_value sensitivity_members (get item ''sensitivity'')) (\<lambda>sens.
     bindR (reject_prohibited sens) (\<lambda>_.
     bindR (context_id ''CTX-NODE-'' (get item ''node_id'')) (\<lambda>node.
     bindR (context_id ''CTX-SOURCE-'' (get item ''source_id'')) (\<lambda>source.
     bindR (enum_value authority_value authority_class_members (get item ''authority'')) (\<lambda>auth.
     bindR (boolean_value (get item ''required'')) (\<lambda>required.
     bindR (sorted_ids ''CTX-EDGE-'' graph_edges_limit (get item ''contradiction_ids'')) (\<lambda>markers.
     Inr \<lparr>ex_node_id = node, ex_source_id = source, ex_text = text, ex_text_sha256 = digest,
       ex_authority = auth, ex_sensitivity = sens, ex_required = required, ex_contradiction_ids = markers,
       ex_cost_bytes = cost\<rparr>)))))))))))))))"

definition wf_extract :: "context_extract \<Rightarrow> bool" where
  "wf_extract x = (wf_text source_bytes True (ex_text x) \<and> wf_digest (ex_text_sha256 x) \<and>
     text_digest (ex_text x) = ex_text_sha256 x \<and> 1 \<le> ex_cost_bytes x \<and> ex_cost_bytes x \<le> 8388608 \<and>
     canonical_size (JStr (ex_text x)) = Inr (ex_cost_bytes x) \<and> ex_sensitivity x \<noteq> SECRET_OR_PROHIBITED \<and>
     wf_context_id ''CTX-NODE-'' (ex_node_id x) \<and> wf_context_id ''CTX-SOURCE-'' (ex_source_id x) \<and>
     wf_sorted 0 graph_edges_limit (wf_context_id ''CTX-EDGE-'') (ex_contradiction_ids x))"

interpretation extract_codec: codec parse_extract extract_to_dict wf_extract
proof (unfold_locales, goal_cases)
  case (1 x)
  then show ?case
    by (simp add: parse_extract_def extract_to_dict_def wf_extract_def get_Cons only_keys_same sha256_value_iff
        bindR_eq_Inr context_encs)
next
  case (2 j x)
  then show ?case by (clarsimp simp: parse_extract_def wf_extract_def result_simps context_wfs)
next
  case (3 j x)
  then show ?case
    by (clarsimp simp: parse_extract_def extract_to_dict_def result_simps context_values)
      (rule py_eq_objI; simp add: context_eqs del: py_eq_JArr)
qed (simp add: extract_to_dict_def wf_json.simps list_all_iff)

interpretation extracts_codec: codec "array_of n parse_extract" "\<lambda>xs. JArr (map extract_to_dict xs)"
    "\<lambda>xs. length xs \<le> n \<and> list_all wf_extract xs" for n
  by (rule codec_array[OF extract_codec.codec_axioms])

text \<open>Every unresolved contradiction marks exactly two extracts, and no other marker occurs.\<close>

definition markers :: "context_extract list \<Rightarrow> string list" where
  "markers extracts = concat (map ex_contradiction_ids extracts)"

definition markers_consistent :: "context_extract list \<Rightarrow> string list \<Rightarrow> bool" where
  "markers_consistent extracts ids = (sort (remdups (markers extracts)) = ids \<and>
     list_all (\<lambda>i. count_list (markers extracts) i = 2) (markers extracts))"

definition compaction_keys :: "string list" where
  "compaction_keys = [''candidate'', ''snapshot_id'', ''sensitivity'', ''budget_bytes'', ''used_bytes'', ''extracts'',
     ''omitted_node_ids'', ''unresolved_contradiction_ids'', ''host_summary_proposal_id'']"

definition parse_compaction :: "json \<Rightarrow> context_compaction result" where
  "parse_compaction j = bindR (object_value j) (\<lambda>item.
     bindR (only_keys item compaction_keys) (\<lambda>_.
     bindR (array_of graph_nodes_limit parse_extract (get item ''extracts'')) (\<lambda>extracts.
     bindR (require (extracts \<noteq> []) (ContextContractError NoItems)) (\<lambda>_.
     bindR (require (list_ex ex_required extracts) (ContextContractError RequiredLost)) (\<lambda>_.
     bindR (ascending_unique (map ex_node_id extracts)) (\<lambda>_.
     bindR (sorted_ids ''CTX-EDGE-'' graph_edges_limit (get item ''unresolved_contradiction_ids'')) (\<lambda>unresolved.
     bindR (require (markers_consistent extracts unresolved) (ContextContractError MarkersDiffer)) (\<lambda>_.
     bindR (integer_value 0 8388608 (get item ''used_bytes'')) (\<lambda>used.
     bindR (integer_value 1024 8388608 (get item ''budget_bytes'')) (\<lambda>budget.
     bindR (require (\<not> (used > budget \<or> used \<noteq> sum_list (map ex_cost_bytes extracts)))
       (ContextContractError AccountingDiffers)) (\<lambda>_.
     bindR (optional_value (context_id ''CTX-HOST-SUMMARY-PROPOSAL-'') (get item ''host_summary_proposal_id'')) (\<lambda>proposal.
     bindR (enum_value sensitivity_value sensitivity_members (get item ''sensitivity'')) (\<lambda>sens.
     bindR (reject_prohibited sens) (\<lambda>_.
     bindR (require (list_all (\<lambda>x. \<not> sensitivity_rank (ex_sensitivity x) > sensitivity_rank sens) extracts)
       (ContextContractError SensitivityDiffers)) (\<lambda>_.
     bindR (sorted_ids ''CTX-NODE-'' graph_nodes_limit (get item ''omitted_node_ids'')) (\<lambda>omitted.
     bindR (require (set (map ex_node_id extracts) \<inter> set omitted = {}) (ContextContractError NotDisjoint)) (\<lambda>_.
     bindR (parse_candidate_identity (get item ''candidate'')) (\<lambda>candidate.
     bindR (context_id ''CTX-SNAPSHOT-'' (get item ''snapshot_id'')) (\<lambda>snapshot.
     Inr \<lparr>co_candidate = candidate, co_snapshot_id = snapshot, co_sensitivity = sens, co_budget_bytes = budget,
       co_used_bytes = used, co_extracts = extracts, co_omitted_node_ids = omitted,
       co_unresolved_contradiction_ids = unresolved, co_host_summary_proposal_id = proposal\<rparr>)))))))))))))))))))"

definition wf_compaction :: "context_compaction \<Rightarrow> bool" where
  "wf_compaction c = (co_extracts c \<noteq> [] \<and> length (co_extracts c) \<le> graph_nodes_limit \<and>
     list_all wf_extract (co_extracts c) \<and> list_ex ex_required (co_extracts c) \<and>
     sorted_wrt (<) (map ex_node_id (co_extracts c)) \<and>
     wf_sorted 0 graph_edges_limit (wf_context_id ''CTX-EDGE-'') (co_unresolved_contradiction_ids c) \<and>
     markers_consistent (co_extracts c) (co_unresolved_contradiction_ids c) \<and>
     0 \<le> co_used_bytes c \<and> co_used_bytes c \<le> co_budget_bytes c \<and>
     1024 \<le> co_budget_bytes c \<and> co_budget_bytes c \<le> 8388608 \<and>
     co_used_bytes c = sum_list (map ex_cost_bytes (co_extracts c)) \<and>
     pred_option (wf_context_id ''CTX-HOST-SUMMARY-PROPOSAL-'') (co_host_summary_proposal_id c) \<and>
     co_sensitivity c \<noteq> SECRET_OR_PROHIBITED \<and>
     list_all (\<lambda>x. sensitivity_rank (ex_sensitivity x) \<le> sensitivity_rank (co_sensitivity c)) (co_extracts c) \<and>
     wf_sorted 0 graph_nodes_limit (wf_context_id ''CTX-NODE-'') (co_omitted_node_ids c) \<and>
     set (map ex_node_id (co_extracts c)) \<inter> set (co_omitted_node_ids c) = {} \<and>
     wf_candidate (co_candidate c) \<and> wf_context_id ''CTX-SNAPSHOT-'' (co_snapshot_id c))"

interpretation compaction_codec: codec parse_compaction context_compaction_to_dict wf_compaction
proof (unfold_locales, goal_cases)
  case (1 c)
  have eta: "\<lparr>co_candidate = co_candidate c, co_snapshot_id = co_snapshot_id c, co_sensitivity = co_sensitivity c,
      co_budget_bytes = co_budget_bytes c, co_used_bytes = co_used_bytes c, co_extracts = co_extracts c,
      co_omitted_node_ids = co_omitted_node_ids c,
      co_unresolved_contradiction_ids = co_unresolved_contradiction_ids c,
      co_host_summary_proposal_id = co_host_summary_proposal_id c\<rparr> = c" by simp
  from 1 have "co_used_bytes c \<le> 8388608" by (simp add: wf_compaction_def)
  with 1 show ?case
    unfolding parse_compaction_def context_compaction_to_dict_def wf_compaction_def compaction_keys_def
    by (simp add: get_Cons only_keys_same context_encs extracts_codec.parse_enc context_id_codec.option_enc not_less)
next
  case (2 j c)
  then show ?case
    by (clarsimp simp: parse_compaction_def result_simps not_less)
      (simp add: wf_compaction_def context_wfs extracts_codec.parse_wf context_id_codec.option_wf)
next
  case (3 j c)
  then show ?case
    by (clarsimp simp: parse_compaction_def context_compaction_to_dict_def compaction_keys_def result_simps context_values)
      (rule py_eq_objI; simp add: context_eqs extracts_codec.parse_canonical context_id_codec.option_canonical
        del: py_eq_JArr)
qed (simp add: context_compaction_to_dict_def wf_json.simps list_all_iff context_jsons extract_codec.enc_wf_json
    context_id_codec.option_wf_json)

section \<open>Host summary proposals\<close>

definition parse_linked_claim :: "json \<Rightarrow> source_linked_claim result" where
  "parse_linked_claim j = bindR (object_value j) (\<lambda>item.
     bindR (only_keys item [''claim'', ''source_node_ids'', ''extract_sha256s'']) (\<lambda>_.
     bindR (sorted_ids ''CTX-NODE-'' graph_nodes_limit (get item ''source_node_ids'')) (\<lambda>nodes.
     bindR (sorted_of 0 64 sha256_value (get item ''extract_sha256s'')) (\<lambda>digests.
     bindR (require (\<not> (nodes = [] \<or> digests = [] \<or> length nodes \<noteq> length digests))
       (ContextContractError ClaimUnlinked)) (\<lambda>_.
     bindR (context_text 4000 False (get item ''claim'')) (\<lambda>claim.
     Inr \<lparr>cl_claim = claim, cl_source_node_ids = nodes, cl_extract_sha256s = digests\<rparr>))))))"

definition wf_claim :: "source_linked_claim \<Rightarrow> bool" where
  "wf_claim c = (wf_text 4000 False (cl_claim c) \<and>
     wf_sorted 0 graph_nodes_limit (wf_context_id ''CTX-NODE-'') (cl_source_node_ids c) \<and>
     wf_sorted 0 64 wf_digest (cl_extract_sha256s c) \<and> cl_source_node_ids c \<noteq> [] \<and>
     length (cl_source_node_ids c) = length (cl_extract_sha256s c))"

interpretation digest_value_codec: codec sha256_value JStr wf_digest
  by unfold_locales (auto simp: sha256_value_iff)

interpretation digests_codec: codec "sorted_of lo hi sha256_value" "\<lambda>xs. JArr (map JStr xs)" "wf_sorted lo hi wf_digest"
  for lo hi
  by (rule codec_sorted[OF digest_value_codec.codec_axioms])

interpretation claim_codec: codec parse_linked_claim claim_to_dict wf_claim
proof (unfold_locales, goal_cases)
  case (1 c)
  then have "cl_extract_sha256s c \<noteq> []" by (auto simp: wf_claim_def)
  with 1 show ?case
    by (simp add: parse_linked_claim_def claim_to_dict_def wf_claim_def get_Cons only_keys_same context_encs
        digests_codec.parse_enc)
next
  case (2 j c)
  then show ?case
    by (clarsimp simp: parse_linked_claim_def result_simps) (simp add: wf_claim_def context_wfs digests_codec.parse_wf)
next
  case (3 j c)
  then show ?case
    by (clarsimp simp: parse_linked_claim_def claim_to_dict_def result_simps)
      (rule py_eq_objI; simp add: context_eqs digests_codec.parse_canonical del: py_eq_JArr)
qed (simp add: claim_to_dict_def wf_json.simps list_all_iff)

interpretation claims_codec: codec "array_of n parse_linked_claim" "\<lambda>cs. JArr (map claim_to_dict cs)"
    "\<lambda>cs. length cs \<le> n \<and> list_all wf_claim cs" for n
  by (rule codec_array[OF claim_codec.codec_axioms])

definition parse_host_summary :: "json \<Rightarrow> host_summary_proposal result" where
  "parse_host_summary j = bindR (object_value j) (\<lambda>item.
     bindR (only_keys item [''snapshot_id'', ''authority'', ''sensitivity'', ''claims'']) (\<lambda>_.
     bindR (enum_value authority_value authority_class_members (get item ''authority'')) (\<lambda>auth.
     bindR (require (auth = UNTRUSTED_PROPOSAL) (ContextContractError NotUntrusted)) (\<lambda>_.
     bindR (enum_value sensitivity_value sensitivity_members (get item ''sensitivity'')) (\<lambda>sens.
     bindR (reject_prohibited sens) (\<lambda>_.
     bindR (array_of 256 parse_linked_claim (get item ''claims'')) (\<lambda>claims.
     bindR (require (claims \<noteq> []) (ContextContractError NoItems)) (\<lambda>_.
     bindR (context_id ''CTX-SNAPSHOT-'' (get item ''snapshot_id'')) (\<lambda>snapshot.
     Inr \<lparr>hp_snapshot_id = snapshot, hp_authority = auth, hp_sensitivity = sens, hp_claims = claims\<rparr>)))))))))"

definition wf_proposal :: "host_summary_proposal \<Rightarrow> bool" where
  "wf_proposal p = (wf_context_id ''CTX-SNAPSHOT-'' (hp_snapshot_id p) \<and> hp_authority p = UNTRUSTED_PROPOSAL \<and>
     hp_sensitivity p \<noteq> SECRET_OR_PROHIBITED \<and> hp_claims p \<noteq> [] \<and> length (hp_claims p) \<le> 256 \<and>
     list_all wf_claim (hp_claims p))"

interpretation proposal_codec: codec parse_host_summary host_proposal_to_dict wf_proposal
proof (unfold_locales, goal_cases)
  case (1 p)
  have eta: "\<lparr>hp_snapshot_id = hp_snapshot_id p, hp_authority = UNTRUSTED_PROPOSAL, hp_sensitivity = hp_sensitivity p,
      hp_claims = hp_claims p\<rparr> = p" using 1 by (cases p) (simp add: wf_proposal_def)
  have "enum_value authority_value authority_class_members (JStr ''untrusted-proposal'') = Inr UNTRUSTED_PROPOSAL"
    using authority_enum.enum_value_val[of UNTRUSTED_PROPOSAL] by simp
  with 1 eta show ?case
    unfolding parse_host_summary_def host_proposal_to_dict_def wf_proposal_def
    by (simp add: get_Cons only_keys_same context_encs claims_codec.parse_enc)
next
  case (2 j p)
  then show ?case
    by (clarsimp simp: parse_host_summary_def result_simps) (simp add: wf_proposal_def claims_codec.parse_wf)
next
  case (3 j p)
  then show ?case
    by (clarsimp simp: parse_host_summary_def host_proposal_to_dict_def result_simps context_values)
      (rule py_eq_objI; simp add: claims_codec.parse_canonical del: py_eq_JArr)
qed (simp add: host_proposal_to_dict_def wf_json.simps list_all_iff claim_codec.enc_wf_json)

section \<open>Quality reports\<close>

definition quality_keys :: "string list" where
  "quality_keys = [''candidate'', ''snapshot_id'', ''sensitivity'', ''required_reference_recall'',
     ''stale_required_count'', ''provenance_complete_count'', ''provenance_missing_count'',
     ''sensitivity_violation_count'', ''selected_context_bytes'', ''budget_bytes'', ''redundant_bytes'',
     ''selected_node_count'', ''excluded_node_count'', ''unresolved_contradiction_count'', ''traversal_truncated'']"

text \<open>The code reads the counts in the order of a set; they all fail in the same way.\<close>

definition parse_quality :: "json \<Rightarrow> context_quality_report result" where
  "parse_quality j = bindR (object_value j) (\<lambda>item.
     bindR (only_keys item quality_keys) (\<lambda>_.
     bindR (integer_value 0 16777216 (get item ''stale_required_count'')) (\<lambda>stale.
     bindR (integer_value 0 16777216 (get item ''provenance_complete_count'')) (\<lambda>whole.
     bindR (integer_value 0 16777216 (get item ''provenance_missing_count'')) (\<lambda>lacking.
     bindR (integer_value 0 16777216 (get item ''sensitivity_violation_count'')) (\<lambda>breaches.
     bindR (integer_value 0 16777216 (get item ''selected_context_bytes'')) (\<lambda>bytes.
     bindR (integer_value 0 16777216 (get item ''budget_bytes'')) (\<lambda>budget.
     bindR (integer_value 0 16777216 (get item ''redundant_bytes'')) (\<lambda>redundant.
     bindR (integer_value 0 16777216 (get item ''selected_node_count'')) (\<lambda>selected.
     bindR (integer_value 0 16777216 (get item ''excluded_node_count'')) (\<lambda>excluded.
     bindR (integer_value 0 16777216 (get item ''unresolved_contradiction_count'')) (\<lambda>unresolved.
     bindR (integer_value 0 100 (get item ''required_reference_recall'')) (\<lambda>recall.
     bindR (enum_value sensitivity_value sensitivity_members (get item ''sensitivity'')) (\<lambda>sens.
     bindR (reject_prohibited sens) (\<lambda>_.
     bindR (parse_candidate_identity (get item ''candidate'')) (\<lambda>candidate.
     bindR (context_id ''CTX-SNAPSHOT-'' (get item ''snapshot_id'')) (\<lambda>snapshot.
     bindR (boolean_value (get item ''traversal_truncated'')) (\<lambda>truncated.
     Inr \<lparr>qr_candidate = candidate, qr_snapshot_id = snapshot, qr_sensitivity = sens,
       qr_required_reference_recall = recall, qr_stale_required_count = stale, qr_provenance_complete_count = whole,
       qr_provenance_missing_count = lacking, qr_sensitivity_violation_count = breaches, qr_selected_context_bytes = bytes, qr_budget_bytes = budget,
       qr_redundant_bytes = redundant, qr_selected_node_count = selected, qr_excluded_node_count = excluded, qr_unresolved_contradiction_count = unresolved, qr_traversal_truncated = truncated\<rparr>))))))))))))))))))"

definition wf_quality :: "context_quality_report \<Rightarrow> bool" where
  "wf_quality r = (wf_candidate (qr_candidate r) \<and> wf_context_id ''CTX-SNAPSHOT-'' (qr_snapshot_id r) \<and>
     qr_sensitivity r \<noteq> SECRET_OR_PROHIBITED \<and>
     0 \<le> qr_required_reference_recall r \<and> qr_required_reference_recall r \<le> 100 \<and>
     0 \<le> qr_stale_required_count r \<and> qr_stale_required_count r \<le> 16777216 \<and>
     0 \<le> qr_provenance_complete_count r \<and> qr_provenance_complete_count r \<le> 16777216 \<and>
     0 \<le> qr_provenance_missing_count r \<and> qr_provenance_missing_count r \<le> 16777216 \<and>
     0 \<le> qr_sensitivity_violation_count r \<and> qr_sensitivity_violation_count r \<le> 16777216 \<and>
     0 \<le> qr_selected_context_bytes r \<and> qr_selected_context_bytes r \<le> 16777216 \<and>
     0 \<le> qr_budget_bytes r \<and> qr_budget_bytes r \<le> 16777216 \<and>
     0 \<le> qr_redundant_bytes r \<and> qr_redundant_bytes r \<le> 16777216 \<and>
     0 \<le> qr_selected_node_count r \<and> qr_selected_node_count r \<le> 16777216 \<and>
     0 \<le> qr_excluded_node_count r \<and> qr_excluded_node_count r \<le> 16777216 \<and>
     0 \<le> qr_unresolved_contradiction_count r \<and> qr_unresolved_contradiction_count r \<le> 16777216)"

interpretation quality_codec: codec parse_quality quality_report_to_dict wf_quality
proof (unfold_locales, goal_cases)
  case (1 r)
  then show ?case
    by (simp add: parse_quality_def quality_report_to_dict_def wf_quality_def quality_keys_def get_Cons
        only_keys_same context_encs)
next
  case (2 j r)
  then show ?case
    by (clarsimp simp: parse_quality_def result_simps) (simp add: wf_quality_def context_wfs)
next
  case (3 j r)
  then show ?case
    by (clarsimp simp: parse_quality_def quality_report_to_dict_def quality_keys_def result_simps context_values)
      (rule py_eq_objI; simp add: context_eqs)
qed (simp add: quality_report_to_dict_def wf_json.simps context_jsons)

end
