(* ===== verification/ContextArtifacts.thy ===== *)
theory ContextArtifacts
  imports ContextReports
begin

text \<open>
  The envelope of a context artifact, \<open>application/context_contracts.py\<close>: \<open>parse_context_artifact_bytes\<close>
  on a decoded document of a given length, \<open>serialize_context_artifact\<close>, and their composition, by which
  the services validate what they produce and consume.
\<close>

section \<open>Values\<close>

fun parse_context_value :: "context_artifact_type \<Rightarrow> json \<Rightarrow> context_value result" where
  "parse_context_value CTX_MANIFEST j = bindR (parse_manifest j) (\<lambda>m. Inr (ManifestValue m))"
| "parse_context_value CTX_GRAPH j = bindR (parse_graph j) (\<lambda>g. Inr (GraphValue g))"
| "parse_context_value CTX_QUERY j = bindR (parse_query j) (\<lambda>q. Inr (QueryValue q))"
| "parse_context_value CTX_SELECTION j = bindR (parse_selection j) (\<lambda>s. Inr (SelectionValue s))"
| "parse_context_value CTX_SNAPSHOT j = bindR (parse_snapshot j) (\<lambda>s. Inr (SnapshotValue s))"
| "parse_context_value CTX_COMPACTION j = bindR (parse_compaction j) (\<lambda>c. Inr (CompactionValue c))"
| "parse_context_value CTX_HOST_SUMMARY_PROPOSAL j = bindR (parse_host_summary j) (\<lambda>p. Inr (ProposalValue p))"
| "parse_context_value CTX_QUALITY_REPORT j = bindR (parse_quality j) (\<lambda>r. Inr (QualityValue r))"

fun wf_context_value :: "context_artifact_type \<Rightarrow> context_value \<Rightarrow> bool" where
  "wf_context_value CTX_MANIFEST (ManifestValue m) = wf_manifest m"
| "wf_context_value CTX_GRAPH (GraphValue g) = wf_context_graph g"
| "wf_context_value CTX_QUERY (QueryValue q) = wf_query q"
| "wf_context_value CTX_SELECTION (SelectionValue s) = wf_selection s"
| "wf_context_value CTX_SNAPSHOT (SnapshotValue s) = wf_snapshot s"
| "wf_context_value CTX_COMPACTION (CompactionValue c) = wf_compaction c"
| "wf_context_value CTX_HOST_SUMMARY_PROPOSAL (ProposalValue p) = wf_proposal p"
| "wf_context_value CTX_QUALITY_REPORT (QualityValue r) = wf_quality r"
| "wf_context_value _ _ = False"

lemmas context_parsed_forms = manifest_form.parsed_form context_graph_codec.parse_wf query_codec.parse_wf
  selection_codec.parse_wf snapshot_codec.parse_wf compaction_codec.parse_wf proposal_codec.parse_wf
  quality_codec.parse_wf

lemmas context_parse_forms = manifest_form.parse_form context_graph_codec.parse_enc query_codec.parse_enc
  selection_codec.parse_enc snapshot_codec.parse_enc compaction_codec.parse_enc proposal_codec.parse_enc
  quality_codec.parse_enc

lemmas context_form_jsons = manifest_form.form_json context_graph_codec.enc_wf_json query_codec.enc_wf_json
  selection_codec.enc_wf_json snapshot_codec.enc_wf_json compaction_codec.enc_wf_json
  proposal_codec.enc_wf_json quality_codec.enc_wf_json

interpretation context_value_form: normal_form "parse_context_value t" context_value_to_dict "wf_context_value t" for t
proof (unfold_locales, goal_cases)
  case (1 v)
  then show ?case by (cases t; cases v) (simp_all add: context_parse_forms)
next
  case (2 j v)
  then show ?case by (cases t) (auto simp: bindR_eq_Inr context_parsed_forms)
next
  case (3 v)
  show ?case by (cases v) (simp_all add: context_form_jsons)
qed

section \<open>The envelope\<close>

definition small_type :: "context_artifact_type \<Rightarrow> bool" where
  "small_type t = (t \<in> {CTX_MANIFEST, CTX_QUERY, CTX_HOST_SUMMARY_PROPOSAL})"

definition type_size_limit :: "context_artifact_type \<Rightarrow> nat" where
  "type_size_limit t = (if small_type t then 1048576 else 16777216)"

definition parse_context_artifact :: "context_artifact_type option \<Rightarrow> nat \<Rightarrow> json \<Rightarrow> context_artifact result" where
  "parse_context_artifact expected_type n raw =
     bindR (require (\<not> n > 16777216) (ContextContractError SizeLimit)) (\<lambda>_.
     bindR (validate_canonical [(raw, 0)] 0) (\<lambda>_.
     bindR (object_value raw) (\<lambda>envelope.
     bindR (only_keys envelope [''schema_version'', ''artifact_type'', ''artifact_id'', ''content'']) (\<lambda>_.
     bindR (require (get envelope ''schema_version'' = JStr ''1.0'') (ContextContractError WrongVersion)) (\<lambda>_.
     bindR (enum_value context_type_value context_artifact_type_members (get envelope ''artifact_type'')) (\<lambda>t.
     bindR (require (\<not> (expected_type \<noteq> None \<and> expected_type \<noteq> Some t)) (ContextContractError WrongType)) (\<lambda>_.
     bindR (require (\<not> n > type_size_limit t) (ContextContractError SizeLimit)) (\<lambda>_.
     bindR (parse_context_value t (get envelope ''content'')) (\<lambda>v.
     bindR (context_id (context_prefix t) (get envelope ''artifact_id'')) (\<lambda>i.
     bindR (identified (context_identity (context_prefix t) (context_value_to_dict v)) i) (\<lambda>_.
     Inr \<lparr>ca_type = t, ca_id = i, ca_value = v\<rparr>)))))))))))"

definition wf_context_artifact :: "context_artifact \<Rightarrow> bool" where
  "wf_context_artifact a = (wf_context_value (ca_type a) (ca_value a) \<and>
     context_identity (context_prefix (ca_type a)) (context_value_to_dict (ca_value a)) = Inr (ca_id a) \<and>
     validate_canonical [(context_artifact_to_dict a, 0)] 0 = Inr ())"

text \<open>A computed identity passes the syntax check of identifiers.\<close>

lemma context_prefix_shape:
  "id_prefix_ok (context_prefix t) \<and> starts ''CTX-'' (context_prefix t) \<and> 4 < length (context_prefix t) \<and>
    last (context_prefix t) = CHR ''-'' \<and> butlast (drop 4 (context_prefix t)) \<noteq> [] \<and>
    list_all (\<lambda>c. is_upper c \<or> c = CHR ''-'') (butlast (drop 4 (context_prefix t))) \<and> length (context_prefix t) \<le> 64"
proof -
  have "list_all (\<lambda>t. id_prefix_ok (context_prefix t) \<and> starts ''CTX-'' (context_prefix t) \<and>
    4 < length (context_prefix t) \<and> last (context_prefix t) = CHR ''-'' \<and> butlast (drop 4 (context_prefix t)) \<noteq> [] \<and>
    list_all (\<lambda>c. is_upper c \<or> c = CHR ''-'') (butlast (drop 4 (context_prefix t))) \<and>
    length (context_prefix t) \<le> 64) context_artifact_type_members" by code_simp
  then show ?thesis using context_type_enum.all_members by (simp add: list_all_iff)
qed

lemma context_identity_wf:
  assumes "context_identity (context_prefix t) content = Inr i"
  shows "wf_context_id (context_prefix t) i"
proof -
  let ?p = "context_prefix t"
  obtain bytes where i: "i = ?p @ sha256_hex bytes"
    using assms by (auto simp: context_identity_def content_digest_def result_simps)
  note shape = context_prefix_shape[of t] and len = sha256_hex_shape(1)[of bytes]
  have "wf_solver_id ?p i" unfolding i using shape by (intro digest_id_wf) simp
  then have "plain_text 128 i" using shape len by (simp add: wf_solver_id_def plain_text_def i)
  moreover have "hex64 (sha256_hex bytes)"
    using sha256_hex_shape[where t = bytes] hex_digit_plain by (simp add: hex64_def list_all_iff)
  moreover have "?p \<noteq> []" using shape by auto
  ultimately show ?thesis
    using shape len by (simp add: wf_context_id_def context_id_pattern_def i starts_def Let_def)
qed

lemma context_artifact_json: "wf_json (context_artifact_to_dict a)"
  by (simp add: context_artifact_to_dict_def wf_json.simps context_value_form.form_json)

lemma type_size_limit_le: "type_size_limit t \<le> 16777216"
  by (simp add: type_size_limit_def)

lemma parse_context_artifact_facts:
  assumes "parse_context_artifact ty n j = Inr a"
  shows "wf_context_value (ca_type a) (ca_value a)"
    "context_identity (context_prefix (ca_type a)) (context_value_to_dict (ca_value a)) = Inr (ca_id a)"
    "ty = None \<or> ty = Some (ca_type a)" "n \<le> type_size_limit (ca_type a)" "validate_canonical [(j, 0)] 0 = Inr ()"
  using assms by (auto simp: parse_context_artifact_def result_simps context_value_form.parsed_form not_less)

lemma parse_context_artifact_enc:
  "parse_context_artifact ty n (context_artifact_to_dict a) = Inr a \<longleftrightarrow>
    wf_context_artifact a \<and> (ty = None \<or> ty = Some (ca_type a)) \<and> n \<le> type_size_limit (ca_type a)"
proof
  assume "parse_context_artifact ty n (context_artifact_to_dict a) = Inr a"
  from parse_context_artifact_facts[OF this]
  show "wf_context_artifact a \<and> (ty = None \<or> ty = Some (ca_type a)) \<and> n \<le> type_size_limit (ca_type a)"
    by (simp add: wf_context_artifact_def)
next
  assume w: "wf_context_artifact a \<and> (ty = None \<or> ty = Some (ca_type a)) \<and> n \<le> type_size_limit (ca_type a)"
  have eta: "\<lparr>ca_type = ca_type a, ca_id = ca_id a, ca_value = ca_value a\<rparr> = a" by simp
  have "n \<le> 16777216" using w type_size_limit_le[of "ca_type a"] by linarith
  moreover have "wf_context_id (context_prefix (ca_type a)) (ca_id a)"
    using w context_identity_wf by (auto simp: wf_context_artifact_def)
  moreover have "validate_canonical [(JObj [(''schema_version'', JStr ''1.0''),
     (''artifact_type'', JStr (context_type_value (ca_type a))), (''artifact_id'', JStr (ca_id a)),
     (''content'', context_value_to_dict (ca_value a))], 0)] 0 = Inr ()"
    using w by (simp add: wf_context_artifact_def context_artifact_to_dict_def)
  ultimately show "parse_context_artifact ty n (context_artifact_to_dict a) = Inr a"
    using w eta unfolding parse_context_artifact_def wf_context_artifact_def context_artifact_to_dict_def
    by (auto simp: get_Cons only_keys_same not_less context_type_enum.enum_value_val
        context_value_form.parse_form context_id_codec.parse_enc simp del: validate_canonical.simps)
qed

section \<open>Serialization\<close>

text \<open>\<open>json.dumps\<close> with sorted keys and an indent of two.\<close>

definition fresh_line :: "nat \<Rightarrow> string" where
  "fresh_line level = CHR 10 # replicate (2 * level) (CHR '' '')"

fun pretty :: "nat \<Rightarrow> json \<Rightarrow> string" where
  "pretty level (JArr xs) = (if xs = [] then ''[]''
     else ''['' @ fresh_line (level + 1) @
       join_text ('','' @ fresh_line (level + 1)) (map (pretty (level + 1)) xs) @ fresh_line level @ '']'')"
| "pretty level (JObj fs) = (if fs = [] then ''{}''
     else ''{'' @ fresh_line (level + 1) @
       join_text ('','' @ fresh_line (level + 1)) (map (\<lambda>(k, t). quote_text k @ '': '' @ t)
         (sort_key fst (map (\<lambda>(k, v). (k, pretty (level + 1) v)) fs))) @ fresh_line level @ ''}'')"
| "pretty level j = dumps j"

definition serialize_context_artifact :: "context_artifact \<Rightarrow> string result" where
  "serialize_context_artifact a =
     bindR (context_identity (context_prefix (ca_type a)) (context_value_to_dict (ca_value a))) (\<lambda>expected.
     bindR (require (ca_id a = expected) (ContextContractError IdentityDiffers)) (\<lambda>_.
     Inr (pretty 0 (context_artifact_to_dict a) @ [CHR 10])))"

text \<open>
  \<open>parse_context_artifact_bytes(serialize_context_artifact(artifact))\<close>: decoding the text that was written
  gives the document that was written, up to the order of its keys, on which no check depends.
\<close>

definition revalidate :: "context_artifact_type \<Rightarrow> context_artifact \<Rightarrow> context_artifact result" where
  "revalidate t a = bindR (serialize_context_artifact a) (\<lambda>bytes.
     parse_context_artifact (Some t) (length bytes) (context_artifact_to_dict a))"

definition serialized_length :: "context_artifact \<Rightarrow> nat" where
  "serialized_length a = Suc (length (pretty 0 (context_artifact_to_dict a)))"

lemma revalidate_facts:
  assumes "revalidate t a = Inr b"
  shows "parse_context_artifact (Some t) (serialized_length a) (context_artifact_to_dict a) = Inr b"
    "context_identity (context_prefix (ca_type a)) (context_value_to_dict (ca_value a)) = Inr (ca_id a)"
  using assms by (auto simp: revalidate_def serialize_context_artifact_def serialized_length_def result_simps)

lemma revalidate_same:
  assumes "revalidate t a = Inr b"
  shows "ca_type a = t" "ca_type b = t" "ca_id b = ca_id a"
proof -
  from revalidate_facts(1)[OF assms] show "ca_type a = t" "ca_type b = t" "ca_id b = ca_id a"
    by (auto simp: parse_context_artifact_def context_artifact_to_dict_def result_simps get_Cons
        context_type_enum.enum_value_iff dest: context_type_enum.val_inject)
qed

lemma revalidate_iff: "revalidate t a = Inr a \<longleftrightarrow>
    wf_context_artifact a \<and> ca_type a = t \<and> serialized_length a \<le> type_size_limit t"
proof
  assume r: "revalidate t a = Inr a"
  show "wf_context_artifact a \<and> ca_type a = t \<and> serialized_length a \<le> type_size_limit t"
    using revalidate_facts(1)[OF r] revalidate_same(1)[OF r] unfolding parse_context_artifact_enc by auto
next
  assume w: "wf_context_artifact a \<and> ca_type a = t \<and> serialized_length a \<le> type_size_limit t"
  then have "parse_context_artifact (Some t) (serialized_length a) (context_artifact_to_dict a) = Inr a"
    unfolding parse_context_artifact_enc by auto
  then show "revalidate t a = Inr a"
    using w by (clarsimp simp: revalidate_def serialize_context_artifact_def serialized_length_def
        wf_context_artifact_def)
qed

section \<open>What comes back\<close>

text \<open>A value that survives being written and read is the one that was written.\<close>

named_theorems exact_simps \<open>parsers return the value that was encoded\<close>

lemma enum_exact [exact_simps]:
  "enum_value source_kind_value source_kind_members (JStr (source_kind_value k)) = Inr k' \<longleftrightarrow> k' = k"
  "enum_value authority_value authority_class_members (JStr (authority_value a)) = Inr a' \<longleftrightarrow> a' = a"
  "enum_value sensitivity_value sensitivity_members (JStr (sensitivity_value s)) = Inr s' \<longleftrightarrow> s' = s"
  "enum_value edge_type_value edge_type_members (JStr (edge_type_value t)) = Inr t' \<longleftrightarrow> t' = t"
  "enum_value root_scope_value root_scope_members (JStr (root_scope_value r)) = Inr r' \<longleftrightarrow> r' = r"
  "enum_value freshness_value freshness_kind_members (JStr (freshness_value f)) = Inr f' \<longleftrightarrow> f' = f"
  by (auto simp: source_kind_enum.enum_value_val authority_enum.enum_value_val sensitivity_enum.enum_value_val
      edge_type_enum.enum_value_val root_scope_enum.enum_value_val freshness_enum.enum_value_val)

definition exact :: "(json \<Rightarrow> 'a result) \<Rightarrow> ('a \<Rightarrow> json) \<Rightarrow> bool" where
  "exact p enc = (\<forall>x y. p (enc x) = Inr y \<longrightarrow> y = x)"

lemma exactI: "(\<And>x y. p (enc x) = Inr y \<Longrightarrow> y = x) \<Longrightarrow> exact p enc"
  by (simp add: exact_def)

lemma exactD: "exact p enc \<Longrightarrow> p (enc x) = Inr y \<Longrightarrow> y = x"
  by (simp add: exact_def)

lemma array_exact:
  assumes e: "exact p enc" and "array_of n p (JArr (map enc xs)) = Inr ys"
  shows "ys = xs"
proof -
  have "mapR p (map enc xs) = Inr ys \<Longrightarrow> ys = xs" for xs ys
    by (induction xs arbitrary: ys) (auto simp: result_simps dest: exactD[OF e])
  then show ?thesis using assms(2) by (auto simp: array_of_def result_simps)
qed

lemma sorted_exact: "exact p enc \<Longrightarrow> sorted_of lo hi p (JArr (map enc xs)) = Inr ys \<Longrightarrow> ys = xs"
  by (auto simp: sorted_of_def result_simps dest: array_exact)

lemma option_exact:
  "exact p enc \<Longrightarrow> (\<And>x. enc x \<noteq> JNull) \<Longrightarrow> optional_value p (enc_option enc x) = Inr y \<Longrightarrow> y = x"
  by (cases x) (auto simp: optional_value_def enc_option_def result_simps dest: exactD)

lemma string_exact: "exact (context_text n e) JStr" "exact (context_id p) JStr" "exact context_timestamp JStr"
  by (auto intro!: exactI simp: result_simps)

lemmas texts_exact = sorted_exact[OF string_exact(1)] sorted_exact[OF string_exact(2)]

lemma reference_exact: "exact parse_artifact_reference reference_to_dict"
  by (auto intro!: exactI artifact_reference.equality simp: parse_artifact_reference_def reference_to_dict_def get_Cons result_simps safe_relative_path_iff)

lemma candidate_exact: "parse_candidate_identity (candidate_to_dict c) = Inr c' \<Longrightarrow> c' = c"
  by (cases c) (auto simp: parse_candidate_identity_def candidate_to_dict_def get_Cons result_simps split: option.splits)

lemma locator_exact: "parse_locator (locator_to_dict l) = Inr l' \<Longrightarrow> l' = l"
  by (cases l) (auto simp: parse_locator_def locator_to_dict_def get_Cons result_simps exact_simps)

lemma provenance_exact: "parse_provenance (provenance_to_dict p) = Inr p' \<Longrightarrow> p' = p"
  by (cases p) (auto simp: parse_provenance_def provenance_to_dict_def get_Cons result_simps
      dest!: array_exact[OF reference_exact])

lemma freshness_exact: "parse_freshness (freshness_to_dict f) = Inr f' \<Longrightarrow> f' = f"
  by (cases f) (auto simp: parse_freshness_def freshness_to_dict_def get_Cons result_simps exact_simps
      dest!: option_exact[OF string_exact(3), rotated])

lemmas part_exact = texts_exact candidate_exact locator_exact provenance_exact freshness_exact

lemma node_exact: "exact parse_node node_to_dict"
  unfolding parse_node_def node_to_dict_def
  by (rule exactI, clarsimp simp: get_Cons result_simps exact_simps Let_def) (auto dest!: part_exact)

lemma edge_exact: "exact (parse_edge ids) edge_to_dict"
  unfolding parse_edge_def edge_to_dict_def
  by (rule exactI, clarsimp simp: get_Cons result_simps exact_simps Let_def) (auto dest!: part_exact)

lemma decision_exact: "exact parse_selection_decision decision_to_dict"
  unfolding parse_selection_decision_def decision_to_dict_def
  by (rule exactI, clarsimp simp: get_Cons result_simps) (auto dest!: part_exact)

lemma exclusion_exact: "exact parse_exclusion exclusion_to_dict"
  unfolding parse_exclusion_def exclusion_to_dict_def
  by (rule exactI, clarsimp simp: get_Cons result_simps) (auto dest!: part_exact)

lemma extract_exact: "exact parse_extract extract_to_dict"
  unfolding parse_extract_def extract_to_dict_def
  by (rule exactI, clarsimp simp: get_Cons result_simps exact_simps) (auto dest!: part_exact)

lemmas list_exact = array_exact[OF node_exact] array_exact[OF edge_exact] array_exact[OF decision_exact]
  array_exact[OF exclusion_exact] array_exact[OF extract_exact]

lemma snapshot_exact: "parse_snapshot (context_snapshot_to_dict s) = Inr s' \<Longrightarrow> s' = s"
  unfolding parse_snapshot_def context_snapshot_to_dict_def
  by (clarsimp simp: get_Cons result_simps exact_simps) (auto dest!: part_exact list_exact)

lemma compaction_exact: "parse_compaction (context_compaction_to_dict c) = Inr c' \<Longrightarrow> c' = c"
  unfolding parse_compaction_def context_compaction_to_dict_def
  by (clarsimp simp: get_Cons result_simps exact_simps)
    (auto dest!: part_exact list_exact option_exact[OF string_exact(2), rotated])

end
