(* ===== verification/ContextSizes.thy ===== *)
theory ContextSizes
  imports ContextArtifacts Canonical "HOL-Library.Multiset"
begin

text \<open>
  Bounds on the length of the canonical and of the indented text of a document, by a weight that is
  computed from the document: an escape is at most six characters, a line its indent.
\<close>

section \<open>Pieces\<close>

lemma escape_length: "length (escape_char c) \<le> 6"
  by (simp add: escape_char_def Let_def)

lemma quote_length: "length (quote_text s) \<le> 2 + 6 * length s"
proof -
  have "length (concat (map escape_char s)) \<le> 6 * length s"
  proof (induction s)
    case (Cons c s)
    then show ?case using escape_length[of c] by simp
  qed simp
  then show ?thesis by (simp add: quote_text_def)
qed

lemma nat_text_within: "length (nat_text n) \<le> Suc n"
proof (induction n rule: nat_text.induct)
  case (1 n)
  show ?case
  proof (cases "n < 10")
    case False
    then have "length (nat_text (n div 10)) \<le> Suc (n div 10)" by (rule 1)
    moreover have "n div 10 < n" using False by simp
    ultimately show ?thesis using False by (subst nat_text.simps) simp
  qed (simp add: nat_text.simps)
qed

lemma int_text_length: "length (int_text i) \<le> nat \<bar>i\<bar> + 2"
  using nat_text_within[of "nat i"] nat_text_within[of "nat (- i)"] by (auto simp: int_text_def)

lemma int_text_short: "0 \<le> i \<Longrightarrow> i < 100000000 \<Longrightarrow> length (int_text i) \<le> 9"
  using nat_text_length[of 8 "nat i"] by (simp add: int_text_def nat_less_iff)

lemma join_length: "xs \<noteq> [] \<Longrightarrow> length sep + length (join_text sep xs) = sum_list (map (\<lambda>x. length sep + length x) xs)"
  by (induction sep xs rule: join_text.induct) auto

lemma sum_list_sort: "sum_list (map f (sort_key g xs)) = (sum_list (map f xs) :: nat)"
  by (metis mset_map mset_sort sum_mset_sum_list)

lemma sum_list_le: "(\<And>x. x \<in> set xs \<Longrightarrow> f x \<le> (g x :: nat)) \<Longrightarrow> sum_list (map f xs) \<le> sum_list (map g xs)"
  by (induction xs) (auto simp: add_mono)

section \<open>The weight of a document\<close>

fun weight :: "nat \<Rightarrow> json \<Rightarrow> nat" where
  "weight l (JStr s) = 2 + 6 * length s"
| "weight l (JInt i) = (if 0 \<le> i \<and> i < 100000000 then 9 else nat \<bar>i\<bar> + 2)"
| "weight l (JArr xs) = 3 + 2 * l + sum_list (map (\<lambda>x. 2 * l + 4 + weight (Suc l) x) xs)"
| "weight l (JObj fs) = 3 + 2 * l + sum_list (map (\<lambda>(k, v). 2 * l + 8 + 6 * length k + weight (Suc l) v) fs)"
| "weight l _ = 5"

lemma fresh_line_length [simp]: "length (fresh_line l) = 2 * l + 1"
  by (simp add: fresh_line_def)

lemma sorted_items_length:
  "sum_list (map (\<lambda>x. n + length (case x of (k, t) \<Rightarrow> quote_text k @ sep @ t)) (sort_key fst (map (\<lambda>(k, v). (k, h v)) fs))) =
   sum_list (map (\<lambda>(k, v). n + length (quote_text k @ sep @ h v)) fs)"
  unfolding sum_list_sort by (simp add: case_prod_unfold comp_def)

lemma joined_items_length:
  assumes "fs \<noteq> []"
  shows "length sep + length (join_text sep (map (\<lambda>(k, t). quote_text k @ colon @ t) (sort_key fst (map (\<lambda>(k, v). (k, h v)) fs))))
    = sum_list (map (\<lambda>(k, v). length sep + length (quote_text k @ colon @ h v)) fs)"
proof -
  have "map (\<lambda>(k, t). quote_text k @ colon @ t) (sort_key fst (map (\<lambda>(k, v). (k, h v)) fs)) \<noteq> []"
    using assms by (auto dest: arg_cong[where f = length])
  from join_length[OF this, of sep] show ?thesis
    unfolding map_map comp_def sorted_items_length .
qed

lemma pretty_weight: "length (pretty l j) \<le> weight l j"
proof (induction l j rule: pretty.induct)
  case (1 l xs)
  show ?case
  proof (cases "xs = []")
    case False
    let ?sep = "'','' @ fresh_line (l + 1)"
    have "length ?sep + length (join_text ?sep (map (pretty (l + 1)) xs)) =
        sum_list (map (\<lambda>x. length ?sep + length (pretty (l + 1) x)) xs)"
      using False join_length[of "map (pretty (l + 1)) xs" ?sep] by (simp add: comp_def)
    also have "\<dots> \<le> sum_list (map (\<lambda>x. 2 * l + 4 + weight (Suc l) x) xs)"
      using 1 False by (intro sum_list_le) auto
    finally show ?thesis using False by simp
  qed simp
next
  case (2 l fs)
  show ?case
  proof (cases "fs = []")
    case False
    let ?sep = "'','' @ fresh_line (l + 1)"
    have "length ?sep + length (join_text ?sep (map (\<lambda>(k, t). quote_text k @ '': '' @ t)
        (sort_key fst (map (\<lambda>(k, v). (k, pretty (l + 1) v)) fs)))) =
        sum_list (map (\<lambda>(k, v). length ?sep + length (quote_text k @ '': '' @ pretty (l + 1) v)) fs)"
      by (rule joined_items_length[OF False])
    also have "\<dots> \<le> sum_list (map (\<lambda>(k, v). 2 * l + 8 + 6 * length k + weight (Suc l) v) fs)"
    proof (rule sum_list_le, clarify)
      fix k v assume kv: "(k, v) \<in> set fs"
      then have "length (pretty (l + 1) v) \<le> weight (Suc l) v" using 2 False by fastforce
      then show "length ?sep + length (quote_text k @ '': '' @ pretty (l + 1) v) \<le> 2 * l + 8 + 6 * length k + weight (Suc l) v"
        using quote_length[of k] by simp
    qed
    finally show ?thesis using False by simp
  qed simp
qed (simp_all add: quote_length[simplified] int_text_length[simplified] int_text_short)

lemma dumps_weight: "length (dumps j) \<le> weight l j"
proof (induction j arbitrary: l rule: dumps.induct)
  case (6 xs)
  show ?case
  proof (cases "xs = []")
    case False
    have "1 + length (join_text '','' (map dumps xs)) = sum_list (map (\<lambda>x. 1 + length (dumps x)) xs)"
      using False join_length[of "map dumps xs" "'',''"] by (simp add: comp_def)
    also have "\<dots> \<le> sum_list (map (\<lambda>x. 2 * l + 4 + weight (Suc l) x) xs)"
    proof (rule sum_list_le)
      fix x assume "x \<in> set xs"
      from 6[OF this, of "Suc l"] show "1 + length (dumps x) \<le> 2 * l + 4 + weight (Suc l) x" by simp
    qed
    finally show ?thesis by simp
  qed simp
next
  case (7 fs)
  show ?case
  proof (cases "fs = []")
    case False
    have "length '','' + length (join_text '','' (map (\<lambda>(k, t). quote_text k @ '':'' @ t)
        (sort_key fst (map (\<lambda>(k, v). (k, dumps v)) fs)))) =
        sum_list (map (\<lambda>(k, v). length '','' + length (quote_text k @ '':'' @ dumps v)) fs)"
      by (rule joined_items_length[OF False])
    also have "\<dots> \<le> sum_list (map (\<lambda>(k, v). 2 * l + 8 + 6 * length k + weight (Suc l) v) fs)"
    proof (rule sum_list_le, clarify)
      fix k v assume kv: "(k, v) \<in> set fs"
      then have "length (dumps v) \<le> weight (Suc l) v" using 7 by fastforce
      then show "length '','' + length (quote_text k @ '':'' @ dumps v) \<le> 2 * l + 8 + 6 * length k + weight (Suc l) v"
        using quote_length[of k] by simp
    qed
    finally show ?thesis by simp
  qed simp
qed (simp_all add: quote_length[simplified] int_text_length[simplified] int_text_short)

section \<open>Consequences\<close>

lemma serialized_weight: "weight 0 (context_artifact_to_dict a) < n \<Longrightarrow> serialized_length a \<le> n"
  using pretty_weight[of 0 "context_artifact_to_dict a"] by (simp add: serialized_length_def)

lemma fits_canonical_size:
  assumes "fits 250000 64 j"
  shows "canonical_size j = Inr (int (length (dumps j)))"
  using fits_bytes[OF assms] by (simp add: canonical_size_def)

lemma fits_validates: "fits 250000 64 j \<Longrightarrow> validate_canonical [(j, 0)] 0 = Inr ()"
  using fits_bytes[of j] by (auto simp: canonical_json_bytes_def result_simps)

lemma fits_context_identity: "fits 250000 64 j \<Longrightarrow> context_identity p j = Inr (p @ sha256_hex (dumps j))"
  by (simp add: context_identity_def content_digest_def fits_bytes)

section \<open>Artifacts that pass\<close>

definition identified_artifact :: "context_artifact_type \<Rightarrow> context_value \<Rightarrow> context_artifact" where
  "identified_artifact t v = \<lparr>ca_type = t, ca_id = context_prefix t @ sha256_hex (dumps (context_value_to_dict v)), ca_value = v\<rparr>"

lemma identified_artifact_fields [simp]: "ca_type (identified_artifact t v) = t" "ca_value (identified_artifact t v) = v"
  by (simp_all add: identified_artifact_def)

lemma type_value_length: "length (context_type_value t) \<le> 30"
  by (cases t) simp_all

lemma prefix_length: "length (context_prefix t) \<le> 27"
  by (cases t) (simp_all add: context_prefix_def)

lemma identified_id_length: "length (ca_id (identified_artifact t v)) \<le> 91"
  using prefix_length[of t] by (simp add: identified_artifact_def sha256_hex_shape)

lemma identified_artifact_made:
  assumes "wf_context_value t v" and f: "fits 1000 60 (context_value_to_dict v)" and w: "weight 1 (context_value_to_dict v) \<le> 900000"
  shows "context_artifact_from_value t v = Inr (identified_artifact t v)"
    "revalidate t (identified_artifact t v) = Inr (identified_artifact t v)"
proof -
  let ?a = "identified_artifact t v"
  have i: "context_identity (context_prefix t) (context_value_to_dict v) = Inr (ca_id ?a)"
    using fits_context_identity[OF fits_mono[OF f]] by (simp add: identified_artifact_def)
  then show "context_artifact_from_value t v = Inr ?a" by (simp add: context_artifact_from_value_def identified_artifact_def)
  have "fits 250000 64 (context_artifact_to_dict ?a)"
    using f by (simp add: fits_def context_artifact_to_dict_def ascii_text_def)
  then have "wf_context_artifact ?a" using assms(1) i by (simp add: wf_context_artifact_def fits_validates del: validate_canonical.simps)
  moreover have "weight 0 (context_artifact_to_dict ?a) < 1000000"
    using w type_value_length[of t] identified_id_length[of t v] by (simp add: context_artifact_to_dict_def)
  then have "serialized_length ?a \<le> 1000000" by (rule serialized_weight)
  ultimately show "revalidate t ?a = Inr ?a" unfolding revalidate_iff by (simp add: type_size_limit_def)
qed

end
