(* ===== verification/ContextSelection.thy ===== *)
theory ContextSelection
  imports ContextLeaves
begin

text \<open>
  \<open>application/context_selection.py\<close>: the deterministic selection of context nodes under a budget.  A
  Python set of identifiers is a HOL set; where the code runs through one it is taken in ascending
  order, which the results do not depend on (sums, unions and sorted tuples).  The cost of a
  piece of content is a parameter with the contract of \<open>BudgetEstimator\<close>.
\<close>

section \<open>Costs\<close>

type_synonym estimator = "json \<Rightarrow> int result"

definition total_cost :: "estimator \<Rightarrow> json list \<Rightarrow> int result" where
  "total_cost cost js = bindR (mapR cost js) (\<lambda>cs. Inr (sum_list cs))"

text \<open>\<open>CanonicalUTF8ByteEstimator\<close>.\<close>

definition canonical_cost :: estimator where
  "canonical_cost content = canonical_size content"

section \<open>Lookup and eligibility\<close>

definition node_index :: "context_node list \<Rightarrow> string \<rightharpoonup> context_node" where
  "node_index nodes = map_of (rev (map (\<lambda>n. (nd_node_id n, n)) nodes))"

definition node_at :: "context_node list \<Rightarrow> string \<Rightarrow> context_node result" where
  "node_at nodes i = (case node_index nodes i of None \<Rightarrow> Inl KeyError | Some n \<Rightarrow> Inr n)"

definition node_costs :: "estimator \<Rightarrow> context_node list \<Rightarrow> string set \<Rightarrow> int result" where
  "node_costs cost nodes ids = bindR (mapR (node_at nodes) (sorted_list_of_set ids)) (\<lambda>ns.
     total_cost cost (map node_content_dict ns))"

definition edge_costs :: "estimator \<Rightarrow> context_edge list \<Rightarrow> int result" where
  "edge_costs cost edges = total_cost cost (map edge_content_dict edges)"

definition within_validity :: "freshness \<Rightarrow> string \<Rightarrow> bool result" where
  "within_validity f as_of = (case (fr_observed_at f, fr_valid_until f) of
     (Some observed, Some until) \<Rightarrow>
       bindR (parse_utc as_of) (\<lambda>now. bindR (parse_utc observed) (\<lambda>a.
       if \<not> a \<le> now then Inr False else bindR (parse_utc until) (\<lambda>b. Inr (now \<le> b))))
   | _ \<Rightarrow> Inl AssertionError)"

definition eligibility_problem :: "context_node \<Rightarrow> context_query \<Rightarrow> string option result" where
  "eligibility_problem n q =
     (if sensitivity_rank (nd_sensitivity n) > sensitivity_rank (cq_clearance q) then
        Inr (Some ''sensitivity-clearance'')
      else if fr_kind (nd_freshness n) = EXPIRES_AT then
        bindR (within_validity (nd_freshness n) (cq_as_of q)) (\<lambda>valid.
        Inr (if valid then None else Some ''stale''))
      else Inr None)"

type_synonym exclusions = "(string \<times> exclusion_decision) list"

definition exclude :: "string \<Rightarrow> string \<Rightarrow> string list \<Rightarrow> exclusions \<Rightarrow> exclusions" where
  "exclude i why details xs = upsert i \<lparr>xd_node_id = i, xd_reason = why, xd_details = details\<rparr> xs"

fun classify_nodes :: "context_query \<Rightarrow> string set \<Rightarrow> context_node list \<Rightarrow> string set \<Rightarrow> exclusions \<Rightarrow>
    (string set \<times> exclusions) result" where
  "classify_nodes q required [] eligible excluded = Inr (eligible, excluded)"
| "classify_nodes q required (n # ns) eligible excluded =
     bindR (eligibility_problem n q) (\<lambda>problem.
     (case problem of
        None \<Rightarrow> classify_nodes q required ns (insert (nd_node_id n) eligible) excluded
      | Some why \<Rightarrow>
          if nd_node_id n \<in> required then Inl (ContextSelectionError RequiredUnavailable)
          else classify_nodes q required ns eligible (exclude (nd_node_id n) why [] excluded)))"

section \<open>Contradictions\<close>

definition endpoints :: "context_edge \<Rightarrow> string set" where
  "endpoints e = {ed_source_node_id e, ed_target_node_id e}"

definition contradictions :: "context_edge list \<Rightarrow> context_edge list" where
  "contradictions edges = filter (\<lambda>e. ed_edge_type e = CONTRADICTS) edges"

definition half_in :: "string set \<Rightarrow> context_edge \<Rightarrow> bool" where
  "half_in ids e = (ids \<inter> endpoints e \<noteq> {} \<and> \<not> endpoints e \<subseteq> ids)"

text \<open>
  One pass over the contradictions, and passes until one changes nothing: the closure of the required
  nodes, which fails on an end that is not eligible, and the closure of any set.
\<close>

fun required_pass :: "string set \<Rightarrow> context_edge list \<Rightarrow> string set \<Rightarrow> string set result" where
  "required_pass eligible [] closure = Inr closure"
| "required_pass eligible (e # es) closure =
     (if half_in closure e then
        (if endpoints e - closure \<subseteq> eligible then required_pass eligible es (closure \<union> endpoints e)
         else Inl (ContextSelectionError ClosureUnavailable))
      else required_pass eligible es closure)"

fun closure_pass :: "context_edge list \<Rightarrow> string set \<Rightarrow> string set" where
  "closure_pass [] closure = closure"
| "closure_pass (e # es) closure =
     closure_pass es (if half_in closure e then closure \<union> endpoints e else closure)"

definition ends :: "context_edge list \<Rightarrow> string set" where
  "ends es = \<Union> (set (map endpoints es))"

lemma finite_ends [simp]: "finite (ends es)"
  by (simp add: ends_def endpoints_def)

lemma closure_pass_bounds:
  "closure \<subseteq> closure_pass es closure" "closure_pass es closure \<subseteq> closure \<union> ends es"
proof (induction es arbitrary: closure)
  case (Cons e es)
  { case 1 show ?case using Cons(1)[of "closure \<union> endpoints e"] Cons(1)[of closure] by auto }
  { case 2 show ?case using Cons(2)[of "closure \<union> endpoints e"] Cons(2)[of closure] by (auto simp: ends_def) }
qed simp_all

lemma required_pass_closure:
  "required_pass eligible es closure = Inr c \<Longrightarrow> c = closure_pass es closure \<and> c - closure \<subseteq> eligible"
  by (induction eligible es closure rule: required_pass.induct) (auto split: if_splits)

lemma pass_measure:
  assumes "closure_pass es closure \<noteq> closure"
  shows "card (ends es - closure_pass es closure) < card (ends es - closure)"
  using assms closure_pass_bounds[where es = es and closure = closure]
  by (intro psubset_card_mono) auto

function closed_required :: "string set \<Rightarrow> context_edge list \<Rightarrow> string set \<Rightarrow> string set result" where
  "closed_required eligible es closure = (case required_pass eligible es closure of
     Inl e \<Rightarrow> Inl e
   | Inr c \<Rightarrow> if c = closure then Inr c else closed_required eligible es c)"
  by pat_completeness auto
termination
  by (relation "measure (\<lambda>(eligible, es, closure). card (ends es - closure))")
    (auto dest: required_pass_closure intro: pass_measure)

function contradiction_closure :: "context_edge list \<Rightarrow> string set \<Rightarrow> string set" where
  "contradiction_closure es closure = (let c = closure_pass es closure in
     if c = closure then c else contradiction_closure es c)"
  by pat_completeness auto
termination
  by (relation "measure (\<lambda>(es, closure). card (ends es - closure))") (auto intro: pass_measure)

declare closed_required.simps [simp del] contradiction_closure.simps [simp del]

section \<open>Traversal\<close>

definition neighbors :: "context_query \<Rightarrow> context_edge list \<Rightarrow> string \<Rightarrow> (context_edge \<times> string) list" where
  "neighbors q edges i = sort_key (\<lambda>(e, target). (edge_type_value (ed_edge_type e), target, ed_edge_id e))
     (concat (map (\<lambda>e. if ed_edge_type e \<in> set (cq_allowed_edge_types q) then
          (if ed_source_node_id e = i then [(e, ed_target_node_id e)] else []) @
          (if ed_edge_type e = CONTRADICTS \<and> ed_target_node_id e = i then [(e, ed_source_node_id e)] else [])
        else []) edges))"

record traversal =
  tr_distances :: "(string \<times> int) list"
  tr_queue :: "string list"
  tr_edges :: "string set"

fun visit_neighbors :: "context_budget \<Rightarrow> int \<Rightarrow> (context_edge \<times> string) list \<Rightarrow> traversal \<Rightarrow> traversal result" where
  "visit_neighbors b d [] t = Inr t"
| "visit_neighbors b d ((e, target) # ns) t =
     (let t = t\<lparr>tr_edges := insert (ed_edge_id e) (tr_edges t)\<rparr> in
      if int (card (tr_edges t)) > cb_max_edges b then Inl (ContextSelectionError EdgeBound)
      else if map_of (tr_distances t) target \<noteq> None then visit_neighbors b d ns t
      else if int (length (tr_distances t)) \<ge> cb_max_nodes b then Inl (ContextSelectionError NodeBound)
      else visit_neighbors b d ns
        (t\<lparr>tr_distances := tr_distances t @ [(target, d + 1)], tr_queue := tr_queue t @ [target]\<rparr>))"

text \<open>Every node a traversal meets is an end of an edge, so the queue runs empty.\<close>

definition unmet :: "context_edge list \<Rightarrow> traversal \<Rightarrow> nat" where
  "unmet edges t = card (ends edges - fst ` set (tr_distances t)) + length (tr_queue t)"

lemma neighbors_set: "(e, j) \<in> set (neighbors q edges i) \<longleftrightarrow> e \<in> set edges \<and>
    ed_edge_type e \<in> set (cq_allowed_edge_types q) \<and>
    (ed_source_node_id e = i \<and> ed_target_node_id e = j \<or>
     ed_edge_type e = CONTRADICTS \<and> ed_target_node_id e = i \<and> ed_source_node_id e = j)"
  by (auto simp: neighbors_def)

lemma neighbors_ends: "(e, j) \<in> set (neighbors q edges i) \<Longrightarrow> j \<in> ends edges"
  by (auto simp: neighbors_set ends_def endpoints_def)

lemma visit_unmet:
  "visit_neighbors b d ns t = Inr t' \<Longrightarrow> snd ` set ns \<subseteq> ends edges \<Longrightarrow> unmet edges t' \<le> unmet edges t"
proof (induction b d ns t rule: visit_neighbors.induct)
  case (2 b d e target ns t)
  show ?case
  proof (cases "map_of (tr_distances t) target")
    case None
    let ?D = "fst ` set (tr_distances t)"
    have "target \<in> ends edges - ?D" using None 2(4) by (auto simp: map_of_eq_None_iff)
    then have "Suc (card (ends edges - insert target ?D)) = card (ends edges - ?D)"
      by (metis Diff_insert card_Suc_Diff1 finite_Diff finite_ends)
    then show ?thesis using 2 None by (auto simp: Let_def unmet_def split: if_splits)
  qed (use 2 in \<open>auto simp: Let_def unmet_def split: if_splits\<close>)
qed simp

function traverse_loop :: "context_query \<Rightarrow> context_edge list \<Rightarrow> traversal \<Rightarrow> traversal result" where
  "traverse_loop q edges t = (case tr_queue t of
     [] \<Rightarrow> Inr t
   | current # queue \<Rightarrow>
      (case map_of (tr_distances t) current of
         None \<Rightarrow> Inl KeyError
       | Some d \<Rightarrow>
           if d \<ge> cb_max_traversal_depth (cq_budget q) then
             (if \<exists>p \<in> set (neighbors q edges current). map_of (tr_distances t) (snd p) = None
              then Inl (ContextSelectionError DepthBound)
              else traverse_loop q edges (t\<lparr>tr_queue := queue\<rparr>))
           else (case visit_neighbors (cq_budget q) d (neighbors q edges current) (t\<lparr>tr_queue := queue\<rparr>) of
               Inl e \<Rightarrow> Inl e
             | Inr t' \<Rightarrow> traverse_loop q edges t')))"
  by pat_completeness auto
termination
proof (relation "measure (\<lambda>(q, edges, t). unmet edges t)", goal_cases)
  case (3 q edges t current queue d t')
  have "unmet edges t' \<le> unmet edges (t\<lparr>tr_queue := queue\<rparr>)"
    by (rule visit_unmet[OF 3(4)]) (auto dest: neighbors_ends)
  then show ?case using 3(1) by (simp add: unmet_def)
qed (simp_all add: unmet_def)

declare traverse_loop.simps [simp del]

definition traverse :: "context_graph \<Rightarrow> context_query \<Rightarrow> string set \<Rightarrow> (string \<times> int) list result" where
  "traverse g q origins = (let ordered = sorted_list_of_set origins in
     bindR (traverse_loop q (cg_edges g)
       \<lparr>tr_distances = map (\<lambda>i. (i, 0)) ordered, tr_queue = ordered, tr_edges = {}\<rparr>)
       (\<lambda>t. Inr (tr_distances t)))"

end
