(* ===== verification/ContextSelector.thy ===== *)
theory ContextSelector
  imports ContextSelection
begin

text \<open>
  \<open>ContextSelector.select\<close>: the phases and reasons of the candidates, the ranking, the greedy filling
  of the budget and the resulting selection.
\<close>

section \<open>Lexical retrieval\<close>

fun token_scan :: "string \<Rightarrow> string \<Rightarrow> string list" where
  "token_scan run [] = (if run = [] then [] else [run])"
| "token_scan run (c # cs) =
     (if 65 \<le> code c \<and> code c \<le> 90 then token_scan (run @ [char_of (code c + 32)]) cs
      else if 97 \<le> code c \<and> code c \<le> 122 \<or> 48 \<le> code c \<and> code c \<le> 57 then token_scan (run @ [c]) cs
      else (if run = [] then [] else [run]) @ (if code c > 127 then [[c]] else []) @ token_scan [] cs)"

definition lexical_tokens :: "string \<Rightarrow> string list" where
  "lexical_tokens text = token_scan [] text"

definition lexical_score :: "context_node \<Rightarrow> string set \<Rightarrow> int" where
  "lexical_score n tokens =
     (let title = set (lexical_tokens (nd_title n));
          labels = \<Union> (set (map (set \<circ> lexical_tokens) (nd_labels n)));
          path = set (lexical_tokens (lo_path (nd_locator n)));
          content = set (lexical_tokens (nd_text n)) in
      \<Sum>token \<in> tokens. (if token \<in> title then 16 else 0) + (if token \<in> labels then 8 else 0) +
        (if token \<in> path then 4 else 0) + (if token \<in> content then 1 else 0))"

section \<open>Candidates\<close>

record ranking =
  rk_phases :: "(string \<times> int) list"
  rk_reasons :: "string \<Rightarrow> string set"

definition retrieved :: "int \<Rightarrow> string \<Rightarrow> string \<Rightarrow> ranking \<Rightarrow> ranking" where
  "retrieved phase why i r =
     \<lparr>rk_phases = upsert i (case map_of (rk_phases r) i of None \<Rightarrow> phase | Some p \<Rightarrow> min p phase) (rk_phases r),
      rk_reasons = (rk_reasons r)(i := insert why (rk_reasons r i))\<rparr>"

definition required_ranking :: "string set \<Rightarrow> string set \<Rightarrow> ranking" where
  "required_ranking required direct =
     \<lparr>rk_phases = map (\<lambda>i. (i, 0)) (sorted_list_of_set required),
      rk_reasons = (\<lambda>i. if i \<in> required then
         {if i \<in> direct then ''required-reference'' else ''contradiction-closure''} else {})\<rparr>"

definition graph_ranking :: "string set \<Rightarrow> string set \<Rightarrow> (string \<times> int) list \<Rightarrow> ranking \<Rightarrow> ranking" where
  "graph_ranking eligible required distances r =
     fold (\<lambda>i r. if i \<in> eligible \<and> i \<notin> required then retrieved 1 ''graph'' i r else r) (map fst distances) r"

definition identifier_ranking :: "context_query \<Rightarrow> string set \<Rightarrow> context_node list \<Rightarrow> ranking \<Rightarrow> ranking" where
  "identifier_ranking q eligible nodes r =
     fold (\<lambda>n r. if nd_node_id n \<in> eligible \<and> set (cq_identifiers q) \<inter> set (nd_identifiers n) \<noteq> {}
       then retrieved 2 ''identifier'' (nd_node_id n) r else r) nodes r"

definition query_tokens :: "context_query \<Rightarrow> string set" where
  "query_tokens q = \<Union> (set (map (set \<circ> lexical_tokens) (cq_terms q)))"

definition lexical_ranking :: "string set \<Rightarrow> string set \<Rightarrow> context_node list \<Rightarrow> ranking \<Rightarrow> ranking" where
  "lexical_ranking tokens eligible nodes r =
     fold (\<lambda>n r. if nd_node_id n \<in> eligible \<and> lexical_score n tokens > 0
       then retrieved 3 ''lexical'' (nd_node_id n) r else r) nodes r"

definition lexical_scores :: "string set \<Rightarrow> context_node list \<Rightarrow> string \<rightharpoonup> int" where
  "lexical_scores tokens nodes = map_of (rev (map (\<lambda>n. (nd_node_id n, lexical_score n tokens)) nodes))"

section \<open>Ranking and filling\<close>

type_synonym rank_key = "int \<times> int \<times> int \<times> int \<times> int \<times> string"

definition distance_of :: "(string \<times> int) list \<Rightarrow> string \<Rightarrow> int" where
  "distance_of distances i = (case map_of distances i of None \<Rightarrow> 0 | Some d \<Rightarrow> d)"

definition key_at :: "(string \<rightharpoonup> 'a) \<Rightarrow> string \<Rightarrow> 'a result" where
  "key_at m i = (case m i of None \<Rightarrow> Inl KeyError | Some x \<Rightarrow> Inr x)"

definition rank_of :: "context_graph \<Rightarrow> ranking \<Rightarrow> (string \<times> int) list \<Rightarrow> (string \<rightharpoonup> int) \<Rightarrow> string \<Rightarrow> rank_key result" where
  "rank_of g r distances lexical i =
     bindR (node_at (cg_nodes g) i) (\<lambda>n.
     bindR (key_at (map_of (rk_phases r)) i) (\<lambda>phase.
     bindR (key_at lexical i) (\<lambda>score.
     Inr (phase, authority_rank (nd_authority n), distance_of distances i, - score,
          int (sensitivity_rank (nd_sensitivity n)), nd_node_id n))))"

definition ranked :: "context_graph \<Rightarrow> ranking \<Rightarrow> (string \<times> int) list \<Rightarrow> (string \<rightharpoonup> int) \<Rightarrow> string set \<Rightarrow> string list result" where
  "ranked g r distances lexical ids =
     bindR (mapR (\<lambda>i. bindR (rank_of g r distances lexical i) (\<lambda>k. Inr (k, i))) (sorted_list_of_set ids))
       (\<lambda>ps. Inr (map snd (sort_key fst ps)))"

definition induced_edges :: "context_edge list \<Rightarrow> string set \<Rightarrow> context_edge list" where
  "induced_edges edges ids = filter (\<lambda>e. ed_source_node_id e \<in> ids \<and> ed_target_node_id e \<in> ids) edges"

record filling =
  fl_ids :: "string set"
  fl_edges :: "context_edge list"
  fl_used :: int
  fl_excluded :: exclusions
  fl_ranking :: ranking

definition drop_exclusions :: "string set \<Rightarrow> exclusions \<Rightarrow> exclusions" where
  "drop_exclusions ids xs = filter (\<lambda>p. fst p \<notin> ids) xs"

text \<open>The nodes that come along take the phase of the one that brings them.\<close>

definition closure_reason :: "string \<Rightarrow> string \<Rightarrow> ranking \<Rightarrow> ranking" where
  "closure_reason origin i r = \<lparr>rk_phases = upsert i (the (map_of (rk_phases r) origin)) (rk_phases r),
     rk_reasons = (rk_reasons r)(i := insert ''contradiction-closure'' (rk_reasons r i))\<rparr>"

definition closure_ranking :: "string \<Rightarrow> string set \<Rightarrow> ranking \<Rightarrow> ranking" where
  "closure_ranking origin added r = fold (closure_reason origin) (sorted_list_of_set (added - {origin})) r"

definition fill_step :: "estimator \<Rightarrow> context_graph \<Rightarrow> context_budget \<Rightarrow> string set \<Rightarrow> string \<Rightarrow> filling \<Rightarrow> filling result" where
  "fill_step cost g b eligible i f =
     (if i \<in> fl_ids f then Inr f
      else
        (let added = contradiction_closure (contradictions (cg_edges g)) {i} - fl_ids f;
             without = (\<lambda>why details. f\<lparr>fl_excluded := exclude i why details (fl_excluded f)\<rparr>) in
         if \<not> added \<subseteq> eligible then
           Inr (without ''contradiction-closure-unavailable'' (sorted_list_of_set (added - eligible)))
         else if int (card (fl_ids f \<union> added)) > cb_max_nodes b then Inr (without ''node-budget'' [])
         else
           (let proposed_ids = fl_ids f \<union> added; proposed = induced_edges (cg_edges g) proposed_ids in
            if int (length proposed) > cb_max_edges b then Inr (without ''edge-budget'' [])
            else
              (let new_ids = set (map ed_edge_id proposed) - set (map ed_edge_id (fl_edges f));
                   edge_by_id = map_of (rev (map (\<lambda>e. (ed_edge_id e, e)) proposed)) in
               bindR (node_costs cost (cg_nodes g) added) (\<lambda>nodes_cost.
               bindR (mapR (key_at edge_by_id) (sorted_list_of_set new_ids)) (\<lambda>new_edges.
               bindR (edge_costs cost new_edges) (\<lambda>edges_cost.
               if fl_used f + (nodes_cost + edges_cost) > cb_budget_bytes b then Inr (without ''byte-budget'' [])
               else Inr \<lparr>fl_ids = proposed_ids, fl_edges = proposed,
                  fl_used = fl_used f + (nodes_cost + edges_cost),
                  fl_excluded = drop_exclusions added (fl_excluded f),
                  fl_ranking = closure_ranking i added (fl_ranking f)\<rparr>)))))))"

fun fill :: "estimator \<Rightarrow> context_graph \<Rightarrow> context_budget \<Rightarrow> string set \<Rightarrow> string list \<Rightarrow> filling \<Rightarrow> filling result" where
  "fill cost g b eligible [] f = Inr f"
| "fill cost g b eligible (i # is) f =
     bindR (fill_step cost g b eligible i f) (\<lambda>f'. fill cost g b eligible is f')"

section \<open>The selection\<close>

definition decision :: "estimator \<Rightarrow> context_graph \<Rightarrow> ranking \<Rightarrow> (string \<times> int) list \<Rightarrow> (string \<rightharpoonup> int) \<Rightarrow> string \<Rightarrow>
    selection_decision result" where
  "decision cost g r distances lexical i =
     bindR (node_at (cg_nodes g) i) (\<lambda>n.
     bindR (key_at (map_of (rk_phases r)) i) (\<lambda>phase.
     bindR (key_at lexical i) (\<lambda>score.
     bindR (cost (node_content_dict n)) (\<lambda>c.
     Inr \<lparr>sd_node_id = nd_node_id n, sd_reasons = sorted_list_of_set (rk_reasons r i), sd_phase = phase,
          sd_authority_rank = authority_rank (nd_authority n), sd_graph_distance = distance_of distances i,
          sd_lexical_score = score, sd_sensitivity_rank = int (sensitivity_rank (nd_sensitivity n)),
          sd_cost_bytes = c\<rparr>))))"

definition required_ids :: "context_graph \<Rightarrow> context_query \<Rightarrow> string set" where
  "required_ids g q = set (map nd_node_id (filter nd_required (cg_nodes g))) \<union> set (cq_required_node_ids q)"

definition graph_ids :: "context_graph \<Rightarrow> string set" where
  "graph_ids g = set (map nd_node_id (cg_nodes g))"

text \<open>What is left out at the end: eligible nodes that were not retrieved, candidates without another reason.\<close>

definition exclude_all :: "string \<Rightarrow> string set \<Rightarrow> exclusions \<Rightarrow> exclusions" where
  "exclude_all why ids xs = fold (\<lambda>i. exclude i why []) (sorted_list_of_set ids) xs"

definition exclude_missing :: "string set \<Rightarrow> exclusions \<Rightarrow> exclusions" where
  "exclude_missing ids xs = fold (\<lambda>i xs. if map_of xs i = None then exclude i ''not-selected'' [] xs else xs)
     (sorted_list_of_set ids) xs"

record retrieval =
  rt_direct :: "string set"
  rt_required :: "string set"
  rt_eligible :: "string set"
  rt_excluded :: exclusions
  rt_distances :: "(string \<times> int) list"
  rt_ranking :: ranking
  rt_scores :: "string \<rightharpoonup> int"

definition candidate_ids :: "retrieval \<Rightarrow> string set" where
  "candidate_ids r = set (map fst (rk_phases (rt_ranking r)))"

text \<open>The first half: what must be selected, what may be, and why.\<close>

definition retrieve :: "context_graph \<Rightarrow> context_query \<Rightarrow> retrieval result" where
  "retrieve g q = (let direct = required_ids g q; seeds = set (cq_seed_node_ids q);
       tokens = query_tokens q; scores = lexical_scores tokens (cg_nodes g) in
     bindR (require ((direct \<union> seeds) - graph_ids g = {}) (ContextSelectionError MissingNode)) (\<lambda>_.
     bindR (classify_nodes q direct (cg_nodes g) {} []) (\<lambda>(eligible, excluded).
     bindR (closed_required eligible (contradictions (cg_edges g)) direct) (\<lambda>required.
     bindR (traverse g q (required \<union> (seeds \<inter> eligible))) (\<lambda>distances.
     let ranking = lexical_ranking tokens eligible (cg_nodes g)
           (identifier_ranking q eligible (cg_nodes g)
             (graph_ranking eligible required distances (required_ranking required direct)));
         candidates = set (map fst (rk_phases ranking)) in
     Inr \<lparr>rt_direct = direct, rt_required = required, rt_eligible = eligible,
       rt_excluded = exclude_all ''not-retrieved'' (eligible - candidates) excluded,
       rt_distances = distances, rt_ranking = ranking, rt_scores = scores\<rparr>)))))"

text \<open>The second: the required part, then the optional candidates by rank.\<close>

definition required_filling :: "estimator \<Rightarrow> context_graph \<Rightarrow> context_budget \<Rightarrow> retrieval \<Rightarrow> filling result" where
  "required_filling cost g b r = (let edges = induced_edges (cg_edges g) (rt_required r) in
     bindR (require (int (card (rt_required r)) \<le> cb_max_nodes b) (ContextSelectionError RequiredNodes)) (\<lambda>_.
     bindR (require (int (length edges) \<le> cb_max_edges b) (ContextSelectionError RequiredEdges)) (\<lambda>_.
     bindR (node_costs cost (cg_nodes g) (rt_required r)) (\<lambda>nodes_cost.
     bindR (edge_costs cost edges) (\<lambda>edges_cost.
     bindR (require (nodes_cost + edges_cost \<le> cb_budget_bytes b) (ContextSelectionError RequiredBytes)) (\<lambda>_.
     Inr \<lparr>fl_ids = rt_required r, fl_edges = edges, fl_used = nodes_cost + edges_cost,
       fl_excluded = rt_excluded r, fl_ranking = rt_ranking r\<rparr>))))))"

definition filled :: "estimator \<Rightarrow> context_graph \<Rightarrow> context_query \<Rightarrow> retrieval \<Rightarrow> filling result" where
  "filled cost g q r =
     bindR (required_filling cost g (cq_budget q) r) (\<lambda>f.
     bindR (ranked g (rt_ranking r) (rt_distances r) (rt_scores r) (candidate_ids r - rt_required r)) (\<lambda>order.
     fill cost g (cq_budget q) (rt_eligible r) order f))"

definition selection_of ::
  "estimator \<Rightarrow> string \<Rightarrow> context_graph \<Rightarrow> string \<Rightarrow> context_query \<Rightarrow> retrieval \<Rightarrow> filling \<Rightarrow> context_selection result" where
  "selection_of cost gid g qid q r f =
     (let excluded = exclude_missing (candidate_ids r - fl_ids f) (fl_excluded f);
          ids = sorted_list_of_set (fl_ids f) in
     bindR (mapR (decision cost g (fl_ranking f) (rt_distances r) (rt_scores r)) ids) (\<lambda>decisions.
     bindR (edge_costs cost (fl_edges f)) (\<lambda>edge_cost.
     bindR (require (fl_used f = sum_list (map sd_cost_bytes decisions) + edge_cost)
       (ContextSelectionError BudgetDrift)) (\<lambda>_.
     bindR (mapR (node_at (cg_nodes g)) ids) (\<lambda>nodes.
     bindR (max_sensitivity (map nd_sensitivity nodes)) (\<lambda>sensitivity.
     Inr \<lparr>cs_candidate = cg_candidate g, cs_graph_id = gid, cs_query_id = qid, cs_query = q,
       cs_as_of = cq_as_of q, cs_sensitivity = sensitivity, cs_selected = decisions,
       cs_excluded = map snd (sort_key fst excluded),
       cs_selected_edge_ids = sort (map ed_edge_id (fl_edges f)),
       cs_unresolved_contradiction_ids =
         sort (map ed_edge_id (contradictions (fl_edges f))),
       cs_edge_cost_bytes = edge_cost, cs_used_bytes = fl_used f,
       cs_budget_bytes = cb_budget_bytes (cq_budget q), cs_traversal_truncated = False\<rparr>))))))"

definition select_context ::
  "estimator \<Rightarrow> string \<Rightarrow> context_graph \<Rightarrow> string \<Rightarrow> context_query \<Rightarrow> context_selection result" where
  "select_context cost gid g qid q =
     bindR (require (cq_graph_id q = gid) (ContextSelectionError GraphMismatch)) (\<lambda>_.
     bindR (require (cq_candidate q = cg_candidate g) (ContextSelectionError CandidateMismatch)) (\<lambda>_.
     bindR (retrieve g q) (\<lambda>r.
     bindR (filled cost g q r) (\<lambda>f.
     selection_of cost gid g qid q r f))))"

section \<open>Artifacts\<close>

definition select :: "estimator \<Rightarrow> context_artifact \<Rightarrow> context_artifact \<Rightarrow> context_artifact result" where
  "select cost graph_artifact query_artifact =
     (case (ca_type graph_artifact, ca_value graph_artifact) of
        (CTX_GRAPH, GraphValue g) \<Rightarrow>
          (case (ca_type query_artifact, ca_value query_artifact) of
             (CTX_QUERY, QueryValue q) \<Rightarrow>
               bindR (select_context cost (ca_id graph_artifact) g (ca_id query_artifact) q) (\<lambda>selection.
               context_artifact_from_value CTX_SELECTION (SelectionValue selection))
           | _ \<Rightarrow> Inl (ContextSelectionError QueryNeeded))
      | _ \<Rightarrow> Inl (ContextSelectionError GraphNeeded))"

end
