(* ===== verification/ContextSnapshots.thy ===== *)
theory ContextSnapshots
  imports ContextSelector ContextArtifacts
begin

text \<open>
  \<open>ContextSnapshotService\<close> and \<open>compare_context_snapshots\<close> of \<open>application/context_selection.py\<close>: the
  selected sources are observed again, what failed is left out with its contradictions, and the rest
  becomes the snapshot.
\<close>

section \<open>What is observed\<close>

text \<open>
  The ports of \<open>ports/context.py\<close> are parameters.  A call is given the artifact part on whose behalf it is
  made (or its number), so that two calls may answer differently; the roots are told apart by their
  scope.  An observed source is the selected text and, of its content, the length and the JSON that a
  strict decoder finds in it.
\<close>

record observation =
  ob_selected :: string
  ob_length :: nat
  ob_json :: "json option"

record context_ports =
  po_candidate :: "nat \<Rightarrow> candidate_identity \<Rightarrow> unit result"
  po_observe :: "string \<Rightarrow> root_scope \<Rightarrow> source_locator \<Rightarrow> observation result"
  po_reference :: "string \<Rightarrow> root_scope \<Rightarrow> artifact_reference \<Rightarrow> unit result"
  po_publish :: "string \<Rightarrow> unit result"

definition contract_error :: "py_error \<Rightarrow> bool" where
  "contract_error e = (case e of ContextContractError c \<Rightarrow> True | ContextSelectionError c \<Rightarrow> True
     | ContextCompactionError c \<Rightarrow> True | ContextQualityError c \<Rightarrow> True | ContextIndexError c \<Rightarrow> True | _ \<Rightarrow> False)"

definition source_error :: "py_error \<Rightarrow> bool" where
  "source_error e = (case e of ContextSourceError c \<Rightarrow> True | _ \<Rightarrow> False)"

text \<open>\<open>try\<close> with one handler: an error that it catches becomes a value.\<close>

definition catching :: "(py_error \<Rightarrow> bool) \<Rightarrow> (py_error \<Rightarrow> 'a) \<Rightarrow> 'a result \<Rightarrow> 'a result" where
  "catching handled f r = (case r of Inl e \<Rightarrow> if handled e then Inr (f e) else Inl e | Inr x \<Rightarrow> Inr x)"

definition translating :: "(py_error \<Rightarrow> bool) \<Rightarrow> py_error \<Rightarrow> 'a result \<Rightarrow> 'a result" where
  "translating handled e' r = (case r of Inl e \<Rightarrow> if handled e then Inl e' else Inl e | Inr x \<Rightarrow> Inr x)"

lemma catching_eq_Inr: "catching h f r = Inr x \<longleftrightarrow> r = Inr x \<or> (\<exists>e. r = Inl e \<and> h e \<and> x = f e)"
  by (auto simp: catching_def split: sum.splits if_splits)

lemma translating_eq_Inr [result_simps]: "translating h e' r = Inr x \<longleftrightarrow> r = Inr x"
  by (auto simp: translating_def split: sum.splits if_splits)

definition validate_context_json :: "observation \<Rightarrow> unit result" where
  "validate_context_json ob =
     bindR (require (\<not> ob_length ob > source_bytes) (ContextContractError SizeLimit)) (\<lambda>_.
     (case ob_json ob of
        None \<Rightarrow> Inl (ContextContractError UnsupportedJsonValue)
      | Some j \<Rightarrow> validate_canonical [(j, 0)] 0))"

definition mentions :: "string \<Rightarrow> string \<Rightarrow> bool" where
  "mentions word text = search (starts word) (map lower_char text)"

definition failure_message :: "py_error \<Rightarrow> string" where
  "failure_message e = (case e of ContextSourceError c \<Rightarrow> (case c of Unobservable message \<Rightarrow> message | _ \<Rightarrow> []) | _ \<Rightarrow> [])"

definition source_failure_reason :: "py_error \<Rightarrow> string" where
  "source_failure_reason e = (let message = failure_message e in
     if mentions ''digest'' message then ''digest-mismatch''
     else if mentions ''changed'' message then ''changed''
     else if mentions ''size'' message \<or> mentions ''byte'' message then ''source-byte-limit''
     else ''missing-or-unreadable'')"

section \<open>Observing a node again\<close>

definition content_problem :: "string \<Rightarrow> context_node \<Rightarrow> observation \<Rightarrow> string option result" where
  "content_problem as_of n ob =
     bindR (if fr_kind (nd_freshness n) = IMMUTABLE
       then catching contract_error (\<lambda>_. Some ''invalid-json'') (bindR (validate_context_json ob) (\<lambda>_. Inr None))
       else Inr None) (\<lambda>problem.
     if problem = None \<and> ob_selected ob \<noteq> nd_text n then Inr (Some ''changed'')
     else if problem = None \<and> fr_kind (nd_freshness n) = EXPIRES_AT then
       bindR (within_validity (nd_freshness n) as_of) (\<lambda>valid. Inr (if valid then None else Some ''stale''))
     else Inr problem)"

definition references_problem :: "context_ports \<Rightarrow> context_node \<Rightarrow> string option result" where
  "references_problem ports n = catching source_error (\<lambda>_. Some ''provenance-unavailable'')
     (bindR (mapR (po_reference ports (nd_node_id n) (lo_root_scope (nd_locator n))) (pv_references (nd_provenance n)))
       (\<lambda>_. Inr None))"

definition reobserve :: "context_ports \<Rightarrow> string \<Rightarrow> context_node \<Rightarrow> string option result" where
  "reobserve ports as_of n =
     bindR (catching contract_error (\<lambda>_. Some ''authority-invalid'') (bindR (node_authority n) (\<lambda>_. Inr None))) (\<lambda>problem.
     bindR (if problem = None then
         (case po_observe ports (nd_node_id n) (lo_root_scope (nd_locator n)) (nd_locator n) of
            Inl e \<Rightarrow> if source_error e then Inr (Some (source_failure_reason e)) else Inl e
          | Inr ob \<Rightarrow> content_problem as_of n ob)
       else Inr problem) (\<lambda>problem.
     if problem = None then references_problem ports n else Inr problem))"

fun reobserve_nodes :: "context_ports \<Rightarrow> string \<Rightarrow> string set \<Rightarrow> context_node list \<Rightarrow> (string \<times> string) list \<Rightarrow>
    (string \<times> string) list result" where
  "reobserve_nodes ports as_of required [] failed = Inr failed"
| "reobserve_nodes ports as_of required (n # ns) failed =
     bindR (reobserve ports as_of n) (\<lambda>problem.
     (case problem of
        None \<Rightarrow> reobserve_nodes ports as_of required ns failed
      | Some why \<Rightarrow>
          if nd_node_id n \<in> required then Inl (ContextSelectionError RequiredFailed)
          else reobserve_nodes ports as_of required ns (upsert (nd_node_id n) why failed)))"

text \<open>The components of what failed, none of which may touch a required node.\<close>

fun failed_components :: "context_edge list \<Rightarrow> string set \<Rightarrow> string list \<Rightarrow> string set \<Rightarrow> string set result" where
  "failed_components contra required [] gone = Inr gone"
| "failed_components contra required (i # is) gone =
     (let component = contradiction_closure contra {i} in
      if component \<inter> required \<noteq> {} then Inl (ContextSelectionError RequiredClosureFailed)
      else failed_components contra required is (gone \<union> component))"

definition snapshot_exclusions :: "(string \<times> string) list \<Rightarrow> string set \<Rightarrow> exclusion_decision list \<Rightarrow> exclusions" where
  "snapshot_exclusions failed gone excluded =
     fold (\<lambda>i xs. exclude i (case map_of failed i of None \<Rightarrow> ''contradiction-closure-unavailable'' | Some why \<Rightarrow> why) [] xs)
       (sorted_list_of_set gone) (foldl (\<lambda>xs x. upsert (xd_node_id x) x xs) [] excluded)"

section \<open>Building a snapshot\<close>

text \<open>The part that decides what the snapshot holds, of a graph and a selection that passed the checks.\<close>

record snapshot_parts =
  sp_nodes :: "context_node list"
  sp_edges :: "context_edge list"
  sp_failed :: "(string \<times> string) list"
  sp_gone :: "string set"

definition selected_parts :: "context_graph \<Rightarrow> context_selection \<Rightarrow> (context_node list \<times> context_edge list) result" where
  "selected_parts g s = translating (\<lambda>e. e = KeyError) (ContextSelectionError MissingContent)
     (bindR (mapR (node_at (cg_nodes g)) (map sd_node_id (cs_selected s))) (\<lambda>nodes.
      bindR (mapR (key_at (map_of (rev (map (\<lambda>e. (ed_edge_id e, e)) (cg_edges g))))) (cs_selected_edge_ids s)) (\<lambda>edges.
      Inr (nodes, edges))))"

definition owner_root_rule :: "bool \<Rightarrow> context_node list \<Rightarrow> py_error \<Rightarrow> py_error \<Rightarrow> unit result" where
  "owner_root_rule owner_root nodes needed unused =
     (let owned = list_ex (\<lambda>n. lo_root_scope (nd_locator n) = SCOPE_OWNER) nodes in
      bindR (require (\<not> (owned \<and> \<not> owner_root)) needed) (\<lambda>_. require (\<not> (\<not> owned \<and> owner_root)) unused))"

definition selection_required :: "context_graph \<Rightarrow> context_selection \<Rightarrow> string set" where
  "selection_required g s = set (map nd_node_id (filter nd_required (cg_nodes g))) \<union> set (cq_required_node_ids (cs_query s))"

definition adopted_parts :: "context_ports \<Rightarrow> context_graph \<Rightarrow> context_selection \<Rightarrow> bool \<Rightarrow> snapshot_parts result" where
  "adopted_parts ports g s owner_root =
     bindR (selected_parts g s) (\<lambda>(nodes, edges).
     bindR (owner_root_rule owner_root nodes (ContextSelectionError OwnerRootNeeded) (ContextSelectionError OwnerRootUnused)) (\<lambda>_.
     bindR (reobserve_nodes ports (cs_as_of s) (selection_required g s) nodes []) (\<lambda>failed.
     bindR (failed_components (contradictions edges) (selection_required g s) (sort (map fst failed)) {}) (\<lambda>gone.
     let kept = filter (\<lambda>n. nd_node_id n \<notin> gone) nodes; ids = set (map nd_node_id kept);
         kept_edges = induced_edges edges ids in
     bindR (require (kept \<noteq> []) (ContextSelectionError EmptyContext)) (\<lambda>_.
     bindR (mapR (\<lambda>e. translating source_error (ContextSelectionError EdgeProvenance)
         (mapR (po_reference ports (ed_edge_id e) SCOPE_REPOSITORY) (pv_references (ed_provenance e)))) kept_edges) (\<lambda>_.
     Inr \<lparr>sp_nodes = kept, sp_edges = kept_edges, sp_failed = failed, sp_gone = gone\<rparr>))))))"

definition snapshot_of :: "estimator \<Rightarrow> string \<Rightarrow> context_graph \<Rightarrow> string \<Rightarrow> context_selection \<Rightarrow> snapshot_parts \<Rightarrow>
    context_snapshot result" where
  "snapshot_of cost gid g sid s p =
     bindR (max_sensitivity (map nd_sensitivity (sp_nodes p))) (\<lambda>sensitivity.
     bindR (require (sensitivity \<noteq> SECRET_OR_PROHIBITED) (ContextSelectionError ProhibitedContext)) (\<lambda>_.
     bindR (total_cost cost (map node_content_dict (sp_nodes p))) (\<lambda>node_bytes.
     bindR (edge_costs cost (sp_edges p)) (\<lambda>edge_bytes.
     Inr \<lparr>sn_candidate = cg_candidate g, sn_graph_id = gid, sn_query_id = cs_query_id s, sn_selection_id = sid,
       sn_as_of = cs_as_of s, sn_sensitivity = sensitivity, sn_nodes = sp_nodes p, sn_edges = sp_edges p,
       sn_selected = filter (\<lambda>d. sd_node_id d \<in> set (map nd_node_id (sp_nodes p))) (cs_selected s),
       sn_excluded = map snd (sort_key fst (snapshot_exclusions (sp_failed p) (sp_gone p) (cs_excluded s))),
       sn_unresolved_contradiction_ids = contradiction_ids (sp_edges p),
       sn_context_bytes = node_bytes + edge_bytes, sn_budget_bytes = cs_budget_bytes s\<rparr>))))"

text \<open>An artifact of the declared type, as the \<open>isinstance\<close> tests ask for.\<close>

definition graph_in :: "context_artifact \<Rightarrow> context_graph option" where
  "graph_in a = (if ca_type a = CTX_GRAPH then (case ca_value a of GraphValue g \<Rightarrow> Some g | _ \<Rightarrow> None) else None)"

definition selection_in :: "context_artifact \<Rightarrow> context_selection option" where
  "selection_in a = (if ca_type a = CTX_SELECTION then (case ca_value a of SelectionValue s \<Rightarrow> Some s | _ \<Rightarrow> None) else None)"

definition snapshot_in :: "context_artifact \<Rightarrow> context_snapshot option" where
  "snapshot_in a = (if ca_type a = CTX_SNAPSHOT then (case ca_value a of SnapshotValue s \<Rightarrow> Some s | _ \<Rightarrow> None) else None)"

definition build_snapshot :: "context_ports \<Rightarrow> estimator \<Rightarrow> context_artifact \<Rightarrow> context_artifact \<Rightarrow> bool \<Rightarrow> context_artifact result" where
  "build_snapshot ports cost graph_artifact selection_artifact owner_root =
     (case (graph_in graph_artifact, selection_in selection_artifact) of
        (Some g, Some s) \<Rightarrow>
          bindR (require (cs_graph_id s = ca_id graph_artifact) (ContextSelectionError SnapshotIdentity)) (\<lambda>_.
          bindR (require (cg_candidate g = cs_candidate s) (ContextSelectionError CandidateMismatch)) (\<lambda>_.
          bindR (require (bound_specification (cg_candidate g) (cg_nodes g))
            (ContextSelectionError NoCanonicalSpecification)) (\<lambda>_.
          bindR (po_candidate ports 0 (cg_candidate g)) (\<lambda>_.
          bindR (context_artifact_from_value CTX_QUERY (QueryValue (cs_query s))) (\<lambda>query_artifact.
          bindR (require (ca_id query_artifact = cs_query_id s) (ContextSelectionError QueryIdentity)) (\<lambda>_.
          bindR (select cost graph_artifact query_artifact) (\<lambda>expected.
          bindR (require (expected = selection_artifact) (ContextSelectionError SelectionDiffers)) (\<lambda>_.
          bindR (adopted_parts ports g s owner_root) (\<lambda>p.
          bindR (po_candidate ports 1 (cg_candidate g)) (\<lambda>_.
          bindR (snapshot_of cost (ca_id graph_artifact) g (ca_id selection_artifact) s p) (\<lambda>snapshot.
          bindR (context_artifact_from_value CTX_SNAPSHOT (SnapshotValue snapshot)) (\<lambda>artifact.
          revalidate CTX_SNAPSHOT artifact))))))))))))
      | _ \<Rightarrow> Inl (ContextSelectionError SnapshotInput))"

definition publish_snapshot :: "context_ports \<Rightarrow> estimator \<Rightarrow> bool \<Rightarrow> context_artifact \<Rightarrow> context_artifact \<Rightarrow> bool \<Rightarrow>
    context_artifact result" where
  "publish_snapshot ports cost publisher graph_artifact selection_artifact owner_root =
     bindR (require publisher (ContextSelectionError PublisherUnavailable)) (\<lambda>_.
     bindR (build_snapshot ports cost graph_artifact selection_artifact owner_root) (\<lambda>artifact.
     (case ca_value artifact of
        SnapshotValue snapshot \<Rightarrow>
          bindR (po_candidate ports 2 (sn_candidate snapshot)) (\<lambda>_.
          bindR (serialize_context_artifact artifact) (\<lambda>bytes.
          bindR (po_publish ports bytes) (\<lambda>_. Inr artifact)))
      | _ \<Rightarrow> Inl AssertionError)))"

section \<open>Comparing snapshots\<close>

definition compare_context_snapshots :: "context_artifact \<Rightarrow> context_artifact \<Rightarrow> context_snapshot_delta result" where
  "compare_context_snapshots base current =
     (case (snapshot_in base, snapshot_in current) of
        (Some b, Some c) \<Rightarrow>
          (let base_nodes = set (map nd_node_id (sn_nodes b)); current_nodes = set (map nd_node_id (sn_nodes c));
               base_edges = set (map ed_edge_id (sn_edges b)); current_edges = set (map ed_edge_id (sn_edges c)) in
           Inr \<lparr>dl_base_snapshot_id = ca_id base, dl_current_snapshot_id = ca_id current,
             dl_added_node_ids = sorted_list_of_set (current_nodes - base_nodes),
             dl_removed_node_ids = sorted_list_of_set (base_nodes - current_nodes),
             dl_added_edge_ids = sorted_list_of_set (current_edges - base_edges),
             dl_removed_edge_ids = sorted_list_of_set (base_edges - current_edges),
             dl_sensitivity_changed = (sn_sensitivity b \<noteq> sn_sensitivity c),
             dl_candidate_changed = (sn_candidate b \<noteq> sn_candidate c)\<rparr>)
      | _ \<Rightarrow> Inl (ContextSelectionError CompareInput))"

end
