(* ===== verification/ContextIndex.thy ===== *)
theory ContextIndex
  imports ContextSnapshots
begin

text \<open>
  \<open>ContextIndexer\<close> of \<open>application/context_index.py\<close>: every source a manifest declares is checked and
  observed, what cannot be adopted is recorded with a reason, and the rest becomes the graph.
\<close>

section \<open>One source\<close>

definition source_authority :: "context_source \<Rightarrow> unit result" where
  "source_authority s = validate_context_authority (sc_kind s) (sc_locator s) (sc_provenance s) (sc_authority s) (sc_freshness s)"

text \<open>The body of the \<open>try\<close>: authority, provenance, content.\<close>

definition observe_source :: "context_ports \<Rightarrow> context_source \<Rightarrow> observation result" where
  "observe_source ports s = (let root = lo_root_scope (sc_locator s) in
     bindR (source_authority s) (\<lambda>_.
     bindR (mapR (po_reference ports (sc_source_id s) root) (pv_references (sc_provenance s))) (\<lambda>_.
     bindR (po_observe ports (sc_source_id s) root (sc_locator s)) (\<lambda>ob.
     bindR (if fr_kind (sc_freshness s) = IMMUTABLE then validate_context_json ob else Inr ()) (\<lambda>_.
     Inr ob)))))"

text \<open>
  \<open>_source_failure_reason\<close> searches the message.  The messages of \<open>validate_context_authority\<close> name the
  authority, but for the one on self provenance and the one on freshness; the latter and the messages of
  \<open>validate_context_json_bytes\<close> name JSON.
\<close>

definition index_failure_reason :: "py_error \<Rightarrow> string" where
  "index_failure_reason e = (let message = failure_message e in
     if e = ContextContractError BadAuthority \<or> mentions ''authority'' message then ''authority-invalid''
     else if e = ContextContractError NoSelfProvenance \<or> mentions ''provenance'' message then ''provenance-invalid''
     else if contract_error e \<or> mentions ''json'' message then ''invalid-json''
     else if mentions ''digest'' message then ''digest-mismatch''
     else if mentions ''changed'' message then ''changed''
     else if mentions ''size'' message \<or> mentions ''byte'' message then ''source-byte-limit''
     else ''missing-or-unreadable'')"

definition source_exclusion_for :: "context_source \<Rightarrow> string \<Rightarrow> source_exclusion" where
  "source_exclusion_for s why = \<lparr>sx_source_id = sc_source_id s, sx_reason = why, sx_details = []\<rparr>"

definition node_of_source :: "context_source \<Rightarrow> observation \<Rightarrow> context_node result" where
  "node_of_source s ob = (let node = \<lparr>nd_node_id = [], nd_source_id = sc_source_id s, nd_kind = sc_kind s,
       nd_title = sc_title s, nd_text = ob_selected ob, nd_text_sha256 = text_digest (ob_selected ob),
       nd_locator = sc_locator s, nd_provenance = sc_provenance s, nd_authority = sc_authority s,
       nd_freshness = sc_freshness s, nd_sensitivity = sc_sensitivity s, nd_identifiers = sc_identifiers s,
       nd_labels = sc_labels s, nd_required = sc_required s\<rparr> in
     bindR (node_identity (node_content_dict node)) (\<lambda>i. Inr (node\<lparr>nd_node_id := i\<rparr>)))"

section \<open>All sources\<close>

definition total_source_bytes :: nat where
  "total_source_bytes = 8388608"

fun adopt_sources :: "context_ports \<Rightarrow> context_source list \<Rightarrow> nat \<Rightarrow> context_node list \<Rightarrow> source_exclusion list \<Rightarrow>
    (context_node list \<times> source_exclusion list) result" where
  "adopt_sources ports [] sofar nodes exclusions = Inr (nodes, exclusions)"
| "adopt_sources ports (s # ss) sofar nodes exclusions =
     (case observe_source ports s of
        Inl e \<Rightarrow>
          if \<not> (source_error e \<or> contract_error e) then Inl e
          else if sc_required s then Inl (ContextIndexError RequiredSource)
          else adopt_sources ports ss sofar nodes (exclusions @ [source_exclusion_for s (index_failure_reason e)])
      | Inr ob \<Rightarrow>
          if sofar + ob_length ob > total_source_bytes then
            if sc_required s then Inl (ContextIndexError TotalBytes)
            else adopt_sources ports ss sofar nodes (exclusions @ [source_exclusion_for s ''total-source-byte-limit''])
          else bindR (node_of_source s ob) (\<lambda>n.
            adopt_sources ports ss (sofar + ob_length ob) (nodes @ [n]) exclusions))"

section \<open>Edges\<close>

definition node_by_source :: "context_node list \<Rightarrow> string \<Rightarrow> context_node option" where
  "node_by_source nodes = map_of (rev (map (\<lambda>n. (nd_source_id n, n)) nodes))"

definition relationship_name :: "context_relationship \<Rightarrow> string" where
  "relationship_name r = edge_type_value (rl_edge_type r) @ rl_source_id r @ rl_target_id r"

definition edge_of_relationship :: "context_relationship \<Rightarrow> string \<Rightarrow> string \<Rightarrow> context_edge result" where
  "edge_of_relationship r source target = (let swapped = (rl_edge_type r = CONTRADICTS \<and> source > target);
       edge = \<lparr>ed_edge_id = [], ed_edge_type = rl_edge_type r,
         ed_source_node_id = (if swapped then target else source),
         ed_target_node_id = (if swapped then source else target), ed_provenance = rl_provenance r\<rparr> in
     bindR (edge_identity (edge_content_dict edge)) (\<lambda>i. Inr (edge\<lparr>ed_edge_id := i\<rparr>)))"

definition index_relationship :: "context_ports \<Rightarrow> context_node list \<Rightarrow> context_relationship \<Rightarrow> context_edge list result" where
  "index_relationship ports nodes r =
     (case (node_by_source nodes (rl_source_id r), node_by_source nodes (rl_target_id r)) of
        (Some source, Some target) \<Rightarrow>
          bindR (translating source_error (ContextIndexError RelationshipProvenance)
            (mapR (po_reference ports (relationship_name r) SCOPE_REPOSITORY) (pv_references (rl_provenance r)))) (\<lambda>_.
          bindR (edge_of_relationship r (nd_node_id source) (nd_node_id target)) (\<lambda>e. Inr [e]))
      | _ \<Rightarrow> Inr [])"

section \<open>The graph\<close>

definition bound_source :: "context_manifest \<Rightarrow> bool" where
  "bound_source m = (case filter (\<lambda>s. sc_authority s = CANONICAL_SPECIFICATION) (cm_sources m) of
     [s] \<Rightarrow> sc_required s \<and> sc_kind s = KIND_SPECIFICATION \<and> lo_root_scope (sc_locator s) = SCOPE_REPOSITORY \<and>
       lo_sha256 (sc_locator s) = source_spec_sha256 (cm_candidate m)
   | _ \<Rightarrow> False)"

definition locator_key :: "context_source \<Rightarrow> string \<times> string \<times> int \<times> int" where
  "locator_key s = (root_scope_value (lo_root_scope (sc_locator s)), lo_path (sc_locator s),
     lo_line_start (sc_locator s), lo_line_end (sc_locator s))"

definition manifest_in :: "context_artifact \<Rightarrow> context_manifest option" where
  "manifest_in a = (if ca_type a = CTX_MANIFEST then (case ca_value a of ManifestValue m \<Rightarrow> Some m | _ \<Rightarrow> None) else None)"

definition index_manifest :: "context_ports \<Rightarrow> string \<Rightarrow> context_manifest \<Rightarrow> bool \<Rightarrow> context_graph result" where
  "index_manifest ports mid m owner_root =
     bindR (po_candidate ports 0 (cm_candidate m)) (\<lambda>_.
     bindR (require (bound_source m) (ContextIndexError NoCanonicalSpecification)) (\<lambda>_.
     let owned = list_ex (\<lambda>s. lo_root_scope (sc_locator s) = SCOPE_OWNER) (cm_sources m) in
     bindR (require (\<not> (owned \<and> \<not> owner_root)) (ContextIndexError OwnerRootNeeded)) (\<lambda>_.
     bindR (require (\<not> (\<not> owned \<and> owner_root)) (ContextIndexError OwnerRootUnused)) (\<lambda>_.
     bindR (require (distinct (map locator_key (cm_sources m))) (ContextIndexError DuplicateLocator)) (\<lambda>_.
     bindR (adopt_sources ports (cm_sources m) 0 [] []) (\<lambda>(adopted, exclusions).
     bindR (require (adopted \<noteq> []) (ContextIndexError EmptyGraph)) (\<lambda>_.
     let nodes = sort_key nd_node_id adopted in
     bindR (mapR (index_relationship ports nodes) (cm_relationships m)) (\<lambda>found.
     let edges = sort_key ed_edge_id (concat found) in
     bindR (require (distinct (map ed_edge_id edges)) (ContextIndexError DuplicateEdges)) (\<lambda>_.
     bindR (po_candidate ports 1 (cm_candidate m)) (\<lambda>_.
     bindR (max_sensitivity (map nd_sensitivity nodes)) (\<lambda>sens.
     Inr \<lparr>cg_candidate = cm_candidate m, cg_manifest_id = mid, cg_sensitivity = sens, cg_nodes = nodes,
       cg_edges = edges, cg_excluded_sources = sort_key sx_source_id exclusions\<rparr>)))))))))))"

definition build_graph :: "context_ports \<Rightarrow> context_artifact \<Rightarrow> bool \<Rightarrow> context_artifact result" where
  "build_graph ports given owner_root = (case manifest_in given of
     None \<Rightarrow> Inl (ContextIndexError ManifestNeeded)
   | Some m \<Rightarrow>
       bindR (index_manifest ports (ca_id given) m owner_root) (\<lambda>g.
       bindR (context_artifact_from_value CTX_GRAPH (GraphValue g)) (\<lambda>a.
       revalidate CTX_GRAPH a)))"

definition publish_graph :: "context_ports \<Rightarrow> bool \<Rightarrow> context_artifact \<Rightarrow> bool \<Rightarrow> context_artifact result" where
  "publish_graph ports publisher given owner_root =
     bindR (require publisher (ContextIndexError PublisherUnavailable)) (\<lambda>_.
     bindR (build_graph ports given owner_root) (\<lambda>a.
     bindR (serialize_context_artifact a) (\<lambda>bytes.
     bindR (po_publish ports bytes) (\<lambda>_. Inr a))))"

end
