(* ===== verification/SelectionFacts.thy ===== *)
theory SelectionFacts
  imports ContextSelector
begin

text \<open>
  What the parts of the selection compute: the contradiction closure as the least closed set, the
  eligible nodes, the candidates, the costs as sums, and the invariant of the greedy filling.
\<close>

section \<open>Contradiction closure\<close>

definition closed_under :: "context_edge list \<Rightarrow> string set \<Rightarrow> bool" where
  "closed_under es S = (\<forall>e \<in> set es. \<not> half_in S e)"

lemma closure_pass_fixed: "closure_pass es C = C \<Longrightarrow> closed_under es C"
proof (induction es arbitrary: C)
  case (Cons e es)
  have "\<not> half_in C e"
  proof
    assume h: "half_in C e"
    then have "C \<union> endpoints e \<subseteq> C" using closure_pass_bounds(1)[of "C \<union> endpoints e" es] Cons.prems by simp
    then show False using h by (auto simp: half_in_def)
  qed
  then show ?case using Cons by (simp add: closed_under_def)
qed (simp add: closed_under_def)

lemma closure_pass_least:
  "closed_under es S \<Longrightarrow> C \<subseteq> S \<Longrightarrow> closure_pass es C \<subseteq> S"
proof (induction es arbitrary: C)
  case (Cons e es)
  have "half_in C e \<Longrightarrow> endpoints e \<subseteq> S" using Cons.prems by (auto simp: closed_under_def half_in_def)
  then show ?case using Cons by (auto simp: closed_under_def)
qed simp

lemma closure_done: "closure_pass es C = C \<Longrightarrow> contradiction_closure es C = C"
  by (simp add: contradiction_closure.simps)

lemma closure_again: "contradiction_closure es (closure_pass es C) = contradiction_closure es C"
  by (cases "closure_pass es C = C") (simp_all add: contradiction_closure.simps[of es C] Let_def)

lemma closure_least_closed: "C \<subseteq> contradiction_closure es C \<and> contradiction_closure es C \<subseteq> C \<union> ends es \<and>
  closed_under es (contradiction_closure es C) \<and>
  (\<forall>S. closed_under es S \<longrightarrow> C \<subseteq> S \<longrightarrow> contradiction_closure es C \<subseteq> S)"
proof (induction es C rule: contradiction_closure.induct)
  case (1 es C)
  note b = closure_pass_bounds[where es = es and closure = C]
  show ?case
  proof (cases "closure_pass es C = C")
    case True
    then show ?thesis using closure_pass_fixed by (simp add: closure_done)
  next
    case False
    note ih = 1[OF refl False, unfolded closure_again]
    have "contradiction_closure es C \<subseteq> S" if "closed_under es S" "C \<subseteq> S" for S
      using ih closure_pass_least[OF that] that(1) by blast
    then show ?thesis using ih b by blast
  qed
qed

lemmas contradiction_closure_facts = closure_least_closed[THEN conjunct1]
  closure_least_closed[THEN conjunct2, THEN conjunct1]
  closure_least_closed[THEN conjunct2, THEN conjunct2, THEN conjunct1]
  closure_least_closed[THEN conjunct2, THEN conjunct2, THEN conjunct2, rule_format]

lemma closed_required_closure:
  "closed_required eligible es C = Inr K \<Longrightarrow> K = contradiction_closure es C \<and> K - C \<subseteq> eligible"
proof (induction eligible es C rule: closed_required.induct)
  case (1 eligible es C)
  obtain c where c: "required_pass eligible es C = Inr c"
    using 1(2) by (cases "required_pass eligible es C") (simp_all add: closed_required.simps)
  note p = required_pass_closure[OF c]
  show ?case
  proof (cases "c = C")
    case True
    then have "K = C" using 1(2) c by (simp add: closed_required.simps)
    then show ?thesis using True p closure_done[of es C] by simp
  next
    case False
    then have "closed_required eligible es c = Inr K" using 1(2) c by (simp add: closed_required.simps[of eligible es C])
    with 1(1)[OF c False] have "K = contradiction_closure es c \<and> K - c \<subseteq> eligible" .
    then show ?thesis using p closure_again[of es C] by auto
  qed
qed

lemma required_pass_error: "required_pass eligible es C = Inl e \<Longrightarrow> e = ContextSelectionError ClosureUnavailable \<and>
    (\<exists>x \<in> closure_pass es C. x \<notin> C \<and> x \<notin> eligible)"
proof (induction eligible es C rule: required_pass.induct)
  case (2 eligible e' es C)
  show ?case
  proof (cases "half_in C e'")
    case True
    then show ?thesis using 2 closure_pass_bounds(1)[of "C \<union> endpoints e'" es] by (auto split: if_splits)
  qed (use 2 in simp)
qed simp

lemma closed_required_error:
  "closed_required eligible es C = Inl e \<Longrightarrow> e = ContextSelectionError ClosureUnavailable \<and>
    \<not> contradiction_closure es C \<subseteq> C \<union> eligible"
proof (induction eligible es C rule: closed_required.induct)
  case (1 eligible es C)
  show ?case
  proof (cases "required_pass eligible es C")
    case (Inl e')
    then have e: "e = ContextSelectionError ClosureUnavailable" and "\<exists>x \<in> closure_pass es C. x \<notin> C \<and> x \<notin> eligible"
      using required_pass_error 1(2) by (auto simp: closed_required.simps)
    moreover have "closure_pass es C \<subseteq> contradiction_closure es C"
      by (rule closure_pass_least[OF contradiction_closure_facts(3,1)])
    ultimately show ?thesis by blast
  next
    case (Inr c)
    note p = required_pass_closure[OF Inr]
    then have ne: "c \<noteq> C" using 1(2) Inr by (auto simp: closed_required.simps)
    then have "closed_required eligible es c = Inl e" using 1(2) Inr by (simp add: closed_required.simps[of eligible es C])
    with 1(1)[OF Inr ne] have "e = ContextSelectionError ClosureUnavailable \<and> \<not> contradiction_closure es c \<subseteq> c \<union> eligible" .
    moreover have "c \<union> eligible = C \<union> eligible"
      using p closure_pass_bounds(1)[of C es] by auto
    ultimately show ?thesis using p closure_again[of es C] by simp
  qed
qed

lemma closed_both_ends:
  assumes "closed_under (contradictions edges) S" and "e \<in> set edges" and "ed_edge_type e = CONTRADICTS"
  shows "ed_source_node_id e \<in> S \<longleftrightarrow> ed_target_node_id e \<in> S"
  using assms by (auto simp: closed_under_def contradictions_def half_in_def endpoints_def)

lemma closed_under_Un:
  assumes "closed_under es S" and "closed_under es T"
  shows "closed_under es (S \<union> T)"
  unfolding closed_under_def
proof
  fix e
  assume e: "e \<in> set es"
  have "\<not> half_in S e" "\<not> half_in T e" using assms e by (auto simp: closed_under_def)
  then show "\<not> half_in (S \<union> T) e" unfolding half_in_def by blast
qed

section \<open>Eligible nodes\<close>

definition eligible_node :: "context_query \<Rightarrow> context_node \<Rightarrow> bool" where
  "eligible_node q n = (eligibility_problem n q = Inr None)"

definition keyed :: "exclusions \<Rightarrow> bool" where
  "keyed xs = (distinct (map fst xs) \<and> (\<forall>p \<in> set xs. xd_node_id (snd p) = fst p))"

lemma exclude_keys [simp]: "fst ` set (exclude i why ds xs) = insert i (fst ` set xs)"
  by (simp add: exclude_def)

lemma exclude_keyed: "keyed xs \<Longrightarrow> keyed (exclude i why ds xs)"
  by (auto simp: keyed_def exclude_def upsert_distinct upsert_members)

lemma classify_nodes_facts:
  "classify_nodes q required ns E X = Inr (E', X') \<Longrightarrow>
    E' = E \<union> nd_node_id ` {n \<in> set ns. eligible_node q n} \<and>
    fst ` set X' = fst ` set X \<union> nd_node_id ` {n \<in> set ns. \<not> eligible_node q n} \<and>
    (\<forall>n \<in> set ns. nd_node_id n \<in> required \<longrightarrow> eligible_node q n) \<and> (keyed X \<longrightarrow> keyed X')"
proof (induction q required ns E X rule: classify_nodes.induct)
  case (2 q required n ns E X)
  obtain problem where p: "eligibility_problem n q = Inr problem" using 2(3) by (auto simp: result_simps)
  show ?case
  proof (cases problem)
    case None
    then have "eligible_node q n" using p by (simp add: eligible_node_def)
    then show ?thesis using 2(1)[OF p None] 2(3) p None by auto
  next
    case (Some why)
    then have ne: "\<not> eligible_node q n" and nr: "nd_node_id n \<notin> required"
      using p 2(3) by (auto simp: eligible_node_def split: if_splits)
    then show ?thesis using 2(2)[OF p Some nr] 2(3) p Some exclude_keyed by auto
  qed
qed simp

end
