(* ===== verification/SelectionCosts.thy ===== *)
theory SelectionCosts
  imports SelectionFacts
begin

text \<open>
  Costs as sums: what the estimator adds up over a set of nodes and its induced edges, and the
  increment of a step of the filling.
\<close>

definition node_value :: "estimator \<Rightarrow> context_node list \<Rightarrow> string \<Rightarrow> int" where
  "node_value cost nodes i = projr (cost (node_content_dict (the (node_index nodes i))))"

definition edge_value :: "estimator \<Rightarrow> context_edge \<Rightarrow> int" where
  "edge_value cost e = projr (cost (edge_content_dict e))"

definition context_cost :: "estimator \<Rightarrow> context_graph \<Rightarrow> string set \<Rightarrow> int" where
  "context_cost cost g ids = (\<Sum>i \<in> ids. node_value cost (cg_nodes g) i) +
     (\<Sum>e \<leftarrow> induced_edges (cg_edges g) ids. edge_value cost e)"

lemma total_cost_value:
  assumes "total_cost cost js = Inr x"
  shows "x = (\<Sum>j \<leftarrow> js. projr (cost j))" "\<forall>j \<in> set js. \<exists>c. cost j = Inr c"
proof -
  obtain cs where "mapR cost js = Inr cs" "x = sum_list cs" using assms by (auto simp: total_cost_def result_simps)
  then have cs: "list_all2 (\<lambda>j c. cost j = Inr c) js cs" by (simp add: mapR_eq_Inr)
  have "cs = map (\<lambda>j. projr (cost j)) js" using cs by (induction rule: list_all2_induct) auto
  then show "x = (\<Sum>j \<leftarrow> js. projr (cost j))" using \<open>x = sum_list cs\<close> by simp
  show "\<forall>j \<in> set js. \<exists>c. cost j = Inr c" using cs list_all2_set1 by fastforce
qed

lemma index_at: "distinct (map f xs) \<Longrightarrow> x \<in> set xs \<Longrightarrow> map_of (rev (map (\<lambda>x. (f x, x)) xs)) (f x) = Some x"
  by (rule map_of_is_SomeI) (auto simp: comp_def rev_map[symmetric])

lemma key_at_iff: "key_at m i = Inr x \<longleftrightarrow> m i = Some x"
  by (simp add: key_at_def split: option.splits)

lemma node_at_iff: "node_at nodes i = Inr n \<longleftrightarrow> node_index nodes i = Some n"
  by (simp add: node_at_def split: option.splits)

lemma node_index_in: "node_index nodes i = Some n \<Longrightarrow> n \<in> set nodes \<and> nd_node_id n = i"
  unfolding node_index_def by (drule map_of_SomeD) auto

lemma node_index_dom: "node_index nodes i = None \<longleftrightarrow> i \<notin> nd_node_id ` set nodes"
  by (force simp: node_index_def map_of_eq_None_iff)

lemma node_index_unique:
  "distinct (map nd_node_id nodes) \<Longrightarrow> n \<in> set nodes \<Longrightarrow> node_index nodes (nd_node_id n) = Some n"
  by (simp add: node_index_def index_at)

lemma node_costs_value:
  assumes "node_costs cost nodes S = Inr x" and "finite S"
  shows "x = (\<Sum>i \<in> S. node_value cost nodes i)" "S \<subseteq> nd_node_id ` set nodes"
proof -
  obtain ns where ns: "mapR (node_at nodes) (sorted_list_of_set S) = Inr ns" "total_cost cost (map node_content_dict ns) = Inr x"
    using assms by (auto simp: node_costs_def result_simps)
  then have all: "list_all2 (\<lambda>i n. node_index nodes i = Some n) (sorted_list_of_set S) ns"
    by (simp add: mapR_eq_Inr node_at_iff)
  then have "ns = map (\<lambda>i. the (node_index nodes i)) (sorted_list_of_set S)" by (induction rule: list_all2_induct) auto
  then have "x = (\<Sum>i \<leftarrow> sorted_list_of_set S. node_value cost nodes i)"
    using total_cost_value(1)[OF ns(2)] by (simp add: node_value_def comp_def)
  then show "x = (\<Sum>i \<in> S. node_value cost nodes i)" using assms(2) by (simp add: sum_list_distinct_conv_sum_set)
  show "S \<subseteq> nd_node_id ` set nodes"
  proof
    fix i
    assume "i \<in> S"
    then have "\<exists>n. node_index nodes i = Some n" using list_all2_set1[OF all] assms(2) by auto
    then show "i \<in> nd_node_id ` set nodes" using node_index_in by blast
  qed
qed

lemma edge_costs_value: "edge_costs cost es = Inr x \<Longrightarrow> x = (\<Sum>e \<leftarrow> es. edge_value cost e)"
  using total_cost_value(1)[of cost "map edge_content_dict es" x] by (simp add: edge_costs_def edge_value_def comp_def)

lemma induced_set: "set (induced_edges edges S) = {e \<in> set edges. endpoints e \<subseteq> S}"
  by (auto simp: induced_edges_def endpoints_def)

lemma key_at_list:
  assumes "mapR (key_at m) ks = Inr xs"
  shows "xs = map (the \<circ> m) ks" "set ks \<subseteq> dom m"
proof -
  have all: "list_all2 (\<lambda>k x. m k = Some x) ks xs"
    using assms by (simp add: mapR_eq_Inr key_at_iff)
  show "xs = map (the \<circ> m) ks" using all by (induction rule: list_all2_induct) auto
  show "set ks \<subseteq> dom m" using list_all2_set1[OF all] by auto
qed

text \<open>The edges that come with a larger set of nodes, found by their identifiers.\<close>

lemma new_edges_value:
  fixes f :: "context_edge \<Rightarrow> int"
  assumes d: "distinct (map ed_edge_id edges)" and sub: "S \<subseteq> T"
    and m: "m = map_of (rev (map (\<lambda>e. (ed_edge_id e, e)) (induced_edges edges T)))"
    and new: "new_ids = set (map ed_edge_id (induced_edges edges T)) - set (map ed_edge_id (induced_edges edges S))"
    and es: "mapR (key_at m) (sorted_list_of_set new_ids) = Inr es"
  shows "(\<Sum>e \<leftarrow> induced_edges edges T. f e) = (\<Sum>e \<leftarrow> induced_edges edges S. f e) + (\<Sum>e \<leftarrow> es. f e)"
proof -
  let ?I = "\<lambda>S. set (induced_edges edges S)"
  have dist: "distinct (induced_edges edges S)" for S
    using d by (auto simp: induced_edges_def distinct_map)
  have inj: "inj_on ed_edge_id (set edges)" using d by (simp add: distinct_map)
  have sets: "?I S \<subseteq> ?I T" "?I T \<subseteq> set edges" using sub by (auto simp: induced_set)
  have ids: "new_ids = ed_edge_id ` (?I T - ?I S)"
    unfolding new set_map by (rule inj_on_image_set_diff[OF inj, symmetric]) (use sets in auto)
  have keys: "m (ed_edge_id e) = Some e" if "e \<in> ?I T" for e
  proof -
    have "distinct (map ed_edge_id (induced_edges edges T))"
      using dist inj sets by (auto simp: distinct_map intro: inj_on_subset)
    then show ?thesis unfolding m using that by (rule index_at)
  qed
  have "(\<Sum>e \<leftarrow> es. f e) = (\<Sum>i \<leftarrow> sorted_list_of_set new_ids. f (the (m i)))"
    using key_at_list(1)[OF es] by (simp add: comp_def)
  also have "\<dots> = (\<Sum>i \<in> new_ids. f (the (m i)))" by (simp add: new sum_list_distinct_conv_sum_set)
  also have "\<dots> = (\<Sum>e \<in> ?I T - ?I S. f (the (m (ed_edge_id e))))"
    unfolding ids by (rule sum.reindex[unfolded comp_def]) (use inj sets in \<open>auto intro: inj_on_subset\<close>)
  also have "\<dots> = (\<Sum>e \<in> ?I T - ?I S. f e)" using keys by (auto intro: sum.cong)
  finally have "(\<Sum>e \<leftarrow> es. f e) = (\<Sum>e \<in> ?I T - ?I S. f e)" .
  moreover have "(\<Sum>e \<in> ?I T. f e) = (\<Sum>e \<in> ?I S. f e) + (\<Sum>e \<in> ?I T - ?I S. f e)"
    using sets(1) by (metis List.finite_set add.commute sum.subset_diff)
  ultimately show ?thesis using dist by (simp add: sum_list_distinct_conv_sum_set)
qed

lemma context_cost_step:
  assumes d: "distinct (map ed_edge_id (cg_edges g))" and fin: "finite S" "finite A" and dis: "A \<inter> S = {}"
    and nodes: "node_costs cost (cg_nodes g) A = Inr x"
    and m: "m = map_of (rev (map (\<lambda>e. (ed_edge_id e, e)) (induced_edges (cg_edges g) (S \<union> A))))"
    and es: "mapR (key_at m) (sorted_list_of_set (set (map ed_edge_id (induced_edges (cg_edges g) (S \<union> A))) -
       set (map ed_edge_id (induced_edges (cg_edges g) S)))) = Inr es"
    and edges: "edge_costs cost es = Inr y"
  shows "context_cost cost g (S \<union> A) = context_cost cost g S + (x + y)"
proof -
  have "(\<Sum>i \<in> S \<union> A. node_value cost (cg_nodes g) i) =
      (\<Sum>i \<in> S. node_value cost (cg_nodes g) i) + (\<Sum>i \<in> A. node_value cost (cg_nodes g) i)"
    by (rule sum.union_disjoint) (use fin dis in auto)
  then show ?thesis
    using new_edges_value[OF d _ m refl es, where f = "edge_value cost"] node_costs_value(1)[OF nodes fin(2)]
      edge_costs_value[OF edges] by (simp add: context_cost_def)
qed

end
