(* ===== verification/SelectionFilling.thy ===== *)
theory SelectionFilling
  imports SelectionCosts
begin

text \<open>
  The two halves of a selection: what the retrieval returns, and the invariant that the greedy
  filling keeps from the required part to the last candidate.
\<close>

section \<open>Candidates\<close>

definition phase_keys :: "ranking \<Rightarrow> string set" where
  "phase_keys r = fst ` set (rk_phases r)"

lemma candidate_keys: "candidate_ids r = phase_keys (rt_ranking r)"
  by (simp add: candidate_ids_def phase_keys_def)

lemma retrieved_keys [simp]: "phase_keys (retrieved p why i r) = insert i (phase_keys r)"
  by (simp add: retrieved_def phase_keys_def)

lemma fold_keys:
  assumes "\<And>x r. phase_keys (step x r) = (if P x then insert (key x) (phase_keys r) else phase_keys r)"
  shows "phase_keys (fold step xs r) = phase_keys r \<union> key ` {x \<in> set xs. P x}"
  by (induction xs arbitrary: r) (auto simp: assms)

lemma required_keys [simp]: "finite required \<Longrightarrow> phase_keys (required_ranking required direct) = required"
  by (simp add: required_ranking_def phase_keys_def image_comp comp_def)

lemma graph_keys: "phase_keys (graph_ranking eligible required distances r) =
    phase_keys r \<union> {i \<in> fst ` set distances. i \<in> eligible \<and> i \<notin> required}"
  unfolding graph_ranking_def by (subst fold_keys[where P = "\<lambda>i. i \<in> eligible \<and> i \<notin> required" and key = id]) auto

lemma identifier_keys: "phase_keys (identifier_ranking q eligible nodes r) = phase_keys r \<union>
    nd_node_id ` {n \<in> set nodes. nd_node_id n \<in> eligible \<and> set (cq_identifiers q) \<inter> set (nd_identifiers n) \<noteq> {}}"
  unfolding identifier_ranking_def by (rule fold_keys) simp

lemma lexical_keys: "phase_keys (lexical_ranking tokens eligible nodes r) = phase_keys r \<union>
    nd_node_id ` {n \<in> set nodes. nd_node_id n \<in> eligible \<and> lexical_score n tokens > 0}"
  unfolding lexical_ranking_def by (rule fold_keys) simp

section \<open>Exclusions\<close>

lemma exclude_all_facts:
  "finite ids \<Longrightarrow> fst ` set (exclude_all why ids xs) = ids \<union> fst ` set xs"
  "keyed xs \<Longrightarrow> keyed (exclude_all why ids xs)"
proof -
  have "fst ` set (fold (\<lambda>i. exclude i why []) is xs) = set is \<union> fst ` set xs \<and>
      (keyed xs \<longrightarrow> keyed (fold (\<lambda>i. exclude i why []) is xs))" for "is"
    by (induction "is" arbitrary: xs) (auto intro: exclude_keyed)
  then show "finite ids \<Longrightarrow> fst ` set (exclude_all why ids xs) = ids \<union> fst ` set xs"
    "keyed xs \<Longrightarrow> keyed (exclude_all why ids xs)" by (simp_all add: exclude_all_def)
qed

lemma exclude_missing_facts:
  "finite ids \<Longrightarrow> fst ` set (exclude_missing ids xs) = ids \<union> fst ` set xs"
  "keyed xs \<Longrightarrow> keyed (exclude_missing ids xs)"
proof -
  let ?f = "\<lambda>i xs. if map_of xs i = None then exclude i ''not-selected'' [] xs else xs"
  have "fst ` set (fold ?f is xs) = set is \<union> fst ` set xs \<and> (keyed xs \<longrightarrow> keyed (fold ?f is xs))" for "is"
    by (induction "is" arbitrary: xs) (auto intro: exclude_keyed simp: map_of_eq_None_iff)
  then show "finite ids \<Longrightarrow> fst ` set (exclude_missing ids xs) = ids \<union> fst ` set xs"
    "keyed xs \<Longrightarrow> keyed (exclude_missing ids xs)" by (simp_all add: exclude_missing_def)
qed

lemma drop_exclusions_facts:
  "fst ` set (drop_exclusions ids xs) = fst ` set xs - ids" "keyed xs \<Longrightarrow> keyed (drop_exclusions ids xs)"
  by (auto simp: drop_exclusions_def keyed_def distinct_map intro: inj_on_subset)

section \<open>The retrieval\<close>

definition eligible_ids :: "context_graph \<Rightarrow> context_query \<Rightarrow> string set" where
  "eligible_ids g q = nd_node_id ` {n \<in> set (cg_nodes g). eligible_node q n}"

definition closed_ids :: "context_graph \<Rightarrow> string set \<Rightarrow> bool" where
  "closed_ids g ids = closed_under (contradictions (cg_edges g)) ids"

text \<open>What the parser of a graph ensures.\<close>

definition sound_graph :: "context_graph \<Rightarrow> bool" where
  "sound_graph g = (distinct (map nd_node_id (cg_nodes g)) \<and> distinct (map ed_edge_id (cg_edges g)) \<and>
     (\<forall>e \<in> set (cg_edges g). endpoints e \<subseteq> graph_ids g))"

lemma retrieve_facts:
  assumes "retrieve g q = Inr r"
  shows "rt_required r = contradiction_closure (contradictions (cg_edges g)) (required_ids g q)"
    "finite (rt_required r)" "rt_eligible r = eligible_ids g q"
    "rt_required r \<subseteq> candidate_ids r" "candidate_ids r \<subseteq> rt_required r \<union> eligible_ids g q"
    "fst ` set (rt_excluded r) = (eligible_ids g q - candidate_ids r) \<union>
       nd_node_id ` {n \<in> set (cg_nodes g). \<not> eligible_node q n}"
    "keyed (rt_excluded r)" "required_ids g q \<subseteq> graph_ids g"
    "\<forall>n \<in> set (cg_nodes g). nd_node_id n \<in> required_ids g q \<longrightarrow> eligible_node q n"
    "rt_required r \<subseteq> required_ids g q \<union> eligible_ids g q"
    "rt_scores r = lexical_scores (query_tokens q) (cg_nodes g)"
proof -
  obtain E X K D where
    m: "(required_ids g q \<union> set (cq_seed_node_ids q)) - graph_ids g = {}"
    and c: "classify_nodes q (required_ids g q) (cg_nodes g) {} [] = Inr (E, X)"
    and k: "closed_required E (contradictions (cg_edges g)) (required_ids g q) = Inr K"
    and d: "traverse g q (K \<union> (set (cq_seed_node_ids q) \<inter> E)) = Inr D"
    and req: "rt_required r = K" "rt_eligible r = E" "rt_scores r = lexical_scores (query_tokens q) (cg_nodes g)"
    and ex: "rt_excluded r = exclude_all ''not-retrieved'' (E - candidate_ids r) X"
    and rk: "rt_ranking r = lexical_ranking (query_tokens q) E (cg_nodes g) (identifier_ranking q E (cg_nodes g)
       (graph_ranking E K D (required_ranking K (required_ids g q))))"
    using assms by (auto simp: retrieve_def Let_def result_simps candidate_ids_def)
  note cf = classify_nodes_facts[OF c] and kf = closed_required_closure[OF k]
  have E: "E = eligible_ids g q" using cf by (auto simp: eligible_ids_def)
  have finE: "finite E" unfolding E by (simp add: eligible_ids_def)
  have fin: "finite (required_ids g q)" by (simp add: required_ids_def)
  then have finK: "finite K" using kf finE by (metis Diff_partition contradiction_closure_facts(1) finite_Un finite_subset)
  have keys: "K \<subseteq> candidate_ids r" "candidate_ids r \<subseteq> K \<union> E"
    using finK by (auto simp: candidate_keys rk lexical_keys identifier_keys graph_keys)
  show "rt_required r = contradiction_closure (contradictions (cg_edges g)) (required_ids g q)" "finite (rt_required r)"
    "rt_eligible r = eligible_ids g q" "rt_required r \<subseteq> candidate_ids r"
    "candidate_ids r \<subseteq> rt_required r \<union> eligible_ids g q" "required_ids g q \<subseteq> graph_ids g"
    "rt_scores r = lexical_scores (query_tokens q) (cg_nodes g)"
    using kf req finK E keys m by auto
  show "rt_required r \<subseteq> required_ids g q \<union> eligible_ids g q" using kf req E by auto
  show "fst ` set (rt_excluded r) = (eligible_ids g q - candidate_ids r) \<union>
       nd_node_id ` {n \<in> set (cg_nodes g). \<not> eligible_node q n}"
    using exclude_all_facts(1)[of "E - candidate_ids r"] finE cf by (simp add: ex E)
  show "keyed (rt_excluded r)" unfolding ex by (rule exclude_all_facts(2)) (use cf in \<open>simp add: keyed_def\<close>)
  show "\<forall>n \<in> set (cg_nodes g). nd_node_id n \<in> required_ids g q \<longrightarrow> eligible_node q n" using cf by simp
qed

lemma ineligible_ids:
  assumes "sound_graph g"
  shows "nd_node_id ` {n \<in> set (cg_nodes g). \<not> eligible_node q n} = graph_ids g - eligible_ids g q"
  using assms by (auto simp: graph_ids_def eligible_ids_def sound_graph_def distinct_map dest: inj_onD)

lemma retrieve_sound:
  assumes "retrieve g q = Inr r" and g: "sound_graph g"
  shows "rt_required r \<subseteq> eligible_ids g q" "closed_ids g (rt_required r)" "required_ids g q \<subseteq> rt_required r"
    "candidate_ids r \<subseteq> eligible_ids g q" "fst ` set (rt_excluded r) = graph_ids g - candidate_ids r"
proof -
  note f = retrieve_facts[OF assms(1)]
  have sub: "required_ids g q \<subseteq> eligible_ids g q" using f(8,9) by (force simp: graph_ids_def eligible_ids_def)
  show 1: "rt_required r \<subseteq> eligible_ids g q" using f(10) sub by blast
  then show 2: "candidate_ids r \<subseteq> eligible_ids g q" using f(5) by blast
  show "closed_ids g (rt_required r)" unfolding f(1) closed_ids_def by (rule contradiction_closure_facts(3))
  show "required_ids g q \<subseteq> rt_required r" unfolding f(1) by (rule contradiction_closure_facts(1))
  have "eligible_ids g q \<subseteq> graph_ids g" by (auto simp: eligible_ids_def graph_ids_def)
  then show "fst ` set (rt_excluded r) = graph_ids g - candidate_ids r"
    unfolding f(6) ineligible_ids[OF g] using 2 by blast
qed

section \<open>The filling\<close>

definition filling_fits :: "estimator \<Rightarrow> context_graph \<Rightarrow> context_query \<Rightarrow> retrieval \<Rightarrow> filling \<Rightarrow> bool" where
  "filling_fits cost g q r f = (finite (fl_ids f) \<and> rt_required r \<subseteq> fl_ids f \<and> fl_ids f \<subseteq> eligible_ids g q \<and>
     closed_ids g (fl_ids f) \<and> fl_edges f = induced_edges (cg_edges g) (fl_ids f) \<and>
     int (card (fl_ids f)) \<le> cb_max_nodes (cq_budget q) \<and> int (length (fl_edges f)) \<le> cb_max_edges (cq_budget q) \<and>
     fl_used f = context_cost cost g (fl_ids f) \<and> fl_used f \<le> cb_budget_bytes (cq_budget q) \<and>
     candidate_ids r \<union> fl_ids f \<subseteq> phase_keys (fl_ranking f) \<and> keyed (fl_excluded f) \<and>
     fst ` set (fl_excluded f) \<inter> fl_ids f = {} \<and>
     fst ` set (fl_excluded f) \<subseteq> graph_ids g \<and>
     graph_ids g - candidate_ids r - fl_ids f \<subseteq> fst ` set (fl_excluded f))"

lemma required_filling_fits:
  assumes "retrieve g q = Inr r" and "sound_graph g" and "required_filling cost g (cq_budget q) r = Inr f"
  shows "filling_fits cost g q r f"
proof -
  note r = retrieve_facts[OF assms(1)] and s = retrieve_sound[OF assms(1,2)]
  obtain x y where v: "node_costs cost (cg_nodes g) (rt_required r) = Inr x"
    "edge_costs cost (induced_edges (cg_edges g) (rt_required r)) = Inr y"
    and b: "int (card (rt_required r)) \<le> cb_max_nodes (cq_budget q)"
      "int (length (induced_edges (cg_edges g) (rt_required r))) \<le> cb_max_edges (cq_budget q)"
      "x + y \<le> cb_budget_bytes (cq_budget q)"
    and f: "f = \<lparr>fl_ids = rt_required r, fl_edges = induced_edges (cg_edges g) (rt_required r), fl_used = x + y,
       fl_excluded = rt_excluded r, fl_ranking = rt_ranking r\<rparr>"
    using assms(3) by (auto simp: required_filling_def Let_def result_simps)
  have "x + y = context_cost cost g (rt_required r)"
    using node_costs_value(1)[OF v(1) r(2)] edge_costs_value[OF v(2)] by (simp add: context_cost_def)
  then show ?thesis using b r(2,4,7) s by (auto simp: filling_fits_def f candidate_keys)
qed

lemma closure_ranking_keys: "finite added \<Longrightarrow> phase_keys (closure_ranking i added r) = phase_keys r \<union> (added - {i})"
proof -
  have "phase_keys (fold (closure_reason i) is r) = phase_keys r \<union> set is" for "is"
    by (induction "is" arbitrary: r) (auto simp: closure_reason_def phase_keys_def)
  then show "finite added \<Longrightarrow> ?thesis" by (simp add: closure_ranking_def)
qed

lemma fill_step_fits:
  assumes fits: "filling_fits cost g q r f" and g: "sound_graph g" and i: "i \<in> candidate_ids r"
    and sub: "candidate_ids r \<subseteq> eligible_ids g q"
    and step: "fill_step cost g (cq_budget q) (eligible_ids g q) i f = Inr f'"
  shows "filling_fits cost g q r f' \<and> fl_ids f \<subseteq> fl_ids f'"
proof -
  have gid: "i \<in> graph_ids g" using i sub by (auto simp: eligible_ids_def graph_ids_def)
  have skip: "filling_fits cost g q r (f\<lparr>fl_excluded := exclude i why ds (fl_excluded f)\<rparr>)" if "i \<notin> fl_ids f" for why ds
    using fits gid that exclude_keyed by (auto simp: filling_fits_def)
  define K where "K = contradiction_closure (contradictions (cg_edges g)) {i}"
  define A where "A = K - fl_ids f"
  define P where "P = induced_edges (cg_edges g) (fl_ids f \<union> A)"
  consider "i \<in> fl_ids f" "f' = f"
    | why ds where "i \<notin> fl_ids f" "f' = f\<lparr>fl_excluded := exclude i why ds (fl_excluded f)\<rparr>"
    | x y es where "i \<notin> fl_ids f" "A \<subseteq> eligible_ids g q" "int (card (fl_ids f \<union> A)) \<le> cb_max_nodes (cq_budget q)"
      "int (length P) \<le> cb_max_edges (cq_budget q)" "node_costs cost (cg_nodes g) A = Inr x"
      "mapR (key_at (map_of (rev (map (\<lambda>e. (ed_edge_id e, e)) P))))
         (sorted_list_of_set (set (map ed_edge_id P) - set (map ed_edge_id (fl_edges f)))) = Inr es"
      "edge_costs cost es = Inr y" "fl_used f + (x + y) \<le> cb_budget_bytes (cq_budget q)"
      "f' = \<lparr>fl_ids = fl_ids f \<union> A, fl_edges = P, fl_used = fl_used f + (x + y),
         fl_excluded = drop_exclusions A (fl_excluded f), fl_ranking = closure_ranking i A (fl_ranking f)\<rparr>"
    using step unfolding fill_step_def Let_def K_def[symmetric] A_def[symmetric] P_def[symmetric]
    by (auto simp: result_simps not_less split: if_splits)
  then show ?thesis
  proof cases
    case (3 x y es)
    have finA: "finite A" using 3(2) by (rule finite_subset) (simp add: eligible_ids_def)
    have fin: "finite (fl_ids f)" and edges: "fl_edges f = induced_edges (cg_edges g) (fl_ids f)"
      using fits by (simp_all add: filling_fits_def)
    have dis: "A \<inter> fl_ids f = {}" by (auto simp: A_def)
    have dist: "distinct (map ed_edge_id (cg_edges g))" using g by (simp add: sound_graph_def)
    have cost: "context_cost cost g (fl_ids f \<union> A) = context_cost cost g (fl_ids f) + (x + y)"
      by (rule context_cost_step[OF dist fin finA dis 3(5) refl 3(6)[unfolded P_def edges] 3(7)])
    have "fl_ids f \<union> A = fl_ids f \<union> K" by (auto simp: A_def)
    then have closed: "closed_ids g (fl_ids f \<union> A)"
      using fits closed_under_Un contradiction_closure_facts(3) by (simp add: filling_fits_def closed_ids_def K_def)
    have ex: "fst ` set (drop_exclusions A (fl_excluded f)) = fst ` set (fl_excluded f) - A"
      by (rule drop_exclusions_facts)
    have keys: "candidate_ids r \<union> (fl_ids f \<union> A) \<subseteq> phase_keys (closure_ranking i A (fl_ranking f))"
      using closure_ranking_keys[OF finA] fits i by (auto simp: filling_fits_def)
    show ?thesis
      using fits 3 fin finA closed cost keys ex drop_exclusions_facts(2)
      by (auto simp: filling_fits_def P_def)
  qed (use fits skip in auto)
qed

lemma fill_fits:
  assumes "sound_graph g" and "candidate_ids r \<subseteq> eligible_ids g q"
  shows "fill cost g (cq_budget q) (eligible_ids g q) is f = Inr f' \<Longrightarrow> set is \<subseteq> candidate_ids r \<Longrightarrow>
    filling_fits cost g q r f \<Longrightarrow> filling_fits cost g q r f' \<and> fl_ids f \<subseteq> fl_ids f'"
proof (induction "is" arbitrary: f)
  case (Cons i "is")
  obtain f1 where f1: "fill_step cost g (cq_budget q) (eligible_ids g q) i f = Inr f1"
    "fill cost g (cq_budget q) (eligible_ids g q) is f1 = Inr f'"
    using Cons.prems(1) by (auto simp: result_simps)
  have "filling_fits cost g q r f1 \<and> fl_ids f \<subseteq> fl_ids f1"
    by (rule fill_step_fits[OF Cons.prems(3) assms(1) _ assms(2) f1(1)]) (use Cons.prems(2) in simp)
  then show ?case using Cons.IH[OF f1(2)] Cons.prems(2) by auto
qed auto

lemma ranked_set:
  assumes "ranked g rk ds scores ids = Inr is" and "finite ids"
  shows "set is = ids"
proof -
  obtain ps where ps: "mapR (\<lambda>i. bindR (rank_of g rk ds scores i) (\<lambda>k. Inr (k, i))) (sorted_list_of_set ids) = Inr ps"
    "is = map snd (sort_key fst ps)" using assms(1) by (auto simp: ranked_def result_simps)
  then have "list_all2 (\<lambda>i p. snd p = i) (sorted_list_of_set ids) ps"
    by (auto simp: mapR_eq_Inr result_simps elim!: list_all2_mono)
  then have "map snd ps = sorted_list_of_set ids" by (induction rule: list_all2_induct) auto
  then have "snd ` set ps = ids" using assms(2) by (metis list.set_map set_sorted_list_of_set)
  then show ?thesis by (simp add: ps(2))
qed

lemma filled_fits:
  assumes r: "retrieve g q = Inr r" and g: "sound_graph g" and "filled cost g q r = Inr f"
  shows "filling_fits cost g q r f"
proof -
  note rf = retrieve_facts[OF r] and rs = retrieve_sound[OF r g]
  obtain f0 order where f0: "required_filling cost g (cq_budget q) r = Inr f0"
    and order: "ranked g (rt_ranking r) (rt_distances r) (rt_scores r) (candidate_ids r - rt_required r) = Inr order"
    and f: "fill cost g (cq_budget q) (eligible_ids g q) order f0 = Inr f"
    using assms(3) rf(3) by (auto simp: filled_def result_simps)
  have "set order = candidate_ids r - rt_required r"
    by (rule ranked_set[OF order]) (simp add: candidate_ids_def)
  then show ?thesis
    using fill_fits[OF g rs(4) f _ required_filling_fits[OF r g f0]] by auto
qed

end
