(* ===== verification/TraversalDistances.thy ===== *)
theory TraversalDistances
  imports SelectionFilling
begin

text \<open>
  The breadth-first traversal of the graph: when it returns, the distances are the least numbers of
  hops from an origin, and it fails only at one of its three bounds.
\<close>

lemma sorted_constant [simp]: "sorted (map (\<lambda>_. c) xs)"
  by (induction xs) auto

section \<open>Hops\<close>

definition linked_to :: "context_graph \<Rightarrow> context_query \<Rightarrow> string \<Rightarrow> string \<Rightarrow> bool" where
  "linked_to g q i j = (\<exists>e \<in> set (cg_edges g). ed_edge_type e \<in> set (cq_allowed_edge_types q) \<and>
     (ed_source_node_id e = i \<and> ed_target_node_id e = j \<or>
      ed_edge_type e = CONTRADICTS \<and> ed_target_node_id e = i \<and> ed_source_node_id e = j))"

inductive hops :: "context_graph \<Rightarrow> context_query \<Rightarrow> string set \<Rightarrow> nat \<Rightarrow> string \<Rightarrow> bool"
  for g q origins where
  origin: "i \<in> origins \<Longrightarrow> hops g q origins 0 i"
| hop: "hops g q origins n i \<Longrightarrow> linked_to g q i j \<Longrightarrow> hops g q origins (Suc n) j"

lemma neighbors_linked: "snd ` set (neighbors q (cg_edges g) i) = {j. linked_to g q i j}"
proof (intro set_eqI iffI)
  fix j
  assume "j \<in> snd ` set (neighbors q (cg_edges g) i)"
  then obtain e where "(e, j) \<in> set (neighbors q (cg_edges g) i)" by auto
  then show "j \<in> {j. linked_to g q i j}" by (auto simp: neighbors_set linked_to_def)
next
  fix j
  assume "j \<in> {j. linked_to g q i j}"
  then obtain e where "(e, j) \<in> set (neighbors q (cg_edges g) i)" by (auto simp: neighbors_set linked_to_def)
  then show "j \<in> snd ` set (neighbors q (cg_edges g) i)" by force
qed

section \<open>The invariant of the queue\<close>

abbreviation known :: "traversal \<Rightarrow> string \<rightharpoonup> int" where
  "known t \<equiv> map_of (tr_distances t)"

definition traversed :: "context_graph \<Rightarrow> context_query \<Rightarrow> string set \<Rightarrow> traversal \<Rightarrow> bool" where
  "traversed g q origins t = (distinct (map fst (tr_distances t)) \<and> set (tr_queue t) \<subseteq> dom (known t) \<and>
     (\<forall>i d. known t i = Some d \<longrightarrow> 0 \<le> d \<and> hops g q origins (nat d) i) \<and>
     (\<forall>i \<in> origins. known t i = Some 0) \<and>
     (\<forall>i d j. known t i = Some d \<longrightarrow> i \<notin> set (tr_queue t) \<longrightarrow> linked_to g q i j \<longrightarrow>
        (\<exists>d'. known t j = Some d' \<and> d' \<le> d + 1)) \<and>
     sorted (map (the \<circ> known t) (tr_queue t)) \<and>
     (tr_queue t \<noteq> [] \<longrightarrow> (\<forall>i d. known t i = Some d \<longrightarrow> d \<le> the (known t (hd (tr_queue t))) + 1)))"

lemma visit_neighbors_facts:
  "visit_neighbors b d ns t = Inr t' \<Longrightarrow> \<exists>new. tr_distances t' = tr_distances t @ map (\<lambda>j. (j, d + 1)) new \<and>
     tr_queue t' = tr_queue t @ new \<and> distinct new \<and> set new \<inter> fst ` set (tr_distances t) = {} \<and>
     set new \<subseteq> snd ` set ns \<and> snd ` set ns \<subseteq> fst ` set (tr_distances t) \<union> set new"
proof (induction b d ns t rule: visit_neighbors.induct)
  case (2 b d e target ns t)
  let ?t = "t\<lparr>tr_edges := insert (ed_edge_id e) (tr_edges t)\<rparr>"
  show ?case
  proof (cases "known t target = None")
    case True
    let ?u = "?t\<lparr>tr_distances := tr_distances ?t @ [(target, d + 1)], tr_queue := tr_queue ?t @ [target]\<rparr>"
    have rest: "visit_neighbors b d ns ?u = Inr t'" using 2(3) True by (auto simp: Let_def split: if_splits)
    obtain new where new: "tr_distances t' = tr_distances ?u @ map (\<lambda>j. (j, d + 1)) new"
      "tr_queue t' = tr_queue ?u @ new" "distinct new" "set new \<inter> fst ` set (tr_distances ?u) = {}"
      "set new \<subseteq> snd ` set ns" "snd ` set ns \<subseteq> fst ` set (tr_distances ?u) \<union> set new"
      using 2(2)[OF refl _ _ _ rest] 2(3) True by (auto simp: Let_def split: if_splits)
    have "target \<notin> fst ` set (tr_distances t)" using True by (simp add: map_of_eq_None_iff)
    then show ?thesis using new by (intro exI[of _ "target # new"]) auto
  next
    case False
    then have rest: "visit_neighbors b d ns ?t = Inr t'" using 2(3) by (auto simp: Let_def split: if_splits)
    obtain new where new: "tr_distances t' = tr_distances ?t @ map (\<lambda>j. (j, d + 1)) new"
      "tr_queue t' = tr_queue ?t @ new" "distinct new" "set new \<inter> fst ` set (tr_distances ?t) = {}"
      "set new \<subseteq> snd ` set ns" "snd ` set ns \<subseteq> fst ` set (tr_distances ?t) \<union> set new"
      using 2(1)[OF refl _ _ rest] 2(3) False by (auto simp: Let_def split: if_splits)
    have "target \<in> fst ` set (tr_distances t)" using False by (simp add: map_of_eq_None_iff)
    then show ?thesis using new by (intro exI[of _ new]) auto
  qed
qed simp

lemma traversed_step:
  assumes inv: "traversed g q origins t" and q: "tr_queue t = current # queue" and d: "known t current = Some d"
    and ext: "tr_distances t' = tr_distances t @ map (\<lambda>j. (j, d + 1)) new" "tr_queue t' = queue @ new"
    and new: "distinct new" "set new \<inter> fst ` set (tr_distances t) = {}" "set new \<subseteq> {j. linked_to g q current j}"
    and met: "{j. linked_to g q current j} \<subseteq> fst ` set (tr_distances t) \<union> set new"
  shows "traversed g q origins t'"
proof -
  note i = inv[unfolded traversed_def q, simplified]
  have knew: "known t' j = (if j \<in> set new then Some (d + 1) else known t j)" for j
  proof (cases "j \<in> set new")
    case True
    then have "known t j = None" using new(2) by (auto simp: map_of_eq_None_iff)
    moreover have "map_of (map (\<lambda>j. (j, d + 1)) new) j = Some (d + 1)" using True by (simp add: map_of_map_restrict)
    ultimately show ?thesis using True by (simp add: ext map_add_def)
  next
    case False
    then have "map_of (map (\<lambda>j. (j, d + 1)) new) j = None" by (auto simp: map_of_eq_None_iff)
    then show ?thesis using False by (simp add: ext map_add_def split: option.splits)
  qed
  have old: "known t j \<noteq> None \<Longrightarrow> j \<notin> set new" for j using new(2) by (auto simp: map_of_eq_None_iff)
  have upper: "x \<le> d + 1" if "known t j = Some x" for j x using i d that by auto
  have lower: "d \<le> the (known t j)" if "j \<in> set queue" for j using i d that by auto
  have hop: "hops g q origins (nat (d + 1)) j" if "j \<in> set new" for j
  proof -
    have "0 \<le> d" "hops g q origins (nat d) current" using i d by auto
    then show ?thesis using hops.hop that new(3) by (fastforce simp: nat_add_distrib)
  qed
  have qsub: "set queue \<subseteq> dom (known t)" using i by auto
  have vals: "map (the \<circ> known t') (queue @ new) = map (the \<circ> known t) queue @ map (\<lambda>_. d + 1) new"
    using qsub old by (auto simp: knew)
  have sq: "sorted (map (the \<circ> known t) queue)" using i by simp
  have le: "\<forall>j \<in> set queue. the (known t j) \<le> d + 1" using qsub upper by fastforce
  have "sorted (map (the \<circ> known t') (tr_queue t'))"
    unfolding ext(2) vals sorted_append using sq le by simp
  moreover have "set (tr_queue t') \<subseteq> dom (known t')" using qsub by (auto simp: ext(2) knew)
  moreover have "\<exists>d''. known t' j = Some d'' \<and> d'' \<le> d' + 1"
    if k': "known t' k = Some d'" "k \<notin> set (tr_queue t')" "linked_to g q k j" for k d' j
  proof (cases "k = current")
    case True
    have "j \<in> fst ` set (tr_distances t) \<union> set new" using met k'(3) True by auto
    then show ?thesis using d k'(1,2) True upper old[of current] by (auto simp: knew map_of_eq_None_iff dest: weak_map_of_SomeI)
  next
    case False
    then have k: "known t k = Some d'" "k \<notin> set (current # queue)" using False k'(1,2) new(2) by (auto simp: ext(2) knew split: if_splits)
    then obtain d'' where "known t j = Some d''" "d'' \<le> d' + 1" using inv[unfolded traversed_def q] k'(3) by blast
    then show ?thesis using old by (auto simp: knew)
  qed
  moreover have "x \<le> the (known t' (hd (tr_queue t'))) + 1" if "tr_queue t' \<noteq> []" "known t' j = Some x" for j x
  proof -
    have "x \<le> d + 1" using that(2) upper by (auto simp: knew split: if_splits)
    moreover have "d \<le> the (known t' (hd (tr_queue t')))"
      using that(1) lower qsub old by (cases queue) (auto simp: ext(2) knew)
    ultimately show ?thesis by simp
  qed
  moreover have "distinct (map fst (tr_distances t'))" using i new by (auto simp: ext(1) comp_def)
  moreover have "0 \<le> x \<and> hops g q origins (nat x) j" if "known t' j = Some x" for j x
    using that i d hop by (auto simp: knew split: if_splits)
  moreover have "known t' j = Some 0" if "j \<in> origins" for j
  proof -
    have "known t j = Some 0" using inv[unfolded traversed_def] that by blast
    then show ?thesis using old[of j] by (simp add: knew)
  qed
  ultimately show ?thesis unfolding traversed_def by blast
qed

lemma traverse_loop_traversed:
  "traverse_loop q (cg_edges g) t = Inr t' \<Longrightarrow> traversed g q origins t \<Longrightarrow>
    traversed g q origins t' \<and> tr_queue t' = []"
proof (induction q "cg_edges g" t rule: traverse_loop.induct)
  case (1 q t)
  note eq = traverse_loop.simps[of q "cg_edges g" t]
  show ?case
  proof (cases "tr_queue t")
    case (Cons current queue)
    let ?t = "t\<lparr>tr_queue := queue\<rparr>"
    obtain d where d: "known t current = Some d" using 1(4) Cons by (auto simp: traversed_def)
    note nb = neighbors_linked[of q g current]
    show ?thesis
    proof (cases "d \<ge> cb_max_traversal_depth (cq_budget q)")
      case True
      have all: "\<forall>p \<in> set (neighbors q (cg_edges g) current). known t (snd p) \<noteq> None"
        and rest: "traverse_loop q (cg_edges g) ?t = Inr t'"
        using 1(3) Cons d True by (auto simp: eq split: if_splits)
      have "{j. linked_to g q current j} \<subseteq> fst ` set (tr_distances t) \<union> set []"
        using all unfolding nb[symmetric] by (auto simp: map_of_eq_None_iff)
      then have "traversed g q origins ?t"
        by (intro traversed_step[OF 1(4) Cons d, where new = "[]"]) simp_all
      then show ?thesis using 1(1)[OF Cons d True _ rest] all by blast
    next
      case False
      obtain u where u: "visit_neighbors (cq_budget q) d (neighbors q (cg_edges g) current) ?t = Inr u"
        and rest: "traverse_loop q (cg_edges g) u = Inr t'"
        using 1(3) Cons d False by (auto simp: eq split: sum.splits)
      obtain new where new: "tr_distances u = tr_distances ?t @ map (\<lambda>j. (j, d + 1)) new"
        "tr_queue u = tr_queue ?t @ new" "distinct new" "set new \<inter> fst ` set (tr_distances ?t) = {}"
        "set new \<subseteq> snd ` set (neighbors q (cg_edges g) current)"
        "snd ` set (neighbors q (cg_edges g) current) \<subseteq> fst ` set (tr_distances ?t) \<union> set new"
        using visit_neighbors_facts[OF u] by blast
      have "traversed g q origins u"
        by (rule traversed_step[OF 1(4) Cons d _ _ new(3)]) (use new nb in simp_all)
      then show ?thesis using 1(2)[OF Cons d False u rest] by blast
    qed
  qed (use 1 in \<open>simp add: eq\<close>)
qed

lemma traversed_start:
  assumes fin: "finite origins"
  shows "traversed g q origins \<lparr>tr_distances = map (\<lambda>i. (i, 0)) (sorted_list_of_set origins),
     tr_queue = sorted_list_of_set origins, tr_edges = {}\<rparr>"
proof -
  let ?l = "sorted_list_of_set origins"
  have knew: "map_of (map (\<lambda>i. (i, 0 :: int)) ?l) i = (if i \<in> origins then Some 0 else None)" for i
    using fin by (simp add: map_of_map_restrict restrict_map_def)
  have zero: "map (the \<circ> map_of (map (\<lambda>i. (i, 0 :: int)) ?l)) ?l = map (\<lambda>_. 0) ?l"
    using fin by (simp add: knew)
  have first: "?l \<noteq> [] \<Longrightarrow> hd ?l \<in> origins" using fin by (metis hd_in_set set_sorted_list_of_set)
  show ?thesis
    unfolding traversed_def traversal.simps zero using fin first sorted_constant[of "0 :: int" ?l]
    by (auto simp: knew comp_def simp del: sorted_constant intro: hops.origin split: if_splits)
qed

lemma traverse_shortest:
  assumes "traverse g q origins = Inr ds" and "finite origins"
  shows "distinct (map fst ds)"
    "map_of ds i = Some d \<longleftrightarrow> 0 \<le> d \<and> hops g q origins (nat d) i \<and> (\<forall>n. hops g q origins n i \<longrightarrow> nat d \<le> n)"
    "(\<exists>n. hops g q origins n i) \<longleftrightarrow> i \<in> fst ` set ds"
proof -
  obtain t where t: "traverse_loop q (cg_edges g) \<lparr>tr_distances = map (\<lambda>i. (i, 0)) (sorted_list_of_set origins),
     tr_queue = sorted_list_of_set origins, tr_edges = {}\<rparr> = Inr t" and ds: "ds = tr_distances t"
    using assms(1) by (auto simp: traverse_def Let_def result_simps)
  have inv: "traversed g q origins t" and empty: "tr_queue t = []"
    using traverse_loop_traversed[OF t traversed_start[OF assms(2)]] by simp_all
  note i = inv[unfolded traversed_def empty ds[symmetric], simplified]
  have least: "\<exists>d. map_of ds i = Some d \<and> d \<le> int n" if "hops g q origins n i" for n i
    using that
  proof (induction rule: hops.induct)
    case (hop n i j)
    then obtain d where "map_of ds i = Some d" "d \<le> int n" by blast
    then obtain d' where "map_of ds j = Some d'" "d' \<le> d + 1" using i hop(2) by blast
    then show ?case using \<open>d \<le> int n\<close> by auto
  qed (use i in auto)
  have sound: "0 \<le> d \<and> hops g q origins (nat d) i" if "map_of ds i = Some d" for i d using i that by blast
  have dom: "j \<in> fst ` set ds \<longleftrightarrow> (\<exists>d. map_of ds j = Some d)" for j
    using map_of_eq_None_iff[of ds j] by (cases "map_of ds j") auto
  show "distinct (map fst ds)" using i by simp
  show "map_of ds i = Some d \<longleftrightarrow> 0 \<le> d \<and> hops g q origins (nat d) i \<and> (\<forall>n. hops g q origins n i \<longrightarrow> nat d \<le> n)"
  proof
    assume m: "map_of ds i = Some d"
    then show "0 \<le> d \<and> hops g q origins (nat d) i \<and> (\<forall>n. hops g q origins n i \<longrightarrow> nat d \<le> n)"
      using sound least by fastforce
  next
    assume a: "0 \<le> d \<and> hops g q origins (nat d) i \<and> (\<forall>n. hops g q origins n i \<longrightarrow> nat d \<le> n)"
    then obtain x where x: "map_of ds i = Some x" "x \<le> d" using least by fastforce
    then have "0 \<le> x" "nat d \<le> nat x" using sound a by blast+
    then show "map_of ds i = Some d" using x a by (metis eq_nat_nat_iff le_antisym nat_mono)
  qed
  show "(\<exists>n. hops g q origins n i) \<longleftrightarrow> i \<in> fst ` set ds"
    using least sound by (simp only: dom) blast
qed

section \<open>Failures\<close>

lemma visit_neighbors_error:
  "visit_neighbors b d ns t = Inl e \<Longrightarrow> e \<in> ContextSelectionError ` {EdgeBound, NodeBound}"
  by (induction b d ns t rule: visit_neighbors.induct) (auto simp: Let_def split: if_splits)

lemma traverse_loop_error:
  "traverse_loop q (cg_edges g) t = Inl e \<Longrightarrow> traversed g q origins t \<Longrightarrow>
    e \<in> ContextSelectionError ` {DepthBound, EdgeBound, NodeBound}"
proof (induction q "cg_edges g" t rule: traverse_loop.induct)
  case (1 q t)
  note eq = traverse_loop.simps[of q "cg_edges g" t]
  show ?case
  proof (cases "tr_queue t")
    case (Cons current queue)
    let ?t = "t\<lparr>tr_queue := queue\<rparr>"
    obtain d where d: "known t current = Some d" using 1(4) Cons by (auto simp: traversed_def)
    note nb = neighbors_linked[of q g current]
    show ?thesis
    proof (cases "d \<ge> cb_max_traversal_depth (cq_budget q)")
      case True
      show ?thesis
      proof (cases "\<exists>p \<in> set (neighbors q (cg_edges g) current). known t (snd p) = None")
        case False
        then have "{j. linked_to g q current j} \<subseteq> fst ` set (tr_distances t) \<union> set []"
          unfolding nb[symmetric] by (auto simp: map_of_eq_None_iff)
        then have "traversed g q origins ?t"
          by (intro traversed_step[OF 1(4) Cons d, where new = "[]"]) simp_all
        then show ?thesis using 1(1)[OF Cons d True False] 1(3) Cons d True False by (auto simp: eq)
      qed (use 1(3) Cons d True in \<open>auto simp: eq split: if_splits\<close>)
    next
      case False
      show ?thesis
      proof (cases "visit_neighbors (cq_budget q) d (neighbors q (cg_edges g) current) ?t")
        case (Inl e')
        then show ?thesis using 1(3) Cons d False visit_neighbors_error[OF Inl] by (auto simp: eq)
      next
        case (Inr u)
        obtain new where new: "tr_distances u = tr_distances ?t @ map (\<lambda>j. (j, d + 1)) new"
          "tr_queue u = tr_queue ?t @ new" "distinct new" "set new \<inter> fst ` set (tr_distances ?t) = {}"
          "set new \<subseteq> snd ` set (neighbors q (cg_edges g) current)"
          "snd ` set (neighbors q (cg_edges g) current) \<subseteq> fst ` set (tr_distances ?t) \<union> set new"
          using visit_neighbors_facts[OF Inr] by blast
        have "traversed g q origins u"
          by (rule traversed_step[OF 1(4) Cons d _ _ new(3)]) (use new nb in simp_all)
        moreover have "traverse_loop q (cg_edges g) u = Inl e" using 1(3) Cons d False Inr by (simp add: eq)
        ultimately show ?thesis using 1(2)[OF Cons d False Inr] by blast
      qed
    qed
  qed (use 1 in \<open>simp add: eq\<close>)
qed

lemma traverse_error:
  assumes "traverse g q origins = Inl e" and "finite origins"
  shows "e \<in> ContextSelectionError ` {DepthBound, EdgeBound, NodeBound}"
proof -
  have "traverse_loop q (cg_edges g) \<lparr>tr_distances = map (\<lambda>i. (i, 0)) (sorted_list_of_set origins),
     tr_queue = sorted_list_of_set origins, tr_edges = {}\<rparr> = Inl e"
    using assms(1) unfolding traverse_def Let_def bindR_eq_Inl by blast
  then show ?thesis using traversed_start[OF assms(2)] by (rule traverse_loop_error)
qed

end
