(* ===== verification/SelectionOutcomes.thy ===== *)
theory SelectionOutcomes
  imports TraversalDistances
begin

text \<open>
  What a selection promises, how it can fail, and what its graph distances mean.
\<close>

section \<open>The selection as a whole\<close>

definition selected_ids :: "context_selection \<Rightarrow> string set" where
  "selected_ids s = sd_node_id ` set (cs_selected s)"

definition excluded_ids :: "context_selection \<Rightarrow> string set" where
  "excluded_ids s = xd_node_id ` set (cs_excluded s)"

lemma decision_node: "decision cost g r ds scores i = Inr d \<Longrightarrow> sd_node_id d = i"
  by (auto simp: decision_def result_simps node_at_iff dest: node_index_in)

lemma keyed_sorted:
  assumes "keyed xs"
  shows "map xd_node_id (map snd (sort_key fst xs)) = sorted_list_of_set (fst ` set xs)"
proof -
  have "map (xd_node_id \<circ> snd) (sort_key fst xs) = map fst (sort_key fst xs)"
    using assms by (auto simp: keyed_def)
  moreover have "sorted_list_of_set (fst ` set xs) = map fst (sort_key fst xs)"
    by (rule sorted_distinct_set_unique) (use assms in \<open>auto simp: keyed_def distinct_map\<close>)
  ultimately show ?thesis by simp
qed

lemma selection_parts:
  assumes "select_context cost gid g qid q = Inr s"
  obtains r f ns where "retrieve g q = Inr r" "filled cost g q r = Inr f"
    "map sd_node_id (cs_selected s) = sorted_list_of_set (fl_ids f)"
    "cs_excluded s = map snd (sort_key fst (exclude_missing (candidate_ids r - fl_ids f) (fl_excluded f)))"
    "cs_selected_edge_ids s = sort (map ed_edge_id (fl_edges f))" "cs_used_bytes s = fl_used f"
    "fl_used f = (\<Sum>d \<leftarrow> cs_selected s. sd_cost_bytes d) + cs_edge_cost_bytes s"
    "cs_graph_id s = gid" "cs_query_id s = qid" "cs_query s = q" "cs_candidate s = cg_candidate g"
    "cq_graph_id q = gid" "cq_candidate q = cg_candidate g"
    "mapR (node_at (cg_nodes g)) (sorted_list_of_set (fl_ids f)) = Inr ns"
    "max_sensitivity (map nd_sensitivity ns) = Inr (cs_sensitivity s)"
proof -
  obtain r f where rf: "cq_graph_id q = gid" "cq_candidate q = cg_candidate g" "retrieve g q = Inr r"
    "filled cost g q r = Inr f" "selection_of cost gid g qid q r f = Inr s"
    using assms by (auto simp: select_context_def result_simps)
  obtain ds c ns sens where d: "mapR (decision cost g (fl_ranking f) (rt_distances r) (rt_scores r))
      (sorted_list_of_set (fl_ids f)) = Inr ds"
    and u: "fl_used f = sum_list (map sd_cost_bytes ds) + c"
    and ns: "mapR (node_at (cg_nodes g)) (sorted_list_of_set (fl_ids f)) = Inr ns"
      "max_sensitivity (map nd_sensitivity ns) = Inr sens"
    and s: "s = \<lparr>cs_candidate = cg_candidate g, cs_graph_id = gid, cs_query_id = qid, cs_query = q,
       cs_as_of = cq_as_of q, cs_sensitivity = sens, cs_selected = ds,
       cs_excluded = map snd (sort_key fst (exclude_missing (candidate_ids r - fl_ids f) (fl_excluded f))),
       cs_selected_edge_ids = sort (map ed_edge_id (fl_edges f)),
       cs_unresolved_contradiction_ids = sort (map ed_edge_id (contradictions (fl_edges f))),
       cs_edge_cost_bytes = c, cs_used_bytes = fl_used f,
       cs_budget_bytes = cb_budget_bytes (cq_budget q), cs_traversal_truncated = False\<rparr>"
    using rf(5) unfolding selection_of_def Let_def by (auto simp: result_simps)
  have "list_all2 (\<lambda>i d. sd_node_id d = i) (sorted_list_of_set (fl_ids f)) ds"
    using d by (auto simp: mapR_eq_Inr dest: decision_node elim!: list_all2_mono)
  then have "map sd_node_id ds = sorted_list_of_set (fl_ids f)" by (induction rule: list_all2_induct) auto
  then show thesis using that[of r f ns] rf ns u by (simp add: s)
qed

lemma selection_facts:
  assumes s: "select_context cost gid g qid q = Inr s" and g: "sound_graph g"
  shows "required_ids g q \<subseteq> selected_ids s" "selected_ids s \<subseteq> eligible_ids g q" "closed_ids g (selected_ids s)"
    "sorted_wrt (<) (map sd_node_id (cs_selected s))" "sorted_wrt (<) (map xd_node_id (cs_excluded s))"
    "excluded_ids s = graph_ids g - selected_ids s"
    "cs_selected_edge_ids s = sort (map ed_edge_id (induced_edges (cg_edges g) (selected_ids s)))"
    "cs_used_bytes s = context_cost cost g (selected_ids s)"
    "cs_used_bytes s = (\<Sum>d \<leftarrow> cs_selected s. sd_cost_bytes d) + cs_edge_cost_bytes s"
    "cs_used_bytes s \<le> cb_budget_bytes (cq_budget q)"
    "int (length (cs_selected s)) \<le> cb_max_nodes (cq_budget q)"
    "int (length (cs_selected_edge_ids s)) \<le> cb_max_edges (cq_budget q)"
proof -
  obtain r f ns where r: "retrieve g q = Inr r" and f: "filled cost g q r = Inr f"
    and sel: "map sd_node_id (cs_selected s) = sorted_list_of_set (fl_ids f)"
    and exc: "cs_excluded s = map snd (sort_key fst (exclude_missing (candidate_ids r - fl_ids f) (fl_excluded f)))"
    and eds: "cs_selected_edge_ids s = sort (map ed_edge_id (fl_edges f))" and used: "cs_used_bytes s = fl_used f"
    and drift: "fl_used f = (\<Sum>d \<leftarrow> cs_selected s. sd_cost_bytes d) + cs_edge_cost_bytes s"
    and "cs_graph_id s = gid" "cs_query_id s = qid" "cs_query s = q" "cs_candidate s = cg_candidate g"
      "cq_graph_id q = gid" "cq_candidate q = cg_candidate g"
      "mapR (node_at (cg_nodes g)) (sorted_list_of_set (fl_ids f)) = Inr ns"
      "max_sensitivity (map nd_sensitivity ns) = Inr (cs_sensitivity s)"
    by (rule selection_parts[OF s])
  note fits = filled_fits[OF r g f, unfolded filling_fits_def] and rs = retrieve_sound[OF r g]
  have fin: "finite (fl_ids f)" using fits by blast
  have "set (map sd_node_id (cs_selected s)) = fl_ids f" unfolding sel using fin by simp
  then have ids: "selected_ids s = fl_ids f" by (simp add: selected_ids_def)
  have "length (map sd_node_id (cs_selected s)) = card (fl_ids f)" unfolding sel by simp
  then have len: "length (cs_selected s) = card (fl_ids f)" by simp
  let ?X = "exclude_missing (candidate_ids r - fl_ids f) (fl_excluded f)"
  have finc: "finite (candidate_ids r - fl_ids f)" by (simp add: candidate_ids_def)
  have keyed: "keyed ?X" by (rule exclude_missing_facts(2)) (use fits in simp)
  have keys: "map xd_node_id (cs_excluded s) = sorted_list_of_set (fst ` set ?X)" unfolding exc by (rule keyed_sorted[OF keyed])
  have elig: "eligible_ids g q \<subseteq> graph_ids g" by (auto simp: eligible_ids_def graph_ids_def)
  have x: "fst ` set ?X = (candidate_ids r - fl_ids f) \<union> fst ` set (fl_excluded f)"
    by (rule exclude_missing_facts(1)[OF finc])
  have "set (map xd_node_id (cs_excluded s)) = fst ` set ?X" unfolding keys by simp
  then have e: "excluded_ids s = (candidate_ids r - fl_ids f) \<union> fst ` set (fl_excluded f)"
    unfolding excluded_ids_def set_map x .
  have b: "fst ` set (fl_excluded f) \<inter> fl_ids f = {}" "fst ` set (fl_excluded f) \<subseteq> graph_ids g"
    "graph_ids g - candidate_ids r - fl_ids f \<subseteq> fst ` set (fl_excluded f)" using fits by simp_all
  have c: "candidate_ids r \<subseteq> graph_ids g" using rs(4) elig by (rule subset_trans)
  have "C - F \<union> X = G - F" if "X \<inter> F = {}" "X \<subseteq> G" "G - C - F \<subseteq> X" "C \<subseteq> G" for C F X G :: "string set"
    using that by blast
  from this[OF b c] show "excluded_ids s = graph_ids g - selected_ids s" unfolding e ids .
  show "sorted_wrt (<) (map sd_node_id (cs_selected s))" "sorted_wrt (<) (map xd_node_id (cs_excluded s))"
    unfolding sel keys by simp_all
  show "required_ids g q \<subseteq> selected_ids s" "selected_ids s \<subseteq> eligible_ids g q" "closed_ids g (selected_ids s)"
    using fits rs(3) ids by auto
  have fe: "fl_edges f = induced_edges (cg_edges g) (fl_ids f)"
    and fb: "int (length (fl_edges f)) \<le> cb_max_edges (cq_budget q)" using fits by blast+
  show "cs_selected_edge_ids s = sort (map ed_edge_id (induced_edges (cg_edges g) (selected_ids s)))"
    "int (length (cs_selected_edge_ids s)) \<le> cb_max_edges (cq_budget q)"
    using fe fb by (simp_all add: eds ids)
  show "cs_used_bytes s = context_cost cost g (selected_ids s)"
    "cs_used_bytes s = (\<Sum>d \<leftarrow> cs_selected s. sd_cost_bytes d) + cs_edge_cost_bytes s"
    "cs_used_bytes s \<le> cb_budget_bytes (cq_budget q)"
    "int (length (cs_selected s)) \<le> cb_max_nodes (cq_budget q)"
    using fits ids used drift len by simp_all
qed

section \<open>When it fails\<close>

text \<open>What the accounting needs of an estimator: it prices every node and edge of the graph.\<close>

definition priced :: "estimator \<Rightarrow> context_graph \<Rightarrow> bool" where
  "priced cost g = ((\<forall>n \<in> set (cg_nodes g). \<exists>c. cost (node_content_dict n) = Inr c) \<and>
     (\<forall>e \<in> set (cg_edges g). \<exists>c. cost (edge_content_dict e) = Inr c))"

lemma edge_costs_ok: "priced cost g \<Longrightarrow> set es \<subseteq> set (cg_edges g) \<Longrightarrow> \<exists>x. edge_costs cost es = Inr x"
  using mapR_ok[of cost "map edge_content_dict es"] by (auto simp: edge_costs_def total_cost_def priced_def)

lemma node_at_ok: "i \<in> graph_ids g \<Longrightarrow> \<exists>n. node_at (cg_nodes g) i = Inr n"
  using node_index_dom[of "cg_nodes g" i] by (cases "node_index (cg_nodes g) i") (auto simp: node_at_def graph_ids_def)

lemma node_costs_ok:
  assumes "priced cost g" and "ids \<subseteq> graph_ids g" and "finite ids"
  shows "\<exists>x. node_costs cost (cg_nodes g) ids = Inr x"
proof -
  have "\<exists>ns. mapR (node_at (cg_nodes g)) (sorted_list_of_set ids) = Inr ns"
    unfolding mapR_ok using assms node_at_ok by auto
  then obtain ns where ns: "mapR (node_at (cg_nodes g)) (sorted_list_of_set ids) = Inr ns" ..
  then have "list_all2 (\<lambda>i n. node_index (cg_nodes g) i = Some n) (sorted_list_of_set ids) ns"
    by (simp add: mapR_eq_Inr node_at_iff)
  then have "set ns \<subseteq> set (cg_nodes g)" by (induction rule: list_all2_induct) (auto dest: node_index_in)
  then have "\<exists>cs. mapR cost (map node_content_dict ns) = Inr cs"
    unfolding mapR_ok using assms(1) by (auto simp: priced_def)
  then show ?thesis using ns by (auto simp: node_costs_def total_cost_def)
qed

lemma lexical_scores_ok: "i \<in> graph_ids g \<Longrightarrow> \<exists>x. key_at (lexical_scores tokens (cg_nodes g)) i = Inr x"
proof -
  assume "i \<in> graph_ids g"
  then have "i \<in> fst ` set (rev (map (\<lambda>n. (nd_node_id n, lexical_score n tokens)) (cg_nodes g)))"
    by (auto simp: graph_ids_def image_image)
  then have "lexical_scores tokens (cg_nodes g) i \<noteq> None"
    unfolding lexical_scores_def map_of_eq_None_iff by simp
  then show ?thesis by (auto simp: key_at_def)
qed

lemma phase_ok: "i \<in> phase_keys r \<Longrightarrow> \<exists>x. key_at (map_of (rk_phases r)) i = Inr x"
  using map_of_eq_None_iff[of "rk_phases r" i] by (cases "map_of (rk_phases r) i") (auto simp: key_at_def phase_keys_def)

lemma classify_nodes_error:
  "classify_nodes q required ns E X = Inl e \<Longrightarrow> \<forall>n \<in> set ns. \<exists>p. eligibility_problem n q = Inr p \<Longrightarrow>
    e = ContextSelectionError RequiredUnavailable"
proof (induction q required ns E X rule: classify_nodes.induct)
  case (2 q required n ns E X)
  obtain p where p: "eligibility_problem n q = Inr p" using 2(4) by auto
  show ?case
  proof (cases p)
    case None
    then show ?thesis using 2(1)[OF p None] 2(3,4) p by simp
  next
    case (Some why)
    then show ?thesis using 2(2)[OF p Some] 2(3,4) p by (auto split: if_splits)
  qed
qed simp

lemma retrieve_error:
  assumes "retrieve g q = Inl e" and times: "\<forall>n \<in> set (cg_nodes g). \<exists>p. eligibility_problem n q = Inr p"
  shows "e \<in> ContextSelectionError ` {MissingNode, RequiredUnavailable, ClosureUnavailable, DepthBound, EdgeBound, NodeBound}"
proof -
  let ?K = "closed_required" and ?c = "contradictions (cg_edges g)"
  consider "e = ContextSelectionError MissingNode"
    | "classify_nodes q (required_ids g q) (cg_nodes g) {} [] = Inl e"
    | E X where "classify_nodes q (required_ids g q) (cg_nodes g) {} [] = Inr (E, X)"
      "?K E ?c (required_ids g q) = Inl e"
    | E X K where "classify_nodes q (required_ids g q) (cg_nodes g) {} [] = Inr (E, X)"
      "?K E ?c (required_ids g q) = Inr K" "traverse g q (K \<union> (set (cq_seed_node_ids q) \<inter> E)) = Inl e"
    using assms(1) unfolding retrieve_def Let_def bindR_eq_Inl require_def
    by (auto split: if_splits prod.splits simp: bindR_eq_Inl)
  then show ?thesis
  proof cases
    case 2
    then show ?thesis using classify_nodes_error[OF 2 times] by simp
  next
    case (3 E X)
    then show ?thesis using closed_required_error[OF 3(2)] by simp
  next
    case (4 E X K)
    have "finite (required_ids g q)" by (simp add: required_ids_def)
    moreover have "finite E" using classify_nodes_facts[OF 4(1)] by simp
    ultimately have "finite K" using closed_required_closure[OF 4(2)]
      by (metis Diff_partition contradiction_closure_facts(1) finite_Un finite_subset)
    then show ?thesis using traverse_error[OF 4(3)] by auto
  qed simp
qed

lemma required_filling_error:
  assumes "retrieve g q = Inr r" and g: "sound_graph g" and cost: "priced cost g"
    and err: "required_filling cost g b r = Inl e"
  shows "e \<in> ContextSelectionError ` {RequiredNodes, RequiredEdges, RequiredBytes}"
proof -
  note r = retrieve_facts[OF assms(1)] and s = retrieve_sound[OF assms(1) g]
  have "rt_required r \<subseteq> graph_ids g" using s(1) by (auto simp: eligible_ids_def graph_ids_def)
  then obtain x y where "node_costs cost (cg_nodes g) (rt_required r) = Inr x"
    "edge_costs cost (induced_edges (cg_edges g) (rt_required r)) = Inr y"
    using node_costs_ok[OF cost _ r(2)] edge_costs_ok[OF cost] induced_set[of "cg_edges g" "rt_required r"] by blast
  then show ?thesis using err unfolding required_filling_def Let_def
    by (auto simp: bindR_eq_Inl require_eq_Inl)
qed

lemma ranked_ok:
  assumes "ids \<subseteq> graph_ids g" and "ids \<subseteq> phase_keys rk" and "finite ids"
  shows "\<exists>is. ranked g rk ds (lexical_scores tokens (cg_nodes g)) ids = Inr is"
proof -
  have "\<exists>k. rank_of g rk ds (lexical_scores tokens (cg_nodes g)) i = Inr k" if "i \<in> ids" for i
    using that assms node_at_ok[of i g] phase_ok[of i rk] lexical_scores_ok[of i g tokens]
    by (fastforce simp: rank_of_def)
  then have "\<exists>ps. mapR (\<lambda>i. bindR (rank_of g rk ds (lexical_scores tokens (cg_nodes g)) i) (\<lambda>k. Inr (k, i)))
      (sorted_list_of_set ids) = Inr ps"
    unfolding mapR_ok using assms(3) by (fastforce simp: bindR_eq_Inr)
  then show ?thesis by (auto simp: ranked_def)
qed

lemma fill_step_ok:
  assumes cost: "priced cost g"
  shows "\<exists>f'. fill_step cost g b (eligible_ids g q) i f = Inr f'"
proof -
  define A where "A = contradiction_closure (contradictions (cg_edges g)) {i} - fl_ids f"
  define P where "P = induced_edges (cg_edges g) (fl_ids f \<union> A)"
  let ?m = "map_of (rev (map (\<lambda>e. (ed_edge_id e, e)) P))"
  have "\<exists>es. mapR (key_at ?m) (sorted_list_of_set (set (map ed_edge_id P) - set (map ed_edge_id (fl_edges f)))) = Inr es"
    unfolding mapR_ok
  proof
    fix k
    assume "k \<in> set (sorted_list_of_set (set (map ed_edge_id P) - set (map ed_edge_id (fl_edges f))))"
    then have "k \<in> fst ` set (rev (map (\<lambda>e. (ed_edge_id e, e)) P))" by (auto simp: image_image)
    then have "?m k \<noteq> None" unfolding map_of_eq_None_iff by simp
    then show "\<exists>y. key_at ?m k = Inr y" by (auto simp: key_at_def)
  qed
  then obtain es where m: "mapR (key_at ?m)
      (sorted_list_of_set (set (map ed_edge_id P) - set (map ed_edge_id (fl_edges f)))) = Inr es" ..
  have "?m k = Some e \<Longrightarrow> e \<in> set (cg_edges g)" for k e
    unfolding P_def by (drule map_of_SomeD) (use induced_set in auto)
  then have "set es \<subseteq> set (cg_edges g)" using key_at_list[OF m] by auto
  then obtain y where es: "mapR (key_at ?m)
      (sorted_list_of_set (set (map ed_edge_id P) - set (map ed_edge_id (fl_edges f)))) = Inr es"
    "edge_costs cost es = Inr y" using edge_costs_ok[OF cost] m by blast
  show ?thesis
  proof (cases "A \<subseteq> eligible_ids g q")
    case True
    then have "A \<subseteq> graph_ids g" "finite A"
      by (auto simp: eligible_ids_def graph_ids_def intro: finite_subset)
    then obtain x where "node_costs cost (cg_nodes g) A = Inr x" using node_costs_ok[OF cost] by blast
    then show ?thesis
      using es True unfolding fill_step_def Let_def A_def[symmetric] P_def[symmetric] by simp
  next
    case False
    then show ?thesis unfolding fill_step_def Let_def A_def[symmetric] P_def[symmetric] by simp
  qed
qed

lemma fill_ok: "priced cost g \<Longrightarrow> \<exists>f'. fill cost g b (eligible_ids g q) is f = Inr f'"
proof (induction "is" arbitrary: f)
  case (Cons i "is")
  obtain f1 where "fill_step cost g b (eligible_ids g q) i f = Inr f1" using fill_step_ok[OF Cons.prems] by blast
  then show ?case using Cons.IH[OF Cons.prems, of f1] by simp
qed simp

lemma filled_error:
  assumes r: "retrieve g q = Inr r" and g: "sound_graph g" and cost: "priced cost g"
    and err: "filled cost g q r = Inl e"
  shows "e \<in> ContextSelectionError ` {RequiredNodes, RequiredEdges, RequiredBytes}"
proof (cases "required_filling cost g (cq_budget q) r")
  case (Inl e')
  then show ?thesis using required_filling_error[OF r g cost Inl] err by (simp add: filled_def)
next
  case (Inr f)
  note rf = retrieve_facts[OF r] and rs = retrieve_sound[OF r g]
  have "candidate_ids r - rt_required r \<subseteq> graph_ids g" using rs(4) by (auto simp: eligible_ids_def graph_ids_def)
  moreover have "candidate_ids r - rt_required r \<subseteq> phase_keys (rt_ranking r)" by (auto simp: candidate_keys)
  moreover have "finite (candidate_ids r - rt_required r)" by (simp add: candidate_ids_def)
  ultimately obtain order where
    "ranked g (rt_ranking r) (rt_distances r) (rt_scores r) (candidate_ids r - rt_required r) = Inr order"
    using ranked_ok unfolding rf(11) by blast
  then show ?thesis using err Inr fill_ok[OF cost, where q = q and b = "cq_budget q" and f = f and ?is = order] rf(3) by (auto simp: filled_def)
qed

section \<open>The accounting\<close>

lemma decisions_ok:
  assumes cost: "priced cost g" and "ids \<subseteq> graph_ids g" and "ids \<subseteq> phase_keys rk" and fin: "finite ids"
  shows "\<exists>ds. mapR (decision cost g rk dists (lexical_scores tokens (cg_nodes g))) (sorted_list_of_set ids) = Inr ds \<and>
    sum_list (map sd_cost_bytes ds) = (\<Sum>i \<in> ids. node_value cost (cg_nodes g) i)"
proof -
  let ?d = "decision cost g rk dists (lexical_scores tokens (cg_nodes g))"
  have "\<exists>d. ?d i = Inr d" if i: "i \<in> ids" for i
  proof -
    obtain n where n: "node_at (cg_nodes g) i = Inr n" using node_at_ok[of i g] i assms(2) by blast
    then have "n \<in> set (cg_nodes g)" using node_index_in by (auto simp: node_at_iff)
    then obtain c where "cost (node_content_dict n) = Inr c" using cost by (auto simp: priced_def)
    then show ?thesis
      using n i assms(2,3) phase_ok[of i rk] lexical_scores_ok[of i g tokens] by (fastforce simp: decision_def)
  qed
  then have "\<exists>ds. mapR ?d (sorted_list_of_set ids) = Inr ds" unfolding mapR_ok using fin by fastforce
  then obtain ds where ds: "mapR ?d (sorted_list_of_set ids) = Inr ds" ..
  have "?d i = Inr d \<Longrightarrow> sd_cost_bytes d = node_value cost (cg_nodes g) i" for i d
    by (auto simp: decision_def result_simps node_at_iff node_value_def)
  then have "list_all2 (\<lambda>i d. sd_cost_bytes d = node_value cost (cg_nodes g) i) (sorted_list_of_set ids) ds"
    using ds by (auto simp: mapR_eq_Inr elim!: list_all2_mono)
  then have "map sd_cost_bytes ds = map (node_value cost (cg_nodes g)) (sorted_list_of_set ids)"
    by (induction rule: list_all2_induct) auto
  then show ?thesis using ds fin by (auto simp: sum_list_distinct_conv_sum_set)
qed

lemma selection_of_ok:
  assumes r: "retrieve g q = Inr r" and g: "sound_graph g" and cost: "priced cost g"
    and f: "filled cost g q r = Inr f" and ne: "required_ids g q \<noteq> {}"
  shows "\<exists>s. selection_of cost gid g qid q r f = Inr s"
proof -
  note fits = filled_fits[OF r g f, unfolded filling_fits_def] and rs = retrieve_sound[OF r g]
  have fin: "finite (fl_ids f)" and elig: "fl_ids f \<subseteq> eligible_ids g q" and keys: "fl_ids f \<subseteq> phase_keys (fl_ranking f)"
    and edges: "fl_edges f = induced_edges (cg_edges g) (fl_ids f)" and used: "fl_used f = context_cost cost g (fl_ids f)"
    and req: "rt_required r \<subseteq> fl_ids f"
    using fits by simp_all
  have sub: "fl_ids f \<subseteq> graph_ids g" using elig by (auto simp: eligible_ids_def graph_ids_def)
  obtain ds where ds: "mapR (decision cost g (fl_ranking f) (rt_distances r) (rt_scores r)) (sorted_list_of_set (fl_ids f)) = Inr ds"
    "sum_list (map sd_cost_bytes ds) = (\<Sum>i \<in> fl_ids f. node_value cost (cg_nodes g) i)"
    using decisions_ok[OF cost sub keys fin] unfolding retrieve_facts(11)[OF r] by blast
  obtain c where c: "edge_costs cost (fl_edges f) = Inr c"
    using edge_costs_ok[OF cost] induced_set[of "cg_edges g" "fl_ids f"] unfolding edges by blast
  have sum: "fl_used f = sum_list (map sd_cost_bytes ds) + c"
    unfolding used context_cost_def ds(2) using edge_costs_value[OF c] by (simp add: edges)
  obtain ns where ns: "mapR (node_at (cg_nodes g)) (sorted_list_of_set (fl_ids f)) = Inr ns"
    using mapR_ok[of "node_at (cg_nodes g)" "sorted_list_of_set (fl_ids f)"] node_at_ok sub fin by auto
  have "fl_ids f \<noteq> {}" using req rs(3) ne by blast
  then have "ns \<noteq> []" using mapR_length[OF ns] fin by auto
  then obtain sens where "max_sensitivity (map nd_sensitivity ns) = Inr sens" by (cases ns) auto
  then show ?thesis using ds(1) c sum ns unfolding selection_of_def Let_def by simp
qed

lemma select_context_error:
  assumes err: "select_context cost gid g qid q = Inl e" and g: "sound_graph g" and cost: "priced cost g"
    and times: "\<forall>n \<in> set (cg_nodes g). \<exists>p. eligibility_problem n q = Inr p" and ne: "required_ids g q \<noteq> {}"
  shows "e \<in> ContextSelectionError ` {GraphMismatch, CandidateMismatch, MissingNode, RequiredUnavailable,
     ClosureUnavailable, DepthBound, EdgeBound, NodeBound, RequiredNodes, RequiredEdges, RequiredBytes}"
proof -
  consider "e \<in> ContextSelectionError ` {GraphMismatch, CandidateMismatch}" | "retrieve g q = Inl e"
    | r where "retrieve g q = Inr r" "filled cost g q r = Inl e"
    | r f where "retrieve g q = Inr r" "filled cost g q r = Inr f" "selection_of cost gid g qid q r f = Inl e"
    using err unfolding select_context_def bindR_eq_Inl require_eq_Inl by blast
  then show ?thesis
  proof cases
    case 2 then show ?thesis using retrieve_error[OF 2 times] by blast
  next
    case (3 r) then show ?thesis using filled_error[OF 3(1) g cost 3(2)] by blast
  next
    case (4 r f) then show ?thesis using selection_of_ok[OF 4(1) g cost 4(2) ne, of gid qid] by auto
  qed blast
qed

end
