(* ===== verification/SnapshotFacts.thy ===== *)
theory SnapshotFacts
  imports ContextSnapshots SelectionOutcomes
begin

text \<open>
  What the parts of a snapshot are: the nodes that were observed again without a problem and whose
  contradictions were too, the edges among them, and everything else of the graph as excluded.
\<close>

section \<open>Failures and their components\<close>

lemma reobserve_nodes_facts:
  "reobserve_nodes ports as_of req ns failed = Inr f \<Longrightarrow>
    fst ` set f = fst ` set failed \<union> nd_node_id ` {n \<in> set ns. reobserve ports as_of n \<noteq> Inr None} \<and>
    (\<forall>n \<in> set ns. nd_node_id n \<in> req \<longrightarrow> reobserve ports as_of n = Inr None) \<and>
    (distinct (map fst failed) \<longrightarrow> distinct (map fst f))"
proof (induction ports as_of req ns failed rule: reobserve_nodes.induct)
  case (2 ports as_of req n ns failed)
  obtain p where p: "reobserve ports as_of n = Inr p" using 2(3) by (auto simp: result_simps)
  show ?case
  proof (cases p)
    case None
    then show ?thesis using 2(1)[OF p None] 2(3) p None by auto
  next
    case (Some why)
    then show ?thesis using 2(2)[OF p Some] 2(3) p Some by (auto simp: upsert_distinct split: if_splits)
  qed
qed auto

lemma failed_components_facts:
  "failed_components C req is gone = Inr G \<Longrightarrow>
    gone \<union> set is \<subseteq> G \<and> G \<subseteq> gone \<union> set is \<union> ends C \<and> (gone \<inter> req = {} \<longrightarrow> G \<inter> req = {}) \<and>
    (closed_under C gone \<longrightarrow> closed_under C G)"
proof (induction C req "is" gone rule: failed_components.induct)
  case (2 C req i "is" gone)
  let ?K = "contradiction_closure C {i}"
  have free: "?K \<inter> req = {}" and rest: "failed_components C req is (gone \<union> ?K) = Inr G"
    using 2(2) by (auto simp: Let_def split: if_splits)
  have ih: "gone \<union> ?K \<union> set is \<subseteq> G \<and> G \<subseteq> gone \<union> ?K \<union> set is \<union> ends C \<and>
      ((gone \<union> ?K) \<inter> req = {} \<longrightarrow> G \<inter> req = {}) \<and> (closed_under C (gone \<union> ?K) \<longrightarrow> closed_under C G)"
    using 2(1)[OF refl _ rest] free by blast
  have "i \<in> ?K" "?K \<subseteq> {i} \<union> ends C" using contradiction_closure_facts(1)[of "{i}" C] contradiction_closure_facts(2)[of C "{i}"] by auto
  moreover have "closed_under C gone \<longrightarrow> closed_under C (gone \<union> ?K)"
    using closed_under_Un contradiction_closure_facts(3) by blast
  ultimately show ?case using ih free by auto
qed auto

lemma snapshot_exclusions_facts:
  assumes "finite gone"
  shows "fst ` set (snapshot_exclusions failed gone xs) = xd_node_id ` set xs \<union> gone"
    "keyed (snapshot_exclusions failed gone xs)"
proof -
  let ?why = "\<lambda>i. case map_of failed i of None \<Rightarrow> ''contradiction-closure-unavailable'' | Some why \<Rightarrow> why"
  let ?dict = "foldl (\<lambda>xs x. upsert (xd_node_id x) x xs)"
  have d: "fst ` set (?dict ys xs) = fst ` set ys \<union> xd_node_id ` set xs \<and> (keyed ys \<longrightarrow> keyed (?dict ys xs))" for ys
  proof (induction xs arbitrary: ys)
    case (Cons x xs)
    have "keyed ys \<Longrightarrow> keyed (upsert (xd_node_id x) x ys)" by (auto simp: keyed_def upsert_distinct upsert_members)
    then show ?case using Cons[of "upsert (xd_node_id x) x ys"] by auto
  qed simp
  have f: "fst ` set (fold (\<lambda>i. exclude i (?why i) []) is ys) = set is \<union> fst ` set ys \<and>
      (keyed ys \<longrightarrow> keyed (fold (\<lambda>i. exclude i (?why i) []) is ys))" for "is" ys
    by (induction "is" arbitrary: ys) (auto intro: exclude_keyed)
  have k: "keyed []" by (simp add: keyed_def)
  show "fst ` set (snapshot_exclusions failed gone xs) = xd_node_id ` set xs \<union> gone"
    "keyed (snapshot_exclusions failed gone xs)"
    unfolding snapshot_exclusions_def using f[of "sorted_list_of_set gone" "?dict [] xs"] d[of "[]"] k assms by auto
qed

section \<open>The selected parts\<close>

lemma key_at_edges:
  assumes "mapR (key_at (map_of (rev (map (\<lambda>e. (ed_edge_id e, e)) es)))) ks = Inr xs"
  shows "map ed_edge_id xs = ks" "set xs \<subseteq> set es"
proof -
  let ?m = "map_of (rev (map (\<lambda>e. (ed_edge_id e, e)) es))"
  have all: "list_all2 (\<lambda>k e. ?m k = Some e) ks xs" using assms by (simp add: mapR_eq_Inr key_at_iff)
  have at: "?m k = Some e \<Longrightarrow> ed_edge_id e = k \<and> e \<in> set es" for k e by (drule map_of_SomeD) auto
  have "list_all2 (\<lambda>k e. ed_edge_id e = k \<and> e \<in> set es) ks xs" using all by (rule list_all2_mono) (rule at)
  then show "map ed_edge_id xs = ks" "set xs \<subseteq> set es" by (induction rule: list_all2_induct) auto
qed

lemma selected_parts_facts:
  assumes "selected_parts g s = Inr (ns, es)"
  shows "map nd_node_id ns = map sd_node_id (cs_selected s)" "set ns \<subseteq> set (cg_nodes g)"
    "map ed_edge_id es = cs_selected_edge_ids s" "set es \<subseteq> set (cg_edges g)"
proof -
  have n: "mapR (node_at (cg_nodes g)) (map sd_node_id (cs_selected s)) = Inr ns"
    and e: "mapR (key_at (map_of (rev (map (\<lambda>e. (ed_edge_id e, e)) (cg_edges g))))) (cs_selected_edge_ids s) = Inr es"
    using assms by (auto simp: selected_parts_def result_simps)
  have "list_all2 (\<lambda>i n. nd_node_id n = i \<and> n \<in> set (cg_nodes g)) (map sd_node_id (cs_selected s)) ns"
    using n by (auto simp: mapR_eq_Inr node_at_iff dest: node_index_in elim!: list_all2_mono)
  then show "map nd_node_id ns = map sd_node_id (cs_selected s)" "set ns \<subseteq> set (cg_nodes g)"
    by (induction rule: list_all2_induct) auto
  show "map ed_edge_id es = cs_selected_edge_ids s" "set es \<subseteq> set (cg_edges g)" using key_at_edges[OF e] by auto
qed

lemma same_edges:
  assumes "distinct (map ed_edge_id all)" and "set es \<subseteq> set all" and "set fs \<subseteq> set all"
    and "set (map ed_edge_id es) = set (map ed_edge_id fs)"
  shows "set es = set fs"
proof -
  have "inj_on ed_edge_id (set all)" using assms(1) by (simp add: distinct_map)
  then show ?thesis using assms(2-4) by (metis inj_on_image_eq_iff list.set_map)
qed

section \<open>The adopted parts\<close>

lemma adopted_parts_facts:
  assumes sel: "select_context cost gid g qid (cs_query s) = Inr s" and g: "sound_graph g"
    and p: "adopted_parts ports g s owner = Inr p"
  defines "K \<equiv> set (map nd_node_id (sp_nodes p))"
  shows "selection_required g s \<subseteq> K" "K \<subseteq> selected_ids s" "set (sp_nodes p) \<subseteq> set (cg_nodes g)"
    "closed_ids g K" "set (sp_edges p) = set (induced_edges (cg_edges g) K)"
    "\<forall>n \<in> set (sp_nodes p). reobserve ports (cs_as_of s) n = Inr None"
    "sp_gone p = selected_ids s - K" "sorted_wrt (<) (map nd_node_id (sp_nodes p))"
proof -
  note sf = selection_facts[OF sel g]
  obtain ns es failed gone where sp: "selected_parts g s = Inr (ns, es)"
    and ro: "reobserve_nodes ports (cs_as_of s) (selection_required g s) ns [] = Inr failed"
    and fc: "failed_components (contradictions es) (selection_required g s) (sort (map fst failed)) {} = Inr gone"
    and pp: "sp_nodes p = filter (\<lambda>n. nd_node_id n \<notin> gone) ns" "sp_gone p = gone"
      "sp_edges p = induced_edges es (set (map nd_node_id (filter (\<lambda>n. nd_node_id n \<notin> gone) ns)))"
    using p by (auto simp: adopted_parts_def Let_def result_simps)
  note spf = selected_parts_facts[OF sp] and rof = reobserve_nodes_facts[OF ro] and fcf = failed_components_facts[OF fc]
  have S: "set (map nd_node_id ns) = selected_ids s" unfolding spf(1) by (simp add: selected_ids_def)
  then have K: "K = selected_ids s - gone" by (auto simp: K_def pp)
  have ends: "ends (contradictions es) \<subseteq> selected_ids s" if "set es \<subseteq> set (induced_edges (cg_edges g) (selected_ids s))"
    using that by (auto simp: ends_def contradictions_def induced_set)
  have es: "set es = set (induced_edges (cg_edges g) (selected_ids s))"
  proof (rule same_edges)
    show "distinct (map ed_edge_id (cg_edges g))" using g by (simp add: sound_graph_def)
    show "set (induced_edges (cg_edges g) (selected_ids s)) \<subseteq> set (cg_edges g)" by (auto simp: induced_set)
    show "set (map ed_edge_id es) = set (map ed_edge_id (induced_edges (cg_edges g) (selected_ids s)))"
      unfolding spf(3) sf(7) set_sort ..
  qed (rule spf(4))
  have failed: "set (sort (map fst failed)) \<subseteq> selected_ids s" using rof S by auto
  have gone: "gone \<subseteq> selected_ids s" using fcf ends es failed by blast
  have req: "required_ids g (cs_query s) = selection_required g s"
    by (simp add: required_ids_def selection_required_def)
  show "selection_required g s \<subseteq> K" using sf(1) fcf unfolding req K by blast
  show "K \<subseteq> selected_ids s" "set (sp_nodes p) \<subseteq> set (cg_nodes g)" using spf(2) by (auto simp: K pp)
  show "sp_gone p = selected_ids s - K" using gone by (auto simp: pp K)
  show "sorted_wrt (<) (map nd_node_id (sp_nodes p))"
    using sf(4) unfolding spf(1)[symmetric] pp sorted_wrt_map by (rule sorted_wrt_filter)
  show "\<forall>n \<in> set (sp_nodes p). reobserve ports (cs_as_of s) n = Inr None"
    using rof fcf by (force simp: pp)
  have KS: "K \<subseteq> selected_ids s" using K by blast
  have "set (sp_edges p) = {e \<in> set es. endpoints e \<subseteq> K}" using pp K_def by (simp add: induced_set)
  also have "\<dots> = set (induced_edges (cg_edges g) K)" unfolding es induced_set using KS by auto
  finally show "set (sp_edges p) = set (induced_edges (cg_edges g) K)" .
  have closed: "closed_under (contradictions es) gone" using fcf by (simp add: closed_under_def half_in_def)
  show "closed_ids g K"
    unfolding closed_ids_def closed_under_def
  proof
    fix e
    assume e: "e \<in> set (contradictions (cg_edges g))"
    show "\<not> half_in K e"
    proof (cases "K \<inter> endpoints e = {}")
      case False
      then have "endpoints e \<subseteq> selected_ids s"
        using sf(3) e KS unfolding closed_ids_def closed_under_def half_in_def by blast
      then have "e \<in> set (contradictions es)" using e es by (simp add: contradictions_def induced_set)
      then have "\<not> half_in gone e" using closed by (simp add: closed_under_def)
      then show ?thesis using False \<open>endpoints e \<subseteq> selected_ids s\<close> unfolding half_in_def K by blast
    qed (simp add: half_in_def)
  qed
qed

end
