(* ===== verification/SnapshotOutcomes.thy ===== *)
theory SnapshotOutcomes
  imports SnapshotFacts
begin

text \<open>What a snapshot that was built holds, as one fact for the properties that rest on it.\<close>

lemma from_value_iff: "context_artifact_from_value t v = Inr a \<longleftrightarrow> ca_type a = t \<and> ca_value a = v \<and>
    context_identity (context_prefix t) (context_value_to_dict v) = Inr (ca_id a)"
  by (cases a) (auto simp: context_artifact_from_value_def result_simps)

lemma revalidate_value:
  assumes "revalidate t a = Inr b"
  shows "parse_context_value t (context_value_to_dict (ca_value a)) = Inr (ca_value b)"
proof -
  note f = revalidate_facts(1)[OF assms] and same = revalidate_same[OF assms]
  show ?thesis using f same
    by (auto simp: parse_context_artifact_def context_artifact_to_dict_def result_simps get_Cons
        context_type_enum.enum_value_iff)
qed

lemma revalidate_snapshot:
  assumes "context_artifact_from_value CTX_SNAPSHOT (SnapshotValue s) = Inr a" and "revalidate CTX_SNAPSHOT a = Inr b"
  shows "b = a" "wf_snapshot s"
proof -
  have a: "ca_type a = CTX_SNAPSHOT" "ca_value a = SnapshotValue s" using assms(1) by (simp_all add: from_value_iff)
  obtain s' where "parse_snapshot (context_snapshot_to_dict s) = Inr s'" "ca_value b = SnapshotValue s'"
    using revalidate_value[OF assms(2)] a by (auto simp: bindR_eq_Inr)
  then show "b = a" "wf_snapshot s"
    using snapshot_exact parse_snapshot_wf a revalidate_same[OF assms(2)] by (auto intro!: context_artifact.equality)
qed

lemma select_graph:
  assumes "select cost \<lparr>ca_type = CTX_GRAPH, ca_id = gid, ca_value = GraphValue g\<rparr> query_artifact =
     Inr \<lparr>ca_type = CTX_SELECTION, ca_id = sid, ca_value = SelectionValue s\<rparr>"
    and "ca_value query_artifact = QueryValue q"
  shows "select_context cost gid g (ca_id query_artifact) q = Inr s"
  using assms by (auto simp: select_def result_simps from_value_iff split: context_artifact_type.splits)

abbreviation graph_artifact :: "string \<Rightarrow> context_graph \<Rightarrow> context_artifact" where
  "graph_artifact i g \<equiv> \<lparr>ca_type = CTX_GRAPH, ca_id = i, ca_value = GraphValue g\<rparr>"

abbreviation selection_artifact :: "string \<Rightarrow> context_selection \<Rightarrow> context_artifact" where
  "selection_artifact i s \<equiv> \<lparr>ca_type = CTX_SELECTION, ca_id = i, ca_value = SelectionValue s\<rparr>"

lemma ex_unit: "(\<exists>x :: unit. P x) \<longleftrightarrow> P ()"
  by auto

lemma selection_candidate: "select_context cost gid g qid q = Inr s \<Longrightarrow> cs_candidate s = cg_candidate g"
  by (erule selection_parts) simp

lemma build_snapshot_parts:
  assumes "build_snapshot ports cost (graph_artifact gid g) (selection_artifact sid s) owner = Inr a"
  obtains p qid sn where "select_context cost gid g qid (cs_query s) = Inr s"
    "adopted_parts ports g s owner = Inr p" "snapshot_of cost gid g sid s p = Inr sn"
    "ca_value a = SnapshotValue sn" "wf_snapshot sn" "revalidate CTX_SNAPSHOT a = Inr a"
    "po_candidate ports 0 (cg_candidate g) = Inr ()" "po_candidate ports 1 (cg_candidate g) = Inr ()"
    "cs_graph_id s = gid" "cs_query_id s = qid"
proof -
  obtain qa p sn x where q: "context_artifact_from_value CTX_QUERY (QueryValue (cs_query s)) = Inr qa"
    and id: "cs_graph_id s = gid" "ca_id qa = cs_query_id s"
    and sel: "select cost (graph_artifact gid g) qa = Inr (selection_artifact sid s)"
    and p: "adopted_parts ports g s owner = Inr p" "snapshot_of cost gid g sid s p = Inr sn"
    and x: "context_artifact_from_value CTX_SNAPSHOT (SnapshotValue sn) = Inr x" "revalidate CTX_SNAPSHOT x = Inr a"
    and c: "po_candidate ports 0 (cg_candidate g) = Inr ()" "po_candidate ports 1 (cg_candidate g) = Inr ()"
    using assms unfolding build_snapshot_def graph_in_def selection_in_def context_artifact.simps
      context_value.case simp_thms if_True prod.case option.case bindR_eq_Inr require_eq_Inr ex_unit by blast
  note r = revalidate_snapshot[OF x]
  have "ca_value qa = QueryValue (cs_query s)" using q by (simp add: from_value_iff)
  then have "select_context cost gid g (ca_id qa) (cs_query s) = Inr s" by (rule select_graph[OF sel])
  moreover have "ca_value a = SnapshotValue sn" using x(1) unfolding r(1) by (simp add: from_value_iff)
  moreover have "revalidate CTX_SNAPSHOT a = Inr a" using x(2) unfolding r(1) .
  ultimately show thesis using that[OF _ p _ r(2) _ c id(1) id(2)[symmetric]] by blast
qed

lemma built_snapshot:
  assumes b: "build_snapshot ports cost (graph_artifact gid g) (selection_artifact sid s) owner = Inr a"
    and g: "sound_graph g" and v: "ca_value a = SnapshotValue sn"
  defines "K \<equiv> set (map nd_node_id (sn_nodes sn))"
  shows "selection_required g s \<subseteq> K"
    "\<forall>n \<in> set (sn_nodes sn). n \<in> set (cg_nodes g) \<and> reobserve ports (cs_as_of s) n = Inr None"
    "closed_ids g K" "set (sn_edges sn) = set (induced_edges (cg_edges g) K)"
    "set (map xd_node_id (sn_excluded sn)) = graph_ids g - K" "sorted_wrt (<) (map xd_node_id (sn_excluded sn))"
    "wf_snapshot sn" "max_sensitivity (map nd_sensitivity (sn_nodes sn)) = Inr (sn_sensitivity sn)"
    "sn_graph_id sn = gid" "sn_selection_id sn = sid" "sn_query_id sn = cs_query_id s" "cs_graph_id s = gid"
    "sn_candidate sn = cg_candidate g" "cs_candidate s = cg_candidate g"
    "sn_budget_bytes sn = cs_budget_bytes s"
    "po_candidate ports 0 (cg_candidate g) = Inr ()" "po_candidate ports 1 (cg_candidate g) = Inr ()"
proof -
  obtain p qid sn' where sel: "select_context cost gid g qid (cs_query s) = Inr s"
    and p: "adopted_parts ports g s owner = Inr p" and o: "snapshot_of cost gid g sid s p = Inr sn'"
    and v': "ca_value a = SnapshotValue sn'" and w: "wf_snapshot sn'" and "revalidate CTX_SNAPSHOT a = Inr a"
    and c: "po_candidate ports 0 (cg_candidate g) = Inr ()" "po_candidate ports 1 (cg_candidate g) = Inr ()"
    and id: "cs_graph_id s = gid" "cs_query_id s = qid"
    by (rule build_snapshot_parts[OF b])
  have sn: "sn' = sn" using v v' by simp
  note o = o[unfolded sn] and f = adopted_parts_facts[OF sel g p] and sf = selection_facts[OF sel g]
  have parts: "sn_nodes sn = sp_nodes p" "sn_edges sn = sp_edges p"
    "sn_excluded sn = map snd (sort_key fst (snapshot_exclusions (sp_failed p) (sp_gone p) (cs_excluded s)))"
    "max_sensitivity (map nd_sensitivity (sp_nodes p)) = Inr (sn_sensitivity sn)"
    "sn_graph_id sn = gid" "sn_selection_id sn = sid" "sn_query_id sn = cs_query_id s"
    "sn_candidate sn = cg_candidate g" "sn_budget_bytes sn = cs_budget_bytes s"
    using o by (auto simp: snapshot_of_def result_simps)
  have fin: "finite (sp_gone p)" unfolding f(7) selected_ids_def by simp
  note ex = snapshot_exclusions_facts[OF fin, where failed = "sp_failed p" and xs = "cs_excluded s"]
  have keys: "map xd_node_id (sn_excluded sn) =
      sorted_list_of_set (fst ` set (snapshot_exclusions (sp_failed p) (sp_gone p) (cs_excluded s)))"
    unfolding parts(3) by (rule keyed_sorted[OF ex(2)])
  have "set (map xd_node_id (sn_excluded sn)) = xd_node_id ` set (cs_excluded s) \<union> sp_gone p"
    unfolding keys ex(1)[symmetric] by simp
  moreover have "sp_gone p = selected_ids s - K" using f(7) by (simp add: K_def parts)
  ultimately have "set (map xd_node_id (sn_excluded sn)) = excluded_ids s \<union> (selected_ids s - K)"
    by (simp add: excluded_ids_def)
  moreover have "K \<subseteq> selected_ids s" using f(2) by (simp add: K_def parts)
  moreover have "selected_ids s \<subseteq> graph_ids g"
    using sf(2) by (auto simp: eligible_ids_def graph_ids_def)
  ultimately show "set (map xd_node_id (sn_excluded sn)) = graph_ids g - K" unfolding sf(6) by blast
  show "sorted_wrt (<) (map xd_node_id (sn_excluded sn))" unfolding keys by simp
  show "selection_required g s \<subseteq> K" "closed_ids g K" "set (sn_edges sn) = set (induced_edges (cg_edges g) K)"
    "\<forall>n \<in> set (sn_nodes sn). n \<in> set (cg_nodes g) \<and> reobserve ports (cs_as_of s) n = Inr None"
    using f(1,3,4,5,6) by (auto simp: K_def parts)
  show "wf_snapshot sn" using w sn by simp
  show "cs_candidate s = cg_candidate g" by (rule selection_candidate[OF sel])
  show "max_sensitivity (map nd_sensitivity (sn_nodes sn)) = Inr (sn_sensitivity sn)"
    "sn_graph_id sn = gid" "sn_selection_id sn = sid" "sn_query_id sn = cs_query_id s" "cs_graph_id s = gid"
    "sn_candidate sn = cg_candidate g" "sn_budget_bytes sn = cs_budget_bytes s"
    "po_candidate ports 0 (cg_candidate g) = Inr ()" "po_candidate ports 1 (cg_candidate g) = Inr ()"
    using parts id c by simp_all
qed

end
