(* ===== verification/IndexOutcomes.thy ===== *)
theory IndexOutcomes
  imports ContextIndex SnapshotOutcomes "HOL-Library.Multiset"
begin

text \<open>What a graph that was built holds: every declared source, adopted as observed or excluded with a reason.\<close>

section \<open>Sources\<close>

text \<open>A node as the source it comes from was declared and observed.\<close>

definition adopted_from :: "context_ports \<Rightarrow> context_source \<Rightarrow> context_node \<Rightarrow> bool" where
  "adopted_from ports s n = (\<exists>ob. observe_source ports s = Inr ob \<and> node_of_source s ob = Inr n)"

definition not_adoptable :: "context_ports \<Rightarrow> context_source \<Rightarrow> source_exclusion \<Rightarrow> bool" where
  "not_adoptable ports s x = (\<not> sc_required s \<and> sx_source_id x = sc_source_id s \<and>
     (\<forall>e. observe_source ports s = Inl e \<longrightarrow> sx_reason x = index_failure_reason e) \<and>
     (\<forall>ob. observe_source ports s = Inr ob \<longrightarrow> sx_reason x = ''total-source-byte-limit''))"

lemma adopted_from_source:
  assumes "adopted_from ports s n"
  shows "nd_source_id n = sc_source_id s" "nd_required n = sc_required s" "nd_sensitivity n = sc_sensitivity s"
    "nd_locator n = sc_locator s" "nd_authority n = sc_authority s" "nd_freshness n = sc_freshness s"
    "nd_provenance n = sc_provenance s" "nd_kind n = sc_kind s"
    "\<exists>ob. observe_source ports s = Inr ob \<and> nd_text n = ob_selected ob"
  using assms by (auto simp: adopted_from_def node_of_source_def result_simps Let_def)

lemma adopt_sources_facts:
  "adopt_sources ports ss sofar ns xs = Inr (ns', xs') \<Longrightarrow>
    (\<exists>add more. ns' = ns @ add \<and> xs' = xs @ more \<and>
      mset (map nd_source_id add) + mset (map sx_source_id more) = mset (map sc_source_id ss) \<and>
      (\<forall>n \<in> set add. \<exists>s \<in> set ss. adopted_from ports s n) \<and>
      (\<forall>x \<in> set more. \<exists>s \<in> set ss. not_adoptable ports s x) \<and>
      (\<forall>s \<in> set ss. sc_required s \<longrightarrow> sc_source_id s \<in> set (map nd_source_id add)))"
proof (induction ports ss sofar ns xs rule: adopt_sources.induct)
  case (2 ports s ss sofar ns xs)
  consider (failed) e where "observe_source ports s = Inl e" "\<not> sc_required s"
      "adopt_sources ports ss sofar ns (xs @ [source_exclusion_for s (index_failure_reason e)]) = Inr (ns', xs')"
      "source_error e \<or> contract_error e"
    | (big) ob where "observe_source ports s = Inr ob" "\<not> sc_required s" "sofar + ob_length ob > total_source_bytes"
      "adopt_sources ports ss sofar ns (xs @ [source_exclusion_for s ''total-source-byte-limit'']) = Inr (ns', xs')"
    | (kept) ob n where "observe_source ports s = Inr ob" "\<not> sofar + ob_length ob > total_source_bytes"
      "node_of_source s ob = Inr n" "adopt_sources ports ss (sofar + ob_length ob) (ns @ [n]) xs = Inr (ns', xs')"
    using "2.prems" by (auto simp: result_simps split: sum.splits if_splits)
  then show ?case
  proof cases
    case (failed e)
    from "2.IH"(1)[OF failed(1) _ failed(2,3)] failed(4) obtain add more where
      f: "ns' = ns @ add" "xs' = (xs @ [source_exclusion_for s (index_failure_reason e)]) @ more"
      "mset (map nd_source_id add) + mset (map sx_source_id more) = mset (map sc_source_id ss)"
      "\<forall>n \<in> set add. \<exists>s \<in> set ss. adopted_from ports s n" "\<forall>x \<in> set more. \<exists>s \<in> set ss. not_adoptable ports s x"
      "\<forall>s \<in> set ss. sc_required s \<longrightarrow> sc_source_id s \<in> set (map nd_source_id add)" by blast
    have "not_adoptable ports s (source_exclusion_for s (index_failure_reason e))"
      using failed by (simp add: not_adoptable_def source_exclusion_for_def)
    then show ?thesis using f failed(2)
      by (intro exI[of _ add] exI[of _ "source_exclusion_for s (index_failure_reason e) # more"])
        (auto simp: source_exclusion_for_def)
  next
    case (big ob)
    let ?x = "source_exclusion_for s ''total-source-byte-limit''"
    from "2.IH"(2)[OF big(1,3,2,4)] obtain add more where
      f: "ns' = ns @ add" "xs' = (xs @ [?x]) @ more"
      "mset (map nd_source_id add) + mset (map sx_source_id more) = mset (map sc_source_id ss)"
      "\<forall>n \<in> set add. \<exists>s \<in> set ss. adopted_from ports s n" "\<forall>x \<in> set more. \<exists>s \<in> set ss. not_adoptable ports s x"
      "\<forall>s \<in> set ss. sc_required s \<longrightarrow> sc_source_id s \<in> set (map nd_source_id add)" by blast
    have "not_adoptable ports s ?x" using big by (simp add: not_adoptable_def source_exclusion_for_def)
    then show ?thesis using f big(2)
      by (intro exI[of _ add] exI[of _ "?x # more"]) (auto simp: source_exclusion_for_def)
  next
    case (kept ob n)
    from "2.IH"(3)[OF kept] obtain add more where
      f: "ns' = (ns @ [n]) @ add" "xs' = xs @ more"
      "mset (map nd_source_id add) + mset (map sx_source_id more) = mset (map sc_source_id ss)"
      "\<forall>n \<in> set add. \<exists>s \<in> set ss. adopted_from ports s n" "\<forall>x \<in> set more. \<exists>s \<in> set ss. not_adoptable ports s x"
      "\<forall>s \<in> set ss. sc_required s \<longrightarrow> sc_source_id s \<in> set (map nd_source_id add)" by blast
    have a: "adopted_from ports s n" using kept by (auto simp: adopted_from_def)
    show ?thesis using f a adopted_from_source(1)[OF a]
      by (intro exI[of _ "n # add"] exI[of _ more]) auto
  qed
qed simp

section \<open>Edges\<close>

text \<open>The edge of a relationship whose ends were both adopted.\<close>

definition related :: "context_node list \<Rightarrow> context_relationship \<Rightarrow> context_edge \<Rightarrow> bool" where
  "related nodes r e = (\<exists>a \<in> set nodes. \<exists>b \<in> set nodes. nd_source_id a = rl_source_id r \<and>
     nd_source_id b = rl_target_id r \<and> edge_of_relationship r (nd_node_id a) (nd_node_id b) = Inr e)"

lemma node_by_source_iff:
  assumes "distinct (map nd_source_id nodes)"
  shows "node_by_source nodes i = Some n \<longleftrightarrow> n \<in> set nodes \<and> nd_source_id n = i"
proof -
  have "distinct (map fst (rev (map (\<lambda>n. (nd_source_id n, n)) nodes)))"
    using assms by (simp add: rev_map[symmetric] comp_def)
  then show ?thesis by (auto simp: node_by_source_def)
qed

lemma index_relationship_edges:
  assumes d: "distinct (map nd_source_id nodes)" and "index_relationship ports nodes r = Inr es"
  shows "set es = {e. related nodes r e}"
proof -
  note n = node_by_source_iff[OF d]
  show ?thesis
  proof (cases "\<exists>a b. node_by_source nodes (rl_source_id r) = Some a \<and> node_by_source nodes (rl_target_id r) = Some b")
    case True
    then obtain a b where ab: "node_by_source nodes (rl_source_id r) = Some a" "node_by_source nodes (rl_target_id r) = Some b"
      by blast
    then obtain e where "edge_of_relationship r (nd_node_id a) (nd_node_id b) = Inr e" "es = [e]"
      using assms(2) by (auto simp: index_relationship_def result_simps)
    moreover have "related nodes r e' \<longleftrightarrow> edge_of_relationship r (nd_node_id a) (nd_node_id b) = Inr e'" for e'
      using ab unfolding n related_def by (metis n option.inject)
    ultimately show ?thesis by auto
  next
    case False
    then have "es = []" using assms(2) by (auto simp: index_relationship_def split: option.splits)
    moreover have "\<not> related nodes r e" for e using False unfolding n related_def by blast
    ultimately show ?thesis by simp
  qed
qed

lemma mapR_sets:
  assumes "mapR f xs = Inr yss" and "\<And>x ys. f x = Inr ys \<Longrightarrow> set ys = S x"
  shows "set (concat yss) = (\<Union>x \<in> set xs. S x)"
  using assms(1)
proof (induction xs arbitrary: yss)
  case (Cons x xs)
  then obtain ys zss where f: "f x = Inr ys" "mapR f xs = Inr zss" "yss = ys # zss" by (auto simp: result_simps)
  show ?case using Cons.IH[OF f(2)] assms(2)[OF f(1)] f(3) by simp
qed simp

section \<open>The graph\<close>

lemma source_exclusion_exact: "exact parse_source_exclusion source_exclusion_to_dict"
  unfolding parse_source_exclusion_def source_exclusion_to_dict_def
  by (rule exactI, clarsimp simp: get_Cons result_simps) (auto dest!: part_exact)

lemma graph_exact: "parse_graph (context_graph_to_dict g) = Inr g' \<Longrightarrow> g' = g"
  unfolding parse_graph_def context_graph_to_dict_def graph_keys_def
  by (clarsimp simp: get_Cons result_simps exact_simps)
    (auto dest!: part_exact list_exact array_exact[OF source_exclusion_exact])

lemma revalidate_graph:
  assumes "context_artifact_from_value CTX_GRAPH (GraphValue g) = Inr a" and "revalidate CTX_GRAPH a = Inr b"
  shows "b = a" "wf_context_graph g"
proof -
  have a: "ca_type a = CTX_GRAPH" "ca_value a = GraphValue g" using assms(1) by (simp_all add: from_value_iff)
  obtain g' where "parse_graph (context_graph_to_dict g) = Inr g'" "ca_value b = GraphValue g'"
    using revalidate_value[OF assms(2)] a by (auto simp: bindR_eq_Inr)
  then show "b = a" "wf_context_graph g"
    using graph_exact context_graph_codec.parse_wf a revalidate_same[OF assms(2)] by (auto intro!: context_artifact.equality)
qed

lemma wf_graph_sound: "wf_context_graph g \<Longrightarrow> sound_graph g"
  by (auto simp: wf_context_graph_def wf_nodes_def sound_graph_def list_all_iff wf_edge_def graph_ids_def
      endpoints_def strict_sorted_iff)

lemma build_graph_facts:
  assumes "build_graph ports \<lparr>ca_type = CTX_MANIFEST, ca_id = mid, ca_value = ManifestValue m\<rparr> owner = Inr a"
  obtains g where "index_manifest ports mid m owner = Inr g" "ca_value a = GraphValue g" "wf_context_graph g"
    "ca_type a = CTX_GRAPH"
proof -
  obtain g x where g: "index_manifest ports mid m owner = Inr g"
    and x: "context_artifact_from_value CTX_GRAPH (GraphValue g) = Inr x" "revalidate CTX_GRAPH x = Inr a"
    using assms by (auto simp: build_graph_def manifest_in_def bindR_eq_Inr)
  note r = revalidate_graph[OF x]
  show thesis using that[OF g _ r(2)] x(1) unfolding r(1) by (simp add: from_value_iff)
qed

lemma built_graph:
  assumes b: "build_graph ports \<lparr>ca_type = CTX_MANIFEST, ca_id = mid, ca_value = ManifestValue m\<rparr> owner = Inr a"
    and d: "distinct (map sc_source_id (cm_sources m))" and v: "ca_value a = GraphValue g"
  shows "wf_context_graph g" "cg_candidate g = cm_candidate m" "cg_manifest_id g = mid"
    "po_candidate ports 0 (cm_candidate m) = Inr ()" "po_candidate ports 1 (cm_candidate m) = Inr ()"
    "set (map nd_source_id (cg_nodes g)) \<union> set (map sx_source_id (cg_excluded_sources g)) =
       set (map sc_source_id (cm_sources m))"
    "\<forall>n \<in> set (cg_nodes g). \<exists>s \<in> set (cm_sources m). adopted_from ports s n"
    "\<forall>s \<in> set (cm_sources m). sc_required s \<longrightarrow> sc_source_id s \<in> set (map nd_source_id (cg_nodes g))"
    "\<forall>x \<in> set (cg_excluded_sources g). \<exists>s \<in> set (cm_sources m). not_adoptable ports s x"
    "set (cg_edges g) = (\<Union>r \<in> set (cm_relationships m). {e. related (cg_nodes g) r e})"
proof -
  obtain g' where i: "index_manifest ports mid m owner = Inr g'" and g': "ca_value a = GraphValue g'" "wf_context_graph g'"
    by (rule build_graph_facts[OF b])
  have g: "g' = g" using v g'(1) by simp
  obtain ns xs yss where c: "po_candidate ports 0 (cm_candidate m) = Inr ()" "po_candidate ports 1 (cm_candidate m) = Inr ()"
    and ad: "adopt_sources ports (cm_sources m) 0 [] [] = Inr (ns, xs)"
    and rel: "mapR (index_relationship ports (sort_key nd_node_id ns)) (cm_relationships m) = Inr yss"
    and parts: "cg_candidate g = cm_candidate m" "cg_manifest_id g = mid" "cg_nodes g = sort_key nd_node_id ns"
      "cg_edges g = sort_key ed_edge_id (concat yss)" "cg_excluded_sources g = sort_key sx_source_id xs"
    using i unfolding g index_manifest_def Let_def split_paired_Ex prod.case bindR_eq_Inr require_eq_Inr ex_unit
    by auto
  show "cg_candidate g = cm_candidate m" "cg_manifest_id g = mid"
    "po_candidate ports 0 (cm_candidate m) = Inr ()" "po_candidate ports 1 (cm_candidate m) = Inr ()"
    using parts c by simp_all
  have "mset (map nd_source_id ns) + mset (map sx_source_id xs) = mset (map sc_source_id (cm_sources m)) \<and>
      (\<forall>n \<in> set ns. \<exists>s \<in> set (cm_sources m). adopted_from ports s n) \<and>
      (\<forall>x \<in> set xs. \<exists>s \<in> set (cm_sources m). not_adoptable ports s x) \<and>
      (\<forall>s \<in> set (cm_sources m). sc_required s \<longrightarrow> sc_source_id s \<in> set (map nd_source_id ns))"
    using adopt_sources_facts[OF ad] by (elim exE conjE) (intro conjI; clarsimp)
  then have m: "mset (map nd_source_id ns @ map sx_source_id xs) = mset (map sc_source_id (cm_sources m))"
    and n: "\<forall>n \<in> set ns. \<exists>s \<in> set (cm_sources m). adopted_from ports s n"
      "\<forall>x \<in> set xs. \<exists>s \<in> set (cm_sources m). not_adoptable ports s x"
      "\<forall>s \<in> set (cm_sources m). sc_required s \<longrightarrow> sc_source_id s \<in> set (map nd_source_id ns)" by simp_all
  show "set (map nd_source_id (cg_nodes g)) \<union> set (map sx_source_id (cg_excluded_sources g)) =
      set (map sc_source_id (cm_sources m))"
    using mset_eq_setD[OF m] by (simp add: parts)
  show w: "wf_context_graph g" using g' g by simp
  show "\<forall>n \<in> set (cg_nodes g). \<exists>s \<in> set (cm_sources m). adopted_from ports s n"
    "\<forall>s \<in> set (cm_sources m). sc_required s \<longrightarrow> sc_source_id s \<in> set (map nd_source_id (cg_nodes g))"
    "\<forall>x \<in> set (cg_excluded_sources g). \<exists>s \<in> set (cm_sources m). not_adoptable ports s x"
    using n by (simp_all add: parts)
  have "distinct (map nd_source_id (cg_nodes g))" using w by (simp add: wf_context_graph_def wf_nodes_def)
  then have "\<And>r es. index_relationship ports (cg_nodes g) r = Inr es \<Longrightarrow> set es = {e. related (cg_nodes g) r e}"
    by (rule index_relationship_edges)
  from mapR_sets[OF rel[folded parts(3)] this]
  show "set (cg_edges g) = (\<Union>r \<in> set (cm_relationships m). {e. related (cg_nodes g) r e})"
    by (simp add: parts(4))
qed

end
