(* ===== verification/ContextCompactions.thy ===== *)
theory ContextCompactions
  imports ContextSnapshots
begin

text \<open>
  \<open>ContextCompactor\<close> of \<open>application/context_compaction.py\<close> and \<open>measure_context_quality\<close> of
  \<open>application/context_quality.py\<close>: extracts of a snapshot within its budget, and the measures of one.
\<close>

section \<open>Validating the inputs\<close>

definition strictly_validate :: "context_artifact_type \<Rightarrow> context_artifact \<Rightarrow> context_artifact result" where
  "strictly_validate t a = translating contract_error (ContextCompactionError StrictInput) (revalidate t a)"

definition proposal_in :: "context_artifact \<Rightarrow> host_summary_proposal option" where
  "proposal_in a = (if ca_type a = CTX_HOST_SUMMARY_PROPOSAL
     then (case ca_value a of ProposalValue p \<Rightarrow> Some p | _ \<Rightarrow> None) else None)"

definition claim_linked :: "context_snapshot \<Rightarrow> source_linked_claim \<Rightarrow> unit result" where
  "claim_linked s c =
     bindR (require (set (cl_source_node_ids c) \<subseteq> set (map nd_node_id (sn_nodes s))) (ContextCompactionError ProposalNode)) (\<lambda>_.
     bindR (mapR (node_at (sn_nodes s)) (cl_source_node_ids c)) (\<lambda>nodes.
     require (cl_extract_sha256s c = sort (map nd_text_sha256 nodes)) (ContextCompactionError ProposalDigests)))"

definition validate_host_proposal :: "context_artifact \<Rightarrow> context_artifact \<Rightarrow> string result" where
  "validate_host_proposal snapshot_artifact proposal_artifact =
     (case (snapshot_in snapshot_artifact, proposal_in proposal_artifact) of
        (Some s, Some p) \<Rightarrow>
          bindR (require (hp_snapshot_id p = ca_id snapshot_artifact) (ContextCompactionError ProposalSnapshot)) (\<lambda>_.
          bindR (require (\<not> sensitivity_rank (hp_sensitivity p) < sensitivity_rank (sn_sensitivity s))
            (ContextCompactionError ProposalDowngrade)) (\<lambda>_.
          bindR (mapR (claim_linked s) (hp_claims p)) (\<lambda>_.
          Inr (ca_id proposal_artifact))))
      | (None, _) \<Rightarrow> Inl AssertionError
      | (_, None) \<Rightarrow> Inl (ContextCompactionError ProposalInput))"

section \<open>Authenticating the sources\<close>

definition authentic_node :: "context_ports \<Rightarrow> string \<Rightarrow> context_node \<Rightarrow> unit result" where
  "authentic_node ports as_of n =
     bindR (po_observe ports (nd_node_id n) (lo_root_scope (nd_locator n)) (nd_locator n)) (\<lambda>ob.
     bindR (if fr_kind (nd_freshness n) = IMMUTABLE then validate_context_json ob else Inr ()) (\<lambda>_.
     bindR (require (ob_selected ob = nd_text n) (ContextCompactionError TextChanged)) (\<lambda>_.
     bindR (if fr_kind (nd_freshness n) = EXPIRES_AT
       then bindR (within_validity (nd_freshness n) as_of) (\<lambda>valid. require valid (ContextCompactionError StaleSource))
       else Inr ()) (\<lambda>_.
     bindR (mapR (po_reference ports (nd_node_id n) (lo_root_scope (nd_locator n))) (pv_references (nd_provenance n))) (\<lambda>_.
     Inr ())))))"

definition authentic_sources :: "context_ports \<Rightarrow> context_snapshot \<Rightarrow> unit result" where
  "authentic_sources ports s =
     bindR (require (distinct (map nd_source_id (sn_nodes s))) (ContextContractError DuplicateSource)) (\<lambda>_.
     bindR (mapR (\<lambda>n. bindR (node_authority n) (\<lambda>_.
       identified (source_identity (source_content_dict n)) (nd_source_id n))) (sn_nodes s)) (\<lambda>_.
     bindR (po_candidate ports 0 (sn_candidate s)) (\<lambda>_.
     bindR (mapR (authentic_node ports (sn_as_of s)) (sn_nodes s)) (\<lambda>_.
     bindR (mapR (\<lambda>e. mapR (po_reference ports (ed_edge_id e) SCOPE_REPOSITORY) (pv_references (ed_provenance e))) (sn_edges s)) (\<lambda>_.
     po_candidate ports 1 (sn_candidate s))))))"

definition verify_snapshot_sources :: "context_ports \<Rightarrow> context_snapshot \<Rightarrow> bool \<Rightarrow> unit result" where
  "verify_snapshot_sources ports s owner_root =
     bindR (owner_root_rule owner_root (sn_nodes s) (ContextCompactionError OwnerRootNeeded)
       (ContextCompactionError OwnerRootUnused)) (\<lambda>_.
     translating (\<lambda>e. contract_error e \<or> source_error e) (ContextCompactionError SourceAuthentication)
       (authentic_sources ports s))"

section \<open>Extracts\<close>

text \<open>Required nodes and both ends of every contradiction must be extracted.\<close>

definition mandatory_ids :: "context_snapshot \<Rightarrow> string set" where
  "mandatory_ids s = set (map nd_node_id (filter nd_required (sn_nodes s))) \<union>
     \<Union> (set (map endpoints (contradictions (sn_edges s))))"

definition node_markers :: "context_snapshot \<Rightarrow> string \<Rightarrow> string list" where
  "node_markers s i = sorted_list_of_set (set (map ed_edge_id
     (filter (\<lambda>e. ed_source_node_id e = i \<or> ed_target_node_id e = i) (contradictions (sn_edges s)))))"

definition decision_rank :: "selection_decision \<Rightarrow> rank_key" where
  "decision_rank d = (sd_phase d, sd_authority_rank d, sd_graph_distance d, - sd_lexical_score d,
     sd_sensitivity_rank d, sd_node_id d)"

definition rank_by_id :: "context_snapshot \<Rightarrow> string \<Rightarrow> rank_key result" where
  "rank_by_id s = key_at (map_of (rev (map (\<lambda>d. (sd_node_id d, decision_rank d)) (sn_selected s))))"

definition extraction_order :: "context_snapshot \<Rightarrow> string list result" where
  "extraction_order s =
     bindR (mapR (\<lambda>i. bindR (rank_by_id s i) (\<lambda>k. Inr ((if i \<in> mandatory_ids s then 0 :: int else 1, k), i)))
       (remdups (map nd_node_id (sn_nodes s)))) (\<lambda>ps. Inr (map snd (sort_key fst ps)))"

definition extract_of :: "context_snapshot \<Rightarrow> context_node \<Rightarrow> int \<Rightarrow> context_extract" where
  "extract_of s n c = \<lparr>ex_node_id = nd_node_id n, ex_source_id = nd_source_id n, ex_text = nd_text n,
     ex_text_sha256 = nd_text_sha256 n, ex_authority = nd_authority n, ex_sensitivity = nd_sensitivity n,
     ex_required = nd_required n, ex_contradiction_ids = node_markers s (nd_node_id n), ex_cost_bytes = c\<rparr>"

fun extract_nodes :: "estimator \<Rightarrow> context_snapshot \<Rightarrow> string list \<Rightarrow> int \<Rightarrow> context_extract list \<Rightarrow> string list \<Rightarrow>
    (int \<times> context_extract list \<times> string list) result" where
  "extract_nodes cost s [] used extracts omitted = Inr (used, extracts, omitted)"
| "extract_nodes cost s (i # is) used extracts omitted =
     bindR (node_at (sn_nodes s) i) (\<lambda>n.
     bindR (cost (JStr (nd_text n))) (\<lambda>c.
     if used + c > sn_budget_bytes s then
       (if i \<in> mandatory_ids s then Inl (ContextCompactionError ExtractBudget)
        else extract_nodes cost s is used extracts (omitted @ [i]))
     else extract_nodes cost s is (used + c) (extracts @ [extract_of s n c]) omitted))"

text \<open>\<open>compact\<close>, with and without a host summary.\<close>

definition summary_of :: "context_artifact \<Rightarrow> context_snapshot \<Rightarrow> context_artifact option \<Rightarrow>
    (string option \<times> sensitivity) result" where
  "summary_of snapshot_artifact s summary = (case summary of
     None \<Rightarrow> Inr (None, sn_sensitivity s)
   | Some given \<Rightarrow>
       (case proposal_in given of
          None \<Rightarrow> Inl (ContextCompactionError ProposalInput)
        | Some _ \<Rightarrow>
            bindR (strictly_validate CTX_HOST_SUMMARY_PROPOSAL given) (\<lambda>proposal_artifact.
            bindR (validate_host_proposal snapshot_artifact proposal_artifact) (\<lambda>i.
            (case proposal_in proposal_artifact of
               None \<Rightarrow> Inl AssertionError
             | Some p \<Rightarrow> bindR (max_sensitivity [sn_sensitivity s, hp_sensitivity p]) (\<lambda>sens. Inr (Some i, sens)))))))"

definition compaction_of :: "estimator \<Rightarrow> string \<Rightarrow> context_snapshot \<Rightarrow> string option \<times> sensitivity \<Rightarrow>
    context_compaction result" where
  "compaction_of cost sid s summary =
     bindR (extraction_order s) (\<lambda>order.
     bindR (extract_nodes cost s order 0 [] []) (\<lambda>(used, extracts, omitted).
     bindR (require (extracts \<noteq> []) (ContextCompactionError EmptyContext)) (\<lambda>_.
     Inr \<lparr>co_candidate = sn_candidate s, co_snapshot_id = sid, co_sensitivity = snd summary,
       co_budget_bytes = sn_budget_bytes s, co_used_bytes = used,
       co_extracts = sort_key ex_node_id extracts, co_omitted_node_ids = sort omitted,
       co_unresolved_contradiction_ids = sn_unresolved_contradiction_ids s,
       co_host_summary_proposal_id = fst summary\<rparr>)))"

definition compact :: "context_ports \<Rightarrow> estimator \<Rightarrow> context_artifact \<Rightarrow> bool \<Rightarrow> context_artifact option \<Rightarrow>
    context_artifact result" where
  "compact ports cost given owner_root summary = (case snapshot_in given of
     None \<Rightarrow> Inl (ContextCompactionError SnapshotNeeded)
   | Some _ \<Rightarrow>
       bindR (strictly_validate CTX_SNAPSHOT given) (\<lambda>snapshot_artifact.
       (case snapshot_in snapshot_artifact of
          None \<Rightarrow> Inl AssertionError
        | Some s \<Rightarrow>
            bindR (summary_of snapshot_artifact s summary) (\<lambda>proposal.
            bindR (verify_snapshot_sources ports s owner_root) (\<lambda>_.
            bindR (compaction_of cost (ca_id snapshot_artifact) s proposal) (\<lambda>compaction.
            bindR (context_artifact_from_value CTX_COMPACTION (CompactionValue compaction)) (\<lambda>artifact.
            revalidate CTX_COMPACTION artifact)))))))"

definition publish_compaction :: "context_ports \<Rightarrow> estimator \<Rightarrow> bool \<Rightarrow> context_artifact \<Rightarrow> bool \<Rightarrow>
    context_artifact option \<Rightarrow> context_artifact result" where
  "publish_compaction ports cost publisher snapshot_artifact owner_root summary =
     bindR (require publisher (ContextCompactionError PublisherUnavailable)) (\<lambda>_.
     bindR (compact ports cost snapshot_artifact owner_root summary) (\<lambda>artifact.
     (case ca_value artifact of
        CompactionValue compaction \<Rightarrow>
          bindR (po_candidate ports 2 (co_candidate compaction)) (\<lambda>_.
          bindR (serialize_context_artifact artifact) (\<lambda>bytes.
          bindR (po_publish ports bytes) (\<lambda>_. Inr artifact)))
      | _ \<Rightarrow> Inl AssertionError)))"

section \<open>Quality\<close>

fun redundant_bytes :: "string set \<Rightarrow> context_node list \<Rightarrow> int" where
  "redundant_bytes seen [] = 0"
| "redundant_bytes seen (n # ns) = (let encoded = utf8_bytes (nd_text n) in
     if encoded \<in> seen then int (length encoded) + redundant_bytes seen ns
     else redundant_bytes (insert encoded seen) ns)"

definition required_recall :: "string set \<Rightarrow> string set \<Rightarrow> int" where
  "required_recall required selected = (if required = {} then 100
     else (100 * int (card (required \<inter> selected))) div int (card required))"

definition quality_report :: "context_graph \<Rightarrow> context_selection \<Rightarrow> string \<Rightarrow> context_snapshot \<Rightarrow> context_quality_report" where
  "quality_report g s nid n =
     (let whole = int (length (filter (\<lambda>x. pv_references (nd_provenance x) \<noteq> []) (sn_nodes n))) in
      \<lparr>qr_candidate = sn_candidate n, qr_snapshot_id = nid, qr_sensitivity = sn_sensitivity n,
       qr_required_reference_recall = required_recall (selection_required g s) (set (map nd_node_id (sn_nodes n))),
       qr_stale_required_count = 0, qr_provenance_complete_count = whole,
       qr_provenance_missing_count = int (length (sn_nodes n)) - whole,
       qr_sensitivity_violation_count = int (length (filter
         (\<lambda>x. sensitivity_rank (nd_sensitivity x) > sensitivity_rank (sn_sensitivity n)) (sn_nodes n))),
       qr_selected_context_bytes = sn_context_bytes n, qr_budget_bytes = cs_budget_bytes s,
       qr_redundant_bytes = redundant_bytes {} (sn_nodes n),
       qr_selected_node_count = int (length (sn_nodes n)), qr_excluded_node_count = int (length (sn_excluded n)),
       qr_unresolved_contradiction_count = int (length (sn_unresolved_contradiction_ids n)),
       qr_traversal_truncated = cs_traversal_truncated s\<rparr>)"

definition measure_context_quality :: "context_artifact \<Rightarrow> context_artifact \<Rightarrow> context_artifact \<Rightarrow> context_artifact result" where
  "measure_context_quality graph_artifact selection_artifact snapshot_artifact =
     (case (graph_in graph_artifact, selection_in selection_artifact, snapshot_in snapshot_artifact) of
        (Some g, Some s, Some n) \<Rightarrow>
          bindR (require (\<not> (cs_graph_id s \<noteq> ca_id graph_artifact \<or> sn_graph_id n \<noteq> ca_id graph_artifact \<or>
              sn_selection_id n \<noteq> ca_id selection_artifact \<or> sn_query_id n \<noteq> cs_query_id s \<or>
              cg_candidate g \<noteq> cs_candidate s \<or> cg_candidate g \<noteq> sn_candidate n))
            (ContextQualityError QualityIdentity)) (\<lambda>_.
          bindR (context_artifact_from_value CTX_QUALITY_REPORT
            (QualityValue (quality_report g s (ca_id snapshot_artifact) n))) (\<lambda>artifact.
          revalidate CTX_QUALITY_REPORT artifact))
      | _ \<Rightarrow> Inl (ContextQualityError QualityInput))"

end
