(* ===== verification/CompactionOutcomes.thy ===== *)
theory CompactionOutcomes
  imports ContextCompactions SnapshotOutcomes "HOL-Library.Multiset"
begin

text \<open>What a compaction that was made holds: extracts of every mandatory node and a reason for every omission.\<close>

section \<open>Extracts\<close>

text \<open>An extract is the whole text of its node, at its cost.\<close>

definition extracted :: "estimator \<Rightarrow> context_snapshot \<Rightarrow> context_extract \<Rightarrow> bool" where
  "extracted cost s x = (\<exists>n c. n \<in> set (sn_nodes s) \<and> cost (JStr (nd_text n)) = Inr c \<and> x = extract_of s n c)"

definition unaffordable :: "estimator \<Rightarrow> context_snapshot \<Rightarrow> int \<Rightarrow> string \<Rightarrow> bool" where
  "unaffordable cost s used i = (i \<notin> mandatory_ids s \<and> (\<exists>n c. n \<in> set (sn_nodes s) \<and> nd_node_id n = i \<and>
     cost (JStr (nd_text n)) = Inr c \<and> used + c > sn_budget_bytes s))"

lemma unaffordable_mono: "unaffordable cost s used i \<Longrightarrow> used \<le> used' \<Longrightarrow> unaffordable cost s used' i"
  by (force simp: unaffordable_def)

lemma costs_nonneg: "\<forall>x \<in> set xs. 0 \<le> (f x :: int) \<Longrightarrow> 0 \<le> sum_list (map f xs)"
  by (induction xs) auto

lemma extract_nodes_facts:
  "extract_nodes cost s is used xs om = Inr (used', xs', om') \<Longrightarrow>
    (\<exists>add gone. xs' = xs @ add \<and> om' = om @ gone \<and> used' = used + sum_list (map ex_cost_bytes add) \<and>
      mset (map ex_node_id add) + mset gone = mset is \<and> (\<forall>x \<in> set add. extracted cost s x) \<and>
      ((\<forall>x \<in> set add. 0 \<le> ex_cost_bytes x) \<longrightarrow> (\<forall>i \<in> set gone. unaffordable cost s used' i)) \<and>
      (\<forall>i \<in> set gone. i \<notin> mandatory_ids s))"
proof (induction cost s "is" used xs om arbitrary: used' xs' om' rule: extract_nodes.induct)
  case (2 cost s i "is" used xs om)
  obtain n c where n: "node_at (sn_nodes s) i = Inr n" and c: "cost (JStr (nd_text n)) = Inr c"
    using "2.prems" by (auto simp: result_simps)
  have at: "n \<in> set (sn_nodes s)" "nd_node_id n = i" using n by (auto simp: node_at_iff dest: node_index_in)
  show ?case
  proof (cases "used + c > sn_budget_bytes s")
    case True
    then have m: "i \<notin> mandatory_ids s" and rest: "extract_nodes cost s is used xs (om @ [i]) = Inr (used', xs', om')"
      using "2.prems" n c by (auto split: if_splits)
    obtain add gone where f: "xs' = xs @ add" "om' = (om @ [i]) @ gone" "used' = used + sum_list (map ex_cost_bytes add)"
      "mset (map ex_node_id add) + mset gone = mset is" "\<forall>x \<in> set add. extracted cost s x"
      "(\<forall>x \<in> set add. 0 \<le> ex_cost_bytes x) \<longrightarrow> (\<forall>i \<in> set gone. unaffordable cost s used' i)"
      "\<forall>i \<in> set gone. i \<notin> mandatory_ids s"
      using "2.IH"(1)[OF n c True m rest] by blast
    have "unaffordable cost s used i" using True m c at by (auto simp: unaffordable_def)
    moreover have "(\<forall>x \<in> set add. 0 \<le> ex_cost_bytes x) \<Longrightarrow> used \<le> used'"
      using f(3) costs_nonneg[of add ex_cost_bytes] by simp
    ultimately have "(\<forall>x \<in> set add. 0 \<le> ex_cost_bytes x) \<longrightarrow> unaffordable cost s used' i"
      using unaffordable_mono by blast
    then show ?thesis using f m by (intro exI[of _ add] exI[of _ "i # gone"]) auto
  next
    case False
    then have rest: "extract_nodes cost s is (used + c) (xs @ [extract_of s n c]) om = Inr (used', xs', om')"
      using "2.prems" n c by auto
    obtain add gone where f: "xs' = (xs @ [extract_of s n c]) @ add" "om' = om @ gone"
      "used' = (used + c) + sum_list (map ex_cost_bytes add)"
      "mset (map ex_node_id add) + mset gone = mset is" "\<forall>x \<in> set add. extracted cost s x"
      "(\<forall>x \<in> set add. 0 \<le> ex_cost_bytes x) \<longrightarrow> (\<forall>i \<in> set gone. unaffordable cost s used' i)"
      "\<forall>i \<in> set gone. i \<notin> mandatory_ids s"
      using "2.IH"(2)[OF n c False rest] by blast
    have "extracted cost s (extract_of s n c)" using at c by (auto simp: extracted_def)
    then show ?thesis using f at(2)
      by (intro exI[of _ "extract_of s n c # add"] exI[of _ gone]) (auto simp: extract_of_def)
  qed
qed simp

lemma extraction_order_members:
  assumes "extraction_order s = Inr order"
  shows "mset order = mset (remdups (map nd_node_id (sn_nodes s)))"
proof -
  obtain ps where ps: "mapR (\<lambda>i. bindR (rank_by_id s i) (\<lambda>k. Inr ((if i \<in> mandatory_ids s then 0 :: int else 1, k), i)))
      (remdups (map nd_node_id (sn_nodes s))) = Inr ps" and o: "order = map snd (sort_key fst ps)"
    using assms by (auto simp: extraction_order_def result_simps)
  have "list_all2 (\<lambda>i p. snd p = i) (remdups (map nd_node_id (sn_nodes s))) ps"
    using ps unfolding mapR_eq_Inr by (rule list_all2_mono) (auto simp: result_simps)
  then have "map snd ps = remdups (map nd_node_id (sn_nodes s))" by (induction rule: list_all2_induct) auto
  moreover have "mset order = mset (map snd ps)" unfolding o by simp
  ultimately show ?thesis by simp
qed

section \<open>The compaction\<close>

lemma revalidate_compaction:
  assumes "context_artifact_from_value CTX_COMPACTION (CompactionValue c) = Inr a" and "revalidate CTX_COMPACTION a = Inr b"
  shows "b = a" "wf_compaction c"
proof -
  have a: "ca_type a = CTX_COMPACTION" "ca_value a = CompactionValue c" using assms(1) by (simp_all add: from_value_iff)
  obtain c' where "parse_compaction (context_compaction_to_dict c) = Inr c'" "ca_value b = CompactionValue c'"
    using revalidate_value[OF assms(2)] a by (auto simp: bindR_eq_Inr)
  then show "b = a" "wf_compaction c"
    using compaction_exact compaction_codec.parse_wf a revalidate_same[OF assms(2)] by (auto intro!: context_artifact.equality)
qed

abbreviation snapshot_artifact :: "string \<Rightarrow> context_snapshot \<Rightarrow> context_artifact" where
  "snapshot_artifact i s \<equiv> \<lparr>ca_type = CTX_SNAPSHOT, ca_id = i, ca_value = SnapshotValue s\<rparr>"

lemma revalidate_snapshot_artifact:
  assumes "revalidate CTX_SNAPSHOT (snapshot_artifact i s) = Inr b"
  shows "b = snapshot_artifact i s" "wf_snapshot s"
proof -
  obtain s' where "parse_snapshot (context_snapshot_to_dict s) = Inr s'" "ca_value b = SnapshotValue s'"
    using revalidate_value[OF assms] by (auto simp: bindR_eq_Inr)
  then show "b = snapshot_artifact i s" "wf_snapshot s"
    using snapshot_exact parse_snapshot_wf revalidate_same[OF assms] by (auto intro!: context_artifact.equality)
qed

lemma compact_parts:
  assumes "compact ports cost (snapshot_artifact sid s) owner summary = Inr a"
  obtains p c where "summary_of (snapshot_artifact sid s) s summary = Inr p" "verify_snapshot_sources ports s owner = Inr ()"
    "compaction_of cost sid s p = Inr c" "ca_value a = CompactionValue c" "wf_compaction c" "wf_snapshot s"
    "ca_type a = CTX_COMPACTION"
proof -
  obtain x where x: "revalidate CTX_SNAPSHOT (snapshot_artifact sid s) = Inr x"
    using assms by (auto simp: compact_def snapshot_in_def strictly_validate_def result_simps)
  note sx = revalidate_snapshot_artifact[OF x]
  obtain p c y where p: "summary_of (snapshot_artifact sid s) s summary = Inr p"
    "verify_snapshot_sources ports s owner = Inr ()" "compaction_of cost sid s p = Inr c"
    and y: "context_artifact_from_value CTX_COMPACTION (CompactionValue c) = Inr y" "revalidate CTX_COMPACTION y = Inr a"
    using assms x unfolding sx(1) compact_def snapshot_in_def strictly_validate_def translating_def
    by (auto simp: bindR_eq_Inr)
  note r = revalidate_compaction[OF y]
  have "ca_value a = CompactionValue c" "ca_type a = CTX_COMPACTION" using y(1) unfolding r(1) by (simp_all add: from_value_iff)
  then show thesis using that p r(2) sx(2) by blast
qed

lemma mandatory_of_wf: "wf_snapshot s \<Longrightarrow> mandatory_ids s \<subseteq> set (map nd_node_id (sn_nodes s))"
  by (auto simp: mandatory_ids_def wf_snapshot_def wf_nodes_def list_all_iff wf_edge_def endpoints_def contradictions_def)

lemma made_compaction:
  assumes b: "compact ports cost (snapshot_artifact sid s) owner summary = Inr a" and v: "ca_value a = CompactionValue c"
  shows "wf_compaction c" "co_snapshot_id c = sid" "co_candidate c = sn_candidate s"
    "set (map ex_node_id (co_extracts c)) \<union> set (co_omitted_node_ids c) = set (map nd_node_id (sn_nodes s))"
    "\<forall>x \<in> set (co_extracts c). extracted cost s x" "mandatory_ids s \<subseteq> set (map ex_node_id (co_extracts c))"
    "\<forall>i \<in> set (co_omitted_node_ids c). unaffordable cost s (co_used_bytes c) i"
    "co_used_bytes c = sum_list (map ex_cost_bytes (co_extracts c))" "co_used_bytes c \<le> sn_budget_bytes s"
    "co_unresolved_contradiction_ids c = sn_unresolved_contradiction_ids s"
    "\<forall>n \<in> set (sn_nodes s). authentic_node ports (sn_as_of s) n = Inr ()" "wf_snapshot s"
proof -
  obtain p c' where p: "verify_snapshot_sources ports s owner = Inr ()" "compaction_of cost sid s p = Inr c'"
    "ca_value a = CompactionValue c'" "wf_compaction c'" "wf_snapshot s"
    by (rule compact_parts[OF b])
  have c: "c' = c" using p(3) v by simp
  obtain order xs om where o: "extraction_order s = Inr order"
    and x: "extract_nodes cost s order 0 [] [] = Inr (co_used_bytes c, xs, om)"
    and parts: "co_extracts c = sort_key ex_node_id xs" "co_omitted_node_ids c = sort om" "co_snapshot_id c = sid"
      "co_candidate c = sn_candidate s" "co_budget_bytes c = sn_budget_bytes s"
      "co_unresolved_contradiction_ids c = sn_unresolved_contradiction_ids s"
    using p(2) by (auto simp: c compaction_of_def result_simps)
  show w: "wf_compaction c" "wf_snapshot s" using p c by simp_all
  then have pos: "\<forall>x \<in> set xs. 0 \<le> ex_cost_bytes x"
    and used: "co_used_bytes c = sum_list (map ex_cost_bytes (co_extracts c))" "co_used_bytes c \<le> sn_budget_bytes s"
    using parts by (auto simp: wf_compaction_def list_all_iff wf_extract_def)
  have m: "mset (map ex_node_id xs) + mset om = mset order \<and> (\<forall>x \<in> set xs. extracted cost s x) \<and>
      (\<forall>i \<in> set om. unaffordable cost s (co_used_bytes c) i) \<and> (\<forall>i \<in> set om. i \<notin> mandatory_ids s)"
    using extract_nodes_facts[OF x] pos by auto
  then have "set (map ex_node_id xs @ om) = set order" by (metis mset_append mset_eq_setD)
  moreover have "set order = set (map nd_node_id (sn_nodes s))"
    using mset_eq_setD[OF extraction_order_members[OF o]] by simp
  ultimately have all: "set (map ex_node_id (co_extracts c)) \<union> set (co_omitted_node_ids c) = set (map nd_node_id (sn_nodes s))"
    by (simp add: parts)
  then show "set (map ex_node_id (co_extracts c)) \<union> set (co_omitted_node_ids c) = set (map nd_node_id (sn_nodes s))" .
  have omit: "set (co_omitted_node_ids c) \<inter> mandatory_ids s = {}" using m by (auto simp: parts)
  show "mandatory_ids s \<subseteq> set (map ex_node_id (co_extracts c))"
    using all omit mandatory_of_wf[OF w(2)] by blast
  show "\<forall>x \<in> set (co_extracts c). extracted cost s x" "\<forall>i \<in> set (co_omitted_node_ids c). unaffordable cost s (co_used_bytes c) i"
    using m by (simp_all add: parts)
  show "co_snapshot_id c = sid" "co_candidate c = sn_candidate s"
    "co_unresolved_contradiction_ids c = sn_unresolved_contradiction_ids s" using parts by simp_all
  show "co_used_bytes c = sum_list (map ex_cost_bytes (co_extracts c))" "co_used_bytes c \<le> sn_budget_bytes s"
    using used by simp_all
  show "\<forall>n \<in> set (sn_nodes s). authentic_node ports (sn_as_of s) n = Inr ()"
    using p(1) by (auto simp: verify_snapshot_sources_def authentic_sources_def result_simps mapR_units)
qed

section \<open>Host summaries\<close>

lemma digests_exact: "sorted_of lo hi sha256_value (JArr (map JStr xs)) = Inr ys \<Longrightarrow> ys = xs"
  by (rule sorted_exact[of sha256_value JStr]) (auto intro!: exactI simp: sha256_value_iff)

lemma claim_exact: "exact parse_linked_claim claim_to_dict"
  unfolding parse_linked_claim_def claim_to_dict_def
  by (rule exactI, clarsimp simp: get_Cons result_simps) (auto dest!: part_exact digests_exact)

lemma proposal_exact: "parse_host_summary (host_proposal_to_dict p) = Inr p' \<Longrightarrow> p' = p"
  unfolding parse_host_summary_def host_proposal_to_dict_def
  by (cases p) (clarsimp simp: get_Cons result_simps exact_simps, auto dest!: array_exact[OF claim_exact])

lemma revalidate_proposal:
  assumes "revalidate CTX_HOST_SUMMARY_PROPOSAL h = Inr b" and "ca_value h = ProposalValue p"
  shows "b = h" "wf_proposal p"
proof -
  obtain p' where "parse_host_summary (host_proposal_to_dict p) = Inr p'" "ca_value b = ProposalValue p'"
    using revalidate_value[OF assms(1)] assms(2) by (auto simp: bindR_eq_Inr)
  then show "b = h" "wf_proposal p"
    using proposal_exact proposal_codec.parse_wf assms(2) revalidate_same[OF assms(1)]
    by (auto intro!: context_artifact.equality)
qed

text \<open>A claim cites nodes of the snapshot with the digests of their texts.\<close>

definition cites :: "context_snapshot \<Rightarrow> source_linked_claim \<Rightarrow> bool" where
  "cites s c = (\<exists>nodes. set nodes \<subseteq> set (sn_nodes s) \<and> map nd_node_id nodes = cl_source_node_ids c \<and>
     cl_extract_sha256s c = sort (map (text_digest \<circ> nd_text) nodes))"

lemma claim_linked_cites:
  assumes "claim_linked s c = Inr ()" and "wf_snapshot s"
  shows "cites s c"
proof -
  obtain nodes where n: "mapR (node_at (sn_nodes s)) (cl_source_node_ids c) = Inr nodes"
    "cl_extract_sha256s c = sort (map nd_text_sha256 nodes)"
    using assms(1) by (auto simp: claim_linked_def result_simps)
  have "list_all2 (\<lambda>i n. nd_node_id n = i \<and> n \<in> set (sn_nodes s)) (cl_source_node_ids c) nodes"
    using n(1) by (auto simp: mapR_eq_Inr node_at_iff dest: node_index_in elim!: list_all2_mono)
  then have m: "map nd_node_id nodes = cl_source_node_ids c" "set nodes \<subseteq> set (sn_nodes s)"
    by (induction rule: list_all2_induct) auto
  have "nd_text_sha256 n = text_digest (nd_text n)" if "n \<in> set nodes" for n
    using assms(2) m(2) that by (auto simp: wf_snapshot_def wf_nodes_def list_all_iff wf_node_def)
  then have "map nd_text_sha256 nodes = map (text_digest \<circ> nd_text) nodes" by simp
  then show ?thesis using m n(2) unfolding cites_def by metis
qed

lemma max_of_two: "max_sensitivity [x, y] = Inr z \<Longrightarrow> sensitivity_rank x \<le> sensitivity_rank z \<and> sensitivity_rank y \<le> sensitivity_rank z"
  by (auto split: if_splits)

lemma linked_summary:
  assumes b: "compact ports cost (snapshot_artifact sid sn) owner (Some h) = Inr a" and v: "ca_value a = CompactionValue c"
  shows "\<exists>p. ca_value h = ProposalValue p \<and> wf_proposal p \<and> hp_snapshot_id p = sid \<and>
    co_host_summary_proposal_id c = Some (ca_id h) \<and> (\<forall>cl \<in> set (hp_claims p). cites sn cl) \<and>
    sensitivity_rank (sn_sensitivity sn) \<le> sensitivity_rank (hp_sensitivity p) \<and>
    sensitivity_rank (hp_sensitivity p) \<le> sensitivity_rank (co_sensitivity c)"
proof -
  obtain ps c' where s: "summary_of (snapshot_artifact sid sn) sn (Some h) = Inr ps" "compaction_of cost sid sn ps = Inr c'"
    "ca_value a = CompactionValue c'" "wf_snapshot sn"
    by (rule compact_parts[OF b])
  have c: "co_host_summary_proposal_id c = fst ps" "co_sensitivity c = snd ps"
    using s(2,3) v by (auto simp: compaction_of_def result_simps)
  obtain p where p: "ca_value h = ProposalValue p" "proposal_in h = Some p"
    using s(1) by (auto simp: summary_of_def proposal_in_def split: option.splits if_splits context_value.splits)
  obtain x where x: "revalidate CTX_HOST_SUMMARY_PROPOSAL h = Inr x"
    using s(1) p(2) by (auto simp: summary_of_def strictly_validate_def result_simps)
  note rx = revalidate_proposal[OF x p(1)]
  obtain i sens where i: "validate_host_proposal (snapshot_artifact sid sn) h = Inr i"
    "max_sensitivity [sn_sensitivity sn, hp_sensitivity p] = Inr sens" "ps = (Some i, sens)"
    using s(1) p(2) x unfolding rx(1)
    by (auto simp: summary_of_def strictly_validate_def translating_def bindR_eq_Inr simp del: max_sensitivity.simps)
  have l: "hp_snapshot_id p = sid" "\<not> sensitivity_rank (hp_sensitivity p) < sensitivity_rank (sn_sensitivity sn)"
    "\<forall>cl \<in> set (hp_claims p). claim_linked sn cl = Inr ()" "i = ca_id h"
    using i(1) p(2) by (auto simp: validate_host_proposal_def snapshot_in_def result_simps mapR_units)
  show ?thesis
    using p(1) rx(2) l c i(3) claim_linked_cites[OF _ s(4)] max_of_two[OF i(2)] by auto
qed

end
