(* ===== verification/ContextSamples.thy ===== *)
theory ContextSamples
  imports ContextSizes IndexOutcomes CompactionOutcomes
begin

text \<open>
  One specification file on its way through the context services: manifest, graph, query, selection,
  snapshot, compaction and quality report, each with its computed identity.  The witnesses of the
  context properties use it.  Digests stay symbolic.
\<close>

section \<open>Identities\<close>

definition context_prefix_ok :: "string \<Rightarrow> bool" where
  "context_prefix_ok p = (id_prefix_ok p \<and> starts ''CTX-'' p \<and> 4 < length p \<and> last p = CHR ''-'' \<and>
     butlast (drop 4 p) \<noteq> [] \<and> list_all (\<lambda>c. is_upper c \<or> c = CHR ''-'') (butlast (drop 4 p)) \<and> length p \<le> 64)"

lemma digest_context_id:
  assumes "context_prefix_ok p"
  shows "wf_context_id p (p @ sha256_hex bytes)"
proof -
  note len = sha256_hex_shape(1)[of bytes]
  have "wf_solver_id p (p @ sha256_hex bytes)" using assms by (intro digest_id_wf) (simp add: context_prefix_ok_def)
  then have "plain_text 128 (p @ sha256_hex bytes)"
    using assms len by (simp add: wf_solver_id_def plain_text_def context_prefix_ok_def)
  moreover have "hex64 (sha256_hex bytes)"
    using sha256_hex_shape[where t = bytes] hex_digit_plain by (simp add: hex64_def list_all_iff)
  moreover have "p \<noteq> []" using assms by (auto simp: context_prefix_ok_def)
  ultimately show ?thesis
    using assms len by (simp add: wf_context_id_def context_id_pattern_def context_prefix_ok_def starts_def Let_def)
qed

lemma context_prefixes: "context_prefix_ok ''CTX-SOURCE-''" "context_prefix_ok ''CTX-NODE-''"
    "context_prefix_ok ''CTX-EDGE-''" "context_prefix_ok ''CTX-MANIFEST-''" "context_prefix_ok ''CTX-GRAPH-''"
    "context_prefix_ok ''CTX-QUERY-''" "context_prefix_ok ''CTX-SELECTION-''" "context_prefix_ok ''CTX-SNAPSHOT-''"
  by code_simp+

lemma digest_text: "wf_digest (sha256_hex bytes)"
proof -
  have "hex64 (sha256_hex bytes)"
    using sha256_hex_shape[where t = bytes] hex_digit_plain by (simp add: hex64_def list_all_iff)
  moreover have "wf_solver_id [] ([] @ sha256_hex bytes)"
    by (rule digest_id_wf) (simp add: id_prefix_ok_def)
  ultimately show ?thesis
    using sha256_hex_shape(1)[of bytes] by (simp add: wf_digest_def wf_solver_id_def plain_text_def)
qed

section \<open>The source and its manifest\<close>

definition letters :: string where
  "letters = replicate 64 (CHR ''A'')"

definition spec_candidate :: candidate_identity where
  "spec_candidate = \<lparr>source_spec_sha256 = letters, git_head = replicate 40 (CHR ''a''), repository_digest = letters\<rparr>"

definition spec_locator :: source_locator where
  "spec_locator = \<lparr>lo_root_scope = SCOPE_REPOSITORY, lo_path = ''SPEC.md'', lo_sha256 = letters,
     lo_line_start = 1, lo_line_end = 1\<rparr>"

definition spec_provenance :: context_provenance where
  "spec_provenance = \<lparr>pv_producer = ''Team'', pv_recorded_by = ''Team'',
     pv_references = [\<lparr>ref_path = ''SPEC.md'', ref_sha256 = letters\<rparr>]\<rparr>"

definition spec_freshness :: freshness where
  "spec_freshness = \<lparr>fr_kind = CANDIDATE_BOUND, fr_observed_at = None, fr_valid_until = None\<rparr>"

definition open_source :: context_source where
  "open_source = \<lparr>sc_source_id = [], sc_kind = KIND_SPECIFICATION, sc_title = ''Spec'', sc_locator = spec_locator,
     sc_provenance = spec_provenance, sc_authority = CANONICAL_SPECIFICATION, sc_freshness = spec_freshness,
     sc_sensitivity = PUBLIC, sc_identifiers = [], sc_labels = [], sc_required = True\<rparr>"

definition spec_source :: context_source where
  "spec_source = open_source\<lparr>sc_source_id := ''CTX-SOURCE-'' @ sha256_hex (dumps (declared_content_dict open_source))\<rparr>"

definition spec_manifest :: context_manifest where
  "spec_manifest = \<lparr>cm_candidate = spec_candidate, cm_sensitivity = PUBLIC, cm_sources = [spec_source], cm_relationships = []\<rparr>"

definition spec_text :: string where
  "spec_text = ''One.''"

definition spec_ports :: context_ports where
  "spec_ports = \<lparr>po_candidate = (\<lambda>_ _. Inr ()),
     po_observe = (\<lambda>_ _ _. Inr \<lparr>ob_selected = spec_text, ob_length = 4, ob_json = None\<rparr>),
     po_reference = (\<lambda>_ _ _. Inr ()), po_publish = (\<lambda>_. Inr ())\<rparr>"

definition open_node :: context_node where
  "open_node = \<lparr>nd_node_id = [], nd_source_id = sc_source_id spec_source, nd_kind = KIND_SPECIFICATION,
     nd_title = ''Spec'', nd_text = spec_text, nd_text_sha256 = text_digest spec_text, nd_locator = spec_locator,
     nd_provenance = spec_provenance, nd_authority = CANONICAL_SPECIFICATION, nd_freshness = spec_freshness,
     nd_sensitivity = PUBLIC, nd_identifiers = [], nd_labels = [], nd_required = True\<rparr>"

definition spec_node :: context_node where
  "spec_node = open_node\<lparr>nd_node_id := ''CTX-NODE-'' @ sha256_hex (dumps (node_content_dict open_node))\<rparr>"

definition spec_graph :: "string \<Rightarrow> context_graph" where
  "spec_graph mid = \<lparr>cg_candidate = spec_candidate, cg_manifest_id = mid, cg_sensitivity = PUBLIC,
     cg_nodes = [spec_node], cg_edges = [], cg_excluded_sources = []\<rparr>"

lemmas part_dicts = locator_to_dict_def provenance_to_dict_def freshness_to_dict_def candidate_to_dict_def
  reference_to_dict_def enc_option_def

lemmas spec_parts = spec_locator_def spec_provenance_def spec_freshness_def spec_candidate_def

lemma spec_texts: "\<not> secret_text spec_text" "list_all (\<lambda>c. code c \<noteq> 0) spec_text" "length (utf8_bytes spec_text) = 4"
    "\<not> secret_text ''Spec''" "list_all (\<lambda>c. code c \<noteq> 0) ''Spec''" "\<not> list_all py_space ''Spec''"
    "\<not> secret_text ''Team''" "list_all (\<lambda>c. code c \<noteq> 0) ''Team''" "\<not> list_all py_space ''Team''"
    "safe_path ''SPEC.md''" "wf_digest letters" "wf_candidate spec_candidate"
  by code_simp+

lemma spec_text_wf: "wf_text source_bytes True spec_text" "wf_text 500 False ''Spec''" "wf_text 100 False ''Team''"
  using spec_texts(1-9) by (simp_all add: wf_text_def del: list.pred_inject) (simp add: spec_text_def)

lemma spec_parts_wf: "wf_locator spec_locator" "wf_provenance spec_provenance" "wf_freshness spec_freshness"
  using spec_texts spec_text_wf
  by (simp_all add: wf_locator_def wf_provenance_def wf_freshness_def spec_parts wf_reference_def freshness_window_def)

lemma node_contents_fit: "fits 250000 64 (node_content_dict open_node)" "fits 250000 64 (node_content_dict spec_node)"
    "fits 250000 64 (declared_content_dict open_source)" "fits 250000 64 (declared_content_dict spec_source)"
    "fits 250000 64 (source_content_dict spec_node)"
  by (simp_all add: fits_def ascii_text_def node_content_dict_def declared_content_dict_def source_content_dict_def
      part_dicts spec_parts spec_node_def open_node_def spec_source_def open_source_def)

end
