(* ===== verification/ContextPipeline.thy ===== *)
theory ContextPipeline
  imports ContextSamples
begin

text \<open>
  The specification of ContextSamples through the services: its graph, a query, the selection, the
  snapshot, a compaction and the quality report, each computed by its definition.
\<close>

section \<open>The node\<close>

lemma spec_node_fields [simp]: "nd_kind spec_node = KIND_SPECIFICATION" "nd_title spec_node = ''Spec''"
    "nd_text spec_node = spec_text" "nd_text_sha256 spec_node = text_digest spec_text" "nd_locator spec_node = spec_locator"
    "nd_provenance spec_node = spec_provenance" "nd_authority spec_node = CANONICAL_SPECIFICATION"
    "nd_freshness spec_node = spec_freshness" "nd_sensitivity spec_node = PUBLIC" "nd_identifiers spec_node = []"
    "nd_labels spec_node = []" "nd_required spec_node = True" "nd_source_id spec_node = sc_source_id spec_source"
  by (simp_all add: spec_node_def open_node_def)

lemma spec_contents: "node_content_dict spec_node = node_content_dict open_node"
    "declared_content_dict spec_source = declared_content_dict open_source"
    "source_content_dict spec_node = declared_content_dict open_source"
  by (simp_all add: node_content_dict_def declared_content_dict_def source_content_dict_def spec_node_def
      open_node_def spec_source_def open_source_def)

lemma spec_ids: "source_identity (declared_content_dict open_source) = Inr (sc_source_id spec_source)"
    "node_identity (node_content_dict open_node) = Inr (nd_node_id spec_node)"
    "wf_context_id ''CTX-SOURCE-'' (sc_source_id spec_source)" "wf_context_id ''CTX-NODE-'' (nd_node_id spec_node)"
  using digest_context_id[OF context_prefixes(1)] digest_context_id[OF context_prefixes(2)]
  by (simp_all add: source_identity_def node_identity_def fits_context_identity node_contents_fit)
    (simp_all add: spec_source_def spec_node_def)

lemma spec_authority: "node_authority spec_node = Inr ()"
    "validate_immutable_context spec_locator spec_provenance CANONICAL_SPECIFICATION spec_freshness = Inr ()"
  by (simp_all add: node_authority_def validate_context_authority_def validate_immutable_context_def authoritative_def
      self_reference_def spec_parts)

lemma spec_node_wf: "wf_node spec_node"
  using spec_ids spec_parts_wf spec_text_wf spec_authority
  by (simp add: wf_node_def spec_contents digest_text text_digest_def wf_sorted_def)

lemma spec_bound: "bound_specification spec_candidate [spec_node]"
  by (simp add: bound_specification_def spec_parts)

lemma spec_graph_wf:
  assumes "wf_context_id ''CTX-MANIFEST-'' mid"
  shows "wf_context_graph (spec_graph mid)"
  using assms spec_node_wf spec_authority spec_bound spec_texts(3,12)
  by (simp add: wf_context_graph_def wf_nodes_def spec_graph_def text_bytes_def)

lemma id_lengths: "length (sc_source_id spec_source) = 75" "length (nd_node_id spec_node) = 73"
    "length (text_digest spec_text) = 64" "length letters = 64"
  by (simp_all add: spec_source_def spec_node_def sha256_hex_shape text_digest_def letters_def)

lemma spec_node_fits: "fits 40 4 (node_to_dict spec_node)"
  by (simp add: fits_def ascii_text_def node_to_dict_def part_dicts spec_parts)

lemma spec_text_length: "length (text_digest t) = 64" "length spec_text = 4"
  by (simp_all add: text_digest_def sha256_hex_shape spec_text_def)

lemma spec_node_weight: "weight (Suc (Suc (Suc 0))) (node_to_dict spec_node) \<le> 8000"
  by (simp add: node_to_dict_def part_dicts spec_parts id_lengths spec_text_length sensitivity_value.simps)

lemma spec_graph_dict: "fits 300 6 (context_graph_to_dict (spec_graph mid))"
proof -
  have "fits 41 5 (JArr [node_to_dict spec_node])"
    by (rule fits_arr[where b = 40 and d = 4]) (simp_all add: spec_node_fits)
  moreover have "fits 41 5 (JArr [])" by (simp add: fits_def)
  ultimately show ?thesis unfolding context_graph_to_dict_def spec_graph_def
    by (intro fits_obj[where b = 41 and d = 5]) (simp_all add: ascii_text_def)
qed

lemma spec_graph_weight: "weight 1 (context_graph_to_dict (spec_graph mid)) \<le> 15000 + 6 * length mid"
  using spec_node_weight
  by (simp add: context_graph_to_dict_def spec_graph_def part_dicts spec_candidate_def id_lengths sensitivity_value.simps)

section \<open>From the manifest to the graph\<close>

definition manifest_artifact :: context_artifact where
  "manifest_artifact = identified_artifact CTX_MANIFEST (ManifestValue spec_manifest)"

definition indexed_graph :: context_graph where
  "indexed_graph = spec_graph (ca_id manifest_artifact)"

definition indexed_artifact :: context_artifact where
  "indexed_artifact = identified_artifact CTX_GRAPH (GraphValue indexed_graph)"

lemma manifest_id_wf: "wf_context_id ''CTX-MANIFEST-'' (ca_id manifest_artifact)"
  using digest_context_id[OF context_prefixes(4)]
  by (simp add: manifest_artifact_def identified_artifact_def context_prefix_def)

lemma indexed_graph_wf: "wf_context_graph indexed_graph"
  unfolding indexed_graph_def by (rule spec_graph_wf[OF manifest_id_wf])

lemma indexed_artifact_made: "context_artifact_from_value CTX_GRAPH (GraphValue indexed_graph) = Inr indexed_artifact"
    "revalidate CTX_GRAPH indexed_artifact = Inr indexed_artifact"
proof -
  have "weight 1 (context_graph_to_dict indexed_graph) \<le> 900000"
    using spec_graph_weight[of "ca_id manifest_artifact"] identified_id_length[of CTX_MANIFEST "ManifestValue spec_manifest"]
    by (simp add: indexed_graph_def manifest_artifact_def)
  moreover have "fits 1000 60 (context_graph_to_dict indexed_graph)"
    unfolding indexed_graph_def by (rule fits_mono[OF spec_graph_dict]) simp_all
  ultimately show "context_artifact_from_value CTX_GRAPH (GraphValue indexed_graph) = Inr indexed_artifact"
    "revalidate CTX_GRAPH indexed_artifact = Inr indexed_artifact"
    unfolding indexed_artifact_def using identified_artifact_made[of CTX_GRAPH "GraphValue indexed_graph"] indexed_graph_wf by simp_all
qed

lemma spec_source_fields [simp]: "sc_kind spec_source = KIND_SPECIFICATION" "sc_title spec_source = ''Spec''"
    "sc_locator spec_source = spec_locator" "sc_provenance spec_source = spec_provenance"
    "sc_authority spec_source = CANONICAL_SPECIFICATION" "sc_freshness spec_source = spec_freshness"
    "sc_sensitivity spec_source = PUBLIC" "sc_identifiers spec_source = []" "sc_labels spec_source = []"
    "sc_required spec_source = True"
  by (simp_all add: spec_source_def open_source_def)

lemma spec_ports_fields [simp]: "po_candidate spec_ports k c = Inr ()" "po_reference spec_ports i r a = Inr ()"
    "po_observe spec_ports i r l = Inr \<lparr>ob_selected = spec_text, ob_length = 4, ob_json = None\<rparr>" "po_publish spec_ports b = Inr ()"
  by (simp_all add: spec_ports_def)

lemma spec_source_observed: "observe_source spec_ports spec_source = Inr \<lparr>ob_selected = spec_text, ob_length = 4, ob_json = None\<rparr>"
  using spec_authority(1) by (simp add: observe_source_def source_authority_def node_authority_def) (simp add: spec_parts)

lemma spec_source_node: "node_of_source spec_source \<lparr>ob_selected = spec_text, ob_length = 4, ob_json = None\<rparr> = Inr spec_node"
proof -
  have "\<lparr>nd_node_id = [], nd_source_id = sc_source_id spec_source, nd_kind = KIND_SPECIFICATION,
     nd_title = ''Spec'', nd_text = spec_text, nd_text_sha256 = text_digest spec_text, nd_locator = spec_locator,
     nd_provenance = spec_provenance, nd_authority = CANONICAL_SPECIFICATION, nd_freshness = spec_freshness,
     nd_sensitivity = PUBLIC, nd_identifiers = [], nd_labels = [], nd_required = True\<rparr> = open_node"
    by (simp add: open_node_def)
  then have "node_of_source spec_source \<lparr>ob_selected = spec_text, ob_length = 4, ob_json = None\<rparr> =
      Inr (open_node\<lparr>nd_node_id := nd_node_id spec_node\<rparr>)" using spec_ids(2) by (simp add: node_of_source_def)
  then show ?thesis by (simp add: spec_node_def)
qed

lemma spec_indexed: "build_graph spec_ports manifest_artifact False = Inr indexed_artifact"
proof -
  have "bound_source spec_manifest"
    by (simp add: bound_source_def spec_manifest_def spec_parts)
  moreover have "adopt_sources spec_ports [spec_source] 0 [] [] = Inr ([spec_node], [])"
    by (simp add: spec_source_observed spec_source_node total_source_bytes_def)
  ultimately have "index_manifest spec_ports (ca_id manifest_artifact) spec_manifest False = Inr indexed_graph"
    by (simp add: index_manifest_def spec_manifest_def indexed_graph_def spec_graph_def) (simp add: spec_parts)
  moreover have "manifest_in manifest_artifact = Some spec_manifest"
    by (simp add: manifest_in_def manifest_artifact_def)
  ultimately show ?thesis using indexed_artifact_made by (simp add: build_graph_def)
qed

section \<open>The selection\<close>

definition spec_query :: context_query where
  "spec_query = \<lparr>cq_candidate = spec_candidate, cq_graph_id = ca_id indexed_artifact, cq_as_of = ''2026-01-01T00:00:00Z'',
     cq_clearance = PUBLIC, cq_required_node_ids = [], cq_seed_node_ids = [], cq_identifiers = [], cq_terms = [],
     cq_allowed_edge_types = [DEPENDS_ON],
     cq_budget = \<lparr>cb_budget_bytes = 65536, cb_max_nodes = 10, cb_max_edges = 10, cb_max_traversal_depth = 2\<rparr>\<rparr>"

definition query_artifact :: context_artifact where
  "query_artifact = identified_artifact CTX_QUERY (QueryValue spec_query)"

definition spec_cost :: int where
  "spec_cost = int (length (dumps (node_content_dict open_node)))"

definition spec_decision :: selection_decision where
  "spec_decision = \<lparr>sd_node_id = nd_node_id spec_node, sd_reasons = [''required-reference''], sd_phase = 0,
     sd_authority_rank = authority_rank CANONICAL_SPECIFICATION, sd_graph_distance = 0, sd_lexical_score = 0,
     sd_sensitivity_rank = int (sensitivity_rank PUBLIC), sd_cost_bytes = spec_cost\<rparr>"

definition spec_selection :: context_selection where
  "spec_selection = \<lparr>cs_candidate = spec_candidate, cs_graph_id = ca_id indexed_artifact, cs_query_id = ca_id query_artifact,
     cs_query = spec_query, cs_as_of = ''2026-01-01T00:00:00Z'', cs_sensitivity = PUBLIC, cs_selected = [spec_decision],
     cs_excluded = [], cs_selected_edge_ids = [], cs_unresolved_contradiction_ids = [], cs_edge_cost_bytes = 0,
     cs_used_bytes = spec_cost, cs_budget_bytes = 65536, cs_traversal_truncated = False\<rparr>"

lemma spec_cost: "canonical_size (node_content_dict open_node) = Inr spec_cost"
    "canonical_cost (node_content_dict open_node) = Inr spec_cost"
  using fits_canonical_size[OF node_contents_fit(1)] by (simp_all add: canonical_cost_def spec_cost_def)

lemma spec_cost_bounds: "1 \<le> spec_cost" "spec_cost \<le> 8000"
proof -
  show "1 \<le> spec_cost" by (simp add: spec_cost_def node_content_dict_def)
  have "weight 0 (node_content_dict spec_node) \<le> 8000"
    by (simp add: node_content_dict_def part_dicts spec_parts id_lengths spec_text_length sensitivity_value.simps)
  then show "spec_cost \<le> 8000" using dumps_weight[of "node_content_dict spec_node" 0] by (simp add: spec_cost_def spec_contents)
qed

lemma indexed_graph_fields [simp]: "cg_nodes indexed_graph = [spec_node]" "cg_edges indexed_graph = []"
    "cg_candidate indexed_graph = spec_candidate"
  by (simp_all add: indexed_graph_def spec_graph_def)

lemma spec_query_fields [simp]: "cq_candidate spec_query = spec_candidate" "cq_graph_id spec_query = ca_id indexed_artifact"
    "cq_as_of spec_query = ''2026-01-01T00:00:00Z''" "cq_clearance spec_query = PUBLIC" "cq_required_node_ids spec_query = []"
    "cq_seed_node_ids spec_query = []" "cq_identifiers spec_query = []" "cq_terms spec_query = []"
    "cq_budget spec_query = \<lparr>cb_budget_bytes = 65536, cb_max_nodes = 10, cb_max_edges = 10, cb_max_traversal_depth = 2\<rparr>"
  by (simp_all add: spec_query_def)

lemma spec_retrieved: "retrieve indexed_graph spec_query = Inr \<lparr>rt_direct = {nd_node_id spec_node},
    rt_required = {nd_node_id spec_node}, rt_eligible = {nd_node_id spec_node}, rt_excluded = [],
    rt_distances = [(nd_node_id spec_node, 0)],
    rt_ranking = required_ranking {nd_node_id spec_node} {nd_node_id spec_node},
    rt_scores = [nd_node_id spec_node \<mapsto> 0]\<rparr>"
proof -
  let ?i = "nd_node_id spec_node"
  have "classify_nodes spec_query {?i} [spec_node] {} [] = Inr ({?i}, [])"
    by (simp add: eligibility_problem_def) (simp add: spec_freshness_def)
  moreover have "closed_required {?i} (contradictions []) {?i} = Inr {?i}"
    by (simp add: contradictions_def closed_required.simps)
  moreover have "traverse indexed_graph spec_query {?i} = Inr [(?i, 0)]"
    by (simp add: traverse_def traverse_loop.simps neighbors_def)
  moreover have "required_ids indexed_graph spec_query = {?i}" "graph_ids indexed_graph = {?i}" "query_tokens spec_query = {}"
    by (simp_all add: required_ids_def graph_ids_def query_tokens_def)
  moreover have "lexical_scores {} [spec_node] = [?i \<mapsto> 0]" by (simp add: lexical_scores_def lexical_score_def)
  moreover have "graph_ranking {?i} {?i} [(?i, 0)] r = r" "identifier_ranking spec_query {?i} [spec_node] r = r"
    "lexical_ranking {} {?i} [spec_node] r = r" for r
    by (simp_all add: graph_ranking_def identifier_ranking_def lexical_ranking_def lexical_score_def)
  moreover have "fst ` set (rk_phases (required_ranking {?i} {?i})) = {?i}" by (simp add: required_ranking_def)
  ultimately show ?thesis
    by (simp add: retrieve_def Let_def exclude_all_def)
qed

lemma spec_selected: "select_context canonical_cost (ca_id indexed_artifact) indexed_graph (ca_id query_artifact) spec_query =
    Inr spec_selection"
proof -
  let ?i = "nd_node_id spec_node" and ?r = "required_ranking {nd_node_id spec_node} {nd_node_id spec_node}"
  have at: "node_at [spec_node] ?i = Inr spec_node" by (simp add: node_at_iff node_index_def)
  have costs: "node_costs canonical_cost [spec_node] {?i} = Inr spec_cost" "edge_costs canonical_cost [] = Inr 0"
    by (simp_all add: node_costs_def at total_cost_def spec_contents spec_cost edge_costs_def)
  obtain rt where rt: "retrieve indexed_graph spec_query = Inr rt" "rt_required rt = {?i}" "rt_ranking rt = ?r"
    "rt_excluded rt = []" "rt_eligible rt = {?i}" "rt_distances rt = [(?i, 0)]" "rt_scores rt = [?i \<mapsto> 0]"
    using spec_retrieved by simp
  let ?f = "\<lparr>fl_ids = {?i}, fl_edges = [], fl_used = spec_cost, fl_excluded = [], fl_ranking = ?r\<rparr>"
  have "candidate_ids rt = {?i}" by (simp add: candidate_ids_def rt required_ranking_def)
  then have filled: "filled canonical_cost indexed_graph spec_query rt = Inr ?f"
    using costs spec_cost_bounds
    by (simp add: filled_def required_filling_def rt induced_edges_def ranked_def)
  have "decision canonical_cost indexed_graph ?r [(?i, 0)] [?i \<mapsto> 0] ?i = Inr spec_decision"
    by (simp add: decision_def at key_at_def required_ranking_def spec_contents spec_cost distance_of_def spec_decision_def)
  then have "selection_of canonical_cost (ca_id indexed_artifact) indexed_graph (ca_id query_artifact) spec_query rt ?f = Inr spec_selection"
    using \<open>candidate_ids rt = {?i}\<close>
    by (simp add: selection_of_def rt costs at exclude_missing_def contradictions_def) (simp add: spec_selection_def spec_decision_def)
  then show ?thesis using rt(1) filled by (simp add: select_context_def)
qed

section \<open>The snapshot\<close>

definition selection_made :: context_artifact where
  "selection_made = identified_artifact CTX_SELECTION (SelectionValue spec_selection)"

definition spec_snapshot :: context_snapshot where
  "spec_snapshot = \<lparr>sn_candidate = spec_candidate, sn_graph_id = ca_id indexed_artifact, sn_query_id = ca_id query_artifact,
     sn_selection_id = ca_id selection_made, sn_as_of = ''2026-01-01T00:00:00Z'', sn_sensitivity = PUBLIC,
     sn_nodes = [spec_node], sn_edges = [], sn_selected = [spec_decision], sn_excluded = [],
     sn_unresolved_contradiction_ids = [], sn_context_bytes = spec_cost, sn_budget_bytes = 65536\<rparr>"

definition snapshot_made :: context_artifact where
  "snapshot_made = identified_artifact CTX_SNAPSHOT (SnapshotValue spec_snapshot)"

lemma query_fits: "fits 1000 60 (context_query_to_dict spec_query)"
  by (simp add: fits_def ascii_text_def context_query_to_dict_def context_budget_to_dict_def part_dicts spec_candidate_def
      spec_query_def)

lemma decision_fits: "fits 20 4 (decision_to_dict spec_decision)" "weight (Suc (Suc (Suc 0))) (decision_to_dict spec_decision) \<le> 20000"
  using spec_cost_bounds
  by (simp_all add: fits_def ascii_text_def decision_to_dict_def spec_decision_def id_lengths sensitivity_rank_def)

lemma selection_fits: "fits 1000 60 (context_selection_to_dict spec_selection)"
proof -
  have "fits 21 6 (JArr [decision_to_dict spec_decision])"
    by (rule fits_arr[where b = 20 and d = 4]) (simp_all add: decision_fits)
  then show ?thesis
    by (simp add: fits_def ascii_text_def context_selection_to_dict_def context_query_to_dict_def context_budget_to_dict_def
        part_dicts spec_candidate_def spec_query_def spec_selection_def)
qed

lemma spec_decision_wf: "wf_decision spec_decision" "decision_matches (spec_node, spec_decision) = Inr ()"
proof -
  have "\<not> secret_text ''required-reference''" "list_all (\<lambda>c. code c \<noteq> 0) ''required-reference''"
    "\<not> list_all py_space ''required-reference''" by code_simp+
  then have "wf_text 500 False ''required-reference''" by (simp add: wf_text_def del: list.pred_inject)
  then show "wf_decision spec_decision"
    using spec_cost_bounds spec_ids(4) by (simp add: wf_decision_def spec_decision_def wf_sorted_def sensitivity_rank_def)
  show "decision_matches (spec_node, spec_decision) = Inr ()"
    by (simp add: decision_matches_def spec_contents spec_cost) (simp add: spec_decision_def)
qed

lemma made_ids_wf: "wf_context_id ''CTX-GRAPH-'' (ca_id indexed_artifact)" "wf_context_id ''CTX-QUERY-'' (ca_id query_artifact)"
    "wf_context_id ''CTX-SELECTION-'' (ca_id selection_made)" "wf_context_id ''CTX-SNAPSHOT-'' (ca_id snapshot_made)"
  using digest_context_id[OF context_prefixes(5)] digest_context_id[OF context_prefixes(6)]
    digest_context_id[OF context_prefixes(7)] digest_context_id[OF context_prefixes(8)]
  by (simp_all add: indexed_artifact_def query_artifact_def selection_made_def snapshot_made_def identified_artifact_def
      context_prefix_def)

lemma made_id_lengths: "length (ca_id indexed_artifact) \<le> 91" "length (ca_id query_artifact) \<le> 91"
    "length (ca_id selection_made) \<le> 91" "length (ca_id snapshot_made) \<le> 91"
  by (simp_all add: indexed_artifact_def query_artifact_def selection_made_def snapshot_made_def identified_id_length)

lemma spec_time_wf: "wf_timestamp ''2026-01-01T00:00:00Z''"
  by code_simp

lemma spec_snapshot_wf: "wf_snapshot spec_snapshot"
  using spec_node_wf spec_authority spec_bound spec_texts(12) spec_decision_wf made_ids_wf spec_cost_bounds spec_time_wf
  by (simp add: wf_snapshot_def wf_nodes_def spec_snapshot_def content_bytes_def total_size_def spec_contents spec_cost
      contradiction_ids_def wf_sorted_def) (simp add: spec_decision_def)

lemma snapshot_fits: "fits 1000 60 (context_snapshot_to_dict spec_snapshot)"
proof -
  have "fits 41 5 (JArr [node_to_dict spec_node])"
    by (rule fits_arr[where b = 40 and d = 4]) (simp_all add: spec_node_fits)
  moreover have "fits 41 5 (JArr [decision_to_dict spec_decision])"
    by (rule fits_arr[where b = 20 and d = 4]) (simp_all add: decision_fits)
  moreover have "fits 41 5 (JArr [])" by (simp add: fits_def)
  ultimately show ?thesis unfolding context_snapshot_to_dict_def spec_snapshot_def
    by (intro fits_obj[where b = 41 and d = 5]) (simp_all add: ascii_text_def)
qed

lemma snapshot_made_ok: "context_artifact_from_value CTX_SNAPSHOT (SnapshotValue spec_snapshot) = Inr snapshot_made"
    "revalidate CTX_SNAPSHOT snapshot_made = Inr snapshot_made"
proof -
  have "weight 1 (context_snapshot_to_dict spec_snapshot) \<le> 900000"
    using spec_node_weight decision_fits(2) made_id_lengths spec_cost_bounds
    by (simp add: context_snapshot_to_dict_def spec_snapshot_def part_dicts spec_candidate_def id_lengths sensitivity_value.simps)
  then show "context_artifact_from_value CTX_SNAPSHOT (SnapshotValue spec_snapshot) = Inr snapshot_made"
    "revalidate CTX_SNAPSHOT snapshot_made = Inr snapshot_made"
    unfolding snapshot_made_def
    using identified_artifact_made[of CTX_SNAPSHOT "SnapshotValue spec_snapshot"] spec_snapshot_wf snapshot_fits by simp_all
qed

lemma spec_reobserved: "reobserve spec_ports as_of spec_node = Inr None"
  using spec_authority(1)
  by (simp add: reobserve_def content_problem_def references_problem_def catching_def)
    (simp add: spec_parts)

lemma spec_adopted: "adopted_parts spec_ports indexed_graph spec_selection False =
    Inr \<lparr>sp_nodes = [spec_node], sp_edges = [], sp_failed = [], sp_gone = {}\<rparr>"
proof -
  have at: "node_at [spec_node] (nd_node_id spec_node) = Inr spec_node" by (simp add: node_at_iff node_index_def)
  have "selected_parts indexed_graph spec_selection = Inr ([spec_node], [])"
    by (simp add: selected_parts_def spec_selection_def spec_decision_def at translating_def)
  moreover have "lo_root_scope spec_locator = SCOPE_REPOSITORY" by (simp add: spec_parts)
  ultimately show ?thesis
    by (simp add: adopted_parts_def owner_root_rule_def spec_reobserved induced_edges_def contradictions_def)
qed

lemma spec_snapshot_built: "build_snapshot spec_ports canonical_cost indexed_artifact selection_made False = Inr snapshot_made"
proof -
  have q: "context_artifact_from_value CTX_QUERY (QueryValue spec_query) = Inr query_artifact"
    using query_fits fits_mono[OF query_fits] by (simp add: query_artifact_def from_value_iff fits_context_identity)
      (simp add: identified_artifact_def fits_context_identity)
  have s: "context_artifact_from_value CTX_SELECTION (SelectionValue spec_selection) = Inr selection_made"
    using fits_mono[OF selection_fits] by (simp add: selection_made_def from_value_iff fits_context_identity)
      (simp add: identified_artifact_def fits_context_identity)
  have in_: "graph_in indexed_artifact = Some indexed_graph" "selection_in selection_made = Some spec_selection"
    by (simp_all add: graph_in_def selection_in_def indexed_artifact_def selection_made_def)
  have fields: "cs_graph_id spec_selection = ca_id indexed_artifact" "cs_candidate spec_selection = spec_candidate"
    "cs_query spec_selection = spec_query" "cs_query_id spec_selection = ca_id query_artifact"
    "cs_as_of spec_selection = ''2026-01-01T00:00:00Z''" "cs_budget_bytes spec_selection = 65536"
    "cs_excluded spec_selection = []" "cs_selected spec_selection = [spec_decision]"
    by (simp_all add: spec_selection_def)
  have "select canonical_cost indexed_artifact query_artifact = Inr selection_made"
    using spec_selected s by (simp add: select_def indexed_artifact_def query_artifact_def)
  moreover have "snapshot_of canonical_cost (ca_id indexed_artifact) indexed_graph (ca_id selection_made) spec_selection
      \<lparr>sp_nodes = [spec_node], sp_edges = [], sp_failed = [], sp_gone = {}\<rparr> = Inr spec_snapshot"
    by (simp add: snapshot_of_def total_cost_def edge_costs_def spec_contents spec_cost fields snapshot_exclusions_def
        contradiction_ids_def spec_snapshot_def) (simp add: spec_decision_def)
  ultimately show ?thesis
    using q in_ spec_bound spec_adopted snapshot_made_ok by (simp add: build_snapshot_def fields)
qed

section \<open>The compaction\<close>

definition spec_extract :: context_extract where
  "spec_extract = extract_of spec_snapshot spec_node 6"

definition spec_compaction :: context_compaction where
  "spec_compaction = \<lparr>co_candidate = spec_candidate, co_snapshot_id = ca_id snapshot_made, co_sensitivity = PUBLIC,
     co_budget_bytes = 65536, co_used_bytes = 6, co_extracts = [spec_extract], co_omitted_node_ids = [],
     co_unresolved_contradiction_ids = [], co_host_summary_proposal_id = None\<rparr>"

definition compaction_made :: context_artifact where
  "compaction_made = identified_artifact CTX_COMPACTION (CompactionValue spec_compaction)"

lemma spec_snapshot_fields [simp]: "sn_nodes spec_snapshot = [spec_node]" "sn_edges spec_snapshot = []"
    "sn_candidate spec_snapshot = spec_candidate" "sn_budget_bytes spec_snapshot = 65536"
    "sn_sensitivity spec_snapshot = PUBLIC" "sn_as_of spec_snapshot = ''2026-01-01T00:00:00Z''"
    "sn_selected spec_snapshot = [spec_decision]" "sn_unresolved_contradiction_ids spec_snapshot = []"
  by (simp_all add: spec_snapshot_def)

lemma spec_markers: "node_markers spec_snapshot i = []" "mandatory_ids spec_snapshot = {nd_node_id spec_node}"
  by (simp_all add: node_markers_def mandatory_ids_def contradictions_def)

lemma spec_extract_fields [simp]: "ex_node_id spec_extract = nd_node_id spec_node"
    "ex_source_id spec_extract = sc_source_id spec_source" "ex_text spec_extract = spec_text"
    "ex_text_sha256 spec_extract = text_digest spec_text" "ex_authority spec_extract = CANONICAL_SPECIFICATION"
    "ex_sensitivity spec_extract = PUBLIC" "ex_required spec_extract = True" "ex_contradiction_ids spec_extract = []"
    "ex_cost_bytes spec_extract = 6"
  by (simp_all add: spec_extract_def extract_of_def spec_markers)

lemma text_cost: "canonical_size (JStr spec_text) = Inr 6" "canonical_cost (JStr spec_text) = Inr 6"
proof -
  have "length (quote_text spec_text) = 6" by code_simp
  then show "canonical_size (JStr spec_text) = Inr 6" by (simp add: fits_canonical_size)
  then show "canonical_cost (JStr spec_text) = Inr 6" by (simp add: canonical_cost_def)
qed

lemma spec_extract_wf: "wf_extract spec_extract"
  using spec_text_wf(1) spec_ids text_cost by (simp add: wf_extract_def digest_text text_digest_def wf_sorted_def)

lemma spec_compaction_wf: "wf_compaction spec_compaction"
  using spec_extract_wf made_ids_wf(4) spec_texts(12)
  by (simp add: wf_compaction_def spec_compaction_def wf_sorted_def markers_consistent_def markers_def)

lemma extract_fits: "fits 20 3 (extract_to_dict spec_extract)" "weight (Suc (Suc (Suc 0))) (extract_to_dict spec_extract) \<le> 5000"
  by (simp_all add: fits_def ascii_text_def extract_to_dict_def id_lengths spec_text_length sensitivity_value.simps)

lemma compaction_made_ok: "context_artifact_from_value CTX_COMPACTION (CompactionValue spec_compaction) = Inr compaction_made"
    "revalidate CTX_COMPACTION compaction_made = Inr compaction_made"
proof -
  have "fits 21 4 (JArr [extract_to_dict spec_extract])"
    by (rule fits_arr[where b = 20 and d = 3]) (simp_all add: extract_fits)
  moreover have "fits 21 4 (JArr [])" by (simp add: fits_def)
  ultimately have "fits 1000 60 (context_compaction_to_dict spec_compaction)"
    unfolding context_compaction_to_dict_def spec_compaction_def
    by (intro fits_obj[where b = 21 and d = 4]) (simp_all add: ascii_text_def enc_option_def)
  moreover have "weight 1 (context_compaction_to_dict spec_compaction) \<le> 900000"
    using extract_fits(2) made_id_lengths
    by (simp add: context_compaction_to_dict_def spec_compaction_def part_dicts spec_candidate_def id_lengths sensitivity_value.simps)
  ultimately show "context_artifact_from_value CTX_COMPACTION (CompactionValue spec_compaction) = Inr compaction_made"
    "revalidate CTX_COMPACTION compaction_made = Inr compaction_made"
    unfolding compaction_made_def
    using identified_artifact_made[of CTX_COMPACTION "CompactionValue spec_compaction"] spec_compaction_wf by simp_all
qed

lemma spec_sources_authentic: "verify_snapshot_sources spec_ports spec_snapshot False = Inr ()"
proof -
  have "authentic_node spec_ports as_of spec_node = Inr ()" for as_of
    by (simp add: authentic_node_def) (simp add: spec_parts)
  moreover have "lo_root_scope spec_locator = SCOPE_REPOSITORY" by (simp add: spec_parts)
  ultimately show ?thesis
    using spec_authority(1) spec_ids(1)
    by (simp add: verify_snapshot_sources_def authentic_sources_def owner_root_rule_def translating_def spec_contents)
qed

lemma spec_extracted: "extraction_order spec_snapshot = Inr [nd_node_id spec_node]"
    "extract_nodes canonical_cost spec_snapshot [nd_node_id spec_node] 0 [] [] = Inr (6, [spec_extract], [])"
proof -
  have at: "node_at [spec_node] (nd_node_id spec_node) = Inr spec_node" by (simp add: node_at_iff node_index_def)
  have "rank_by_id spec_snapshot (nd_node_id spec_node) = Inr (decision_rank spec_decision)"
    by (simp add: rank_by_id_def key_at_def) (simp add: spec_decision_def)
  then show "extraction_order spec_snapshot = Inr [nd_node_id spec_node]" by (simp add: extraction_order_def)
  show "extract_nodes canonical_cost spec_snapshot [nd_node_id spec_node] 0 [] [] = Inr (6, [spec_extract], [])"
    by (simp add: at text_cost spec_extract_def)
qed

lemma spec_compacted: "compact spec_ports canonical_cost snapshot_made False None = Inr compaction_made"
proof -
  have "compaction_of canonical_cost (ca_id snapshot_made) spec_snapshot (None, PUBLIC) = Inr spec_compaction"
    using spec_extracted by (simp add: compaction_of_def spec_compaction_def)
  moreover have "snapshot_in snapshot_made = Some spec_snapshot" by (simp add: snapshot_in_def snapshot_made_def)
  ultimately show ?thesis
    using snapshot_made_ok(2) compaction_made_ok spec_sources_authentic
    by (simp add: compact_def strictly_validate_def translating_def summary_of_def)
qed

section \<open>A compaction with a host summary\<close>

definition spec_claim :: source_linked_claim where
  "spec_claim = \<lparr>cl_claim = ''Spec'', cl_source_node_ids = [nd_node_id spec_node], cl_extract_sha256s = [text_digest spec_text]\<rparr>"

definition spec_proposal :: host_summary_proposal where
  "spec_proposal = \<lparr>hp_snapshot_id = ca_id snapshot_made, hp_authority = UNTRUSTED_PROPOSAL, hp_sensitivity = PUBLIC,
     hp_claims = [spec_claim]\<rparr>"

definition proposal_made :: context_artifact where
  "proposal_made = identified_artifact CTX_HOST_SUMMARY_PROPOSAL (ProposalValue spec_proposal)"

definition summarized_compaction :: context_compaction where
  "summarized_compaction = spec_compaction\<lparr>co_host_summary_proposal_id := Some (ca_id proposal_made)\<rparr>"

definition summarized_made :: context_artifact where
  "summarized_made = identified_artifact CTX_COMPACTION (CompactionValue summarized_compaction)"

lemma spec_claim_wf: "wf_claim spec_claim"
proof -
  have "wf_text 4000 False ''Spec''"
    using spec_texts(4-6) by (simp add: wf_text_def del: list.pred_inject)
  then show ?thesis
    using spec_ids(4) digest_text by (simp add: wf_claim_def spec_claim_def wf_sorted_def text_digest_def)
qed

lemma proposal_made_ok: "wf_context_id ''CTX-HOST-SUMMARY-PROPOSAL-'' (ca_id proposal_made)"
    "revalidate CTX_HOST_SUMMARY_PROPOSAL proposal_made = Inr proposal_made"
proof -
  have "context_prefix_ok ''CTX-HOST-SUMMARY-PROPOSAL-''" by code_simp
  from digest_context_id[OF this] show "wf_context_id ''CTX-HOST-SUMMARY-PROPOSAL-'' (ca_id proposal_made)"
    by (simp add: proposal_made_def identified_artifact_def context_prefix_def)
  have "wf_proposal spec_proposal" using spec_claim_wf made_ids_wf(4) by (simp add: wf_proposal_def spec_proposal_def)
  moreover have "fits 1000 60 (host_proposal_to_dict spec_proposal)"
    by (simp add: fits_def ascii_text_def host_proposal_to_dict_def claim_to_dict_def spec_proposal_def spec_claim_def)
  moreover have "weight 1 (host_proposal_to_dict spec_proposal) \<le> 900000"
    using made_id_lengths
    by (simp add: host_proposal_to_dict_def claim_to_dict_def spec_proposal_def spec_claim_def id_lengths
        spec_text_length sensitivity_value.simps)
  ultimately show "revalidate CTX_HOST_SUMMARY_PROPOSAL proposal_made = Inr proposal_made"
    unfolding proposal_made_def
    using identified_artifact_made[of CTX_HOST_SUMMARY_PROPOSAL "ProposalValue spec_proposal"] by simp
qed

lemma summarized_made_ok: "context_artifact_from_value CTX_COMPACTION (CompactionValue summarized_compaction) = Inr summarized_made"
    "revalidate CTX_COMPACTION summarized_made = Inr summarized_made"
proof -
  have "wf_compaction summarized_compaction"
    using spec_compaction_wf proposal_made_ok(1) by (simp add: wf_compaction_def summarized_compaction_def)
  moreover have "fits 21 4 (JArr [extract_to_dict spec_extract])"
    by (rule fits_arr[where b = 20 and d = 3]) (simp_all add: extract_fits)
  then have "fits 1000 60 (context_compaction_to_dict summarized_compaction)"
    unfolding context_compaction_to_dict_def summarized_compaction_def spec_compaction_def
    by (intro fits_obj[where b = 21 and d = 4]) (simp_all add: ascii_text_def enc_option_def fits_def[of _ _ "JArr []"])
  moreover have "weight 1 (context_compaction_to_dict summarized_compaction) \<le> 900000"
    using extract_fits(2) made_id_lengths identified_id_length[of CTX_HOST_SUMMARY_PROPOSAL "ProposalValue spec_proposal"]
    by (simp add: context_compaction_to_dict_def summarized_compaction_def spec_compaction_def part_dicts
        spec_candidate_def id_lengths sensitivity_value.simps proposal_made_def)
  ultimately show "context_artifact_from_value CTX_COMPACTION (CompactionValue summarized_compaction) = Inr summarized_made"
    "revalidate CTX_COMPACTION summarized_made = Inr summarized_made"
    unfolding summarized_made_def
    using identified_artifact_made[of CTX_COMPACTION "CompactionValue summarized_compaction"] by simp_all
qed

lemma spec_summarized: "compact spec_ports canonical_cost snapshot_made False (Some proposal_made) = Inr summarized_made"
proof -
  have s: "snapshot_in snapshot_made = Some spec_snapshot" "proposal_in proposal_made = Some spec_proposal"
    by (simp_all add: snapshot_in_def snapshot_made_def proposal_in_def proposal_made_def)
  have "claim_linked spec_snapshot spec_claim = Inr ()"
    by (simp add: claim_linked_def spec_claim_def node_at_def node_index_def)
  then have "validate_host_proposal snapshot_made proposal_made = Inr (ca_id proposal_made)"
    by (simp add: validate_host_proposal_def s) (simp add: spec_proposal_def)
  then have "summary_of snapshot_made spec_snapshot (Some proposal_made) = Inr (Some (ca_id proposal_made), PUBLIC)"
    using proposal_made_ok(2) by (simp add: summary_of_def s strictly_validate_def translating_def) (simp add: spec_proposal_def)
  moreover have "compaction_of canonical_cost (ca_id snapshot_made) spec_snapshot (Some (ca_id proposal_made), PUBLIC) =
      Inr summarized_compaction"
    using spec_extracted by (simp add: compaction_of_def summarized_compaction_def spec_compaction_def)
  ultimately show ?thesis
    using snapshot_made_ok(2) summarized_made_ok spec_sources_authentic s
    by (simp add: compact_def strictly_validate_def translating_def)
qed

end
