(* ===== verification/QualityOutcomes.thy ===== *)
theory QualityOutcomes
  imports ContextCompactions SnapshotOutcomes ContextSizes
begin

text \<open>The quality report of a snapshot that was built: it can always be made, and what it must say.\<close>

section \<open>The measures\<close>

lemma foldl_max_rank:
  "sensitivity_rank m \<le> sensitivity_rank (foldl (\<lambda>m x. if sensitivity_rank x > sensitivity_rank m then x else m) m ss) \<and>
   (\<forall>s \<in> set ss. sensitivity_rank s \<le> sensitivity_rank (foldl (\<lambda>m x. if sensitivity_rank x > sensitivity_rank m then x else m) m ss))"
proof (induction ss arbitrary: m)
  case (Cons s ss)
  let ?m = "if sensitivity_rank s > sensitivity_rank m then s else m"
  have "sensitivity_rank m \<le> sensitivity_rank ?m" "sensitivity_rank s \<le> sensitivity_rank ?m" by auto
  then show ?case using Cons[of ?m] by (auto intro: order_trans)
qed simp

lemma max_sensitivity_greatest: "max_sensitivity ss = Inr m \<Longrightarrow> s \<in> set ss \<Longrightarrow> sensitivity_rank s \<le> sensitivity_rank m"
  using foldl_max_rank by (cases ss) auto

text \<open>The bytes that are not redundant are those of the distinct texts.\<close>

lemma redundant_split:
  "redundant_bytes seen ns + int (\<Sum>t \<in> (\<lambda>n. utf8_bytes (nd_text n)) ` set ns - seen. length t) = int (text_bytes ns)"
proof (induction seen ns rule: redundant_bytes.induct)
  case (2 seen n ns)
  let ?t = "utf8_bytes (nd_text n)" and ?T = "(\<lambda>n. utf8_bytes (nd_text n)) ` set ns"
  show ?case
  proof (cases "?t \<in> seen")
    case True
    then have "insert ?t ?T - seen = ?T - seen" by auto
    then show ?thesis using 2(1)[OF refl True] True by (simp add: text_bytes_def Let_def)
  next
    case False
    have "insert ?t ?T - seen = insert ?t (?T - insert ?t seen)" using False by auto
    then have "(\<Sum>t \<in> insert ?t ?T - seen. length t) = length ?t + (\<Sum>t \<in> ?T - insert ?t seen. length t)" by simp
    then show ?thesis using 2(2)[OF refl False] False by (simp add: text_bytes_def Let_def)
  qed
qed (simp add: text_bytes_def)

lemma redundant_bounds: "0 \<le> redundant_bytes seen ns" "redundant_bytes seen ns \<le> int (text_bytes ns)"
proof -
  show "0 \<le> redundant_bytes seen ns" by (induction seen ns rule: redundant_bytes.induct) (auto simp: Let_def)
  show "redundant_bytes seen ns \<le> int (text_bytes ns)" using redundant_split[of seen ns] by linarith
qed

lemma text_bytes_subset:
  assumes "distinct ns" and "set ns \<subseteq> set ms"
  shows "text_bytes ns \<le> text_bytes ms"
proof -
  let ?f = "\<lambda>n. length (utf8_bytes (nd_text n))"
  have "text_bytes ns = sum ?f (set ns)" using assms(1) by (simp add: text_bytes_def sum_list_distinct_conv_sum_set)
  also have "\<dots> \<le> sum ?f (set ms)" using assms(2) by (intro sum_mono2) auto
  also have "\<dots> \<le> text_bytes ms" unfolding text_bytes_def
    by (induction ms) (auto simp: sum.insert_if)
  finally show ?thesis .
qed

lemma full_recall: "finite R \<Longrightarrow> R \<subseteq> K \<Longrightarrow> required_recall R K = 100"
  by (auto simp: required_recall_def Int_absorb2 card_gt_0_iff)

section \<open>The report of a built snapshot\<close>

definition whole_report :: "context_quality_report \<Rightarrow> context_graph \<Rightarrow> context_snapshot \<Rightarrow> bool" where
  "whole_report r g sn = (qr_required_reference_recall r = 100 \<and> qr_stale_required_count r = 0 \<and>
     qr_sensitivity_violation_count r = 0 \<and> qr_provenance_missing_count r = 0 \<and>
     qr_provenance_complete_count r = qr_selected_node_count r \<and>
     qr_selected_node_count r + qr_excluded_node_count r = int (length (cg_nodes g)) \<and>
     qr_selected_context_bytes r \<le> qr_budget_bytes r \<and>
     qr_redundant_bytes r = int (text_bytes (sn_nodes sn)) -
       int (\<Sum>t \<in> (\<lambda>n. utf8_bytes (nd_text n)) ` set (sn_nodes sn). length t))"

lemma quality_whole:
  assumes b: "build_snapshot ports cost (graph_artifact gid g) (selection_artifact sid s) owner = Inr a"
    and g: "wf_context_graph g" "sound_graph g" and v: "ca_value a = SnapshotValue sn"
  shows "whole_report (quality_report g s i sn) g sn"
proof -
  let ?K = "set (map nd_node_id (sn_nodes sn))"
  note f = built_snapshot[OF b g(2) v]
  have w: "wf_nodes (sn_candidate sn) (sn_sensitivity sn) (sn_nodes sn) (sn_edges sn)" "sn_context_bytes sn \<le> sn_budget_bytes sn"
    using f(7) by (simp_all add: wf_snapshot_def)
  have "finite (selection_required g s)" by (simp add: selection_required_def)
  then have recall: "required_recall (selection_required g s) ?K = 100" using f(1) by (rule full_recall)
  have refs: "filter (\<lambda>x. pv_references (nd_provenance x) \<noteq> []) (sn_nodes sn) = sn_nodes sn"
    using w(1) by (auto simp: wf_nodes_def list_all_iff wf_node_def wf_provenance_def intro!: filter_True)
  have none: "filter (\<lambda>x. sensitivity_rank (nd_sensitivity x) > sensitivity_rank (sn_sensitivity sn)) (sn_nodes sn) = []"
    using max_sensitivity_greatest[OF f(8)] by (auto simp: filter_empty_conv not_less)
  have "distinct (map nd_node_id (sn_nodes sn))" using w(1) by (simp add: wf_nodes_def strict_sorted_iff)
  then have "length (sn_nodes sn) = card ?K" by (metis distinct_card length_map)
  moreover have "length (sn_excluded sn) = card (graph_ids g - ?K)"
    using f(6) unfolding f(5)[symmetric] by (metis distinct_card length_map strict_sorted_iff)
  moreover have "?K \<subseteq> graph_ids g" using f(2) by (auto simp: graph_ids_def)
  moreover have "card (graph_ids g) = length (cg_nodes g)"
    using g(2) by (simp add: graph_ids_def sound_graph_def distinct_card del: set_map)
  ultimately have count: "length (sn_nodes sn) + length (sn_excluded sn) = length (cg_nodes g)"
    by (metis List.finite_set card_Diff_subset card_mono finite_subset graph_ids_def le_add_diff_inverse)
  show ?thesis
    using recall refs none count w(2) f(15) redundant_split[of "{}" "sn_nodes sn"]
    by (simp add: whole_report_def quality_report_def Let_def)
qed

text \<open>It can always be made: every count is in range and the document is small.\<close>

lemma quality_in_range:
  assumes b: "build_snapshot ports cost (graph_artifact gid g) (selection_artifact sid s) owner = Inr a"
    and g: "wf_context_graph g" "sound_graph g" and v: "ca_value a = SnapshotValue sn"
    and i: "wf_context_id ''CTX-SNAPSHOT-'' i"
  shows "wf_quality (quality_report g s i sn)"
    "weight 1 (quality_report_to_dict (quality_report g s i sn)) \<le> 900000"
proof -
  let ?r = "quality_report g s i sn"
  note f = built_snapshot[OF b g(2) v] and q = quality_whole[OF b g v, of i]
  have wn: "wf_nodes (sn_candidate sn) (sn_sensitivity sn) (sn_nodes sn) (sn_edges sn)" and bytes: "0 \<le> sn_context_bytes sn"
    "sn_context_bytes sn \<le> sn_budget_bytes sn" "sn_budget_bytes sn \<le> 8388608"
    and marks: "length (sn_unresolved_contradiction_ids sn) \<le> graph_edges_limit"
    using f(7) by (simp_all add: wf_snapshot_def wf_sorted_def)
  have count: "length (cg_nodes g) \<le> 4096" using g(1) by (simp add: wf_context_graph_def wf_nodes_def)
  have "distinct (map nd_node_id (sn_nodes sn))" using wn by (simp add: wf_nodes_def strict_sorted_iff)
  then have "distinct (sn_nodes sn)" by (rule distinct_map[THEN iffD1, THEN conjunct1])
  moreover have "set (sn_nodes sn) \<subseteq> set (cg_nodes g)" using f(2) by blast
  ultimately have "text_bytes (sn_nodes sn) \<le> text_bytes (cg_nodes g)" by (rule text_bytes_subset)
  then have "text_bytes (sn_nodes sn) \<le> 8388608" using g(1) by (simp add: wf_context_graph_def)
  then have red: "0 \<le> redundant_bytes {} (sn_nodes sn)" "redundant_bytes {} (sn_nodes sn) \<le> 8388608"
    using redundant_bounds[where seen = "{}" and ns = "sn_nodes sn"] by linarith+
  have r: "qr_required_reference_recall ?r = 100" "qr_stale_required_count ?r = 0" "qr_sensitivity_violation_count ?r = 0"
    "qr_provenance_missing_count ?r = 0" "qr_provenance_complete_count ?r = qr_selected_node_count ?r"
    "qr_selected_node_count ?r + qr_excluded_node_count ?r = int (length (cg_nodes g))"
    using q by (simp_all add: whole_report_def)
  have p: "qr_candidate ?r = sn_candidate sn" "qr_snapshot_id ?r = i" "qr_sensitivity ?r = sn_sensitivity sn"
    "qr_selected_context_bytes ?r = sn_context_bytes sn" "qr_budget_bytes ?r = sn_budget_bytes sn"
    "qr_redundant_bytes ?r = redundant_bytes {} (sn_nodes sn)" "0 \<le> qr_selected_node_count ?r" "0 \<le> qr_excluded_node_count ?r"
    "qr_unresolved_contradiction_count ?r = int (length (sn_unresolved_contradiction_ids sn))"
    using f(15) by (simp_all add: quality_report_def Let_def)
  have small: "qr_selected_node_count ?r \<le> 4096" "qr_excluded_node_count ?r \<le> 4096"
    using r(6) p(7,8) count by linarith+
  have c: "wf_candidate (sn_candidate sn)" "sn_sensitivity sn \<noteq> SECRET_OR_PROHIBITED" using wn by (simp_all add: wf_nodes_def)
  show "wf_quality ?r"
    using c i red bytes marks p small by (simp add: wf_quality_def r)
  have "length (source_spec_sha256 (sn_candidate sn)) = 64" "length (git_head (sn_candidate sn)) \<le> 40"
    "length (repository_digest (sn_candidate sn)) = 64"
    using c(1) by (simp_all add: wf_candidate_def wf_digest_def hex64_def plain_text_def)
  moreover have "length i \<le> 128" using i by (simp add: wf_context_id_def plain_text_def)
  moreover have "length (sensitivity_value (sn_sensitivity sn)) \<le> 30"
    by (cases "sn_sensitivity sn") (simp_all add: sensitivity_value.simps)
  ultimately show "weight 1 (quality_report_to_dict ?r) \<le> 900000"
    using red bytes marks small p(7,8) by (simp add: quality_report_to_dict_def candidate_to_dict_def r p)
qed

lemma quality_fits: "fits 1000 60 (quality_report_to_dict r)"
  by (simp add: fits_def ascii_text_def quality_report_to_dict_def candidate_to_dict_def)

lemma quality_measured:
  assumes b: "build_snapshot ports cost (graph_artifact gid g) (selection_artifact sid s) owner = Inr a"
    and g: "wf_context_graph g" "sound_graph g" and v: "ca_value a = SnapshotValue sn"
  shows "measure_context_quality (graph_artifact gid g) (selection_artifact sid s) a =
    Inr (identified_artifact CTX_QUALITY_REPORT (QualityValue (quality_report g s (ca_id a) sn)))"
proof -
  note f = built_snapshot[OF b g(2) v]
  obtain p qid sn' where re: "revalidate CTX_SNAPSHOT a = Inr a" by (rule build_snapshot_parts[OF b])
  have t: "ca_type a = CTX_SNAPSHOT" by (rule revalidate_same(1)[OF re])
  have i: "wf_context_id ''CTX-SNAPSHOT-'' (ca_id a)"
    using context_identity_wf revalidate_facts(2)[OF re] t by (fastforce simp: context_prefix_def)
  have "snapshot_in a = Some sn" using t v by (simp add: snapshot_in_def)
  then show ?thesis
    using f identified_artifact_made[of CTX_QUALITY_REPORT "QualityValue (quality_report g s (ca_id a) sn)"]
      quality_in_range[OF b g v i] quality_fits
    by (simp add: measure_context_quality_def graph_in_def selection_in_def)
qed

end
