(* ===== verification/SelectionArtifacts.thy ===== *)
theory SelectionArtifacts
  imports IndexOutcomes Canonical
begin

text \<open>
  The last step of \<open>ContextSelector.select\<close>: the artifact of a selection.  Its document has ASCII keys, no
  floats and little depth, so computing the identity fails exactly when the document has too many values.
\<close>

section \<open>Canonical text, decided\<close>

text \<open>On documents with ASCII keys and without floats only the bounds can make the walk fail.\<close>

lemma validate_canonical_decided:
  "nodes \<le> 250000 \<Longrightarrow> \<forall>(j, d) \<in> set stack. canonical_json j \<Longrightarrow>
    validate_canonical stack nodes = (if nodes + stack_nodes stack \<le> 250000 \<and> (\<forall>(j, d) \<in> set stack. d + json_depth j \<le> 64)
      then Inr () else Inl (ContextContractError StructureLimit))"
proof (induction stack nodes rule: validate_canonical.induct)
  case (2 current depth stack nodes)
  let ?push = "push_children current depth stack"
  have c: "canonical_node current = Inr ()" using "2.prems" by (simp add: canonical_json_node)
  have depth: "(\<forall>(j, d) \<in> set ((current, depth) # stack). d + json_depth j \<le> 64) \<longleftrightarrow>
      depth \<le> 64 \<and> (\<forall>(j, d) \<in> set ?push. d + json_depth j \<le> 64)"
    by (simp add: push_children_def json_depth_children[of depth current 64] ball_Un)
  have nodes: "nodes + 1 + stack_nodes ?push = nodes + stack_nodes ((current, depth) # stack)"
    by (simp add: stack_nodes_push json_nodes_children[of current])
  show ?case
  proof (cases "depth > 64 \<or> nodes + 1 > 250000")
    case True
    then show ?thesis using json_depth_children[of depth current 64]
      by (auto simp: json_nodes_children[of current])
  next
    case False
    have "\<forall>(j, d) \<in> set ?push. canonical_json j"
      using "2.prems"(2) canonical_json_children by (auto simp: push_children_def)
    then have "validate_canonical ?push (nodes + 1) =
        (if nodes + 1 + stack_nodes ?push \<le> 250000 \<and> (\<forall>(j, d) \<in> set ?push. d + json_depth j \<le> 64)
         then Inr () else Inl (ContextContractError StructureLimit))"
      using "2.IH"[of "()"] False c by simp
    then show ?thesis using False c depth nodes by (simp add: not_less)
  qed
qed simp

lemma canonical_bytes_decided:
  assumes "canonical_json j" and "json_depth j \<le> 64"
  shows "canonical_json_bytes j =
    (if json_nodes j \<le> 250000 then Inr (dumps j) else Inl (ContextContractError StructureLimit))"
  using validate_canonical_decided[of 0 "[(j, 0)]"] assms by (simp add: canonical_json_bytes_def del: validate_canonical.simps)

section \<open>The document of a selection\<close>

lemma query_document:
  "canonical_json (context_query_to_dict q)" "json_depth (context_query_to_dict q) \<le> 2"
  by (simp_all add: context_query_to_dict_def context_budget_to_dict_def candidate_to_dict_def list_all_iff
      ascii_text_def fold_max_le)

lemma decision_document: "canonical_json (decision_to_dict d)" "json_depth (decision_to_dict d) \<le> 2"
  by (simp_all add: decision_to_dict_def list_all_iff ascii_text_def fold_max_le)

lemma exclusion_document: "canonical_json (exclusion_to_dict x)" "json_depth (exclusion_to_dict x) \<le> 2"
  by (simp_all add: exclusion_to_dict_def list_all_iff ascii_text_def fold_max_le)

lemma selection_document:
  "canonical_json (context_selection_to_dict s)" "json_depth (context_selection_to_dict s) \<le> 4"
proof -
  note parts = query_document decision_document exclusion_document
  show "canonical_json (context_selection_to_dict s)"
    by (simp add: context_selection_to_dict_def candidate_to_dict_def list_all_iff ascii_text_def parts)
  have "json_depth (context_query_to_dict (cs_query s)) \<le> 3"
    "\<And>d. json_depth (decision_to_dict d) \<le> 2" "\<And>x. json_depth (exclusion_to_dict x) \<le> 2"
    using parts(2)[of "cs_query s"] parts(4,6) by simp_all
  then show "json_depth (context_selection_to_dict s) \<le> 4"
    by (simp add: context_selection_to_dict_def candidate_to_dict_def fold_max_le)
qed

abbreviation query_envelope :: "string \<Rightarrow> context_query \<Rightarrow> context_artifact" where
  "query_envelope i q \<equiv> \<lparr>ca_type = CTX_QUERY, ca_id = i, ca_value = QueryValue q\<rparr>"

lemma select_cases:
  "select cost (graph_artifact gid g) (query_envelope qid q) = (case select_context cost gid g qid q of
     Inl e \<Rightarrow> Inl e
   | Inr s \<Rightarrow> if json_nodes (context_selection_to_dict s) \<le> 250000
       then Inr (selection_artifact (context_prefix CTX_SELECTION @ sha256_hex (dumps (context_selection_to_dict s))) s)
       else Inl (ContextContractError StructureLimit))"
proof -
  have "canonical_json_bytes (context_selection_to_dict s) =
      (if json_nodes (context_selection_to_dict s) \<le> 250000 then Inr (dumps (context_selection_to_dict s))
       else Inl (ContextContractError StructureLimit))" for s
    using selection_document[of s] by (intro canonical_bytes_decided) simp_all
  then show ?thesis
    by (simp add: select_def context_artifact_from_value_def context_identity_def content_digest_def split: sum.split)
qed

section \<open>How large it gets\<close>

text \<open>A node is selected for at most five reasons.\<close>

definition reason_names :: "string list" where
  "reason_names = [''required-reference'', ''contradiction-closure'', ''graph'', ''identifier'', ''lexical'']"

definition named_reasons :: "ranking \<Rightarrow> bool" where
  "named_reasons r = (\<forall>i. rk_reasons r i \<subseteq> set reason_names)"

lemma fold_keeps: "(\<And>x r. P r \<Longrightarrow> P (f x r)) \<Longrightarrow> P r \<Longrightarrow> P (fold f xs r)"
  by (induction xs arbitrary: r) auto

lemma retrieved_named: "named_reasons r \<Longrightarrow> why \<in> set reason_names \<Longrightarrow> named_reasons (retrieved phase why i r)"
  by (simp add: named_reasons_def retrieved_def)

lemma reason_names_members:
  "''graph'' \<in> set reason_names" "''identifier'' \<in> set reason_names" "''lexical'' \<in> set reason_names"
  "''required-reference'' \<in> set reason_names" "''contradiction-closure'' \<in> set reason_names"
  by (simp_all add: reason_names_def)

lemma rankings_named:
  "named_reasons (required_ranking required direct)"
  "named_reasons r \<Longrightarrow> named_reasons (graph_ranking eligible required ds r)"
  "named_reasons r \<Longrightarrow> named_reasons (identifier_ranking q eligible nodes r)"
  "named_reasons r \<Longrightarrow> named_reasons (lexical_ranking tokens eligible nodes r)"
  "named_reasons r \<Longrightarrow> named_reasons (closure_ranking origin added r)"
proof -
  show "named_reasons (required_ranking required direct)"
    by (simp add: named_reasons_def required_ranking_def reason_names_members)
  assume r: "named_reasons r"
  show "named_reasons (graph_ranking eligible required ds r)"
    unfolding graph_ranking_def by (rule fold_keeps) (simp_all add: r retrieved_named reason_names_members)
  show "named_reasons (identifier_ranking q eligible nodes r)"
    unfolding identifier_ranking_def by (rule fold_keeps) (simp_all add: r retrieved_named reason_names_members)
  show "named_reasons (lexical_ranking tokens eligible nodes r)"
    unfolding lexical_ranking_def by (rule fold_keeps) (simp_all add: r retrieved_named reason_names_members)
  show "named_reasons (closure_ranking origin added r)"
    unfolding closure_ranking_def
    by (rule fold_keeps) (use r in \<open>auto simp: closure_reason_def named_reasons_def reason_names_members\<close>)
qed

lemma retrieve_named: "retrieve g q = Inr r \<Longrightarrow> named_reasons (rt_ranking r)"
  by (auto simp: retrieve_def Let_def result_simps intro!: rankings_named)

lemma fill_step_named:
  assumes "fill_step cost g b eligible i f = Inr f'" and "named_reasons (fl_ranking f)"
  shows "named_reasons (fl_ranking f')"
  using assms rankings_named(5) by (auto simp: fill_step_def Let_def result_simps split: if_splits)

lemma fill_named:
  "fill cost g b eligible is f = Inr f' \<Longrightarrow> named_reasons (fl_ranking f) \<Longrightarrow> named_reasons (fl_ranking f')"
  by (induction "is" arbitrary: f) (auto simp: result_simps dest: fill_step_named)

lemma filled_named:
  assumes "retrieve g q = Inr r" and "filled cost g q r = Inr f"
  shows "named_reasons (fl_ranking f)"
proof -
  obtain f0 order where f: "required_filling cost g (cq_budget q) r = Inr f0"
    "fill cost g (cq_budget q) (rt_eligible r) order f0 = Inr f" using assms(2) by (auto simp: filled_def result_simps)
  then have "fl_ranking f0 = rt_ranking r" by (auto simp: required_filling_def Let_def result_simps)
  then show ?thesis using fill_named[OF f(2)] retrieve_named[OF assms(1)] by simp
qed

lemma selection_reasons:
  assumes "select_context cost gid g qid q = Inr s"
  shows "d \<in> set (cs_selected s) \<Longrightarrow> length (sd_reasons d) \<le> 5"
    and "length (cs_unresolved_contradiction_ids s) \<le> length (cs_selected_edge_ids s)"
proof -
  obtain r f where rf: "retrieve g q = Inr r" "filled cost g q r = Inr f" "selection_of cost gid g qid q r f = Inr s"
    using assms by (auto simp: select_context_def result_simps)
  obtain ds where d: "mapR (decision cost g (fl_ranking f) (rt_distances r) (rt_scores r))
      (sorted_list_of_set (fl_ids f)) = Inr ds"
    and s: "cs_selected s = ds" "cs_selected_edge_ids s = sort (map ed_edge_id (fl_edges f))"
      "cs_unresolved_contradiction_ids s = sort (map ed_edge_id (contradictions (fl_edges f)))"
    using rf(3) unfolding selection_of_def Let_def by (auto simp: result_simps)
  show "length (cs_unresolved_contradiction_ids s) \<le> length (cs_selected_edge_ids s)"
    unfolding s by (simp add: contradictions_def)
  have one: "decision cost g (fl_ranking f) D S i = Inr x \<Longrightarrow> length (sd_reasons x) \<le> 5" for D S i x
  proof -
    assume "decision cost g (fl_ranking f) D S i = Inr x"
    then have "sd_reasons x = sorted_list_of_set (rk_reasons (fl_ranking f) i)" by (auto simp: decision_def result_simps)
    moreover have "card (rk_reasons (fl_ranking f) i) \<le> card (set reason_names)"
      using filled_named[OF rf(1,2)] by (intro card_mono) (simp_all add: named_reasons_def)
    moreover have "card (set reason_names) \<le> 5" using card_length[of reason_names] by (simp add: reason_names_def)
    ultimately show ?thesis by simp
  qed
  have "list_all2 (\<lambda>i x. length (sd_reasons x) \<le> 5) (sorted_list_of_set (fl_ids f)) ds"
    using d one by (auto simp: mapR_eq_Inr elim!: list_all2_mono)
  then have "\<forall>x \<in> set ds. length (sd_reasons x) \<le> 5" by (induction rule: list_all2_induct) auto
  then show "d \<in> set (cs_selected s) \<Longrightarrow> length (sd_reasons d) \<le> 5" unfolding s by blast
qed

lemma nodes_texts: "sum_list (map (json_nodes \<circ> JStr) xs) = length xs"
  by (induction xs) auto

lemma query_nodes:
  assumes "wf_query q"
  shows "json_nodes (context_query_to_dict q) \<le> 8475"
proof -
  have "length (cq_required_node_ids q) \<le> 4096" "length (cq_seed_node_ids q) \<le> 4096" "length (cq_identifiers q) \<le> 128"
    "length (cq_terms q) \<le> 128" "length (cq_allowed_edge_types q) \<le> 7"
    using assms by (simp_all add: wf_query_def wf_sorted_def edge_type_members_def)
  moreover have "sum_list (map (json_nodes \<circ> (JStr \<circ> edge_type_value)) ts) = length ts" for ts by (induction ts) auto
  ultimately show ?thesis
    by (simp add: context_query_to_dict_def context_budget_to_dict_def candidate_to_dict_def nodes_texts)
qed

definition details_count :: "context_selection \<Rightarrow> nat" where
  "details_count s = sum_list (map (length \<circ> xd_details) (cs_excluded s))"

text \<open>Everything in the document is bounded but the details of its exclusions.\<close>

lemma selection_nodes:
  assumes s: "select_context cost gid g qid q = Inr s" and g: "wf_context_graph g" and q: "wf_query q"
  shows "json_nodes (context_selection_to_dict s) \<le> 125000 + details_count s"
proof -
  have sg: "sound_graph g" by (rule wf_graph_sound[OF g])
  note f = selection_facts[OF s sg]
  have b: "cb_max_nodes (cq_budget q) \<le> 4096" "cb_max_edges (cq_budget q) \<le> 16384"
    using q by (simp_all add: wf_query_def wf_context_budget_def)
  have n: "length (cs_selected s) \<le> 4096" "length (cs_selected_edge_ids s) \<le> 16384" using f(11,12) b by linarith+
  have "distinct (map xd_node_id (cs_excluded s))" using f(5) by (simp add: strict_sorted_iff)
  then have "length (cs_excluded s) = card (excluded_ids s)"
    unfolding excluded_ids_def by (metis distinct_card length_map set_map)
  also have "\<dots> \<le> card (graph_ids g)" using f(6) by (intro card_mono) (auto simp: graph_ids_def)
  also have "\<dots> \<le> length (cg_nodes g)" unfolding graph_ids_def by (metis card_length length_map)
  also have "\<dots> \<le> 4096" using g by (simp add: wf_context_graph_def wf_nodes_def)
  finally have x: "length (cs_excluded s) \<le> 4096" .
  have "json_nodes (decision_to_dict d) \<le> 16" if "d \<in> set (cs_selected s)" for d
    using selection_reasons(1)[OF s that] by (simp add: decision_to_dict_def nodes_texts)
  then have "sum_list (map (json_nodes \<circ> decision_to_dict) (cs_selected s)) \<le> length (cs_selected s) * 16"
    by (intro sum_list_bound) simp
  moreover have "sum_list (map (json_nodes \<circ> exclusion_to_dict) xs) = 4 * length xs + sum_list (map (length \<circ> xd_details) xs)" for xs
    by (induction xs) (simp_all add: exclusion_to_dict_def nodes_texts)
  moreover have "cs_query s = q" by (rule selection_parts[OF s])
  moreover note query_nodes[OF q] n x selection_reasons(2)[OF s]
  ultimately show ?thesis
    by (simp add: context_selection_to_dict_def candidate_to_dict_def nodes_texts details_count_def)
qed

end
