(* ===== verification/IndexBudgets.thy ===== *)
theory IndexBudgets
  imports IndexOutcomes
begin

text \<open>
  When a source is left out for its size: the sources are taken in the order of the manifest, and one that was
  observed is adopted exactly when its bytes still fit beside those of the sources adopted before it.
\<close>

definition observed_bytes :: "context_ports \<Rightarrow> context_source \<Rightarrow> nat" where
  "observed_bytes ports s = (case observe_source ports s of Inl _ \<Rightarrow> 0 | Inr ob \<Rightarrow> ob_length ob)"

definition adopted_bytes :: "context_ports \<Rightarrow> string set \<Rightarrow> context_source list \<Rightarrow> nat" where
  "adopted_bytes ports adopted ss = (\<Sum>s \<leftarrow> ss. if sc_source_id s \<in> adopted then observed_bytes ports s else 0)"

lemma adopted_bytes_Cons: "adopted_bytes ports A (s # ss) =
    (if sc_source_id s \<in> A then observed_bytes ports s else 0) + adopted_bytes ports A ss"
  by (simp add: adopted_bytes_def)

lemma adopted_bytes_insert: "i \<notin> sc_source_id ` set ss \<Longrightarrow> adopted_bytes ports (insert i A) ss = adopted_bytes ports A ss"
  by (induction ss) (auto simp: adopted_bytes_def)

definition size_rule :: "context_ports \<Rightarrow> nat \<Rightarrow> string set \<Rightarrow> context_source list \<Rightarrow> bool" where
  "size_rule ports sofar adopted ss = (\<forall>k < length ss. \<forall>ob. observe_source ports (ss ! k) = Inr ob \<longrightarrow>
     (sc_source_id (ss ! k) \<in> adopted \<longleftrightarrow>
       sofar + adopted_bytes ports adopted (take k ss) + ob_length ob \<le> total_source_bytes))"

lemma size_rule_Cons:
  "size_rule ports sofar A (s # ss) \<longleftrightarrow>
    (\<forall>ob. observe_source ports s = Inr ob \<longrightarrow> (sc_source_id s \<in> A \<longleftrightarrow> sofar + ob_length ob \<le> total_source_bytes)) \<and>
    size_rule ports (sofar + (if sc_source_id s \<in> A then observed_bytes ports s else 0)) A ss"
  by (auto simp: size_rule_def All_less_Suc2 adopted_bytes_Cons add.assoc adopted_bytes_def[of _ _ "[]"])

lemma size_rule_insert:
  assumes "i \<notin> sc_source_id ` set ss"
  shows "size_rule ports sofar (insert i A) ss \<longleftrightarrow> size_rule ports sofar A ss"
proof -
  have "adopted_bytes ports (insert i A) (take k ss) = adopted_bytes ports A (take k ss)" for k
    using assms set_take_subset[of k ss] by (intro adopted_bytes_insert) blast
  moreover have "k < length ss \<Longrightarrow> sc_source_id (ss ! k) \<noteq> i" for k using assms by auto
  ultimately show ?thesis by (simp add: size_rule_def)
qed

lemma adopt_sources_sizes:
  "adopt_sources ports ss sofar ns xs = Inr (ns', xs') \<Longrightarrow> distinct (map sc_source_id ss) \<Longrightarrow>
    \<exists>add. ns' = ns @ add \<and> set (map nd_source_id add) \<subseteq> set (map sc_source_id ss) \<and>
      size_rule ports sofar (set (map nd_source_id add)) ss"
proof (induction ports ss sofar ns xs rule: adopt_sources.induct)
  case (1 ports sofar nodes exclusions)
  then show ?case by (simp add: size_rule_def)
next
  case (2 ports s ss sofar ns xs)
  have d: "distinct (map sc_source_id ss)" "sc_source_id s \<notin> sc_source_id ` set ss" using "2.prems"(2) by auto
  consider (failed) e where "observe_source ports s = Inl e" "\<not> sc_required s"
      "adopt_sources ports ss sofar ns (xs @ [source_exclusion_for s (index_failure_reason e)]) = Inr (ns', xs')"
      "source_error e \<or> contract_error e"
    | (big) ob where "observe_source ports s = Inr ob" "\<not> sc_required s" "sofar + ob_length ob > total_source_bytes"
      "adopt_sources ports ss sofar ns (xs @ [source_exclusion_for s ''total-source-byte-limit'']) = Inr (ns', xs')"
    | (kept) ob n where "observe_source ports s = Inr ob" "\<not> sofar + ob_length ob > total_source_bytes"
      "node_of_source s ob = Inr n" "adopt_sources ports ss (sofar + ob_length ob) (ns @ [n]) xs = Inr (ns', xs')"
    using "2.prems"(1) by (auto simp: result_simps split: sum.splits if_splits)
  then show ?case
  proof cases
    case (failed e)
    from "2.IH"(1)[OF failed(1) _ failed(2,3) d(1)] failed(4) obtain add where
      a: "ns' = ns @ add" "set (map nd_source_id add) \<subseteq> set (map sc_source_id ss)"
      "size_rule ports sofar (set (map nd_source_id add)) ss" by blast
    then have "sc_source_id s \<notin> set (map nd_source_id add)" using d(2) by auto
    then show ?thesis using a failed(1) unfolding size_rule_Cons by (intro exI[of _ add]) auto
  next
    case (big ob)
    from "2.IH"(2)[OF big(1,3,2,4) d(1)] obtain add where
      a: "ns' = ns @ add" "set (map nd_source_id add) \<subseteq> set (map sc_source_id ss)"
      "size_rule ports sofar (set (map nd_source_id add)) ss" by blast
    then have "sc_source_id s \<notin> set (map nd_source_id add)" using d(2) by auto
    then show ?thesis using a big(1,3) unfolding size_rule_Cons by (intro exI[of _ add]) auto
  next
    case (kept ob n)
    have i: "nd_source_id n = sc_source_id s"
      by (rule adopted_from_source(1)[of ports]) (use kept in \<open>auto simp: adopted_from_def\<close>)
    from "2.IH"(3)[OF kept d(1)] obtain add where
      a: "ns' = (ns @ [n]) @ add" "set (map nd_source_id add) \<subseteq> set (map sc_source_id ss)"
      "size_rule ports (sofar + ob_length ob) (set (map nd_source_id add)) ss" by blast
    have "size_rule ports sofar (insert (sc_source_id s) (set (map nd_source_id add))) (s # ss)"
      using a(3) kept(1,2) unfolding size_rule_Cons size_rule_insert[OF d(2)] by (simp add: observed_bytes_def)
    then show ?thesis using a(1,2) i by (intro exI[of _ "n # add"]) auto
  qed
qed

lemma built_graph_sizes:
  assumes "build_graph ports \<lparr>ca_type = CTX_MANIFEST, ca_id = mid, ca_value = ManifestValue m\<rparr> owner = Inr a"
    and "distinct (map sc_source_id (cm_sources m))" and "ca_value a = GraphValue g"
  shows "size_rule ports 0 (set (map nd_source_id (cg_nodes g))) (cm_sources m)"
proof -
  obtain g' where i: "index_manifest ports mid m owner = Inr g'" and g': "ca_value a = GraphValue g'"
    by (rule build_graph_facts[OF assms(1)])
  have g: "g' = g" using assms(3) g' by simp
  obtain ns xs where "adopt_sources ports (cm_sources m) 0 [] [] = Inr (ns, xs)" "cg_nodes g = sort_key nd_node_id ns"
    using i unfolding g index_manifest_def Let_def split_paired_Ex prod.case bindR_eq_Inr require_eq_Inr ex_unit by auto
  then show ?thesis using adopt_sources_sizes[OF _ assms(2)] by fastforce
qed

end
