(* ===== verification/ContextProperties.thy ===== *)
theory ContextProperties
  imports ContextPipeline QualityOutcomes SelectionArtifacts TraversalDistances IndexBudgets
begin

text \<open>
  What the context services promise: from the sources a manifest declares to the graph, the selection
  under a budget, the snapshot, the compaction and its quality report.
\<close>

section \<open>Supporting lemmas\<close>

lemma reobserve_text:
  assumes "reobserve ports as_of n = Inr None"
  shows "\<exists>ob. po_observe ports (nd_node_id n) (lo_root_scope (nd_locator n)) (nd_locator n) = Inr ob \<and> ob_selected ob = nd_text n"
proof -
  obtain ob where ob: "po_observe ports (nd_node_id n) (lo_root_scope (nd_locator n)) (nd_locator n) = Inr ob"
    and c: "content_problem as_of n ob = Inr None"
    using assms by (auto simp: reobserve_def result_simps catching_eq_Inr split: sum.splits if_splits)
  then have "ob_selected ob = nd_text n"
    by (auto simp: content_problem_def result_simps split: if_splits)
  then show ?thesis using ob by blast
qed

lemma authentic_text:
  assumes "authentic_node ports as_of n = Inr ()"
  shows "\<exists>ob. po_observe ports (nd_node_id n) (lo_root_scope (nd_locator n)) (nd_locator n) = Inr ob \<and> ob_selected ob = nd_text n"
  using assms by (auto simp: authentic_node_def result_simps)

lemma required_extracted:
  assumes b: "build_snapshot ports cost (graph_artifact gid g) (selection_artifact sid s) owner = Inr a"
    and g: "sound_graph g" and v: "ca_value a = SnapshotValue sn"
    and k: "compact ports' cost' (snapshot_artifact i sn) owner' summary = Inr k" "ca_value k = CompactionValue c"
    and n: "n \<in> set (cg_nodes g)" "nd_required n"
  shows "\<exists>x \<in> set (co_extracts c). ex_node_id x = nd_node_id n \<and> ex_source_id x = nd_source_id n \<and> ex_text x = nd_text n \<and>
    reobserve ports (cs_as_of s) n = Inr None \<and> authentic_node ports' (sn_as_of sn) n = Inr ()"
proof -
  note f = built_snapshot[OF b g v] and m = made_compaction[OF k]
  have "nd_node_id n \<in> set (map nd_node_id (sn_nodes sn))" using f(1) n by (auto simp: selection_required_def)
  then obtain n' where n': "n' \<in> set (sn_nodes sn)" "nd_node_id n' = nd_node_id n" by auto
  have "n' = n" using f(2) n' n(1) g by (auto simp: sound_graph_def distinct_map dest: inj_onD)
  then have mine: "n \<in> set (sn_nodes sn)" using n'(1) by simp
  then have "nd_node_id n \<in> mandatory_ids s'" if "s' = sn" for s' using that n(2) by (auto simp: mandatory_ids_def)
  then obtain x where x: "x \<in> set (co_extracts c)" "ex_node_id x = nd_node_id n" using m(6) by fastforce
  then obtain n'' cst where e: "n'' \<in> set (sn_nodes sn)" "x = extract_of sn n'' cst" using m(5) by (auto simp: extracted_def)
  have "nd_node_id n'' = nd_node_id n" using x(2) e(2) by (simp add: extract_of_def)
  then have "n'' = n" using f(2) e(1) n(1) g by (auto simp: sound_graph_def distinct_map dest: inj_onD)
  then show ?thesis using x(1) e(2) f(2) mine m(11) by (intro bexI[of _ x]) (simp_all add: extract_of_def)
qed

text \<open>The specification's artifacts as records.\<close>

lemma spec_shapes:
  "manifest_artifact = \<lparr>ca_type = CTX_MANIFEST, ca_id = ca_id manifest_artifact, ca_value = ManifestValue spec_manifest\<rparr>"
  "indexed_artifact = graph_artifact (ca_id indexed_artifact) indexed_graph"
  "selection_made = selection_artifact (ca_id selection_made) spec_selection"
  "snapshot_made = snapshot_artifact (ca_id snapshot_made) spec_snapshot"
  "ca_value indexed_artifact = GraphValue indexed_graph" "ca_value snapshot_made = SnapshotValue spec_snapshot"
  "ca_value compaction_made = CompactionValue spec_compaction"
  by (simp_all add: manifest_artifact_def indexed_artifact_def selection_made_def snapshot_made_def compaction_made_def
      identified_artifact_def)

lemma spec_sources: "distinct (map sc_source_id (cm_sources spec_manifest))" "spec_source \<in> set (cm_sources spec_manifest)"
  by (simp_all add: spec_manifest_def)

lemma spec_runs:
  "build_graph spec_ports \<lparr>ca_type = CTX_MANIFEST, ca_id = ca_id manifest_artifact, ca_value = ManifestValue spec_manifest\<rparr>
     False = Inr indexed_artifact"
  "build_snapshot spec_ports canonical_cost (graph_artifact (ca_id indexed_artifact) indexed_graph)
     (selection_artifact (ca_id selection_made) spec_selection) False = Inr snapshot_made"
  "compact spec_ports canonical_cost (snapshot_artifact (ca_id snapshot_made) spec_snapshot) False None = Inr compaction_made"
  using spec_indexed spec_snapshot_built spec_compacted by (simp_all flip: spec_shapes(1-4))

text \<open>What a well-formed graph and query settle: contents can be priced, and freshness compared.\<close>

lemma identity_sized: "context_identity p j = Inr i \<Longrightarrow> \<exists>c. canonical_cost j = Inr c"
  by (auto simp: context_identity_def content_digest_def canonical_cost_def canonical_size_def result_simps)

lemma wf_graph_priced:
  assumes "wf_context_graph g"
  shows "priced canonical_cost g"
  using assms identity_sized
  by (auto simp: priced_def wf_context_graph_def wf_nodes_def list_all_iff wf_node_def wf_edge_def node_identity_def edge_identity_def)

lemma wf_timestamp_parsed: "wf_timestamp t \<Longrightarrow> parse_utc t = Inr (utc_fields t)"
  by (simp add: wf_timestamp_def parse_utc_def)

lemma eligibility_decided:
  assumes "wf_node n" and "wf_query q"
  shows "\<exists>p. eligibility_problem n q = Inr p"
proof -
  have f: "wf_freshness (nd_freshness n)" and q: "wf_timestamp (cq_as_of q)"
    using assms by (simp_all add: wf_node_def wf_query_def)
  show ?thesis
  proof (cases "fr_kind (nd_freshness n) = EXPIRES_AT")
    case True
    then obtain x y where "fr_observed_at (nd_freshness n) = Some x" "fr_valid_until (nd_freshness n) = Some y"
      "wf_timestamp x" "wf_timestamp y"
      using f by (auto simp: wf_freshness_def freshness_window_def split: option.splits)
    then show ?thesis using q by (simp add: eligibility_problem_def within_validity_def wf_timestamp_parsed)
  qed (simp add: eligibility_problem_def)
qed

lemma wf_graph_requires: "wf_context_graph g \<Longrightarrow> required_ids g q \<noteq> {}"
  by (auto simp: wf_context_graph_def wf_nodes_def bound_specification_def required_ids_def filter_eq_Cons_iff
      split: list.splits)

lemma spec_query_wf: "wf_query spec_query"
  using made_ids_wf(1) spec_texts(12) spec_time_wf
  by (simp add: wf_query_def wf_sorted_def wf_context_budget_def) (simp add: spec_query_def edge_type_members_def)

text \<open>A small graph: one required node, a dependency, a contradiction, and a node beyond the clearance.\<close>

definition tiny_node :: "string \<Rightarrow> sensitivity \<Rightarrow> bool \<Rightarrow> context_node" where
  "tiny_node i sens req = \<lparr>nd_node_id = i, nd_source_id = i, nd_kind = KIND_DESIGN, nd_title = i, nd_text = ''text'',
     nd_text_sha256 = [], nd_locator = \<lparr>lo_root_scope = SCOPE_REPOSITORY, lo_path = i, lo_sha256 = [], lo_line_start = 1, lo_line_end = 1\<rparr>,
     nd_provenance = \<lparr>pv_producer = [], pv_recorded_by = [], pv_references = []\<rparr>, nd_authority = REPOSITORY_RECORD,
     nd_freshness = \<lparr>fr_kind = CANDIDATE_BOUND, fr_observed_at = None, fr_valid_until = None\<rparr>, nd_sensitivity = sens,
     nd_identifiers = [], nd_labels = [], nd_required = req\<rparr>"

definition tiny_edge :: "string \<Rightarrow> edge_type \<Rightarrow> string \<Rightarrow> string \<Rightarrow> context_edge" where
  "tiny_edge i t a b = \<lparr>ed_edge_id = i, ed_edge_type = t, ed_source_node_id = a, ed_target_node_id = b,
     ed_provenance = \<lparr>pv_producer = [], pv_recorded_by = [], pv_references = []\<rparr>\<rparr>"

definition tiny_candidate :: candidate_identity where
  "tiny_candidate = \<lparr>source_spec_sha256 = [], git_head = [], repository_digest = []\<rparr>"

definition tiny_graph :: context_graph where
  "tiny_graph = \<lparr>cg_candidate = tiny_candidate, cg_manifest_id = ''M'', cg_sensitivity = PUBLIC,
     cg_nodes = [tiny_node ''a'' PUBLIC True, tiny_node ''b'' PUBLIC False, tiny_node ''c'' PUBLIC False,
       tiny_node ''d'' OWNER_PRIVATE False],
     cg_edges = [tiny_edge ''e'' DEPENDS_ON ''a'' ''b'', tiny_edge ''f'' CONTRADICTS ''b'' ''c''], cg_excluded_sources = []\<rparr>"

definition tiny_query :: "int \<Rightarrow> context_query" where
  "tiny_query nodes = \<lparr>cq_candidate = tiny_candidate, cq_graph_id = ''G'', cq_as_of = [], cq_clearance = PUBLIC,
     cq_required_node_ids = [], cq_seed_node_ids = [], cq_identifiers = [], cq_terms = [], cq_allowed_edge_types = [DEPENDS_ON, CONTRADICTS],
     cq_budget = \<lparr>cb_budget_bytes = 1000, cb_max_nodes = nodes, cb_max_edges = 9, cb_max_traversal_depth = 2\<rparr>\<rparr>"

definition ten :: estimator where
  "ten j = Inr 10"

lemma tiny_selected: "case select_context ten ''G'' tiny_graph ''Q'' (tiny_query 3) of
     Inl e \<Rightarrow> False
   | Inr s \<Rightarrow> map sd_node_id (cs_selected s) = [''a'', ''b'', ''c''] \<and> cs_used_bytes s = 50" by code_simp
lemma tiny_failed: "select_context ten ''G'' tiny_graph ''Q'' (tiny_query 1) = Inl (ContextSelectionError NodeBound)" by code_simp
lemma tiny_traversed: "traverse tiny_graph (tiny_query 3) {''a''} = Inr [(''a'', 0), (''b'', 1), (''c'', 2)]" by code_simp

section \<open>Properties\<close>

text \<open>
  C31: A required source reaches the agent unchanged.  When a manifest is indexed, a selection of the graph
  becomes a snapshot and the snapshot is compacted, each by its service and possibly over changed files,
  the compaction has an extract for every source the manifest requires, and the extract's text is what all
  three services observed at the source's locator.
\<close>

theorem required_sources_reach_context:
  assumes "build_graph ports1 \<lparr>ca_type = CTX_MANIFEST, ca_id = mid, ca_value = ManifestValue m\<rparr> owner1 = Inr a1"
    and "distinct (map sc_source_id (cm_sources m))" and "ca_value a1 = GraphValue g"
    and "build_snapshot ports2 cost2 (graph_artifact gid g) (selection_artifact sid s) owner2 = Inr a2"
    and "ca_value a2 = SnapshotValue sn"
    and "compact ports3 cost3 (snapshot_artifact i sn) owner3 summary = Inr a3" and "ca_value a3 = CompactionValue c"
    and "src \<in> set (cm_sources m)" and "sc_required src"
  shows "\<exists>x \<in> set (co_extracts c). ex_source_id x = sc_source_id src \<and>
    (\<exists>ob. observe_source ports1 src = Inr ob \<and> ob_selected ob = ex_text x) \<and>
    (\<forall>ports \<in> {ports2, ports3}. \<exists>ob. po_observe ports (ex_node_id x) (lo_root_scope (sc_locator src)) (sc_locator src) = Inr ob \<and>
      ob_selected ob = ex_text x)"
proof -
  note b = built_graph[OF assms(1,2,3)]
  obtain n where n: "n \<in> set (cg_nodes g)" "nd_source_id n = sc_source_id src" using b(8) assms(8,9) by auto
  then obtain src' where s: "src' \<in> set (cm_sources m)" "adopted_from ports1 src' n" using b(7) by blast
  have "src' = src" using s assms(2,8) n(2) adopted_from_source(1)[OF s(2)] by (auto simp: distinct_map dest: inj_onD)
  note from_src = adopted_from_source[OF s(2)[unfolded this]]
  obtain x where x: "x \<in> set (co_extracts c)" "ex_node_id x = nd_node_id n" "ex_source_id x = nd_source_id n"
    "ex_text x = nd_text n" "reobserve ports2 (cs_as_of s) n = Inr None" "authentic_node ports3 (sn_as_of sn) n = Inr ()"
    using required_extracted[OF assms(4) wf_graph_sound[OF b(1)] assms(5-7) n(1)] from_src(2) assms(9) by auto
  show ?thesis
    using x n(2) from_src(4,9) reobserve_text[OF x(5)] authentic_text[OF x(6)] by (intro bexI[OF _ x(1)]) auto
qed

theorem required_sources_reach_context_witness:
  "\<exists>x \<in> set (co_extracts spec_compaction). ex_source_id x = sc_source_id spec_source \<and> spec_text = ex_text x"
  using required_sources_reach_context[OF spec_runs(1) spec_sources(1) spec_shapes(5) spec_runs(2) spec_shapes(6)
      spec_runs(3) spec_shapes(7) spec_sources(2)] by simp blast

text \<open>
  C32: A snapshot keeps its promises.  Whenever one is built from a well-formed graph and a selection, it is
  well formed and of the candidate that was verified before and after; it holds every node the graph or the
  query requires, only nodes that were observed again without a problem, for every contradiction both ends or
  none, exactly the edges among its nodes, and lists every other node of the graph as excluded.
\<close>

theorem snapshot_keeps_promises:
  assumes "build_snapshot ports cost (graph_artifact gid g) (selection_artifact sid s) owner = Inr a"
    and "wf_context_graph g"
  shows "\<exists>sn K. ca_value a = SnapshotValue sn \<and> K = set (map nd_node_id (sn_nodes sn)) \<and> wf_snapshot sn \<and>
    selection_required g s \<subseteq> K \<and> closed_ids g K \<and>
    (\<forall>n \<in> set (sn_nodes sn). n \<in> set (cg_nodes g) \<and> reobserve ports (cs_as_of s) n = Inr None) \<and>
    set (sn_edges sn) = {e \<in> set (cg_edges g). endpoints e \<subseteq> K} \<and>
    set (map xd_node_id (sn_excluded sn)) = graph_ids g - K \<and>
    sn_candidate sn = cg_candidate g \<and> po_candidate ports 0 (cg_candidate g) = Inr () \<and>
    po_candidate ports 1 (cg_candidate g) = Inr ()"
proof -
  obtain sn where v: "ca_value a = SnapshotValue sn" by (rule build_snapshot_parts[OF assms(1)]) blast
  note f = built_snapshot[OF assms(1) wf_graph_sound[OF assms(2)] v]
  have "set (sn_edges sn) = {e \<in> set (cg_edges g). endpoints e \<subseteq> set (map nd_node_id (sn_nodes sn))}"
    unfolding f(4) by (auto simp: induced_edges_def endpoints_def)
  then show ?thesis using v f by blast
qed

theorem snapshot_keeps_promises_witness:
  "\<exists>sn K. ca_value snapshot_made = SnapshotValue sn \<and> K = set (map nd_node_id (sn_nodes sn)) \<and> wf_snapshot sn \<and>
    nd_node_id spec_node \<in> K"
  using snapshot_keeps_promises[OF spec_runs(2) indexed_graph_wf] by (auto simp: selection_required_def)

text \<open>
  C33: Indexing accounts for every declared source.  The graph built from a manifest is well formed, every
  source is either adopted, with the text observed at its locator after its authority and provenance were
  checked, or excluded with the reason of its failure, no required source is excluded, and the edges are
  exactly those of the relationships whose two ends were adopted.  A source that could be observed is left out exactly
  when its bytes and those of the sources adopted before it exceed the total of 8 MiB.
\<close>

theorem index_accounts_for_sources:
  assumes "build_graph ports \<lparr>ca_type = CTX_MANIFEST, ca_id = mid, ca_value = ManifestValue m\<rparr> owner = Inr a"
    and "distinct (map sc_source_id (cm_sources m))"
  shows "\<exists>g. ca_value a = GraphValue g \<and> wf_context_graph g \<and> cg_candidate g = cm_candidate m \<and> cg_manifest_id g = mid \<and>
    set (map nd_source_id (cg_nodes g)) \<union> set (map sx_source_id (cg_excluded_sources g)) = set (map sc_source_id (cm_sources m)) \<and>
    set (map nd_source_id (cg_nodes g)) \<inter> set (map sx_source_id (cg_excluded_sources g)) = {} \<and>
    (\<forall>n \<in> set (cg_nodes g). \<exists>src \<in> set (cm_sources m). adopted_from ports src n) \<and>
    (\<forall>x \<in> set (cg_excluded_sources g). \<exists>src \<in> set (cm_sources m). not_adoptable ports src x) \<and>
    set (cg_edges g) = (\<Union>r \<in> set (cm_relationships m). {e. related (cg_nodes g) r e}) \<and>
    (\<forall>k < length (cm_sources m). \<forall>ob. observe_source ports (cm_sources m ! k) = Inr ob \<longrightarrow>
       (sc_source_id (cm_sources m ! k) \<in> set (map nd_source_id (cg_nodes g)) \<longleftrightarrow>
        adopted_bytes ports (set (map nd_source_id (cg_nodes g))) (take k (cm_sources m)) + ob_length ob \<le> total_source_bytes))"
proof -
  obtain g where v: "ca_value a = GraphValue g" by (rule build_graph_facts[OF assms(1)])
  note f = built_graph[OF assms v]
  have d: "set (map nd_source_id (cg_nodes g)) \<inter> set (map sx_source_id (cg_excluded_sources g)) = {}"
    using f(1) by (simp add: wf_context_graph_def)
  note sizes = built_graph_sizes[OF assms v, unfolded size_rule_def add_0]
  show ?thesis using v f(1,2,3,6,7,9,10) d sizes by (intro exI[of _ g] conjI)
qed

theorem index_accounts_for_sources_witness:
  "\<exists>g. ca_value indexed_artifact = GraphValue g \<and> wf_context_graph g \<and> cg_manifest_id g = ca_id manifest_artifact"
  by (rule exE[OF index_accounts_for_sources[OF spec_runs(1) spec_sources(1)]]) (elim conjE, intro exI conjI)

text \<open>
  C34: A compaction keeps what matters.  Made from a snapshot, it is well formed and splits the nodes of the snapshot
  into extracts and omissions; every extract is the whole text of its node at its cost, every required node and
  both ends of every contradiction are extracted, the costs stay within the budget, and what is omitted would
  not have fitted in what is left of it.
\<close>

theorem compaction_keeps_mandatory:
  assumes "compact ports cost (snapshot_artifact sid sn) owner summary = Inr a"
  shows "\<exists>c. ca_value a = CompactionValue c \<and> wf_compaction c \<and> co_snapshot_id c = sid \<and>
    set (map ex_node_id (co_extracts c)) \<union> set (co_omitted_node_ids c) = set (map nd_node_id (sn_nodes sn)) \<and>
    set (map ex_node_id (co_extracts c)) \<inter> set (co_omitted_node_ids c) = {} \<and>
    (\<forall>x \<in> set (co_extracts c). extracted cost sn x) \<and> mandatory_ids sn \<subseteq> set (map ex_node_id (co_extracts c)) \<and>
    co_used_bytes c = (\<Sum>x \<leftarrow> co_extracts c. ex_cost_bytes x) \<and> co_used_bytes c \<le> sn_budget_bytes sn \<and>
    (\<forall>i \<in> set (co_omitted_node_ids c). unaffordable cost sn (co_used_bytes c) i) \<and>
    co_unresolved_contradiction_ids c = sn_unresolved_contradiction_ids sn"
proof -
  obtain c where v: "ca_value a = CompactionValue c" by (rule compact_parts[OF assms]) blast
  note f = made_compaction[OF assms v]
  have "set (map ex_node_id (co_extracts c)) \<inter> set (co_omitted_node_ids c) = {}"
    using f(1) by (simp add: wf_compaction_def)
  then show ?thesis using v f by blast
qed

theorem compaction_keeps_mandatory_witness:
  "\<exists>c. ca_value compaction_made = CompactionValue c \<and> wf_compaction c \<and> nd_node_id spec_node \<in> set (map ex_node_id (co_extracts c))"
  using compaction_keeps_mandatory[OF spec_runs(3)] by (auto simp: spec_markers)

text \<open>
  C35: The quality of a built snapshot.  The measure of a snapshot that was built from its graph and selection never fails
  and its report says that nothing required is missing, nothing exceeds the snapshot's sensitivity and no
  provenance is missing, counts every node of the graph once, and gives as redundant exactly the bytes of repeated texts.
\<close>

theorem built_snapshot_quality:
  assumes "build_snapshot ports cost (graph_artifact gid g) (selection_artifact sid s) owner = Inr a"
    and "wf_context_graph g"
  shows "\<exists>sn q r. ca_value a = SnapshotValue sn \<and> ca_value q = QualityValue r \<and> wf_quality r \<and> whole_report r g sn \<and>
    measure_context_quality (graph_artifact gid g) (selection_artifact sid s) a = Inr q"
proof -
  obtain sn where v: "ca_value a = SnapshotValue sn" and re: "revalidate CTX_SNAPSHOT a = Inr a"
    by (rule build_snapshot_parts[OF assms(1)])
  note g = assms(2) wf_graph_sound[OF assms(2)]
  have "wf_context_id ''CTX-SNAPSHOT-'' (ca_id a)"
    using context_identity_wf revalidate_facts(2)[OF re] revalidate_same(1)[OF re] by (fastforce simp: context_prefix_def)
  from quality_in_range(1)[OF assms(1) g v this] quality_whole[OF assms(1) g v] quality_measured[OF assms(1) g v]
  show ?thesis using v by (intro exI conjI) (simp_all add: identified_artifact_def)
qed

theorem built_snapshot_quality_witness:
  "\<exists>q r. ca_value q = QualityValue r \<and> qr_required_reference_recall r = 100 \<and>
    measure_context_quality indexed_artifact selection_made snapshot_made = Inr q"
proof -
  from built_snapshot_quality[OF spec_runs(2) indexed_graph_wf] show ?thesis
    unfolding spec_shapes(2,3)[symmetric] by (auto simp: whole_report_def)
qed

text \<open>
  C36: A selection keeps its promises.  It contains every required node and only eligible ones, both ends of a contradiction
  or none, exactly the edges among the selected nodes, and each other node of the graph once as excluded; its
  recorded cost is the cost of that content and stays within the budget, as do the numbers of nodes and edges.
\<close>

theorem selection_keeps_promises:
  assumes "select_context cost gid g qid q = Inr s" and "sound_graph g"
  shows "required_ids g q \<subseteq> selected_ids s \<and> selected_ids s \<subseteq> eligible_ids g q \<and> closed_ids g (selected_ids s) \<and>
    cs_selected_edge_ids s = sort (map ed_edge_id (induced_edges (cg_edges g) (selected_ids s))) \<and>
    sorted_wrt (<) (map sd_node_id (cs_selected s)) \<and> sorted_wrt (<) (map xd_node_id (cs_excluded s)) \<and>
    excluded_ids s = graph_ids g - selected_ids s \<and> cs_used_bytes s = context_cost cost g (selected_ids s) \<and>
    cs_used_bytes s \<le> cb_budget_bytes (cq_budget q) \<and> int (length (cs_selected s)) \<le> cb_max_nodes (cq_budget q) \<and>
    int (length (cs_selected_edge_ids s)) \<le> cb_max_edges (cq_budget q)"
  using selection_facts[OF assms] by blast

theorem selection_keeps_promises_witness:
  "\<exists>s. select_context ten ''G'' tiny_graph ''Q'' (tiny_query 3) = Inr s \<and> selected_ids s = {''a'', ''b'', ''c''} \<and>
    closed_ids tiny_graph (selected_ids s) \<and> excluded_ids s = graph_ids tiny_graph - selected_ids s"
proof -
  obtain s where s: "select_context ten ''G'' tiny_graph ''Q'' (tiny_query 3) = Inr s"
    "map sd_node_id (cs_selected s) = [''a'', ''b'', ''c'']" using tiny_selected by (auto split: sum.splits)
  from s(2) have "set (map sd_node_id (cs_selected s)) = {''a'', ''b'', ''c''}" by simp
  then have "selected_ids s = {''a'', ''b'', ''c''}" by (simp add: selected_ids_def)
  moreover have "sound_graph tiny_graph" by code_simp
  ultimately show ?thesis using selection_keeps_promises[OF s(1)] s(1) by blast
qed

text \<open>
  C37: A selection fails only for cause.  On a well-formed graph and query, with the canonical estimator, the selector returns
  the artifact of a selection, or one of eleven errors that name what is wrong: the query is for another graph or candidate,
  names a missing node, requires what is not eligible, or a bound is exceeded.  The one other failure is the structure
  limit of the document, and then the exclusions list more than 125,000 details: nothing else can make it that large.
\<close>

theorem selection_fails_for_cause:
  assumes "wf_context_graph g" and "wf_query q"
  shows "(\<exists>s. select_context canonical_cost gid g qid q = Inr s \<and>
      (if json_nodes (context_selection_to_dict s) \<le> 250000
       then \<exists>i. select canonical_cost (graph_artifact gid g) (query_envelope qid q) = Inr (selection_artifact i s)
       else 125000 < details_count s \<and>
         select canonical_cost (graph_artifact gid g) (query_envelope qid q) = Inl (ContextContractError StructureLimit))) \<or>
    (\<exists>c \<in> {GraphMismatch, CandidateMismatch, MissingNode, RequiredUnavailable, ClosureUnavailable, DepthBound,
        EdgeBound, NodeBound, RequiredNodes, RequiredEdges, RequiredBytes}.
      select canonical_cost (graph_artifact gid g) (query_envelope qid q) = Inl (ContextSelectionError c))"
proof (cases "select_context canonical_cost gid g qid q")
  case (Inl e)
  have "\<forall>n \<in> set (cg_nodes g). \<exists>p. eligibility_problem n q = Inr p"
    using assms eligibility_decided by (auto simp: wf_context_graph_def wf_nodes_def list_all_iff)
  from select_context_error[OF Inl wf_graph_sound[OF assms(1)] wf_graph_priced[OF assms(1)] this wf_graph_requires[OF assms(1)]]
  show ?thesis unfolding select_cases Inl by auto
next
  case (Inr s)
  then show ?thesis using selection_nodes[OF Inr assms] unfolding select_cases by auto
qed

theorem selection_fails_for_cause_witness:
  "\<exists>c. select canonical_cost (graph_artifact [] indexed_graph) (query_envelope ''Q'' spec_query) = Inl (ContextSelectionError c)"
proof -
  have "ca_id indexed_artifact \<noteq> []" using made_ids_wf(1) by (auto simp: wf_context_id_def plain_text_def)
  then have "\<nexists>s. select_context canonical_cost [] indexed_graph ''Q'' spec_query = Inr s" by (simp add: select_context_def result_simps)
  then show ?thesis using selection_fails_for_cause[OF indexed_graph_wf spec_query_wf, of "[]" "''Q''"] by blast
qed

text \<open>
  C38: The traversal measures distance.  When it ends, it has met exactly the nodes that the allowed edges reach from
  its origins, taking contradictions both ways, each once and with the length of a shortest path.
\<close>

theorem traversal_measures_distance:
  assumes "traverse g q origins = Inr ds" and "finite origins"
  shows "distinct (map fst ds) \<and> (\<forall>i. i \<in> fst ` set ds \<longleftrightarrow> (\<exists>n. hops g q origins n i)) \<and>
    (\<forall>i d. map_of ds i = Some d \<longleftrightarrow> 0 \<le> d \<and> hops g q origins (nat d) i \<and> (\<forall>n. hops g q origins n i \<longrightarrow> nat d \<le> n))"
  using traverse_shortest[OF assms] by blast

theorem traversal_measures_distance_witness:
  "hops tiny_graph (tiny_query 3) {''a''} 2 ''c'' \<and> \<not> hops tiny_graph (tiny_query 3) {''a''} 1 ''c''"
proof -
  note t = traversal_measures_distance[OF tiny_traversed]
  have "map_of [(''a'', 0), (''b'', 1), (''c'', 2)] ''c'' = Some (2 :: int)" by simp
  then have "hops tiny_graph (tiny_query 3) {''a''} (nat 2) ''c'' \<and> (\<forall>n. hops tiny_graph (tiny_query 3) {''a''} n ''c'' \<longrightarrow> nat 2 \<le> n)"
    using t by blast
  then show ?thesis by auto
qed

text \<open>
  C39: Context artifacts round trip.  Reading what an artifact of any of the eight types was written as gives
  exactly that artifact if and only if it is well formed, carries the digest of its content, is of the
  expected type and within the size limit of its type.
\<close>

theorem context_artifact_round_trip:
  "parse_context_artifact expected n (context_artifact_to_dict a) = Inr a \<longleftrightarrow>
    wf_context_artifact a \<and> (expected = None \<or> expected = Some (ca_type a)) \<and> n \<le> type_size_limit (ca_type a)"
  by (rule parse_context_artifact_enc)

text \<open>
  C40: A host summary cannot smuggle anything in.  A compaction made with one refers to exactly the proposal that was
  given, which is marked untrusted and made for this snapshot; each of its claims cites nodes of the snapshot with the
  digests of their texts, and the compaction is at least as sensitive as the proposal, the proposal as the snapshot.
\<close>

theorem host_summary_linked:
  assumes "compact ports cost (snapshot_artifact sid sn) owner (Some h) = Inr a"
  shows "\<exists>p c. ca_value h = ProposalValue p \<and> ca_value a = CompactionValue c \<and>
    co_host_summary_proposal_id c = Some (ca_id h) \<and> hp_authority p = UNTRUSTED_PROPOSAL \<and> hp_snapshot_id p = sid \<and>
    hp_claims p \<noteq> [] \<and> (\<forall>cl \<in> set (hp_claims p). cites sn cl) \<and>
    sensitivity_rank (sn_sensitivity sn) \<le> sensitivity_rank (hp_sensitivity p) \<and>
    sensitivity_rank (hp_sensitivity p) \<le> sensitivity_rank (co_sensitivity c)"
proof -
  obtain c where v: "ca_value a = CompactionValue c" by (rule compact_parts[OF assms]) blast
  show ?thesis using linked_summary[OF assms v] v by (auto simp: wf_proposal_def)
qed

theorem host_summary_linked_witness:
  "\<exists>p. ca_value proposal_made = ProposalValue p \<and> (\<forall>cl \<in> set (hp_claims p). cites spec_snapshot cl)"
proof -
  have "compact spec_ports canonical_cost (snapshot_artifact (ca_id snapshot_made) spec_snapshot) False (Some proposal_made) =
      Inr summarized_made" using spec_summarized by (simp flip: spec_shapes(4))
  from host_summary_linked[OF this] show ?thesis by blast
qed

end
