(* ===== verification/Spec2Isabelle.thy ===== *)
theory Spec2Isabelle
  imports SolverProperties ContractProperties GraphProperties WorkflowProperties ContextProperties
begin

text \<open>
  SDAQF, a framework that lets agents work on a repository under deterministic control.  This library
  models the parts of it that decide something: the strict JSON contracts its documents go through,
  the reference solver and the verifier that decides whether a solver result may be adopted, the
  checks of a task graph and its wait report, the authority that records the life of a workflow as
  a chain of events, and the context services that decide which sources an agent is given to read.  Paths below are under \<open>src/src/sdaqf\<close>.

  Program parts and how they meet.  Every document is decoded to JSON, walked for size and shape
  (\<open>application/contracts.py\<close>), read field by field by the contracts of its artifact type
  (\<open>solver_contracts.py\<close>, \<open>scheduler_contracts.py\<close>), and identified by the digest of its canonical
  JSON (\<open>context_contracts.py\<close>).  The reference adapter (\<open>adapters/solver.py\<close>) answers a solver
  request with a result artifact; the verifier (\<open>solver_verification.py\<close>) replays the search and
  gives a verification artifact.  The scheduler (\<open>application/scheduler.py\<close>) explains from a task
  graph and a state which tasks wait for which.  The workflow services reserve, publish and confirm
  artifacts through the store of \<open>adapters/scheduler.py\<close>, which replays all events of every plan's
  epoch before and after each call.  The context services go from a manifest of sources to a graph
  (\<open>context_index.py\<close>), from a graph and a query to a selection under a budget and, after every source
  was observed again, to a snapshot (\<open>context_selection.py\<close>), from there to a compaction
  (\<open>context_compaction.py\<close>) and a quality report (\<open>context_quality.py\<close>); each artifact is read back
  through its contract before the next service uses it.

  Theories.
  \<^item> Prelude: the result type with its error values, \<open>bindR\<close>, \<open>require\<close>, \<open>mapR\<close>, sorted lists; the
    collection \<open>result_simps\<close> that turns a chain of checks into the facts it establishes.
  \<^item> Json, Sha256, Contracts, References, Canonical: JSON values with Python's equality, the structure
    walk, canonical text, SHA-256 on words, the value helpers with the locales \<open>codec\<close> and
    \<open>str_enum\<close> that every parser of the library interprets.
  \<^item> SolverDomain, ProblemContracts, RegistryContracts, ResultContracts: the records and enumerations of
    \<open>domain/solver.py\<close> with \<open>to_dict\<close>, and their parsers, one function per \<open>_parse_*\<close>, with a
    well-formedness predicate for each record; ContractProperties states what they accept.
  \<^item> Evaluation, SolverSearch, SolverVerify: evaluation of constraints and objectives, the enumeration of
    \<open>FiniteDomainReferenceAdapter.solve\<close>, the replay and the table of entitlements of
    \<open>_resource_replay_matches\<close>, with the incumbent of both as the locale \<open>running_best\<close>; SolverProperties states soundness, completeness and bounds; Samples
    holds the concrete request its witnesses use.
  \<^item> SchedulerDomain, TaskGraph, WaitReport, TaskWaits: tasks, graphs, states and receipts of
    \<open>domain/scheduler.py\<close>; \<open>_validate_dag\<close>, \<open>topological_ranks\<close>, \<open>_validate_path_ownership\<close>; the
    report of \<open>deterministic_wait_report\<close> and \<open>scheduler_state_wait_report\<close>; GraphProperties.
  \<^item> EpochContracts, EpochArtifacts: parser, identity and document of a workflow epoch event, as
    interpretations of the locale \<open>normal_form\<close>.
  \<^item> WorkflowEpoch, EpochInvariant: \<open>_reduce_workflow_event\<close>, one definition per cause; the step
    relation \<open>epoch_step\<close> with its runs, the invariant, the abstract automaton \<open>phase_step\<close>, the
    chain of events and the bound after a terminal reservation.
  \<^item> EpochStore, WorkflowAuthority: the store as the rows of its two workflow tables over a scheduler
    history; replay, validation, the transaction, and the operations \<open>open_workflow_epoch\<close>,
    \<open>reserve_workflow_transition\<close>, \<open>reserve_workflow_terminal\<close>, \<open>confirm_workflow_artifact\<close>,
    \<open>confirm_workflow_terminal\<close>, \<open>authenticate_workflow_artifact\<close>; \<open>publish_terminal\<close> is the order of
    calls of \<open>WorkflowOutcomeService.publish\<close>.
  \<^item> StoreReplay, StoreSafety, StoreRetry, StoreProgress, StoreOperations, TerminalPublication, StoreRuns:
    what the replay makes of the rows; what a successful call can change; that it may be repeated; when
    each operation succeeds; the publication as a whole and its continuation; sequences of calls.
    StoreSamples is a concrete run for the witnesses; WorkflowProperties states the properties.
  \<^item> ContextDomain, ContextLeaves, ContextParts, ContextDocuments, ContextQueries, ContextReports,
    ContextArtifacts: the records of \<open>domain/context.py\<close> and the parsers of the eight artifact types of
    \<open>context_contracts.py\<close>, with authorities, identities, size limits and \<open>revalidate\<close>, which is what
    every service does with the artifacts it is given.
  \<^item> ContextIndex: \<open>ContextIndexer.build\<close>.  ContextSelection, ContextSelector: \<open>ContextSelector.select\<close>
    with eligibility, contradiction closure, traversal, rankings and filling.  ContextSnapshots:
    \<open>ContextSnapshotService.build\<close> and \<open>compare_context_snapshots\<close>.  ContextCompactions:
    \<open>ContextCompactor.compact\<close> and \<open>measure_context_quality\<close>.
  \<^item> SelectionFacts, SelectionFilling, SelectionCosts, SelectionOutcomes, TraversalDistances: what a
    selection contains, costs and fails with, and the distances of the traversal.  IndexOutcomes,
    SnapshotFacts, SnapshotOutcomes, CompactionOutcomes, QualityOutcomes: what a graph, a snapshot, a
    compaction and a report contain whenever one is built; IndexBudgets: which sources the total byte limit
    leaves out; SelectionArtifacts: when a selection is too large for an artifact.  ContextSizes bounds the written size of an artifact;
    ContextSamples and ContextPipeline take one specification file through all services for the
    witnesses; ContextProperties states the properties.

  What the properties show.  C1 to C8: a verified solver result is true, the reference adapter is
  sound and complete within its limits, the verifier is total, bounded and agrees with the adapter, and
  nothing external is ever adopted.  C9 to C11: the solver parsers accept exactly the documents of
  well-formed values and read back what they wrote; the theories hold the same of every part of these
  documents; a result is accepted exactly when it fits the profile of its status.  C12 to C18: the graph
  checks decide what they mean to, ranks are longest chains, owned paths are exclusive, and the wait
  report shows a deadlock exactly when there is one; C13 and C18 state how the checks fall short, on every
  graph with a long chain in visiting order and on every graph with a circle of reviews and dependencies.  C19 to C24: the reducer implements
  its automaton, keeps its invariant and chain and ends within a bound.  C25 to C30: the store
  implements the reducer, its calls are idempotent and lose nothing, a pending end excludes other plans,
  an interrupted publication can always be finished, and one misuse of the interface that cannot be undone.
  C31 to C40: a required source reaches the agent unchanged or the service that would lose it fails;
  graphs, selections, snapshots, compactions and reports account for every source and node, stay within
  their budgets and keep contradictions together; the selector fails only for eleven named causes or when
  its exclusions list too many details; the traversal measures shortest distances; context artifacts round
  trip; a host summary stays linked to the snapshot and untrusted.

  Conventions and bounds.  Text is a list of 8-bit characters, the code points below 256: what the code
  does with other characters (their UTF-8 length, the rejection of surrogates) is outside the model.  An exception is an error value, and every raise and every uncaught Python
  error that the code can reach (\<open>KeyError\<close>, \<open>RecursionError\<close>, \<open>AssertionError\<close>) is one.  Integers are
  unbounded as in Python, with the limits of the contracts as hypotheses that the parsers establish; SHA-256
  works on 32-bit words.  The loops of the search and the replay recurse on the list of assignments,
  which the contracts bound by a million.  \<open>visit_task\<close> and \<open>task_rank\<close> take the depth of calls the
  interpreter allows: a depth of the number of tasks is enough for the validation to decide, and the
  rank theorem has the same hypothesis; a nested call of \<open>rank\<close> takes two interpreter frames, since its
  maximum is taken over a generator.  A Python set whose order the code depends on is traversed in the
  order of a parameter \<open>ord\<close>, any function that lists the same elements (\<open>iteration_order\<close>); monotonic
  time is a parameter of the search.  A transaction of SQLite is a function to the new store or an
  error, which leaves the store as it was; the rows are the tables in their order.  The limit of 1 MiB on
  the text of an epoch event belongs to the text layer: an event with receipts enough to reach it is
  refused by the code only.  What the context
  services ask of their ports (observe a source, verify a reference, verify the candidate) is a record
  of functions that take the place of the call beside its arguments, so that two calls with the same
  arguments may answer differently where the code calls twice; an estimator is a function of the content, and the canonical one is modelled.
  Sets are traversed in ascending order there, since the code sorts them wherever the result depends on the
  order.  The contradiction closures and the traversal take no fuel: they are functions with a
  termination proof, since every pass adds an end of an edge and every step meets a node or leaves the queue.

  Not modelled: reading and writing files, the JSON tokenizer (a decoded document is the input), Git
  and process calls, SQL text and connection handling; the file writes and the Git confirmation between the
  calls of a terminal publication, where a failure is an interruption; the part of the scheduler store that assigns
  leases, budgets, mailboxes and worktrees, and its migrations; planning, runtime, recovery and simulation of workflows
  beyond the calls of a terminal publication; the readers of context sources and the publication of
  files, quality gates, tool and agent descriptions, the command line and the scripts.  Each is listed with its reason in the manifest.
\<close>

end
